(* ===== verification/Prelude.thy ===== *)
theory Prelude
  imports Complex_Main
begin

section \<open>Shared vocabulary of the development\<close>

text \<open>
  The exception classes of \<open>app/core/errors.py\<close>, the result-and-state computations every
  service is written in, a locale for the relations such computations respect, and the
  Python string operations the program uses.

  A Python coroutine that may raise and that mutates objects is a function from a state to a
  result and the state it leaves behind. The state survives a raise, as it does in Python.
\<close>

named_theorems em_simps \<open>unfolding rules of the computation combinators\<close>
named_theorems moves_intro \<open>rules that push a step relation through a computation\<close>

subsection \<open>Exceptions\<close>

text \<open>
  One constructor per class of \<open>app/core/errors.py\<close>, then \<open>AuthenticationFailed\<close> of the
  authentication service, FastAPI's \<open>HTTPException\<close>, and the classes of the standard library, of
  SQLAlchemy, of PyJWT, of aiodocker and of the Kubernetes client that the modelled code can run into.
  The payload is what the message interpolates (a reference, an id, a reason tag), not the English
  sentence around it; an error of a container engine carries the status of its response, and
  \<open>DockerContainerError\<close> the id of the container that was created but did not start. The last two are the
  SDK's own: \<open>SdkError\<close> its base class, \<open>SdkAPIError\<close> a refused request, with its class, the status, the
  detail, the method and the URL.
\<close>

datatype api_error =
    APIError
  | BadRequest
  | Authentication
  | PermissionDenied
  | NotFound
  | Conflict
  | QuotaExceeded
  | ProvisionerFailed
  | ServiceUnavailable

datatype exn =
    KubeSandboxError string
  | ManifestValidationError string
  | ComponentNotFoundError string
  | TemplateNotFoundError string
  | EntitlementError string
  | QuotaExceededError string
  | BillingAuthorizationError string
  | ProvisionerError string
  | ExecutionTimeoutError string
  | SandboxNotFoundError string
  | BuildError string
  | BuildNotFoundError string
  | ConfigurationError string
  | SecretNotFoundError string
  | AuthenticationFailed string
  | HTTPException int string
  | ValueError string
  | IndexError string
  | MultipleResultsFound string
  | PyJWTError string
  | DockerError int string
  | DockerContainerError int string string
  | ApiException int string
  | OtherException string
  | SdkError string
  | SdkAPIError api_error int string string string

text \<open>\<open>isinstance(exc, QuotaExceededError)\<close>: the class itself and its one subclass.\<close>

fun is_quota_exceeded :: "exn \<Rightarrow> bool" where
  "is_quota_exceeded (QuotaExceededError _) = True"
| "is_quota_exceeded (BillingAuthorizationError _) = True"
| "is_quota_exceeded _ = False"

text \<open>\<open>isinstance(exc, KubeSandboxError)\<close>: every class of the control plane's own hierarchy (the SDK's is another).\<close>

fun is_kubesandbox_error :: "exn \<Rightarrow> bool" where
  "is_kubesandbox_error (HTTPException _ _) = False"
| "is_kubesandbox_error (ValueError _) = False"
| "is_kubesandbox_error (IndexError _) = False"
| "is_kubesandbox_error (MultipleResultsFound _) = False"
| "is_kubesandbox_error (PyJWTError _) = False"
| "is_kubesandbox_error (DockerError _ _) = False"
| "is_kubesandbox_error (DockerContainerError _ _ _) = False"
| "is_kubesandbox_error (ApiException _ _) = False"
| "is_kubesandbox_error (OtherException _) = False"
| "is_kubesandbox_error (SdkError _) = False"
| "is_kubesandbox_error (SdkAPIError _ _ _ _ _) = False"
| "is_kubesandbox_error _ = True"

fun is_provisioner_error :: "exn \<Rightarrow> bool" where
  "is_provisioner_error (ProvisionerError _) = True"
| "is_provisioner_error _ = False"

text \<open>\<open>isinstance(exc, DockerError)\<close>: the class itself and its subclass for a container.\<close>

fun is_docker_error :: "exn \<Rightarrow> bool" where
  "is_docker_error (DockerError _ _) = True"
| "is_docker_error (DockerContainerError _ _ _) = True"
| "is_docker_error _ = False"

fun is_api_exception :: "exn \<Rightarrow> bool" where
  "is_api_exception (ApiException _ _) = True"
| "is_api_exception _ = False"

text \<open>The status of a refused call, \<open>exc.status\<close>.\<close>

fun error_status :: "exn \<Rightarrow> int" where
  "error_status (DockerError n _) = n"
| "error_status (DockerContainerError n _ _) = n"
| "error_status (ApiException n _) = n"
| "error_status _ = 0"

fun is_component_not_found :: "exn \<Rightarrow> bool" where
  "is_component_not_found (ComponentNotFoundError _) = True"
| "is_component_not_found _ = False"

subsection \<open>Computations\<close>

type_synonym ('s, 'a) em = "'s \<Rightarrow> (exn + 'a) \<times> 's"

definition return_em :: "'a \<Rightarrow> ('s, 'a) em" where
  "return_em x = (\<lambda>s. (Inr x, s))"

definition raise_em :: "exn \<Rightarrow> ('s, 'a) em" where
  "raise_em e = (\<lambda>s. (Inl e, s))"

definition bind_em :: "('s, 'a) em \<Rightarrow> ('a \<Rightarrow> ('s, 'b) em) \<Rightarrow> ('s, 'b) em" where
  "bind_em m f = (\<lambda>s. case m s of (r, t) \<Rightarrow> (case r of Inl e \<Rightarrow> (Inl e, t) | Inr x \<Rightarrow> f x t))"

definition seq_em :: "('s, 'a) em \<Rightarrow> ('s, 'b) em \<Rightarrow> ('s, 'b) em" where
  "seq_em m k = bind_em m (\<lambda>_. k)"

definition gets_em :: "('s \<Rightarrow> 'a) \<Rightarrow> ('s, 'a) em" where
  "gets_em f = (\<lambda>s. (Inr (f s), s))"

definition modify_em :: "('s \<Rightarrow> 's) \<Rightarrow> ('s, unit) em" where
  "modify_em f = (\<lambda>s. (Inr (), f s))"

definition lift_em :: "exn + 'a \<Rightarrow> ('s, 'a) em" where
  "lift_em r = (\<lambda>s. (r, s))"

definition when_em :: "bool \<Rightarrow> ('s, unit) em \<Rightarrow> ('s, unit) em" where
  "when_em b m = (if b then m else return_em ())"

text \<open>
  \<open>try: m except cls as exc: h exc\<close>, where \<open>c\<close> says which exceptions the clause
  catches; and \<open>try: m finally: k\<close>, in which an exception raised by \<open>k\<close> replaces the result.
\<close>

definition catch_em :: "('s, 'a) em \<Rightarrow> (exn \<Rightarrow> bool) \<Rightarrow> (exn \<Rightarrow> ('s, 'a) em) \<Rightarrow> ('s, 'a) em" where
  "catch_em m c h = (\<lambda>s. case m s of (r, t) \<Rightarrow>
     (case r of Inl e \<Rightarrow> (if c e then h e t else (Inl e, t)) | Inr x \<Rightarrow> (Inr x, t)))"

definition finally_em :: "('s, 'a) em \<Rightarrow> ('s, unit) em \<Rightarrow> ('s, 'a) em" where
  "finally_em m k = (\<lambda>s. case m s of (r, t) \<Rightarrow> (case k t of (q, u) \<Rightarrow>
     (case q of Inl e \<Rightarrow> (Inl e, u) | Inr _ \<Rightarrow> (r, u))))"

text \<open>
  \<open>try: m finally: k\<close> where the clean-up sees the result of the body, \<open>None\<close> when it raised.
\<close>

definition finally_with :: "('s, 'a) em \<Rightarrow> ('a option \<Rightarrow> ('s, unit) em) \<Rightarrow> ('s, 'a) em" where
  "finally_with m k = (\<lambda>s. case m s of (r, t) \<Rightarrow>
     (case k (case r of Inl _ \<Rightarrow> None | Inr x \<Rightarrow> Some x) t of (q, u) \<Rightarrow>
        (case q of Inl e \<Rightarrow> (Inl e, u) | Inr _ \<Rightarrow> (r, u))))"

text \<open>\<open>for x in xs: f(x)\<close>, and the comprehension that collects the results.\<close>

fun for_em :: "'a list \<Rightarrow> ('a \<Rightarrow> ('s, unit) em) \<Rightarrow> ('s, unit) em" where
  "for_em [] f = return_em ()"
| "for_em (x # xs) f = bind_em (f x) (\<lambda>_. for_em xs f)"

fun collect_em :: "'a list \<Rightarrow> ('a \<Rightarrow> ('s, 'b) em) \<Rightarrow> ('s, 'b list) em" where
  "collect_em [] f = return_em []"
| "collect_em (x # xs) f = bind_em (f x) (\<lambda>y. bind_em (collect_em xs f) (\<lambda>ys. return_em (y # ys)))"

lemma return_em_run [simp, em_simps]: "return_em x s = (Inr x, s)"
  by (simp add: return_em_def)

lemma raise_em_run [simp, em_simps]: "raise_em e s = (Inl e, s)"
  by (simp add: raise_em_def)

lemma gets_em_run [simp, em_simps]: "gets_em f s = (Inr (f s), s)"
  by (simp add: gets_em_def)

lemma modify_em_run [simp, em_simps]: "modify_em f s = (Inr (), f s)"
  by (simp add: modify_em_def)

lemma lift_em_run [simp, em_simps]: "lift_em r s = (r, s)"
  by (simp add: lift_em_def)

lemma when_em_run [simp, em_simps]: "when_em b m s = (if b then m s else (Inr (), s))"
  by (simp add: when_em_def)

lemma bind_em_run [em_simps]:
  "bind_em m f s = (case m s of (Inl e, t) \<Rightarrow> (Inl e, t) | (Inr x, t) \<Rightarrow> f x t)"
  by (simp add: bind_em_def split: prod.splits sum.splits)

lemma seq_em_run [em_simps]:
  "seq_em m k s = (case m s of (Inl e, t) \<Rightarrow> (Inl e, t) | (Inr x, t) \<Rightarrow> k t)"
  by (simp add: seq_em_def bind_em_run)

lemma catch_em_run [em_simps]:
  "catch_em m c h s = (case m s of (Inl e, t) \<Rightarrow> (if c e then h e t else (Inl e, t)) | (Inr x, t) \<Rightarrow> (Inr x, t))"
  by (simp add: catch_em_def split: prod.splits sum.splits)

lemma finally_em_run [em_simps]:
  "finally_em m k s = (case m s of (r, t) \<Rightarrow>
     (case k t of (Inl e, u) \<Rightarrow> (Inl e, u) | (Inr _, u) \<Rightarrow> (r, u)))"
  by (simp add: finally_em_def split: prod.splits sum.splits)

text \<open>Step rules: how a combinator runs once its first part is known.\<close>

lemma bind_em_Inr: "m s = (Inr x, t) \<Longrightarrow> bind_em m f s = f x t"
  by (simp add: bind_em_run)

lemma bind_em_Inl: "m s = (Inl e, t) \<Longrightarrow> bind_em m f s = (Inl e, t)"
  by (simp add: bind_em_run)

lemma bind_em_Inr_iff:
  "bind_em m f s = (Inr y, u) \<longleftrightarrow> (\<exists>x t. m s = (Inr x, t) \<and> f x t = (Inr y, u))"
  by (auto simp: bind_em_run split: prod.splits sum.splits)

lemma bind_em_Inl_iff:
  "bind_em m f s = (Inl e, u) \<longleftrightarrow>
     m s = (Inl e, u) \<or> (\<exists>x t. m s = (Inr x, t) \<and> f x t = (Inl e, u))"
  by (auto simp: bind_em_run split: prod.splits sum.splits)

lemma seq_em_Inr_iff:
  "seq_em m k s = (Inr y, u) \<longleftrightarrow> (\<exists>x t. m s = (Inr x, t) \<and> k t = (Inr y, u))"
  by (simp add: seq_em_def bind_em_Inr_iff)

lemma return_em_Inr_iff: "return_em x s = (Inr y, u) \<longleftrightarrow> y = x \<and> u = s"
  by auto

lemmas em_Inr_iff = bind_em_Inr_iff seq_em_Inr_iff return_em_Inr_iff

subsection \<open>Relations respected by computations\<close>

text \<open>
  \<open>moves R m\<close>: whatever the computation returns or raises, the state it leaves is related to
  the state it started from. For a reflexive and transitive \<open>R\<close> this is compositional, which is
  how every invariant and every frame property of the services is proved.
\<close>

definition moves :: "('s \<Rightarrow> 's \<Rightarrow> bool) \<Rightarrow> ('s, 'a) em \<Rightarrow> bool" where
  "moves R m \<longleftrightarrow> (\<forall>s. R s (snd (m s)))"

lemma movesD: "moves R m \<Longrightarrow> R s (snd (m s))"
  by (simp add: moves_def)

lemma movesD': "moves R m \<Longrightarrow> m s = (r, t) \<Longrightarrow> R s t"
  by (metis movesD snd_conv)

lemma movesI: "(\<And>s r t. m s = (r, t) \<Longrightarrow> R s t) \<Longrightarrow> moves R m"
  by (metis moves_def prod.collapse)

locale frame_relation =
  fixes R :: "'s \<Rightarrow> 's \<Rightarrow> bool"
  assumes refl_rel: "R s s"
    and trans_rel: "R s t \<Longrightarrow> R t u \<Longrightarrow> R s u"
begin

lemma return_moves: "moves R (return_em x)"
  by (simp add: moves_def refl_rel)

lemma raise_moves: "moves R (raise_em e)"
  by (simp add: moves_def refl_rel)

lemma gets_moves: "moves R (gets_em f)"
  by (simp add: moves_def refl_rel)

lemma lift_moves: "moves R (lift_em r)"
  by (simp add: moves_def refl_rel)

lemma modify_moves: "(\<And>s. R s (f s)) \<Longrightarrow> moves R (modify_em f)"
  by (simp add: moves_def)

lemma bind_moves: "moves R m \<Longrightarrow> (\<And>x. moves R (f x)) \<Longrightarrow> moves R (bind_em m f)"
  by (auto simp: moves_def bind_em_run split: prod.splits sum.splits intro: trans_rel)
    (metis snd_conv trans_rel)+

lemma seq_moves: "moves R m \<Longrightarrow> moves R k \<Longrightarrow> moves R (seq_em m k)"
  by (simp add: seq_em_def bind_moves)

lemma when_moves: "(b \<Longrightarrow> moves R m) \<Longrightarrow> moves R (when_em b m)"
  by (simp add: when_em_def return_moves)

lemma catch_moves: "moves R m \<Longrightarrow> (\<And>e. moves R (h e)) \<Longrightarrow> moves R (catch_em m c h)"
  by (rule movesI) (auto simp: catch_em_run split: prod.splits sum.splits if_splits
      dest: movesD' intro: trans_rel)

lemma finally_moves: "moves R m \<Longrightarrow> moves R k \<Longrightarrow> moves R (finally_em m k)"
  by (rule movesI) (auto simp: finally_em_run split: prod.splits sum.splits
      dest: movesD' intro: trans_rel)

lemma finally_with_moves: "moves R m \<Longrightarrow> (\<And>x. moves R (k x)) \<Longrightarrow> moves R (finally_with m k)"
  by (rule movesI) (auto simp: finally_with_def split: prod.splits sum.splits
      dest: movesD' intro: trans_rel)

lemma prod_moves: "(\<And>a b. moves R (f a b)) \<Longrightarrow> moves R (case p of (a, b) \<Rightarrow> f a b)"
  by (simp split: prod.split)

lemma for_moves: "(\<And>x. x \<in> set xs \<Longrightarrow> moves R (f x)) \<Longrightarrow> moves R (for_em xs f)"
  by (induction xs) (auto intro: return_moves bind_moves)

lemma collect_moves: "(\<And>x. x \<in> set xs \<Longrightarrow> moves R (f x)) \<Longrightarrow> moves R (collect_em xs f)"
  by (induction xs) (auto intro: return_moves bind_moves)

lemma if_moves: "(b \<Longrightarrow> moves R m) \<Longrightarrow> (\<not> b \<Longrightarrow> moves R k) \<Longrightarrow> moves R (if b then m else k)"
  by simp

lemma option_moves:
  "moves R m \<Longrightarrow> (\<And>x. moves R (f x)) \<Longrightarrow> moves R (case o' of None \<Rightarrow> m | Some x \<Rightarrow> f x)"
  by (simp split: option.split)

lemma sum_moves:
  "(\<And>e. moves R (h e)) \<Longrightarrow> (\<And>x. moves R (f x)) \<Longrightarrow> moves R (case r of Inl e \<Rightarrow> h e | Inr x \<Rightarrow> f x)"
  by (simp split: sum.split)

lemma list_moves:
  "moves R m \<Longrightarrow> (\<And>x xs. moves R (f x xs)) \<Longrightarrow> moves R (case l of [] \<Rightarrow> m | x # xs \<Rightarrow> f x xs)"
  by (simp split: list.split)

lemmas all_moves = return_moves raise_moves gets_moves lift_moves bind_moves seq_moves when_moves
  catch_moves finally_moves for_moves collect_moves if_moves option_moves sum_moves list_moves
  prod_moves finally_with_moves

end

text \<open>
  The two shapes the development uses: an invariant is kept, and a component of the state is
  left alone.
\<close>

abbreviation keeps :: "('s \<Rightarrow> bool) \<Rightarrow> ('s, 'a) em \<Rightarrow> bool" where
  "keeps I \<equiv> moves (\<lambda>s t. I s \<longrightarrow> I t)"

abbreviation leaves :: "('s \<Rightarrow> 'c) \<Rightarrow> ('s, 'a) em \<Rightarrow> bool" where
  "leaves f \<equiv> moves (\<lambda>s t. f t = f s)"

interpretation keep: frame_relation "\<lambda>s t. I s \<longrightarrow> I t" for I :: "'s \<Rightarrow> bool"
  by unfold_locales auto

interpretation leave: frame_relation "\<lambda>s t. f t = f s" for f :: "'s \<Rightarrow> 'c"
  by unfold_locales auto

declare keep.all_moves [moves_intro]
declare leave.all_moves [moves_intro]

lemma keepsD: "keeps I m \<Longrightarrow> m s = (r, t) \<Longrightarrow> I s \<Longrightarrow> I t"
  by (drule movesD') auto

lemma keeps_snd: "keeps I m \<Longrightarrow> I s \<Longrightarrow> I (snd (m s))"
  by (simp add: moves_def)

lemma leavesD: "leaves f m \<Longrightarrow> m s = (r, t) \<Longrightarrow> f t = f s"
  by (drule movesD') auto

end
