(* ===== verification/PyStrings.thy ===== *)
theory PyStrings
  imports Prelude
begin

section \<open>The Python string and integer operations the program uses\<close>

text \<open>
  \<open>str.split\<close>, \<open>str.partition\<close>, \<open>str.rpartition\<close>, \<open>str.strip\<close>, \<open>str.startswith\<close>,
  \<open>str.endswith\<close>, \<open>int(str)\<close> and \<open>str(int)\<close>. Strings are lists of characters; the strings
  modelled are ASCII (manifest keys, versions, quantities), so a character is a code point.
\<close>

definition startswith :: "string \<Rightarrow> string \<Rightarrow> bool" where
  "startswith s p \<longleftrightarrow> take (length p) s = p"

definition endswith :: "string \<Rightarrow> string \<Rightarrow> bool" where
  "endswith s p \<longleftrightarrow> length p \<le> length s \<and> drop (length s - length p) s = p"

text \<open>\<open>s[:-k]\<close> for a positive \<open>k\<close>.\<close>

definition drop_last :: "nat \<Rightarrow> string \<Rightarrow> string" where
  "drop_last k s = take (length s - k) s"

text \<open>\<open>s.split(c)\<close> and \<open>s.split(c, 2)\<close> for a one-character separator.\<close>

fun split_on :: "char \<Rightarrow> string \<Rightarrow> string list" where
  "split_on c [] = [[]]"
| "split_on c (x # xs) =
     (if x = c then [] # split_on c xs
      else (case split_on c xs of [] \<Rightarrow> [[x]] | p # ps \<Rightarrow> (x # p) # ps))"

fun split_max :: "nat \<Rightarrow> char \<Rightarrow> string \<Rightarrow> string list" where
  "split_max 0 c s = [s]"
| "split_max (Suc n) c s =
     (if c \<in> set s then takeWhile (\<lambda>x. x \<noteq> c) s # split_max n c (drop 1 (dropWhile (\<lambda>x. x \<noteq> c) s))
      else [s])"

text \<open>\<open>s.partition(c)\<close>: the text before the first \<open>c\<close>, whether there is one, and the rest.\<close>

definition py_partition :: "char \<Rightarrow> string \<Rightarrow> string \<times> bool \<times> string" where
  "py_partition c s =
     (if c \<in> set s then (takeWhile (\<lambda>x. x \<noteq> c) s, True, drop 1 (dropWhile (\<lambda>x. x \<noteq> c) s))
      else (s, False, []))"

text \<open>\<open>s.rpartition(c)\<close>: split at the last \<open>c\<close>; without one everything is in the third part.\<close>

definition py_rpartition :: "char \<Rightarrow> string \<Rightarrow> string \<times> bool \<times> string" where
  "py_rpartition c s =
     (if c \<in> set s
      then (rev (drop 1 (dropWhile (\<lambda>x. x \<noteq> c) (rev s))), True, rev (takeWhile (\<lambda>x. x \<noteq> c) (rev s)))
      else ([], False, s))"

text \<open>\<open>s.rsplit(c, 1)[0]\<close>: what precedes the last \<open>c\<close>, or all of \<open>s\<close>.\<close>

definition rsplit1_head :: "char \<Rightarrow> string \<Rightarrow> string" where
  "rsplit1_head c s = (if c \<in> set s then rev (drop 1 (dropWhile (\<lambda>x. x \<noteq> c) (rev s))) else s)"

definition is_py_space :: "char \<Rightarrow> bool" where
  "is_py_space c \<longleftrightarrow> c \<in> set [CHR '' '', CHR 0x09, CHR 0x0A, CHR 0x0B, CHR 0x0C, CHR 0x0D]"

definition py_strip :: "string \<Rightarrow> string" where
  "py_strip s = rev (dropWhile is_py_space (rev (dropWhile is_py_space s)))"

text \<open>\<open>s.lower()\<close> and \<open>s.casefold()\<close> on ASCII; bytes of other characters stay as they are.\<close>

definition lower_char :: "char \<Rightarrow> char" where
  "lower_char c =
     (case map_of (zip ''ABCDEFGHIJKLMNOPQRSTUVWXYZ'' ''abcdefghijklmnopqrstuvwxyz'') c of Some d \<Rightarrow> d | None \<Rightarrow> c)"

definition py_lower :: "string \<Rightarrow> string" where
  "py_lower s = map lower_char s"

lemma startswith_append [simp]: "startswith (p @ s) p"
  by (simp add: startswith_def)

lemma endswith_append [simp]: "endswith (s @ p) p"
  by (simp add: endswith_def)

lemma drop_last_append [simp]: "length p = k \<Longrightarrow> drop_last k (s @ p) = s"
  by (simp add: drop_last_def)

lemma dropWhile_append_all: "\<forall>x\<in>set xs. P x \<Longrightarrow> dropWhile P (xs @ ys) = dropWhile P ys"
  by (induction xs) auto

lemma takeWhile_append_all: "\<forall>x\<in>set xs. P x \<Longrightarrow> takeWhile P (xs @ ys) = xs @ takeWhile P ys"
  by (induction xs) auto

lemma py_rpartition_append:
  assumes "c \<notin> set v"
  shows "py_rpartition c (n @ c # v) = (n, True, v)"
proof -
  have "\<forall>x\<in>set (rev v). x \<noteq> c" using assms by auto
  then show ?thesis
    by (simp add: py_rpartition_def dropWhile_append_all takeWhile_append_all)
qed

lemma rsplit1_head_append:
  assumes "c \<notin> set v"
  shows "rsplit1_head c (n @ c # v) = n"
proof -
  have "\<forall>x\<in>set (rev v). x \<noteq> c" using assms by auto
  then show ?thesis by (simp add: rsplit1_head_def dropWhile_append_all)
qed

lemma rsplit1_head_none: "c \<notin> set s \<Longrightarrow> rsplit1_head c s = s"
  by (simp add: rsplit1_head_def)

lemma split_max_found:
  assumes "c \<notin> set p"
  shows "split_max (Suc n) c (p @ c # s) = p # split_max n c s"
proof -
  have "\<forall>x\<in>set p. x \<noteq> c" using assms by auto
  then show ?thesis by (simp add: dropWhile_append_all takeWhile_append_all)
qed

lemma py_strip_id:
  assumes "s \<noteq> []" "\<not> is_py_space (hd s)" "\<not> is_py_space (last s)"
  shows "py_strip s = s"
proof -
  from assms(1,2) have "dropWhile is_py_space s = s" by (cases s) auto
  moreover from assms(1,3) have "dropWhile is_py_space (rev s) = rev s"
    by (cases s rule: rev_cases) auto
  ultimately show ?thesis by (simp add: py_strip_def)
qed

subsection \<open>Decimal integers\<close>

definition chr_digit :: "char \<Rightarrow> int option" where
  "chr_digit c = map_of [(CHR ''0'', 0), (CHR ''1'', 1), (CHR ''2'', 2), (CHR ''3'', 3),
     (CHR ''4'', 4), (CHR ''5'', 5), (CHR ''6'', 6), (CHR ''7'', 7), (CHR ''8'', 8), (CHR ''9'', 9)] c"

definition digit_chr :: "nat \<Rightarrow> char" where
  "digit_chr d = ''0123456789'' ! d"

definition is_digit :: "char \<Rightarrow> bool" where
  "is_digit c \<longleftrightarrow> chr_digit c \<noteq> None"

text \<open>
  \<open>int(s)\<close>: surrounding blanks, an optional sign, then decimal digits in which a single
  underscore may separate two digits. Anything else is a ValueError.
\<close>

fun digits_int :: "int \<Rightarrow> string \<Rightarrow> int option" where
  "digits_int acc [] = Some acc"
| "digits_int acc (c # cs) =
     (case chr_digit c of
        Some d \<Rightarrow> digits_int (10 * acc + d) cs
      | None \<Rightarrow> (if c = CHR ''_'' \<and> cs \<noteq> [] \<and> is_digit (hd cs) then digits_int acc cs else None))"

definition unsigned_int :: "string \<Rightarrow> int option" where
  "unsigned_int s = (if s \<noteq> [] \<and> is_digit (hd s) then digits_int 0 s else None)"

definition py_int :: "string \<Rightarrow> exn + int" where
  "py_int s =
     (let b = py_strip s;
          r = (case b of
                 [] \<Rightarrow> None
               | c # cs \<Rightarrow> (if c = CHR ''-'' then map_option uminus (unsigned_int cs)
                            else if c = CHR ''+'' then unsigned_int cs
                            else unsigned_int b))
      in (case r of None \<Rightarrow> Inl (ValueError s) | Some n \<Rightarrow> Inr n))"

fun nat_str :: "nat \<Rightarrow> string" where
  "nat_str n = (if n < 10 then [digit_chr n] else nat_str (n div 10) @ [digit_chr (n mod 10)])"

declare nat_str.simps [simp del]

definition int_str :: "int \<Rightarrow> string" where
  "int_str n = (if n < 0 then CHR ''-'' # nat_str (nat (- n)) else nat_str (nat n))"

lemma digit_cases: "d < 10 \<Longrightarrow> d \<in> {0, 1, 2, 3, 4, 5, 6, 7, 8, 9::nat}"
  by (auto simp: numeral_eq_Suc less_Suc_eq)

lemma chr_digit_chr: "d < 10 \<Longrightarrow> chr_digit (digit_chr d) = Some (int d)"
proof -
  have "list_all (\<lambda>d. chr_digit (digit_chr d) = Some (int d)) [0, 1, 2, 3, 4, 5, 6, 7, 8, 9]"
    by code_simp
  then have "\<forall>e\<in>{0, 1, 2, 3, 4, 5, 6, 7, 8, 9}. chr_digit (digit_chr e) = Some (int e)"
    by (simp add: list_all_iff del: One_nat_def)
  then show "d < 10 \<Longrightarrow> chr_digit (digit_chr d) = Some (int d)"
    using digit_cases [of d] by blast
qed

lemma digit_chr_props:
  assumes "d < 10"
  shows "is_digit (digit_chr d) \<and> digit_chr d \<noteq> CHR ''-'' \<and> digit_chr d \<noteq> CHR ''+''
     \<and> \<not> is_py_space (digit_chr d) \<and> digit_chr d \<noteq> CHR ''m'' \<and> digit_chr d \<noteq> CHR ''i''"
proof -
  let ?P = "\<lambda>d. is_digit (digit_chr d) \<and> digit_chr d \<noteq> CHR ''-'' \<and> digit_chr d \<noteq> CHR ''+''
     \<and> \<not> is_py_space (digit_chr d) \<and> digit_chr d \<noteq> CHR ''m'' \<and> digit_chr d \<noteq> CHR ''i''"
  have "list_all ?P [0, 1, 2, 3, 4, 5, 6, 7, 8, 9]"
    by code_simp
  then have "\<forall>e\<in>{0, 1, 2, 3, 4, 5, 6, 7, 8, 9}. ?P e"
    by (simp add: list_all_iff del: One_nat_def)
  then show ?thesis using digit_cases [OF assms] by blast
qed

lemma nat_str_nonempty [simp]: "nat_str n \<noteq> []"
  by (subst nat_str.simps) simp

lemma nat_str_chars: "\<forall>c\<in>set (nat_str n). \<exists>d<10. c = digit_chr d"
proof (induction n rule: nat_str.induct)
  case (1 n)
  show ?case
  proof (cases "n < 10")
    case True
    then show ?thesis by (subst nat_str.simps) auto
  next
    case False
    with 1 have "\<forall>c\<in>set (nat_str (n div 10)). \<exists>d<10. c = digit_chr d" by simp
    moreover have "\<exists>d<10. digit_chr (n mod 10) = digit_chr d"
      by (rule exI [of _ "n mod 10"]) simp
    ultimately show ?thesis using False by (subst nat_str.simps) auto
  qed
qed

lemma nat_str_char: "c \<in> set (nat_str n) \<Longrightarrow>
  is_digit c \<and> c \<noteq> CHR ''-'' \<and> c \<noteq> CHR ''+'' \<and> \<not> is_py_space c \<and> c \<noteq> CHR ''m'' \<and> c \<noteq> CHR ''i''"
proof -
  assume "c \<in> set (nat_str n)"
  then obtain d where "d < 10" "c = digit_chr d" using nat_str_chars by meson
  then show ?thesis using digit_chr_props [of d] by simp
qed

lemma digits_int_append:
  "\<forall>c\<in>set s. is_digit c \<Longrightarrow>
     digits_int acc (s @ t) = (case digits_int acc s of None \<Rightarrow> None | Some a \<Rightarrow> digits_int a t)"
proof (induction s arbitrary: acc)
  case (Cons c s)
  then obtain d where "chr_digit c = Some d" by (auto simp: is_digit_def)
  with Cons show ?case by simp
qed simp

lemma digits_int_nat_str: "digits_int 0 (nat_str n) = Some (int n)"
proof (induction n rule: nat_str.induct)
  case (1 n)
  show ?case
  proof (cases "n < 10")
    case True
    then show ?thesis by (subst nat_str.simps) (simp add: chr_digit_chr)
  next
    case False
    have digs: "\<forall>c\<in>set (nat_str (n div 10)). is_digit c" using nat_str_char by blast
    have "digits_int 0 (nat_str (n div 10)) = Some (int (n div 10))" using 1 False by simp
    then have "digits_int 0 (nat_str n) = Some (10 * int (n div 10) + int (n mod 10))"
      using False digs
      by (subst nat_str.simps) (simp add: digits_int_append chr_digit_chr)
    also have "10 * int (n div 10) + int (n mod 10) = int n" by presburger
    finally show ?thesis .
  qed
qed

lemma unsigned_int_nat_str: "unsigned_int (nat_str n) = Some (int n)"
proof -
  have "hd (nat_str n) \<in> set (nat_str n)" by simp
  then have "is_digit (hd (nat_str n))" using nat_str_char by blast
  then show ?thesis by (simp add: unsigned_int_def digits_int_nat_str)
qed

lemma py_strip_nat_str: "py_strip (nat_str n) = nat_str n"
  using nat_str_char [of "hd (nat_str n)" n] nat_str_char [of "last (nat_str n)" n]
  by (intro py_strip_id) simp_all

lemma py_strip_int_str: "py_strip (int_str n) = int_str n"
proof (cases "n < 0")
  case True
  have "\<not> is_py_space (last (nat_str k))" for k
    using nat_str_char [of "last (nat_str k)" k] by simp
  with True show ?thesis by (intro py_strip_id) (auto simp: int_str_def is_py_space_def)
qed (simp add: int_str_def py_strip_nat_str)

text \<open>\<open>int(str(n)) == n\<close>.\<close>

lemma py_int_int_str [simp]: "py_int (int_str n) = Inr n"
proof (cases "n < 0")
  case True
  then have "py_strip (int_str n) = CHR ''-'' # nat_str (nat (- n))"
    by (simp add: py_strip_int_str) (simp add: int_str_def)
  with True show ?thesis by (simp add: py_int_def unsigned_int_nat_str)
next
  case False
  obtain c cs where s: "nat_str (nat n) = c # cs" by (cases "nat_str (nat n)") auto
  then have "c \<noteq> CHR ''-'' \<and> c \<noteq> CHR ''+''" using nat_str_char [of c "nat n"] by simp
  with False s show ?thesis
    using unsigned_int_nat_str [of "nat n"] py_strip_nat_str [of "nat n"]
    by (simp add: py_int_def int_str_def)
qed

lemma int_str_nonempty [simp]: "int_str n \<noteq> []"
  by (simp add: int_str_def)

lemma int_str_char: "c \<in> set (int_str n) \<Longrightarrow> \<not> is_py_space c \<and> c \<noteq> CHR ''m'' \<and> c \<noteq> CHR ''i''"
  by (auto simp: int_str_def is_py_space_def dest: nat_str_char split: if_splits)

lemma last_int_str: "last (int_str n) \<noteq> CHR ''m'' \<and> last (int_str n) \<noteq> CHR ''i'' \<and> \<not> is_py_space (last (int_str n))"
  using int_str_char [of "last (int_str n)" n] by simp

lemma hd_int_str: "\<not> is_py_space (hd (int_str n))"
  using int_str_char [of "hd (int_str n)" n] by simp

end
