(* ===== verification/Manifests.thy ===== *)
theory Manifests
  imports PyStrings
begin

section \<open>Manifests and execution-time values\<close>

text \<open>
  The declared side (\<open>app/domain/manifests.py\<close>: components and sandbox templates) and the resolved
  side (\<open>app/domain/execution.py\<close>: sandbox specs, handles, batch commands and results), and the
  caller's identity (\<open>app/domain/auth.py\<close>). A pydantic model is a record, a \<open>Literal\<close> or
  \<open>StrEnum\<close> a datatype with the function that gives its string value, a Python dict an association
  list in insertion order. Fields with a single legal value (\<open>apiVersion\<close>, \<open>kind\<close>) are left out.
\<close>

datatype json =
    JNull
  | JBool bool
  | JInt int
  | JFloat rat
  | JString string
  | JList "json list"
  | JObject "(string \<times> json) list"

text \<open>\<open>bool(value)\<close>, and \<open>d.get(key)\<close> on a value that may not be a dict (then \<open>AttributeError\<close>).\<close>

fun py_truthy :: "json \<Rightarrow> bool" where
  "py_truthy JNull = False"
| "py_truthy (JBool b) = b"
| "py_truthy (JInt n) = (n \<noteq> 0)"
| "py_truthy (JFloat q) = (q \<noteq> 0)"
| "py_truthy (JString s) = (s \<noteq> [])"
| "py_truthy (JList xs) = (xs \<noteq> [])"
| "py_truthy (JObject kvs) = (kvs \<noteq> [])"

fun json_get :: "json \<Rightarrow> string \<Rightarrow> exn + json option" where
  "json_get (JObject kvs) k = Inr (map_of kvs k)"
| "json_get _ k = Inl (OtherException ''AttributeError'')"

datatype category = Language | Database | Tool | Service | BaseCategory | BuildStrategyCategory

fun category_value :: "category \<Rightarrow> string" where
  "category_value Language = ''language''"
| "category_value Database = ''database''"
| "category_value Tool = ''tool''"
| "category_value Service = ''service''"
| "category_value BaseCategory = ''base''"
| "category_value BuildStrategyCategory = ''build-strategy''"

datatype source_type = ImageSource | DockerfileSource | ComposeSource | PipelineSource | HelmSource

fun source_type_value :: "source_type \<Rightarrow> string" where
  "source_type_value ImageSource = ''image''"
| "source_type_value DockerfileSource = ''dockerfile''"
| "source_type_value ComposeSource = ''compose''"
| "source_type_value PipelineSource = ''pipeline''"
| "source_type_value HelmSource = ''helm''"

datatype runtime_kind = MainTool | Sidecar | Init | Ephemeral

datatype weight_class = Light | Standard | Heavy

fun weight_class_value :: "weight_class \<Rightarrow> string" where
  "weight_class_value Light = ''light''"
| "weight_class_value Standard = ''standard''"
| "weight_class_value Heavy = ''heavy''"

datatype environment = Local | AksProd

subsection \<open>Component manifests\<close>

record image_source =
  img_repository :: string
  img_tag :: string

record dockerfile_source =
  df_context :: "string option"
  df_path :: "string option"

record pipeline_step =
  step_name :: string
  step_run :: string

record pipeline_source =
  pl_steps :: "pipeline_step list"
  pl_cache_key :: "string option"

record helm_source =
  hl_chart :: "string option"
  hl_values :: "json option"

record component_source =
  src_type :: source_type
  src_image :: "image_source option"
  src_dockerfile :: "dockerfile_source option"
  src_compose_file :: "string option"
  src_pipeline :: "pipeline_source option"
  src_helm :: "helm_source option"

record batch_runner_spec =
  brs_entrypoint :: string
  brs_supportsVariableDump :: bool

record service_spec =
  svc_protocol :: string
  svc_port :: int
  svc_dsnEnv :: "string option"

record component_provides =
  pv_languageId :: "string option"
  pv_commands :: "string list"
  pv_fileExtensions :: "string list"
  pv_versionCommand :: "string option"
  pv_defaultRun :: "string option"
  pv_batchRunner :: "batch_runner_spec option"
  pv_service :: "service_spec option"

record resource_quantities =
  rq_cpu :: string
  rq_memory :: string

record component_runtime =
  rt_kind :: runtime_kind
  rt_weightClass :: weight_class
  rt_requests :: resource_quantities
  rt_limits :: resource_quantities
  rt_env :: "(string \<times> string) list"
  rt_volumeMounts :: "(string \<times> string) list"
  rt_ports :: "(string \<times> int) list"
  rt_healthCheck :: "string list option"
  rt_uid :: "int option"

datatype egress = IntentOnly | Denied

record network_access =
  na_egress :: egress
  na_reason :: "string option"
  na_same_pod_only :: bool

record package_install =
  pin_enabled :: bool
  pin_from_mirror :: bool
  pin_mirror :: "string option"
  pin_denylist :: "string list"
  pin_allowlist :: "string list"

record package_access =
  pk_manager :: "string option"
  pk_install :: "package_install option"

record filesystem_access =
  fs_workdir :: string
  fs_writablePaths :: "string list"
  fs_readOnlyRootFilesystem :: bool

record execution_limits_spec =
  lim_processes :: int
  lim_outputBytes :: int
  lim_wallClockSeconds :: int

record database_access_limits =
  dal_maxConnections :: "int option"
  dal_statementTimeout :: "string option"
  dal_maxDbSizeMB :: "int option"

record database_access =
  db_role :: "string option"
  db_grants :: "string list"
  db_forbidden :: "string list"
  db_adminPasswordEnv :: "string option"
  db_limits :: "database_access_limits option"

record component_access =
  ac_network :: network_access
  ac_packages :: "package_access option"
  ac_filesystem :: filesystem_access
  ac_limits :: execution_limits_spec
  ac_database :: "database_access option"

record compatibility_spec =
  cp_environments :: "environment list"
  cp_runtimeClass :: "(string \<times> string) list"

record component_spec =
  cs_source :: component_source
  cs_provides :: component_provides
  cs_runtime :: component_runtime
  cs_access :: component_access
  cs_requires :: "string list"
  cs_hooks :: "string option"
  cs_compatibility :: compatibility_spec

record component_metadata =
  md_name :: string
  md_version :: string
  md_category :: category
  md_displayName :: "string option"
  md_description :: "string option"

record component =
  c_metadata :: component_metadata
  c_spec :: component_spec

text \<open>\<open>Component.key\<close>: the bare \<open>name@version\<close>.\<close>

definition component_key :: "component \<Rightarrow> string" where
  "component_key c = md_name (c_metadata c) @ ''@'' @ md_version (c_metadata c)"

subsection \<open>Sandbox templates\<close>

record template_resources =
  tr_cpu :: string
  tr_memory :: string
  tr_ephemeralStorageMB :: "int option"

record ttl_spec =
  ttl_idle :: string
  ttl_max :: string

record workspace_spec =
  wk_persistent :: bool
  wk_sizeMB :: "int option"

record sandbox_template_spec =
  ts_base :: string
  ts_components :: "string list"
  ts_weightClass :: "weight_class option"
  ts_workspace :: "workspace_spec option"
  ts_resources :: template_resources
  ts_ttl :: ttl_spec
  ts_overrides :: "(string \<times> json) list"

record template_metadata =
  tm_name :: string
  tm_version :: string
  tm_displayName :: "string option"
  tm_description :: "string option"

record sandbox_template =
  t_metadata :: template_metadata
  t_spec :: sandbox_template_spec

definition template_key :: "sandbox_template \<Rightarrow> string" where
  "template_key t = tm_name (t_metadata t) @ ''@'' @ tm_version (t_metadata t)"

subsection \<open>Resolved execution values\<close>

datatype sandbox_state = Pending | Provisioning | Ready | Active | Idle | Terminating | Terminated | Failed

record resource_spec =
  res_cpu :: string
  res_memory :: string
  res_ephemeral_storage_mb :: "int option"

record sidecar_spec =
  sc_name :: string
  sc_image :: string
  sc_env :: "(string \<times> string) list"
  sc_resources :: resource_spec
  sc_ports :: "(string \<times> int) list"
  sc_writable_paths :: "string list"
  sc_health_check :: "string list option"
  sc_uid :: int
  sc_max_processes :: int

record sandbox_spec =
  sp_image :: string
  sp_command :: "string list"
  sp_env :: "(string \<times> string) list"
  sp_workdir :: string
  sp_writable_paths :: "string list"
  sp_read_only_root_filesystem :: bool
  sp_resources :: resource_spec
  sp_weight_class :: weight_class
  sp_wall_clock_seconds :: int
  sp_max_output_bytes :: int
  sp_max_processes :: int
  sp_labels :: "(string \<times> string) list"
  sp_sidecars :: "sidecar_spec list"
  sp_workspace_id :: "string option"
  sp_workspace_size_mb :: "int option"
  sp_node_selector :: "(string \<times> string) list"
  sp_tolerations :: "(string \<times> string) list list"

text \<open>The defaults of \<open>SandboxSpec\<close>, for the fields a construction leaves out.\<close>

definition default_sandbox_spec :: "string \<Rightarrow> string list \<Rightarrow> resource_spec \<Rightarrow> sandbox_spec" where
  "default_sandbox_spec img cmd resources =
     \<lparr>sp_image = img, sp_command = cmd, sp_env = [], sp_workdir = ''/workspace'',
      sp_writable_paths = [''/workspace'', ''/tmp''], sp_read_only_root_filesystem = True,
      sp_resources = resources, sp_weight_class = Light, sp_wall_clock_seconds = 60,
      sp_max_output_bytes = 5000000, sp_max_processes = 128, sp_labels = [], sp_sidecars = [],
      sp_workspace_id = None, sp_workspace_size_mb = None, sp_node_selector = [], sp_tolerations = []\<rparr>"

record sandbox_handle =
  h_sandbox_id :: string
  h_backend :: string
  h_native_ref :: string
  h_created_at :: int
  h_sidecar_refs :: "(string \<times> string) list"
  h_persistent :: bool

record native_sandbox_ref =
  nr_sandbox_id :: string
  nr_native_ref :: string
  nr_created_at :: int
  nr_sidecar_refs :: "(string \<times> string) list"

record batch_command =
  bc_command :: "string list"
  bc_stdin :: string
  bc_files :: "(string \<times> string) list"
  bc_timeout_seconds :: int
  bc_max_output_bytes :: int
  bc_capture_variables :: bool

record batch_run_result =
  br_run_id :: string
  br_exit_code :: int
  br_stdout :: string
  br_stderr :: string
  br_duration_ms :: int
  br_truncated :: bool
  br_timed_out :: bool
  br_variables :: "json option"

subsection \<open>Identity\<close>

record principal =
  pr_tenant_id :: string
  pr_user_id :: "string option"
  pr_role :: string

subsection \<open>Constructors for concrete manifests\<close>

text \<open>A language component that runs a pre-built image, for the closed instances of the theorems.\<close>

definition language_component :: "string \<Rightarrow> string \<Rightarrow> component" where
  "language_component n v =
     \<lparr>c_metadata = \<lparr>md_name = n, md_version = v, md_category = Language, md_displayName = None, md_description = None\<rparr>,
      c_spec = \<lparr>
        cs_source = \<lparr>src_type = ImageSource, src_image = Some \<lparr>img_repository = n, img_tag = v\<rparr>,
          src_dockerfile = None, src_compose_file = None, src_pipeline = None, src_helm = None\<rparr>,
        cs_provides = \<lparr>pv_languageId = Some n, pv_commands = [n], pv_fileExtensions = [''.src''],
          pv_versionCommand = None, pv_defaultRun = None,
          pv_batchRunner = Some \<lparr>brs_entrypoint = ''runner'', brs_supportsVariableDump = True\<rparr>, pv_service = None\<rparr>,
        cs_runtime = \<lparr>rt_kind = MainTool, rt_weightClass = Light,
          rt_requests = \<lparr>rq_cpu = ''100m'', rq_memory = ''128Mi''\<rparr>,
          rt_limits = \<lparr>rq_cpu = ''1'', rq_memory = ''1Gi''\<rparr>,
          rt_env = [], rt_volumeMounts = [], rt_ports = [], rt_healthCheck = None, rt_uid = None\<rparr>,
        cs_access = \<lparr>
          ac_network = \<lparr>na_egress = Denied, na_reason = None, na_same_pod_only = False\<rparr>, ac_packages = None,
          ac_filesystem = \<lparr>fs_workdir = ''/workspace'', fs_writablePaths = [''/workspace''],
            fs_readOnlyRootFilesystem = True\<rparr>,
          ac_limits = \<lparr>lim_processes = 64, lim_outputBytes = 1000000, lim_wallClockSeconds = 30\<rparr>,
          ac_database = None\<rparr>,
        cs_requires = [], cs_hooks = None,
        cs_compatibility = \<lparr>cp_environments = [Local, AksProd], cp_runtimeClass = []\<rparr>\<rparr>\<rparr>"

end
