(* ===== verification/Registry.thy ===== *)
theory Registry
  imports Manifests "HOL-Library.AList" "HOL-Library.List_Lexorder"
begin

section \<open>The component and template registry\<close>

text \<open>
  \<open>app/extensions/loader.py\<close>. The registry is keyed by registry keys: \<open>name@version\<close> for a
  public entry, \<open>tenant/<id>/name@version\<close> for a tenant-private one. A path is the list of its
  parts. JSON-Schema validation and pydantic parsing are third-party code, so the loader takes the
  validator as an argument; the directory listing is the list of (path, document) pairs in sorted
  order.
\<close>

record registry =
  components :: "(string \<times> component) list"
  templates :: "(string \<times> sandbox_template) list"
  component_dirs :: "(string \<times> string list) list"
  built_images :: "(string \<times> string) list"

definition empty_registry :: registry where
  "empty_registry = \<lparr>components = [], templates = [], component_dirs = [], built_images = []\<rparr>"

subsection \<open>Versions\<close>

definition py_isdigit :: "string \<Rightarrow> bool" where
  "py_isdigit s \<longleftrightarrow> s \<noteq> [] \<and> list_all is_digit s"

definition digits_value :: "string \<Rightarrow> int" where
  "digits_value s = (case digits_int 0 s of None \<Rightarrow> 0 | Some n \<Rightarrow> n)"

definition version_sort_key :: "string \<Rightarrow> int list" where
  "version_sort_key version =
     (let core = hd (split_on CHR ''-'' (hd (split_on CHR ''+'' version)))
      in map digits_value (filter py_isdigit (split_on CHR ''.'' core)))"

text \<open>Python's \<open>max(xs, key=f)\<close> on a non-empty list: the first element whose key is maximal.\<close>

fun max_by :: "('a \<Rightarrow> 'k::linorder) \<Rightarrow> 'a \<Rightarrow> 'a list \<Rightarrow> 'a" where
  "max_by f best [] = best"
| "max_by f best (x # xs) = max_by f (if f best < f x then x else best) xs"

subsection \<open>Lookups\<close>

definition resolve_component_image :: "registry \<Rightarrow> component \<Rightarrow> exn + string" where
  "resolve_component_image reg c =
     (let source = cs_source (c_spec c) in
      case (src_type source, src_image source) of
        (ImageSource, Some img) \<Rightarrow> Inr (img_repository img @ '':'' @ img_tag img)
      | _ \<Rightarrow> (case map_of (built_images reg) (component_key c) of
               Some built \<Rightarrow> Inr built
             | None \<Rightarrow> Inl (KubeSandboxError (component_key c))))"

definition get_component :: "registry \<Rightarrow> string \<Rightarrow> string \<Rightarrow> exn + component" where
  "get_component reg name version =
     (let key = name @ ''@'' @ version in
      case map_of (components reg) key of
        Some c \<Rightarrow> Inr c
      | None \<Rightarrow> Inl (ComponentNotFoundError key))"

definition latest_component :: "registry \<Rightarrow> string \<Rightarrow> exn + component" where
  "latest_component reg name =
     (case map snd (filter (\<lambda>(key, c). rsplit1_head CHR ''@'' key = name) (components reg)) of
        [] \<Rightarrow> Inl (ComponentNotFoundError name)
      | c # cs \<Rightarrow> Inr (max_by (\<lambda>d. version_sort_key (md_version (c_metadata d))) c cs))"

definition resolve_component_ref :: "registry \<Rightarrow> string \<Rightarrow> exn + component" where
  "resolve_component_ref reg r =
     (let (name, sep, version) = py_rpartition CHR ''@'' r in
      if \<not> sep \<or> version = [] then Inl (ComponentNotFoundError r)
      else if version = ''latest'' then latest_component reg name
      else get_component reg name version)"

definition get_template :: "registry \<Rightarrow> string \<Rightarrow> string \<Rightarrow> exn + sandbox_template" where
  "get_template reg name version =
     (let key = name @ ''@'' @ version in
      case map_of (templates reg) key of
        Some t \<Rightarrow> Inr t
      | None \<Rightarrow> Inl (TemplateNotFoundError key))"

definition latest_template :: "registry \<Rightarrow> string \<Rightarrow> exn + sandbox_template" where
  "latest_template reg name =
     (case map snd (filter (\<lambda>(key, t). rsplit1_head CHR ''@'' key = name) (templates reg)) of
        [] \<Rightarrow> Inl (TemplateNotFoundError name)
      | t # ts \<Rightarrow> Inr (max_by (\<lambda>u. version_sort_key (tm_version (t_metadata u))) t ts))"

definition resolve_template_ref :: "registry \<Rightarrow> string \<Rightarrow> exn + sandbox_template" where
  "resolve_template_ref reg r =
     (let (name, sep, version) = py_rpartition CHR ''@'' r in
      if \<not> sep \<or> version = [] then Inl (TemplateNotFoundError r)
      else if version = ''latest'' then latest_template reg name
      else get_template reg name version)"

definition list_components :: "registry \<Rightarrow> component list" where
  "list_components reg = map snd (components reg)"

definition list_templates :: "registry \<Rightarrow> sandbox_template list" where
  "list_templates reg = map snd (templates reg)"

subsection \<open>Registry keys and the loader\<close>

definition relative_to :: "string list \<Rightarrow> string list \<Rightarrow> string list option" where
  "relative_to path rootdir =
     (if take (length rootdir) path = rootdir then Some (drop (length rootdir) path) else None)"

definition registry_key_for :: "string list \<Rightarrow> string \<Rightarrow> string list \<Rightarrow> string" where
  "registry_key_for path bare_key rootdir =
     (case relative_to path rootdir of
        None \<Rightarrow> bare_key
      | Some rel \<Rightarrow>
          (if 2 \<le> length rel \<and> rel ! 0 = ''tenant'' then ''tenant/'' @ rel ! 1 @ ''/'' @ bare_key
           else bare_key))"

fun load_components_from ::
  "(json \<Rightarrow> exn + component) \<Rightarrow> string list \<Rightarrow> (string list \<times> json) list \<Rightarrow>
   (string \<times> component) list \<Rightarrow> (string \<times> string list) list \<Rightarrow>
   exn + (string \<times> component) list \<times> (string \<times> string list) list" where
  "load_components_from validate directory [] comps dirs = Inr (comps, dirs)"
| "load_components_from validate directory ((path, raw) # files) comps dirs =
     (case validate raw of
        Inl e \<Rightarrow> Inl e
      | Inr c \<Rightarrow>
          (let key = registry_key_for path (component_key c) directory in
           if key \<in> set (map fst comps) then Inl (ManifestValidationError key)
           else load_components_from validate directory files
                  (AList.update key c comps) (AList.update key (butlast path) dirs)))"

definition load_components ::
  "(json \<Rightarrow> exn + component) \<Rightarrow> string list \<Rightarrow> (string list \<times> json) list option \<Rightarrow>
   exn + (string \<times> component) list \<times> (string \<times> string list) list" where
  "load_components validate directory listing =
     (case listing of
        None \<Rightarrow> Inr ([], [])
      | Some files \<Rightarrow> load_components_from validate directory files [] [])"

fun load_templates_from ::
  "(json \<Rightarrow> exn + sandbox_template) \<Rightarrow> string list \<Rightarrow> (string list \<times> json) list \<Rightarrow>
   (string \<times> sandbox_template) list \<Rightarrow> exn + (string \<times> sandbox_template) list" where
  "load_templates_from validate directory [] tmpls = Inr tmpls"
| "load_templates_from validate directory ((path, raw) # files) tmpls =
     (case validate raw of
        Inl e \<Rightarrow> Inl e
      | Inr t \<Rightarrow>
          (let key = registry_key_for path (template_key t) directory in
           if key \<in> set (map fst tmpls) then Inl (ManifestValidationError key)
           else load_templates_from validate directory files (AList.update key t tmpls)))"

definition load_templates ::
  "(json \<Rightarrow> exn + sandbox_template) \<Rightarrow> string list \<Rightarrow> (string list \<times> json) list option \<Rightarrow>
   exn + (string \<times> sandbox_template) list" where
  "load_templates validate directory listing =
     (case listing of None \<Rightarrow> Inr [] | Some files \<Rightarrow> load_templates_from validate directory files [])"

text \<open>
  \<open>validate_registry_semantics\<close>: the first reference that does not resolve raises. A lookup can
  raise \<open>ComponentNotFoundError\<close> only, so the \<open>except\<close> clause sees every failure.
\<close>

fun check_refs :: "registry \<Rightarrow> string \<Rightarrow> string list \<Rightarrow> exn + unit" where
  "check_refs reg owner [] = Inr ()"
| "check_refs reg owner (r # rs) =
     (case resolve_component_ref reg r of
        Inl e \<Rightarrow> Inl (if is_component_not_found e then ManifestValidationError (owner @ '' '' @ r) else e)
      | Inr _ \<Rightarrow> check_refs reg owner rs)"

fun check_all :: "registry \<Rightarrow> (string \<times> string list) list \<Rightarrow> exn + unit" where
  "check_all reg [] = Inr ()"
| "check_all reg ((owner, rs) # others) =
     (case check_refs reg owner rs of Inl e \<Rightarrow> Inl e | Inr _ \<Rightarrow> check_all reg others)"

definition template_refs :: "sandbox_template \<Rightarrow> string list" where
  "template_refs t = ts_base (t_spec t) # ts_components (t_spec t)"

definition validate_registry_semantics :: "registry \<Rightarrow> exn + unit" where
  "validate_registry_semantics reg =
     check_all reg
       (map (\<lambda>c. (component_key c, cs_requires (c_spec c))) (list_components reg)
        @ map (\<lambda>t. (template_key t, template_refs t)) (list_templates reg))"

definition load_registry ::
  "(json \<Rightarrow> exn + component) \<Rightarrow> (json \<Rightarrow> exn + sandbox_template) \<Rightarrow> string list \<Rightarrow> string list \<Rightarrow>
   (string list \<times> json) list option \<Rightarrow> (string list \<times> json) list option \<Rightarrow> exn + registry" where
  "load_registry vc vt components_dir templates_dir clisting tlisting =
     (case load_components vc components_dir clisting of
        Inl e \<Rightarrow> Inl e
      | Inr (comps, dirs) \<Rightarrow>
          (case load_templates vt templates_dir tlisting of
             Inl e \<Rightarrow> Inl e
           | Inr tmpls \<Rightarrow>
               (let reg = \<lparr>components = comps, templates = tmpls, component_dirs = dirs, built_images = []\<rparr>
                in case validate_registry_semantics reg of Inl e \<Rightarrow> Inl e | Inr _ \<Rightarrow> Inr reg)))"

subsection \<open>The lookup contract\<close>

text \<open>
  What the services rely on when they resolve a reference: a lookup that succeeds returns an entry
  of the registry, one that fails raises \<open>ComponentNotFoundError\<close>. Component and template lookups
  share the contract.
\<close>

locale entry_lookup =
  fixes entries :: "registry \<Rightarrow> (string \<times> 'e) list"
    and fetch :: "registry \<Rightarrow> string \<Rightarrow> exn + 'e"
    and missing :: "exn \<Rightarrow> bool"
  assumes fetch_found: "fetch reg r = Inr c \<Longrightarrow> \<exists>k. (k, c) \<in> set (entries reg) \<and>
      (k = r \<or> rsplit1_head CHR ''@'' k @ ''@latest'' = r)"
    and fetch_failed: "fetch reg r = Inl e \<Longrightarrow> missing e"
begin

lemma fetch_entry: "fetch reg r = Inr c \<Longrightarrow> c \<in> snd ` set (entries reg)"
  by (force dest: fetch_found)

lemma fetch_empty: "entries reg = [] \<Longrightarrow> \<exists>e. fetch reg r = Inl e \<and> missing e"
  by (cases "fetch reg r") (auto dest: fetch_found fetch_failed)

end

lemma max_by_mem: "max_by f b xs \<in> insert b (set xs)"
proof (induction xs arbitrary: b)
  case (Cons x xs)
  from Cons [of "if f b < f x then x else b"] show ?case by (auto split: if_splits)
qed simp

lemma max_by_ge_start: "f b \<le> f (max_by f b xs)"
proof (induction xs arbitrary: b)
  case (Cons x xs)
  have "f b \<le> f (if f b < f x then x else b)" by (simp add: less_imp_le)
  also have "\<dots> \<le> f (max_by f (if f b < f x then x else b) xs)" by (rule Cons)
  finally show ?case by simp
qed simp

lemma max_by_ge: "y \<in> insert b (set xs) \<Longrightarrow> f y \<le> f (max_by f b xs)"
proof (induction xs arbitrary: b)
  case (Cons x xs)
  let ?c = "if f b < f x then x else b"
  have start: "f ?c \<le> f (max_by f ?c xs)" by (rule max_by_ge_start)
  consider "y = b" | "y = x" | "y \<in> set xs" using Cons.prems by auto
  then have "f y \<le> f (max_by f ?c xs)"
  proof cases
    case 1
    have "f b \<le> f ?c" by (simp add: less_imp_le)
    with start 1 show ?thesis by (metis order_trans)
  next
    case 2
    have "f x \<le> f ?c" by (simp add: not_less)
    with start 2 show ?thesis by (metis order_trans)
  next
    case 3
    then show ?thesis by (intro Cons.IH) simp
  qed
  then show ?case by simp
qed simp

lemma rpartition_ref:
  assumes "py_rpartition c r = (n, True, v)"
  shows "r = n @ c # v \<and> c \<notin> set v"
proof -
  have r: "c \<in> set r" and n: "n = rev (drop 1 (dropWhile (\<lambda>x. x \<noteq> c) (rev r)))"
    and v: "v = rev (takeWhile (\<lambda>x. x \<noteq> c) (rev r))"
    using assms by (auto simp: py_rpartition_def split: if_splits)
  have "dropWhile (\<lambda>x. x \<noteq> c) (rev r) \<noteq> []" using r by (simp add: dropWhile_eq_Nil_conv)
  then obtain ys where ys: "dropWhile (\<lambda>x. x \<noteq> c) (rev r) = c # ys"
    using hd_dropWhile [of "\<lambda>x. x \<noteq> c" "rev r"] by (cases "dropWhile (\<lambda>x. x \<noteq> c) (rev r)") auto
  have "rev r = takeWhile (\<lambda>x. x \<noteq> c) (rev r) @ c # ys" using ys by (metis takeWhile_dropWhile_id)
  then have "r = rev ys @ c # rev (takeWhile (\<lambda>x. x \<noteq> c) (rev r))"
    by (metis append.assoc append_Cons append_Nil rev.simps(2) rev_append rev_rev_ident)
  moreover have "c \<notin> set v" unfolding v by (auto dest: set_takeWhileD)
  ultimately show ?thesis using n v ys by simp
qed

lemma resolve_component_ref_cases:
  assumes "resolve_component_ref reg r = Inr c"
  obtains n v where "r = n @ ''@'' @ v" "CHR ''@'' \<notin> set v"
    "v \<noteq> ''latest'' \<and> map_of (components reg) r = Some c \<or> v = ''latest'' \<and> latest_component reg n = Inr c"
proof -
  obtain n s v where p: "py_rpartition CHR ''@'' r = (n, s, v)" by (cases "py_rpartition CHR ''@'' r")
  then have s: "s" and v: "v \<noteq> []" using assms by (auto simp: resolve_component_ref_def split: if_splits)
  with p have r: "r = n @ CHR ''@'' # v" "CHR ''@'' \<notin> set v" by (auto dest: rpartition_ref)
  show ?thesis
  proof (rule that [of n v])
    show "v \<noteq> ''latest'' \<and> map_of (components reg) r = Some c \<or> v = ''latest'' \<and> latest_component reg n = Inr c"
      using assms p s v r
      by (auto simp: resolve_component_ref_def get_component_def Let_def split: if_splits option.splits)
  qed (use r in auto)
qed

lemma latest_component_entry:
  assumes "latest_component reg n = Inr c"
  shows "\<exists>k. (k, c) \<in> set (components reg) \<and> rsplit1_head CHR ''@'' k = n"
proof -
  from assms obtain d ds where
    ds: "map snd (filter (\<lambda>(key, c). rsplit1_head CHR ''@'' key = n) (components reg)) = d # ds"
    and c: "c = max_by (\<lambda>d. version_sort_key (md_version (c_metadata d))) d ds"
    by (auto simp: latest_component_def split: list.splits)
  have "c \<in> set (d # ds)" unfolding c using max_by_mem by force
  then show ?thesis unfolding ds [symmetric] by auto
qed

lemma resolve_template_ref_cases:
  assumes "resolve_template_ref reg r = Inr t"
  shows "\<exists>k. (k, t) \<in> set (templates reg) \<and> (k = r \<or> rsplit1_head CHR ''@'' k @ ''@latest'' = r)"
proof -
  obtain n s v where p: "py_rpartition CHR ''@'' r = (n, s, v)" by (cases "py_rpartition CHR ''@'' r")
  then have s: "s" and v: "v \<noteq> []" using assms by (auto simp: resolve_template_ref_def split: if_splits)
  with p have r: "r = n @ CHR ''@'' # v" by (auto dest: rpartition_ref)
  show ?thesis
  proof (cases "v = ''latest''")
    case False
    with assms p s v r have "map_of (templates reg) r = Some t"
      by (auto simp: resolve_template_ref_def get_template_def Let_def split: if_splits option.splits)
    then show ?thesis by (blast dest: map_of_SomeD)
  next
    case True
    with assms p s v have "latest_template reg n = Inr t"
      by (auto simp: resolve_template_ref_def)
    then obtain d ds where
      ds: "map snd (filter (\<lambda>(key, c). rsplit1_head CHR ''@'' key = n) (templates reg)) = d # ds"
      and t: "t = max_by (\<lambda>d. version_sort_key (tm_version (t_metadata d))) d ds"
      by (auto simp: latest_template_def split: list.splits)
    have "t \<in> set (d # ds)" unfolding t using max_by_mem by force
    then show ?thesis unfolding ds [symmetric] using True r by auto
  qed
qed

fun is_template_not_found :: "exn \<Rightarrow> bool" where
  "is_template_not_found (TemplateNotFoundError _) = True"
| "is_template_not_found _ = False"

interpretation component_lookup: entry_lookup components resolve_component_ref is_component_not_found
proof
  fix reg r c
  assume "resolve_component_ref reg r = Inr c"
  then show "\<exists>k. (k, c) \<in> set (components reg) \<and> (k = r \<or> rsplit1_head CHR ''@'' k @ ''@latest'' = r)"
    by (rule resolve_component_ref_cases) (auto dest: map_of_SomeD latest_component_entry)
next
  fix reg r e
  assume "resolve_component_ref reg r = Inl e"
  then show "is_component_not_found e"
    by (auto simp: resolve_component_ref_def latest_component_def get_component_def Let_def
        split: if_splits option.splits list.splits prod.splits)
qed

interpretation template_lookup: entry_lookup templates resolve_template_ref is_template_not_found
proof
  fix reg r t
  assume "resolve_template_ref reg r = Inr t"
  then show "\<exists>k. (k, t) \<in> set (templates reg) \<and> (k = r \<or> rsplit1_head CHR ''@'' k @ ''@latest'' = r)"
    by (rule resolve_template_ref_cases)
next
  fix reg r e
  assume "resolve_template_ref reg r = Inl e"
  then show "is_template_not_found e"
    by (auto simp: resolve_template_ref_def latest_template_def get_template_def Let_def
        split: if_splits option.splits list.splits prod.splits)
qed

lemma check_refs_ok: "check_refs reg owner rs = Inr () \<longleftrightarrow> (\<forall>r\<in>set rs. \<exists>c. resolve_component_ref reg r = Inr c)"
  by (induction rs) (auto split: sum.splits)

lemma check_all_ok:
  "check_all reg xs = Inr () \<longleftrightarrow> (\<forall>x\<in>set xs. \<forall>r\<in>set (snd x). \<exists>c. resolve_component_ref reg r = Inr c)"
proof (induction reg xs rule: check_all.induct)
  case (2 reg owner rs others)
  then show ?case
    using check_refs_ok [of reg owner rs] by (cases "check_refs reg owner rs") auto
qed simp

lemma check_refs_error: "check_refs reg owner rs = Inl e \<Longrightarrow> \<exists>m. e = ManifestValidationError m"
  by (induction rs) (auto split: sum.splits if_splits dest: component_lookup.fetch_failed)

lemma check_all_error: "check_all reg xs = Inl e \<Longrightarrow> \<exists>m. e = ManifestValidationError m"
  by (induction reg xs rule: check_all.induct) (auto split: sum.splits dest: check_refs_error)

subsection \<open>Properties\<close>

text \<open>
  \<open>name@latest\<close> resolves to an entry whose registry key carries exactly that name and whose
  version no other entry of the name exceeds in the numeric version order; it fails exactly when
  the name has no entry at all.
\<close>

theorem latest_component_is_newest:
  "(case latest_component reg name of
      Inl e \<Rightarrow> e = ComponentNotFoundError name \<and>
        \<not> (\<exists>k c. (k, c) \<in> set (components reg) \<and> rsplit1_head CHR ''@'' k = name)
    | Inr c \<Rightarrow> (\<exists>k. (k, c) \<in> set (components reg) \<and> rsplit1_head CHR ''@'' k = name) \<and>
        \<not> (\<exists>k d. (k, d) \<in> set (components reg) \<and> rsplit1_head CHR ''@'' k = name \<and>
              version_sort_key (md_version (c_metadata c)) < version_sort_key (md_version (c_metadata d))))"
proof -
  let ?cs = "map snd (filter (\<lambda>(key, c). rsplit1_head CHR ''@'' key = name) (components reg))"
  let ?v = "\<lambda>d. version_sort_key (md_version (c_metadata d))"
  have mem: "d \<in> set ?cs \<longleftrightarrow> (\<exists>k. (k, d) \<in> set (components reg) \<and> rsplit1_head CHR ''@'' k = name)" for d
    by force
  show ?thesis
  proof (cases ?cs)
    case Nil
    then have "latest_component reg name = Inl (ComponentNotFoundError name)"
      by (simp add: latest_component_def)
    moreover have "\<not> (\<exists>k c. (k, c) \<in> set (components reg) \<and> rsplit1_head CHR ''@'' k = name)"
      using mem Nil by auto
    ultimately show ?thesis by simp
  next
    case (Cons d ds)
    then have l: "latest_component reg name = Inr (max_by ?v d ds)"
      by (simp add: latest_component_def)
    have "\<forall>e\<in>set ?cs. ?v e \<le> ?v (max_by ?v d ds)"
      unfolding Cons using max_by_ge [of _ d ds ?v] by simp
    then show ?thesis
      unfolding l sum.case mem [symmetric]
      using latest_component_entry [OF l] mem by (auto simp: linorder_not_less)
  qed
qed

text \<open>
  Registry validation succeeds exactly when every dependency of every component and every
  reference of every template resolves, and fails with a manifest validation error and nothing
  else.
\<close>

theorem validate_registry_semantics_correct:
  "(validate_registry_semantics reg = Inr () \<longleftrightarrow>
     list_all (\<lambda>c. list_all (\<lambda>r. \<exists>d. resolve_component_ref reg r = Inr d) (cs_requires (c_spec c)))
       (list_components reg) \<and>
     list_all (\<lambda>t. list_all (\<lambda>r. \<exists>d. resolve_component_ref reg r = Inr d) (template_refs t))
       (list_templates reg)) \<and>
   (validate_registry_semantics reg = Inr () \<or>
     (\<exists>m. validate_registry_semantics reg = Inl (ManifestValidationError m)))"
proof (rule conjI)
  show "validate_registry_semantics reg = Inr () \<or>
     (\<exists>m. validate_registry_semantics reg = Inl (ManifestValidationError m))"
    unfolding validate_registry_semantics_def by (cases "check_all reg
       (map (\<lambda>c. (component_key c, cs_requires (c_spec c))) (list_components reg)
        @ map (\<lambda>t. (template_key t, template_refs t)) (list_templates reg))") (auto dest: check_all_error)
qed (simp add: validate_registry_semantics_def check_all_ok list_all_iff ball_Un)

end
