(* ===== verification/Units.thy ===== *)
theory Units
  imports PyStrings
begin

section \<open>Quantities, durations and instants\<close>

text \<open>
  \<open>app/provisioners/resources.py\<close> (Kubernetes quantity strings to nanocpus, bytes and seconds,
  and back) and \<open>app/core/timeutil.py\<close>. Python integers are unbounded, so they are \<open>int\<close>. An
  instant is a number of microseconds since the epoch, the resolution of a Python \<open>datetime\<close>.
\<close>

subsection \<open>CPU and memory quantities\<close>

definition memory_suffixes :: "(string \<times> int) list" where
  "memory_suffixes = [(''Ki'', 1024), (''Mi'', 1024 ^ 2), (''Gi'', 1024 ^ 3)]"

definition parse_cpu_to_nanocpus :: "string \<Rightarrow> exn + int" where
  "parse_cpu_to_nanocpus cpu0 =
     (let cpu = py_strip cpu0 in
      if endswith cpu ''m'' then map_sum id (\<lambda>millis. millis * 1000000) (py_int (drop_last 1 cpu))
      else map_sum id (\<lambda>n. n * 1000000000) (py_int cpu))"

text \<open>The suffix loop returns at the first suffix that matches, in dictionary order.\<close>

fun parse_suffixed :: "(string \<times> int) list \<Rightarrow> string \<Rightarrow> exn + int" where
  "parse_suffixed [] s = py_int s"
| "parse_suffixed ((suffix, multiplier) # rest) s =
     (if endswith s suffix
      then map_sum id (\<lambda>n. n * multiplier) (py_int (drop_last (length suffix) s))
      else parse_suffixed rest s)"

definition parse_memory_to_bytes :: "string \<Rightarrow> exn + int" where
  "parse_memory_to_bytes memory = parse_suffixed memory_suffixes (py_strip memory)"

definition format_nanocpus_to_cpu :: "int \<Rightarrow> string" where
  "format_nanocpus_to_cpu nanocpus =
     (if nanocpus mod 1000000000 = 0 then int_str (nanocpus div 1000000000)
      else int_str (nanocpus div 1000000) @ ''m'')"

fun format_suffixed :: "(string \<times> int) list \<Rightarrow> int \<Rightarrow> string" where
  "format_suffixed [] n = int_str n"
| "format_suffixed ((suffix, multiplier) # rest) n =
     (if n mod multiplier = 0 then int_str (n div multiplier) @ suffix else format_suffixed rest n)"

text \<open>\<open>sorted(_MEMORY_SUFFIXES.items(), key=lambda kv: -kv[1])\<close>: largest multiplier first.\<close>

definition format_bytes_to_memory :: "int \<Rightarrow> string" where
  "format_bytes_to_memory num_bytes =
     format_suffixed (sort_key (\<lambda>kv. - snd kv) memory_suffixes) num_bytes"

subsection \<open>Durations\<close>

definition duration_suffixes :: "char \<Rightarrow> int option" where
  "duration_suffixes = [CHR ''s'' \<mapsto> 1, CHR ''m'' \<mapsto> 60, CHR ''h'' \<mapsto> 3600, CHR ''d'' \<mapsto> 86400]"

definition parse_duration_to_seconds :: "string \<Rightarrow> exn + int" where
  "parse_duration_to_seconds duration0 =
     (let duration = py_strip duration0 in
      if duration = [] then Inl (IndexError duration0)
      else (case duration_suffixes (last duration) of
              None \<Rightarrow> Inl (ValueError duration)
            | Some k \<Rightarrow> map_sum id (\<lambda>n. n * k) (py_int (butlast duration))))"

subsection \<open>Datetimes\<close>

text \<open>
  A datetime read back from a database is aware on Postgres and naive on SQLite. Both carry the
  same UTC reading; \<open>ensure_utc\<close> stamps the naive one. Mixing the two in a subtraction raises
  \<open>TypeError\<close>, which is why \<open>elapsed_seconds\<close> stamps both sides first.
\<close>

datatype py_datetime = Aware int | Naive int

fun ensure_utc :: "py_datetime \<Rightarrow> py_datetime" where
  "ensure_utc (Aware t) = Aware t"
| "ensure_utc (Naive t) = Aware t"

text \<open>\<open>a - b\<close> in microseconds.\<close>

fun py_datetime_sub :: "py_datetime \<Rightarrow> py_datetime \<Rightarrow> exn + int" where
  "py_datetime_sub (Aware a) (Aware b) = Inr (a - b)"
| "py_datetime_sub (Naive a) (Naive b) = Inr (a - b)"
| "py_datetime_sub _ _ = Inl (OtherException ''TypeError'')"

definition elapsed_seconds :: "py_datetime \<Rightarrow> py_datetime \<Rightarrow> exn + rat" where
  "elapsed_seconds since until =
     map_sum id (\<lambda>us. max 0 (rat_of_int us / 1000000)) (py_datetime_sub (ensure_utc until) (ensure_utc since))"

abbreviation us_per_second :: int where
  "us_per_second \<equiv> 1000000"

abbreviation us_per_day :: int where
  "us_per_day \<equiv> 86400000000"

text \<open>
  \<open>now.replace(day=1, hour=0, minute=0, second=0, microsecond=0)\<close>: the first instant of the
  calendar month. The day of the month is read off the day number by the proleptic Gregorian
  calendar (400-year eras of 146097 days that start on 1 March), as \<open>datetime\<close> does.
\<close>

definition day_of_month :: "int \<Rightarrow> int" where
  "day_of_month days =
     (let doe = (days + 719468) mod 146097;
          yoe = (doe - doe div 1460 + doe div 36524 - doe div 146096) div 365;
          doy = doe - (365 * yoe + yoe div 4 - yoe div 100);
          mp = (5 * doy + 2) div 153
      in doy - (153 * mp + 2) div 5 + 1)"

definition month_start :: "int \<Rightarrow> int" where
  "month_start t = (t div us_per_day - (day_of_month (t div us_per_day) - 1)) * us_per_day"

subsection \<open>Lemmas\<close>

lemma endswith_last: "endswith s [c] \<longleftrightarrow> s \<noteq> [] \<and> last s = c"
  by (cases s rule: rev_cases) (auto simp: endswith_def)

lemma endswith_two: "endswith s [c, d] \<Longrightarrow> last s = d"
proof -
  assume "endswith s [c, d]"
  then obtain t where "s = t @ [c, d]"
    unfolding endswith_def by (metis append_take_drop_id)
  then show ?thesis by simp
qed

lemma suffix_not_int_str: "\<not> endswith (int_str n) ''Ki'' \<and> \<not> endswith (int_str n) ''Mi'' \<and> \<not> endswith (int_str n) ''Gi''"
  using last_int_str [of n] by (auto dest: endswith_two)

lemma py_strip_suffixed:
  assumes "s \<noteq> []" "\<not> is_py_space (last s)"
  shows "py_strip (int_str n @ s) = int_str n @ s"
  using assms hd_int_str [of n] by (intro py_strip_id) simp_all

lemma endswith_suffix_other:
  "length p = length q \<Longrightarrow> endswith (s @ p) q \<longleftrightarrow> p = q"
  by (auto simp: endswith_def)

lemma sorted_memory_suffixes:
  "sort_key (\<lambda>kv. - snd kv) memory_suffixes = [(''Gi'', 1024 ^ 3), (''Mi'', 1024 ^ 2), (''Ki'', 1024)]"
  by (simp add: memory_suffixes_def)

lemma parse_suffixed_Gi: "parse_memory_to_bytes (int_str n @ ''Gi'') = Inr (n * 1024 ^ 3)"
  by (simp add: parse_memory_to_bytes_def memory_suffixes_def py_strip_suffixed is_py_space_def
      endswith_suffix_other)

lemma parse_suffixed_Mi: "parse_memory_to_bytes (int_str n @ ''Mi'') = Inr (n * 1024 ^ 2)"
  by (simp add: parse_memory_to_bytes_def memory_suffixes_def py_strip_suffixed is_py_space_def
      endswith_suffix_other)

lemma parse_suffixed_Ki: "parse_memory_to_bytes (int_str n @ ''Ki'') = Inr (n * 1024)"
  by (simp add: parse_memory_to_bytes_def memory_suffixes_def py_strip_suffixed is_py_space_def
      endswith_suffix_other)

lemma parse_unsuffixed: "parse_memory_to_bytes (int_str n) = Inr n"
  using suffix_not_int_str [of n]
  by (simp add: parse_memory_to_bytes_def memory_suffixes_def py_strip_int_str)

lemma format_bytes_to_memory_eq:
  "format_bytes_to_memory n =
     (if n mod 1024 ^ 3 = 0 then int_str (n div 1024 ^ 3) @ ''Gi''
      else if n mod 1024 ^ 2 = 0 then int_str (n div 1024 ^ 2) @ ''Mi''
      else if n mod 1024 = 0 then int_str (n div 1024) @ ''Ki''
      else int_str n)"
  by (simp only: format_bytes_to_memory_def sorted_memory_suffixes format_suffixed.simps)

lemma month_day_range:
  fixes doy q r :: int
  assumes "153 * q \<le> 5 * doy + 2" "5 * doy + 2 < 153 * q + 153"
    and "5 * r \<le> 153 * q + 2" "153 * q + 2 < 5 * r + 5"
  shows "0 \<le> doy - r \<and> doy - r \<le> 30"
  using assms by linarith

lemma div_between:
  fixes a k :: int
  assumes "0 < k"
  shows "k * (a div k) \<le> a" and "a < k * (a div k) + k"
  using assms pos_mod_bound [of k a] pos_mod_sign [of k a] mult_div_mod_eq [of k a] by linarith+

lemma day_of_month_bounds: "1 \<le> day_of_month d \<and> day_of_month d \<le> 31"
proof -
  have "\<exists>doy. day_of_month d = doy - (153 * ((5 * doy + 2) div 153) + 2) div 5 + 1"
    unfolding day_of_month_def Let_def by (rule exI) (rule refl)
  then obtain doy where "day_of_month d = doy - (153 * ((5 * doy + 2) div 153) + 2) div 5 + 1" ..
  moreover have "0 \<le> doy - (153 * ((5 * doy + 2) div 153) + 2) div 5 \<and>
      doy - (153 * ((5 * doy + 2) div 153) + 2) div 5 \<le> 30"
    by (rule month_day_range [of "(5 * doy + 2) div 153"]) (rule div_between; simp)+
  ultimately show ?thesis by simp
qed

lemma month_start_le: "month_start t \<le> t"
proof -
  have "t div us_per_day - (day_of_month (t div us_per_day) - 1) \<le> t div us_per_day"
    using day_of_month_bounds [of "t div us_per_day"] by linarith
  then have "month_start t \<le> t div us_per_day * us_per_day"
    unfolding month_start_def by (rule mult_right_mono) simp
  also have "\<dots> \<le> t" by presburger
  finally show ?thesis .
qed

lemma month_start_window: "t - month_start t < 31 * us_per_day"
proof -
  have "t div us_per_day - 30 \<le> t div us_per_day - (day_of_month (t div us_per_day) - 1)"
    using day_of_month_bounds [of "t div us_per_day"] by linarith
  then have "(t div us_per_day - 30) * us_per_day \<le> month_start t"
    unfolding month_start_def by (rule mult_right_mono) simp
  moreover have "t < (t div us_per_day - 30) * us_per_day + 31 * us_per_day" by presburger
  ultimately show ?thesis by linarith
qed

lemma elapsed_seconds_run [simp]:
  "elapsed_seconds (Aware s) (Aware u) = Inr (max 0 (rat_of_int (u - s) / 1000000))"
  by (simp add: elapsed_seconds_def)

subsection \<open>Properties\<close>

text \<open>
  Formatting a byte count and parsing it back gives the same byte count, for every integer:
  \<open>format_bytes_to_memory\<close> picks the largest unit that divides it exactly, so nothing is lost,
  and \<open>parse_memory_to_bytes\<close> recognises the unit it printed.
\<close>

theorem memory_quantity_roundtrip: "parse_memory_to_bytes (format_bytes_to_memory n) = Inr n"
proof -
  have exact: "n div k * k = n" if "n mod k = 0" for k :: int using that by auto
  consider "n mod 1024 ^ 3 = 0" | "n mod 1024 ^ 3 \<noteq> 0" "n mod 1024 ^ 2 = 0"
    | "n mod 1024 ^ 3 \<noteq> 0" "n mod 1024 ^ 2 \<noteq> 0" "n mod 1024 = 0"
    | "n mod 1024 ^ 3 \<noteq> 0" "n mod 1024 ^ 2 \<noteq> 0" "n mod 1024 \<noteq> 0"
    by blast
  then show ?thesis
  proof cases
    case 1
    then show ?thesis
      by (simp only: format_bytes_to_memory_eq if_True refl parse_suffixed_Gi exact)
  next
    case 2
    then show ?thesis
      by (simp only: format_bytes_to_memory_eq if_True if_False refl parse_suffixed_Mi exact)
  next
    case 3
    then show ?thesis
      by (simp only: format_bytes_to_memory_eq if_True if_False refl parse_suffixed_Ki exact)
  next
    case 4
    then show ?thesis
      by (simp only: format_bytes_to_memory_eq if_False parse_unsuffixed)
  qed
qed

text \<open>
  Formatting a CPU amount and parsing it back rounds it down to a whole millicore and is
  exact on every amount that is one: sub-millicore precision is all that is ever lost, and the
  result never exceeds the amount that went in.
\<close>

theorem cpu_quantity_roundtrip:
  "parse_cpu_to_nanocpus (format_nanocpus_to_cpu n) = Inr (n - n mod 1000000)"
proof (cases "n mod 1000000000 = 0")
  case True
  have "\<not> endswith (int_str (n div 1000000000)) ''m''"
    using last_int_str by (simp add: endswith_last)
  moreover have "n mod 1000000 = 0"
    using True dvd_trans [of 1000000 1000000000 n] by (simp add: mod_eq_0_iff_dvd)
  then have "n div 1000000000 * 1000000000 = n - n mod 1000000" using True by auto
  ultimately show ?thesis
    using True by (simp add: parse_cpu_to_nanocpus_def format_nanocpus_to_cpu_def py_strip_int_str)
next
  case False
  have "n div 1000000 * 1000000 = n - n mod 1000000" by (simp add: minus_mod_eq_div_mult)
  then show ?thesis
    using False
    by (simp add: parse_cpu_to_nanocpus_def format_nanocpus_to_cpu_def py_strip_suffixed is_py_space_def)
qed

text \<open>
  The elapsed time between two database timestamps is defined for every mixture of naive and
  aware values, does not depend on which of them are naive, and is never negative: a backdated
  row or a clock step gives zero, never negative usage.
\<close>

theorem elapsed_seconds_total:
  "\<exists>x. elapsed_seconds s u = Inr x \<and> elapsed_seconds (ensure_utc s) (ensure_utc u) = Inr x \<and> 0 \<le> x"
  by (cases s; cases u) (simp_all add: elapsed_seconds_def)

end
