(* ===== verification/Store.thy ===== *)
theory Store
  imports Registry Units
begin

section \<open>The database, the session and the outside world\<close>

text \<open>
  \<open>app/persistence/models.py\<close> (one record per table), \<open>app/persistence/db.py\<close> (the session) and the
  parameters of the model: the clocks, the random generators, the provisioner, the object store and
  the image registry.

  A table is the list of its rows in insertion order. \<open>w_db\<close> is what the running session sees
  and \<open>w_committed\<close> what has been committed; \<open>session.commit()\<close> copies the first to the second and
  a session that ends without one is rolled back.

  Money and quantities are rationals: the sums and products of the code without the rounding of
  IEEE doubles and of SQL \<open>Numeric\<close> columns.
\<close>

subsection \<open>Rows\<close>

record tenant_row =
  tn_id :: string
  tn_name :: string
  tn_created_at :: int

record user_row =
  us_id :: string
  us_tenant_id :: string
  us_email :: string
  us_role :: string
  us_created_at :: int

record api_key_row =
  ak_id :: string
  ak_tenant_id :: string
  ak_key_hash :: string
  ak_label :: "string option"
  ak_prefix :: "string option"
  ak_revoked :: bool
  ak_created_by_user_id :: "string option"
  ak_last_used_at :: "int option"
  ak_created_at :: int

record component_record_row =
  cm_name :: string
  cm_version :: string
  cm_category :: category
  cm_manifest :: json

record template_record_row =
  tmr_name :: string
  tmr_version :: string
  tmr_manifest :: json

record entitlement_row =
  en_id :: string
  en_scope :: string
  en_scope_id :: string
  en_component_name :: string
  en_version_range :: string
  en_visible :: bool

record publish_grant_row =
  pg_id :: string
  pg_scope :: string
  pg_scope_id :: string
  pg_category :: string
  pg_allowed :: bool

record sandbox_row =
  sb_id :: string
  sb_tenant_id :: string
  sb_user_id :: "string option"
  sb_template_ref :: "string option"
  sb_component_refs :: "string list"
  sb_backend :: string
  sb_native_ref :: string
  sb_sidecar_refs :: "(string \<times> string) list"
  sb_state :: sandbox_state
  sb_weight_class :: string
  sb_persistent :: bool
  sb_workspace_id :: "string option"
  sb_idle_ttl_seconds :: "int option"
  sb_max_ttl_seconds :: "int option"
  sb_created_at :: int
  sb_last_active_at :: "int option"
  sb_terminated_at :: "int option"

datatype run_status = RunPending | RunRunning | RunCompleted | RunFailed

record run_row =
  rn_id :: string
  rn_sandbox_id :: "string option"
  rn_tenant_id :: string
  rn_command :: "string list"
  rn_status :: run_status
  rn_component_ref :: "string option"
  rn_error :: "exn option"
  rn_exit_code :: "int option"
  rn_stdout_excerpt :: "string option"
  rn_stderr_excerpt :: "string option"
  rn_variables :: "json option"
  rn_truncated :: bool
  rn_timed_out :: bool
  rn_duration_ms :: "int option"
  rn_created_at :: int
  rn_finished_at :: "int option"

datatype build_status = BuildPending | BuildRunning | BuildSucceeded | BuildFailed

record build_row =
  bl_id :: string
  bl_component_name :: string
  bl_component_version :: string
  bl_tenant_id :: "string option"
  bl_strategy :: source_type
  bl_status :: build_status
  bl_image_ref :: "string option"
  bl_artifact_ref :: "string option"
  bl_log_excerpt :: "string option"
  bl_error :: "string option"
  bl_requested_by :: string
  bl_started_at :: "int option"
  bl_finished_at :: "int option"
  bl_created_at :: int

datatype workspace_state = WsActive | WsArchived | WsDeleted

record workspace_row =
  ws_id :: string
  ws_user_id :: string
  ws_quota_mb :: int
  ws_used_mb :: int
  ws_state :: workspace_state
  ws_last_access_at :: int
  ws_created_at :: int

record pool_state_row =
  ps_image_digest :: string
  ps_weight_class :: string
  ps_idle_count :: nat
  ps_updated_at :: int

record quota_row =
  qt_tenant_id :: string
  qt_max_concurrent_sandboxes :: "int option"
  qt_max_cpu_millicores :: "int option"
  qt_max_memory_mb :: "int option"
  qt_max_monthly_minutes :: "int option"

record pool_member_row =
  pm_id :: string
  pm_image_ref :: string
  pm_weight_class :: string
  pm_backend :: string
  pm_native_ref :: string

record billing_account_row =
  ba_tenant_id :: string
  ba_mode :: string
  ba_spend_cap :: "rat option"
  ba_currency :: string

record pricing_rule_row =
  pc_id :: string
  pc_resource_type :: string
  pc_unit_cost :: rat
  pc_currency :: string
  pc_effective_from :: int

record usage_row =
  ur_id :: string
  ur_tenant_id :: string
  ur_sandbox_id :: "string option"
  ur_run_id :: "string option"
  ur_resource_type :: string
  ur_quantity :: rat
  ur_cost :: rat
  ur_recorded_at :: int

record wallet_row =
  cw_tenant_id :: string
  cw_balance :: rat

record ledger_row =
  cl_tenant_id :: string
  cl_delta :: rat
  cl_reason :: string
  cl_balance_after :: rat

record invoice_row =
  iv_tenant_id :: string
  iv_period_start :: int
  iv_period_end :: int
  iv_total_cost :: rat
  iv_status :: string

datatype request_status = ReqPending | ReqApproved | ReqDenied

record credit_request_row =
  cr_id :: string
  cr_tenant_id :: string
  cr_user_id :: "string option"
  cr_amount :: rat
  cr_reason :: string
  cr_status :: request_status
  cr_review_note :: "string option"
  cr_reviewed_by :: "string option"
  cr_created_at :: int
  cr_reviewed_at :: "int option"

record audit_row =
  al_id :: string
  al_tenant_id :: "string option"
  al_actor :: string
  al_action :: string
  al_target :: "string option"
  al_detail :: "json option"
  al_created_at :: int

record db =
  d_tenants :: "tenant_row list"
  d_users :: "user_row list"
  d_api_keys :: "api_key_row list"
  d_components :: "component_record_row list"
  d_templates :: "template_record_row list"
  d_entitlements :: "entitlement_row list"
  d_publish_grants :: "publish_grant_row list"
  d_sandboxes :: "sandbox_row list"
  d_runs :: "run_row list"
  d_builds :: "build_row list"
  d_workspaces :: "workspace_row list"
  d_pool_state :: "pool_state_row list"
  d_quotas :: "quota_row list"
  d_pool_members :: "pool_member_row list"
  d_accounts :: "billing_account_row list"
  d_pricing :: "pricing_rule_row list"
  d_usage :: "usage_row list"
  d_wallets :: "wallet_row list"
  d_ledger :: "ledger_row list"
  d_invoices :: "invoice_row list"
  d_credit_requests :: "credit_request_row list"
  d_audit :: "audit_row list"

definition empty_db :: db where
  "empty_db = \<lparr>d_tenants = [], d_users = [], d_api_keys = [], d_components = [], d_templates = [],
     d_entitlements = [], d_publish_grants = [], d_sandboxes = [], d_runs = [], d_builds = [],
     d_workspaces = [], d_pool_state = [], d_quotas = [], d_pool_members = [], d_accounts = [],
     d_pricing = [], d_usage = [], d_wallets = [], d_ledger = [], d_invoices = [],
     d_credit_requests = [], d_audit = []\<rparr>"

subsection \<open>Rows by primary key\<close>

text \<open>
  \<open>session.get(Row, key)\<close> and the effect on the table of assigning to the attributes of a loaded
  row or adding a new one. \<open>row_put\<close> replaces the row with that key or appends it.
\<close>

definition row_get :: "('r \<Rightarrow> 'k) \<Rightarrow> 'k \<Rightarrow> 'r list \<Rightarrow> 'r option" where
  "row_get key k rows = find (\<lambda>r. key r = k) rows"

fun row_put :: "('r \<Rightarrow> 'k) \<Rightarrow> 'r \<Rightarrow> 'r list \<Rightarrow> 'r list" where
  "row_put key r [] = [r]"
| "row_put key r (x # xs) = (if key x = key r then r # xs else x # row_put key r xs)"

locale keyed_table =
  fixes key :: "'r \<Rightarrow> 'k"
    and fetch :: "'k \<Rightarrow> 't \<Rightarrow> 'r option"
    and put :: "'r \<Rightarrow> 't \<Rightarrow> 't"
  assumes fetch_put: "fetch k (put r t) = (if key r = k then Some r else fetch k t)"
    and fetch_key: "fetch k t = Some r \<Longrightarrow> key r = k"
begin

lemma fetch_put_same [simp]: "fetch (key r) (put r t) = Some r"
  by (simp add: fetch_put)

lemma fetch_put_other: "key r \<noteq> k \<Longrightarrow> fetch k (put r t) = fetch k t"
  by (simp add: fetch_put)

lemma put_put_fetch: "key r = key q \<Longrightarrow> fetch k (put r (put q t)) = fetch k (put r t)"
  by (simp add: fetch_put)

lemma put_fetched: "fetch (key r) t = Some r \<Longrightarrow> fetch k (put r t) = fetch k t"
  by (auto simp: fetch_put)

lemma put_commute: "key r \<noteq> key q \<Longrightarrow> fetch k (put r (put q t)) = fetch k (put q (put r t))"
  by (auto simp: fetch_put)

end

lemma row_get_put: "row_get key k (row_put key r rows) = (if key r = k then Some r else row_get key k rows)"
  by (induction rows) (auto simp: row_get_def)

lemma row_get_key: "row_get key k rows = Some r \<Longrightarrow> key r = k"
  by (auto simp: row_get_def find_Some_iff)

lemma row_get_mem: "row_get key k rows = Some r \<Longrightarrow> r \<in> set rows"
  by (auto simp: row_get_def find_Some_iff)

lemma row_get_None: "row_get key k rows = None \<longleftrightarrow> k \<notin> key ` set rows"
  by (auto simp: row_get_def find_None_iff)

lemma row_get_distinct: "distinct (map key rows) \<Longrightarrow> r \<in> set rows \<Longrightarrow> row_get key (key r) rows = Some r"
proof (induction rows)
  case (Cons x rows)
  then show ?case by (cases "key x = key r") (auto simp: row_get_def dest: imageI [of r "set rows" key])
qed simp

interpretation accounts: keyed_table ba_tenant_id "row_get ba_tenant_id" "row_put ba_tenant_id"
  by unfold_locales (auto simp: row_get_put dest: row_get_key)

interpretation wallets: keyed_table cw_tenant_id "row_get cw_tenant_id" "row_put cw_tenant_id"
  by unfold_locales (auto simp: row_get_put dest: row_get_key)

interpretation quotas: keyed_table qt_tenant_id "row_get qt_tenant_id" "row_put qt_tenant_id"
  by unfold_locales (auto simp: row_get_put dest: row_get_key)

interpretation sandboxes: keyed_table sb_id "row_get sb_id" "row_put sb_id"
  by unfold_locales (auto simp: row_get_put dest: row_get_key)

interpretation runs: keyed_table rn_id "row_get rn_id" "row_put rn_id"
  by unfold_locales (auto simp: row_get_put dest: row_get_key)

interpretation builds: keyed_table bl_id "row_get bl_id" "row_put bl_id"
  by unfold_locales (auto simp: row_get_put dest: row_get_key)

interpretation workspaces: keyed_table ws_id "row_get ws_id" "row_put ws_id"
  by unfold_locales (auto simp: row_get_put dest: row_get_key)

interpretation credit_requests: keyed_table cr_id "row_get cr_id" "row_put cr_id"
  by unfold_locales (auto simp: row_get_put dest: row_get_key)

lemma row_put_set: "set (row_put key r rows) \<subseteq> insert r (set rows)"
  by (induction rows) auto

lemma row_put_mem: "r \<in> set (row_put key r rows)"
  by (induction rows) auto

lemma map_key_row_put:
  "map key (row_put key r rows) = (if key r \<in> key ` set rows then map key rows else map key rows @ [key r])"
  by (induction rows) auto

lemma row_put_new: "key r \<notin> key ` set rows \<Longrightarrow> row_put key r rows = rows @ [r]"
  by (induction rows) auto

lemma distinct_row_put: "distinct (map key rows) \<Longrightarrow> distinct (map key (row_put key r rows))"
  by (auto simp: map_key_row_put)

lemma mem_row_put_other: "x \<in> set rows \<Longrightarrow> key x \<noteq> key r \<Longrightarrow> x \<in> set (row_put key r rows)"
  by (induction rows) auto

subsection \<open>Calls to the outside\<close>

text \<open>
  The provisioner backend, the object store, the image registry and the build strategies are
  parameters: \<open>env\<close> holds, for each operation, its answer as a function of everything that was
  called before (the trace), so the model covers every behaviour such a backend can show. Each
  call the control plane makes is recorded in the trace together with its outcome.
\<close>

datatype call =
    CallAcquire sandbox_spec "exn + sandbox_handle"
  | CallExecBatch sandbox_handle batch_command "exn + batch_run_result"
  | CallStatus sandbox_handle "exn + sandbox_state"
  | CallAttach sandbox_handle "exn + unit"
  | CallPutFiles sandbox_handle "(string \<times> string) list" "exn + unit"
  | CallGetFile sandbox_handle string "exn + string"
  | CallListTree sandbox_handle string "exn + (string \<times> bool) list"
  | CallRecycle sandbox_handle "exn + unit"
  | CallDestroy sandbox_handle "exn + unit"
  | CallProvisionHook string sandbox_handle "exn + unit"
  | CallTeardownHook string sandbox_handle "exn + unit"
  | CallArchiveWorkspace string "exn + string"
  | CallDeleteVolume string "exn + unit"
  | CallMeasure string "exn + int"
  | CallRestoreWorkspace string string "exn + unit"
  | CallListRefs "exn + native_sandbox_ref list"
  | CallStoragePut string string "exn + unit"
  | CallStorageGet string "exn + string"
  | CallStorageDelete string "exn + unit"
  | CallBuild source_type string "(exn + (bool \<times> string)) \<times> string"
  | CallPush string "exn + string"
  | CallWriteFile "string list" json "exn + unit"

record env =
  e_now :: "nat \<Rightarrow> int"
  e_db_now :: "nat \<Rightarrow> int"
  e_uuid :: "nat \<Rightarrow> string"
  e_token :: "nat \<Rightarrow> string"
  e_backend_name :: string
  e_locked :: "call list \<Rightarrow> string \<Rightarrow> bool"
  e_acquire :: "call list \<Rightarrow> sandbox_spec \<Rightarrow> exn + sandbox_handle"
  e_exec_batch :: "call list \<Rightarrow> sandbox_handle \<Rightarrow> batch_command \<Rightarrow> exn + batch_run_result"
  e_status :: "call list \<Rightarrow> sandbox_handle \<Rightarrow> exn + sandbox_state"
  e_attach :: "call list \<Rightarrow> sandbox_handle \<Rightarrow> exn + unit"
  e_put_files :: "call list \<Rightarrow> sandbox_handle \<Rightarrow> (string \<times> string) list \<Rightarrow> exn + unit"
  e_get_file :: "call list \<Rightarrow> sandbox_handle \<Rightarrow> string \<Rightarrow> exn + string"
  e_list_tree :: "call list \<Rightarrow> sandbox_handle \<Rightarrow> string \<Rightarrow> exn + (string \<times> bool) list"
  e_recycle :: "call list \<Rightarrow> sandbox_handle \<Rightarrow> exn + unit"
  e_destroy :: "call list \<Rightarrow> sandbox_handle \<Rightarrow> exn + unit"
  e_provision_hook :: "call list \<Rightarrow> string \<Rightarrow> sandbox_handle \<Rightarrow> exn + unit"
  e_teardown_hook :: "call list \<Rightarrow> string \<Rightarrow> sandbox_handle \<Rightarrow> exn + unit"
  e_archive_workspace :: "call list \<Rightarrow> string \<Rightarrow> exn + string"
  e_delete_volume :: "call list \<Rightarrow> string \<Rightarrow> exn + unit"
  e_measure :: "call list \<Rightarrow> string \<Rightarrow> exn + int"
  e_restore_workspace :: "call list \<Rightarrow> string \<Rightarrow> string \<Rightarrow> exn + unit"
  e_list_refs :: "call list \<Rightarrow> exn + native_sandbox_ref list"
  e_storage_put :: "call list \<Rightarrow> string \<Rightarrow> string \<Rightarrow> exn + unit"
  e_storage_get :: "call list \<Rightarrow> string \<Rightarrow> exn + string"
  e_storage_delete :: "call list \<Rightarrow> string \<Rightarrow> exn + unit"
  e_build :: "call list \<Rightarrow> source_type \<Rightarrow> string \<Rightarrow> (exn + (bool \<times> string)) \<times> string"
  e_push :: "call list \<Rightarrow> string \<Rightarrow> exn + string"
  e_write_file :: "call list \<Rightarrow> string list \<Rightarrow> json \<Rightarrow> exn + unit"

record world =
  w_env :: env
  w_db :: db
  w_committed :: db
  w_registry :: registry
  w_calls :: "call list"
  w_clock :: nat
  w_uuids :: nat
  w_tokens :: nat
  w_active :: "string \<times> string \<Rightarrow> int"

type_synonym 'a prog = "(world, 'a) em"

subsection \<open>The session\<close>

definition commit :: "unit prog" where
  "commit = modify_em (\<lambda>w. w\<lparr>w_committed := w_db w\<rparr>)"

definition rollback :: "unit prog" where
  "rollback = modify_em (\<lambda>w. w\<lparr>w_db := w_committed w\<rparr>)"

text \<open>
  \<open>get_session\<close>: a request runs in a session of its own, which starts at the committed state and
  drops whatever was not committed when the request is over, normally or by an exception.
\<close>

definition with_session :: "'a prog \<Rightarrow> 'a prog" where
  "with_session m = (\<lambda>w. case m (w\<lparr>w_db := w_committed w\<rparr>) of (r, w') \<Rightarrow> (r, w'\<lparr>w_db := w_committed w'\<rparr>))"

definition update_db :: "(db \<Rightarrow> db) \<Rightarrow> unit prog" where
  "update_db f = modify_em (\<lambda>w. w\<lparr>w_db := f (w_db w)\<rparr>)"

definition query_db :: "(db \<Rightarrow> 'a) \<Rightarrow> 'a prog" where
  "query_db f = gets_em (\<lambda>w. f (w_db w))"

text \<open>\<open>datetime.now(UTC)\<close>, the server default \<open>func.now()\<close>, \<open>uuid.uuid4()\<close>, \<open>secrets.token_urlsafe\<close>.\<close>

definition utc_now :: "int prog" where
  "utc_now = (\<lambda>w. (Inr (e_now (w_env w) (w_clock w)), w\<lparr>w_clock := Suc (w_clock w)\<rparr>))"

definition db_now :: "int prog" where
  "db_now = (\<lambda>w. (Inr (e_db_now (w_env w) (w_clock w)), w\<lparr>w_clock := Suc (w_clock w)\<rparr>))"

definition fresh_uuid :: "string prog" where
  "fresh_uuid = (\<lambda>w. (Inr (e_uuid (w_env w) (w_uuids w)), w\<lparr>w_uuids := Suc (w_uuids w)\<rparr>))"

definition fresh_token :: "string prog" where
  "fresh_token = (\<lambda>w. (Inr (e_token (w_env w) (w_tokens w)), w\<lparr>w_tokens := Suc (w_tokens w)\<rparr>))"

text \<open>One external call: ask the environment, record the question and the answer, pass it on.\<close>

definition external :: "(env \<Rightarrow> call list \<Rightarrow> exn + 'a) \<Rightarrow> (exn + 'a \<Rightarrow> call) \<Rightarrow> 'a prog" where
  "external ask event = (\<lambda>w. let r = ask (w_env w) (w_calls w)
     in (r, w\<lparr>w_calls := w_calls w @ [event r]\<rparr>))"

definition scalar_one_or_none :: "'r list \<Rightarrow> exn + 'r option" where
  "scalar_one_or_none rows =
     (case rows of [] \<Rightarrow> Inr None | [r] \<Rightarrow> Inr (Some r) | _ \<Rightarrow> Inl (MultipleResultsFound []))"

lemma commit_run [simp, em_simps]: "commit w = (Inr (), w\<lparr>w_committed := w_db w\<rparr>)"
  by (simp add: commit_def)

lemma rollback_run [simp, em_simps]: "rollback w = (Inr (), w\<lparr>w_db := w_committed w\<rparr>)"
  by (simp add: rollback_def)

lemma update_db_run [simp, em_simps]: "update_db f w = (Inr (), w\<lparr>w_db := f (w_db w)\<rparr>)"
  by (simp add: update_db_def)

lemma query_db_run [simp, em_simps]: "query_db f w = (Inr (f (w_db w)), w)"
  by (simp add: query_db_def)

lemma utc_now_run [simp, em_simps]:
  "utc_now w = (Inr (e_now (w_env w) (w_clock w)), w\<lparr>w_clock := Suc (w_clock w)\<rparr>)"
  by (simp add: utc_now_def)

lemma db_now_run [simp, em_simps]:
  "db_now w = (Inr (e_db_now (w_env w) (w_clock w)), w\<lparr>w_clock := Suc (w_clock w)\<rparr>)"
  by (simp add: db_now_def)

lemma fresh_uuid_run [simp, em_simps]:
  "fresh_uuid w = (Inr (e_uuid (w_env w) (w_uuids w)), w\<lparr>w_uuids := Suc (w_uuids w)\<rparr>)"
  by (simp add: fresh_uuid_def)

lemma fresh_token_run [simp, em_simps]:
  "fresh_token w = (Inr (e_token (w_env w) (w_tokens w)), w\<lparr>w_tokens := Suc (w_tokens w)\<rparr>)"
  by (simp add: fresh_token_def)

lemma external_run [simp, em_simps]:
  "external ask event w =
     (ask (w_env w) (w_calls w), w\<lparr>w_calls := w_calls w @ [event (ask (w_env w) (w_calls w))]\<rparr>)"
  by (simp add: external_def Let_def)

lemma scalar_one_or_none_simps [simp]:
  "scalar_one_or_none [] = Inr None"
  "scalar_one_or_none [r] = Inr (Some r)"
  "scalar_one_or_none (r # q # rows) = Inl (MultipleResultsFound [])"
  by (simp_all add: scalar_one_or_none_def)

subsection \<open>A concrete world\<close>

text \<open>
  A cooperative environment for the closed instances of the theorems: the clock starts at an
  instant of 2026 and moves a second per reading, identifiers are numbered, and every external
  call succeeds.
\<close>

definition demo_handle :: "string \<Rightarrow> sandbox_handle" where
  "demo_handle i = \<lparr>h_sandbox_id = i, h_backend = ''docker'', h_native_ref = ''c-'' @ i,
     h_created_at = 0, h_sidecar_refs = [], h_persistent = False\<rparr>"

definition demo_result :: batch_run_result where
  "demo_result = \<lparr>br_run_id = ''r'', br_exit_code = 0, br_stdout = ''ok'', br_stderr = [],
     br_duration_ms = 2000, br_truncated = False, br_timed_out = False, br_variables = None\<rparr>"

definition demo_env :: env where
  "demo_env = \<lparr>
     e_now = (\<lambda>n. 1770000000000000 + int n * us_per_second),
     e_db_now = (\<lambda>n. 1770000000000000 + int n * us_per_second),
     e_uuid = (\<lambda>n. ''u'' @ nat_str n),
     e_token = (\<lambda>n. ''t'' @ nat_str n),
     e_backend_name = ''docker'',
     e_locked = (\<lambda>_ _. False),
     e_acquire = (\<lambda>tr _. Inr (demo_handle (''s'' @ nat_str (length tr)))),
     e_exec_batch = (\<lambda>_ _ _. Inr demo_result),
     e_status = (\<lambda>_ _. Inr Active),
     e_attach = (\<lambda>_ _. Inr ()),
     e_put_files = (\<lambda>_ _ _. Inr ()),
     e_get_file = (\<lambda>_ _ _. Inr []),
     e_list_tree = (\<lambda>_ _ _. Inr []),
     e_recycle = (\<lambda>_ _. Inr ()),
     e_destroy = (\<lambda>_ _. Inr ()),
     e_provision_hook = (\<lambda>_ _ _. Inr ()),
     e_teardown_hook = (\<lambda>_ _ _. Inr ()),
     e_archive_workspace = (\<lambda>_ _. Inr ''tar''),
     e_delete_volume = (\<lambda>_ _. Inr ()),
     e_measure = (\<lambda>_ _. Inr 10),
     e_restore_workspace = (\<lambda>_ _ _. Inr ()),
     e_list_refs = (\<lambda>_. Inr []),
     e_storage_put = (\<lambda>_ _ _. Inr ()),
     e_storage_get = (\<lambda>_ _. Inr ''tar''),
     e_storage_delete = (\<lambda>_ _. Inr ()),
     e_build = (\<lambda>_ _ k. (Inr (True, k), ''built'')),
     e_push = (\<lambda>_ r. Inr (''registry/'' @ r)),
     e_write_file = (\<lambda>_ _ _. Inr ())\<rparr>"

definition demo_world :: "db \<Rightarrow> registry \<Rightarrow> world" where
  "demo_world d reg = \<lparr>w_env = demo_env, w_db = d, w_committed = d, w_registry = reg, w_calls = [],
     w_clock = 0, w_uuids = 0, w_tokens = 0, w_active = (\<lambda>_. 0)\<rparr>"

end
