(* ===== verification/Render.thy ===== *)
theory Render
  imports Store
begin

section \<open>Composing a template into a sandbox specification\<close>

text \<open>
  \<open>app/services/template_render.py\<close> and \<open>app/services/credentials.py\<close>. Passwords are
  \<open>secrets.token_urlsafe\<close>: each call reads the next value of the token source. A Python dict is an
  association list and assigning to a key keeps its position (\<open>AList.update\<close>).
\<close>

record db_credentials =
  dc_role :: string
  dc_password :: string
  dc_database :: string
  dc_admin_password :: string

definition generate_db_credentials :: "component \<Rightarrow> db_credentials prog" where
  "generate_db_credentials c =
     bind_em fresh_token (\<lambda>password.
     bind_em fresh_token (\<lambda>admin_password.
     return_em
       \<lparr>dc_role = (case ac_database (cs_access (c_spec c)) of
                     None \<Rightarrow> ''sandbox_user''
                   | Some acc \<Rightarrow> (case db_role acc of None \<Rightarrow> ''sandbox_user''
                                  | Some r \<Rightarrow> if r = [] then ''sandbox_user'' else r)),
        dc_password = password, dc_database = ''sandbox'', dc_admin_password = admin_password\<rparr>))"

record rendered_template =
  rd_template_key :: string
  rd_sandbox_spec :: sandbox_spec
  rd_main_components :: "component list"
  rd_sidecar_components :: "component list"
  rd_sidecar_credentials :: "(string \<times> db_credentials) list"
  rd_ttl_idle :: string
  rd_ttl_max :: string

fun weight_order :: "weight_class \<Rightarrow> nat" where
  "weight_order Light = 0"
| "weight_order Standard = 1"
| "weight_order Heavy = 2"

definition component_image_ref :: "registry \<Rightarrow> component \<Rightarrow> string option" where
  "component_image_ref reg c =
     (case resolve_component_image reg c of
        Inl e \<Rightarrow> None
      | Inr img \<Rightarrow> Some img)"

definition build_dsn :: "string \<Rightarrow> db_credentials \<Rightarrow> int \<Rightarrow> string" where
  "build_dsn protocol credentials port =
     (let path = (if protocol = ''redis'' then ''0'' else dc_database credentials)
      in protocol @ ''://'' @ dc_role credentials @ '':'' @ dc_password credentials @ ''@localhost:''
         @ int_str port @ ''/'' @ path)"

definition build_sidecar_spec :: "component \<Rightarrow> db_credentials option \<Rightarrow> registry \<Rightarrow> exn + sidecar_spec" where
  "build_sidecar_spec c credentials reg =
     (let runtime = cs_runtime (c_spec c); access = cs_access (c_spec c) in
      case rt_uid runtime of
        None \<Rightarrow> Inl (KubeSandboxError (component_key c))
      | Some uid \<Rightarrow>
          (case resolve_component_image reg c of
             Inl e \<Rightarrow> Inl e
           | Inr img \<Rightarrow>
               (let env0 = fold (\<lambda>(n, v). AList.update n v) (rt_env runtime) [];
                    env1 = (case (credentials, ac_database access) of
                              (Some cr, Some acc) \<Rightarrow>
                                (case db_adminPasswordEnv acc of
                                   Some var \<Rightarrow> if var = [] then env0 else AList.update var (dc_admin_password cr) env0
                                 | None \<Rightarrow> env0)
                            | _ \<Rightarrow> env0)
                in Inr \<lparr>sc_name = md_name (c_metadata c), sc_image = img, sc_env = env1,
                        sc_resources = \<lparr>res_cpu = rq_cpu (rt_limits runtime), res_memory = rq_memory (rt_limits runtime),
                                        res_ephemeral_storage_mb = None\<rparr>,
                        sc_ports = rt_ports runtime,
                        sc_writable_paths = fs_writablePaths (ac_filesystem access),
                        sc_health_check = rt_healthCheck runtime,
                        sc_uid = uid,
                        sc_max_processes = lim_processes (ac_limits access)\<rparr>)))"

subsection \<open>The merge over the main components\<close>

record merged =
  mg_env :: "(string \<times> string) list"
  mg_writable_paths :: "string list"
  mg_workdir :: "string option"
  mg_read_only :: bool

definition add_path :: "string \<Rightarrow> string list \<Rightarrow> string list" where
  "add_path p paths = (if p \<in> set paths then paths else paths @ [p])"

definition merge_component :: "component \<Rightarrow> merged \<Rightarrow> merged" where
  "merge_component c m =
     (let fs = ac_filesystem (cs_access (c_spec c)) in
      \<lparr>mg_env = fold (\<lambda>(n, v). AList.update n v) (rt_env (cs_runtime (c_spec c))) (mg_env m),
       mg_writable_paths = fold add_path (fs_writablePaths fs) (mg_writable_paths m),
       mg_workdir = (case mg_workdir m of None \<Rightarrow> Some (fs_workdir fs) | Some d \<Rightarrow> Some d),
       mg_read_only = (mg_read_only m \<and> fs_readOnlyRootFilesystem fs)\<rparr>)"

definition merge_components :: "component list \<Rightarrow> merged" where
  "merge_components cs =
     fold merge_component cs \<lparr>mg_env = [], mg_writable_paths = [], mg_workdir = None, mg_read_only = True\<rparr>"

subsection \<open>The sidecars\<close>

type_synonym sidecar_state =
  "(string \<times> string) list \<times> sidecar_spec list \<times> (string \<times> db_credentials) list"

definition render_sidecar :: "registry \<Rightarrow> component \<Rightarrow> sidecar_state \<Rightarrow> sidecar_state prog" where
  "render_sidecar reg c st =
     (case st of (env, specs, creds) \<Rightarrow>
      bind_em
        (if ac_database (cs_access (c_spec c)) \<noteq> None
         then bind_em (generate_db_credentials c) (\<lambda>cr.
              let creds' = AList.update (md_name (c_metadata c)) cr creds;
                  env' = (case pv_service (cs_provides (c_spec c)) of
                            None \<Rightarrow> env
                          | Some svc \<Rightarrow>
                              (case svc_dsnEnv svc of
                                 None \<Rightarrow> env
                               | Some var \<Rightarrow> if var = [] then env
                                   else AList.update var (build_dsn (svc_protocol svc) cr (svc_port svc)) env))
              in return_em (Some cr, env', creds'))
         else return_em (None, env, creds)) (\<lambda>(credentials, env', creds').
      bind_em (lift_em (build_sidecar_spec c credentials reg)) (\<lambda>sc.
      return_em (env', specs @ [sc], creds'))))"

fun render_sidecars :: "registry \<Rightarrow> component list \<Rightarrow> sidecar_state \<Rightarrow> sidecar_state prog" where
  "render_sidecars reg [] st = return_em st"
| "render_sidecars reg (c # cs) st = bind_em (render_sidecar reg c st) (render_sidecars reg cs)"

fun resolve_refs :: "registry \<Rightarrow> string list \<Rightarrow> exn + component list" where
  "resolve_refs reg [] = Inr []"
| "resolve_refs reg (r # rs) =
     (case resolve_component_ref reg r of
        Inl e \<Rightarrow> Inl e
      | Inr c \<Rightarrow> (case resolve_refs reg rs of Inl e \<Rightarrow> Inl e | Inr cs \<Rightarrow> Inr (c # cs)))"

fun join_with :: "string \<Rightarrow> string list \<Rightarrow> string" where
  "join_with sep [] = []"
| "join_with sep [s] = s"
| "join_with sep (s # t # ss) = s @ sep @ join_with sep (t # ss)"

text \<open>Python's \<open>max\<close> of a non-empty sequence of numbers.\<close>

fun max_of :: "int \<Rightarrow> int list \<Rightarrow> int" where
  "max_of n [] = n"
| "max_of n (m # ms) = max_of (max n m) ms"

definition is_main :: "component \<Rightarrow> bool" where
  "is_main c \<longleftrightarrow> rt_kind (cs_runtime (c_spec c)) = MainTool"

definition render_template :: "registry \<Rightarrow> sandbox_template \<Rightarrow> rendered_template prog" where
  "render_template reg t =
     (let ts = t_spec t in
      bind_em (lift_em (resolve_component_ref reg (ts_base ts))) (\<lambda>base.
      bind_em (lift_em (resolve_refs reg (ts_components ts))) (\<lambda>rest.
      let all_components = base # rest;
          main_components = filter is_main all_components;
          sidecar_components = filter (\<lambda>c. \<not> is_main c) all_components;
          image_refs = remdups (List.map_filter (component_image_ref reg) main_components)
      in case image_refs of
           [] \<Rightarrow> raise_em (KubeSandboxError (template_key t))
         | img # others \<Rightarrow>
             (if others \<noteq> [] then raise_em (KubeSandboxError (template_key t))
              else
                (let m = merge_components main_components in
                 bind_em (render_sidecars reg sidecar_components (mg_env m, [], [])) (\<lambda>(env, specs, creds).
                 let wc = (case ts_weightClass ts of
                             Some w \<Rightarrow> w
                           | None \<Rightarrow> max_by weight_order (rt_weightClass (cs_runtime (c_spec base)))
                                      (map (\<lambda>c. rt_weightClass (cs_runtime (c_spec c))) rest));
                     lim = (\<lambda>f. max_of (f (ac_limits (cs_access (c_spec base))))
                                  (map (\<lambda>c. f (ac_limits (cs_access (c_spec c)))) rest));
                     spec = \<lparr>sp_image = img, sp_command = [''sleep'', ''infinity''], sp_env = env,
                             sp_workdir = (case mg_workdir m of
                                             None \<Rightarrow> ''/workspace''
                                           | Some d \<Rightarrow> if d = [] then ''/workspace'' else d),
                             sp_writable_paths = (if mg_writable_paths m = [] then [''/workspace'', ''/tmp'']
                                                  else mg_writable_paths m),
                             sp_read_only_root_filesystem = mg_read_only m,
                             sp_resources = \<lparr>res_cpu = tr_cpu (ts_resources ts), res_memory = tr_memory (ts_resources ts),
                                             res_ephemeral_storage_mb = tr_ephemeralStorageMB (ts_resources ts)\<rparr>,
                             sp_weight_class = wc,
                             sp_wall_clock_seconds = lim lim_wallClockSeconds,
                             sp_max_output_bytes = lim lim_outputBytes,
                             sp_max_processes = lim lim_processes,
                             sp_labels = [(''io.kubesandbox.template'', template_key t),
                                          (''io.kubesandbox.components'', join_with '','' (map component_key all_components))],
                             sp_sidecars = specs, sp_workspace_id = None, sp_workspace_size_mb = None,
                             sp_node_selector = [], sp_tolerations = []\<rparr>
                 in return_em
                      \<lparr>rd_template_key = template_key t, rd_sandbox_spec = spec,
                       rd_main_components = main_components, rd_sidecar_components = sidecar_components,
                       rd_sidecar_credentials = creds, rd_ttl_idle = ttl_idle (ts_ttl ts),
                       rd_ttl_max = ttl_max (ts_ttl ts)\<rparr>))))))"

subsection \<open>Lemmas\<close>

lemma update_keys: "set (map fst (AList.update k v xs)) = insert k (set (map fst xs))"
  by (metis set_map dom_map_of_conv_image_fst dom_fun_upd fun_upd_None_if_notin_dom
      AList.update_conv' dom_map_of_conv_image_fst option.distinct(1))

lemma fold_update_keys:
  "set (map fst (fold (\<lambda>(n, v). AList.update n v) es xs)) = set (map fst es) \<union> set (map fst xs)"
  by (induction es arbitrary: xs) (auto simp: update_keys simp del: set_map)

lemma merge_env_keys:
  "set (map fst (mg_env (fold merge_component cs m))) =
     (\<Union>c\<in>set cs. set (map fst (rt_env (cs_runtime (c_spec c))))) \<union> set (map fst (mg_env m))"
proof (induction cs arbitrary: m)
  case (Cons c cs)
  show ?case unfolding fold_simps Cons.IH by (auto simp: merge_component_def Let_def fold_update_keys simp del: set_map)
qed simp

lemma max_of_ge: "x \<in> insert n (set ms) \<Longrightarrow> x \<le> max_of n ms"
proof (induction ms arbitrary: n x)
  case (Cons m ms)
  from Cons.IH [of "max n m" "max n m"] Cons.IH [of x "max n m"] Cons.prems show ?case by auto
qed simp

lemma max_of_mem: "max_of n ms \<in> insert n (set ms)"
proof (induction ms arbitrary: n)
  case (Cons m ms)
  from Cons.IH [of "max n m"] show ?case by (auto simp: max_def split: if_splits)
qed simp

definition dsn_vars :: "component list \<Rightarrow> string set" where
  "dsn_vars cs = {var. \<exists>c \<in> set cs. \<exists>svc. pv_service (cs_provides (c_spec c)) = Some svc \<and> svc_dsnEnv svc = Some var \<and>
     ac_database (cs_access (c_spec c)) \<noteq> None}"

definition main_vars :: "component list \<Rightarrow> string set" where
  "main_vars cs = (\<Union>c\<in>set cs. set (map fst (rt_env (cs_runtime (c_spec c)))))"

lemma build_sidecar_spec_fields:
  "build_sidecar_spec c cr reg = Inr sc \<Longrightarrow>
     sc_name sc = md_name (c_metadata c) \<and> resolve_component_image reg c = Inr (sc_image sc) \<and>
     rt_uid (cs_runtime (c_spec c)) = Some (sc_uid sc) \<and>
     sc_writable_paths sc = fs_writablePaths (ac_filesystem (cs_access (c_spec c)))"
  by (auto simp: build_sidecar_spec_def Let_def split: option.splits sum.splits)

lemma render_sidecar_run:
  assumes "render_sidecar reg c (env, specs, creds) w = (Inr (env', specs', creds'), w')"
  shows "(\<exists>sc. specs' = specs @ [sc] \<and> sc_name sc = md_name (c_metadata c) \<and>
      resolve_component_image reg c = Inr (sc_image sc)) \<and>
    set (map fst env') \<subseteq> set (map fst env) \<union> dsn_vars [c] \<and>
    set (map fst creds') = set (map fst creds) \<union>
      (if ac_database (cs_access (c_spec c)) \<noteq> None then {md_name (c_metadata c)} else {})"
  using assms
  by (auto simp: render_sidecar_def em_simps generate_db_credentials_def Let_def update_keys dsn_vars_def
      split: sum.splits if_splits option.splits dest!: build_sidecar_spec_fields simp del: set_map)

lemma render_sidecars_run:
  assumes "render_sidecars reg cs (env, specs, creds) w = (Inr (env', specs', creds'), w')"
  shows "(\<exists>scs. specs' = specs @ scs \<and>
      list_all2 (\<lambda>c sc. sc_name sc = md_name (c_metadata c) \<and> resolve_component_image reg c = Inr (sc_image sc)) cs scs) \<and>
    set (map fst env') \<subseteq> set (map fst env) \<union> dsn_vars cs \<and>
    set (map fst creds') = set (map fst creds) \<union>
      {md_name (c_metadata c) | c. c \<in> set cs \<and> ac_database (cs_access (c_spec c)) \<noteq> None}"
  using assms
proof (induction cs arbitrary: env specs creds w)
  case Nil
  then show ?case by (auto simp del: set_map)
next
  case (Cons c cs)
  from Cons.prems obtain e1 s1 c1 w1 where
    one: "render_sidecar reg c (env, specs, creds) w = (Inr (e1, s1, c1), w1)"
    and rest: "render_sidecars reg cs (e1, s1, c1) w1 = (Inr (env', specs', creds'), w')"
    by (auto simp: bind_em_Inr_iff)
  from render_sidecar_run [OF one] obtain sc where sc: "s1 = specs @ [sc]" "sc_name sc = md_name (c_metadata c)"
    "resolve_component_image reg c = Inr (sc_image sc)"
    and e1: "set (map fst e1) \<subseteq> set (map fst env) \<union> dsn_vars [c]"
    and c1: "set (map fst c1) = set (map fst creds) \<union>
      (if ac_database (cs_access (c_spec c)) \<noteq> None then {md_name (c_metadata c)} else {})" by blast
  from Cons.IH [OF rest] obtain scs where scs: "specs' = s1 @ scs"
    "list_all2 (\<lambda>c sc. sc_name sc = md_name (c_metadata c) \<and> resolve_component_image reg c = Inr (sc_image sc)) cs scs"
    and e': "set (map fst env') \<subseteq> set (map fst e1) \<union> dsn_vars cs"
    and c': "set (map fst creds') = set (map fst c1) \<union>
      {md_name (c_metadata c) | c. c \<in> set cs \<and> ac_database (cs_access (c_spec c)) \<noteq> None}" by blast
  have "dsn_vars (c # cs) = dsn_vars [c] \<union> dsn_vars cs" by (auto simp: dsn_vars_def)
  with e1 e' have env: "set (map fst env') \<subseteq> set (map fst env) \<union> dsn_vars (c # cs)" by blast
  have creds: "set (map fst creds') = set (map fst creds) \<union>
      {md_name (c_metadata d) | d. d \<in> set (c # cs) \<and> ac_database (cs_access (c_spec d)) \<noteq> None}"
    unfolding c' c1 by auto
  have "specs' = specs @ sc # scs \<and>
      list_all2 (\<lambda>c sc. sc_name sc = md_name (c_metadata c) \<and> resolve_component_image reg c = Inr (sc_image sc)) (c # cs) (sc # scs)"
    using sc scs by simp
  with env creds show ?case by blast
qed

text \<open>The promise a database sidecar's variable makes: it addresses the role of the stored credentials.\<close>

definition dsn_var_of :: "component \<Rightarrow> string option" where
  "dsn_var_of c =
     (if ac_database (cs_access (c_spec c)) = None then None
      else case pv_service (cs_provides (c_spec c)) of
             None \<Rightarrow> None
           | Some svc \<Rightarrow> (case svc_dsnEnv svc of None \<Rightarrow> None | Some v \<Rightarrow> if v = [] then None else Some v))"

definition promise_kept :: "(string \<times> string) list \<Rightarrow> (string \<times> db_credentials) list \<Rightarrow> component \<Rightarrow> bool" where
  "promise_kept env creds c \<longleftrightarrow>
     (case dsn_var_of c of
        None \<Rightarrow> True
      | Some var \<Rightarrow> (\<exists>cr svc. map_of creds (md_name (c_metadata c)) = Some cr \<and>
          pv_service (cs_provides (c_spec c)) = Some svc \<and>
          map_of env var = Some (build_dsn (svc_protocol svc) cr (svc_port svc))))"

lemma map_of_update: "map_of (AList.update k v xs) j = (if j = k then Some v else map_of xs j)"
  by (simp add: AList.update_conv)

lemma render_sidecar_promise:
  assumes "render_sidecar reg c (env, specs, creds) w = (Inr (env', specs', creds'), w')"
  shows "promise_kept env' creds' c \<and>
    (promise_kept env creds d \<and> md_name (c_metadata d) \<noteq> md_name (c_metadata c) \<and>
       (dsn_var_of d = None \<or> dsn_var_of d \<noteq> dsn_var_of c) \<longrightarrow> promise_kept env' creds' d)"
  using assms
  by (auto simp: render_sidecar_def em_simps generate_db_credentials_def Let_def promise_kept_def dsn_var_of_def
      map_of_update split: sum.splits if_splits option.splits)

lemma render_sidecars_promise:
  assumes "render_sidecars reg cs (env, specs, creds) w = (Inr (env', specs', creds'), w')"
    and "distinct (map (\<lambda>c. md_name (c_metadata c)) cs)"
    and "distinct (filter (\<lambda>v. v \<noteq> None) (map dsn_var_of cs))"
  shows "(\<forall>c\<in>set cs. promise_kept env' creds' c) \<and>
    (\<forall>d. promise_kept env creds d \<and> md_name (c_metadata d) \<notin> (\<lambda>c. md_name (c_metadata c)) ` set cs \<and>
      (dsn_var_of d = None \<or> dsn_var_of d \<notin> dsn_var_of ` set cs) \<longrightarrow> promise_kept env' creds' d)"
  using assms
proof (induction cs arbitrary: env specs creds w)
  case Nil
  then show ?case by simp
next
  case (Cons c cs)
  from Cons.prems(1) obtain e1 s1 c1 w1 where
    one: "render_sidecar reg c (env, specs, creds) w = (Inr (e1, s1, c1), w1)"
    and rest: "render_sidecars reg cs (e1, s1, c1) w1 = (Inr (env', specs', creds'), w')"
    by (auto simp: bind_em_Inr_iff)
  have IH: "\<forall>c\<in>set cs. promise_kept env' creds' c"
    "\<And>d. promise_kept e1 c1 d \<Longrightarrow> md_name (c_metadata d) \<notin> (\<lambda>c. md_name (c_metadata c)) ` set cs \<Longrightarrow>
      dsn_var_of d = None \<or> dsn_var_of d \<notin> dsn_var_of ` set cs \<Longrightarrow> promise_kept env' creds' d"
    using Cons.IH [OF rest] Cons.prems(2,3) by (auto split: if_splits)
  have "dsn_var_of c = None \<or> dsn_var_of c \<notin> dsn_var_of ` set cs"
    using Cons.prems(3) by (cases "dsn_var_of c") (auto simp: image_iff)
  then have "promise_kept env' creds' c"
    using IH(2) [of c] render_sidecar_promise [OF one, of c] Cons.prems(2) by simp
  moreover have "promise_kept env' creds' d"
    if "promise_kept env creds d" "md_name (c_metadata d) \<notin> (\<lambda>c. md_name (c_metadata c)) ` set (c # cs)"
      "dsn_var_of d = None \<or> dsn_var_of d \<notin> dsn_var_of ` set (c # cs)" for d
    using IH(2) [of d] render_sidecar_promise [OF one, of d] that by auto
  ultimately show ?case using IH(1) by simp
qed

lemma merge_components_env: "set (map fst (mg_env (merge_components cs))) = main_vars cs"
  unfolding merge_components_def main_vars_def merge_env_keys by simp

lemma render_templateE:
  assumes "render_template reg t w = (Inr rd, w')"
  obtains base rest img env specs creds where
    "resolve_component_ref reg (ts_base (t_spec t)) = Inr base"
    "resolve_refs reg (ts_components (t_spec t)) = Inr rest"
    "remdups (List.map_filter (component_image_ref reg) (filter is_main (base # rest))) = [img]"
    "render_sidecars reg (filter (\<lambda>c. \<not> is_main c) (base # rest))
       (mg_env (merge_components (filter is_main (base # rest))), [], []) w = (Inr (env, specs, creds), w')"
    "rd_main_components rd = filter is_main (base # rest)"
    "rd_sidecar_components rd = filter (\<lambda>c. \<not> is_main c) (base # rest)"
    "rd_sidecar_credentials rd = creds"
    "sp_image (rd_sandbox_spec rd) = img" "sp_env (rd_sandbox_spec rd) = env" "sp_sidecars (rd_sandbox_spec rd) = specs"
    "sp_weight_class (rd_sandbox_spec rd) =
       (case ts_weightClass (t_spec t) of Some wc \<Rightarrow> wc
        | None \<Rightarrow> max_by weight_order (rt_weightClass (cs_runtime (c_spec base))) (map (\<lambda>c. rt_weightClass (cs_runtime (c_spec c))) rest))"
    "sp_wall_clock_seconds (rd_sandbox_spec rd) =
       max_of (lim_wallClockSeconds (ac_limits (cs_access (c_spec base)))) (map (\<lambda>c. lim_wallClockSeconds (ac_limits (cs_access (c_spec c)))) rest)"
    "sp_max_output_bytes (rd_sandbox_spec rd) =
       max_of (lim_outputBytes (ac_limits (cs_access (c_spec base)))) (map (\<lambda>c. lim_outputBytes (ac_limits (cs_access (c_spec c)))) rest)"
    "sp_max_processes (rd_sandbox_spec rd) =
       max_of (lim_processes (ac_limits (cs_access (c_spec base)))) (map (\<lambda>c. lim_processes (ac_limits (cs_access (c_spec c)))) rest)"
    "sp_workspace_id (rd_sandbox_spec rd) = None"
proof -
  obtain base where base: "resolve_component_ref reg (ts_base (t_spec t)) = Inr base"
    using assms by (cases "resolve_component_ref reg (ts_base (t_spec t))")
      (simp_all add: render_template_def bind_em_run Let_def)
  obtain rest where rest: "resolve_refs reg (ts_components (t_spec t)) = Inr rest"
    using assms base by (cases "resolve_refs reg (ts_components (t_spec t))")
      (simp_all add: render_template_def bind_em_run Let_def)
  let ?imgs = "remdups (List.map_filter (component_image_ref reg) (filter is_main (base # rest)))"
  let ?side = "render_sidecars reg (filter (\<lambda>c. \<not> is_main c) (base # rest))
       (mg_env (merge_components (filter is_main (base # rest))), [], []) w"
  obtain img where imgs: "?imgs = [img]"
  proof (cases ?imgs)
    case Nil
    with assms base rest show ?thesis by (simp add: render_template_def bind_em_run Let_def del: filter.simps)
  next
    case (Cons i ims)
    with assms base rest have "ims = []"
      by (cases ims) (simp_all add: render_template_def bind_em_run Let_def del: filter.simps)
    with Cons that show ?thesis by simp
  qed
  obtain env specs creds v where side: "?side = (Inr (env, specs, creds), v)"
  proof (cases ?side)
    case (Pair r v)
    with assms base rest imgs that show ?thesis
      by (cases r) (auto simp: render_template_def bind_em_run Let_def simp del: filter.simps)
  qed
  have w': "v = w'" using assms base rest imgs side
    by (simp add: render_template_def bind_em_run Let_def del: filter.simps)
  show ?thesis
    by (rule that [OF base rest imgs side [unfolded w']])
      (use assms base rest imgs side in \<open>auto simp: render_template_def bind_em_run Let_def simp del: filter.simps\<close>)
qed

lemma map_filter_single:
  assumes "remdups (List.map_filter f xs) = [y]"
  shows "(\<exists>x\<in>set xs. f x = Some y) \<and> (\<forall>x\<in>set xs. f x = None \<or> f x = Some y)"
proof -
  have "set (List.map_filter f xs) = {y}" by (metis assms empty_set list.simps(15) set_remdups)
  moreover have "set (List.map_filter f xs) = {z. \<exists>x\<in>set xs. f x = Some z}"
    by (force simp: List.map_filter_def image_iff)
  ultimately have eq: "{z. \<exists>x\<in>set xs. f x = Some z} = {y}" by simp
  then have "\<exists>x\<in>set xs. f x = Some y" by blast
  moreover have "f x = None \<or> f x = Some y" if "x \<in> set xs" for x
    using eq that by (cases "f x") auto
  ultimately show ?thesis by blast
qed

subsection \<open>Properties\<close>

text \<open>
  A rendered template runs one image: every main component that can run at all resolves to the
  specification's image, and at least one does; the components are split into main ones and sidecars
  with none lost; each sidecar becomes one container under its own name and its own image, in order;
  and only a template without sidecars is poolable.
\<close>

theorem render_template_images:
  assumes "render_template reg t w = (Inr rd, w')"
  shows "(\<exists>c\<in>set (rd_main_components rd). resolve_component_image reg c = Inr (sp_image (rd_sandbox_spec rd))) \<and>
    (\<forall>c\<in>set (rd_main_components rd). is_main c \<and>
       (\<forall>img. resolve_component_image reg c = Inr img \<longrightarrow> img = sp_image (rd_sandbox_spec rd))) \<and>
    (\<exists>base rest. resolve_component_ref reg (ts_base (t_spec t)) = Inr base \<and>
       resolve_refs reg (ts_components (t_spec t)) = Inr rest \<and>
       set (rd_main_components rd) \<union> set (rd_sidecar_components rd) = insert base (set rest)) \<and>
    list_all2 (\<lambda>c sc. sc_name sc = md_name (c_metadata c) \<and> resolve_component_image reg c = Inr (sc_image sc))
      (rd_sidecar_components rd) (sp_sidecars (rd_sandbox_spec rd))"
proof -
  obtain base rest img env specs creds where r:
    "resolve_component_ref reg (ts_base (t_spec t)) = Inr base" "resolve_refs reg (ts_components (t_spec t)) = Inr rest"
    "remdups (List.map_filter (component_image_ref reg) (filter is_main (base # rest))) = [img]"
    "render_sidecars reg (filter (\<lambda>c. \<not> is_main c) (base # rest))
       (mg_env (merge_components (filter is_main (base # rest))), [], []) w = (Inr (env, specs, creds), w')"
    "rd_main_components rd = filter is_main (base # rest)"
    "rd_sidecar_components rd = filter (\<lambda>c. \<not> is_main c) (base # rest)"
    "sp_image (rd_sandbox_spec rd) = img" "sp_sidecars (rd_sandbox_spec rd) = specs"
    using assms by (rule render_templateE)
  have imgs: "\<exists>c\<in>set (filter is_main (base # rest)). component_image_ref reg c = Some img"
    "\<forall>c\<in>set (filter is_main (base # rest)). component_image_ref reg c = None \<or> component_image_ref reg c = Some img"
    using map_filter_single [OF r(3)] by blast+
  have ref: "component_image_ref reg c = Some i \<longleftrightarrow> resolve_component_image reg c = Inr i" for c i
    by (simp add: component_image_ref_def split: sum.split)
  have none: "component_image_ref reg c = None \<Longrightarrow> resolve_component_image reg c \<noteq> Inr i" for c i
    by (simp add: component_image_ref_def split: sum.splits)
  have "list_all2 (\<lambda>c sc. sc_name sc = md_name (c_metadata c) \<and> resolve_component_image reg c = Inr (sc_image sc))
      (filter (\<lambda>c. \<not> is_main c) (base # rest)) specs"
    using render_sidecars_run [OF r(4)] by auto
  moreover have "\<exists>c\<in>set (filter is_main (base # rest)). resolve_component_image reg c = Inr img"
    using imgs(1) ref by blast
  moreover have "\<forall>c\<in>set (filter is_main (base # rest)). is_main c \<and> (\<forall>i. resolve_component_image reg c = Inr i \<longrightarrow> i = img)"
    using imgs(2) ref none by (metis (no_types, lifting) filter_set mem_Collect_eq option.inject set_filter)
  moreover have "set (filter is_main (base # rest)) \<union> set (filter (\<lambda>c. \<not> is_main c) (base # rest)) = insert base (set rest)"
    by auto
  ultimately show ?thesis unfolding r(5-8) using r(1,2) by blast
qed

text \<open>
  A rendered template never grants less than a component declares: the run time, output and
  process limits are upper bounds of every composed component's limits and each is some component's
  own, and without an explicit weight class the heaviest component decides.
\<close>

theorem render_template_limits:
  assumes "render_template reg t w = (Inr rd, w')"
    and "c \<in> set (rd_main_components rd) \<union> set (rd_sidecar_components rd)"
  shows "lim_wallClockSeconds (ac_limits (cs_access (c_spec c))) \<le> sp_wall_clock_seconds (rd_sandbox_spec rd) \<and>
    lim_outputBytes (ac_limits (cs_access (c_spec c))) \<le> sp_max_output_bytes (rd_sandbox_spec rd) \<and>
    lim_processes (ac_limits (cs_access (c_spec c))) \<le> sp_max_processes (rd_sandbox_spec rd) \<and>
    (\<exists>d \<in> set (rd_main_components rd) \<union> set (rd_sidecar_components rd).
       lim_wallClockSeconds (ac_limits (cs_access (c_spec d))) = sp_wall_clock_seconds (rd_sandbox_spec rd)) \<and>
    (ts_weightClass (t_spec t) = None \<longrightarrow>
       weight_order (rt_weightClass (cs_runtime (c_spec c))) \<le> weight_order (sp_weight_class (rd_sandbox_spec rd)))"
proof -
  obtain base rest where r:
    "rd_main_components rd = filter is_main (base # rest)"
    "rd_sidecar_components rd = filter (\<lambda>c. \<not> is_main c) (base # rest)"
    "sp_weight_class (rd_sandbox_spec rd) =
       (case ts_weightClass (t_spec t) of Some wc \<Rightarrow> wc
        | None \<Rightarrow> max_by weight_order (rt_weightClass (cs_runtime (c_spec base))) (map (\<lambda>c. rt_weightClass (cs_runtime (c_spec c))) rest))"
    "sp_wall_clock_seconds (rd_sandbox_spec rd) =
       max_of (lim_wallClockSeconds (ac_limits (cs_access (c_spec base)))) (map (\<lambda>c. lim_wallClockSeconds (ac_limits (cs_access (c_spec c)))) rest)"
    "sp_max_output_bytes (rd_sandbox_spec rd) =
       max_of (lim_outputBytes (ac_limits (cs_access (c_spec base)))) (map (\<lambda>c. lim_outputBytes (ac_limits (cs_access (c_spec c)))) rest)"
    "sp_max_processes (rd_sandbox_spec rd) =
       max_of (lim_processes (ac_limits (cs_access (c_spec base)))) (map (\<lambda>c. lim_processes (ac_limits (cs_access (c_spec c)))) rest)"
    using assms(1) by (rule render_templateE)
  have all: "set (rd_main_components rd) \<union> set (rd_sidecar_components rd) = insert base (set rest)"
    unfolding r(1,2) by auto
  have c: "c \<in> insert base (set rest)" using assms(2) all by blast
  have bound: "f c \<le> max_of (f base) (map f rest)" for f :: "component \<Rightarrow> int"
    using max_of_ge [of "f c" "f base" "map f rest"] c by auto
  have some: "\<exists>d\<in>insert base (set rest). f d = max_of (f base) (map f rest)" for f :: "component \<Rightarrow> int"
    using max_of_mem [of "f base" "map f rest"] by (auto simp: image_iff)
  have "weight_order (rt_weightClass (cs_runtime (c_spec c))) \<le>
      weight_order (max_by weight_order (rt_weightClass (cs_runtime (c_spec base))) (map (\<lambda>c. rt_weightClass (cs_runtime (c_spec c))) rest))"
    by (rule max_by_ge) (use c in auto)
  then show ?thesis
    unfolding all r(3-6)
    using bound [of "\<lambda>c. lim_wallClockSeconds (ac_limits (cs_access (c_spec c)))"]
      bound [of "\<lambda>c. lim_outputBytes (ac_limits (cs_access (c_spec c)))"]
      bound [of "\<lambda>c. lim_processes (ac_limits (cs_access (c_spec c)))"]
      some [of "\<lambda>c. lim_wallClockSeconds (ac_limits (cs_access (c_spec c)))"]
    by simp
qed

text \<open>
  Environments stay apart and promises are kept: the main container's environment has only
  variables a main component declares and the connection variables of database sidecars, so nothing
  of a sidecar's own environment leaks into it; credentials exist for exactly the sidecars with a
  database; and when no two sidecars share a name or a connection variable, each connection variable
  addresses the role and the password of the credentials kept for that sidecar.
\<close>

theorem render_template_environment:
  assumes "render_template reg t w = (Inr rd, w')"
  shows "set (map fst (sp_env (rd_sandbox_spec rd))) \<subseteq>
      main_vars (rd_main_components rd) \<union> dsn_vars (rd_sidecar_components rd) \<and>
    set (map fst (rd_sidecar_credentials rd)) = {md_name (c_metadata c) | c. c \<in> set (rd_sidecar_components rd) \<and>
      ac_database (cs_access (c_spec c)) \<noteq> None} \<and>
    (distinct (map (\<lambda>c. md_name (c_metadata c)) (rd_sidecar_components rd)) \<and>
     distinct (filter (\<lambda>v. v \<noteq> None) (map dsn_var_of (rd_sidecar_components rd))) \<longrightarrow>
     (\<forall>c\<in>set (rd_sidecar_components rd). promise_kept (sp_env (rd_sandbox_spec rd)) (rd_sidecar_credentials rd) c))"
proof -
  obtain base rest env specs creds where r:
    "render_sidecars reg (filter (\<lambda>c. \<not> is_main c) (base # rest))
       (mg_env (merge_components (filter is_main (base # rest))), [], []) w = (Inr (env, specs, creds), w')"
    "rd_main_components rd = filter is_main (base # rest)"
    "rd_sidecar_components rd = filter (\<lambda>c. \<not> is_main c) (base # rest)"
    "rd_sidecar_credentials rd = creds" "sp_env (rd_sandbox_spec rd) = env"
    using assms by (rule render_templateE)
  show ?thesis
    unfolding r(2-5) using render_sidecars_run [OF r(1)] render_sidecars_promise [OF r(1)]
    unfolding merge_components_env by auto
qed

definition demo_registry :: registry where
  "demo_registry = \<lparr>components = [(''python@1'', language_component ''python'' ''1'')], templates = [],
     component_dirs = [], built_images = []\<rparr>"

definition demo_template :: sandbox_template where
  "demo_template = \<lparr>t_metadata = \<lparr>tm_name = ''lab'', tm_version = ''1'', tm_displayName = None, tm_description = None\<rparr>,
     t_spec = \<lparr>ts_base = ''python@1'', ts_components = [], ts_weightClass = None, ts_workspace = None,
       ts_resources = \<lparr>tr_cpu = ''1'', tr_memory = ''1Gi'', tr_ephemeralStorageMB = None\<rparr>,
       ts_ttl = \<lparr>ttl_idle = ''15m'', ttl_max = ''1h''\<rparr>, ts_overrides = []\<rparr>\<rparr>"

lemma demo_template_renders:
  "\<exists>rd. render_template demo_registry demo_template w = (Inr rd, w) \<and>
     rd_main_components rd = [language_component ''python'' ''1'']"
proof -
  have ref: "resolve_component_ref demo_registry ''python@1'' = Inr (language_component ''python'' ''1'')" by code_simp
  have img: "component_image_ref demo_registry (language_component ''python'' ''1'') = Some ''python:1''" by code_simp
  have main: "is_main (language_component ''python'' ''1'')" by (simp add: is_main_def language_component_def)
  show ?thesis
    by (simp add: render_template_def demo_template_def em_simps ref img main Let_def List.map_filter_def)
qed

theorem render_template_images_witness:
  "\<exists>rd. render_template demo_registry demo_template (demo_world empty_db demo_registry) =
      (Inr rd, demo_world empty_db demo_registry) \<and>
    resolve_component_image demo_registry (language_component ''python'' ''1'') = Inr (sp_image (rd_sandbox_spec rd))"
proof -
  obtain rd where rd: "render_template demo_registry demo_template (demo_world empty_db demo_registry) =
      (Inr rd, demo_world empty_db demo_registry)" "rd_main_components rd = [language_component ''python'' ''1'']"
    using demo_template_renders by blast
  have "resolve_component_image demo_registry (language_component ''python'' ''1'') = Inr (sp_image (rd_sandbox_spec rd))"
    using conjunct1 [OF render_template_images [OF rd(1)]] unfolding rd(2) by simp
  with rd(1) show ?thesis by blast
qed

theorem render_template_limits_witness:
  "\<exists>rd. render_template demo_registry demo_template (demo_world empty_db demo_registry) =
      (Inr rd, demo_world empty_db demo_registry) \<and> 30 \<le> sp_wall_clock_seconds (rd_sandbox_spec rd)"
proof -
  obtain rd where rd: "render_template demo_registry demo_template (demo_world empty_db demo_registry) =
      (Inr rd, demo_world empty_db demo_registry)" "rd_main_components rd = [language_component ''python'' ''1'']"
    using demo_template_renders by blast
  with render_template_limits [OF rd(1), of "language_component ''python'' ''1''"]
  show ?thesis by (auto simp: language_component_def)
qed

theorem render_template_environment_witness:
  "\<exists>rd. render_template demo_registry demo_template (demo_world empty_db demo_registry) =
      (Inr rd, demo_world empty_db demo_registry) \<and>
    set (map fst (sp_env (rd_sandbox_spec rd))) \<subseteq> main_vars (rd_main_components rd) \<union> dsn_vars (rd_sidecar_components rd)"
proof -
  obtain rd where rd: "render_template demo_registry demo_template (demo_world empty_db demo_registry) =
      (Inr rd, demo_world empty_db demo_registry)"
    using demo_template_renders by blast
  with render_template_environment [OF rd] show ?thesis by blast
qed

end
