(* ===== verification/Quota.thy ===== *)
theory Quota
  imports Store
begin

section \<open>Quotas\<close>

text \<open>
  \<open>app/services/quota_service.py\<close>: a tenant's current position against its ceilings, the check
  that runs before a sandbox is created, and the administrator's update. The defaults the service
  is constructed with are an argument.
\<close>

record quota_defaults =
  default_max_concurrent_sandboxes :: "int option"
  default_max_cpu_millicores :: "int option"
  default_max_memory_mb :: "int option"
  default_max_monthly_minutes :: "int option"

record quota_usage =
  concurrent_sandboxes :: int
  cpu_millicores :: int
  memory_mb :: int
  monthly_minutes :: int
  max_concurrent_sandboxes :: "int option"
  max_cpu_millicores :: "int option"
  max_memory_mb :: "int option"
  max_monthly_minutes :: "int option"

subsection \<open>Resource accounting\<close>

definition terminal_states :: "sandbox_state list" where
  "terminal_states = [Terminated, Failed]"

definition weight_class_budget :: "(string \<times> int \<times> int) list" where
  "weight_class_budget = [(''light'', 500, 512), (''standard'', 1000, 1024), (''heavy'', 2000, 4096)]"

definition default_budget :: "int \<times> int" where
  "default_budget = (1000, 1024)"

definition budget_for :: "string \<Rightarrow> int \<times> int" where
  "budget_for wc = (case map_of weight_class_budget wc of None \<Rightarrow> default_budget | Some b \<Rightarrow> b)"

definition millicores_from_row :: "sandbox_row \<Rightarrow> int" where
  "millicores_from_row row = fst (budget_for (sb_weight_class row))"

definition memory_mb_from_row :: "sandbox_row \<Rightarrow> int" where
  "memory_mb_from_row row = snd (budget_for (sb_weight_class row))"

definition millicores_from_spec :: "resource_spec \<Rightarrow> exn + int" where
  "millicores_from_spec resources = map_sum id (\<lambda>n. n div 1000000) (parse_cpu_to_nanocpus (res_cpu resources))"

definition memory_mb_from_spec :: "resource_spec \<Rightarrow> exn + int" where
  "memory_mb_from_spec resources = map_sum id (\<lambda>n. n div (1024 * 1024)) (parse_memory_to_bytes (res_memory resources))"

subsection \<open>The service\<close>

definition default_quota :: "quota_defaults \<Rightarrow> string \<Rightarrow> quota_row" where
  "default_quota df tenant_id =
     \<lparr>qt_tenant_id = tenant_id,
      qt_max_concurrent_sandboxes = default_max_concurrent_sandboxes df,
      qt_max_cpu_millicores = default_max_cpu_millicores df,
      qt_max_memory_mb = default_max_memory_mb df,
      qt_max_monthly_minutes = default_max_monthly_minutes df\<rparr>"

definition quota_get_or_create :: "quota_defaults \<Rightarrow> string \<Rightarrow> quota_row prog" where
  "quota_get_or_create df tenant_id =
     bind_em (query_db (\<lambda>d. row_get qt_tenant_id tenant_id (d_quotas d))) (\<lambda>found.
     case found of
       Some row \<Rightarrow> return_em row
     | None \<Rightarrow>
         (let row = default_quota df tenant_id
          in seq_em (update_db (\<lambda>d. d\<lparr>d_quotas := row_put qt_tenant_id row (d_quotas d)\<rparr>)) (return_em row)))"

definition live_sandboxes :: "string \<Rightarrow> db \<Rightarrow> sandbox_row list" where
  "live_sandboxes tenant_id d =
     filter (\<lambda>s. sb_tenant_id s = tenant_id \<and> sb_state s \<notin> set terminal_states) (d_sandboxes d)"

text \<open>\<open>SUM(duration_ms)\<close> skips the rows in which the column is NULL.\<close>

definition monthly_minutes_used :: "string \<Rightarrow> db \<Rightarrow> int \<Rightarrow> int" where
  "monthly_minutes_used tenant_id d now =
     sum_list (map (\<lambda>r. case rn_duration_ms r of None \<Rightarrow> 0 | Some n \<Rightarrow> n)
       (filter (\<lambda>r. rn_tenant_id r = tenant_id \<and> month_start now \<le> rn_created_at r) (d_runs d))) div 60000"

definition quota_usage_of :: "quota_defaults \<Rightarrow> string \<Rightarrow> quota_usage prog" where
  "quota_usage_of df tenant_id =
     bind_em (quota_get_or_create df tenant_id) (\<lambda>quota.
     bind_em (query_db (live_sandboxes tenant_id)) (\<lambda>live.
     let weighted = qt_max_cpu_millicores quota \<noteq> None \<or> qt_max_memory_mb quota \<noteq> None;
         cpu = (if weighted then sum_list (map millicores_from_row live) else 0);
         mem = (if weighted then sum_list (map memory_mb_from_row live) else 0)
     in bind_em (if qt_max_monthly_minutes quota \<noteq> None
                 then bind_em utc_now (\<lambda>now. query_db (\<lambda>d. monthly_minutes_used tenant_id d now))
                 else return_em 0) (\<lambda>minutes.
        return_em
          \<lparr>concurrent_sandboxes = int (length live), cpu_millicores = cpu, memory_mb = mem,
           monthly_minutes = minutes,
           max_concurrent_sandboxes = qt_max_concurrent_sandboxes quota,
           max_cpu_millicores = qt_max_cpu_millicores quota,
           max_memory_mb = qt_max_memory_mb quota,
           max_monthly_minutes = qt_max_monthly_minutes quota\<rparr>)))"

fun exceeds :: "int \<Rightarrow> int option \<Rightarrow> bool" where
  "exceeds n None = False"
| "exceeds n (Some cap) = (n > cap)"

fun exhausted :: "int \<Rightarrow> int option \<Rightarrow> bool" where
  "exhausted n None = False"
| "exhausted n (Some cap) = (n \<ge> cap)"

definition quota_check :: "quota_defaults \<Rightarrow> string \<Rightarrow> resource_spec option \<Rightarrow> unit prog" where
  "quota_check df tenant_id resources =
     bind_em (quota_usage_of df tenant_id) (\<lambda>usage.
     if exceeds (concurrent_sandboxes usage + 1) (max_concurrent_sandboxes usage)
     then raise_em (QuotaExceededError ''concurrent sandbox'')
     else
       bind_em (case resources of None \<Rightarrow> return_em 0 | Some r \<Rightarrow> lift_em (millicores_from_spec r)) (\<lambda>pending_cpu.
       if exceeds (cpu_millicores usage + pending_cpu) (max_cpu_millicores usage)
       then raise_em (QuotaExceededError ''cpu'')
       else
         bind_em (case resources of None \<Rightarrow> return_em 0 | Some r \<Rightarrow> lift_em (memory_mb_from_spec r)) (\<lambda>pending_memory.
         if exceeds (memory_mb usage + pending_memory) (max_memory_mb usage)
         then raise_em (QuotaExceededError ''memory'')
         else if exhausted (monthly_minutes usage) (max_monthly_minutes usage)
         then raise_em (QuotaExceededError ''monthly minute'')
         else return_em ())))"

definition updated_field :: "bool \<Rightarrow> 'a option \<Rightarrow> 'a option \<Rightarrow> 'a option" where
  "updated_field clear_unset new old = (if new \<noteq> None \<or> clear_unset then new else old)"

definition set_quota ::
  "quota_defaults \<Rightarrow> string \<Rightarrow> int option \<Rightarrow> int option \<Rightarrow> int option \<Rightarrow> int option \<Rightarrow> bool \<Rightarrow> quota_row prog" where
  "set_quota df tenant_id concurrent cpu mem minutes clear_unset =
     bind_em (quota_get_or_create df tenant_id) (\<lambda>quota.
     let quota' = quota\<lparr>
           qt_max_concurrent_sandboxes := updated_field clear_unset concurrent (qt_max_concurrent_sandboxes quota),
           qt_max_cpu_millicores := updated_field clear_unset cpu (qt_max_cpu_millicores quota),
           qt_max_memory_mb := updated_field clear_unset mem (qt_max_memory_mb quota),
           qt_max_monthly_minutes := updated_field clear_unset minutes (qt_max_monthly_minutes quota)\<rparr>
     in seq_em (update_db (\<lambda>d. d\<lparr>d_quotas := row_put qt_tenant_id quota' (d_quotas d)\<rparr>))
        (seq_em commit (return_em quota')))"

subsection \<open>How the service runs\<close>

definition quota_of :: "quota_defaults \<Rightarrow> string \<Rightarrow> db \<Rightarrow> quota_row" where
  "quota_of df t d = (case row_get qt_tenant_id t (d_quotas d) of None \<Rightarrow> default_quota df t | Some q \<Rightarrow> q)"

definition with_quota :: "quota_defaults \<Rightarrow> string \<Rightarrow> world \<Rightarrow> world" where
  "with_quota df t w = (case row_get qt_tenant_id t (d_quotas (w_db w)) of
     Some _ \<Rightarrow> w
   | None \<Rightarrow> w\<lparr>w_db := (w_db w)\<lparr>d_quotas := row_put qt_tenant_id (default_quota df t) (d_quotas (w_db w))\<rparr>\<rparr>)"

lemma quota_get_or_create_run:
  "quota_get_or_create df t w = (Inr (quota_of df t (w_db w)), with_quota df t w)"
  by (simp add: quota_get_or_create_def quota_of_def with_quota_def em_simps Let_def split: option.split)

lemma with_quota_simps [simp]:
  "d_sandboxes (w_db (with_quota df t w)) = d_sandboxes (w_db w)"
  "d_runs (w_db (with_quota df t w)) = d_runs (w_db w)"
  "w_committed (with_quota df t w) = w_committed w" "w_env (with_quota df t w) = w_env w"
  "w_clock (with_quota df t w) = w_clock w" "w_calls (with_quota df t w) = w_calls w"
  by (simp_all add: with_quota_def split: option.split)

lemma quota_of_tenant [simp]: "qt_tenant_id (quota_of df t d) = t"
  by (auto simp: quota_of_def default_quota_def dest: row_get_key split: option.split)

lemma with_quota_other:
  "u \<noteq> t \<Longrightarrow> row_get qt_tenant_id u (d_quotas (w_db (with_quota df t w))) = row_get qt_tenant_id u (d_quotas (w_db w))"
  by (simp add: with_quota_def row_get_put default_quota_def split: option.split)

lemma live_with_quota [simp]: "live_sandboxes t (w_db (with_quota df u w)) = live_sandboxes t (w_db w)"
  by (simp add: live_sandboxes_def)

lemma minutes_with_quota [simp]:
  "monthly_minutes_used t (w_db (with_quota df u w)) now = monthly_minutes_used t (w_db w) now"
  by (simp add: monthly_minutes_used_def)

lemma quota_get_or_create_leaves [moves_intro]:
  "leaves w_committed (quota_get_or_create df t)" "leaves w_calls (quota_get_or_create df t)"
  "leaves w_env (quota_get_or_create df t)" "leaves (\<lambda>w. d_sandboxes (w_db w)) (quota_get_or_create df t)"
  by (auto simp: moves_def quota_get_or_create_run)

lemma budget_positive: "0 < millicores_from_row r" "0 < memory_mb_from_row r"
  by (auto simp: millicores_from_row_def memory_mb_from_row_def budget_for_def weight_class_budget_def
      default_budget_def)

subsection \<open>Properties\<close>

text \<open>
  The quota check admits one more sandbox exactly when each configured ceiling leaves room: the
  live sandboxes and this one stay within the concurrency limit, the budgets charged for the live
  ones plus the pending request stay within the CPU and memory limits, and the minutes already used
  this month are below the monthly limit; a dimension without a cap never refuses. When it
  refuses it raises \<open>QuotaExceededError\<close>. It neither commits anything nor calls the backend.
\<close>

theorem quota_check_decision:
  assumes "(case resources of None \<Rightarrow> Inr 0 | Some r \<Rightarrow> millicores_from_spec r) = Inr cpu"
    and "(case resources of None \<Rightarrow> Inr 0 | Some r \<Rightarrow> memory_mb_from_spec r) = Inr mem"
  shows "let q = quota_of df t (w_db w); live = live_sandboxes t (w_db w);
             fits = (\<lambda>n cap. case cap of None \<Rightarrow> True | Some c \<Rightarrow> n \<le> c);
             (r, w') = quota_check df t resources w
         in (r = Inr () \<longleftrightarrow>
               fits (int (length live) + 1) (qt_max_concurrent_sandboxes q) \<and>
               fits (sum_list (map millicores_from_row live) + cpu) (qt_max_cpu_millicores q) \<and>
               fits (sum_list (map memory_mb_from_row live) + mem) (qt_max_memory_mb q) \<and>
               fits (monthly_minutes_used t (w_db w) (e_now (w_env w) (w_clock w)) + 1) (qt_max_monthly_minutes q)) \<and>
            (r = Inr () \<or> (\<exists>m. r = Inl (QuotaExceededError m))) \<and>
            w_committed w' = w_committed w \<and> w_calls w' = w_calls w \<and>
            d_sandboxes (w_db w') = d_sandboxes (w_db w)"
proof -
  let ?q = "quota_of df t (w_db w)"
  have cpu: "(case resources of None \<Rightarrow> return_em 0 | Some r \<Rightarrow> lift_em (millicores_from_spec r)) v = (Inr cpu, v)"
    and mem: "(case resources of None \<Rightarrow> return_em 0 | Some r \<Rightarrow> lift_em (memory_mb_from_spec r)) v = (Inr mem, v)"
    for v :: world
    using assms by (auto split: option.splits)
  show ?thesis
    by (cases "qt_max_concurrent_sandboxes ?q"; cases "qt_max_cpu_millicores ?q";
        cases "qt_max_memory_mb ?q"; cases "qt_max_monthly_minutes ?q")
      (simp_all add: quota_check_def quota_usage_of_def quota_get_or_create_run em_simps cpu mem Let_def
        linorder_not_less zless_iff_Suc_zadd [symmetric] not_le add1_zle_eq)
qed

text \<open>
  An administrator's update treats the four ceilings independently: a field that is given
  replaces the cap, a field left out keeps it (or removes it when the caller asked for unset
  fields to be cleared), no other tenant's quota moves, and the result is committed.
\<close>

theorem set_quota_effect:
  "let old = quota_of df t (w_db w);
       (r, w') = set_quota df t concurrent cpu mem minutes clear w;
       q = quota_of df t (w_db w')
   in r = Inr q \<and> w_committed w' = w_db w' \<and>
      qt_max_concurrent_sandboxes q = (case concurrent of Some n \<Rightarrow> Some n | None \<Rightarrow>
        if clear then None else qt_max_concurrent_sandboxes old) \<and>
      qt_max_cpu_millicores q = (case cpu of Some n \<Rightarrow> Some n | None \<Rightarrow>
        if clear then None else qt_max_cpu_millicores old) \<and>
      qt_max_memory_mb q = (case mem of Some n \<Rightarrow> Some n | None \<Rightarrow>
        if clear then None else qt_max_memory_mb old) \<and>
      qt_max_monthly_minutes q = (case minutes of Some n \<Rightarrow> Some n | None \<Rightarrow>
        if clear then None else qt_max_monthly_minutes old) \<and>
      (u = t \<or> row_get qt_tenant_id u (d_quotas (w_db w')) = row_get qt_tenant_id u (d_quotas (w_db w)))"
proof -
  let ?old = "quota_of df t (w_db w)"
  let ?new = "?old\<lparr>
     qt_max_concurrent_sandboxes := updated_field clear concurrent (qt_max_concurrent_sandboxes ?old),
     qt_max_cpu_millicores := updated_field clear cpu (qt_max_cpu_millicores ?old),
     qt_max_memory_mb := updated_field clear mem (qt_max_memory_mb ?old),
     qt_max_monthly_minutes := updated_field clear minutes (qt_max_monthly_minutes ?old)\<rparr>"
  let ?d = "(w_db (with_quota df t w))\<lparr>d_quotas := row_put qt_tenant_id ?new (d_quotas (w_db (with_quota df t w)))\<rparr>"
  have run: "set_quota df t concurrent cpu mem minutes clear w =
      (Inr ?new, (with_quota df t w)\<lparr>w_db := ?d, w_committed := ?d\<rparr>)"
    by (simp add: set_quota_def quota_get_or_create_run em_simps Let_def)
  have new: "quota_of df t ?d = ?new"
    unfolding quota_of_def [of df t ?d] by (simp add: row_get_put)
  have other: "u = t \<or> row_get qt_tenant_id u (d_quotas ?d) = row_get qt_tenant_id u (d_quotas (w_db w))"
    by (cases "u = t") (simp_all add: row_get_put with_quota_other)
  have w': "w_committed (snd (set_quota df t concurrent cpu mem minutes clear w)) =
        w_db (snd (set_quota df t concurrent cpu mem minutes clear w))"
    and d': "w_db (snd (set_quota df t concurrent cpu mem minutes clear w)) = ?d"
    and r: "fst (set_quota df t concurrent cpu mem minutes clear w) = Inr ?new"
    by (simp_all add: run)
  show ?thesis
    unfolding Let_def split_beta d' new r w'
    by (intro conjI refl) (rule other | simp add: updated_field_def split: option.split)+
qed

definition two_live_db :: db where
  "two_live_db = empty_db\<lparr>d_quotas :=
     [\<lparr>qt_tenant_id = ''t1'', qt_max_concurrent_sandboxes = Some 1, qt_max_cpu_millicores = Some 2000,
       qt_max_memory_mb = None, qt_max_monthly_minutes = None\<rparr>]\<rparr>"

theorem quota_check_decision_witness:
  "fst (quota_check \<lparr>default_max_concurrent_sandboxes = None, default_max_cpu_millicores = None,
      default_max_memory_mb = None, default_max_monthly_minutes = None\<rparr> ''t1''
     (Some \<lparr>res_cpu = ''2'', res_memory = ''1Gi'', res_ephemeral_storage_mb = None\<rparr>)
     (demo_world two_live_db empty_registry)) = Inr ()"
proof -
  let ?res = "\<lparr>res_cpu = ''2'', res_memory = ''1Gi'', res_ephemeral_storage_mb = None\<rparr>"
  let ?df = "\<lparr>default_max_concurrent_sandboxes = None, default_max_cpu_millicores = None,
      default_max_memory_mb = None, default_max_monthly_minutes = None\<rparr>"
  have c: "(case Some ?res of None \<Rightarrow> Inr 0 | Some r \<Rightarrow> millicores_from_spec r) = Inr 2000" by code_simp
  have m: "(case Some ?res of None \<Rightarrow> Inr 0 | Some r \<Rightarrow> memory_mb_from_spec r) = Inr 1024" by code_simp
  show ?thesis
    using quota_check_decision [OF c m, of ?df "''t1''" "demo_world two_live_db empty_registry"]
    by (auto simp: quota_of_def two_live_db_def demo_world_def row_get_def live_sandboxes_def empty_db_def
        Let_def split: prod.splits)
qed

end
