(* ===== verification/Audit_Log.thy ===== *)
theory Audit_Log
  imports Store "HOL-Library.Char_ord" "HOL-Library.Product_Lexorder"
begin

section \<open>The audit trail\<close>

text \<open>
  \<open>app/services/audit_service.py\<close>. \<open>record\<close> queues an entry in the caller's session, so it lives and
  dies with the caller's transaction; \<open>record_standalone\<close> commits an entry in a session of its own
  and swallows a failure. The order on identifiers is the order of their characters.
\<close>

record audit_config =
  au_enabled :: bool
  au_standalone :: bool

text \<open>Python's \<open>a or b\<close> on an optional string: \<open>None\<close> and the empty string are false.\<close>

fun py_or :: "string option \<Rightarrow> string option \<Rightarrow> string option" where
  "py_or None b = b"
| "py_or (Some s) b = (if s = [] then b else Some s)"

definition actor_for :: "principal option \<Rightarrow> string" where
  "actor_for p =
     (case p of
        None \<Rightarrow> ''system''
      | Some q \<Rightarrow> (case py_or (pr_user_id q) None of
                    Some u \<Rightarrow> u
                  | None \<Rightarrow> ''service:'' @ pr_tenant_id q))"

definition actor_from_ids :: "string \<Rightarrow> string option \<Rightarrow> string" where
  "actor_from_ids tenant_id user_id =
     actor_for (Some \<lparr>pr_tenant_id = tenant_id, pr_user_id = user_id, pr_role = ''user''\<rparr>)"

record audit_entry =
  ae_action :: string
  ae_principal :: "principal option"
  ae_actor :: "string option"
  ae_tenant_id :: "string option"
  ae_target :: "string option"
  ae_detail :: "json option"

definition audit_row_of :: "audit_entry \<Rightarrow> string \<Rightarrow> int \<Rightarrow> audit_row" where
  "audit_row_of entry i created_at =
     \<lparr>al_id = i,
      al_tenant_id = py_or (ae_tenant_id entry) (map_option pr_tenant_id (ae_principal entry)),
      al_actor = (case py_or (ae_actor entry) None of
                    Some a \<Rightarrow> a
                  | None \<Rightarrow> actor_for (ae_principal entry)),
      al_action = ae_action entry, al_target = ae_target entry, al_detail = ae_detail entry,
      al_created_at = created_at\<rparr>"

definition audit_record :: "audit_config \<Rightarrow> audit_entry \<Rightarrow> unit prog" where
  "audit_record cfg entry =
     (if \<not> au_enabled cfg then return_em ()
      else bind_em fresh_uuid (\<lambda>i. bind_em db_now (\<lambda>created_at.
           update_db (\<lambda>d. d\<lparr>d_audit := d_audit d @ [audit_row_of entry i created_at]\<rparr>))))"

text \<open>
  The session of its own: a new transaction on the committed database. Whether the database accepts
  the write is an argument; a failure is logged and swallowed.
\<close>

definition record_standalone :: "audit_config \<Rightarrow> bool \<Rightarrow> audit_entry \<Rightarrow> unit prog" where
  "record_standalone cfg accepted entry =
     (if \<not> au_enabled cfg \<or> \<not> au_standalone cfg then return_em ()
      else catch_em
        (if \<not> accepted then raise_em (OtherException ''database'')
         else bind_em fresh_uuid (\<lambda>i. bind_em db_now (\<lambda>created_at.
           modify_em (\<lambda>w. w\<lparr>
             w_committed := (w_committed w)\<lparr>d_audit := d_audit (w_committed w) @ [audit_row_of entry i created_at]\<rparr>,
             w_db := (w_db w)\<lparr>d_audit := d_audit (w_db w) @ [audit_row_of entry i created_at]\<rparr>\<rparr>))))
        (\<lambda>_. True) (\<lambda>_. return_em ()))"

definition audit_matches :: "'a option \<Rightarrow> 'a option \<Rightarrow> bool" where
  "audit_matches wanted x = (case wanted of None \<Rightarrow> True | Some y \<Rightarrow> x = Some y)"

definition audit_query ::
  "string option \<Rightarrow> string option \<Rightarrow> string option \<Rightarrow> string option \<Rightarrow> db \<Rightarrow> audit_row list" where
  "audit_query tenant_id actor action target d =
     rev (sort_key (\<lambda>r. (al_created_at r, al_id r))
       (filter (\<lambda>r. audit_matches tenant_id (al_tenant_id r) \<and> audit_matches actor (Some (al_actor r)) \<and>
                    audit_matches action (Some (al_action r)) \<and> audit_matches target (al_target r)) (d_audit d)))"

subsection \<open>Lemmas\<close>

lemma py_or_nonempty: "py_or x None = Some s \<Longrightarrow> s \<noteq> []"
  by (cases x) (auto split: if_splits)

lemma actor_for_nonempty: "actor_for p \<noteq> []"
  by (auto simp: actor_for_def dest: py_or_nonempty split: option.split)

lemma audit_row_of_simps [simp]:
  "al_action (audit_row_of entry i t) = ae_action entry" "al_target (audit_row_of entry i t) = ae_target entry"
  "al_id (audit_row_of entry i t) = i"
  by (simp_all add: audit_row_of_def)

lemma audit_row_actor: "al_actor (audit_row_of entry i t) \<noteq> []"
  by (auto simp: audit_row_of_def actor_for_nonempty dest: py_or_nonempty split: option.split)

lemma audit_record_run:
  "audit_record cfg entry w =
     (Inr (), if au_enabled cfg
       then w\<lparr>w_uuids := Suc (w_uuids w), w_clock := Suc (w_clock w),
              w_db := (w_db w)\<lparr>d_audit := d_audit (w_db w) @
                [audit_row_of entry (e_uuid (w_env w) (w_uuids w)) (e_db_now (w_env w) (w_clock w))]\<rparr>\<rparr>
       else w)"
  by (simp add: audit_record_def em_simps)

definition audit_only :: "world \<Rightarrow> world \<Rightarrow> bool" where
  "audit_only w w' \<longleftrightarrow>
     (\<exists>xs. w_db w' = (w_db w)\<lparr>d_audit := xs\<rparr>) \<and> w_committed w' = w_committed w \<and> w_calls w' = w_calls w \<and>
     w_env w' = w_env w \<and> w_active w' = w_active w \<and> w_registry w' = w_registry w"

lemma audit_record_only: "audit_record cfg entry w = (r, w') \<Longrightarrow> r = Inr () \<and> audit_only w w'"
  by (auto simp: audit_record_run audit_only_def intro: exI [of _ "d_audit (w_db w)"] split: if_splits)

lemma audit_record_leaves [moves_intro]:
  "leaves w_committed (audit_record cfg entry)" "leaves w_calls (audit_record cfg entry)"
  "leaves w_env (audit_record cfg entry)" "leaves (\<lambda>w. d_sandboxes (w_db w)) (audit_record cfg entry)"
  by (auto simp: moves_def audit_record_run)

subsection \<open>Properties\<close>

text \<open>
  An audit entry lives and dies with its transaction: queueing one changes nothing that is
  committed; if the caller then commits, the committed trail has grown by exactly that entry, with a
  non-empty actor, and if the caller rolls back the database is what it was and no entry claims the
  action happened.
\<close>

theorem audit_follows_transaction:
  "let (r, w1) = audit_record cfg entry w;
       (_, committed) = commit w1; (_, dropped) = rollback w1
   in r = Inr () \<and> w_committed w1 = w_committed w \<and> w_db dropped = w_committed w \<and>
      w_committed dropped = w_committed w \<and>
      (if au_enabled cfg
       then \<exists>row. w_committed committed = (w_db w)\<lparr>d_audit := d_audit (w_db w) @ [row]\<rparr> \<and>
              al_action row = ae_action entry \<and> al_target row = ae_target entry \<and> al_actor row \<noteq> []
       else w_committed committed = w_db w)"
  by (cases "au_enabled cfg") (simp add: audit_record_run Let_def, metis audit_row_of_simps(1,2) audit_row_actor,
      simp add: audit_record_run Let_def)

text \<open>
  The standalone entry point never fails its caller, whatever the database does, and touches
  nothing but the trail: it adds at most one entry, which is durable at once, and a later rollback of
  the caller's own session does not remove it.
\<close>

theorem record_standalone_best_effort:
  "\<exists>w' rows. record_standalone cfg accepted entry w = (Inr (), w') \<and>
     w_committed w' = (w_committed w)\<lparr>d_audit := d_audit (w_committed w) @ rows\<rparr> \<and>
     w_committed (snd (rollback w')) = w_committed w' \<and> w_db (snd (rollback w')) = w_committed w' \<and>
     length rows = (if au_enabled cfg \<and> au_standalone cfg \<and> accepted then 1 else 0) \<and>
     w_calls w' = w_calls w"
proof (cases "au_enabled cfg \<and> au_standalone cfg \<and> accepted")
  case True
  then show ?thesis by (simp add: record_standalone_def em_simps) (rule exI, rule conjI, rule refl, simp)
next
  case False
  then have "record_standalone cfg accepted entry w = (Inr (), w)"
    by (auto simp: record_standalone_def em_simps)
  with False show ?thesis by (intro exI [of _ w] exI [of _ "[]"]) auto
qed

text \<open>
  The administrator's listing returns exactly the entries the filters select, newest first,
  with ties between entries of one transaction resolved by the identifier, so that paging over it
  neither skips nor repeats an entry.
\<close>

theorem audit_query_correct:
  "set (audit_query tenant_id actor action target d) =
     {r \<in> set (d_audit d). (tenant_id = None \<or> al_tenant_id r = tenant_id) \<and> (actor = None \<or> actor = Some (al_actor r)) \<and>
        (action = None \<or> action = Some (al_action r)) \<and> (target = None \<or> al_target r = target)} \<and>
   sorted (map (\<lambda>r. (al_created_at r, al_id r)) (rev (audit_query tenant_id actor action target d))) \<and>
   (if distinct (map al_id (d_audit d)) then distinct (map al_id (audit_query tenant_id actor action target d)) else True)"
proof (intro conjI)
  let ?P = "\<lambda>r. audit_matches tenant_id (al_tenant_id r) \<and> audit_matches actor (Some (al_actor r)) \<and>
    audit_matches action (Some (al_action r)) \<and> audit_matches target (al_target r)"
  have q: "audit_query tenant_id actor action target d = rev (sort_key (\<lambda>r. (al_created_at r, al_id r)) (filter ?P (d_audit d)))"
    by (simp add: audit_query_def)
  have P: "?P r \<longleftrightarrow> (tenant_id = None \<or> al_tenant_id r = tenant_id) \<and> (actor = None \<or> actor = Some (al_actor r)) \<and>
        (action = None \<or> action = Some (al_action r)) \<and> (target = None \<or> al_target r = target)" for r
    unfolding audit_matches_def
    by (cases tenant_id; cases actor; cases action; cases target) auto
  show "set (audit_query tenant_id actor action target d) =
     {r \<in> set (d_audit d). (tenant_id = None \<or> al_tenant_id r = tenant_id) \<and> (actor = None \<or> actor = Some (al_actor r)) \<and>
        (action = None \<or> action = Some (al_action r)) \<and> (target = None \<or> al_target r = target)}"
    unfolding q P by simp
  show "sorted (map (\<lambda>r. (al_created_at r, al_id r)) (rev (audit_query tenant_id actor action target d)))"
    unfolding q by simp
  have "distinct (map al_id (audit_query tenant_id actor action target d))" if "distinct (map al_id (d_audit d))"
  proof -
    have "distinct (map al_id (filter ?P (d_audit d)))" using that by (simp add: distinct_map_filter)
    then show ?thesis unfolding q by (simp add: distinct_map)
  qed
  then show "if distinct (map al_id (d_audit d)) then distinct (map al_id (audit_query tenant_id actor action target d)) else True"
    by simp
qed

end
