(* ===== verification/Backend.thy ===== *)
theory Backend
  imports Store
begin

section \<open>The provisioner and the object store\<close>

text \<open>
  The operations of the \<open>Provisioner\<close> protocol (\<open>app/provisioners/base.py\<close>) and of the object store
  that the services call. Each asks the environment and records the question with its answer in the
  trace. The archiver's image, which the workspace operations pass along unchanged, is left out.
  \<open>parse_find_output\<close>, the one function of the module with a body, is translated.
\<close>

definition prov_acquire :: "sandbox_spec \<Rightarrow> sandbox_handle prog" where
  "prov_acquire spec = external (\<lambda>en tr. e_acquire en tr spec) (CallAcquire spec)"

definition prov_exec_batch :: "sandbox_handle \<Rightarrow> batch_command \<Rightarrow> batch_run_result prog" where
  "prov_exec_batch h c = external (\<lambda>en tr. e_exec_batch en tr h c) (CallExecBatch h c)"

definition prov_status :: "sandbox_handle \<Rightarrow> sandbox_state prog" where
  "prov_status h = external (\<lambda>en tr. e_status en tr h) (CallStatus h)"

definition prov_attach :: "sandbox_handle \<Rightarrow> unit prog" where
  "prov_attach h = external (\<lambda>en tr. e_attach en tr h) (CallAttach h)"

definition prov_put_files :: "sandbox_handle \<Rightarrow> (string \<times> string) list \<Rightarrow> unit prog" where
  "prov_put_files h fs = external (\<lambda>en tr. e_put_files en tr h fs) (CallPutFiles h fs)"

definition prov_get_file :: "sandbox_handle \<Rightarrow> string \<Rightarrow> string prog" where
  "prov_get_file h p = external (\<lambda>en tr. e_get_file en tr h p) (CallGetFile h p)"

definition prov_list_tree :: "sandbox_handle \<Rightarrow> string \<Rightarrow> (string \<times> bool) list prog" where
  "prov_list_tree h p = external (\<lambda>en tr. e_list_tree en tr h p) (CallListTree h p)"

definition prov_recycle :: "sandbox_handle \<Rightarrow> unit prog" where
  "prov_recycle h = external (\<lambda>en tr. e_recycle en tr h) (CallRecycle h)"

definition prov_destroy :: "sandbox_handle \<Rightarrow> unit prog" where
  "prov_destroy h = external (\<lambda>en tr. e_destroy en tr h) (CallDestroy h)"

definition prov_archive_workspace :: "string \<Rightarrow> string prog" where
  "prov_archive_workspace i = external (\<lambda>en tr. e_archive_workspace en tr i) (CallArchiveWorkspace i)"

definition prov_delete_workspace_volume :: "string \<Rightarrow> unit prog" where
  "prov_delete_workspace_volume i = external (\<lambda>en tr. e_delete_volume en tr i) (CallDeleteVolume i)"

definition prov_measure_workspace_usage :: "string \<Rightarrow> int prog" where
  "prov_measure_workspace_usage i = external (\<lambda>en tr. e_measure en tr i) (CallMeasure i)"

definition prov_restore_workspace :: "string \<Rightarrow> string \<Rightarrow> unit prog" where
  "prov_restore_workspace i data = external (\<lambda>en tr. e_restore_workspace en tr i data) (CallRestoreWorkspace i data)"

definition prov_list_sandbox_refs :: "native_sandbox_ref list prog" where
  "prov_list_sandbox_refs = external e_list_refs CallListRefs"

definition storage_put :: "string \<Rightarrow> string \<Rightarrow> unit prog" where
  "storage_put k data = external (\<lambda>en tr. e_storage_put en tr k data) (CallStoragePut k data)"

definition storage_get :: "string \<Rightarrow> string prog" where
  "storage_get k = external (\<lambda>en tr. e_storage_get en tr k) (CallStorageGet k)"

definition storage_delete :: "string \<Rightarrow> unit prog" where
  "storage_delete k = external (\<lambda>en tr. e_storage_delete en tr k) (CallStorageDelete k)"

text \<open>\<open>load_hook(module)\<close> and the hook's coroutine, which live in component packages.\<close>

definition hook_on_provision :: "string \<Rightarrow> sandbox_handle \<Rightarrow> unit prog" where
  "hook_on_provision modl h = external (\<lambda>en tr. e_provision_hook en tr modl h) (CallProvisionHook modl h)"

definition hook_on_teardown :: "string \<Rightarrow> sandbox_handle \<Rightarrow> unit prog" where
  "hook_on_teardown modl h = external (\<lambda>en tr. e_teardown_hook en tr modl h) (CallTeardownHook modl h)"

lemmas backend_defs = prov_acquire_def prov_exec_batch_def prov_status_def prov_attach_def prov_put_files_def
  prov_get_file_def prov_list_tree_def prov_recycle_def prov_destroy_def prov_archive_workspace_def
  prov_delete_workspace_volume_def prov_measure_workspace_usage_def prov_restore_workspace_def
  prov_list_sandbox_refs_def storage_put_def storage_get_def storage_delete_def hook_on_provision_def
  hook_on_teardown_def

lemma external_leaves [moves_intro]:
  "leaves w_db (external ask event)" "leaves w_committed (external ask event)" "leaves w_env (external ask event)"
  "leaves w_active (external ask event)" "leaves w_registry (external ask event)"
  "leaves w_clock (external ask event)" "leaves w_uuids (external ask event)"
  "leaves (\<lambda>w. f (w_db w)) (external ask event)"
  by (simp_all add: moves_def)

subsection \<open>Frame rules of the session's primitives\<close>

lemma primitives_leave_calls [moves_intro]:
  "leaves w_calls commit" "leaves w_calls rollback" "leaves w_calls (update_db f)" "leaves w_calls (query_db q)"
  "leaves w_calls utc_now" "leaves w_calls db_now" "leaves w_calls fresh_uuid" "leaves w_calls fresh_token"
  by (simp_all add: moves_def)

lemma primitives_leave_env [moves_intro]:
  "leaves w_env commit" "leaves w_env rollback" "leaves w_env (update_db f)" "leaves w_env (query_db q)"
  "leaves w_env utc_now" "leaves w_env db_now" "leaves w_env fresh_uuid" "leaves w_env fresh_token"
  by (simp_all add: moves_def)

lemma primitives_leave_active [moves_intro]:
  "leaves w_active commit" "leaves w_active rollback" "leaves w_active (update_db f)" "leaves w_active (query_db q)"
  "leaves w_active utc_now" "leaves w_active db_now" "leaves w_active fresh_uuid" "leaves w_active fresh_token"
  by (simp_all add: moves_def)

lemma primitives_leave_registry [moves_intro]:
  "leaves w_registry commit" "leaves w_registry rollback" "leaves w_registry (update_db f)"
  "leaves w_registry (query_db q)" "leaves w_registry utc_now" "leaves w_registry db_now"
  "leaves w_registry fresh_uuid" "leaves w_registry fresh_token"
  by (simp_all add: moves_def)

lemma primitives_leave_committed [moves_intro]:
  "leaves w_committed rollback" "leaves w_committed (update_db f)" "leaves w_committed (query_db q)"
  "leaves w_committed utc_now" "leaves w_committed db_now" "leaves w_committed fresh_uuid"
  "leaves w_committed fresh_token"
  by (simp_all add: moves_def)

lemma primitives_leave_db [moves_intro]:
  "leaves w_db commit" "leaves w_db (query_db q)" "leaves w_db utc_now" "leaves w_db db_now"
  "leaves w_db fresh_uuid" "leaves w_db fresh_token"
  by (simp_all add: moves_def)

text \<open>The trace only grows: what a computation called is what it appended.\<close>

definition grows :: "world \<Rightarrow> world \<Rightarrow> bool" where
  "grows w w' \<longleftrightarrow> take (length (w_calls w)) (w_calls w') = w_calls w"

lemma grows_iff: "grows w w' \<longleftrightarrow> (\<exists>cs. w_calls w' = w_calls w @ cs)"
proof
  assume "grows w w'"
  then have "w_calls w' = w_calls w @ drop (length (w_calls w)) (w_calls w')"
    unfolding grows_def by (metis append_take_drop_id)
  then show "\<exists>cs. w_calls w' = w_calls w @ cs" by blast
qed (auto simp: grows_def)

interpretation trace: frame_relation grows
  by unfold_locales (auto simp: grows_iff)

declare trace.all_moves [moves_intro]

lemma external_grows [moves_intro]: "moves grows (external ask event)"
  by (simp add: moves_def grows_def)

definition new_calls :: "world \<Rightarrow> world \<Rightarrow> call list" where
  "new_calls w w' = drop (length (w_calls w)) (w_calls w')"

lemma new_calls_append: "w_calls w' = w_calls w @ cs \<Longrightarrow> new_calls w w' = cs"
  by (simp add: new_calls_def)

lemma new_calls_trans:
  "grows w v \<Longrightarrow> grows v u \<Longrightarrow> new_calls w u = new_calls w v @ new_calls v u"
  by (auto simp: grows_iff new_calls_def)

subsection \<open>The listing parser\<close>

definition line_break :: "char \<Rightarrow> bool" where
  "line_break c \<longleftrightarrow> c \<in> set [CHR 0x0A, CHR 0x0B, CHR 0x0C, CHR 0x0D, CHR 0x1C, CHR 0x1D, CHR 0x1E, CHR 0x85]"

text \<open>\<open>str.splitlines()\<close> on the characters of one byte: a carriage return and its line feed are one break.\<close>

fun splitlines :: "string \<Rightarrow> string list" where
  "splitlines [] = []"
| "splitlines (c # cs) =
     (if line_break c
      then [] # splitlines (if c = CHR 0x0D \<and> cs \<noteq> [] \<and> hd cs = CHR 0x0A then tl cs else cs)
      else case splitlines cs of
             [] \<Rightarrow> [[c]]
           | l # ls \<Rightarrow> (c # l) # ls)"

fun parse_find_lines :: "string list \<Rightarrow> (string \<times> bool) list" where
  "parse_find_lines [] = []"
| "parse_find_lines (line # lines) =
     (if line = [] then parse_find_lines lines
      else (case py_partition CHR ''|'' line of
              (kind, sep, rel) \<Rightarrow> (rel, kind = ''d'') # parse_find_lines lines))"

definition parse_find_output :: "string \<Rightarrow> (string \<times> bool) list" where
  "parse_find_output txt = parse_find_lines (splitlines txt)"

lemma splitlines_line:
  "list_all (\<lambda>c. \<not> line_break c) l \<Longrightarrow> splitlines (l @ CHR 0x0A # rest) = l # splitlines rest"
  by (induction l) (auto simp: line_break_def)

text \<open>What \<open>find -printf '%y|%P\n'\<close> writes for a listing.\<close>

definition find_output :: "(string \<times> bool) list \<Rightarrow> string" where
  "find_output entries =
     concat (map (\<lambda>(rel, d). (if d then ''d|'' else ''f|'') @ rel @ [CHR 0x0A]) entries)"

text \<open>
  The listing parser recovers what \<open>find\<close> printed: every entry with its path and its kind, in
  order, also when a path contains the separator, provided no path contains a line break.
\<close>

theorem parse_find_output_roundtrip:
  assumes "list_all (\<lambda>(rel, d). list_all (\<lambda>c. \<not> line_break c) rel) entries"
  shows "parse_find_output (find_output entries) = entries"
  using assms
proof (induction entries)
  case (Cons e es)
  obtain rel d where e: "e = (rel, d)" by (cases e)
  let ?l = "(if d then ''d|'' else ''f|'') @ rel"
  have "list_all (\<lambda>c. \<not> line_break c) ?l" using Cons.prems e by (auto simp: line_break_def)
  then have "splitlines (find_output (e # es)) = ?l # splitlines (find_output es)"
    using splitlines_line [of ?l "find_output es"] by (simp add: find_output_def e)
  moreover have "py_partition CHR ''|'' ?l = ((if d then ''d'' else ''f''), True, rel)"
    by (simp add: py_partition_def)
  ultimately show ?case
    using Cons by (simp add: parse_find_output_def e)
qed (simp add: parse_find_output_def find_output_def)

theorem parse_find_output_roundtrip_witness:
  "parse_find_output (find_output [(''src'', True), (''src/a|b.py'', False)]) = [(''src'', True), (''src/a|b.py'', False)]"
  by (rule parse_find_output_roundtrip) (simp add: line_break_def)

end
