(* ===== verification/Pool.thy ===== *)
theory Pool
  imports Backend
begin

section \<open>The warm pool\<close>

text \<open>
  \<open>app/services/pool_manager.py\<close> and \<open>app/services/weight_class_scheduler.py\<close>. The claim query takes
  the first matching member in table order that no other transaction has locked (\<open>e_locked\<close>); the
  code leaves the order open. \<open>pool_state\<close> is the counter that is recomputed from \<open>pool_members\<close>.
\<close>

definition is_poolable :: "sandbox_spec \<Rightarrow> bool" where
  "is_poolable spec \<longleftrightarrow> sp_sidecars spec = [] \<and> sp_workspace_id spec = None"

definition pool_match :: "string \<Rightarrow> string \<Rightarrow> pool_member_row \<Rightarrow> bool" where
  "pool_match image_ref wc m \<longleftrightarrow> pm_image_ref m = image_ref \<and> pm_weight_class m = wc"

definition idle_count :: "string \<Rightarrow> string \<Rightarrow> db \<Rightarrow> nat" where
  "idle_count image_ref wc d = length (filter (pool_match image_ref wc) (d_pool_members d))"

definition pool_state_match :: "string \<Rightarrow> string \<Rightarrow> pool_state_row \<Rightarrow> bool" where
  "pool_state_match image_ref wc s \<longleftrightarrow> ps_image_digest s = image_ref \<and> ps_weight_class s = wc"

definition sync_pool_state :: "string \<Rightarrow> string \<Rightarrow> unit prog" where
  "sync_pool_state image_ref wc =
     bind_em (query_db (idle_count image_ref wc)) (\<lambda>n.
     bind_em (query_db (\<lambda>d. filter (pool_state_match image_ref wc) (d_pool_state d))) (\<lambda>rows.
     bind_em (lift_em (scalar_one_or_none rows)) (\<lambda>row.
     case row of
       None \<Rightarrow> bind_em db_now (\<lambda>now. update_db (\<lambda>d. d\<lparr>d_pool_state := d_pool_state d @
         [\<lparr>ps_image_digest = image_ref, ps_weight_class = wc, ps_idle_count = n, ps_updated_at = now\<rparr>]\<rparr>))
     | Some _ \<Rightarrow> bind_em utc_now (\<lambda>now. update_db (\<lambda>d. d\<lparr>d_pool_state :=
         map (\<lambda>s. if pool_state_match image_ref wc s then s\<lparr>ps_idle_count := n, ps_updated_at := now\<rparr> else s)
           (d_pool_state d)\<rparr>)))))"

definition try_claim :: "sandbox_spec \<Rightarrow> sandbox_handle option prog" where
  "try_claim spec =
     (if \<not> is_poolable spec then return_em None
      else
        (let wc = weight_class_value (sp_weight_class spec) in
         bind_em (gets_em (\<lambda>w. find (\<lambda>m. pool_match (sp_image spec) wc m \<and> \<not> e_locked (w_env w) (w_calls w) (pm_id m))
                             (d_pool_members (w_db w)))) (\<lambda>found.
         case found of
           None \<Rightarrow> return_em None
         | Some member \<Rightarrow>
             bind_em fresh_uuid (\<lambda>i.
             bind_em utc_now (\<lambda>now.
             let handle = \<lparr>h_sandbox_id = i, h_backend = pm_backend member, h_native_ref = pm_native_ref member,
                           h_created_at = now, h_sidecar_refs = [], h_persistent = False\<rparr>
             in seq_em (update_db (\<lambda>d. d\<lparr>d_pool_members := remove1 member (d_pool_members d)\<rparr>))
                (seq_em (sync_pool_state (sp_image spec) wc)
                (return_em (Some handle))))))))"

definition add_pool_member :: "sandbox_spec \<Rightarrow> sandbox_handle \<Rightarrow> unit prog" where
  "add_pool_member spec handle =
     bind_em fresh_uuid (\<lambda>i. update_db (\<lambda>d. d\<lparr>d_pool_members := d_pool_members d @
       [\<lparr>pm_id = i, pm_image_ref = sp_image spec, pm_weight_class = weight_class_value (sp_weight_class spec),
         pm_backend = h_backend handle, pm_native_ref = h_native_ref handle\<rparr>]\<rparr>))"

text \<open>
  The returned flag says whether the recycle succeeded; the \<open>except\<close> clause destroys instead.
\<close>

definition release :: "sandbox_handle \<Rightarrow> sandbox_spec \<Rightarrow> unit prog" where
  "release handle spec =
     (if \<not> is_poolable spec then prov_destroy handle
      else
        bind_em (catch_em (seq_em (prov_recycle handle) (return_em True)) is_provisioner_error
                  (\<lambda>_. seq_em (prov_destroy handle) (return_em False))) (\<lambda>recycled.
        if \<not> recycled then return_em ()
        else seq_em (add_pool_member spec handle)
               (sync_pool_state (sp_image spec) (weight_class_value (sp_weight_class spec)))))"

fun replenish_loop :: "sandbox_spec \<Rightarrow> nat \<Rightarrow> nat prog" where
  "replenish_loop spec 0 = return_em 0"
| "replenish_loop spec (Suc n) =
     bind_em (catch_em (bind_em (prov_acquire spec) (\<lambda>h. return_em (Some h))) is_provisioner_error
               (\<lambda>_. return_em None)) (\<lambda>acquired.
     case acquired of
       None \<Rightarrow> return_em 0
     | Some handle \<Rightarrow>
         seq_em (add_pool_member spec handle)
         (bind_em (replenish_loop spec n) (\<lambda>added. return_em (Suc added))))"

definition replenish_one :: "sandbox_spec \<Rightarrow> int \<Rightarrow> nat prog" where
  "replenish_one spec target_count =
     (let wc = weight_class_value (sp_weight_class spec) in
      bind_em (query_db (idle_count (sp_image spec) wc)) (\<lambda>current.
      bind_em (replenish_loop spec (nat (target_count - int current))) (\<lambda>added.
      seq_em (when_em (added \<noteq> 0) (sync_pool_state (sp_image spec) wc))
      (return_em added))))"

text \<open>
  \<open>WeightClassScheduler.slot\<close>: how many of the heavy slots are taken decides whether a run enters
  now or waits; entering and leaving are the two steps of \<open>async with semaphore\<close>.
\<close>

record scheduler =
  heavy_limit :: "nat option"
  heavy_taken :: nat

definition slot_enter :: "weight_class \<Rightarrow> scheduler \<Rightarrow> scheduler option" where
  "slot_enter wc s =
     (case heavy_limit s of
        None \<Rightarrow> Some s
      | Some limit \<Rightarrow>
          (if limit = 0 \<or> wc \<noteq> Heavy then Some s
           else if heavy_taken s < limit then Some (s\<lparr>heavy_taken := Suc (heavy_taken s)\<rparr>)
           else None))"

definition slot_leave :: "weight_class \<Rightarrow> scheduler \<Rightarrow> scheduler" where
  "slot_leave wc s =
     (case heavy_limit s of
        None \<Rightarrow> s
      | Some limit \<Rightarrow> (if limit = 0 \<or> wc \<noteq> Heavy then s else s\<lparr>heavy_taken := heavy_taken s - 1\<rparr>))"

subsection \<open>The counter in step with the members\<close>

definition state_key :: "pool_state_row \<Rightarrow> string \<times> string" where
  "state_key s = (ps_image_digest s, ps_weight_class s)"

definition keys_unique :: "db \<Rightarrow> bool" where
  "keys_unique d \<longleftrightarrow> distinct (map state_key (d_pool_state d))"

definition counted :: "string \<times> string \<Rightarrow> db \<Rightarrow> bool" where
  "counted k d \<longleftrightarrow> (\<exists>s \<in> set (d_pool_state d). state_key s = k \<and> ps_idle_count s = idle_count (fst k) (snd k) d) \<or>
     (idle_count (fst k) (snd k) d = 0 \<and> k \<notin> state_key ` set (d_pool_state d))"

definition pool_in_sync :: "db \<Rightarrow> bool" where
  "pool_in_sync d \<longleftrightarrow> keys_unique d \<and> (\<forall>k. counted k d)"

definition in_sync_but :: "string \<times> string \<Rightarrow> db \<Rightarrow> bool" where
  "in_sync_but k d \<longleftrightarrow> keys_unique d \<and> (\<forall>j. j \<noteq> k \<longrightarrow> counted j d)"

lemma state_match_key: "pool_state_match i wc s \<longleftrightarrow> state_key s = (i, wc)"
  by (auto simp: pool_state_match_def state_key_def)

lemma filter_match_one:
  assumes "keys_unique d"
  shows "filter (pool_state_match i wc) (d_pool_state d) = [] \<or>
    (\<exists>s. filter (pool_state_match i wc) (d_pool_state d) = [s] \<and> s \<in> set (d_pool_state d) \<and> state_key s = (i, wc))"
proof -
  have "distinct (map state_key (filter (pool_state_match i wc) (d_pool_state d)))"
    using assms by (simp add: keys_unique_def distinct_map_filter)
  moreover have "s \<in> set (filter (pool_state_match i wc) (d_pool_state d)) \<Longrightarrow>
      s \<in> set (d_pool_state d) \<and> state_key s = (i, wc)" for s
    by (simp add: state_match_key)
  ultimately show ?thesis
    by (cases "filter (pool_state_match i wc) (d_pool_state d)" rule: remdups_adj.cases) auto
qed

lemma idle_count_states [simp]: "idle_count i wc (d\<lparr>d_pool_state := x\<rparr>) = idle_count i wc d"
  by (simp add: idle_count_def)

lemma sync_pool_state_run:
  assumes "in_sync_but (i, wc) (w_db w)"
  shows "\<exists>xs. sync_pool_state i wc w = (Inr (), w\<lparr>w_clock := Suc (w_clock w), w_db := (w_db w)\<lparr>d_pool_state := xs\<rparr>\<rparr>) \<and>
    pool_in_sync ((w_db w)\<lparr>d_pool_state := xs\<rparr>)"
proof -
  let ?d = "w_db w"
  have uq: "keys_unique ?d" using assms by (simp add: in_sync_but_def)
  have others: "counted j ?d" if "j \<noteq> (i, wc)" for j
    using assms that unfolding in_sync_but_def by blast
  consider "filter (pool_state_match i wc) (d_pool_state ?d) = []"
    | s where "filter (pool_state_match i wc) (d_pool_state ?d) = [s]" "s \<in> set (d_pool_state ?d)" "state_key s = (i, wc)"
    using filter_match_one [OF uq] by blast
  then show ?thesis
  proof cases
    case 1
    let ?s = "\<lparr>ps_image_digest = i, ps_weight_class = wc, ps_idle_count = idle_count i wc ?d,
       ps_updated_at = e_db_now (w_env w) (w_clock w)\<rparr>"
    let ?xs = "d_pool_state ?d @ [?s]"
    have new: "(i, wc) \<notin> state_key ` set (d_pool_state ?d)"
      using 1 by (auto simp: filter_empty_conv state_match_key)
    have key: "state_key ?s = (i, wc)" by (simp add: state_key_def)
    have uq': "keys_unique (?d\<lparr>d_pool_state := ?xs\<rparr>)" using uq new key by (simp add: keys_unique_def)
    have "counted j (?d\<lparr>d_pool_state := ?xs\<rparr>)" for j
    proof (cases "j = (i, wc)")
      case True
      then show ?thesis using key by (simp add: counted_def)
    next
      case False
      then show ?thesis using others [OF False] key by (auto simp: counted_def)
    qed
    with uq' show ?thesis
      by (intro exI [of _ ?xs]) (simp add: pool_in_sync_def sync_pool_state_def em_simps 1)
  next
    case 2
    define f where "f = (\<lambda>s. if pool_state_match i wc s
       then s\<lparr>ps_idle_count := idle_count i wc ?d, ps_updated_at := e_now (w_env w) (w_clock w)\<rparr> else s)"
    let ?xs = "map f (d_pool_state ?d)"
    have key: "state_key (f x) = state_key x" for x by (simp add: state_key_def f_def)
    have same: "state_key x \<noteq> (i, wc) \<Longrightarrow> f x = x" for x by (simp add: state_match_key f_def)
    have upd: "ps_idle_count (f s) = idle_count i wc ?d" using 2(3) by (simp add: state_match_key f_def)
    have keys: "map state_key ?xs = map state_key (d_pool_state ?d)" by (simp add: key)
    have uq': "keys_unique (?d\<lparr>d_pool_state := ?xs\<rparr>)" using uq keys by (simp add: keys_unique_def del: map_map)
    have "counted j (?d\<lparr>d_pool_state := ?xs\<rparr>)" for j
    proof (cases "j = (i, wc)")
      case True
      have "f s \<in> set ?xs" using 2(2) by simp
      then show ?thesis using True upd 2(3) key [of s] by (auto simp: counted_def)
    next
      case False
      have keyset: "state_key ` set ?xs = state_key ` set (d_pool_state ?d)"
        using arg_cong [OF keys, of set] by (simp only: set_map)
      have mem: "x \<in> set (d_pool_state ?d) \<Longrightarrow> state_key x = j \<Longrightarrow> x \<in> set ?xs" for x
        using same [of x] False by (force simp: image_iff)
      have sel: "d_pool_state (?d\<lparr>d_pool_state := ?xs\<rparr>) = ?xs" by simp
      show ?thesis
        using others [OF False] mem unfolding counted_def idle_count_states sel keyset by blast
    qed
    with uq' show ?thesis
      by (intro exI [of _ ?xs]) (simp add: pool_in_sync_def sync_pool_state_def em_simps 2 f_def)
  qed
qed

lemma length_filter_remove1:
  "m \<in> set xs \<Longrightarrow> length (filter P (remove1 m xs)) = length (filter P xs) - (if P m then 1 else 0)"
proof (induction xs)
  case (Cons a xs)
  have "P m \<Longrightarrow> m \<in> set xs \<Longrightarrow> 0 < length (filter P xs)" by (auto simp: filter_empty_conv)
  with Cons show ?case by auto
qed simp

lemma in_sync_but_members:
  assumes "pool_in_sync d" "\<And>j. j \<noteq> k \<Longrightarrow> idle_count (fst j) (snd j) (d\<lparr>d_pool_members := ms\<rparr>) = idle_count (fst j) (snd j) d"
  shows "in_sync_but k (d\<lparr>d_pool_members := ms\<rparr>)"
  using assms by (auto simp: in_sync_but_def pool_in_sync_def counted_def keys_unique_def)

lemma pool_match_fun: "pool_match i wc m \<longleftrightarrow> (i, wc) = (pm_image_ref m, pm_weight_class m)"
  by (auto simp: pool_match_def)

lemma in_sync_remove1:
  assumes "pool_in_sync d" "m \<in> set (d_pool_members d)" "pool_match i wc m"
  shows "in_sync_but (i, wc) (d\<lparr>d_pool_members := remove1 m (d_pool_members d)\<rparr>)"
  using assms by (intro in_sync_but_members) (auto simp: idle_count_def length_filter_remove1 pool_match_fun)

lemma in_sync_but_append:
  assumes "in_sync_but (pm_image_ref m, pm_weight_class m) d"
  shows "in_sync_but (pm_image_ref m, pm_weight_class m) (d\<lparr>d_pool_members := d_pool_members d @ [m]\<rparr>)"
  using assms by (auto simp: in_sync_but_def counted_def keys_unique_def idle_count_def pool_match_fun)

lemma in_sync_weaken: "pool_in_sync d \<Longrightarrow> in_sync_but k d"
  by (simp add: pool_in_sync_def in_sync_but_def)

lemma find_member:
  "find P xs = Some m \<Longrightarrow> P m \<and> m \<in> set xs"
  by (auto simp: find_Some_iff)

lemma try_claim_run:
  assumes "try_claim spec w = (r, w')" "pool_in_sync (w_db w)"
  shows "(r = Inr None \<and> w' = w) \<or>
    (\<exists>m h xs. r = Inr (Some h) \<and> is_poolable spec \<and> m \<in> set (d_pool_members (w_db w)) \<and>
       pool_match (sp_image spec) (weight_class_value (sp_weight_class spec)) m \<and>
       h_native_ref h = pm_native_ref m \<and> h_backend h = pm_backend m \<and>
       w_db w' = (w_db w)\<lparr>d_pool_members := remove1 m (d_pool_members (w_db w)), d_pool_state := xs\<rparr> \<and>
       w_calls w' = w_calls w \<and> w_committed w' = w_committed w \<and> pool_in_sync (w_db w'))"
proof -
  let ?wc = "weight_class_value (sp_weight_class spec)"
  let ?f = "find (\<lambda>m. pool_match (sp_image spec) ?wc m \<and> \<not> e_locked (w_env w) (w_calls w) (pm_id m)) (d_pool_members (w_db w))"
  show ?thesis
  proof (cases "is_poolable spec \<and> ?f \<noteq> None")
    case False
    then have "try_claim spec w = (Inr None, w)"
      by (auto simp: try_claim_def em_simps Let_def split: option.split)
    then show ?thesis using assms(1) by simp
  next
    case True
    then obtain m where f: "?f = Some m" and p: "is_poolable spec" by blast
    have m: "m \<in> set (d_pool_members (w_db w))" "pool_match (sp_image spec) ?wc m"
      using find_member [OF f] by auto
    let ?v = "w\<lparr>w_uuids := Suc (w_uuids w), w_clock := Suc (w_clock w),
       w_db := (w_db w)\<lparr>d_pool_members := remove1 m (d_pool_members (w_db w))\<rparr>\<rparr>"
    have "in_sync_but (sp_image spec, ?wc) (w_db ?v)"
      using in_sync_remove1 [OF assms(2) m] by simp
    then obtain xs where sync: "sync_pool_state (sp_image spec) ?wc ?v =
        (Inr (), ?v\<lparr>w_clock := Suc (w_clock ?v), w_db := (w_db ?v)\<lparr>d_pool_state := xs\<rparr>\<rparr>)"
      "pool_in_sync ((w_db ?v)\<lparr>d_pool_state := xs\<rparr>)"
      using sync_pool_state_run by blast
    let ?h = "\<lparr>h_sandbox_id = e_uuid (w_env w) (w_uuids w), h_backend = pm_backend m,
       h_native_ref = pm_native_ref m, h_created_at = e_now (w_env w) (w_clock w), h_sidecar_refs = [],
       h_persistent = False\<rparr>"
    have "try_claim spec w = (Inr (Some ?h), snd (sync_pool_state (sp_image spec) ?wc ?v))"
      using f p sync by (simp add: try_claim_def em_simps Let_def)
    then show ?thesis
      using assms(1) p sync m by (intro disjI2 exI [of _ m] exI [of _ ?h] exI [of _ xs]) simp
  qed
qed

lemma add_pool_member_run:
  "add_pool_member spec h w = (Inr (), w\<lparr>w_uuids := Suc (w_uuids w), w_db := (w_db w)\<lparr>
     d_pool_members := d_pool_members (w_db w) @
       [\<lparr>pm_id = e_uuid (w_env w) (w_uuids w), pm_image_ref = sp_image spec,
         pm_weight_class = weight_class_value (sp_weight_class spec),
         pm_backend = h_backend h, pm_native_ref = h_native_ref h\<rparr>]\<rparr>\<rparr>)"
  by (simp add: add_pool_member_def em_simps)

lemma add_pool_member_in_sync:
  assumes "in_sync_but (sp_image spec, weight_class_value (sp_weight_class spec)) (w_db w)"
  shows "in_sync_but (sp_image spec, weight_class_value (sp_weight_class spec)) (w_db (snd (add_pool_member spec h w)))"
  using in_sync_but_append [of "\<lparr>pm_id = e_uuid (w_env w) (w_uuids w), pm_image_ref = sp_image spec,
         pm_weight_class = weight_class_value (sp_weight_class spec),
         pm_backend = h_backend h, pm_native_ref = h_native_ref h\<rparr>" "w_db w"] assms
  by (simp add: add_pool_member_run)

lemma add_pool_member_idle:
  "idle_count (sp_image spec) (weight_class_value (sp_weight_class spec)) (w_db (snd (add_pool_member spec h w))) =
   Suc (idle_count (sp_image spec) (weight_class_value (sp_weight_class spec)) (w_db w))"
  by (simp add: add_pool_member_run idle_count_def pool_match_def)

lemma release_run:
  assumes "release h spec w = (Inr (), w')" "pool_in_sync (w_db w)"
  shows "pool_in_sync (w_db w') \<and>
    (let wc = weight_class_value (sp_weight_class spec) in
     (is_poolable spec \<and> new_calls w w' = [CallRecycle h (Inr ())] \<and>
        idle_count (sp_image spec) wc (w_db w') = Suc (idle_count (sp_image spec) wc (w_db w)) \<and>
        (\<exists>m. d_pool_members (w_db w') = d_pool_members (w_db w) @ [m] \<and> pm_native_ref m = h_native_ref h \<and>
           pool_match (sp_image spec) wc m)) \<or>
     (last (new_calls w w') = CallDestroy h (Inr ()) \<and> w_db w' = w_db w))"
proof -
  let ?wc = "weight_class_value (sp_weight_class spec)"
  show ?thesis
  proof (cases "is_poolable spec \<and> e_recycle (w_env w) (w_calls w) h = Inr ()")
    case True
    let ?u = "w\<lparr>w_calls := w_calls w @ [CallRecycle h (Inr ())]\<rparr>"
    let ?v = "snd (add_pool_member spec h ?u)"
    have "in_sync_but (sp_image spec, ?wc) (w_db ?v)"
      by (rule add_pool_member_in_sync) (simp add: in_sync_weaken assms(2))
    then obtain xs where sync: "sync_pool_state (sp_image spec) ?wc ?v =
        (Inr (), ?v\<lparr>w_clock := Suc (w_clock ?v), w_db := (w_db ?v)\<lparr>d_pool_state := xs\<rparr>\<rparr>)"
      "pool_in_sync ((w_db ?v)\<lparr>d_pool_state := xs\<rparr>)"
      using sync_pool_state_run by blast
    have run: "release h spec w = sync_pool_state (sp_image spec) ?wc ?v"
      using True by (simp add: release_def prov_recycle_def em_simps add_pool_member_run)
    have "idle_count (sp_image spec) ?wc (w_db ?v) = Suc (idle_count (sp_image spec) ?wc (w_db w))"
      using add_pool_member_idle [of spec h ?u] by simp
    then show ?thesis
      using assms(1) sync True unfolding run
      by (auto simp: add_pool_member_run new_calls_def pool_match_def Let_def)
  next
    case False
    then show ?thesis
      using assms by (auto simp: release_def prov_recycle_def prov_destroy_def em_simps new_calls_def Let_def
          split: if_splits sum.splits)
  qed
qed

lemma replenish_loop_run:
  assumes "replenish_loop spec n w = (Inr k, w')"
    and "in_sync_but (sp_image spec, weight_class_value (sp_weight_class spec)) (w_db w)"
  shows "in_sync_but (sp_image spec, weight_class_value (sp_weight_class spec)) (w_db w') \<and> k \<le> n \<and>
    idle_count (sp_image spec) (weight_class_value (sp_weight_class spec)) (w_db w') =
      idle_count (sp_image spec) (weight_class_value (sp_weight_class spec)) (w_db w) + k \<and>
    length (w_calls w') = length (w_calls w) + (if k < n then Suc k else k) \<and> (k = 0 \<longrightarrow> w_db w' = w_db w)"
  using assms
proof (induction n arbitrary: w k)
  case 0
  then show ?case by simp
next
  case (Suc n)
  show ?case
  proof (cases "e_acquire (w_env w) (w_calls w) spec")
    case (Inl e)
    with Suc.prems show ?thesis
      by (auto simp: prov_acquire_def em_simps split: if_splits)
  next
    case (Inr h)
    let ?u = "w\<lparr>w_calls := w_calls w @ [CallAcquire spec (Inr h)]\<rparr>"
    let ?v = "snd (add_pool_member spec h ?u)"
    from Suc.prems(1) Inr obtain j where j: "replenish_loop spec n ?v = (Inr j, w')" "k = Suc j"
      by (auto simp: prov_acquire_def em_simps add_pool_member_run split: prod.splits sum.splits)
    have sync: "in_sync_but (sp_image spec, weight_class_value (sp_weight_class spec)) (w_db ?v)"
      by (rule add_pool_member_in_sync) (simp add: Suc.prems(2))
    have idle: "idle_count (sp_image spec) (weight_class_value (sp_weight_class spec)) (w_db ?v) =
        Suc (idle_count (sp_image spec) (weight_class_value (sp_weight_class spec)) (w_db w))"
      using add_pool_member_idle [of spec h ?u] by simp
    have calls: "length (w_calls ?v) = Suc (length (w_calls w))" by (simp add: add_pool_member_run)
    from Suc.IH [OF j(1) sync] show ?thesis using j(2) idle calls by (auto split: if_splits)
  qed
qed

lemma replenish_one_run:
  assumes "replenish_one spec target w = (Inr k, w')" "pool_in_sync (w_db w)"
  shows "pool_in_sync (w_db w') \<and>
    (let wc = weight_class_value (sp_weight_class spec); n = nat (target - int (idle_count (sp_image spec) wc (w_db w))) in
     k \<le> n \<and> idle_count (sp_image spec) wc (w_db w') = idle_count (sp_image spec) wc (w_db w) + k \<and>
     length (w_calls w') = length (w_calls w) + (if k < n then Suc k else k))"
proof -
  let ?wc = "weight_class_value (sp_weight_class spec)"
  let ?n = "nat (target - int (idle_count (sp_image spec) ?wc (w_db w)))"
  obtain v where v: "replenish_loop spec ?n w = (Inr k, v)"
    and w': "w' = (if k = 0 then v else snd (sync_pool_state (sp_image spec) ?wc v))"
    and ok: "k \<noteq> 0 \<longrightarrow> fst (sync_pool_state (sp_image spec) ?wc v) = Inr ()"
    using assms(1) by (auto simp: replenish_one_def em_simps Let_def split: prod.splits sum.splits if_splits)
  note loop = replenish_loop_run [OF v in_sync_weaken [OF assms(2)]]
  show ?thesis
  proof (cases "k = 0")
    case True
    with loop w' assms(2) show ?thesis by (auto simp: Let_def)
  next
    case False
    from loop have "in_sync_but (sp_image spec, ?wc) (w_db v)" by blast
    then obtain xs where sync: "sync_pool_state (sp_image spec) ?wc v =
        (Inr (), v\<lparr>w_clock := Suc (w_clock v), w_db := (w_db v)\<lparr>d_pool_state := xs\<rparr>\<rparr>)"
      "pool_in_sync ((w_db v)\<lparr>d_pool_state := xs\<rparr>)"
      using sync_pool_state_run by blast
    with False loop w' show ?thesis by (auto simp: Let_def)
  qed
qed

subsection \<open>The contract of a pool operation\<close>

text \<open>
  What the services rely on, whichever of the three operations they call: one that returns leaves
  the counter in step with the members and commits nothing itself.
\<close>

locale pool_operation =
  fixes oper :: "'a prog"
  assumes oper_in_sync: "oper w = (Inr x, w') \<Longrightarrow> pool_in_sync (w_db w) \<Longrightarrow> pool_in_sync (w_db w')"
    and oper_uncommitted: "leaves w_committed oper"
begin

definition in_transaction :: "'a prog" where
  "in_transaction = (\<lambda>w. case oper w of
     (Inr x, w') \<Rightarrow> (Inr x, w'\<lparr>w_committed := w_db w'\<rparr>)
   | (Inl e, w') \<Rightarrow> (Inl e, w'\<lparr>w_db := w_committed w'\<rparr>))"

lemma transaction_in_sync:
  assumes "pool_in_sync (w_db w)" "pool_in_sync (w_committed w)"
  shows "pool_in_sync (w_db (snd (in_transaction w))) \<and> pool_in_sync (w_committed (snd (in_transaction w)))"
proof (cases "oper w")
  case (Pair r w')
  then have "w_committed w' = w_committed w" by (rule leavesD [OF oper_uncommitted])
  with Pair assms show ?thesis
    by (cases r) (auto simp: in_transaction_def dest: oper_in_sync)
qed

end

lemma sync_pool_state_committed [moves_intro]: "leaves w_committed (sync_pool_state i wc)"
  unfolding sync_pool_state_def by (intro moves_intro)

lemma add_pool_member_committed [moves_intro]: "leaves w_committed (add_pool_member spec h)"
  unfolding add_pool_member_def by (intro moves_intro)

lemma replenish_loop_committed [moves_intro]: "leaves w_committed (replenish_loop spec n)"
proof (induction n)
  case (Suc n)
  then show ?case unfolding replenish_loop.simps prov_acquire_def by (intro moves_intro)
qed (simp add: moves_def)

interpretation claim: pool_operation "try_claim spec" for spec
proof
  show "leaves w_committed (try_claim spec)"
    unfolding try_claim_def Let_def by (intro moves_intro)
qed (auto dest: try_claim_run)

interpretation giveback: pool_operation "release h spec" for h spec
proof
  show "leaves w_committed (release h spec)"
    unfolding release_def prov_destroy_def prov_recycle_def by (intro moves_intro)
qed (auto dest: release_run)

interpretation refill: pool_operation "replenish_one spec target" for spec target
proof
  show "leaves w_committed (replenish_one spec target)"
    unfolding replenish_one_def Let_def by (intro moves_intro)
qed (auto dest: replenish_one_run)

datatype pool_op = OpClaim sandbox_spec | OpRelease sandbox_handle sandbox_spec | OpReplenish sandbox_spec int

fun pool_step :: "pool_op \<Rightarrow> world \<Rightarrow> world" where
  "pool_step (OpClaim spec) w = snd (claim.in_transaction spec w)"
| "pool_step (OpRelease h spec) w = snd (giveback.in_transaction h spec w)"
| "pool_step (OpReplenish spec target) w = snd (refill.in_transaction spec target w)"

definition pool_run :: "pool_op list \<Rightarrow> world \<Rightarrow> world" where
  "pool_run ops w = foldl (\<lambda>v op. pool_step op v) w ops"

lemma pool_run_in_sync:
  "pool_in_sync (w_db w) \<and> pool_in_sync (w_committed w) \<Longrightarrow>
   pool_in_sync (w_db (pool_run ops w)) \<and> pool_in_sync (w_committed (pool_run ops w))"
  unfolding pool_run_def
proof (induction ops arbitrary: w)
  case (Cons op ops)
  have "pool_in_sync (w_db (pool_step op w)) \<and> pool_in_sync (w_committed (pool_step op w))"
    using Cons.prems claim.transaction_in_sync giveback.transaction_in_sync refill.transaction_in_sync
    by (cases op) simp_all
  from Cons.IH [OF this] show ?case by simp
qed simp

subsection \<open>Slots\<close>

text \<open>A run of the scheduler: each step is an attempt to enter or the end of a run that entered.\<close>

inductive scheduling :: "weight_class list \<times> scheduler \<Rightarrow> weight_class list \<times> scheduler \<Rightarrow> bool" where
  sched_enter: "slot_enter wc s = Some s' \<Longrightarrow> scheduling (inside, s) (wc # inside, s')"
| sched_leave: "wc \<in> set inside \<Longrightarrow> scheduling (inside, s) (remove1 wc inside, slot_leave wc s)"

definition heavies :: "weight_class list \<Rightarrow> nat" where
  "heavies ws = length (filter (\<lambda>w. w = Heavy) ws)"

definition slots_ok :: "nat \<Rightarrow> weight_class list \<times> scheduler \<Rightarrow> bool" where
  "slots_ok limit c \<longleftrightarrow> heavy_limit (snd c) = Some limit \<and> heavy_taken (snd c) = heavies (fst c) \<and>
     heavies (fst c) \<le> limit"

lemma scheduling_ok: "scheduling c c' \<Longrightarrow> 0 < limit \<Longrightarrow> slots_ok limit c \<Longrightarrow> slots_ok limit c'"
  by (induction rule: scheduling.induct)
    (auto simp: slots_ok_def slot_enter_def slot_leave_def heavies_def length_filter_remove1 split: if_splits)

subsection \<open>Properties\<close>

text \<open>
  C22. The warm-pool counter never drifts: after any sequence of claims, releases and replenishments,
  each in its own transaction and against any backend behaviour, each key of \<open>pool_state\<close> appears
  once and its idle count is the number of \<open>pool_members\<close> of that key, and a key without a counter
  has no members, in the session's view and in the committed database.
\<close>

theorem pool_counter_in_sync:
  "pool_in_sync (w_db (pool_run ops (demo_world empty_db reg\<lparr>w_env := en\<rparr>))) \<and>
   pool_in_sync (w_committed (pool_run ops (demo_world empty_db reg\<lparr>w_env := en\<rparr>)))"
  by (rule pool_run_in_sync)
    (simp add: demo_world_def empty_db_def pool_in_sync_def keys_unique_def counted_def idle_count_def)

text \<open>
  A claim takes exactly one member or nothing: on a hit the handle refers to a member that was
  idle for the requested image and weight class, that member and no other leaves the table, and the
  backend is not called; on a miss, and for every specification with sidecars or a workspace,
  nothing changes.
\<close>

theorem try_claim_takes_one:
  assumes "pool_in_sync (w_db w)" and "try_claim spec w = (r, w')"
  shows "(r = Inr None \<and> w' = w) \<or>
    (is_poolable spec \<and> w_calls w' = w_calls w \<and> pool_in_sync (w_db w') \<and>
     (\<exists>m h. r = Inr (Some h) \<and> m \<in> set (d_pool_members (w_db w)) \<and> pm_image_ref m = sp_image spec \<and>
        pm_weight_class m = weight_class_value (sp_weight_class spec) \<and> h_native_ref h = pm_native_ref m \<and>
        d_pool_members (w_db w') = remove1 m (d_pool_members (w_db w)) \<and>
        d_sandboxes (w_db w') = d_sandboxes (w_db w)))"
  using try_claim_run [OF assms(2,1)] by (auto simp: pool_match_def)

text \<open>
  A sandbox given back is either listed or destroyed, never both and never neither: when
  \<open>release\<close> returns, a poolable sandbox whose recycling succeeded has become exactly one new member
  under its own image and weight class and was not destroyed; in every other case its last call is a
  successful destroy and no member was added.
\<close>

theorem release_lists_or_destroys:
  assumes "pool_in_sync (w_db w)" and "release h spec w = (Inr (), w')"
  shows "(is_poolable spec \<and> new_calls w w' = [CallRecycle h (Inr ())] \<and>
      (\<exists>m. d_pool_members (w_db w') = d_pool_members (w_db w) @ [m] \<and> pm_native_ref m = h_native_ref h \<and>
         pm_image_ref m = sp_image spec \<and> pm_weight_class m = weight_class_value (sp_weight_class spec))) \<or>
    (last (new_calls w w') = CallDestroy h (Inr ()) \<and> d_pool_members (w_db w') = d_pool_members (w_db w))"
  using release_run [OF assms(2,1)] by (auto simp: pool_match_def Let_def)

text \<open>
  A top-up never overfills: it adds at most the difference between the target and the idle
  count, so the idle count ends at or below the target unless it was above it before; it reports
  exactly what it added, and it acquires one sandbox per member added, plus the one attempt that
  failed when it stopped early.
\<close>

theorem replenish_bounds:
  assumes "pool_in_sync (w_db w)" and "replenish_one spec target w = (Inr added, w')"
  shows "let wc = weight_class_value (sp_weight_class spec);
             before = int (idle_count (sp_image spec) wc (w_db w));
             after = int (idle_count (sp_image spec) wc (w_db w'))
         in after = before + int added \<and> after \<le> max before target \<and>
            length (w_calls w') = length (w_calls w) + (if after < target then Suc added else added)"
  using replenish_one_run [OF assms(2,1)] by (auto simp: Let_def)

text \<open>
  At most the configured number of heavy sandboxes run at once: in every state the scheduler can
  reach by any interleaving of entering and finishing runs, the runs inside hold no more heavy slots
  than the limit, and light and standard runs are never made to wait.
\<close>

theorem heavy_slots_bounded:
  assumes "0 < limit" and "scheduling\<^sup>*\<^sup>* ([], \<lparr>heavy_limit = Some limit, heavy_taken = 0\<rparr>) (inside, s)"
  shows "length (filter (\<lambda>w. w = Heavy) inside) \<le> limit \<and>
    (wc \<noteq> Heavy \<longrightarrow> slot_enter wc s \<noteq> None) \<and>
    (slot_enter Heavy s = None \<longleftrightarrow> length (filter (\<lambda>w. w = Heavy) inside) = limit)"
proof -
  have "slots_ok limit (inside, s)"
    using assms(2)
  proof (induction rule: rtranclp_induct)
    case base
    show ?case by (simp add: slots_ok_def heavies_def)
  next
    case (step c c')
    then show ?case by (metis assms(1) scheduling_ok)
  qed
  then show ?thesis using assms(1) by (auto simp: slots_ok_def heavies_def slot_enter_def)
qed

definition pooled_db :: db where
  "pooled_db = empty_db\<lparr>
     d_pool_members := [\<lparr>pm_id = ''m1'', pm_image_ref = ''python:1'', pm_weight_class = ''light'',
                         pm_backend = ''docker'', pm_native_ref = ''c1''\<rparr>],
     d_pool_state := [\<lparr>ps_image_digest = ''python:1'', ps_weight_class = ''light'', ps_idle_count = 1, ps_updated_at = 0\<rparr>]\<rparr>"

definition light_spec :: sandbox_spec where
  "light_spec = default_sandbox_spec ''python:1'' [''sleep'', ''infinity'']
     \<lparr>res_cpu = ''1'', res_memory = ''1Gi'', res_ephemeral_storage_mb = None\<rparr>"

lemma pooled_db_in_sync: "pool_in_sync (w_db (demo_world pooled_db reg))"
proof -
  have "counted (i, wc) pooled_db" for i wc
    by (auto simp: counted_def pooled_db_def idle_count_def pool_match_def state_key_def empty_db_def)
  then show ?thesis by (auto simp: demo_world_def pool_in_sync_def keys_unique_def pooled_db_def)
qed

lemma light_spec_poolable: "is_poolable light_spec" "sp_image light_spec = ''python:1''" "sp_weight_class light_spec = Light"
  by (simp_all add: is_poolable_def light_spec_def default_sandbox_spec_def)

theorem try_claim_takes_one_witness:
  "\<exists>h w'. try_claim light_spec (demo_world pooled_db empty_registry) = (Inr (Some h), w') \<and>
     h_native_ref h = ''c1'' \<and> d_pool_members (w_db w') = []"
proof -
  let ?w = "demo_world pooled_db empty_registry"
  obtain r w' where run: "try_claim light_spec ?w = (r, w')" by (cases "try_claim light_spec ?w")
  have "r \<noteq> Inr None"
    using run by (auto simp: try_claim_def light_spec_poolable em_simps Let_def demo_world_def demo_env_def
        pooled_db_def pool_match_def split: prod.splits sum.splits)
  moreover have "d_pool_members (w_db ?w) = [\<lparr>pm_id = ''m1'', pm_image_ref = ''python:1'', pm_weight_class = ''light'',
      pm_backend = ''docker'', pm_native_ref = ''c1''\<rparr>]" by (simp add: demo_world_def pooled_db_def)
  ultimately show ?thesis
    using try_claim_takes_one [OF pooled_db_in_sync run] run by auto
qed

theorem release_lists_or_destroys_witness:
  "\<exists>w'. release (demo_handle ''s1'') light_spec (demo_world pooled_db empty_registry) = (Inr (), w') \<and>
     (length (d_pool_members (w_db w')) = 2 \<or> last (new_calls (demo_world pooled_db empty_registry) w') = CallDestroy (demo_handle ''s1'') (Inr ()))"
proof -
  let ?w = "demo_world pooled_db empty_registry" and ?h = "demo_handle ''s1''"
  obtain w' where run: "release ?h light_spec ?w = (Inr (), w')"
  proof (cases "release ?h light_spec ?w")
    case (Pair r v)
    then have "r = Inr ()"
      by (simp add: release_def light_spec_poolable prov_recycle_def em_simps add_pool_member_run
          sync_pool_state_def demo_world_def demo_env_def pooled_db_def pool_state_match_def)
    with Pair that show ?thesis by simp
  qed
  have one: "length (d_pool_members (w_db ?w)) = 1" by (simp add: demo_world_def pooled_db_def)
  show ?thesis
    using release_lists_or_destroys [OF pooled_db_in_sync run] run one by auto
qed

theorem replenish_bounds_witness:
  "\<exists>added w'. replenish_one light_spec 1 (demo_world pooled_db empty_registry) = (Inr added, w') \<and>
     idle_count ''python:1'' ''light'' (w_db w') \<le> 1"
proof -
  let ?w = "demo_world pooled_db empty_registry"
  have idle: "idle_count ''python:1'' ''light'' (w_db ?w) = 1"
    by (simp add: demo_world_def pooled_db_def idle_count_def pool_match_def)
  then obtain w' where run: "replenish_one light_spec 1 ?w = (Inr 0, w')"
    by (simp add: replenish_one_def light_spec_poolable em_simps Let_def)
  show ?thesis
    using replenish_bounds [OF pooled_db_in_sync run] run idle
    by (intro exI [of _ 0] exI [of _ w']) (auto simp: light_spec_poolable Let_def)
qed

theorem heavy_slots_bounded_witness:
  "slot_enter Heavy \<lparr>heavy_limit = Some 1, heavy_taken = 1\<rparr> = None \<and>
   slot_enter Light \<lparr>heavy_limit = Some 1, heavy_taken = 1\<rparr> \<noteq> None"
proof -
  have "scheduling ([], \<lparr>heavy_limit = Some 1, heavy_taken = 0\<rparr>) ([Heavy], \<lparr>heavy_limit = Some 1, heavy_taken = 1\<rparr>)"
    by (rule sched_enter) (simp add: slot_enter_def)
  then have "scheduling\<^sup>*\<^sup>* ([], \<lparr>heavy_limit = Some 1, heavy_taken = 0\<rparr>) ([Heavy], \<lparr>heavy_limit = Some 1, heavy_taken = 1\<rparr>)"
    by (rule r_into_rtranclp)
  from heavy_slots_bounded [OF _ this, of Light] show ?thesis by simp
qed

end
