(* ===== verification/Billing.thy ===== *)
theory Billing
  imports Store
begin

section \<open>Billing\<close>

text \<open>
  \<open>app/services/billing_service.py\<close> and \<open>app/domain/billing.py\<close>: the two costing strategies
  (prepaid credit, pay as you go), the service that dispatches to them, the credit requests and the
  pricing rules, and the conversion of resource limits and run times into priced quantities. The
  Prometheus counters are not modelled.
\<close>

subsection \<open>Values\<close>

record usage_estimate =
  quantities :: "(string \<times> rat) list"

record usage_event =
  ev_resource_type :: string
  ev_quantity :: rat
  ev_sandbox_id :: "string option"
  ev_run_id :: "string option"

record auth_result =
  ar_authorized :: bool
  ar_reason :: "string option"
  ar_estimated_cost :: rat

record billing_period =
  bp_start :: int
  bp_end :: int

subsection \<open>Queries and rows\<close>

definition get_or_create_account :: "string \<Rightarrow> string \<Rightarrow> billing_account_row prog" where
  "get_or_create_account tenant_id default_mode =
     bind_em (query_db (\<lambda>d. row_get ba_tenant_id tenant_id (d_accounts d))) (\<lambda>found.
     case found of
       Some account \<Rightarrow> return_em account
     | None \<Rightarrow>
         (let account = \<lparr>ba_tenant_id = tenant_id, ba_mode = default_mode, ba_spend_cap = None,
                         ba_currency = ''USD''\<rparr>
          in seq_em (update_db (\<lambda>d. d\<lparr>d_accounts := row_put ba_tenant_id account (d_accounts d)\<rparr>))
               (return_em account)))"

text \<open>The newest rule that is already effective; a resource without a rule is free.\<close>

definition latest_unit_cost :: "string \<Rightarrow> db \<Rightarrow> int \<Rightarrow> rat" where
  "latest_unit_cost resource_type d now =
     (case filter (\<lambda>p. pc_resource_type p = resource_type \<and> pc_effective_from p \<le> now) (d_pricing d) of
        [] \<Rightarrow> 0
      | p # ps \<Rightarrow> pc_unit_cost (max_by pc_effective_from p ps))"

definition price_estimate :: "usage_estimate \<Rightarrow> db \<Rightarrow> int \<Rightarrow> rat" where
  "price_estimate estimate d now =
     sum_list (map (\<lambda>(rt, quantity). quantity * latest_unit_cost rt d now) (quantities estimate))"

definition period_usage_cost :: "string \<Rightarrow> db \<Rightarrow> int \<Rightarrow> int \<Rightarrow> rat" where
  "period_usage_cost tenant_id d since until =
     sum_list (map ur_cost (filter (\<lambda>u. ur_tenant_id u = tenant_id \<and> since \<le> ur_recorded_at u
       \<and> ur_recorded_at u < until) (d_usage d)))"

definition current_cycle_start :: "int \<Rightarrow> int" where
  "current_cycle_start now = month_start now"

definition record_usage_row :: "string \<Rightarrow> usage_event \<Rightarrow> rat \<Rightarrow> unit prog" where
  "record_usage_row tenant_id event cost =
     bind_em fresh_uuid (\<lambda>i. bind_em db_now (\<lambda>recorded_at.
     update_db (\<lambda>d. d\<lparr>d_usage := d_usage d @
       [\<lparr>ur_id = i, ur_tenant_id = tenant_id, ur_sandbox_id = ev_sandbox_id event, ur_run_id = ev_run_id event,
         ur_resource_type = ev_resource_type event, ur_quantity = ev_quantity event, ur_cost = cost,
         ur_recorded_at = recorded_at\<rparr>]\<rparr>)))"

definition generate_invoice_draft :: "string \<Rightarrow> billing_period \<Rightarrow> invoice_row prog" where
  "generate_invoice_draft tenant_id period =
     bind_em (query_db (\<lambda>d. period_usage_cost tenant_id d (bp_start period) (bp_end period))) (\<lambda>total_cost.
     let invoice = \<lparr>iv_tenant_id = tenant_id, iv_period_start = bp_start period,
                    iv_period_end = bp_end period, iv_total_cost = total_cost, iv_status = ''draft''\<rparr>
     in seq_em (update_db (\<lambda>d. d\<lparr>d_invoices := d_invoices d @ [invoice]\<rparr>)) (return_em invoice))"

subsection \<open>The wallet\<close>

definition wallet_balance :: "string \<Rightarrow> db \<Rightarrow> rat" where
  "wallet_balance tenant_id d =
     (case row_get cw_tenant_id tenant_id (d_wallets d) of None \<Rightarrow> 0 | Some w \<Rightarrow> cw_balance w)"

text \<open>
  Both writers of a wallet (\<open>CreditBillingStrategy.record_usage\<close> and \<open>adjust_credit\<close>) load it,
  create it at zero when it is missing, add a signed amount and append the ledger entry.
\<close>

definition apply_delta :: "string \<Rightarrow> rat \<Rightarrow> string \<Rightarrow> wallet_row prog" where
  "apply_delta tenant_id delta reason =
     bind_em (query_db (\<lambda>d. row_get cw_tenant_id tenant_id (d_wallets d))) (\<lambda>found.
     let wallet = (case found of None \<Rightarrow> \<lparr>cw_tenant_id = tenant_id, cw_balance = 0\<rparr> | Some w \<Rightarrow> w);
         wallet' = wallet\<lparr>cw_balance := cw_balance wallet + delta\<rparr>
     in seq_em (update_db (\<lambda>d. d\<lparr>
           d_wallets := row_put cw_tenant_id wallet' (d_wallets d),
           d_ledger := d_ledger d @ [\<lparr>cl_tenant_id = tenant_id, cl_delta = delta, cl_reason = reason,
                                      cl_balance_after = cw_balance wallet'\<rparr>]\<rparr>))
         (return_em wallet'))"

subsection \<open>The credit strategy\<close>

definition credit_authorize :: "string \<Rightarrow> usage_estimate \<Rightarrow> billing_account_row \<Rightarrow> auth_result prog" where
  "credit_authorize tenant_id estimate account =
     bind_em utc_now (\<lambda>now.
     bind_em (query_db (\<lambda>d. price_estimate estimate d now)) (\<lambda>cost.
     bind_em (query_db (wallet_balance tenant_id)) (\<lambda>balance.
     return_em (if cost > balance
                then \<lparr>ar_authorized = False, ar_reason = Some ''insufficient credit'', ar_estimated_cost = cost\<rparr>
                else \<lparr>ar_authorized = True, ar_reason = None, ar_estimated_cost = cost\<rparr>))))"

definition credit_record_usage :: "string \<Rightarrow> usage_event \<Rightarrow> billing_account_row \<Rightarrow> unit prog" where
  "credit_record_usage tenant_id event account =
     bind_em utc_now (\<lambda>now.
     bind_em (query_db (\<lambda>d. ev_quantity event * latest_unit_cost (ev_resource_type event) d now)) (\<lambda>cost.
     seq_em (record_usage_row tenant_id event cost)
     (seq_em (apply_delta tenant_id (- cost)
        (''usage:'' @ ev_resource_type event @ '':'' @
         (case ev_sandbox_id event of None \<Rightarrow> [] | Some s \<Rightarrow> s)))
     (return_em ()))))"

definition credit_settle :: "string \<Rightarrow> billing_period \<Rightarrow> invoice_row prog" where
  "credit_settle tenant_id period = generate_invoice_draft tenant_id period"

subsection \<open>The pay-as-you-go strategy\<close>

definition payg_authorize :: "string \<Rightarrow> usage_estimate \<Rightarrow> billing_account_row \<Rightarrow> auth_result prog" where
  "payg_authorize tenant_id estimate account =
     bind_em utc_now (\<lambda>now.
     bind_em (query_db (\<lambda>d. price_estimate estimate d now)) (\<lambda>cost.
     case ba_spend_cap account of
       None \<Rightarrow> return_em \<lparr>ar_authorized = True, ar_reason = None, ar_estimated_cost = cost\<rparr>
     | Some spend_cap \<Rightarrow>
         bind_em (query_db (\<lambda>d. period_usage_cost tenant_id d (current_cycle_start now) now)) (\<lambda>spent.
         return_em (if spent + cost > spend_cap
                    then \<lparr>ar_authorized = False, ar_reason = Some ''spend cap exceeded'', ar_estimated_cost = cost\<rparr>
                    else \<lparr>ar_authorized = True, ar_reason = None, ar_estimated_cost = cost\<rparr>))))"

definition payg_record_usage :: "string \<Rightarrow> usage_event \<Rightarrow> billing_account_row \<Rightarrow> unit prog" where
  "payg_record_usage tenant_id event account =
     bind_em utc_now (\<lambda>now.
     bind_em (query_db (\<lambda>d. ev_quantity event * latest_unit_cost (ev_resource_type event) d now)) (\<lambda>cost.
     record_usage_row tenant_id event cost))"

definition payg_settle :: "string \<Rightarrow> billing_period \<Rightarrow> invoice_row prog" where
  "payg_settle tenant_id period = generate_invoice_draft tenant_id period"

subsection \<open>The service\<close>

datatype strategy = CreditBillingStrategy | PayAsYouGoBillingStrategy

definition strategy_for :: "string \<Rightarrow> exn + strategy" where
  "strategy_for mode =
     (if mode = ''credit'' then Inr CreditBillingStrategy
      else if mode = ''payg'' then Inr PayAsYouGoBillingStrategy
      else Inl (KubeSandboxError mode))"

fun strategy_authorize :: "strategy \<Rightarrow> string \<Rightarrow> usage_estimate \<Rightarrow> billing_account_row \<Rightarrow> auth_result prog" where
  "strategy_authorize CreditBillingStrategy = credit_authorize"
| "strategy_authorize PayAsYouGoBillingStrategy = payg_authorize"

fun strategy_record_usage :: "strategy \<Rightarrow> string \<Rightarrow> usage_event \<Rightarrow> billing_account_row \<Rightarrow> unit prog" where
  "strategy_record_usage CreditBillingStrategy = credit_record_usage"
| "strategy_record_usage PayAsYouGoBillingStrategy = payg_record_usage"

fun strategy_settle :: "strategy \<Rightarrow> string \<Rightarrow> billing_period \<Rightarrow> invoice_row prog" where
  "strategy_settle CreditBillingStrategy = credit_settle"
| "strategy_settle PayAsYouGoBillingStrategy = payg_settle"

definition billing_authorize :: "string \<Rightarrow> string \<Rightarrow> usage_estimate \<Rightarrow> auth_result prog" where
  "billing_authorize default_mode tenant_id estimate =
     bind_em (get_or_create_account tenant_id default_mode) (\<lambda>account.
     bind_em (lift_em (strategy_for (ba_mode account))) (\<lambda>strategy.
     strategy_authorize strategy tenant_id estimate account))"

definition billing_record_usage :: "string \<Rightarrow> string \<Rightarrow> usage_event \<Rightarrow> unit prog" where
  "billing_record_usage default_mode tenant_id event =
     bind_em (get_or_create_account tenant_id default_mode) (\<lambda>account.
     bind_em (lift_em (strategy_for (ba_mode account))) (\<lambda>strategy.
     strategy_record_usage strategy tenant_id event account))"

definition billing_settle :: "string \<Rightarrow> string \<Rightarrow> billing_period \<Rightarrow> invoice_row prog" where
  "billing_settle default_mode tenant_id period =
     bind_em (get_or_create_account tenant_id default_mode) (\<lambda>account.
     bind_em (lift_em (strategy_for (ba_mode account))) (\<lambda>strategy.
     strategy_settle strategy tenant_id period))"

definition set_mode :: "string \<Rightarrow> string \<Rightarrow> string \<Rightarrow> rat option \<Rightarrow> billing_account_row prog" where
  "set_mode default_mode tenant_id mode spend_cap =
     (if mode \<notin> {''credit'', ''payg''} then raise_em (KubeSandboxError mode)
      else
        bind_em (get_or_create_account tenant_id default_mode) (\<lambda>account.
        let account' = account\<lparr>ba_mode := mode, ba_spend_cap := spend_cap\<rparr>
        in seq_em (update_db (\<lambda>d. d\<lparr>d_accounts := row_put ba_tenant_id account' (d_accounts d)\<rparr>))
           (seq_em commit (return_em account'))))"

definition adjust_credit :: "string \<Rightarrow> rat \<Rightarrow> string \<Rightarrow> wallet_row prog" where
  "adjust_credit tenant_id delta reason =
     bind_em (apply_delta tenant_id delta reason) (\<lambda>wallet. seq_em commit (return_em wallet))"

definition request_credit :: "string \<Rightarrow> rat \<Rightarrow> string \<Rightarrow> string option \<Rightarrow> credit_request_row prog" where
  "request_credit tenant_id amount reason user_id =
     (if amount \<le> 0 then raise_em (KubeSandboxError ''requested amount must be positive'')
      else
        bind_em fresh_uuid (\<lambda>i.
        bind_em db_now (\<lambda>created_at.
        let request = \<lparr>cr_id = i, cr_tenant_id = tenant_id, cr_user_id = user_id, cr_amount = amount,
                       cr_reason = reason, cr_status = ReqPending, cr_review_note = None,
                       cr_reviewed_by = None, cr_created_at = created_at, cr_reviewed_at = None\<rparr>
        in seq_em (update_db (\<lambda>d. d\<lparr>d_credit_requests := row_put cr_id request (d_credit_requests d)\<rparr>))
           (seq_em commit (return_em request)))))"

definition list_credit_requests :: "string option \<Rightarrow> request_status option \<Rightarrow> credit_request_row list prog" where
  "list_credit_requests tenant_id status =
     query_db (\<lambda>d. filter (\<lambda>r. (tenant_id = None \<or> tenant_id = Some (cr_tenant_id r)) \<and>
                               (status = None \<or> status = Some (cr_status r)))
                     (sort_key (\<lambda>r. - cr_created_at r) (d_credit_requests d)))"

text \<open>What approving a request does before the request itself is marked.\<close>

definition apply_request :: "string \<Rightarrow> credit_request_row \<Rightarrow> unit prog" where
  "apply_request default_mode request =
     bind_em (get_or_create_account (cr_tenant_id request) default_mode) (\<lambda>account.
     if ba_mode account = ''credit''
     then bind_em (adjust_credit (cr_tenant_id request) (cr_amount request) (''credit_request:'' @ cr_id request))
            (\<lambda>_. return_em ())
     else (let new_cap = (case ba_spend_cap account of None \<Rightarrow> 0 | Some c \<Rightarrow> c) + cr_amount request
           in bind_em (set_mode default_mode (cr_tenant_id request) (ba_mode account) (Some new_cap))
                (\<lambda>_. return_em ())))"

definition review_credit_request ::
  "string \<Rightarrow> string \<Rightarrow> bool \<Rightarrow> string option \<Rightarrow> string option \<Rightarrow> credit_request_row prog" where
  "review_credit_request default_mode request_id approve reviewer note =
     bind_em (query_db (\<lambda>d. row_get cr_id request_id (d_credit_requests d))) (\<lambda>found.
     case found of
       None \<Rightarrow> raise_em (KubeSandboxError request_id)
     | Some request \<Rightarrow>
         (if cr_status request \<noteq> ReqPending then raise_em (KubeSandboxError request_id)
          else
            seq_em (when_em approve (apply_request default_mode request))
            (bind_em utc_now (\<lambda>now.
             let request' = request\<lparr>cr_status := (if approve then ReqApproved else ReqDenied),
                              cr_review_note := note, cr_reviewed_by := reviewer, cr_reviewed_at := Some now\<rparr>
             in seq_em (update_db (\<lambda>d. d\<lparr>d_credit_requests := row_put cr_id request' (d_credit_requests d)\<rparr>))
                (seq_em commit (return_em request'))))))"

definition add_pricing_rule :: "string \<Rightarrow> rat \<Rightarrow> string \<Rightarrow> int option \<Rightarrow> pricing_rule_row prog" where
  "add_pricing_rule resource_type unit_cost currency effective_from =
     bind_em (case effective_from of Some t \<Rightarrow> return_em t | None \<Rightarrow> utc_now) (\<lambda>eff.
     bind_em fresh_uuid (\<lambda>i.
     let rule = \<lparr>pc_id = i, pc_resource_type = resource_type, pc_unit_cost = unit_cost, pc_currency = currency,
                 pc_effective_from = eff\<rparr>
     in seq_em (update_db (\<lambda>d. d\<lparr>d_pricing := d_pricing d @ [rule]\<rparr>)) (seq_em commit (return_em rule))))"

subsection \<open>From resources to quantities\<close>

definition db_sidecar_count :: "component list \<Rightarrow> nat" where
  "db_sidecar_count cs = length (filter (\<lambda>c. ac_database (cs_access (c_spec c)) \<noteq> None) cs)"

definition cpu_cores_of :: "resource_spec \<Rightarrow> exn + rat" where
  "cpu_cores_of res = map_sum id (\<lambda>n. rat_of_int n / 1000000000) (parse_cpu_to_nanocpus (res_cpu res))"

definition memory_gb_of :: "resource_spec \<Rightarrow> exn + rat" where
  "memory_gb_of res = map_sum id (\<lambda>n. rat_of_int n / 1024 ^ 3) (parse_memory_to_bytes (res_memory res))"

definition estimate_usage_for_spec :: "resource_spec \<Rightarrow> int \<Rightarrow> nat \<Rightarrow> exn + usage_estimate" where
  "estimate_usage_for_spec res seconds sidecars =
     (case cpu_cores_of res of
        Inl e \<Rightarrow> Inl e
      | Inr cpu_cores \<Rightarrow>
          (case memory_gb_of res of
             Inl e \<Rightarrow> Inl e
           | Inr memory_gb \<Rightarrow> Inr \<lparr>quantities =
               [(''cpu_second'', cpu_cores * rat_of_int seconds),
                (''memory_gb_second'', memory_gb * rat_of_int seconds)]
               @ (if sidecars \<noteq> 0 then [(''db_hour'', rat_of_nat sidecars * (rat_of_int seconds / 3600))] else [])\<rparr>))"

definition usage_events_for_run ::
  "resource_spec \<Rightarrow> int \<Rightarrow> string \<Rightarrow> string option \<Rightarrow> nat \<Rightarrow> exn + usage_event list" where
  "usage_events_for_run res duration_ms sandbox_id run_id sidecars =
     (let seconds = rat_of_int duration_ms / 1000;
          event = (\<lambda>rt q. \<lparr>ev_resource_type = rt, ev_quantity = q, ev_sandbox_id = Some sandbox_id,
                           ev_run_id = run_id\<rparr>)
      in case cpu_cores_of res of
           Inl e \<Rightarrow> Inl e
         | Inr cpu_cores \<Rightarrow>
             (case memory_gb_of res of
                Inl e \<Rightarrow> Inl e
              | Inr memory_gb \<Rightarrow> Inr
                  ([event ''cpu_second'' (cpu_cores * seconds), event ''memory_gb_second'' (memory_gb * seconds)]
                   @ (if sidecars \<noteq> 0 then [event ''db_hour'' (rat_of_nat sidecars * (seconds / 3600))] else []))))"

end
