(* ===== verification/Workspaces.thy ===== *)
theory Workspaces
  imports Backend
begin

section \<open>Persistent workspaces\<close>

text \<open>
  \<open>app/services/workspace_service.py\<close>: one workspace row per user, the quota check, and the
  retention state machine (active, archived, deleted) that the reconciler drives.
\<close>

record workspace_config =
  wc_default_quota_mb :: int
  wc_idle_retention_days :: int
  wc_archive_grace_days :: int
  wc_max_lifetime_days :: int

record retention_result =
  rs_archived :: "string list"
  rs_purged :: "string list"
  rs_skipped_active :: "string list"

definition archive_key :: "string \<Rightarrow> string" where
  "archive_key workspace_id = ''workspaces/'' @ workspace_id @ ''/archive.tar.gz''"

definition put_workspace :: "workspace_row \<Rightarrow> unit prog" where
  "put_workspace r = update_db (\<lambda>d. d\<lparr>d_workspaces := row_put ws_id r (d_workspaces d)\<rparr>)"

definition workspace_get_or_create :: "workspace_config \<Rightarrow> string \<Rightarrow> workspace_row prog" where
  "workspace_get_or_create cfg user_id =
     bind_em (query_db (\<lambda>d. filter (\<lambda>r. ws_user_id r = user_id) (d_workspaces d))) (\<lambda>rows.
     bind_em (lift_em (scalar_one_or_none rows)) (\<lambda>found.
     case found of
       Some r \<Rightarrow> return_em r
     | None \<Rightarrow>
         bind_em fresh_uuid (\<lambda>i.
         bind_em db_now (\<lambda>now.
         let r = \<lparr>ws_id = i, ws_user_id = user_id, ws_quota_mb = wc_default_quota_mb cfg, ws_used_mb = 0,
                  ws_state = WsActive, ws_last_access_at = now, ws_created_at = now\<rparr>
         in seq_em (put_workspace r) (return_em r)))))"

definition workspace_check_quota :: "workspace_row \<Rightarrow> exn + unit" where
  "workspace_check_quota r = (if ws_used_mb r > ws_quota_mb r then Inl (QuotaExceededError (ws_id r)) else Inr ())"

definition workspace_touch :: "workspace_row \<Rightarrow> workspace_row prog" where
  "workspace_touch r =
     bind_em utc_now (\<lambda>now. let r' = r\<lparr>ws_last_access_at := now\<rparr> in seq_em (put_workspace r') (return_em r'))"

definition live_on :: "string \<Rightarrow> db \<Rightarrow> sandbox_row list" where
  "live_on workspace_id d =
     filter (\<lambda>s. sb_workspace_id s = Some workspace_id \<and> sb_state s \<noteq> Terminated) (d_sandboxes d)"

definition has_live_sandbox :: "string \<Rightarrow> bool prog" where
  "has_live_sandbox workspace_id =
     bind_em (query_db (live_on workspace_id)) (\<lambda>rows.
     bind_em (lift_em (scalar_one_or_none rows)) (\<lambda>found. return_em (found \<noteq> None)))"

definition whole_days :: "int \<Rightarrow> int" where
  "whole_days us = us div us_per_day"

text \<open>
  One iteration of \<open>sweep_retention\<close>. The row is the object the query loaded; its refreshed
  \<open>used_mb\<close> and its new state are assignments to it.
\<close>

definition sweep_measure :: "workspace_row \<Rightarrow> workspace_row prog" where
  "sweep_measure r =
     (if ws_state r \<noteq> WsActive then return_em r
      else bind_em (has_live_sandbox (ws_id r)) (\<lambda>live.
        if live then return_em r
        else catch_em
          (bind_em (prov_measure_workspace_usage (ws_id r)) (\<lambda>mb.
            let r' = r\<lparr>ws_used_mb := mb\<rparr> in seq_em (put_workspace r') (return_em r')))
          is_provisioner_error (\<lambda>_. return_em r)))"

definition sweep_one :: "workspace_config \<Rightarrow> int \<Rightarrow> workspace_row \<Rightarrow> retention_result \<Rightarrow> retention_result prog" where
  "sweep_one cfg now workspace res =
     bind_em (sweep_measure workspace) (\<lambda>r.
     let idle_days = whole_days (now - ws_last_access_at r);
         age_days = whole_days (now - ws_created_at r)
     in case ws_state r of
          WsActive \<Rightarrow>
            (if idle_days < wc_idle_retention_days cfg \<and> age_days < wc_max_lifetime_days cfg then return_em res
             else bind_em (has_live_sandbox (ws_id r)) (\<lambda>live.
               if live then return_em (res\<lparr>rs_skipped_active := rs_skipped_active res @ [ws_id r]\<rparr>)
               else
                 bind_em (prov_archive_workspace (ws_id r)) (\<lambda>data.
                 seq_em (storage_put (archive_key (ws_id r)) data)
                 (seq_em (prov_delete_workspace_volume (ws_id r))
                 (seq_em (put_workspace (r\<lparr>ws_state := WsArchived\<rparr>))
                 (return_em (res\<lparr>rs_archived := rs_archived res @ [ws_id r]\<rparr>)))))))
        | WsArchived \<Rightarrow>
            (if idle_days < wc_idle_retention_days cfg + wc_archive_grace_days cfg then return_em res
             else
               seq_em (storage_delete (archive_key (ws_id r)))
               (seq_em (put_workspace (r\<lparr>ws_state := WsDeleted\<rparr>))
               (return_em (res\<lparr>rs_purged := rs_purged res @ [ws_id r]\<rparr>))))
        | WsDeleted \<Rightarrow> return_em res)"

fun sweep_rows :: "workspace_config \<Rightarrow> int \<Rightarrow> workspace_row list \<Rightarrow> retention_result \<Rightarrow> retention_result prog" where
  "sweep_rows cfg now [] res = return_em res"
| "sweep_rows cfg now (r # rs) res = bind_em (sweep_one cfg now r res) (sweep_rows cfg now rs)"

definition sweep_retention :: "workspace_config \<Rightarrow> int option \<Rightarrow> retention_result prog" where
  "sweep_retention cfg given_now =
     bind_em (case given_now of Some t \<Rightarrow> return_em t | None \<Rightarrow> utc_now) (\<lambda>now.
     bind_em (query_db (\<lambda>d. filter (\<lambda>r. ws_state r \<noteq> WsDeleted) (d_workspaces d))) (\<lambda>rows.
     bind_em (sweep_rows cfg now rows \<lparr>rs_archived = [], rs_purged = [], rs_skipped_active = []\<rparr>) (\<lambda>res.
     seq_em commit (return_em res))))"

definition workspace_restore :: "workspace_row \<Rightarrow> unit prog" where
  "workspace_restore r =
     (if ws_state r \<noteq> WsArchived then raise_em (KubeSandboxError (ws_id r))
      else
        bind_em (storage_get (archive_key (ws_id r))) (\<lambda>data.
        seq_em (prov_restore_workspace (ws_id r) data)
        (bind_em utc_now (\<lambda>now. put_workspace (r\<lparr>ws_state := WsActive, ws_last_access_at := now\<rparr>)))))"

subsection \<open>The specification of a sweep\<close>

text \<open>What the retention table says of a workspace, given its idle and total age in days.\<close>

definition retention_next :: "workspace_config \<Rightarrow> int \<Rightarrow> bool \<Rightarrow> workspace_row \<Rightarrow> workspace_state" where
  "retention_next cfg now live r =
     (case ws_state r of
        WsActive \<Rightarrow>
          (if \<not> live \<and> (wc_idle_retention_days cfg * us_per_day \<le> now - ws_last_access_at r \<or>
                        wc_max_lifetime_days cfg * us_per_day \<le> now - ws_created_at r)
           then WsArchived else WsActive)
      | WsArchived \<Rightarrow>
          (if (wc_idle_retention_days cfg + wc_archive_grace_days cfg) * us_per_day \<le> now - ws_last_access_at r
           then WsDeleted else WsArchived)
      | WsDeleted \<Rightarrow> WsDeleted)"

lemma div_less_mult:
  assumes "(0::int) < m"
  shows "x div m < n \<longleftrightarrow> x < n * m"
proof
  assume "x div m < n"
  then have "x div m + 1 \<le> n" by simp
  then have "(x div m + 1) * m \<le> n * m" using assms by (intro mult_right_mono) auto
  moreover have "x = x div m * m + x mod m" by simp
  moreover have "x mod m < m" using assms by simp
  ultimately show "x < n * m" by (simp only: distrib_right)
next
  assume x: "x < n * m"
  show "x div m < n"
  proof (rule ccontr)
    assume "\<not> x div m < n"
    then have "n * m \<le> x div m * m" using assms by (intro mult_right_mono) auto
    moreover have "x div m * m \<le> x" using assms by (metis add.commute div_mult_mod_eq le_add_same_cancel2 mod_int_pos_iff pos_mod_sign)
    ultimately show False using x by simp
  qed
qed

lemma whole_days_less: "whole_days x < n \<longleftrightarrow> x < n * us_per_day"
  unfolding whole_days_def by (rule div_less_mult) simp

lemma has_live_sandbox_run:
  "has_live_sandbox i w = (r, w') \<Longrightarrow> w' = w \<and> (\<forall>b. r = Inr b \<longrightarrow> b = (live_on i (w_db w) \<noteq> []))"
  by (auto simp: has_live_sandbox_def em_simps scalar_one_or_none_def split: list.splits)

lemma has_live_sandbox_Inr:
  "has_live_sandbox i w = (Inr b, w') \<longleftrightarrow> w' = w \<and> length (live_on i (w_db w)) \<le> 1 \<and> b = (live_on i (w_db w) \<noteq> [])"
  by (cases "live_on i (w_db w)" rule: remdups_adj.cases) (auto simp: has_live_sandbox_def em_simps)

lemma put_workspace_run [em_simps]:
  "put_workspace r w = (Inr (), w\<lparr>w_db := (w_db w)\<lparr>d_workspaces := row_put ws_id r (d_workspaces (w_db w))\<rparr>\<rparr>)"
  by (simp add: put_workspace_def)

lemma live_on_workspaces [simp]: "live_on i (d\<lparr>d_workspaces := x\<rparr>) = live_on i d"
  by (simp add: live_on_def)

text \<open>What one iteration does to its own row and to nothing else.\<close>

definition swept :: "workspace_config \<Rightarrow> int \<Rightarrow> bool \<Rightarrow> workspace_row \<Rightarrow> workspace_row \<Rightarrow> bool" where
  "swept cfg now live r r' \<longleftrightarrow>
     (\<exists>mb. r' = r\<lparr>ws_used_mb := mb, ws_state := retention_next cfg now live r\<rparr> \<and>
        (live \<or> ws_state r \<noteq> WsActive \<longrightarrow> mb = ws_used_mb r))"

lemma sweep_measure_run:
  assumes "sweep_measure r w = (Inr q, w')"
  shows "\<exists>mb. q = r\<lparr>ws_used_mb := mb\<rparr> \<and> (live_on (ws_id r) (w_db w) \<noteq> [] \<or> ws_state r \<noteq> WsActive \<longrightarrow> mb = ws_used_mb r) \<and>
    (w_db w' = w_db w \<and> q = r \<or> w_db w' = (w_db w)\<lparr>d_workspaces := row_put ws_id q (d_workspaces (w_db w))\<rparr>) \<and>
    w_committed w' = w_committed w"
proof (cases "ws_state r = WsActive \<and> live_on (ws_id r) (w_db w) = []")
  case False
  have "q = r \<and> w' = w"
    using assms False
    by (auto simp: sweep_measure_def bind_em_Inr_iff has_live_sandbox_Inr return_em_Inr_iff split: if_splits)
  then show ?thesis by (intro exI [of _ "ws_used_mb r"]) simp
next
  case True
  then have live: "has_live_sandbox (ws_id r) w = (Inr False, w)" by (simp add: has_live_sandbox_Inr)
  show ?thesis
  proof (cases "e_measure (w_env w) (w_calls w) (ws_id r)")
    case (Inl e)
    with assms True live have "q = r" "w_db w' = w_db w" "w_committed w' = w_committed w"
      by (auto simp: sweep_measure_def bind_em_run catch_em_run prov_measure_workspace_usage_def split: if_splits)
    then show ?thesis by (intro exI [of _ "ws_used_mb r"]) simp
  next
    case (Inr mb)
    with assms True live have "q = r\<lparr>ws_used_mb := mb\<rparr>"
      "w_db w' = (w_db w)\<lparr>d_workspaces := row_put ws_id q (d_workspaces (w_db w))\<rparr>" "w_committed w' = w_committed w"
      by (auto simp: sweep_measure_def bind_em_run seq_em_run catch_em_run prov_measure_workspace_usage_def put_workspace_run Let_def)
    with True show ?thesis by (intro exI [of _ mb]) simp
  qed
qed

lemma retention_next_cases:
  "retention_next cfg now live r = (case ws_state r of
     WsActive \<Rightarrow> (if live \<or> (whole_days (now - ws_last_access_at r) < wc_idle_retention_days cfg \<and>
                         whole_days (now - ws_created_at r) < wc_max_lifetime_days cfg) then WsActive else WsArchived)
   | WsArchived \<Rightarrow> (if whole_days (now - ws_last_access_at r) < wc_idle_retention_days cfg + wc_archive_grace_days cfg
                    then WsArchived else WsDeleted)
   | WsDeleted \<Rightarrow> WsDeleted)"
  by (auto simp: retention_next_def whole_days_less not_less split: workspace_state.split)

lemma swept_self: "retention_next cfg now live r = ws_state r \<Longrightarrow> swept cfg now live r r"
  unfolding swept_def by (intro exI [of _ "ws_used_mb r"]) simp

lemma sweptI:
  "q = r\<lparr>ws_used_mb := mb\<rparr> \<Longrightarrow> (live \<or> ws_state r \<noteq> WsActive \<longrightarrow> mb = ws_used_mb r) \<Longrightarrow>
   st = retention_next cfg now live r \<Longrightarrow> swept cfg now live r (q\<lparr>ws_state := st\<rparr>)"
  by (auto simp: swept_def)

definition sweep_effect :: "workspace_config \<Rightarrow> int \<Rightarrow> workspace_row \<Rightarrow> retention_result \<Rightarrow> retention_result \<Rightarrow> world \<Rightarrow> world \<Rightarrow> bool" where
  "sweep_effect cfg now r res res' w w' \<longleftrightarrow>
     (\<exists>r'. swept cfg now (live_on (ws_id r) (w_db w) \<noteq> []) r r' \<and>
        row_get ws_id (ws_id r) (d_workspaces (w_db w')) = Some r' \<and>
        rs_archived res' = rs_archived res @ (if ws_state r = WsActive \<and> ws_state r' = WsArchived then [ws_id r] else []) \<and>
        rs_purged res' = rs_purged res @ (if ws_state r = WsArchived \<and> ws_state r' = WsDeleted then [ws_id r] else [])) \<and>
     (\<forall>i. i \<noteq> ws_id r \<longrightarrow> row_get ws_id i (d_workspaces (w_db w')) = row_get ws_id i (d_workspaces (w_db w))) \<and>
     d_sandboxes (w_db w') = d_sandboxes (w_db w) \<and> w_committed w' = w_committed w"

lemma sweep_effect_put:
  assumes meas: "q = r\<lparr>ws_used_mb := mb\<rparr>"
    "w_db v = w_db w \<and> q = r \<or> w_db v = (w_db w)\<lparr>d_workspaces := row_put ws_id q (d_workspaces (w_db w))\<rparr>"
    "w_committed v = w_committed w"
    and used: "live_on (ws_id r) (w_db w) \<noteq> [] \<or> ws_state r \<noteq> WsActive \<longrightarrow> mb = ws_used_mb r"
    and st: "st = retention_next cfg now (live_on (ws_id r) (w_db w) \<noteq> []) r"
    and d: "w_db w' = (w_db v)\<lparr>d_workspaces := row_put ws_id (q\<lparr>ws_state := st\<rparr>) (d_workspaces (w_db v))\<rparr>"
    "w_committed w' = w_committed v"
    and res: "rs_archived res' = rs_archived res @ (if ws_state r = WsActive \<and> st = WsArchived then [ws_id r] else [])"
    "rs_purged res' = rs_purged res @ (if ws_state r = WsArchived \<and> st = WsDeleted then [ws_id r] else [])"
  shows "sweep_effect cfg now r res res' w w'"
proof -
  have q: "ws_id q = ws_id r" "ws_id (q\<lparr>ws_state := st\<rparr>) = ws_id r" using meas(1) by simp_all
  have sw: "swept cfg now (live_on (ws_id r) (w_db w) \<noteq> []) r (q\<lparr>ws_state := st\<rparr>)"
    by (rule sweptI [OF meas(1)]) (use used st in auto)
  have other: "row_get ws_id i (d_workspaces (w_db w')) = row_get ws_id i (d_workspaces (w_db w))" if "i \<noteq> ws_id r" for i
    using meas(2) that q by (auto simp: d row_get_put)
  have same: "d_sandboxes (w_db w') = d_sandboxes (w_db w)" using meas(2) by (auto simp: d)
  show ?thesis
    unfolding sweep_effect_def
    using sw other same meas(3) res by (auto simp: d row_get_put q intro!: exI [of _ "q\<lparr>ws_state := st\<rparr>"])
qed

lemma sweep_effect_stay:
  assumes meas: "q = r\<lparr>ws_used_mb := mb\<rparr>"
    "w_db v = w_db w \<and> q = r \<or> w_db v = (w_db w)\<lparr>d_workspaces := row_put ws_id q (d_workspaces (w_db w))\<rparr>"
    "w_committed v = w_committed w"
    and used: "live_on (ws_id r) (w_db w) \<noteq> [] \<or> ws_state r \<noteq> WsActive \<longrightarrow> mb = ws_used_mb r"
    and st: "ws_state r = retention_next cfg now (live_on (ws_id r) (w_db w) \<noteq> []) r"
    and tab: "row_get ws_id (ws_id r) (d_workspaces (w_db w)) = Some r"
    and res: "rs_archived res' = rs_archived res" "rs_purged res' = rs_purged res"
  shows "sweep_effect cfg now r res res' w v"
proof -
  have q: "ws_id q = ws_id r" "q\<lparr>ws_state := ws_state r\<rparr> = q" using meas(1) by simp_all
  have "swept cfg now (live_on (ws_id r) (w_db w) \<noteq> []) r (q\<lparr>ws_state := ws_state r\<rparr>)"
    by (rule sweptI [OF meas(1)]) (use used st in auto)
  then have sw: "swept cfg now (live_on (ws_id r) (w_db w) \<noteq> []) r q" using q(2) by simp
  have "row_get ws_id (ws_id r) (d_workspaces (w_db v)) = Some q"
    using meas(2) tab q by (auto simp: row_get_put)
  moreover have "row_get ws_id i (d_workspaces (w_db v)) = row_get ws_id i (d_workspaces (w_db w))" if "i \<noteq> ws_id r" for i
    using meas(2) that q by (auto simp: row_get_put)
  moreover have "ws_state q = ws_state r" using meas(1) by simp
  ultimately show ?thesis
    unfolding sweep_effect_def using sw meas(2,3) res by (auto intro!: exI [of _ q])
qed

lemma archive_run:
  assumes "bind_em (prov_archive_workspace i) (\<lambda>data. seq_em (storage_put (archive_key i) data)
       (seq_em (prov_delete_workspace_volume i) (seq_em (put_workspace r') (return_em x)))) v = (Inr y, w')"
  shows "y = x \<and> w_db w' = (w_db v)\<lparr>d_workspaces := row_put ws_id r' (d_workspaces (w_db v))\<rparr> \<and> w_committed w' = w_committed v"
  using assms
  by (auto simp: em_Inr_iff prov_archive_workspace_def storage_put_def prov_delete_workspace_volume_def put_workspace_run)

lemma purge_run:
  assumes "seq_em (storage_delete k) (seq_em (put_workspace r') (return_em x)) v = (Inr y, w')"
  shows "y = x \<and> w_db w' = (w_db v)\<lparr>d_workspaces := row_put ws_id r' (d_workspaces (w_db v))\<rparr> \<and> w_committed w' = w_committed v"
  using assms by (auto simp: em_Inr_iff storage_delete_def put_workspace_run)

lemma sweep_one_run:
  assumes run: "sweep_one cfg now r res w = (Inr res', w')"
    and tab: "row_get ws_id (ws_id r) (d_workspaces (w_db w)) = Some r"
  shows "sweep_effect cfg now r res res' w w'"
proof -
  obtain q v where m: "sweep_measure r w = (Inr q, v)"
    using run unfolding sweep_one_def bind_em_Inr_iff by blast
  from sweep_measure_run [OF m] obtain mb where q: "q = r\<lparr>ws_used_mb := mb\<rparr>"
    and used: "live_on (ws_id r) (w_db w) \<noteq> [] \<or> ws_state r \<noteq> WsActive \<longrightarrow> mb = ws_used_mb r"
    and db: "w_db v = w_db w \<and> q = r \<or> w_db v = (w_db w)\<lparr>d_workspaces := row_put ws_id q (d_workspaces (w_db w))\<rparr>"
    and com: "w_committed v = w_committed w" by blast
  have live: "live_on i (w_db v) = live_on i (w_db w)" for i using db by auto
  note eff_put = sweep_effect_put [OF q db com used] and eff_stay = sweep_effect_stay [OF q db com used _ tab]
  show ?thesis
  proof (cases "ws_state r")
    case WsDeleted
    then have "res' = res" "w' = v" using run m q by (simp_all add: sweep_one_def bind_em_run Let_def)
    then show ?thesis using WsDeleted eff_stay [of cfg now res' res] by (simp add: retention_next_cases)
  next
    case WsArchived
    show ?thesis
    proof (cases "whole_days (now - ws_last_access_at r) < wc_idle_retention_days cfg + wc_archive_grace_days cfg")
      case True
      then have "res' = res" "w' = v" using run m q WsArchived by (simp_all add: sweep_one_def bind_em_run Let_def)
      then show ?thesis using WsArchived True eff_stay [of cfg now res' res] by (simp add: retention_next_cases)
    next
      case False
      from run WsArchived False q have "seq_em (storage_delete (archive_key (ws_id r)))
          (seq_em (put_workspace (q\<lparr>ws_state := WsDeleted\<rparr>))
          (return_em (res\<lparr>rs_purged := rs_purged res @ [ws_id r]\<rparr>))) v = (Inr res', w')"
        unfolding sweep_one_def bind_em_Inr [of "sweep_measure r" w q v, OF m] by (simp add: Let_def)
      note done' = purge_run [OF this]
      have "WsDeleted = retention_next cfg now (live_on (ws_id r) (w_db w) \<noteq> []) r"
        using WsArchived False by (simp add: retention_next_cases)
      from eff_put [OF this, of w' res' res] done' WsArchived show ?thesis by simp
    qed
  next
    case WsActive
    let ?keep = "whole_days (now - ws_last_access_at r) < wc_idle_retention_days cfg \<and>
       whole_days (now - ws_created_at r) < wc_max_lifetime_days cfg"
    show ?thesis
    proof (cases "?keep \<or> live_on (ws_id r) (w_db w) \<noteq> []")
      case True
      have "rs_archived res' = rs_archived res \<and> rs_purged res' = rs_purged res \<and> w' = v"
      proof (cases ?keep)
        case True
        with run q WsActive show ?thesis
          unfolding sweep_one_def bind_em_Inr [of "sweep_measure r" w q v, OF m] by (simp add: Let_def)
      next
        case nk: False
        let ?arch = "bind_em (prov_archive_workspace (ws_id r)) (\<lambda>data.
          seq_em (storage_put (archive_key (ws_id r)) data)
          (seq_em (prov_delete_workspace_volume (ws_id r))
          (seq_em (put_workspace (q\<lparr>ws_state := WsArchived\<rparr>))
          (return_em (res\<lparr>rs_archived := rs_archived res @ [ws_id r]\<rparr>)))))"
        from run q WsActive nk have "bind_em (has_live_sandbox (ws_id r))
            (\<lambda>live. if live then return_em (res\<lparr>rs_skipped_active := rs_skipped_active res @ [ws_id r]\<rparr>) else ?arch) v = (Inr res', w')"
          unfolding sweep_one_def bind_em_Inr [of "sweep_measure r" w q v, OF m] by (simp add: Let_def cong: if_cong)
        then obtain b u where h: "has_live_sandbox (ws_id r) v = (Inr b, u)"
          and last: "(if b then return_em (res\<lparr>rs_skipped_active := rs_skipped_active res @ [ws_id r]\<rparr>) else ?arch) u = (Inr res', w')"
          unfolding bind_em_Inr_iff by blast
        have "live_on (ws_id r) (w_db w) \<noteq> []" using nk True by blast
        with h have "b" "u = v" unfolding has_live_sandbox_Inr live by simp_all
        with last show ?thesis by auto
      qed
      then show ?thesis using WsActive True eff_stay [of cfg now res' res] by (auto simp: retention_next_cases)
    next
      case False
      then have nl: "has_live_sandbox (ws_id r) v = (Inr False, v)" by (simp add: has_live_sandbox_Inr live)
      from run WsActive False q nl have "bind_em (prov_archive_workspace (ws_id r)) (\<lambda>data.
          seq_em (storage_put (archive_key (ws_id r)) data)
          (seq_em (prov_delete_workspace_volume (ws_id r))
          (seq_em (put_workspace (q\<lparr>ws_state := WsArchived\<rparr>))
          (return_em (res\<lparr>rs_archived := rs_archived res @ [ws_id r]\<rparr>))))) v = (Inr res', w')"
        unfolding sweep_one_def bind_em_Inr [of "sweep_measure r" w q v, OF m] by (auto simp: Let_def bind_em_Inr [of "has_live_sandbox (ws_id r)" v False v, OF nl])
      note done' = archive_run [OF this]
      have "WsArchived = retention_next cfg now (live_on (ws_id r) (w_db w) \<noteq> []) r"
        using WsActive False by (auto simp: retention_next_cases)
      from eff_put [OF this, of w' res' res] done' WsActive show ?thesis by simp
    qed
  qed
qed

lemma sweep_rows_run:
  assumes "sweep_rows cfg now rows res w = (Inr res', w')" "distinct (map ws_id rows)"
    and "\<forall>r\<in>set rows. row_get ws_id (ws_id r) (d_workspaces (w_db w)) = Some r"
  shows "(\<forall>r\<in>set rows. \<exists>r'. swept cfg now (live_on (ws_id r) (w_db w) \<noteq> []) r r' \<and>
       row_get ws_id (ws_id r) (d_workspaces (w_db w')) = Some r' \<and>
       (ws_state r = WsActive \<and> ws_state r' = WsArchived \<longrightarrow> ws_id r \<in> set (rs_archived res')) \<and>
       (ws_state r = WsArchived \<and> ws_state r' = WsDeleted \<longrightarrow> ws_id r \<in> set (rs_purged res'))) \<and>
    (\<forall>i. i \<notin> ws_id ` set rows \<longrightarrow> row_get ws_id i (d_workspaces (w_db w')) = row_get ws_id i (d_workspaces (w_db w))) \<and>
    d_sandboxes (w_db w') = d_sandboxes (w_db w) \<and>
    set (rs_archived res) \<subseteq> set (rs_archived res') \<and> set (rs_purged res) \<subseteq> set (rs_purged res')"
  using assms
proof (induction rows arbitrary: res w)
  case Nil
  then show ?case by simp
next
  case (Cons r rows)
  from Cons.prems(1) obtain res1 v where one: "sweep_one cfg now r res w = (Inr res1, v)"
    and rest: "sweep_rows cfg now rows res1 v = (Inr res', w')"
    by (auto simp: bind_em_Inr_iff)
  have eff: "sweep_effect cfg now r res res1 w v" using sweep_one_run [OF one] Cons.prems(3) by simp
  have live: "live_on i (w_db v) = live_on i (w_db w)" for i
    using eff by (simp add: sweep_effect_def live_on_def)
  have tab: "\<forall>q\<in>set rows. row_get ws_id (ws_id q) (d_workspaces (w_db v)) = Some q"
  proof
    fix q assume q: "q \<in> set rows"
    moreover have "ws_id r \<notin> ws_id ` set rows" using Cons.prems(2) by simp
    ultimately have "ws_id q \<noteq> ws_id r" by (metis imageI)
    then show "row_get ws_id (ws_id q) (d_workspaces (w_db v)) = Some q"
      using eff Cons.prems(3) q by (simp add: sweep_effect_def)
  qed
  note IH = Cons.IH [OF rest _ tab, unfolded live]
  have r: "ws_id r \<notin> ws_id ` set rows" "distinct (map ws_id rows)" using Cons.prems(2) by simp_all
  obtain r' where r': "swept cfg now (live_on (ws_id r) (w_db w) \<noteq> []) r r'"
    "row_get ws_id (ws_id r) (d_workspaces (w_db v)) = Some r'"
    "rs_archived res1 = rs_archived res @ (if ws_state r = WsActive \<and> ws_state r' = WsArchived then [ws_id r] else [])"
    "rs_purged res1 = rs_purged res @ (if ws_state r = WsArchived \<and> ws_state r' = WsDeleted then [ws_id r] else [])"
    using eff by (auto simp: sweep_effect_def)
  have sbx: "d_sandboxes (w_db v) = d_sandboxes (w_db w)"
    and other: "i \<noteq> ws_id r \<Longrightarrow> row_get ws_id i (d_workspaces (w_db v)) = row_get ws_id i (d_workspaces (w_db w))" for i
    using eff by (auto simp: sweep_effect_def)
  have final: "row_get ws_id (ws_id r) (d_workspaces (w_db w')) = Some r'"
    and sub: "set (rs_archived res1) \<subseteq> set (rs_archived res')" "set (rs_purged res1) \<subseteq> set (rs_purged res')"
    and rows: "\<forall>r\<in>set rows. \<exists>r'. swept cfg now (live_on (ws_id r) (w_db w) \<noteq> []) r r' \<and>
       row_get ws_id (ws_id r) (d_workspaces (w_db w')) = Some r' \<and>
       (ws_state r = WsActive \<and> ws_state r' = WsArchived \<longrightarrow> ws_id r \<in> set (rs_archived res')) \<and>
       (ws_state r = WsArchived \<and> ws_state r' = WsDeleted \<longrightarrow> ws_id r \<in> set (rs_purged res'))"
    using IH r r'(2) by auto
  have "\<exists>r'. swept cfg now (live_on (ws_id r) (w_db w) \<noteq> []) r r' \<and>
       row_get ws_id (ws_id r) (d_workspaces (w_db w')) = Some r' \<and>
       (ws_state r = WsActive \<and> ws_state r' = WsArchived \<longrightarrow> ws_id r \<in> set (rs_archived res')) \<and>
       (ws_state r = WsArchived \<and> ws_state r' = WsDeleted \<longrightarrow> ws_id r \<in> set (rs_purged res'))"
    using r'(1,3,4) final sub by (intro exI [of _ r']) auto
  moreover have "row_get ws_id i (d_workspaces (w_db w')) = row_get ws_id i (d_workspaces (w_db w))"
    if "i \<notin> ws_id ` set (r # rows)" for i
    using IH r(2) other that by auto
  moreover have "d_sandboxes (w_db w') = d_sandboxes (w_db w)" using IH r(2) sbx by auto
  moreover have "set (rs_archived res) \<subseteq> set (rs_archived res')" "set (rs_purged res) \<subseteq> set (rs_purged res')"
    using sub r'(3,4) by auto
  ultimately show ?case using rows by auto
qed

subsection \<open>Nothing is deleted before it is stored\<close>

text \<open>
  The order of the external calls: a volume is deleted only after its archive was made and stored,
  and neither happens to a workspace a live sandbox uses.
\<close>

definition stored_before :: "call list \<Rightarrow> bool" where
  "stored_before cs \<longleftrightarrow> (\<forall>pre i r post. cs = pre @ CallDeleteVolume i r # post \<longrightarrow>
     (\<exists>data. CallArchiveWorkspace i (Inr data) \<in> set pre \<and> CallStoragePut (archive_key i) data (Inr ()) \<in> set pre))"

fun concerns_volume :: "string \<Rightarrow> call \<Rightarrow> bool" where
  "concerns_volume i (CallArchiveWorkspace j r) = (i = j)"
| "concerns_volume i (CallDeleteVolume j r) = (i = j)"
| "concerns_volume i _ = False"

definition careful :: "world \<Rightarrow> world \<Rightarrow> bool" where
  "careful w w' \<longleftrightarrow> d_sandboxes (w_db w') = d_sandboxes (w_db w) \<and>
     (\<exists>cs. w_calls w' = w_calls w @ cs \<and> stored_before cs \<and>
       (\<forall>i. live_on i (w_db w) \<noteq> [] \<longrightarrow> list_all (\<lambda>c. \<not> concerns_volume i c) cs))"

lemma stored_before_append: "stored_before xs \<Longrightarrow> stored_before ys \<Longrightarrow> stored_before (xs @ ys)"
  unfolding stored_before_def
proof (intro allI impI)
  fix pre i r post
  assume xs: "\<forall>pre i r post. xs = pre @ CallDeleteVolume i r # post \<longrightarrow>
     (\<exists>data. CallArchiveWorkspace i (Inr data) \<in> set pre \<and> CallStoragePut (archive_key i) data (Inr ()) \<in> set pre)"
    and ys: "\<forall>pre i r post. ys = pre @ CallDeleteVolume i r # post \<longrightarrow>
     (\<exists>data. CallArchiveWorkspace i (Inr data) \<in> set pre \<and> CallStoragePut (archive_key i) data (Inr ()) \<in> set pre)"
    and eq: "xs @ ys = pre @ CallDeleteVolume i r # post"
  from eq consider us where "xs = pre @ CallDeleteVolume i r # us" | us where "pre = xs @ us" "ys = us @ CallDeleteVolume i r # post"
    by (auto simp: append_eq_append_conv2 append_eq_Cons_conv)
  then show "\<exists>data. CallArchiveWorkspace i (Inr data) \<in> set pre \<and> CallStoragePut (archive_key i) data (Inr ()) \<in> set pre"
  proof cases
    case 1
    then show ?thesis using xs by blast
  next
    case 2
    then obtain data where "CallArchiveWorkspace i (Inr data) \<in> set us" "CallStoragePut (archive_key i) data (Inr ()) \<in> set us"
      using ys by blast
    with 2 show ?thesis by auto
  qed
qed

lemma live_on_sandboxes: "d_sandboxes d' = d_sandboxes d \<Longrightarrow> live_on i d' = live_on i d"
  by (simp add: live_on_def)

interpretation careful: frame_relation careful
proof
  show "careful w w" for w
    by (simp add: careful_def stored_before_def)
  show "careful w u" if "careful w v" "careful v u" for w v u
  proof -
    from that obtain cs ds where v: "d_sandboxes (w_db v) = d_sandboxes (w_db w)" "w_calls v = w_calls w @ cs"
      "stored_before cs" "\<forall>i. live_on i (w_db w) \<noteq> [] \<longrightarrow> list_all (\<lambda>c. \<not> concerns_volume i c) cs"
      and u: "d_sandboxes (w_db u) = d_sandboxes (w_db v)" "w_calls u = w_calls v @ ds"
      "stored_before ds" "\<forall>i. live_on i (w_db v) \<noteq> [] \<longrightarrow> list_all (\<lambda>c. \<not> concerns_volume i c) ds"
      unfolding careful_def by blast
    have "\<forall>i. live_on i (w_db w) \<noteq> [] \<longrightarrow> list_all (\<lambda>c. \<not> concerns_volume i c) (cs @ ds)"
      using v(4) u(4) by (simp add: live_on_sandboxes [OF v(1)])
    moreover have "stored_before (cs @ ds)" by (rule stored_before_append [OF v(3) u(3)])
    ultimately show ?thesis unfolding careful_def using v(1,2) u(1,2) by (intro conjI exI [of _ "cs @ ds"]) auto
  qed
qed

declare careful.all_moves [moves_intro]

lemma stored_before_plain: "\<not> (\<exists>i r. CallDeleteVolume i r \<in> set cs) \<Longrightarrow> stored_before cs"
  unfolding stored_before_def by (metis in_set_conv_decomp)

lemma carefulI:
  "d_sandboxes (w_db w') = d_sandboxes (w_db w) \<Longrightarrow> w_calls w' = w_calls w @ cs \<Longrightarrow> stored_before cs \<Longrightarrow>
   (\<And>i. live_on i (w_db w) \<noteq> [] \<Longrightarrow> list_all (\<lambda>c. \<not> concerns_volume i c) cs) \<Longrightarrow> careful w w'"
  unfolding careful_def by blast

lemma careful_quiet [moves_intro]:
  "moves careful (put_workspace r)" "moves careful (has_live_sandbox i)" "moves careful utc_now" "moves careful commit"
  "moves careful (query_db f)"
proof -
  have none: "careful w w'" if "d_sandboxes (w_db w') = d_sandboxes (w_db w)" "w_calls w' = w_calls w" for w w'
    using that by (intro carefulI [where cs = "[]"]) (auto simp: stored_before_plain)
  show "moves careful (put_workspace r)" "moves careful (has_live_sandbox i)" "moves careful utc_now"
    "moves careful commit" "moves careful (query_db f)"
    by (auto intro!: movesI none simp: put_workspace_run dest: has_live_sandbox_run)
qed

lemma careful_external:
  "(\<And>i x. \<not> concerns_volume i (event x)) \<Longrightarrow> (\<And>i r x. CallDeleteVolume i r \<noteq> event x) \<Longrightarrow> moves careful (external ask event)"
  by (rule movesI) (auto intro!: carefulI stored_before_plain)

lemma careful_calls [moves_intro]:
  "moves careful (prov_measure_workspace_usage i)" "moves careful (storage_delete k)"
  "moves careful (storage_put k data)" "moves careful (storage_get k)" "moves careful (prov_restore_workspace i data)"
  unfolding backend_defs by (rule careful_external; simp)+

lemma sweep_measure_careful [moves_intro]: "moves careful (sweep_measure r)"
  unfolding sweep_measure_def Let_def by (intro moves_intro)

lemma stored_before_three:
  "stored_before [CallArchiveWorkspace i (Inr data), CallStoragePut (archive_key i) data (Inr ()), CallDeleteVolume i r]"
  unfolding stored_before_def by (auto simp: append_eq_Cons_conv Cons_eq_append_conv)

lemma archive_careful:
  assumes "live_on i (w_db w) = []"
    and "bind_em (prov_archive_workspace i) (\<lambda>data. seq_em (storage_put (archive_key i) data)
           (seq_em (prov_delete_workspace_volume i) (seq_em (put_workspace r') (return_em x)))) w = (res, w')"
  shows "careful w w'"
proof -
  let ?a = "e_archive_workspace (w_env w) (w_calls w) i"
  let ?c1 = "w_calls w @ [CallArchiveWorkspace i ?a]"
  show ?thesis
  proof (cases ?a)
    case (Inl e)
    then have "w_calls w' = w_calls w @ [CallArchiveWorkspace i (Inl e)]" "w_db w' = w_db w"
      using assms(2) by (auto simp: bind_em_run prov_archive_workspace_def)
    then show ?thesis using assms(1)
      by (intro carefulI [where cs = "[CallArchiveWorkspace i (Inl e)]"]) (auto intro: stored_before_plain)
  next
    case (Inr data)
    let ?p = "e_storage_put (w_env w) ?c1 (archive_key i) data"
    show ?thesis
    proof (cases ?p)
      case (Inl e)
      then have "w_calls w' = w_calls w @ [CallArchiveWorkspace i (Inr data), CallStoragePut (archive_key i) data (Inl e)]"
        "w_db w' = w_db w"
        using assms(2) Inr by (auto simp: bind_em_run seq_em_run prov_archive_workspace_def storage_put_def)
      then show ?thesis using assms(1)
        by (intro carefulI [where cs = "[CallArchiveWorkspace i (Inr data), CallStoragePut (archive_key i) data (Inl e)]"])
          (auto intro: stored_before_plain)
    next
      case (Inr u)
      let ?dv = "e_delete_volume (w_env w) (?c1 @ [CallStoragePut (archive_key i) data (Inr ())]) i"
      have "w_calls w' = w_calls w @ [CallArchiveWorkspace i (Inr data), CallStoragePut (archive_key i) data (Inr ()), CallDeleteVolume i ?dv]"
        "d_sandboxes (w_db w') = d_sandboxes (w_db w)"
        using assms(2) Inr \<open>?a = Inr data\<close>
        by (auto simp: bind_em_run seq_em_run prov_archive_workspace_def storage_put_def prov_delete_workspace_volume_def
            put_workspace_run split: sum.splits)
      then show ?thesis using assms(1)
        by (intro carefulI [where cs = "[CallArchiveWorkspace i (Inr data), CallStoragePut (archive_key i) data (Inr ()), CallDeleteVolume i ?dv]"])
          (auto simp: stored_before_three)
    qed
  qed
qed

lemma sweep_one_careful [moves_intro]: "moves careful (sweep_one cfg now r res)"
proof (rule movesI)
  fix w y w'
  assume run: "sweep_one cfg now r res w = (y, w')"
  obtain x v where m: "sweep_measure r w = (x, v)" by (cases "sweep_measure r w")
  have first: "careful w v" by (rule movesD' [OF sweep_measure_careful m])
  show "careful w w'"
  proof (cases x)
    case (Inl e)
    with run m have "w' = v" by (simp add: sweep_one_def bind_em_Inl [of _ w e v])
    with first show ?thesis by simp
  next
    case (Inr q)
    note step = run [unfolded sweep_one_def bind_em_Inr [of "sweep_measure r" w q v, OF m [unfolded Inr]]]
    let ?keep = "whole_days (now - ws_last_access_at q) < wc_idle_retention_days cfg \<and>
       whole_days (now - ws_created_at q) < wc_max_lifetime_days cfg"
    let ?arch = "bind_em (prov_archive_workspace (ws_id q)) (\<lambda>data.
          seq_em (storage_put (archive_key (ws_id q)) data)
          (seq_em (prov_delete_workspace_volume (ws_id q))
          (seq_em (put_workspace (q\<lparr>ws_state := WsArchived\<rparr>))
          (return_em (res\<lparr>rs_archived := rs_archived res @ [ws_id q]\<rparr>)))))"
    have "careful v w'"
    proof (cases "ws_state q = WsActive \<and> \<not> ?keep \<and> has_live_sandbox (ws_id q) v = (Inr False, v)")
      case True
      with step have "?arch v = (y, w')"
        by (simp add: Let_def bind_em_Inr [of "has_live_sandbox (ws_id q)" v False v])
      moreover have "live_on (ws_id q) (w_db v) = []" using True by (simp add: has_live_sandbox_Inr)
      ultimately show ?thesis by (rule archive_careful [rotated])
    next
      case False
      show ?thesis
      proof (cases "ws_state q = WsActive \<and> \<not> ?keep")
        case True
        obtain h u where h: "has_live_sandbox (ws_id q) v = (h, u)" by (cases "has_live_sandbox (ws_id q) v")
        then have "u = v" using has_live_sandbox_run by blast
        with h False True have "h \<noteq> Inr False" by auto
        with step True h \<open>u = v\<close> have "w' = v"
          by (cases h) (auto simp: Let_def bind_em_run)
        then show ?thesis by (simp add: careful.refl_rel)
      next
        case False
        have "moves careful (if whole_days (now - ws_last_access_at q) < wc_idle_retention_days cfg + wc_archive_grace_days cfg
            then return_em res
            else seq_em (storage_delete (archive_key (ws_id q))) (seq_em (put_workspace (q\<lparr>ws_state := WsDeleted\<rparr>))
               (return_em (res\<lparr>rs_purged := rs_purged res @ [ws_id q]\<rparr>))))"
          by (intro moves_intro)
        with step False show ?thesis
          by (cases "ws_state q") (auto simp: Let_def careful.refl_rel dest: movesD' split: if_splits)
      qed
    qed
    with first show ?thesis by (rule careful.trans_rel)
  qed
qed

lemma sweep_rows_careful [moves_intro]: "moves careful (sweep_rows cfg now rows res)"
proof (induction rows arbitrary: res)
  case Nil
  show ?case unfolding sweep_rows.simps by (intro moves_intro)
next
  case (Cons r rows)
  then show ?case unfolding sweep_rows.simps by (intro moves_intro)
qed

lemma sweep_retention_careful: "moves careful (sweep_retention cfg now)"
  unfolding sweep_retention_def by (intro moves_intro)

subsection \<open>Properties\<close>

text \<open>
  No data is lost to the retention sweep: whatever the backend and the object store answer, and
  also when the sweep is cut short by an exception, every volume it deletes was archived before and
  its archive stored successfully under the workspace's own key before the deletion, and a workspace
  that a live sandbox uses is neither archived nor deleted.
\<close>

theorem sweep_loses_nothing:
  "\<exists>cs. w_calls (snd (sweep_retention cfg now w)) = w_calls w @ cs \<and>
     (\<forall>pre i r post. cs = pre @ CallDeleteVolume i r # post \<longrightarrow>
        (\<exists>data. CallArchiveWorkspace i (Inr data) \<in> set pre \<and> CallStoragePut (archive_key i) data (Inr ()) \<in> set pre)) \<and>
     (\<forall>i. live_on i (w_db w) \<noteq> [] \<longrightarrow> list_all (\<lambda>c. \<not> concerns_volume i c) cs)"
  using movesD [OF sweep_retention_careful, of w cfg now] unfolding careful_def stored_before_def by blast

text \<open>
  C26. A sweep that completes implements the retention table: every workspace row keeps its identity,
  quota and clocks and moves to exactly the state the table prescribes for its age, its idle time and
  whether a live sandbox uses it; deleted workspaces are left alone, and the sweep is committed.
\<close>

theorem sweep_implements_retention:
  assumes "sweep_retention cfg (Some now) w = (Inr res, w')" and "distinct (map ws_id (d_workspaces (w_db w)))"
    and "r \<in> set (d_workspaces (w_db w))"
  shows "\<exists>mb. row_get ws_id (ws_id r) (d_workspaces (w_db w')) =
      Some (r\<lparr>ws_used_mb := mb, ws_state := retention_next cfg now (live_on (ws_id r) (w_db w) \<noteq> []) r\<rparr>) \<and>
    w_committed w' = w_db w' \<and> d_sandboxes (w_db w') = d_sandboxes (w_db w)"
proof -
  let ?rows = "filter (\<lambda>r. ws_state r \<noteq> WsDeleted) (d_workspaces (w_db w))"
  let ?res = "\<lparr>rs_archived = [], rs_purged = [], rs_skipped_active = []\<rparr>"
  obtain v where v: "sweep_rows cfg now ?rows ?res w = (Inr res, v)" and w': "w' = v\<lparr>w_committed := w_db v\<rparr>"
    using assms(1) by (auto simp: sweep_retention_def em_Inr_iff)
  have tab: "row_get ws_id (ws_id q) (d_workspaces (w_db w)) = Some q" if "q \<in> set (d_workspaces (w_db w))" for q
    by (rule row_get_distinct [OF assms(2) that])
  have dist: "distinct (map ws_id ?rows)" using assms(2) by (simp add: distinct_map_filter)
  note rows = sweep_rows_run [OF v dist]
  show ?thesis
  proof (cases "ws_state r = WsDeleted")
    case False
    have mem: "r \<in> set ?rows" using False assms(3) by simp
    have tabs: "\<forall>q\<in>set ?rows. row_get ws_id (ws_id q) (d_workspaces (w_db w)) = Some q" using tab by simp
    from bspec [OF conjunct1 [OF rows [OF tabs]] mem] conjunct2 [OF rows [OF tabs]]
    obtain r' where "swept cfg now (live_on (ws_id r) (w_db w) \<noteq> []) r r'"
      "row_get ws_id (ws_id r) (d_workspaces (w_db v)) = Some r'" "d_sandboxes (w_db v) = d_sandboxes (w_db w)"
      by blast
    then show ?thesis by (auto simp: w' swept_def)
  next
    case True
    have "ws_id r \<notin> ws_id ` set ?rows"
    proof
      assume "ws_id r \<in> ws_id ` set ?rows"
      then obtain q where "q \<in> set (d_workspaces (w_db w))" "ws_state q \<noteq> WsDeleted" "ws_id q = ws_id r" by auto
      then show False using True assms(2,3) by (metis distinct_map inj_onD)
    qed
    then have "row_get ws_id (ws_id r) (d_workspaces (w_db v)) = Some r" "d_sandboxes (w_db v) = d_sandboxes (w_db w)"
      using rows tab assms(3) by auto
    then show ?thesis using True by (intro exI [of _ "ws_used_mb r"]) (simp add: w' retention_next_def)
  qed
qed

text \<open>
  A second live sandbox on one workspace disables retention for everybody: with two sandboxes
  that are not terminated on an active workspace, the query that expects at most one row raises,
  and the whole sweep ends there with nothing committed, whatever other workspaces are due.
\<close>

theorem two_live_sandboxes_stop_the_sweep:
  assumes "2 \<le> length (live_on (ws_id r) (w_db w))" and "ws_state r = WsActive"
    and "d_workspaces (w_db w) = r # rs"
  shows "\<exists>w'. sweep_retention cfg (Some now) w = (Inl (MultipleResultsFound []), w') \<and>
    w_committed w' = w_committed w \<and> w_db w' = w_db w"
proof -
  obtain a b ls where "live_on (ws_id r) (w_db w) = a # b # ls"
    using assms(1) by (cases "live_on (ws_id r) (w_db w)" rule: remdups_adj.cases) auto
  then have "has_live_sandbox (ws_id r) w = (Inl (MultipleResultsFound []), w)"
    by (simp add: has_live_sandbox_def em_simps)
  then have "sweep_one cfg now r res w = (Inl (MultipleResultsFound []), w)" for res
    using assms(2) by (simp add: sweep_one_def sweep_measure_def bind_em_run)
  then show ?thesis
    using assms(2,3) by (simp add: sweep_retention_def bind_em_run)
qed

text \<open>
  Restoring brings back what was archived: a restore that returns read the archive stored under
  the workspace's key and wrote exactly those bytes to its volume before the workspace became active
  again with a fresh access time; a restore that raises leaves the workspace as it was, and one of a
  workspace that is not archived calls nothing.
\<close>

theorem workspace_restore_effect:
  "let (res, w') = workspace_restore r w in
    (case res of
       Inr _ \<Rightarrow> ws_state r = WsArchived \<and>
         (\<exists>data now. new_calls w w' = [CallStorageGet (archive_key (ws_id r)) (Inr data), CallRestoreWorkspace (ws_id r) data (Inr ())] \<and>
           row_get ws_id (ws_id r) (d_workspaces (w_db w')) = Some (r\<lparr>ws_state := WsActive, ws_last_access_at := now\<rparr>))
     | Inl _ \<Rightarrow> w_db w' = w_db w \<and> (ws_state r \<noteq> WsArchived \<longrightarrow> w_calls w' = w_calls w))"
  by (auto simp: workspace_restore_def em_simps storage_get_def prov_restore_workspace_def put_workspace_run
      new_calls_def row_get_put split: sum.splits prod.splits)

text \<open>
  A purged workspace is a dead end: once a user's row is in state \<open>deleted\<close>, looking up or
  creating the user's workspace keeps returning that row, restoring it raises, and a sweep leaves it
  deleted, so no operation of the service ever gives the user a usable workspace again.
\<close>

theorem purged_workspace_is_final:
  assumes "filter (\<lambda>q. ws_user_id q = u) (d_workspaces (w_db w)) = [r]" and "ws_state r = WsDeleted"
  shows "workspace_get_or_create cfg u w = (Inr r, w) \<and> workspace_restore r w = (Inl (KubeSandboxError (ws_id r)), w) \<and>
    retention_next cfg now live r = WsDeleted"
  using assms by (simp add: workspace_get_or_create_def workspace_restore_def em_simps retention_next_def)

definition demo_workspace :: "workspace_state \<Rightarrow> workspace_row" where
  "demo_workspace st = \<lparr>ws_id = ''w1'', ws_user_id = ''u1'', ws_quota_mb = 100, ws_used_mb = 0, ws_state = st,
     ws_last_access_at = 0, ws_created_at = 0\<rparr>"

definition demo_retention :: workspace_config where
  "demo_retention = \<lparr>wc_default_quota_mb = 100, wc_idle_retention_days = 30, wc_archive_grace_days = 60, wc_max_lifetime_days = 365\<rparr>"

definition demo_sandbox :: "string \<Rightarrow> sandbox_row" where
  "demo_sandbox i = \<lparr>sb_id = i, sb_tenant_id = ''t1'', sb_user_id = Some ''u1'', sb_template_ref = None,
     sb_component_refs = [''python@1''], sb_backend = ''docker'', sb_native_ref = ''c-'' @ i, sb_sidecar_refs = [],
     sb_state = Active, sb_weight_class = ''light'', sb_persistent = True, sb_workspace_id = Some ''w1'',
     sb_idle_ttl_seconds = Some 900, sb_max_ttl_seconds = Some 7200, sb_created_at = 0, sb_last_active_at = None,
     sb_terminated_at = None\<rparr>"

theorem sweep_implements_retention_witness:
  "\<exists>res w'. sweep_retention demo_retention (Some (31 * us_per_day))
      (demo_world (empty_db\<lparr>d_workspaces := [demo_workspace WsActive]\<rparr>) empty_registry) = (Inr res, w') \<and>
    map_option ws_state (row_get ws_id ''w1'' (d_workspaces (w_db w'))) = Some WsArchived"
proof -
  let ?w = "demo_world (empty_db\<lparr>d_workspaces := [demo_workspace WsActive]\<rparr>) empty_registry"
  have "fst (sweep_retention demo_retention (Some (31 * us_per_day)) ?w) \<noteq> Inl e" for e
    by (simp add: sweep_retention_def sweep_one_def sweep_measure_def em_simps has_live_sandbox_def live_on_def
        prov_measure_workspace_usage_def prov_archive_workspace_def storage_put_def prov_delete_workspace_volume_def
        put_workspace_run demo_world_def demo_env_def empty_db_def demo_workspace_def demo_retention_def
        whole_days_def Let_def)
  then obtain res w' where run: "sweep_retention demo_retention (Some (31 * us_per_day)) ?w = (Inr res, w')"
    by (cases "sweep_retention demo_retention (Some (31 * us_per_day)) ?w"; cases "fst (sweep_retention demo_retention (Some (31 * us_per_day)) ?w)") auto
  have ws: "d_workspaces (w_db ?w) = [demo_workspace WsActive]" and live: "live_on ''w1'' (w_db ?w) = []"
    by (simp_all add: demo_world_def live_on_def empty_db_def)
  have "retention_next demo_retention (31 * us_per_day) False (demo_workspace WsActive) = WsArchived"
    by (simp add: retention_next_def demo_workspace_def demo_retention_def)
  then show ?thesis
    using sweep_implements_retention [OF run, of "demo_workspace WsActive"] run ws live
    by (auto simp: demo_workspace_def)
qed

theorem two_live_sandboxes_stop_the_sweep_witness:
  "\<exists>w'. sweep_retention demo_retention (Some 0) (demo_world (empty_db\<lparr>d_workspaces := [demo_workspace WsActive],
      d_sandboxes := [demo_sandbox ''s1'', demo_sandbox ''s2'']\<rparr>) empty_registry) = (Inl (MultipleResultsFound []), w')"
  using two_live_sandboxes_stop_the_sweep [of "demo_workspace WsActive" "demo_world (empty_db\<lparr>d_workspaces := [demo_workspace WsActive],
      d_sandboxes := [demo_sandbox ''s1'', demo_sandbox ''s2'']\<rparr>) empty_registry" "[]" demo_retention 0]
  by (auto simp: demo_world_def live_on_def demo_sandbox_def demo_workspace_def)

theorem purged_workspace_is_final_witness:
  "fst (workspace_get_or_create demo_retention ''u1'' (demo_world (empty_db\<lparr>d_workspaces := [demo_workspace WsDeleted]\<rparr>) empty_registry)) =
     Inr (demo_workspace WsDeleted)"
  using purged_workspace_is_final [of "''u1''" "demo_world (empty_db\<lparr>d_workspaces := [demo_workspace WsDeleted]\<rparr>) empty_registry"
      "demo_workspace WsDeleted" demo_retention]
  by (simp add: demo_world_def demo_workspace_def)

end
