(* ===== verification/Sandbox_Spec.thy ===== *)
theory Sandbox_Spec
  imports Render Quota Audit_Log Pool Billing Workspaces
begin

section \<open>From a request to a sandbox specification\<close>

text \<open>
  The first half of \<open>app/services/sandbox_service.py\<close>: how a language, a version and a template
  become a specification, a batch command and two lifetimes, and the admission checks that run
  before anything is provisioned. The registry is read where the code reads it, from the world.
\<close>

record sandbox_config =
  sv_pool :: bool
  sv_default_idle_ttl_seconds :: int
  sv_default_max_ttl_seconds :: int
  sv_heavy_node_selector :: "(string \<times> string) list"
  sv_heavy_tolerations :: "(string \<times> string) list list"
  sv_workspaces :: "workspace_config option"
  sv_billing :: "string option"
  sv_quota :: "quota_defaults option"
  sv_audit :: "audit_config option"
  sv_audit_accepts :: bool
  sv_session_factory :: bool

definition build_ad_hoc_spec :: "registry \<Rightarrow> component \<Rightarrow> exn + sandbox_spec" where
  "build_ad_hoc_spec reg c =
     (let runtime = cs_runtime (c_spec c); access = cs_access (c_spec c) in
      case resolve_component_image reg c of
        Inl e \<Rightarrow> Inl e
      | Inr img \<Rightarrow> Inr
          \<lparr>sp_image = img, sp_command = [''sleep'', ''infinity''], sp_env = [],
           sp_workdir = fs_workdir (ac_filesystem access),
           sp_writable_paths = fs_writablePaths (ac_filesystem access),
           sp_read_only_root_filesystem = fs_readOnlyRootFilesystem (ac_filesystem access),
           sp_resources = \<lparr>res_cpu = rq_cpu (rt_limits runtime), res_memory = rq_memory (rt_limits runtime),
                           res_ephemeral_storage_mb = None\<rparr>,
           sp_weight_class = rt_weightClass runtime,
           sp_wall_clock_seconds = lim_wallClockSeconds (ac_limits access),
           sp_max_output_bytes = lim_outputBytes (ac_limits access),
           sp_max_processes = lim_processes (ac_limits access),
           sp_labels = [(''io.kubesandbox.component'', component_key c)],
           sp_sidecars = [], sp_workspace_id = None, sp_workspace_size_mb = None,
           sp_node_selector = [], sp_tolerations = []\<rparr>)"

record resolved_spec =
  rv_spec :: sandbox_spec
  rv_template_ref :: "string option"
  rv_component_refs :: "string list"
  rv_component :: component
  rv_sidecar_components :: "component list"
  rv_sidecar_credentials :: "(string \<times> db_credentials) list"
  rv_ttl_idle :: string
  rv_ttl_max :: string

definition truthy :: "string option \<Rightarrow> bool" where
  "truthy s \<longleftrightarrow> s \<noteq> None \<and> s \<noteq> Some []"

definition resolve_component :: "registry \<Rightarrow> string \<Rightarrow> string option \<Rightarrow> exn + component" where
  "resolve_component reg language version =
     (case (if truthy version then get_component reg language (the version) else latest_component reg language) of
        Inl e \<Rightarrow> Inl (if is_component_not_found e
                     then ComponentNotFoundError (language @ ''@'' @ (if truthy version then the version else ''latest''))
                     else e)
      | Inr c \<Rightarrow> Inr c)"

definition resolve_template :: "string \<Rightarrow> rendered_template prog" where
  "resolve_template template_ref =
     bind_em (gets_em w_registry) (\<lambda>reg.
     bind_em (lift_em (case resolve_template_ref reg template_ref of
                         Inl e \<Rightarrow> Inl (if is_template_not_found e then TemplateNotFoundError template_ref else e)
                       | Inr t \<Rightarrow> Inr t)) (\<lambda>template.
     render_template reg template))"

definition pick_template_component :: "rendered_template \<Rightarrow> string \<Rightarrow> exn + component" where
  "pick_template_component rendered language =
     (case find (\<lambda>c. pv_languageId (cs_provides (c_spec c)) = Some language \<or> md_name (c_metadata c) = language)
             (rd_main_components rendered) of
        Some c \<Rightarrow> Inr c
      | None \<Rightarrow> Inl (ComponentNotFoundError (rd_template_key rendered)))"

subsection \<open>The batch command\<close>

definition source_filename :: "component \<Rightarrow> string" where
  "source_filename c =
     (case pv_fileExtensions (cs_provides (c_spec c)) of [] \<Rightarrow> ''main.txt'' | ext # _ \<Rightarrow> ''main'' @ ext)"

lemma dropWhile_less: "length (dropWhile P cs) - Suc 0 \<le> length cs"
  using length_dropWhile_le [of P cs] by simp

text \<open>
  \<open>s.format(file=name)\<close>: doubled braces are literal, \<open>{file}\<close> is replaced, any other field name
  raises \<open>KeyError\<close> or \<open>IndexError\<close>, an unmatched brace \<open>ValueError\<close>. A conversion or a format
  specification after the name is not modelled and counts as an unknown field.
\<close>

function format_file :: "string \<Rightarrow> string \<Rightarrow> exn + string" where
  "format_file name [] = Inr []"
| "format_file name (c # cs) =
     (if c = CHR ''{''
      then (if cs \<noteq> [] \<and> hd cs = CHR ''{''
            then map_sum id (\<lambda>s. CHR ''{'' # s) (format_file name (tl cs))
            else (let field = takeWhile (\<lambda>x. x \<noteq> CHR ''}'') cs; rest = dropWhile (\<lambda>x. x \<noteq> CHR ''}'') cs
                  in if rest = [] then Inl (ValueError ''format'')
                     else if field = ''file'' then map_sum id (\<lambda>s. name @ s) (format_file name (tl rest))
                     else Inl (OtherException ''KeyError'')))
      else if c = CHR ''}''
      then (if cs \<noteq> [] \<and> hd cs = CHR ''}''
            then map_sum id (\<lambda>s. CHR ''}'' # s) (format_file name (tl cs))
            else Inl (ValueError ''format''))
      else map_sum id (\<lambda>s. c # s) (format_file name cs))"
  by pat_completeness auto

termination format_file
  by (relation "measure (\<lambda>(name, s). length s)") (simp_all add: less_Suc_eq_le dropWhile_less)

text \<open>\<open>s.split()\<close>: the maximal runs of characters that are not white space.\<close>

fun split_ws_from :: "string \<Rightarrow> string \<Rightarrow> string list" where
  "split_ws_from acc [] = (if acc = [] then [] else [rev acc])"
| "split_ws_from acc (c # cs) =
     (if is_py_space c then (if acc = [] then split_ws_from [] cs else rev acc # split_ws_from [] cs)
      else split_ws_from (c # acc) cs)"

definition split_ws :: "string \<Rightarrow> string list" where
  "split_ws s = split_ws_from [] s"

definition build_batch_command :: "component \<Rightarrow> string \<Rightarrow> string \<Rightarrow> exn + batch_command" where
  "build_batch_command c code stdin =
     (let provides = cs_provides (c_spec c); filename = source_filename c;
          invocation =
            (case pv_batchRunner provides of
               Some runner \<Rightarrow>
                 (case pv_commands provides of
                    [] \<Rightarrow> Inl (KubeSandboxError (component_key c))
                  | cmd # _ \<Rightarrow> Inr ([cmd, brs_entrypoint runner, filename], brs_supportsVariableDump runner))
             | None \<Rightarrow>
                 (if truthy (pv_defaultRun provides)
                  then map_sum id (\<lambda>s. (split_ws s, False)) (format_file filename (the (pv_defaultRun provides)))
                  else Inl (KubeSandboxError (component_key c))))
      in map_sum id (\<lambda>(command, capture).
           \<lparr>bc_command = command, bc_stdin = stdin, bc_files = [(filename, code)],
            bc_timeout_seconds = lim_wallClockSeconds (ac_limits (cs_access (c_spec c))),
            bc_max_output_bytes = lim_outputBytes (ac_limits (cs_access (c_spec c))),
            bc_capture_variables = capture\<rparr>) invocation)"

subsection \<open>Resolution\<close>

definition apply_heavy_segregation :: "sandbox_config \<Rightarrow> sandbox_spec \<Rightarrow> sandbox_spec" where
  "apply_heavy_segregation cfg spec =
     (if sp_weight_class spec \<noteq> Heavy \<or> (sv_heavy_node_selector cfg = [] \<and> sv_heavy_tolerations cfg = []) then spec
      else spec\<lparr>sp_node_selector := sv_heavy_node_selector cfg, sp_tolerations := sv_heavy_tolerations cfg\<rparr>)"

definition resolve_spec :: "sandbox_config \<Rightarrow> string \<Rightarrow> string option \<Rightarrow> string option \<Rightarrow> resolved_spec prog" where
  "resolve_spec cfg language version template =
     (if truthy template
      then
        bind_em (resolve_template (the template)) (\<lambda>rendered.
        bind_em (lift_em (pick_template_component rendered language)) (\<lambda>c.
        return_em
          \<lparr>rv_spec = apply_heavy_segregation cfg (rd_sandbox_spec rendered),
           rv_template_ref = Some (rd_template_key rendered),
           rv_component_refs = map component_key (rd_main_components rendered),
           rv_component = c,
           rv_sidecar_components = rd_sidecar_components rendered,
           rv_sidecar_credentials = rd_sidecar_credentials rendered,
           rv_ttl_idle = rd_ttl_idle rendered, rv_ttl_max = rd_ttl_max rendered\<rparr>))
      else
        bind_em (gets_em w_registry) (\<lambda>reg.
        bind_em (lift_em (resolve_component reg language version)) (\<lambda>c.
        bind_em (lift_em (build_ad_hoc_spec reg c)) (\<lambda>spec.
        return_em
          \<lparr>rv_spec = apply_heavy_segregation cfg spec, rv_template_ref = None,
           rv_component_refs = [component_key c], rv_component = c,
           rv_sidecar_components = [], rv_sidecar_credentials = [], rv_ttl_idle = [], rv_ttl_max = []\<rparr>))))"

definition resolve_ttl_seconds :: "sandbox_config \<Rightarrow> resolved_spec \<Rightarrow> exn + int \<times> int" where
  "resolve_ttl_seconds cfg rv =
     (case (if rv_ttl_idle rv = [] then Inr (sv_default_idle_ttl_seconds cfg)
            else parse_duration_to_seconds (rv_ttl_idle rv)) of
        Inl e \<Rightarrow> Inl e
      | Inr idle \<Rightarrow>
          (case (if rv_ttl_max rv = [] then Inr (sv_default_max_ttl_seconds cfg)
                 else parse_duration_to_seconds (rv_ttl_max rv)) of
             Inl e \<Rightarrow> Inl e
           | Inr maximum \<Rightarrow> Inr (idle, maximum)))"

subsection \<open>Admission\<close>

definition denial_audit :: "sandbox_config \<Rightarrow> string \<Rightarrow> string \<Rightarrow> json \<Rightarrow> unit prog" where
  "denial_audit cfg action tenant_id detail =
     (case sv_audit cfg of
        None \<Rightarrow> return_em ()
      | Some acfg \<Rightarrow> record_standalone acfg (sv_audit_accepts cfg)
          \<lparr>ae_action = action, ae_principal = None, ae_actor = None, ae_tenant_id = Some tenant_id,
           ae_target = None, ae_detail = Some detail\<rparr>)"

definition authorize_billing :: "sandbox_config \<Rightarrow> resolved_spec \<Rightarrow> int \<Rightarrow> string \<Rightarrow> unit prog" where
  "authorize_billing cfg rv seconds tenant_id =
     (case sv_billing cfg of
        None \<Rightarrow> return_em ()
      | Some mode \<Rightarrow>
          bind_em (lift_em (estimate_usage_for_spec (sp_resources (rv_spec rv)) seconds
                              (db_sidecar_count (rv_sidecar_components rv)))) (\<lambda>estimate.
          bind_em (billing_authorize mode tenant_id estimate) (\<lambda>auth.
          if ar_authorized auth then return_em ()
          else
            (let reason = (case py_or (ar_reason auth) None of Some r \<Rightarrow> r | None \<Rightarrow> ''billing authorization denied'')
             in seq_em (denial_audit cfg ''denied.billing'' tenant_id
                  (JObject [(''reason'', case ar_reason auth of None \<Rightarrow> JNull | Some r \<Rightarrow> JString r),
                            (''estimated_cost'', JFloat (ar_estimated_cost auth))]))
                (raise_em (BillingAuthorizationError reason))))))"

text \<open>\<open>str(exc)\<close> of the exceptions the quota check raises, up to the sentence around it.\<close>

fun quota_message :: "exn \<Rightarrow> string" where
  "quota_message (QuotaExceededError s) = s"
| "quota_message (BillingAuthorizationError s) = s"
| "quota_message _ = []"

definition check_quota :: "sandbox_config \<Rightarrow> resolved_spec \<Rightarrow> string \<Rightarrow> unit prog" where
  "check_quota cfg rv tenant_id =
     (case sv_quota cfg of
        None \<Rightarrow> return_em ()
      | Some df \<Rightarrow>
          catch_em (quota_check df tenant_id (Some (sp_resources (rv_spec rv)))) is_quota_exceeded
            (\<lambda>e. seq_em (denial_audit cfg ''denied.quota'' tenant_id (JObject [(''reason'', JString (quota_message e))]))
                   (raise_em e)))"

subsection \<open>What resolution and admission leave alone\<close>

lemma fresh_token_leaves [moves_intro]:
  "leaves w_db fresh_token" "leaves (\<lambda>w. f (w_db w)) fresh_token" "leaves (\<lambda>w. f (w_committed w)) fresh_token"
  by (simp_all add: moves_def)

lemma render_sidecars_leave:
  assumes "\<And>w n. f (w\<lparr>w_tokens := n\<rparr>) = f w"
  shows "leaves f (render_sidecars reg cs st)"
proof -
  have tok: "leaves f fresh_token" using assms by (simp add: moves_def)
  have one: "leaves f (render_sidecar reg c st)" for c st
    unfolding render_sidecar_def generate_db_credentials_def Let_def
    by (cases st) (auto intro!: moves_intro tok)
  show ?thesis
  proof (induction cs arbitrary: st)
    case (Cons c cs)
    then show ?case unfolding render_sidecars.simps by (intro moves_intro one)
  qed (unfold render_sidecars.simps, intro moves_intro)
qed

lemma resolve_spec_leaves:
  assumes "\<And>w n. f (w\<lparr>w_tokens := n\<rparr>) = f w"
  shows "leaves f (resolve_spec cfg language version template)" "leaves f (resolve_template r)"
proof -
  have rt: "leaves f (render_template reg t)" for reg t
    unfolding render_template_def Let_def
    by (intro moves_intro render_sidecars_leave [OF assms])
  show "leaves f (resolve_template r)" unfolding resolve_template_def by (intro moves_intro rt)
  then show "leaves f (resolve_spec cfg language version template)"
    unfolding resolve_spec_def resolve_template_def by (intro moves_intro rt)
qed

end
