(* ===== verification/Sandboxes.thy ===== *)
theory Sandboxes
  imports Sandbox_Spec
begin

section \<open>The sandbox service\<close>

text \<open>
  The second half of \<open>app/services/sandbox_service.py\<close>: the one-shot run (\<open>execute\<close>), its
  asynchronous variant, and the lifecycle of sandboxes that outlive a request. Latencies, counters and
  trace spans are left out; the \<open>sandboxes_active\<close> gauge is \<open>w_active\<close>. The database accepts every
  write: constraint violations and lost connections are not modelled.
\<close>

subsection \<open>Helpers\<close>

definition put_sandbox :: "sandbox_row \<Rightarrow> unit prog" where
  "put_sandbox r = update_db (\<lambda>d. d\<lparr>d_sandboxes := row_put sb_id r (d_sandboxes d)\<rparr>)"

definition put_run :: "run_row \<Rightarrow> unit prog" where
  "put_run r = update_db (\<lambda>d. d\<lparr>d_runs := row_put rn_id r (d_runs d)\<rparr>)"

definition gauge_add :: "string \<Rightarrow> string \<Rightarrow> int \<Rightarrow> unit prog" where
  "gauge_add backend wc n = modify_em (\<lambda>w. w\<lparr>w_active := (w_active w)((backend, wc) := w_active w (backend, wc) + n)\<rparr>)"

definition audit_if :: "sandbox_config \<Rightarrow> audit_entry \<Rightarrow> unit prog" where
  "audit_if cfg entry = (case sv_audit cfg of None \<Rightarrow> return_em () | Some acfg \<Rightarrow> audit_record acfg entry)"

definition acquire_instrumented :: "sandbox_spec \<Rightarrow> sandbox_handle prog" where
  "acquire_instrumented spec = prov_acquire spec"

definition run_instrumented :: "sandbox_handle \<Rightarrow> batch_command \<Rightarrow> batch_run_result prog" where
  "run_instrumented handle command = prov_exec_batch handle command"

definition acquire_for_execute :: "sandbox_config \<Rightarrow> sandbox_spec \<Rightarrow> sandbox_handle prog" where
  "acquire_for_execute cfg spec =
     (if sv_pool cfg
      then bind_em (try_claim spec) (\<lambda>claimed.
           case claimed of Some handle \<Rightarrow> return_em handle | None \<Rightarrow> acquire_instrumented spec)
      else acquire_instrumented spec)"

definition is_clean_run :: "batch_run_result \<Rightarrow> bool" where
  "is_clean_run result \<longleftrightarrow> \<not> br_timed_out result \<and> \<not> br_truncated result"

definition release_or_destroy ::
  "sandbox_config \<Rightarrow> sandbox_handle \<Rightarrow> sandbox_spec \<Rightarrow> batch_run_result option \<Rightarrow> unit prog" where
  "release_or_destroy cfg handle spec result =
     (if (case result of None \<Rightarrow> False | Some r \<Rightarrow> is_clean_run r) \<and> sv_pool cfg \<and> is_poolable spec
      then release handle spec
      else prov_destroy handle)"

definition provision_sidecars ::
  "sandbox_handle \<Rightarrow> component list \<Rightarrow> (string \<times> db_credentials) list \<Rightarrow> unit prog" where
  "provision_sidecars handle sidecars creds =
     for_em sidecars (\<lambda>c.
       case cs_hooks (c_spec c) of
         None \<Rightarrow> return_em ()
       | Some modl \<Rightarrow>
           (case map_of creds (md_name (c_metadata c)) of
              None \<Rightarrow> return_em ()
            | Some _ \<Rightarrow> hook_on_provision modl handle))"

definition teardown_sidecars :: "sandbox_handle \<Rightarrow> component list \<Rightarrow> unit prog" where
  "teardown_sidecars handle sidecars =
     for_em sidecars (\<lambda>c.
       case cs_hooks (c_spec c) of
         None \<Rightarrow> return_em ()
       | Some modl \<Rightarrow> catch_em (hook_on_teardown modl handle) (\<lambda>_. True) (\<lambda>_. return_em ()))"

definition handle_from_row :: "sandbox_row \<Rightarrow> sandbox_handle" where
  "handle_from_row row =
     \<lparr>h_sandbox_id = sb_id row, h_backend = sb_backend row, h_native_ref = sb_native_ref row,
      h_created_at = sb_created_at row, h_sidecar_refs = sb_sidecar_refs row, h_persistent = sb_persistent row\<rparr>"

definition sidecar_components_for_row :: "sandbox_row \<Rightarrow> component list prog" where
  "sidecar_components_for_row row =
     (if \<not> truthy (sb_template_ref row) then return_em []
      else bind_em (resolve_template (the (sb_template_ref row))) (\<lambda>rendered.
           return_em (rd_sidecar_components rendered)))"

definition spec_resources_for_row :: "sandbox_row \<Rightarrow> resource_spec prog" where
  "spec_resources_for_row row =
     (if truthy (sb_template_ref row)
      then bind_em (resolve_template (the (sb_template_ref row))) (\<lambda>rendered.
           return_em (sp_resources (rd_sandbox_spec rendered)))
      else (case sb_component_refs row of
              [] \<Rightarrow> raise_em (KubeSandboxError (sb_id row))
            | r # _ \<Rightarrow>
                bind_em (gets_em w_registry) (\<lambda>reg.
                bind_em (lift_em (resolve_component_ref reg r)) (\<lambda>c.
                bind_em (lift_em (build_ad_hoc_spec reg c)) (\<lambda>spec. return_em (sp_resources spec))))))"

definition resolve_component_for_run :: "sandbox_row \<Rightarrow> string option \<Rightarrow> component prog" where
  "resolve_component_for_run row language =
     (if truthy (sb_template_ref row)
      then bind_em (resolve_template (the (sb_template_ref row))) (\<lambda>rendered.
           if truthy language then lift_em (pick_template_component rendered (the language))
           else (case rd_main_components rendered of
                   [c] \<Rightarrow> return_em c
                 | _ \<Rightarrow> raise_em (KubeSandboxError (sb_id row))))
      else (case sb_component_refs row of
              [] \<Rightarrow> raise_em (KubeSandboxError (sb_id row))
            | r # _ \<Rightarrow> bind_em (gets_em w_registry) (\<lambda>reg. lift_em (resolve_component_ref reg r))))"

subsection \<open>Recording a run\<close>

definition audit_run :: "sandbox_config \<Rightarrow> run_row \<Rightarrow> string \<Rightarrow> string option \<Rightarrow> string \<Rightarrow> unit prog" where
  "audit_run cfg row tenant_id user_id component_ref =
     audit_if cfg
       \<lparr>ae_action = ''sandbox.run'', ae_principal = None, ae_actor = Some (actor_from_ids tenant_id user_id),
        ae_tenant_id = Some tenant_id, ae_target = rn_sandbox_id row,
        ae_detail = Some (JObject [(''run_id'', JString (rn_id row)), (''component'', JString component_ref),
          (''command'', JList (map JString (rn_command row))),
          (''exit_code'', case rn_exit_code row of None \<Rightarrow> JNull | Some n \<Rightarrow> JInt n),
          (''duration_ms'', case rn_duration_ms row of None \<Rightarrow> JNull | Some n \<Rightarrow> JInt n),
          (''timed_out'', JBool (rn_timed_out row)), (''truncated'', JBool (rn_truncated row))])\<rparr>"

definition completed_run ::
  "run_row \<Rightarrow> batch_run_result \<Rightarrow> string \<Rightarrow> string \<Rightarrow> string list \<Rightarrow> string \<Rightarrow> int \<Rightarrow> run_row" where
  "completed_run row result sandbox_id tenant_id command component_ref finished =
     row\<lparr>rn_sandbox_id := Some sandbox_id, rn_tenant_id := tenant_id, rn_command := command,
        rn_component_ref := Some component_ref, rn_status := RunCompleted,
        rn_exit_code := Some (br_exit_code result), rn_stdout_excerpt := Some (take 10000 (br_stdout result)),
        rn_stderr_excerpt := Some (take 10000 (br_stderr result)), rn_variables := br_variables result,
        rn_truncated := br_truncated result, rn_timed_out := br_timed_out result,
        rn_duration_ms := Some (br_duration_ms result), rn_finished_at := Some finished\<rparr>"

definition blank_run :: "string \<Rightarrow> string \<Rightarrow> int \<Rightarrow> run_row" where
  "blank_run i tenant_id created =
     \<lparr>rn_id = i, rn_sandbox_id = None, rn_tenant_id = tenant_id, rn_command = [], rn_status = RunCompleted,
      rn_component_ref = None, rn_error = None, rn_exit_code = None, rn_stdout_excerpt = None,
      rn_stderr_excerpt = None, rn_variables = None, rn_truncated = False, rn_timed_out = False,
      rn_duration_ms = None, rn_created_at = created, rn_finished_at = None\<rparr>"

definition persist_run_result ::
  "sandbox_config \<Rightarrow> batch_run_result \<Rightarrow> string option \<Rightarrow> string \<Rightarrow> string \<Rightarrow> string list \<Rightarrow> string \<Rightarrow> string option \<Rightarrow> run_row prog" where
  "persist_run_result cfg result existing_run_id sandbox_id tenant_id command component_ref user_id =
     bind_em utc_now (\<lambda>finished.
     case existing_run_id of
       None \<Rightarrow>
         bind_em fresh_uuid (\<lambda>i. bind_em db_now (\<lambda>created.
         let row = completed_run (blank_run i tenant_id created) result sandbox_id tenant_id command component_ref finished
         in seq_em (put_run row)
            (seq_em (audit_run cfg row tenant_id user_id component_ref)
            (return_em row))))
     | Some run_id \<Rightarrow>
         bind_em (query_db (\<lambda>d. row_get rn_id run_id (d_runs d))) (\<lambda>found.
         case found of
           None \<Rightarrow>
             bind_em db_now (\<lambda>created.
             let row = completed_run (blank_run run_id tenant_id created) result sandbox_id tenant_id command component_ref finished
             in seq_em (put_run row) (return_em row))
         | Some run_row \<Rightarrow>
             (let row = completed_run run_row result sandbox_id tenant_id command component_ref finished
              in seq_em (put_run row)
                 (seq_em (audit_run cfg row tenant_id user_id component_ref)
                 (return_em row)))))"

definition bill_events :: "sandbox_config \<Rightarrow> string \<Rightarrow> usage_event list \<Rightarrow> unit prog" where
  "bill_events cfg tenant_id events =
     (case sv_billing cfg of
        None \<Rightarrow> return_em ()
      | Some mode \<Rightarrow> for_em events (\<lambda>ev. billing_record_usage mode tenant_id ev))"

subsection \<open>One-shot runs\<close>

definition new_sandbox_row ::
  "sandbox_handle \<Rightarrow> resolved_spec \<Rightarrow> string \<Rightarrow> string option \<Rightarrow> bool \<Rightarrow> string option \<Rightarrow> int \<Rightarrow> int \<Rightarrow> int \<Rightarrow> sandbox_row" where
  "new_sandbox_row handle rv tenant_id user_id persistent workspace_id idle_ttl max_ttl created =
     \<lparr>sb_id = h_sandbox_id handle, sb_tenant_id = tenant_id, sb_user_id = user_id,
      sb_template_ref = rv_template_ref rv, sb_component_refs = rv_component_refs rv,
      sb_backend = h_backend handle, sb_native_ref = h_native_ref handle,
      sb_sidecar_refs = h_sidecar_refs handle, sb_state = Active,
      sb_weight_class = weight_class_value (sp_weight_class (rv_spec rv)), sb_persistent = persistent,
      sb_workspace_id = workspace_id, sb_idle_ttl_seconds = Some idle_ttl, sb_max_ttl_seconds = Some max_ttl,
      sb_created_at = created, sb_last_active_at = None, sb_terminated_at = None\<rparr>"

text \<open>The part of \<open>execute\<close> that holds a scheduler slot: acquire, run, tear down.\<close>

definition execute_in_slot ::
  "sandbox_config \<Rightarrow> resolved_spec \<Rightarrow> batch_command \<Rightarrow> int \<times> int \<Rightarrow> string \<Rightarrow> string option \<Rightarrow>
   (sandbox_handle \<times> sandbox_row \<times> batch_run_result) prog" where
  "execute_in_slot cfg rv command ttls tenant_id user_id =
     bind_em (acquire_for_execute cfg (rv_spec rv)) (\<lambda>handle.
     let wc = weight_class_value (sp_weight_class (rv_spec rv)) in
     seq_em (gauge_add (h_backend handle) wc 1)
     (bind_em db_now (\<lambda>created.
      let row = new_sandbox_row handle rv tenant_id user_id False None (fst ttls) (snd ttls) created in
      seq_em (put_sandbox row)
      (bind_em
        (finally_with
          (seq_em (provision_sidecars handle (rv_sidecar_components rv) (rv_sidecar_credentials rv))
             (run_instrumented handle command))
          (\<lambda>result.
            seq_em (teardown_sidecars handle (rv_sidecar_components rv))
            (seq_em (release_or_destroy cfg handle (rv_spec rv) result)
            (gauge_add (h_backend handle) wc (- 1))))) (\<lambda>result.
       return_em (handle, row, result))))))"

definition execute ::
  "sandbox_config \<Rightarrow> string \<Rightarrow> string \<Rightarrow> string option \<Rightarrow> string \<Rightarrow> string option \<Rightarrow> string \<Rightarrow> string option \<Rightarrow>
   string option \<Rightarrow> batch_run_result prog" where
  "execute cfg language code version stdin template tenant_id user_id existing_run_id =
     bind_em (resolve_spec cfg language version template) (\<lambda>rv.
     bind_em (lift_em (build_batch_command (rv_component rv) code stdin)) (\<lambda>command.
     bind_em (lift_em (resolve_ttl_seconds cfg rv)) (\<lambda>ttls.
     seq_em (check_quota cfg rv tenant_id)
     (seq_em (authorize_billing cfg rv (sp_wall_clock_seconds (rv_spec rv)) tenant_id)
     (bind_em (execute_in_slot cfg rv command ttls tenant_id user_id) (\<lambda>(handle, row, result).
      bind_em (persist_run_result cfg result existing_run_id (h_sandbox_id handle) tenant_id (bc_command command)
                 (component_key (rv_component rv)) user_id) (\<lambda>run_row.
      seq_em (put_sandbox (row\<lparr>sb_state := Terminated\<rparr>))
      (seq_em
        (if sv_billing cfg = None then return_em ()
         else bind_em (lift_em (usage_events_for_run (sp_resources (rv_spec rv)) (br_duration_ms result)
                                  (h_sandbox_id handle) (Some (rn_id run_row))
                                  (db_sidecar_count (rv_sidecar_components rv)))) (bill_events cfg tenant_id))
      (seq_em commit
      (return_em result))))))))))"

definition start_async_run ::
  "sandbox_config \<Rightarrow> string \<Rightarrow> string option \<Rightarrow> string option \<Rightarrow> string \<Rightarrow> run_row prog" where
  "start_async_run cfg language version template tenant_id =
     (if \<not> sv_session_factory cfg then raise_em (KubeSandboxError ''async runs are not available'')
      else
        bind_em (resolve_spec cfg language version template) (\<lambda>rv.
        bind_em fresh_uuid (\<lambda>i. bind_em db_now (\<lambda>created.
        let row = (blank_run i tenant_id created)\<lparr>rn_status := RunPending,
                     rn_component_ref := Some (component_key (rv_component rv))\<rparr>
        in seq_em (put_run row) (seq_em commit (return_em row))))))"

definition fail_run :: "string \<Rightarrow> exn \<Rightarrow> unit prog" where
  "fail_run run_id e =
     bind_em (query_db (\<lambda>d. row_get rn_id run_id (d_runs d))) (\<lambda>found.
     case found of
       None \<Rightarrow> return_em ()
     | Some row \<Rightarrow> bind_em utc_now (\<lambda>now.
         seq_em (put_run (row\<lparr>rn_status := RunFailed, rn_error := Some e, rn_finished_at := Some now\<rparr>)) commit))"

definition run_async ::
  "sandbox_config \<Rightarrow> string \<Rightarrow> string \<Rightarrow> string \<Rightarrow> string option \<Rightarrow> string \<Rightarrow> string option \<Rightarrow> string \<Rightarrow> string option \<Rightarrow> unit prog" where
  "run_async cfg run_id language code version stdin template tenant_id user_id =
     (if \<not> sv_session_factory cfg then return_em ()
      else with_session
        (bind_em (query_db (\<lambda>d. row_get rn_id run_id (d_runs d))) (\<lambda>found.
         seq_em (case found of
                   None \<Rightarrow> return_em ()
                 | Some row \<Rightarrow> seq_em (put_run (row\<lparr>rn_status := RunRunning\<rparr>)) commit)
         (catch_em
           (bind_em (execute cfg language code version stdin template tenant_id user_id (Some run_id))
              (\<lambda>_. return_em ()))
           (\<lambda>_. True)
           (\<lambda>e. seq_em rollback (with_session (fail_run run_id e)))))))"

subsection \<open>Sandboxes that outlive a request\<close>

definition workspace_for_create ::
  "sandbox_config \<Rightarrow> bool \<Rightarrow> string option \<Rightarrow> resolved_spec \<Rightarrow> (string option \<times> resolved_spec) prog" where
  "workspace_for_create cfg persistent user_id rv =
     (if \<not> persistent then return_em (None, rv)
      else case sv_workspaces cfg of
             None \<Rightarrow> raise_em (KubeSandboxError ''persistent workspaces are not enabled'')
           | Some wcfg \<Rightarrow>
               (case user_id of
                  None \<Rightarrow> raise_em (KubeSandboxError ''a persistent sandbox requires an authenticated user'')
                | Some u \<Rightarrow>
                    bind_em (workspace_get_or_create wcfg u) (\<lambda>workspace.
                    if ws_state workspace \<noteq> WsActive then raise_em (KubeSandboxError (ws_id workspace))
                    else
                      seq_em (lift_em (workspace_check_quota workspace))
                      (bind_em (workspace_touch workspace) (\<lambda>touched.
                      return_em (Some (ws_id touched),
                        rv\<lparr>rv_spec := (rv_spec rv)\<lparr>sp_workspace_id := Some (ws_id touched),
                                                  sp_workspace_size_mb := Some (ws_quota_mb touched)\<rparr>\<rparr>))))))"

definition create_sandbox ::
  "sandbox_config \<Rightarrow> string \<Rightarrow> string option \<Rightarrow> string option \<Rightarrow> bool \<Rightarrow> string \<Rightarrow> string option \<Rightarrow> sandbox_row prog" where
  "create_sandbox cfg language version template persistent tenant_id user_id =
     bind_em (resolve_spec cfg language version template) (\<lambda>rv0.
     bind_em (lift_em (resolve_ttl_seconds cfg rv0)) (\<lambda>ttls.
     seq_em (check_quota cfg rv0 tenant_id)
     (seq_em (authorize_billing cfg rv0 (snd ttls) tenant_id)
     (bind_em (workspace_for_create cfg persistent user_id rv0) (\<lambda>(workspace_id, rv).
      bind_em (acquire_for_execute cfg (rv_spec rv)) (\<lambda>handle.
      seq_em (catch_em (provision_sidecars handle (rv_sidecar_components rv) (rv_sidecar_credentials rv)) (\<lambda>_. True)
                (\<lambda>e. seq_em (prov_destroy handle) (raise_em e)))
      (bind_em db_now (\<lambda>created.
       let row = new_sandbox_row handle rv tenant_id user_id persistent workspace_id (fst ttls) (snd ttls) created in
       seq_em (put_sandbox row)
       (seq_em (audit_if cfg
          \<lparr>ae_action = ''sandbox.create'', ae_principal = None, ae_actor = None, ae_tenant_id = Some tenant_id,
           ae_target = Some (h_sandbox_id handle),
           ae_detail = Some (JObject [(''components'', JList (map JString (rv_component_refs rv))),
             (''persistent'', JBool persistent), (''backend'', JString (h_backend handle))])\<rparr>)
       (seq_em commit
       (seq_em (gauge_add (h_backend handle) (sb_weight_class row) 1)
       (return_em row))))))))))))"

definition get_sandbox :: "string \<Rightarrow> string \<Rightarrow> sandbox_row prog" where
  "get_sandbox sandbox_id tenant_id =
     bind_em (query_db (\<lambda>d. row_get sb_id sandbox_id (d_sandboxes d))) (\<lambda>found.
     case found of
       None \<Rightarrow> raise_em (SandboxNotFoundError sandbox_id)
     | Some row \<Rightarrow> (if sb_tenant_id row \<noteq> tenant_id then raise_em (SandboxNotFoundError sandbox_id)
                    else return_em row))"

definition get_sandbox_status :: "string \<Rightarrow> string \<Rightarrow> (sandbox_row \<times> sandbox_state) prog" where
  "get_sandbox_status sandbox_id tenant_id =
     bind_em (get_sandbox sandbox_id tenant_id) (\<lambda>row.
     if sb_state row = Terminated then return_em (row, Terminated)
     else
       bind_em (prov_status (handle_from_row row)) (\<lambda>status.
       if status = Terminated
       then bind_em utc_now (\<lambda>now.
            let row' = row\<lparr>sb_state := Terminated, sb_terminated_at := Some now\<rparr>
            in seq_em (put_sandbox row') (seq_em commit (return_em (row', status))))
       else return_em (row, status)))"

text \<open>\<open>int(x)\<close> of a non-negative number of seconds.\<close>

definition trunc_rat :: "rat \<Rightarrow> int" where
  "trunc_rat x = \<lfloor>x\<rfloor>"

definition destroy_sandbox :: "sandbox_config \<Rightarrow> string \<Rightarrow> string \<Rightarrow> int option \<Rightarrow> unit prog" where
  "destroy_sandbox cfg sandbox_id tenant_id given_now =
     bind_em (get_sandbox sandbox_id tenant_id) (\<lambda>row.
     if sb_state row = Terminated then return_em ()
     else
       bind_em (sidecar_components_for_row row) (\<lambda>sidecars.
       seq_em (teardown_sidecars (handle_from_row row) sidecars)
       (seq_em (prov_destroy (handle_from_row row))
       (bind_em (case given_now of Some t \<Rightarrow> return_em t | None \<Rightarrow> utc_now) (\<lambda>now.
        bind_em (lift_em (elapsed_seconds (Aware (sb_created_at row)) (Aware now))) (\<lambda>elapsed.
        seq_em
          (if sv_billing cfg = None then return_em ()
           else bind_em (spec_resources_for_row row) (\<lambda>res.
                bind_em (lift_em (usage_events_for_run res (trunc_rat (elapsed * 1000)) (sb_id row) None
                                    (db_sidecar_count sidecars))) (bill_events cfg tenant_id)))
        (seq_em (put_sandbox (row\<lparr>sb_state := Terminated, sb_terminated_at := Some now\<rparr>))
        (seq_em (audit_if cfg
           \<lparr>ae_action = ''sandbox.destroy'', ae_principal = None, ae_actor = None, ae_tenant_id = Some tenant_id,
            ae_target = Some (sb_id row),
            ae_detail = Some (JObject [(''lifetime_seconds'', JInt (trunc_rat elapsed)),
              (''persistent'', JBool (sb_persistent row)), (''backend'', JString (sb_backend row))])\<rparr>)
        (seq_em commit
        (gauge_add (sb_backend row) (sb_weight_class row) (- 1)))))))))))"

definition touch_workspace :: "sandbox_row \<Rightarrow> unit prog" where
  "touch_workspace row =
     (case sb_workspace_id row of
        None \<Rightarrow> return_em ()
      | Some i \<Rightarrow>
          bind_em (query_db (\<lambda>d. row_get ws_id i (d_workspaces d))) (\<lambda>found.
          case found of
            None \<Rightarrow> return_em ()
          | Some workspace \<Rightarrow> seq_em (bind_em (workspace_touch workspace) (\<lambda>_. return_em ())) commit))"

definition open_pty :: "sandbox_config \<Rightarrow> string \<Rightarrow> string \<Rightarrow> unit prog" where
  "open_pty cfg sandbox_id tenant_id =
     bind_em (get_sandbox sandbox_id tenant_id) (\<lambda>row.
     if sb_state row = Terminated then raise_em (SandboxNotFoundError sandbox_id)
     else
       seq_em (touch_workspace row)
       (seq_em (if sv_audit cfg = None then return_em ()
                else seq_em (audit_if cfg
                  \<lparr>ae_action = ''sandbox.attach'', ae_principal = None, ae_actor = None, ae_tenant_id = Some tenant_id,
                   ae_target = Some (sb_id row), ae_detail = None\<rparr>) commit)
       (prov_attach (handle_from_row row))))"

definition live_handle :: "string \<Rightarrow> string \<Rightarrow> sandbox_handle prog" where
  "live_handle sandbox_id tenant_id =
     bind_em (get_sandbox sandbox_id tenant_id) (\<lambda>row.
     if sb_state row = Terminated then raise_em (SandboxNotFoundError sandbox_id)
     else return_em (handle_from_row row))"

definition get_file :: "string \<Rightarrow> string \<Rightarrow> string \<Rightarrow> string prog" where
  "get_file sandbox_id tenant_id path =
     bind_em (live_handle sandbox_id tenant_id) (\<lambda>handle. prov_get_file handle path)"

definition put_file :: "string \<Rightarrow> string \<Rightarrow> string \<Rightarrow> string \<Rightarrow> unit prog" where
  "put_file sandbox_id tenant_id relative_path content =
     bind_em (live_handle sandbox_id tenant_id) (\<lambda>handle. prov_put_files handle [(relative_path, content)])"

definition list_tree :: "string \<Rightarrow> string \<Rightarrow> string \<Rightarrow> (string \<times> bool) list prog" where
  "list_tree sandbox_id tenant_id path =
     bind_em (live_handle sandbox_id tenant_id) (\<lambda>handle. prov_list_tree handle path)"

definition run_in_sandbox ::
  "sandbox_config \<Rightarrow> string \<Rightarrow> string \<Rightarrow> string \<Rightarrow> string option \<Rightarrow> string \<Rightarrow> batch_run_result prog" where
  "run_in_sandbox cfg sandbox_id code stdin language tenant_id =
     bind_em (get_sandbox sandbox_id tenant_id) (\<lambda>row.
     if sb_state row = Terminated then raise_em (SandboxNotFoundError sandbox_id)
     else
       bind_em (resolve_component_for_run row language) (\<lambda>c.
       bind_em (lift_em (build_batch_command c code stdin)) (\<lambda>command.
       bind_em (run_instrumented (handle_from_row row) command) (\<lambda>result.
       bind_em utc_now (\<lambda>now.
       seq_em (put_sandbox (row\<lparr>sb_last_active_at := Some now\<rparr>))
       (seq_em (touch_workspace row)
       (bind_em (persist_run_result cfg result None (sb_id row) tenant_id (bc_command command)
                   (component_key c) None) (\<lambda>_.
       seq_em commit (return_em result)))))))))"

end
