(* ===== verification/Billing_Laws.thy ===== *)
theory Billing_Laws
  imports Billing
begin

section \<open>Laws of billing\<close>

text \<open>
  The contract both costing strategies keep (the \<open>CostingStrategy\<close> protocol of
  \<open>app/domain/billing.py\<close>) as a locale interpreted on the two of them, the ledger invariant of the
  wallets, and the properties of authorization, usage recording and credit requests.
\<close>

subsection \<open>The ledger invariant\<close>

definition ledger_of :: "string \<Rightarrow> db \<Rightarrow> ledger_row list" where
  "ledger_of t d = filter (\<lambda>e. cl_tenant_id e = t) (d_ledger d)"

fun running :: "rat \<Rightarrow> ledger_row list \<Rightarrow> bool" where
  "running acc [] = True"
| "running acc (e # es) = (cl_balance_after e = acc + cl_delta e \<and> running (acc + cl_delta e) es)"

definition audited :: "db \<Rightarrow> bool" where
  "audited d \<longleftrightarrow> (\<forall>t. running 0 (ledger_of t d) \<and>
     wallet_balance t d = sum_list (map cl_delta (ledger_of t d)))"

definition ledger_inv :: "world \<Rightarrow> bool" where
  "ledger_inv w \<longleftrightarrow> audited (w_db w) \<and> audited (w_committed w)"

lemma running_append:
  "running acc (es @ [e]) \<longleftrightarrow> running acc es \<and>
     cl_balance_after e = acc + sum_list (map cl_delta es) + cl_delta e"
  by (induction es arbitrary: acc) (auto simp: algebra_simps)

lemma audited_cong:
  "d_wallets d' = d_wallets d \<Longrightarrow> d_ledger d' = d_ledger d \<Longrightarrow> audited d' = audited d"
  by (simp add: audited_def ledger_of_def wallet_balance_def)

lemma audited_empty: "audited empty_db"
  by (simp add: audited_def ledger_of_def wallet_balance_def empty_db_def row_get_def)

definition balance_in :: "string \<Rightarrow> wallet_row list \<Rightarrow> rat" where
  "balance_in t rows = (case row_get cw_tenant_id t rows of None \<Rightarrow> 0 | Some w \<Rightarrow> cw_balance w)"

lemma wallet_balance_in: "wallet_balance t d = balance_in t (d_wallets d)"
  by (simp add: wallet_balance_def balance_in_def)

lemma balance_in_put [simp]:
  "balance_in t (row_put cw_tenant_id r rows) = (if cw_tenant_id r = t then cw_balance r else balance_in t rows)"
  by (simp add: balance_in_def row_get_put)

lemma apply_delta_run:
  "apply_delta t delta reason w =
     (Inr \<lparr>cw_tenant_id = t, cw_balance = wallet_balance t (w_db w) + delta\<rparr>,
      w\<lparr>w_db := (w_db w)\<lparr>
         d_wallets := row_put cw_tenant_id \<lparr>cw_tenant_id = t, cw_balance = wallet_balance t (w_db w) + delta\<rparr>
           (d_wallets (w_db w)),
         d_ledger := d_ledger (w_db w) @ [\<lparr>cl_tenant_id = t, cl_delta = delta, cl_reason = reason,
                                           cl_balance_after = wallet_balance t (w_db w) + delta\<rparr>]\<rparr>\<rparr>)"
proof (cases "row_get cw_tenant_id t (d_wallets (w_db w))")
  case (Some r)
  then have "cw_tenant_id r = t" by (rule row_get_key)
  then have "r\<lparr>cw_balance := cw_balance r + delta\<rparr> = \<lparr>cw_tenant_id = t, cw_balance = cw_balance r + delta\<rparr>"
    by (cases r) simp
  with Some show ?thesis
    by (simp add: apply_delta_def em_simps wallet_balance_def Let_def)
qed (simp add: apply_delta_def em_simps wallet_balance_def Let_def)

lemma apply_delta_ledger [moves_intro]: "keeps ledger_inv (apply_delta t delta reason)"
proof (rule movesI, rule impI)
  fix w r w'
  assume run: "apply_delta t delta reason w = (r, w')" and inv: "ledger_inv w"
  let ?e = "\<lparr>cl_tenant_id = t, cl_delta = delta, cl_reason = reason,
             cl_balance_after = wallet_balance t (w_db w) + delta\<rparr>"
  have led: "ledger_of u (w_db w') = (if u = t then ledger_of u (w_db w) @ [?e] else ledger_of u (w_db w))"
    and bal: "wallet_balance u (w_db w') = (if u = t then wallet_balance t (w_db w) + delta
                else wallet_balance u (w_db w))"
    and com: "w_committed w' = w_committed w" for u
    using run by (auto simp: apply_delta_run ledger_of_def wallet_balance_in)
  have "running 0 (ledger_of u (w_db w')) \<and>
      wallet_balance u (w_db w') = sum_list (map cl_delta (ledger_of u (w_db w')))" for u
    using inv unfolding ledger_inv_def audited_def led bal by (auto simp: running_append)
  then show "ledger_inv w'"
    using inv com by (simp add: ledger_inv_def audited_def)
qed

lemma update_db_ledger:
  "(\<And>d. audited d \<Longrightarrow> audited (f d)) \<Longrightarrow> keeps ledger_inv (update_db f)"
  by (auto simp: moves_def ledger_inv_def)

lemma commit_ledger [moves_intro]: "keeps ledger_inv commit"
  by (auto simp: moves_def ledger_inv_def)

lemma rollback_ledger [moves_intro]: "keeps ledger_inv rollback"
  by (auto simp: moves_def ledger_inv_def)

lemma query_db_ledger [moves_intro]: "keeps ledger_inv (query_db f)"
  by (auto simp: moves_def ledger_inv_def)

lemma utc_now_ledger [moves_intro]: "keeps ledger_inv utc_now"
  by (auto simp: moves_def ledger_inv_def)

lemma db_now_ledger [moves_intro]: "keeps ledger_inv db_now"
  by (auto simp: moves_def ledger_inv_def)

lemma fresh_uuid_ledger [moves_intro]: "keeps ledger_inv fresh_uuid"
  by (auto simp: moves_def ledger_inv_def)

lemma accounts_ledger [moves_intro]: "keeps ledger_inv (update_db (\<lambda>d. d\<lparr>d_accounts := f d\<rparr>))"
  by (rule update_db_ledger) (simp cong: audited_cong)

lemma usage_ledger [moves_intro]: "keeps ledger_inv (update_db (\<lambda>d. d\<lparr>d_usage := f d\<rparr>))"
  by (rule update_db_ledger) (simp cong: audited_cong)

lemma invoices_ledger [moves_intro]: "keeps ledger_inv (update_db (\<lambda>d. d\<lparr>d_invoices := f d\<rparr>))"
  by (rule update_db_ledger) (simp cong: audited_cong)

lemma requests_ledger [moves_intro]: "keeps ledger_inv (update_db (\<lambda>d. d\<lparr>d_credit_requests := f d\<rparr>))"
  by (rule update_db_ledger) (simp cong: audited_cong)

lemma pricing_ledger [moves_intro]: "keeps ledger_inv (update_db (\<lambda>d. d\<lparr>d_pricing := f d\<rparr>))"
  by (rule update_db_ledger) (simp cong: audited_cong)

lemma get_or_create_account_ledger [moves_intro]: "keeps ledger_inv (get_or_create_account t m)"
  unfolding get_or_create_account_def Let_def by (intro moves_intro)

lemma record_usage_row_ledger [moves_intro]: "keeps ledger_inv (record_usage_row t ev c)"
  unfolding record_usage_row_def by (intro moves_intro)

lemma invoice_ledger [moves_intro]: "keeps ledger_inv (generate_invoice_draft t p)"
  unfolding generate_invoice_draft_def Let_def by (intro moves_intro)

subsection \<open>The strategy contract\<close>

locale costing_strategy =
  fixes authorize :: "string \<Rightarrow> usage_estimate \<Rightarrow> billing_account_row \<Rightarrow> auth_result prog"
    and record_usage :: "string \<Rightarrow> usage_event \<Rightarrow> billing_account_row \<Rightarrow> unit prog"
    and settle :: "string \<Rightarrow> billing_period \<Rightarrow> invoice_row prog"
  assumes authorize_reads: "\<exists>r. authorize t est acc w = (Inr r, w\<lparr>w_clock := Suc (w_clock w)\<rparr>) \<and>
      ar_estimated_cost r = price_estimate est (w_db w) (e_now (w_env w) (w_clock w))"
    and record_usage_ok: "fst (record_usage t ev acc w) = Inr ()"
    and record_usage_appends: "\<exists>u. d_usage (w_db (snd (record_usage t ev acc w))) = d_usage (w_db w) @ [u] \<and>
      ur_tenant_id u = t \<and> ur_quantity u = ev_quantity ev \<and>
      ur_cost u = ev_quantity ev * latest_unit_cost (ev_resource_type ev) (w_db w) (e_now (w_env w) (w_clock w))"
    and record_usage_audited: "keeps ledger_inv (record_usage t ev acc)"
    and record_usage_uncommitted: "leaves w_committed (record_usage t ev acc)"
    and settle_drafts: "\<exists>iv. settle t p w = (Inr iv, w\<lparr>w_db := (w_db w)\<lparr>d_invoices := d_invoices (w_db w) @ [iv]\<rparr>\<rparr>) \<and>
      iv_total_cost iv = period_usage_cost t (w_db w) (bp_start p) (bp_end p) \<and> iv_status iv = ''draft''"
begin

lemma authorize_leaves_db: "leaves w_db (authorize t est acc)"
proof (rule movesI)
  fix w r w'
  assume "authorize t est acc w = (r, w')"
  with authorize_reads [of t est acc w] show "w_db w' = w_db w" by auto
qed

lemma authorize_audited: "keeps ledger_inv (authorize t est acc)"
proof (rule movesI)
  fix w r w'
  assume "authorize t est acc w = (r, w')"
  with authorize_reads [of t est acc w] show "ledger_inv w \<longrightarrow> ledger_inv w'"
    by (auto simp: ledger_inv_def)
qed

lemma settle_audited: "keeps ledger_inv (settle t p)"
proof (rule movesI)
  fix w r w'
  assume "settle t p w = (r, w')"
  with settle_drafts [of t p w] show "ledger_inv w \<longrightarrow> ledger_inv w'"
    by (auto simp: ledger_inv_def cong: audited_cong)
qed

text \<open>Settling after recording bills the recorded cost once, when it falls into the period.\<close>

lemma settle_after_record:
  assumes rec: "record_usage t ev acc w = (Inr (), w')"
    and settled: "settle t p w' = (Inr iv, w'')"
    and inside: "\<forall>u\<in>set (d_usage (w_db w')) - set (d_usage (w_db w)).
      bp_start p \<le> ur_recorded_at u \<and> ur_recorded_at u < bp_end p"
    and fresh: "last (d_usage (w_db w')) \<notin> set (d_usage (w_db w))"
  shows "iv_total_cost iv = period_usage_cost t (w_db w) (bp_start p) (bp_end p) +
    ev_quantity ev * latest_unit_cost (ev_resource_type ev) (w_db w) (e_now (w_env w) (w_clock w))"
proof -
  obtain u where u: "d_usage (w_db w') = d_usage (w_db w) @ [u]" "ur_tenant_id u = t"
    "ur_cost u = ev_quantity ev * latest_unit_cost (ev_resource_type ev) (w_db w) (e_now (w_env w) (w_clock w))"
    using record_usage_appends [of t ev acc w] rec by auto
  have "bp_start p \<le> ur_recorded_at u \<and> ur_recorded_at u < bp_end p"
    using inside fresh u(1) by auto
  then have "period_usage_cost t (w_db w') (bp_start p) (bp_end p) =
      period_usage_cost t (w_db w) (bp_start p) (bp_end p) + ur_cost u"
    using u by (simp add: period_usage_cost_def)
  moreover have "iv_total_cost iv = period_usage_cost t (w_db w') (bp_start p) (bp_end p)"
    using settle_drafts [of t p w'] settled by auto
  ultimately show ?thesis using u(3) by simp
qed

end

lemma record_usage_row_run:
  "record_usage_row t ev c w =
     (Inr (), w\<lparr>w_uuids := Suc (w_uuids w), w_clock := Suc (w_clock w), w_db := (w_db w)\<lparr>d_usage := d_usage (w_db w) @
       [\<lparr>ur_id = e_uuid (w_env w) (w_uuids w), ur_tenant_id = t, ur_sandbox_id = ev_sandbox_id ev, ur_run_id = ev_run_id ev,
         ur_resource_type = ev_resource_type ev, ur_quantity = ev_quantity ev, ur_cost = c,
         ur_recorded_at = e_db_now (w_env w) (w_clock w)\<rparr>]\<rparr>\<rparr>)"
  by (simp add: record_usage_row_def em_simps)

lemma invoice_run:
  "generate_invoice_draft t p w =
     (let iv = \<lparr>iv_tenant_id = t, iv_period_start = bp_start p, iv_period_end = bp_end p,
                iv_total_cost = period_usage_cost t (w_db w) (bp_start p) (bp_end p), iv_status = ''draft''\<rparr>
      in (Inr iv, w\<lparr>w_db := (w_db w)\<lparr>d_invoices := d_invoices (w_db w) @ [iv]\<rparr>\<rparr>))"
  by (simp add: generate_invoice_draft_def em_simps Let_def)

interpretation credit: costing_strategy credit_authorize credit_record_usage credit_settle
proof
  show "keeps ledger_inv (credit_record_usage t ev acc)" for t ev acc
    unfolding credit_record_usage_def by (intro moves_intro)
  show "leaves w_committed (credit_record_usage t ev acc)" for t ev acc
    by (auto simp: moves_def credit_record_usage_def em_simps record_usage_row_run apply_delta_run)
qed (auto simp: credit_authorize_def credit_record_usage_def credit_settle_def em_simps
    record_usage_row_run apply_delta_run invoice_run Let_def)

interpretation payg: costing_strategy payg_authorize payg_record_usage payg_settle
proof
  show "keeps ledger_inv (payg_record_usage t ev acc)" for t ev acc
    unfolding payg_record_usage_def by (intro moves_intro)
  show "leaves w_committed (payg_record_usage t ev acc)" for t ev acc
    by (auto simp: moves_def payg_record_usage_def em_simps record_usage_row_run)
qed (auto simp: payg_authorize_def payg_record_usage_def payg_settle_def em_simps
    record_usage_row_run invoice_run Let_def split: option.splits)

lemma strategy_ledger [moves_intro]:
  "keeps ledger_inv (strategy_authorize s t est acc)"
  "keeps ledger_inv (strategy_record_usage s t ev acc)"
  "keeps ledger_inv (strategy_settle s t p)"
  by (cases s; simp add: credit.authorize_audited credit.record_usage_audited credit.settle_audited
      payg.authorize_audited payg.record_usage_audited payg.settle_audited)+


subsection \<open>The service\<close>

lemma billing_authorize_ledger [moves_intro]: "keeps ledger_inv (billing_authorize m t est)"
  unfolding billing_authorize_def by (intro moves_intro)

lemma billing_record_usage_ledger [moves_intro]: "keeps ledger_inv (billing_record_usage m t ev)"
  unfolding billing_record_usage_def by (intro moves_intro)

lemma billing_settle_ledger [moves_intro]: "keeps ledger_inv (billing_settle m t p)"
  unfolding billing_settle_def by (intro moves_intro)

lemma set_mode_ledger [moves_intro]: "keeps ledger_inv (set_mode m t mode cap)"
  unfolding set_mode_def Let_def by (intro moves_intro)

lemma adjust_credit_ledger [moves_intro]: "keeps ledger_inv (adjust_credit t delta reason)"
  unfolding adjust_credit_def by (intro moves_intro)

lemma request_credit_ledger [moves_intro]: "keeps ledger_inv (request_credit t a reason u)"
  unfolding request_credit_def Let_def by (intro moves_intro)

lemma apply_request_ledger [moves_intro]: "keeps ledger_inv (apply_request m r)"
  unfolding apply_request_def Let_def by (intro moves_intro)

lemma review_credit_request_ledger [moves_intro]: "keeps ledger_inv (review_credit_request m i a rv note)"
  unfolding review_credit_request_def Let_def by (intro moves_intro)

lemma add_pricing_rule_ledger [moves_intro]: "keeps ledger_inv (add_pricing_rule rt c cur eff)"
  unfolding add_pricing_rule_def Let_def by (intro moves_intro)

text \<open>
  Any interleaving of the service's operations, of which some may raise, and of session ends that
  drop what was not committed.
\<close>

datatype billing_op =
    OpAuthorize string usage_estimate
  | OpRecord string usage_event
  | OpSettle string billing_period
  | OpSetMode string string "rat option"
  | OpAdjust string rat string
  | OpRequest string rat string "string option"
  | OpReview string bool "string option" "string option"
  | OpPricing string rat string "int option"
  | OpSessionEnd

fun billing_step :: "string \<Rightarrow> billing_op \<Rightarrow> world \<Rightarrow> world" where
  "billing_step m (OpAuthorize t est) w = snd (billing_authorize m t est w)"
| "billing_step m (OpRecord t ev) w = snd (billing_record_usage m t ev w)"
| "billing_step m (OpSettle t p) w = snd (billing_settle m t p w)"
| "billing_step m (OpSetMode t mode cap) w = snd (set_mode m t mode cap w)"
| "billing_step m (OpAdjust t delta reason) w = snd (adjust_credit t delta reason w)"
| "billing_step m (OpRequest t a reason u) w = snd (request_credit t a reason u w)"
| "billing_step m (OpReview i a rv note) w = snd (review_credit_request m i a rv note w)"
| "billing_step m (OpPricing rt c cur eff) w = snd (add_pricing_rule rt c cur eff w)"
| "billing_step m OpSessionEnd w = snd (rollback w)"

definition billing_run :: "string \<Rightarrow> billing_op list \<Rightarrow> world \<Rightarrow> world" where
  "billing_run m ops w = foldl (\<lambda>v op. billing_step m op v) w ops"

lemma billing_step_ledger: "ledger_inv w \<Longrightarrow> ledger_inv (billing_step m op w)"
  by (cases op; simp only: billing_step.simps) (rule keeps_snd, intro moves_intro, assumption)+

lemma billing_run_ledger: "ledger_inv w \<Longrightarrow> ledger_inv (billing_run m ops w)"
  unfolding billing_run_def by (induction ops arbitrary: w) (simp_all add: billing_step_ledger)

definition account_of :: "string \<Rightarrow> string \<Rightarrow> db \<Rightarrow> billing_account_row" where
  "account_of m t d = (case row_get ba_tenant_id t (d_accounts d) of
     Some a \<Rightarrow> a
   | None \<Rightarrow> \<lparr>ba_tenant_id = t, ba_mode = m, ba_spend_cap = None, ba_currency = ''USD''\<rparr>)"

definition with_account :: "string \<Rightarrow> string \<Rightarrow> world \<Rightarrow> world" where
  "with_account m t w = (case row_get ba_tenant_id t (d_accounts (w_db w)) of
     Some a \<Rightarrow> w
   | None \<Rightarrow> w\<lparr>w_db := (w_db w)\<lparr>d_accounts := row_put ba_tenant_id (account_of m t (w_db w)) (d_accounts (w_db w))\<rparr>\<rparr>)"

lemma get_or_create_account_run:
  "get_or_create_account t m w = (Inr (account_of m t (w_db w)), with_account m t w)"
  by (simp add: get_or_create_account_def account_of_def with_account_def em_simps Let_def split: option.split)

lemma with_account_simps [simp]:
  "w_committed (with_account m t w) = w_committed w" "w_env (with_account m t w) = w_env w"
  "w_clock (with_account m t w) = w_clock w" "w_calls (with_account m t w) = w_calls w"
  "d_wallets (w_db (with_account m t w)) = d_wallets (w_db w)"
  "price_estimate est (w_db (with_account m t w)) now = price_estimate est (w_db w) now"
  "latest_unit_cost rt (w_db (with_account m t w)) now = latest_unit_cost rt (w_db w) now"
  "period_usage_cost u (w_db (with_account m t w)) a b = period_usage_cost u (w_db w) a b"
  "d_usage (w_db (with_account m t w)) = d_usage (w_db w)"
  "d_credit_requests (w_db (with_account m t w)) = d_credit_requests (w_db w)"
  by (simp_all add: with_account_def price_estimate_def latest_unit_cost_def
      period_usage_cost_def split: option.split)

lemma account_of_tenant [simp]: "ba_tenant_id (account_of m t d) = t"
  by (auto simp: account_of_def dest: row_get_key split: option.split)

lemma account_of_with: "account_of m t (w_db (with_account m t w)) = account_of m t (w_db w)"
  by (auto simp: account_of_def with_account_def row_get_put split: option.splits)

lemma with_account_idem: "with_account m t (with_account m t w) = with_account m t w"
  by (auto simp: with_account_def row_get_put split: option.splits)

lemma apply_request_credit:
  "ba_mode (account_of m (cr_tenant_id q) (w_db w)) = ''credit'' \<Longrightarrow>
   apply_request m q w =
     (let v = snd (apply_delta (cr_tenant_id q) (cr_amount q) (''credit_request:'' @ cr_id q)
                     (with_account m (cr_tenant_id q) w))
      in (Inr (), v\<lparr>w_committed := w_db v\<rparr>))"
  by (simp add: apply_request_def em_simps adjust_credit_def get_or_create_account_run apply_delta_run Let_def)

lemma apply_request_payg:
  "ba_mode (account_of m (cr_tenant_id q) (w_db w)) = ''payg'' \<Longrightarrow>
   apply_request m q w =
     (let v = with_account m (cr_tenant_id q) w;
          acc = account_of m (cr_tenant_id q) (w_db w);
          cap = (case ba_spend_cap acc of None \<Rightarrow> 0 | Some c \<Rightarrow> c) + cr_amount q;
          d = (w_db v)\<lparr>d_accounts := row_put ba_tenant_id (acc\<lparr>ba_mode := ''payg'', ba_spend_cap := Some cap\<rparr>)
                       (d_accounts (w_db v))\<rparr>
      in (Inr (), v\<lparr>w_db := d, w_committed := d\<rparr>))"
  by (simp add: apply_request_def em_simps set_mode_def get_or_create_account_run Let_def
      account_of_with with_account_idem)

lemma apply_request_other:
  "ba_mode (account_of m (cr_tenant_id q) (w_db w)) \<noteq> ''credit'' \<Longrightarrow>
   ba_mode (account_of m (cr_tenant_id q) (w_db w)) \<noteq> ''payg'' \<Longrightarrow>
   \<exists>e v. apply_request m q w = (Inl e, v)"
  by (simp add: apply_request_def em_simps set_mode_def get_or_create_account_run Let_def)

text \<open>What a review that succeeded has done.\<close>

lemma review_credit_requestE:
  assumes "review_credit_request m i approve rv note w = (Inr r, w')"
  obtains q v where "row_get cr_id i (d_credit_requests (w_db w)) = Some q" "cr_status q = ReqPending" "cr_id q = i"
    "(if approve then apply_request m q w = (Inr (), v) else v = w)"
    "r = q\<lparr>cr_status := (if approve then ReqApproved else ReqDenied), cr_review_note := note,
           cr_reviewed_by := rv, cr_reviewed_at := Some (e_now (w_env v) (w_clock v))\<rparr>"
    "w_db w' = (w_db v)\<lparr>d_credit_requests := row_put cr_id r (d_credit_requests (w_db v))\<rparr>"
    "w_committed w' = w_db w'"
proof -
  obtain q where q: "row_get cr_id i (d_credit_requests (w_db w)) = Some q" "cr_status q = ReqPending"
    using assms by (auto simp: review_credit_request_def em_simps split: option.splits if_splits)
  have key: "cr_id q = i" by (rule row_get_key [OF q(1)])
  obtain v where v: "if approve then apply_request m q w = (Inr (), v) else v = w"
    using assms q by (cases approve; cases "apply_request m q w")
      (auto simp: review_credit_request_def em_simps split: sum.splits)
  show ?thesis
    by (rule that [OF q key v])
      (use assms q v in \<open>cases approve; auto simp: review_credit_request_def em_simps Let_def\<close>)+
qed

lemma review_decided:
  assumes "review_credit_request m i approve rv note w = (Inr r, w')"
  shows "row_get cr_id i (d_credit_requests (w_db w')) = Some r" "cr_id r = i" "cr_status r \<noteq> ReqPending"
    "w_committed w' = w_db w'"
  using assms by (auto elim!: review_credit_requestE simp: row_get_put split: if_splits)

subsection \<open>Properties\<close>


text \<open>
  Pre-authorization decides by the mode of the tenant's account and by nothing else: a credit
  tenant is authorized exactly when the estimate's price does not exceed the wallet balance, a
  pay-as-you-go tenant when there is no cap or what was spent since the start of the month plus the
  price stays within it, and an unknown mode raises. Wallets, usage and the committed database are
  untouched, and the price reported is the price of the estimate.
\<close>

theorem billing_authorize_decision:
  "(let now = e_now (w_env w) (w_clock w);
        cost = price_estimate est (w_db w) now;
        acc = account_of m t (w_db w);
        (r, w') = billing_authorize m t est w
    in w_committed w' = w_committed w \<and> d_usage (w_db w') = d_usage (w_db w) \<and>
       wallet_balance u (w_db w') = wallet_balance u (w_db w) \<and>
       (case r of
          Inl e \<Rightarrow> e = KubeSandboxError (ba_mode acc) \<and> ba_mode acc \<noteq> ''credit'' \<and> ba_mode acc \<noteq> ''payg''
        | Inr a \<Rightarrow> ar_estimated_cost a = cost \<and> ar_authorized a =
            (if ba_mode acc = ''credit'' then cost \<le> wallet_balance t (w_db w)
             else (case ba_spend_cap acc of
                     None \<Rightarrow> True
                   | Some cap \<Rightarrow> period_usage_cost t (w_db w) (month_start now) now + cost \<le> cap))))"
  by (auto simp: billing_authorize_def em_simps get_or_create_account_run strategy_for_def
      credit_authorize_def payg_authorize_def current_cycle_start_def Let_def wallet_balance_in
      split: option.splits)

text \<open>
  Recording usage adds exactly one usage record, priced with the newest effective rule at the
  moment of recording, and moves money only in credit mode: the tenant's wallet falls by exactly
  that price, and no other tenant's wallet moves in either mode.
\<close>

theorem billing_record_usage_effect:
  assumes "billing_record_usage m t ev w = (Inr (), w')"
  shows "let cost = ev_quantity ev * latest_unit_cost (ev_resource_type ev) (w_db w) (e_now (w_env w) (w_clock w))
         in (\<exists>u. d_usage (w_db w') = d_usage (w_db w) @ [u] \<and> ur_tenant_id u = t \<and>
               ur_quantity u = ev_quantity ev \<and> ur_cost u = cost) \<and>
            wallet_balance t (w_db w') = wallet_balance t (w_db w) -
              (if ba_mode (account_of m t (w_db w)) = ''credit'' then cost else 0) \<and>
            (v \<noteq> t \<longrightarrow> wallet_balance v (w_db w') = wallet_balance v (w_db w))"
  using assms
  by (auto simp: billing_record_usage_def em_simps get_or_create_account_run strategy_for_def
      credit_record_usage_def payg_record_usage_def record_usage_row_run apply_delta_run Let_def
      wallet_balance_in split: if_splits)


definition one_rule_db :: db where
  "one_rule_db = empty_db\<lparr>
     d_pricing := [\<lparr>pc_id = ''p1'', pc_resource_type = ''cpu_second'', pc_unit_cost = 2, pc_currency = ''USD'', pc_effective_from = 0\<rparr>],
     d_wallets := [\<lparr>cw_tenant_id = ''t1'', cw_balance = 100\<rparr>, \<lparr>cw_tenant_id = ''t2'', cw_balance = 7\<rparr>],
     d_accounts := [\<lparr>ba_tenant_id = ''t3'', ba_mode = ''payg'', ba_spend_cap = None, ba_currency = ''USD''\<rparr>],
     d_credit_requests := [
       \<lparr>cr_id = ''q1'', cr_tenant_id = ''t1'', cr_user_id = None, cr_amount = 5, cr_reason = [],
        cr_status = ReqPending, cr_review_note = None, cr_reviewed_by = None, cr_created_at = 0,
        cr_reviewed_at = None\<rparr>,
       \<lparr>cr_id = ''q3'', cr_tenant_id = ''t3'', cr_user_id = None, cr_amount = 5, cr_reason = [],
        cr_status = ReqPending, cr_review_note = None, cr_reviewed_by = None, cr_created_at = 0,
        cr_reviewed_at = None\<rparr>]\<rparr>"

definition cpu_event :: usage_event where
  "cpu_event = \<lparr>ev_resource_type = ''cpu_second'', ev_quantity = 3, ev_sandbox_id = None, ev_run_id = None\<rparr>"

theorem billing_record_usage_effect_witness:
  "\<exists>w'. billing_record_usage ''credit'' ''t1'' cpu_event (demo_world one_rule_db empty_registry) = (Inr (), w') \<and>
     wallet_balance ''t1'' (w_db w') = 94"
proof -
  let ?w = "demo_world one_rule_db empty_registry"
  obtain w' where run: "billing_record_usage ''credit'' ''t1'' cpu_event ?w = (Inr (), w')"
    by (cases "billing_record_usage ''credit'' ''t1'' cpu_event ?w")
      (auto simp: billing_record_usage_def em_simps get_or_create_account_run strategy_for_def
        credit_record_usage_def record_usage_row_run apply_delta_run Let_def account_of_def demo_world_def
        one_rule_db_def empty_db_def row_get_def)
  have "account_of ''credit'' ''t1'' (w_db ?w) = \<lparr>ba_tenant_id = ''t1'', ba_mode = ''credit'', ba_spend_cap = None, ba_currency = ''USD''\<rparr>"
    by (simp add: account_of_def demo_world_def one_rule_db_def empty_db_def row_get_def)
  moreover have "wallet_balance ''t1'' (w_db ?w) = 100"
    by (simp add: wallet_balance_in balance_in_def demo_world_def one_rule_db_def row_get_def)
  moreover have "latest_unit_cost ''cpu_second'' (w_db ?w) (e_now (w_env ?w) (w_clock ?w)) = 2"
    by (simp add: latest_unit_cost_def demo_world_def demo_env_def one_rule_db_def)
  ultimately have "wallet_balance ''t1'' (w_db w') = 94"
    using billing_record_usage_effect [OF run, of "''t2''"] by (simp add: cpu_event_def Let_def)
  with run show ?thesis by blast
qed

text \<open>
  C40. The pre-authorization ceiling is a ceiling: when a run took no longer than the seconds that
  were estimated, each of its usage events is for a resource of the estimate with a quantity not
  above the estimated one, and at non-negative prices the whole run costs no more than the
  estimate that was authorized.
\<close>

theorem usage_within_estimate:
  assumes "estimate_usage_for_spec res seconds sidecars = Inr est"
    and "usage_events_for_run res duration_ms sb run sidecars = Inr events"
    and "duration_ms \<le> 1000 * seconds" and "0 \<le> duration_ms"
    and "cpu_cores_of res = Inr cores" "0 \<le> cores" "memory_gb_of res = Inr gb" "0 \<le> gb"
    and "\<And>rt. 0 \<le> latest_unit_cost rt d now"
  shows "list_all2 (\<lambda>ev q. ev_resource_type ev = fst q \<and> ev_quantity ev \<le> snd q) events (quantities est) \<and>
    sum_list (map (\<lambda>ev. ev_quantity ev * latest_unit_cost (ev_resource_type ev) d now) events)
      \<le> price_estimate est d now"
proof -
  let ?s = "rat_of_int duration_ms / 1000"
  have "rat_of_int duration_ms \<le> rat_of_int (1000 * seconds)"
    using assms(3) by (simp only: of_int_le_iff)
  then have s: "?s \<le> rat_of_int seconds" by simp
  have q1: "cores * ?s \<le> cores * rat_of_int seconds" by (rule mult_left_mono [OF s assms(6)])
  have q2: "gb * ?s \<le> gb * rat_of_int seconds" by (rule mult_left_mono [OF s assms(8)])
  have q3: "rat_of_nat sidecars * (?s / 3600) \<le> rat_of_nat sidecars * (rat_of_int seconds / 3600)"
    by (rule mult_left_mono [OF divide_right_mono [OF s]]) simp_all
  have each: "list_all2 (\<lambda>ev q. ev_resource_type ev = fst q \<and> ev_quantity ev \<le> snd q) events (quantities est)"
    using assms(1,2,5,7) q1 q2 q3
    by (auto simp: estimate_usage_for_spec_def usage_events_for_run_def Let_def split: if_splits)
  moreover have "sum_list (map (\<lambda>ev. ev_quantity ev * latest_unit_cost (ev_resource_type ev) d now) events)
      \<le> price_estimate est d now"
    using each unfolding price_estimate_def
    by (induction rule: list_all2_induct) (auto intro!: add_mono mult_right_mono assms(9))
  ultimately show ?thesis by simp
qed

theorem usage_within_estimate_witness:
  "\<exists>est events. estimate_usage_for_spec \<lparr>res_cpu = ''2'', res_memory = ''1Gi'', res_ephemeral_storage_mb = None\<rparr> 30 0 = Inr est \<and>
     usage_events_for_run \<lparr>res_cpu = ''2'', res_memory = ''1Gi'', res_ephemeral_storage_mb = None\<rparr> 20000 ''s'' None 0 = Inr events \<and>
     sum_list (map (\<lambda>ev. ev_quantity ev * latest_unit_cost (ev_resource_type ev) one_rule_db 5) events)
       \<le> price_estimate est one_rule_db 5"
proof -
  let ?res = "\<lparr>res_cpu = ''2'', res_memory = ''1Gi'', res_ephemeral_storage_mb = None\<rparr>"
  have c: "cpu_cores_of ?res = Inr 2" by code_simp
  have m: "memory_gb_of ?res = Inr 1" by code_simp
  obtain est where est: "estimate_usage_for_spec ?res 30 0 = Inr est"
    using c m by (simp add: estimate_usage_for_spec_def)
  obtain events where events: "usage_events_for_run ?res 20000 ''s'' None 0 = Inr events"
    using c m by (simp add: usage_events_for_run_def Let_def)
  have prices: "0 \<le> latest_unit_cost rt one_rule_db 5" for rt
    by (simp add: latest_unit_cost_def one_rule_db_def empty_db_def)
  show ?thesis
    using est events usage_within_estimate [OF est events _ _ c _ m _ prices] by auto
qed

text \<open>
  A credit request is applied at most once: after a review that succeeded, the request is
  decided and committed, and every further review of it, whatever its verdict, raises and changes
  nothing. An approval of a credit-mode tenant's request moves the wallet by exactly the requested
  amount, a denial moves no wallet.
\<close>

theorem review_applied_once:
  assumes "review_credit_request m i approve rv note w = (Inr r, w')"
  shows "review_credit_request m i approve' rv' note' w' = (Inl (KubeSandboxError i), w') \<and>
    w_committed w' = w_db w' \<and> cr_status r = (if approve then ReqApproved else ReqDenied) \<and>
    (ba_mode (account_of m (cr_tenant_id r) (w_db w)) = ''credit'' \<or> \<not> approve \<longrightarrow>
      wallet_balance (cr_tenant_id r) (w_db w') =
        wallet_balance (cr_tenant_id r) (w_db w) + (if approve then cr_amount r else 0))"
proof -
  note decided = review_decided [OF assms]
  have again: "review_credit_request m i approve' rv' note' w' = (Inl (KubeSandboxError i), w')"
    using decided by (simp add: review_credit_request_def em_simps)
  obtain q v where q: "cr_tenant_id r = cr_tenant_id q" "cr_amount r = cr_amount q"
    and st: "cr_status r = (if approve then ReqApproved else ReqDenied)"
    and v: "if approve then apply_request m q w = (Inr (), v) else v = w"
    and w': "wallet_balance u (w_db w') = wallet_balance u (w_db v)" for u
    using assms by (rule review_credit_requestE) (simp add: wallet_balance_in)
  have "ba_mode (account_of m (cr_tenant_id q) (w_db w)) = ''credit'' \<or> \<not> approve \<longrightarrow>
      wallet_balance (cr_tenant_id q) (w_db v) =
        wallet_balance (cr_tenant_id q) (w_db w) + (if approve then cr_amount q else 0)"
    using v by (cases approve) (auto simp: apply_request_credit Let_def apply_delta_run wallet_balance_in)
  then show ?thesis using again decided st q w' by simp
qed

theorem review_applied_once_witness:
  "\<exists>r w'. review_credit_request ''credit'' ''q1'' True None None (demo_world one_rule_db empty_registry) = (Inr r, w') \<and>
     review_credit_request ''credit'' ''q1'' True None None w' = (Inl (KubeSandboxError ''q1''), w')"
proof -
  let ?w = "demo_world one_rule_db empty_registry"
  obtain r w' where run: "review_credit_request ''credit'' ''q1'' True None None ?w = (Inr r, w')"
    by (cases "review_credit_request ''credit'' ''q1'' True None None ?w")
      (auto simp: review_credit_request_def em_simps apply_request_def adjust_credit_def
        get_or_create_account_run apply_delta_run account_of_def Let_def demo_world_def one_rule_db_def
        empty_db_def row_get_def)
  then show ?thesis using review_applied_once [OF run, of True None None] by blast
qed

text \<open>
  Approving a pay-as-you-go tenant's request adds the amount to the spend cap, where a missing
  cap counts as zero: a tenant that had no cap at all, and so was authorized for everything, is
  afterwards refused every estimate that exceeds the approved amount together with what it has
  already spent this month.
\<close>

theorem approving_payg_request_introduces_cap:
  assumes "review_credit_request m i True rv note w = (Inr r, w')"
    and "ba_mode (account_of m (cr_tenant_id r) (w_db w)) = ''payg''"
    and "ba_spend_cap (account_of m (cr_tenant_id r) (w_db w)) = None"
  shows "ba_spend_cap (account_of m (cr_tenant_id r) (w_db w')) = Some (cr_amount r) \<and>
    fst (billing_authorize m (cr_tenant_id r) est w) =
      Inr \<lparr>ar_authorized = True, ar_reason = None,
           ar_estimated_cost = price_estimate est (w_db w) (e_now (w_env w) (w_clock w))\<rparr> \<and>
    (let now = e_now (w_env w') (w_clock w'); cost = price_estimate est (w_db w') now in
     period_usage_cost (cr_tenant_id r) (w_db w') (month_start now) now + cost > cr_amount r \<longrightarrow>
     fst (billing_authorize m (cr_tenant_id r) est w') =
       Inr \<lparr>ar_authorized = False, ar_reason = Some ''spend cap exceeded'', ar_estimated_cost = cost\<rparr>)"
proof -
  obtain q v where t: "cr_tenant_id r = cr_tenant_id q" "cr_amount r = cr_amount q"
    and v: "apply_request m q w = (Inr (), v)"
    and w': "d_accounts (w_db w') = d_accounts (w_db v)"
    using assms(1) by (rule review_credit_requestE) simp
  let ?acc = "(account_of m (cr_tenant_id q) (w_db w))\<lparr>ba_mode := ''payg'', ba_spend_cap := Some (cr_amount q)\<rparr>"
  have "row_get ba_tenant_id (cr_tenant_id q) (d_accounts (w_db w')) = Some ?acc"
    using v assms(2,3) unfolding w' t by (auto simp: apply_request_payg Let_def row_get_put)
  then have acc: "account_of m (cr_tenant_id q) (w_db w') = ?acc" by (simp add: account_of_def)
  then show ?thesis
    using assms(2,3) unfolding t
    by (simp add: billing_authorize_def em_simps get_or_create_account_run strategy_for_def
        payg_authorize_def current_cycle_start_def Let_def)
qed

theorem approving_payg_request_introduces_cap_witness:
  "\<exists>r w'. review_credit_request ''credit'' ''q3'' True None None (demo_world one_rule_db empty_registry) = (Inr r, w') \<and>
     ba_spend_cap (account_of ''credit'' ''t3'' (w_db w')) = Some 5"
proof -
  let ?w = "demo_world one_rule_db empty_registry"
  obtain r w' where run: "review_credit_request ''credit'' ''q3'' True None None ?w = (Inr r, w')"
    and t: "cr_tenant_id r = ''t3''" "cr_amount r = 5"
    by (cases "review_credit_request ''credit'' ''q3'' True None None ?w")
      (auto simp: review_credit_request_def em_simps apply_request_def set_mode_def
        get_or_create_account_run account_of_def with_account_def Let_def demo_world_def one_rule_db_def
        empty_db_def row_get_def)
  have "account_of ''credit'' ''t3'' (w_db ?w) =
      \<lparr>ba_tenant_id = ''t3'', ba_mode = ''payg'', ba_spend_cap = None, ba_currency = ''USD''\<rparr>"
    by (simp add: account_of_def demo_world_def one_rule_db_def row_get_def)
  then show ?thesis
    using run approving_payg_request_introduces_cap [OF run] t by auto
qed

end
