(* ===== verification/Sandbox_Frames.thy ===== *)
theory Sandbox_Frames
  imports Sandboxes Billing_Laws
begin

section \<open>What the sandbox service's steps leave alone\<close>

text \<open>
  Frame lemmas, one per operation and kind of frame, that the laws of the service compose: what lies
  outside the database (\<open>outside\<close>), what is committed (\<open>committed_rest\<close>), the tables of sandboxes and
  runs, and which calls a computation makes (\<open>confined\<close>).
\<close>

subsection \<open>Outside the database\<close>

definition outside :: "world \<Rightarrow> env \<times> call list \<times> registry \<times> (string \<times> string \<Rightarrow> int)" where
  "outside w = (w_env w, w_calls w, w_registry w, w_active w)"

lemma outside_primitives [moves_intro]:
  "leaves outside commit" "leaves outside rollback" "leaves outside (update_db f)" "leaves outside (query_db q)"
  "leaves outside utc_now" "leaves outside db_now" "leaves outside fresh_uuid" "leaves outside fresh_token"
  by (simp_all add: moves_def outside_def)

lemma outside_audit [moves_intro]:
  "leaves outside (audit_record acfg entry)" "leaves outside (record_standalone acfg ok entry)"
  "leaves outside (audit_if cfg entry)" "leaves outside (denial_audit cfg action t detail)"
  by (auto simp: moves_def outside_def audit_record_run record_standalone_def audit_if_def denial_audit_def em_simps
      split: option.split)

lemma outside_billing [moves_intro]:
  "leaves outside (get_or_create_account t m)" "leaves outside (apply_delta t delta reason)"
  "leaves outside (record_usage_row t ev c)"
proof -
  show "leaves outside (get_or_create_account t m)" unfolding get_or_create_account_def Let_def by (intro moves_intro)
  show "leaves outside (apply_delta t delta reason)" unfolding apply_delta_def Let_def by (intro moves_intro)
  show "leaves outside (record_usage_row t ev c)" unfolding record_usage_row_def by (intro moves_intro)
qed

lemma outside_strategy [moves_intro]:
  "leaves outside (strategy_authorize s t est acc)" "leaves outside (strategy_record_usage s t ev acc)"
proof -
  show "leaves outside (strategy_authorize s t est acc)"
    by (cases s) (simp_all only: strategy_authorize.simps credit_authorize_def payg_authorize_def, (intro moves_intro)+)
  show "leaves outside (strategy_record_usage s t ev acc)"
    by (cases s) (simp_all only: strategy_record_usage.simps credit_record_usage_def payg_record_usage_def, (intro moves_intro)+)
qed

lemma outside_billing_service [moves_intro]:
  "leaves outside (billing_authorize m t est)" "leaves outside (billing_record_usage m t ev)"
  "leaves outside (bill_events cfg t evs)"
proof -
  show "leaves outside (billing_authorize m t est)" unfolding billing_authorize_def by (intro moves_intro)
  show "leaves outside (billing_record_usage m t ev)" for m t ev unfolding billing_record_usage_def by (intro moves_intro)
  then show "leaves outside (bill_events cfg t evs)" unfolding bill_events_def by (intro moves_intro)
qed

lemma outside_quota [moves_intro]: "leaves outside (quota_check df t res)"
  unfolding quota_check_def quota_usage_of_def quota_get_or_create_def Let_def by (intro moves_intro)

lemma outside_admission [moves_intro]:
  "leaves outside (check_quota cfg rv t)" "leaves outside (authorize_billing cfg rv secs t)"
  unfolding check_quota_def authorize_billing_def Let_def by (intro moves_intro)+

lemma outside_resolution [moves_intro]:
  "leaves outside (resolve_spec cfg l v t)" "leaves outside (resolve_template r)"
  by (rule resolve_spec_leaves; simp add: outside_def)+

lemma outside_rows [moves_intro]:
  "leaves outside (put_sandbox r)" "leaves outside (put_run q)" "leaves outside (put_workspace ws)"
  unfolding put_sandbox_def put_run_def put_workspace_def by (intro moves_intro)+

lemma outside_workspaces [moves_intro]:
  "leaves outside (workspace_get_or_create wcfg u)" "leaves outside (workspace_touch ws)"
  "leaves outside (workspace_for_create cfg p u' rv)" "leaves outside (touch_workspace row)"
proof -
  show g: "leaves outside (workspace_get_or_create wcfg u)" for wcfg u
    unfolding workspace_get_or_create_def Let_def by (intro moves_intro)
  show t: "leaves outside (workspace_touch ws)" for ws unfolding workspace_touch_def Let_def by (intro moves_intro)
  show "leaves outside (workspace_for_create cfg p u' rv)" unfolding workspace_for_create_def by (intro moves_intro g t)
  show "leaves outside (touch_workspace row)" unfolding touch_workspace_def by (intro moves_intro t)
qed

lemma outside_runs [moves_intro]:
  "leaves outside (audit_run cfg row t u c)" "leaves outside (persist_run_result cfg res ex sb t cmd c u)"
proof -
  show a: "leaves outside (audit_run cfg row t u c)" for row unfolding audit_run_def by (intro moves_intro)
  show "leaves outside (persist_run_result cfg res ex sb t cmd c u)"
    unfolding persist_run_result_def Let_def by (intro moves_intro a)
qed

lemma outside_pool [moves_intro]:
  "leaves outside (sync_pool_state i wc)" "leaves outside (add_pool_member spec h)" "leaves outside (try_claim spec)"
proof -
  show s: "leaves outside (sync_pool_state i wc)" for i wc unfolding sync_pool_state_def by (intro moves_intro)
  show "leaves outside (add_pool_member spec h)" unfolding add_pool_member_def by (intro moves_intro)
  show "leaves outside (try_claim spec)" unfolding try_claim_def Let_def by (intro moves_intro s)
qed

lemma outside_get_sandbox [moves_intro]: "leaves outside (get_sandbox i t)"
  unfolding get_sandbox_def by (intro moves_intro)

lemma outside_row_resolution [moves_intro]:
  "leaves outside (sidecar_components_for_row row)" "leaves outside (spec_resources_for_row row)"
  "leaves outside (resolve_component_for_run row l)"
  unfolding sidecar_components_for_row_def spec_resources_for_row_def resolve_component_for_run_def
  by (intro moves_intro)+

lemma outsideD: "leaves outside m \<Longrightarrow> m w = (r, w') \<Longrightarrow>
    w_env w' = w_env w \<and> w_calls w' = w_calls w \<and> w_registry w' = w_registry w \<and> w_active w' = w_active w"
  by (drule leavesD, assumption) (simp add: outside_def)

subsection \<open>Calls\<close>

text \<open>The calls that put a sandbox into use: a successful acquire and a batch run.\<close>

fun starts :: "sandbox_handle \<Rightarrow> call \<Rightarrow> bool" where
  "starts h (CallAcquire spec (Inr k)) = (h = k)"
| "starts h (CallExecBatch k c r) = (h = k)"
| "starts h _ = False"

definition confined :: "sandbox_handle set \<Rightarrow> world \<Rightarrow> world \<Rightarrow> bool" where
  "confined H w w' \<longleftrightarrow> w_env w' = w_env w \<and>
     (\<exists>cs. w_calls w' = w_calls w @ cs \<and> list_all (\<lambda>c. \<forall>h. starts h c \<longrightarrow> h \<in> H) cs)"

interpretation confined: frame_relation "confined H" for H
proof
  show "confined H w w" for w by (simp add: confined_def)
  show "confined H w u" if "confined H w v" "confined H v u" for w v u
    using that by (auto simp: confined_def)
qed

declare confined.all_moves [moves_intro]

lemma confined_outside: "leaves outside m \<Longrightarrow> moves (confined H) m"
proof (rule movesI)
  fix w r w'
  assume "leaves outside m" "m w = (r, w')"
  from outsideD [OF this] show "confined H w w'" by (simp add: confined_def)
qed

lemma confined_external: "(\<And>r h. starts h (event r) \<Longrightarrow> h \<in> H) \<Longrightarrow> moves (confined H) (external ask event)"
  by (rule movesI) (auto simp: confined_def)

lemma confined_calls [moves_intro]:
  "moves (confined H) (hook_on_provision modl h)" "moves (confined H) (hook_on_teardown modl h)"
  "moves (confined H) (prov_destroy h)" "moves (confined H) (prov_recycle h)"
  "moves (confined H) (prov_status h)" "moves (confined H) (prov_attach h)"
  unfolding backend_defs by (rule confined_external; simp)+

lemma confined_exec: "h \<in> H \<Longrightarrow> moves (confined H) (prov_exec_batch h c)"
  unfolding backend_defs by (rule confined_external) simp

lemma confined_gauge [moves_intro]: "moves (confined H) (gauge_add b wc n)"
  by (rule movesI) (auto simp: gauge_add_def confined_def)

lemma confined_sidecars [moves_intro]:
  "moves (confined H) (provision_sidecars h cs creds)" "moves (confined H) (teardown_sidecars h cs)"
  unfolding provision_sidecars_def teardown_sidecars_def by (intro moves_intro)+

lemma confined_release [moves_intro]:
  "moves (confined H) (release h spec)" "moves (confined H) (release_or_destroy cfg h spec res)"
proof -
  show r: "moves (confined H) (release h spec)" for h spec
    unfolding release_def by (intro moves_intro confined_outside)
  show "moves (confined H) (release_or_destroy cfg h spec res)"
    unfolding release_or_destroy_def by (intro moves_intro r)
qed

lemma confined_mono: "confined G w w' \<Longrightarrow> G \<subseteq> H \<Longrightarrow> confined H w w'"
  by (auto simp: confined_def list_all_iff)

subsection \<open>What is committed\<close>

text \<open>Nothing but the final commit writes committed rows other than the standalone audit entries.\<close>

definition committed_rest :: "world \<Rightarrow> env \<times> registry \<times> db" where
  "committed_rest w = (w_env w, w_registry w, (w_committed w)\<lparr>d_audit := []\<rparr>)"

lemma rest_primitives [moves_intro]:
  "leaves committed_rest rollback" "leaves committed_rest (update_db f)" "leaves committed_rest (query_db q)"
  "leaves committed_rest utc_now" "leaves committed_rest db_now" "leaves committed_rest fresh_uuid"
  "leaves committed_rest fresh_token" "leaves committed_rest (external ask event)"
  by (simp_all add: moves_def committed_rest_def)

lemma rest_audit [moves_intro]:
  "leaves committed_rest (audit_record acfg entry)" "leaves committed_rest (record_standalone acfg ok entry)"
  "leaves committed_rest (audit_if cfg entry)" "leaves committed_rest (denial_audit cfg action t detail)"
  by (auto simp: moves_def committed_rest_def audit_record_run record_standalone_def audit_if_def denial_audit_def em_simps
      split: option.split)

lemma rest_billing [moves_intro]:
  "leaves committed_rest (get_or_create_account t m)" "leaves committed_rest (apply_delta t delta reason)"
  "leaves committed_rest (record_usage_row t ev c)"
proof -
  show "leaves committed_rest (get_or_create_account t m)" unfolding get_or_create_account_def Let_def by (intro moves_intro)
  show "leaves committed_rest (apply_delta t delta reason)" unfolding apply_delta_def Let_def by (intro moves_intro)
  show "leaves committed_rest (record_usage_row t ev c)" unfolding record_usage_row_def by (intro moves_intro)
qed

lemma rest_strategy [moves_intro]:
  "leaves committed_rest (strategy_authorize s t est acc)" "leaves committed_rest (strategy_record_usage s t ev acc)"
proof -
  show "leaves committed_rest (strategy_authorize s t est acc)"
    by (cases s) (simp_all only: strategy_authorize.simps credit_authorize_def payg_authorize_def, (intro moves_intro)+)
  show "leaves committed_rest (strategy_record_usage s t ev acc)"
    by (cases s) (simp_all only: strategy_record_usage.simps credit_record_usage_def payg_record_usage_def, (intro moves_intro)+)
qed

lemma rest_billing_service [moves_intro]:
  "leaves committed_rest (billing_authorize m t est)" "leaves committed_rest (billing_record_usage m t ev)"
  "leaves committed_rest (bill_events cfg t evs)"
proof -
  show "leaves committed_rest (billing_authorize m t est)" unfolding billing_authorize_def by (intro moves_intro)
  show "leaves committed_rest (billing_record_usage m t ev)" for m t ev unfolding billing_record_usage_def by (intro moves_intro)
  then show "leaves committed_rest (bill_events cfg t evs)" unfolding bill_events_def by (intro moves_intro)
qed

lemma rest_admission [moves_intro]:
  "leaves committed_rest (check_quota cfg rv t)" "leaves committed_rest (authorize_billing cfg rv secs t)"
  unfolding check_quota_def authorize_billing_def quota_check_def quota_usage_of_def quota_get_or_create_def Let_def
  by (intro moves_intro)+

lemma rest_resolution [moves_intro]:
  "leaves committed_rest (resolve_spec cfg l v t)" "leaves committed_rest (resolve_template r)"
  by (rule resolve_spec_leaves; simp add: committed_rest_def)+

lemma rest_rows [moves_intro]:
  "leaves committed_rest (put_sandbox r)" "leaves committed_rest (put_run q)" "leaves committed_rest (gauge_add b wc n)"
  by (simp_all add: moves_def committed_rest_def put_sandbox_def put_run_def gauge_add_def)

lemma rest_runs [moves_intro]:
  "leaves committed_rest (audit_run cfg row t u c)" "leaves committed_rest (persist_run_result cfg res ex sb t cmd c u)"
proof -
  show a: "leaves committed_rest (audit_run cfg row t u c)" for row unfolding audit_run_def by (intro moves_intro)
  show "leaves committed_rest (persist_run_result cfg res ex sb t cmd c u)"
    unfolding persist_run_result_def Let_def by (intro moves_intro a)
qed

lemma rest_pool [moves_intro]:
  "leaves committed_rest (sync_pool_state i wc)" "leaves committed_rest (add_pool_member spec h)"
  "leaves committed_rest (try_claim spec)" "leaves committed_rest (release h spec)"
proof -
  show s: "leaves committed_rest (sync_pool_state i wc)" for i wc unfolding sync_pool_state_def by (intro moves_intro)
  show a: "leaves committed_rest (add_pool_member spec h)" for spec h unfolding add_pool_member_def by (intro moves_intro)
  show "leaves committed_rest (try_claim spec)" unfolding try_claim_def Let_def by (intro moves_intro s)
  show "leaves committed_rest (release h spec)"
    unfolding release_def prov_destroy_def prov_recycle_def by (intro moves_intro s a)
qed

lemma rest_slot [moves_intro]: "leaves committed_rest (execute_in_slot cfg rv cmd ttls t u)"
  unfolding execute_in_slot_def acquire_for_execute_def acquire_instrumented_def provision_sidecars_def
    run_instrumented_def teardown_sidecars_def release_or_destroy_def backend_defs Let_def
  by (intro moves_intro rest_pool)

end
