(* ===== verification/Sandbox_Laws.thy ===== *)
theory Sandbox_Laws
  imports Sandbox_Frames
begin

section \<open>Laws of the sandbox service\<close>

text \<open>
  The properties of one-shot runs and of the lifecycle operations: nothing leaks, nothing is
  provisioned before it is admitted, tenants cannot reach each other's sandboxes, destroying is
  idempotent, an asynchronous run always ends in a terminal state, and what the failure paths lose.
\<close>

subsection \<open>No leaks\<close>

definition released :: "sandbox_handle \<Rightarrow> call list \<Rightarrow> bool" where
  "released h cs \<longleftrightarrow> list_ex (\<lambda>c. (\<exists>r. c = CallDestroy h r) \<or> c = CallRecycle h (Inr ())) cs"

text \<open>Every sandbox the calls put into use is destroyed, or recycled successfully, later on.\<close>

definition all_released :: "call list \<Rightarrow> bool" where
  "all_released cs \<longleftrightarrow> (\<forall>pre c post h. cs = pre @ c # post \<and> starts h c \<longrightarrow> released h post)"

text \<open>The documented contract of \<open>recycle\<close>: its failures are provisioner errors.\<close>

definition recycle_contract :: "env \<Rightarrow> bool" where
  "recycle_contract en \<longleftrightarrow> (\<forall>tr h e. e_recycle en tr h = Inl e \<longrightarrow> is_provisioner_error e)"

lemma released_append: "released h (xs @ ys) \<longleftrightarrow> released h xs \<or> released h ys"
  by (simp add: released_def)

lemma all_released_quiet: "list_all (\<lambda>c. \<forall>h. \<not> starts h c) cs \<Longrightarrow> all_released cs"
  by (auto simp: all_released_def)

lemma all_released_ending:
  assumes "list_all (\<lambda>c. \<forall>h. starts h c \<longrightarrow> h = k) xs" "released k ys" "list_all (\<lambda>c. \<forall>h. \<not> starts h c) ys"
  shows "all_released (xs @ ys)"
  unfolding all_released_def
proof (intro allI impI, elim conjE)
  fix pre c post h
  assume eq: "xs @ ys = pre @ c # post" and st: "starts h c"
  have "c \<in> set (xs @ ys)" unfolding eq by simp
  then have c: "c \<in> set xs" "h = k" using assms(1,3) st by (auto simp: list_all_iff)
  from eq consider us where "xs = pre @ c # us" "post = us @ ys" | us where "ys = us @ c # post"
    by (auto simp: append_eq_append_conv2 append_eq_Cons_conv)
  then show "released h post"
  proof cases
    case 1
    then show ?thesis using assms(2) c(2) by (simp add: released_append)
  next
    case 2
    then show ?thesis using assms(3) st by auto
  qed
qed

lemma confined_calls_of:
  "confined H w w' \<Longrightarrow> w_calls w' = w_calls w @ cs \<Longrightarrow> list_all (\<lambda>c. \<forall>h. starts h c \<longrightarrow> h \<in> H) cs"
  by (auto simp: confined_def)

lemma acquire_for_execute_run:
  assumes "acquire_for_execute cfg spec w = (r, w')"
  shows "case r of Inl e \<Rightarrow> confined {} w w' | Inr h \<Rightarrow> confined {h} w w'"
proof -
  have fresh: "case r' of Inl e \<Rightarrow> confined {} v v' | Inr h \<Rightarrow> confined {h} v v'"
    if "acquire_instrumented spec v = (r', v')" for r' v v'
    using that by (auto simp: acquire_instrumented_def prov_acquire_def confined_def split: sum.split)
  show ?thesis
  proof (cases "sv_pool cfg")
    case False
    with assms fresh show ?thesis by (simp add: acquire_for_execute_def)
  next
    case True
    obtain c v where c: "try_claim spec w = (c, v)" by (cases "try_claim spec w")
    have quiet: "confined H w v" for H by (rule movesD' [OF confined_outside [OF outside_pool(3)] c])
    show ?thesis
    proof (cases "\<exists>x. c = Inr x")
      case False
      then obtain e where "c = Inl e" by (cases c) auto
      with assms True c quiet show ?thesis by (auto simp: acquire_for_execute_def bind_em_run)
    next
      case inr: True
      then obtain x where x: "c = Inr x" by blast
      show ?thesis
      proof (cases x)
        case (Some h)
        with assms True c x quiet show ?thesis by (auto simp: acquire_for_execute_def bind_em_run)
      next
        case None
        with assms True c x have run: "acquire_instrumented spec v = (r, w')"
          by (simp add: acquire_for_execute_def bind_em_run)
        show ?thesis
          using fresh [OF run] quiet by (cases r) (auto intro: confined.trans_rel)
      qed
    qed
  qed
qed

lemma release_or_destroy_released:
  assumes "release_or_destroy cfg h spec res w = (r, w')" "recycle_contract (w_env w)"
  shows "\<exists>cs. w_calls w' = w_calls w @ cs \<and> released h cs \<and> list_all (\<lambda>c. \<forall>k. \<not> starts k c) cs"
proof -
  have d: "w_calls v' = w_calls v @ [CallDestroy h (e_destroy (w_env v) (w_calls v) h)]"
    if "prov_destroy h v = (r', v')" for v r' v'
    using that by (auto simp: prov_destroy_def)
  have one: "released h [CallDestroy h x]" for x by (simp add: released_def)
  show ?thesis
  proof (cases "(case res of None \<Rightarrow> False | Some r \<Rightarrow> is_clean_run r) \<and> sv_pool cfg \<and> is_poolable spec")
    case False
    with assms(1) have "prov_destroy h w = (r, w')" by (auto simp: release_or_destroy_def)
    from d [OF this] one show ?thesis by auto
  next
    case True
    with assms(1) have run: "release h spec w = (r, w')" by (simp add: release_or_destroy_def)
    show ?thesis
    proof (cases "e_recycle (w_env w) (w_calls w) h")
      case (Inr u)
      let ?v = "w\<lparr>w_calls := w_calls w @ [CallRecycle h (Inr ())]\<rparr>"
      have "seq_em (add_pool_member spec h) (sync_pool_state (sp_image spec) (weight_class_value (sp_weight_class spec))) ?v = (r, w')"
        using run True Inr by (simp add: release_def prov_recycle_def bind_em_run seq_em_run catch_em_run)
      moreover have "leaves outside (seq_em (add_pool_member spec h) (sync_pool_state (sp_image spec) (weight_class_value (sp_weight_class spec))))"
        by (intro moves_intro)
      ultimately have "w_calls w' = w_calls w @ [CallRecycle h (Inr ())]" using outsideD by fastforce
      then show ?thesis by (intro exI [of _ "[CallRecycle h (Inr ())]"]) (simp add: released_def)
    next
      case (Inl e)
      then have "is_provisioner_error e" using assms(2) by (auto simp: recycle_contract_def)
      then have "w_calls w' = w_calls w @ [CallRecycle h (Inl e),
          CallDestroy h (e_destroy (w_env w) (w_calls w @ [CallRecycle h (Inl e)]) h)]"
        using run True Inl
        by (auto simp: release_def prov_recycle_def prov_destroy_def bind_em_run seq_em_run catch_em_run split: sum.splits prod.splits)
      then show ?thesis
        by (intro exI [of _ "[CallRecycle h (Inl e), CallDestroy h (e_destroy (w_env w) (w_calls w @ [CallRecycle h (Inl e)]) h)]"])
          (simp add: released_def)
    qed
  qed
qed

lemma moves_confined_empty: "confined {} w w' \<Longrightarrow> \<exists>cs. w_calls w' = w_calls w @ cs \<and> list_all (\<lambda>c. \<forall>h. \<not> starts h c) cs"
  by (auto simp: confined_def)

lemma finally_with_run:
  "finally_with m k w = (r, w') \<Longrightarrow> \<exists>x v q. m w = (x, v) \<and> k (case x of Inl _ \<Rightarrow> None | Inr y \<Rightarrow> Some y) v = (q, w') \<and>
     (r = x \<or> (\<exists>e. q = Inl e \<and> r = Inl e))"
  by (auto simp: finally_with_def split: prod.splits sum.splits)

lemma cleanup_released:
  assumes run: "seq_em (teardown_sidecars h cs) (seq_em (release_or_destroy cfg h spec res) (gauge_add b wc n)) w = (r, w')"
    and contract: "recycle_contract (w_env w)"
  shows "\<exists>xs. w_calls w' = w_calls w @ xs \<and> released h xs \<and> list_all (\<lambda>c. \<forall>k. \<not> starts k c) xs"
proof -
  have quiet_hook: "\<exists>v. catch_em (hook_on_teardown modl h) (\<lambda>_. True) (\<lambda>_. return_em ()) u = (Inr (), v)" for modl u
    by (auto simp: catch_em_run hook_on_teardown_def split: sum.split)
  have ok: "\<exists>v. teardown_sidecars h cs u = (Inr (), v)" for u
    unfolding teardown_sidecars_def
  proof (induction cs arbitrary: u)
    case (Cons c cs)
    show ?case
    proof (cases "cs_hooks (c_spec c)")
      case None
      with Cons show ?thesis by (simp add: bind_em_run)
    next
      case (Some modl)
      obtain v where "catch_em (hook_on_teardown modl h) (\<lambda>_. True) (\<lambda>_. return_em ()) u = (Inr (), v)"
        using quiet_hook by blast
      with Some Cons show ?thesis by (simp add: bind_em_run)
    qed
  qed simp
  obtain v where v: "teardown_sidecars h cs w = (Inr (), v)" using ok by blast
  have cv: "confined {} w v" by (rule movesD' [OF confined_sidecars(2) v])
  obtain q u where q: "release_or_destroy cfg h spec res v = (q, u)" by (cases "release_or_destroy cfg h spec res v")
  have "recycle_contract (w_env v)" using cv contract by (simp add: confined_def)
  from release_or_destroy_released [OF q this] obtain ds where
    ds: "w_calls u = w_calls v @ ds" "released h ds" "list_all (\<lambda>c. \<forall>k. \<not> starts k c) ds" by blast
  have "w_calls w' = w_calls u"
    using run v q by (cases q) (auto simp: seq_em_run gauge_add_def)
  with moves_confined_empty [OF cv] ds show ?thesis by (auto simp: released_append)
qed

definition leak_free :: "world \<Rightarrow> world \<Rightarrow> bool" where
  "leak_free w w' \<longleftrightarrow> (\<exists>cs. w_calls w' = w_calls w @ cs \<and> all_released cs)"

lemma execute_in_slot_leak_free:
  assumes run: "execute_in_slot cfg rv cmd ttls t u w = (r, w')" and contract: "recycle_contract (w_env w)"
  shows "leak_free w w'"
proof -
  obtain a v where a: "acquire_for_execute cfg (rv_spec rv) w = (a, v)" by (cases "acquire_for_execute cfg (rv_spec rv) w")
  show ?thesis
  proof (cases a)
    case (Inl e)
    with run a acquire_for_execute_run [OF a] have "confined {} w w'"
      by (simp add: execute_in_slot_def bind_em_run)
    then show ?thesis using moves_confined_empty [of w w'] all_released_quiet unfolding leak_free_def by blast
  next
    case (Inr h)
    have cv: "confined {h} w v" using acquire_for_execute_run [OF a] Inr by simp
    let ?wc = "weight_class_value (sp_weight_class (rv_spec rv))"
    let ?body = "seq_em (provision_sidecars h (rv_sidecar_components rv) (rv_sidecar_credentials rv)) (run_instrumented h cmd)"
    let ?fin = "\<lambda>res. seq_em (teardown_sidecars h (rv_sidecar_components rv))
       (seq_em (release_or_destroy cfg h (rv_spec rv) res) (gauge_add (h_backend h) ?wc (- 1)))"
    define v1 where "v1 = snd (gauge_add (h_backend h) ?wc 1 v)"
    define row where "row = new_sandbox_row h rv t u False None (fst ttls) (snd ttls) (e_db_now (w_env v1) (w_clock v1))"
    define v2 where "v2 = snd (put_sandbox row (snd (db_now v1)))"
    obtain x v3 where body: "finally_with ?body ?fin v2 = (x, v3)" by (cases "finally_with ?body ?fin v2")
    have w': "w_calls w' = w_calls v3"
      using run a Inr body unfolding execute_in_slot_def
      by (cases x) (auto simp: bind_em_run seq_em_run Let_def gauge_add_def v2_def v1_def row_def put_sandbox_def)
    have same: "w_env v2 = w_env v" "w_calls v2 = w_calls v"
      by (simp_all add: v2_def v1_def gauge_add_def put_sandbox_def)
    from finally_with_run [OF body] obtain y v4 q where m: "?body v2 = (y, v4)"
      and k: "?fin (case y of Inl _ \<Rightarrow> None | Inr z \<Rightarrow> Some z) v4 = (q, v3)" by blast
    have "moves (confined {h}) ?body"
      unfolding run_instrumented_def by (intro moves_intro confined_exec) simp
    then have c4: "confined {h} v2 v4" using m by (rule movesD')
    have "recycle_contract (w_env v4)" using cv c4 contract same by (simp add: confined_def)
    from cleanup_released [OF k this] obtain ys where
      ys: "w_calls v3 = w_calls v4 @ ys" "released h ys" "list_all (\<lambda>c. \<forall>k. \<not> starts k c) ys" by blast
    obtain xs1 xs2 where xs: "w_calls v = w_calls w @ xs1" "list_all (\<lambda>c. \<forall>k. starts k c \<longrightarrow> k = h) xs1"
      "w_calls v4 = w_calls v2 @ xs2" "list_all (\<lambda>c. \<forall>k. starts k c \<longrightarrow> k = h) xs2"
      using cv c4 by (auto simp: confined_def)
    have "all_released ((xs1 @ xs2) @ ys)"
      by (rule all_released_ending [OF _ ys(2,3)]) (use xs in simp)
    then show ?thesis using w' ys(1) xs same by (auto simp: leak_free_def)
  qed
qed

text \<open>A computation that calls nothing, before or after one that leaks nothing.\<close>

lemma leak_free_before:
  assumes "leaves outside m" "\<And>x v. m w = (Inr x, v) \<Longrightarrow> w_env v = w_env w \<Longrightarrow> leak_free v (snd (f x v))"
  shows "leak_free w (snd (bind_em m f w))"
proof (cases "m w")
  case (Pair r v)
  from outsideD [OF assms(1) this] have v: "w_env v = w_env w" "w_calls v = w_calls w" by auto
  show ?thesis
  proof (cases r)
    case (Inl e)
    with Pair v show ?thesis by (auto simp: bind_em_run leak_free_def all_released_def)
  next
    case (Inr x)
    with assms(2) [of x v] Pair v show ?thesis by (simp add: bind_em_run leak_free_def)
  qed
qed

lemma leak_free_after:
  assumes "m w = (r, v)" "leak_free w v" "\<And>x. leaves outside (f x)"
  shows "leak_free w (snd (bind_em m f w))"
proof (cases r)
  case (Inl e)
  with assms show ?thesis by (simp add: bind_em_run)
next
  case (Inr x)
  obtain y u where "f x v = (y, u)" by (cases "f x v")
  with outsideD [OF assms(3) this] assms(1,2) Inr show ?thesis by (simp add: bind_em_run leak_free_def)
qed

definition demo_config :: sandbox_config where
  "demo_config = \<lparr>sv_pool = True, sv_default_idle_ttl_seconds = 900, sv_default_max_ttl_seconds = 3600,
     sv_heavy_node_selector = [], sv_heavy_tolerations = [], sv_workspaces = None, sv_billing = Some ''credit'',
     sv_quota = None, sv_audit = None, sv_audit_accepts = True, sv_session_factory = True\<rparr>"

lemma lift_outside: "leaves outside (lift_em r)"
  by (intro moves_intro)

text \<open>What \<open>execute\<close> does with the result of the slot.\<close>

definition execute_finish ::
  "sandbox_config \<Rightarrow> resolved_spec \<Rightarrow> batch_command \<Rightarrow> string \<Rightarrow> string option \<Rightarrow> string option \<Rightarrow>
   sandbox_handle \<times> sandbox_row \<times> batch_run_result \<Rightarrow> batch_run_result prog" where
  "execute_finish cfg rv command tenant_id user_id existing_run_id x =
     (case x of (handle, row, result) \<Rightarrow>
      bind_em (persist_run_result cfg result existing_run_id (h_sandbox_id handle) tenant_id (bc_command command)
                 (component_key (rv_component rv)) user_id) (\<lambda>run_row.
      seq_em (put_sandbox (row\<lparr>sb_state := Terminated\<rparr>))
      (seq_em
        (if sv_billing cfg = None then return_em ()
         else bind_em (lift_em (usage_events_for_run (sp_resources (rv_spec rv)) (br_duration_ms result)
                                  (h_sandbox_id handle) (Some (rn_id run_row))
                                  (db_sidecar_count (rv_sidecar_components rv)))) (bill_events cfg tenant_id))
      (seq_em commit
      (return_em result)))))"

lemma execute_split:
  "execute cfg language code version stdin template t u ex =
     bind_em (resolve_spec cfg language version template) (\<lambda>rv.
     bind_em (lift_em (build_batch_command (rv_component rv) code stdin)) (\<lambda>command.
     bind_em (lift_em (resolve_ttl_seconds cfg rv)) (\<lambda>ttls.
     bind_em (check_quota cfg rv t) (\<lambda>_.
     bind_em (authorize_billing cfg rv (sp_wall_clock_seconds (rv_spec rv)) t) (\<lambda>_.
     bind_em (execute_in_slot cfg rv command ttls t u) (execute_finish cfg rv command t u ex))))))"
  unfolding execute_def seq_em_def execute_finish_def by (simp add: case_prod_unfold)

lemma execute_finish_outside: "leaves outside (execute_finish cfg rv command t u ex x)"
  unfolding execute_finish_def by (intro moves_intro)



subsection \<open>Admission\<close>

text \<open>
  What must hold of a tenant before anything is provisioned for it: one more live sandbox stays within
  the concurrency cap, and the priced estimate is covered, by the wallet of a credit account or by the
  spend cap of the other kind.
\<close>

definition room_for_one :: "sandbox_config \<Rightarrow> string \<Rightarrow> db \<Rightarrow> bool" where
  "room_for_one cfg t d = (case sv_quota cfg of None \<Rightarrow> True | Some df \<Rightarrow>
     (case qt_max_concurrent_sandboxes (quota_of df t d) of None \<Rightarrow> True
      | Some cap \<Rightarrow> int (length (live_sandboxes t d)) + 1 \<le> cap))"

definition affordable :: "string \<Rightarrow> string \<Rightarrow> usage_estimate \<Rightarrow> db \<Rightarrow> int \<Rightarrow> bool" where
  "affordable mode t est d now =
     (if ba_mode (account_of mode t d) = ''credit'' then price_estimate est d now \<le> wallet_balance t d
      else (case ba_spend_cap (account_of mode t d) of None \<Rightarrow> True
            | Some cap \<Rightarrow> period_usage_cost t d (current_cycle_start now) now + price_estimate est d now \<le> cap))"

definition covered :: "sandbox_config \<Rightarrow> resolved_spec \<Rightarrow> int \<Rightarrow> string \<Rightarrow> world \<Rightarrow> bool" where
  "covered cfg rv secs t w = (case sv_billing cfg of None \<Rightarrow> True | Some mode \<Rightarrow>
     (\<exists>est n. estimate_usage_for_spec (sp_resources (rv_spec rv)) secs
              (db_sidecar_count (rv_sidecar_components rv)) = Inr est \<and>
            affordable mode t est (w_db w) (e_now (w_env w) n)))"

text \<open>The tables that decide about money; the quota check does not touch them.\<close>

definition money :: "world \<Rightarrow> env \<times> billing_account_row list \<times> wallet_row list \<times> pricing_rule_row list \<times> usage_row list" where
  "money w = (w_env w, d_accounts (w_db w), d_wallets (w_db w), d_pricing (w_db w), d_usage (w_db w))"

lemma quota_check_money: "leaves money (quota_check df t res)"
proof -
  have "leaves money utc_now" "leaves money (query_db q)" for q :: "db \<Rightarrow> 'x" by (simp_all add: moves_def money_def)
  moreover have "leaves money (query_db q)" for q :: "db \<Rightarrow> int" by (simp add: moves_def money_def)
  moreover have "leaves money (query_db q)" for q :: "db \<Rightarrow> sandbox_row list" by (simp add: moves_def money_def)
  moreover have "leaves money (quota_get_or_create df t)"
    by (auto simp: moves_def money_def quota_get_or_create_run with_quota_def split: option.split)
  ultimately show ?thesis
    unfolding quota_check_def quota_usage_of_def Let_def by (intro moves_intro)
qed

lemma check_quota_admits:
  assumes "check_quota cfg rv t w = (Inr (), w')"
  shows "room_for_one cfg t (w_db w)" "money w' = money w"
proof -
  have ok: "room_for_one cfg t (w_db w) \<and> money w' = money w"
  proof (cases "sv_quota cfg")
    case None
    with assms show ?thesis by (simp add: check_quota_def room_for_one_def)
  next
    case (Some df)
    let ?res = "Some (sp_resources (rv_spec rv))"
    obtain r v where r: "quota_check df t ?res w = (r, v)" by (cases "quota_check df t ?res w")
    have fine: "r = Inr () \<and> v = w'"
      using assms Some r by (cases r) (auto simp: check_quota_def catch_em_run seq_em_run split: if_splits sum.splits prod.splits)
    have "money w' = money w" using leavesD [OF quota_check_money r] fine by simp
    moreover have "room_for_one cfg t (w_db w)"
      using r fine Some
      by (cases "qt_max_concurrent_sandboxes (quota_of df t (w_db w))")
        (auto simp: room_for_one_def quota_check_def quota_usage_of_def quota_get_or_create_run bind_em_Inr_iff
          Let_def split: if_splits)
    ultimately show ?thesis by simp
  qed
  from ok show "room_for_one cfg t (w_db w)" "money w' = money w" by auto
qed

lemma money_affordable:
  assumes "money v = money w"
  shows "affordable mode t est (w_db v) now = affordable mode t est (w_db w) now"
proof -
  have "account_of mode t (w_db v) = account_of mode t (w_db w)"
    using assms by (simp add: money_def account_of_def)
  moreover have "price_estimate est (w_db v) now = price_estimate est (w_db w) now"
    using assms by (simp add: money_def price_estimate_def latest_unit_cost_def)
  moreover have "wallet_balance t (w_db v) = wallet_balance t (w_db w)"
    using assms by (simp add: money_def wallet_balance_def)
  moreover have "period_usage_cost t (w_db v) i j = period_usage_cost t (w_db w) i j" for i j
    using assms by (simp add: money_def period_usage_cost_def)
  ultimately show ?thesis by (simp add: affordable_def split: option.split)
qed

lemma money_covered: "money v = money w \<Longrightarrow> covered cfg rv secs t v = covered cfg rv secs t w"
  using money_affordable [of v w] by (cases "sv_billing cfg") (auto simp: covered_def money_def)

lemma authorize_billing_covered:
  assumes "authorize_billing cfg rv secs t w = (Inr (), w')"
  shows "covered cfg rv secs t w"
proof (cases "sv_billing cfg")
  case (Some mode)
  with assms obtain est auth v where est: "estimate_usage_for_spec (sp_resources (rv_spec rv)) secs
      (db_sidecar_count (rv_sidecar_components rv)) = Inr est"
    and auth: "billing_authorize mode t est w = (Inr auth, v)" "ar_authorized auth"
    by (auto simp: authorize_billing_def bind_em_Inr_iff seq_em_Inr_iff Let_def split: if_splits)
  have "affordable mode t est (w_db w) (e_now (w_env w) (w_clock w))"
    using auth
    by (auto simp: billing_authorize_def get_or_create_account_run strategy_for_def credit_authorize_def
        payg_authorize_def em_simps affordable_def wallet_balance_def Let_def split: if_splits option.splits)
  with est Some show ?thesis by (auto simp: covered_def)
qed (simp add: covered_def)

lemma nothing_before:
  assumes "leaves outside m" "\<And>x v. m w = (Inr x, v) \<Longrightarrow> w_calls (snd (f x v)) = w_calls v \<or> P"
  shows "w_calls (snd (bind_em m f w)) = w_calls w \<or> P"
proof (cases "m w")
  case (Pair r v)
  with outsideD [OF assms(1) this] assms(2) show ?thesis by (cases r) (auto simp: bind_em_run)
qed

lemma resolve_spec_db: "leaves w_db (resolve_spec cfg l v t)"
  by (rule resolve_spec_leaves) simp

text \<open>
  C2. Nothing is provisioned before it is admitted. A run, or the creation of a sandbox, that makes
  any call to the outside has resolved its request, found room under the tenant's concurrency cap, and
  found the priced estimate (of the wall-clock limit of the run, of the maximal lifetime of the
  sandbox) covered by the tenant's wallet or spend cap.
\<close>

theorem provisioning_requires_admission:
  "(w_calls (snd (execute cfg language code version stdin template t u ex w)) = w_calls w \<or>
      (\<exists>rv v. resolve_spec cfg language version template w = (Inr rv, v) \<and> room_for_one cfg t (w_db w) \<and>
         covered cfg rv (sp_wall_clock_seconds (rv_spec rv)) t v)) \<and>
   (w_calls (snd (create_sandbox cfg language version template persistent t u w)) = w_calls w \<or>
      (\<exists>rv v ttls. resolve_spec cfg language version template w = (Inr rv, v) \<and> room_for_one cfg t (w_db w) \<and>
         resolve_ttl_seconds cfg rv = Inr ttls \<and> covered cfg rv (snd ttls) t v))"
proof (intro conjI)
  have admitted: "room_for_one cfg t (w_db w) \<and> covered cfg rv secs t v"
    if "resolve_spec cfg language version template w = (Inr rv, v)"
      "check_quota cfg rv t v = (Inr (), v1)" "authorize_billing cfg rv secs t v1 = (Inr (), v2)" for rv v v1 v2 secs
    using check_quota_admits [OF that(2)] authorize_billing_covered [OF that(3)] leavesD [OF resolve_spec_db that(1)]
      money_covered [of v1 v] by simp
  show "w_calls (snd (execute cfg language code version stdin template t u ex w)) = w_calls w \<or>
      (\<exists>rv v. resolve_spec cfg language version template w = (Inr rv, v) \<and> room_for_one cfg t (w_db w) \<and>
         covered cfg rv (sp_wall_clock_seconds (rv_spec rv)) t v)"
    unfolding execute_split
    by (intro nothing_before [OF outside_resolution(1)] nothing_before [OF lift_outside]
        nothing_before [OF outside_admission(1)] nothing_before [OF outside_admission(2)])
      (use admitted in auto)
  show "w_calls (snd (create_sandbox cfg language version template persistent t u w)) = w_calls w \<or>
      (\<exists>rv v ttls. resolve_spec cfg language version template w = (Inr rv, v) \<and> room_for_one cfg t (w_db w) \<and>
         resolve_ttl_seconds cfg rv = Inr ttls \<and> covered cfg rv (snd ttls) t v)"
    unfolding create_sandbox_def seq_em_def
    by (intro nothing_before [OF outside_resolution(1)] nothing_before [OF lift_outside]
        nothing_before [OF outside_admission(1)] nothing_before [OF outside_admission(2)])
      (use admitted in auto)
qed

end
