(* ===== verification/Sandbox_Lifecycle.thy ===== *)
theory Sandbox_Lifecycle
  imports Sandbox_Laws
begin

section \<open>Sandboxes that outlive a request\<close>

text \<open>
  The laws of the operations on existing sandboxes: other tenants are turned away without a trace,
  destroying happens at most once and commits all its effects or none, and what the self-healing
  status query loses. The frames about billing and auditing are proved once, in a locale.
\<close>

subsection \<open>Parts of the world that billing and auditing do not touch\<close>

locale bookkeeping_blind =
  fixes f :: "world \<Rightarrow> 'c"
  assumes clock_blind: "f (w\<lparr>w_clock := n\<rparr>) = f w"
    and uuid_blind: "f (w\<lparr>w_uuids := n\<rparr>) = f w"
    and token_blind: "f (w\<lparr>w_tokens := n\<rparr>) = f w"
    and money_blind: "f (w\<lparr>w_db := (w_db w)\<lparr>d_accounts := a, d_wallets := ws, d_ledger := l, d_usage := us\<rparr>\<rparr>) = f w"
    and quota_blind: "f (w\<lparr>w_db := (w_db w)\<lparr>d_quotas := q\<rparr>\<rparr>) = f w"
    and audit_blind: "f (w\<lparr>w_db := (w_db w)\<lparr>d_audit := xs\<rparr>\<rparr>) = f w"
    and standalone_blind: "f (w\<lparr>w_committed := (w_committed w)\<lparr>d_audit := xs\<rparr>\<rparr>) = f w"
begin

lemma blind_reads:
  "leaves f (query_db q)" "leaves f utc_now" "leaves f db_now" "leaves f fresh_uuid" "leaves f fresh_token"
  by (simp_all add: moves_def clock_blind uuid_blind token_blind)

lemma money_parts:
  "f (w\<lparr>w_db := (w_db w)\<lparr>d_accounts := a\<rparr>\<rparr>) = f w"
  "f (w\<lparr>w_db := (w_db w)\<lparr>d_wallets := ws, d_ledger := l\<rparr>\<rparr>) = f w"
  "f (w\<lparr>w_db := (w_db w)\<lparr>d_usage := us\<rparr>\<rparr>) = f w"
  using money_blind [where w = w and a = a and ws = "d_wallets (w_db w)" and l = "d_ledger (w_db w)" and us = "d_usage (w_db w)"]
    money_blind [where w = w and a = "d_accounts (w_db w)" and ws = ws and l = l and us = "d_usage (w_db w)"]
    money_blind [where w = w and a = "d_accounts (w_db w)" and ws = "d_wallets (w_db w)" and l = "d_ledger (w_db w)" and us = us]
  by simp_all

lemma blind_audit: "leaves f (audit_if cfg entry)"
proof -
  have "leaves f (update_db (\<lambda>d. d\<lparr>d_audit := g d\<rparr>))" for g by (simp add: moves_def audit_blind)
  then show ?thesis unfolding audit_if_def audit_record_def by (intro moves_intro blind_reads)
qed

lemma blind_denial: "leaves f (denial_audit cfg action t detail)"
proof -
  have "f (w\<lparr>w_committed := (w_committed w)\<lparr>d_audit := xs\<rparr>, w_db := (w_db w)\<lparr>d_audit := ys\<rparr>\<rparr>) = f w" for w xs ys
    using audit_blind [where w = "w\<lparr>w_committed := (w_committed w)\<lparr>d_audit := xs\<rparr>\<rparr>" and xs = ys]
      standalone_blind [where w = w and xs = xs] by simp
  then have "leaves f (modify_em (\<lambda>w. w\<lparr>w_committed := (w_committed w)\<lparr>d_audit := g w\<rparr>, w_db := (w_db w)\<lparr>d_audit := h w\<rparr>\<rparr>))" for g h
    by (simp add: moves_def)
  then show ?thesis unfolding denial_audit_def record_standalone_def by (intro moves_intro blind_reads)
qed

lemma blind_account: "leaves f (get_or_create_account t m)"
proof -
  have "leaves f (update_db (\<lambda>d. d\<lparr>d_accounts := g d\<rparr>))" for g by (simp add: moves_def money_parts)
  then show ?thesis unfolding get_or_create_account_def Let_def by (intro moves_intro blind_reads)
qed

lemma blind_strategies:
  "leaves f (strategy_authorize s t est acc)" "leaves f (strategy_record_usage s t ev acc)"
proof -
  have ledger: "leaves f (update_db (\<lambda>d. d\<lparr>d_wallets := g d, d_ledger := h d\<rparr>))" for g h
    by (simp add: moves_def money_parts)
  have usage: "leaves f (record_usage_row t ev c)" for t ev c
  proof -
    have "leaves f (update_db (\<lambda>d. d\<lparr>d_usage := g d\<rparr>))" for g by (simp add: moves_def money_parts)
    then show ?thesis unfolding record_usage_row_def by (intro moves_intro blind_reads)
  qed
  have delta: "leaves f (apply_delta t d reason)" for d reason
    unfolding apply_delta_def Let_def by (intro moves_intro blind_reads ledger)
  show "leaves f (strategy_authorize s t est acc)"
    by (cases s) (simp_all only: strategy_authorize.simps credit_authorize_def payg_authorize_def,
        (intro moves_intro blind_reads)+)
  show "leaves f (strategy_record_usage s t ev acc)"
    by (cases s) (simp_all only: strategy_record_usage.simps credit_record_usage_def payg_record_usage_def,
        (intro moves_intro blind_reads usage delta)+)
qed

lemma blind_billing: "leaves f (billing_authorize m t est)" "leaves f (bill_events cfg t evs)"
  unfolding billing_authorize_def bill_events_def billing_record_usage_def
  by (intro moves_intro blind_account blind_strategies)+

lemma blind_quota: "leaves f (quota_check df t res)"
proof -
  have "leaves f (update_db (\<lambda>d. d\<lparr>d_quotas := g d\<rparr>))" for g by (simp add: moves_def quota_blind)
  then show ?thesis
    unfolding quota_check_def quota_usage_of_def quota_get_or_create_def Let_def by (intro moves_intro blind_reads)
qed

lemma blind_admission: "leaves f (check_quota cfg rv t)" "leaves f (authorize_billing cfg rv secs t)"
  unfolding check_quota_def authorize_billing_def Let_def
  by (intro moves_intro blind_quota blind_denial blind_billing)+

lemma blind_resolution: "leaves f (resolve_spec cfg l v t)" "leaves f (resolve_template r)"
  by (rule resolve_spec_leaves; simp add: token_blind)+

lemmas blind_rules = blind_reads blind_audit blind_denial blind_billing blind_admission blind_resolution

end

definition sandbox_table :: "world \<Rightarrow> sandbox_row list" where
  "sandbox_table w = d_sandboxes (w_db w)"

definition run_table :: "world \<Rightarrow> run_row list" where
  "run_table w = d_runs (w_db w)"

interpretation sandboxes_blind: bookkeeping_blind sandbox_table
  by unfold_locales (simp_all add: sandbox_table_def)

interpretation runs_blind: bookkeeping_blind run_table
  by unfold_locales (simp_all add: run_table_def)

interpretation active_blind: bookkeeping_blind w_active
  by unfold_locales simp_all

declare sandboxes_blind.blind_rules [moves_intro]
declare runs_blind.blind_rules [moves_intro]
declare active_blind.blind_rules [moves_intro]

subsection \<open>Foreign sandboxes\<close>

lemma get_sandbox_foreign:
  "row_get sb_id i (d_sandboxes (w_db w)) = None \<or> (\<exists>r. row_get sb_id i (d_sandboxes (w_db w)) = Some r \<and> sb_tenant_id r \<noteq> t) \<Longrightarrow>
   get_sandbox i t w = (Inl (SandboxNotFoundError i), w)"
  by (auto simp: get_sandbox_def em_simps)

text \<open>
  C4. A sandbox of another tenant looks like one that does not exist: every operation answers
  \<open>SandboxNotFoundError\<close> and leaves the database, the backend and everything else exactly as it was.
\<close>

theorem foreign_sandbox_is_unreachable:
  assumes "row_get sb_id i (d_sandboxes (w_db w)) = Some row" "sb_tenant_id row \<noteq> t"
  shows "get_sandbox_status i t w = (Inl (SandboxNotFoundError i), w) \<and>
      destroy_sandbox cfg i t now w = (Inl (SandboxNotFoundError i), w) \<and>
      open_pty cfg i t w = (Inl (SandboxNotFoundError i), w) \<and>
      get_file i t path w = (Inl (SandboxNotFoundError i), w) \<and>
      put_file i t path content w = (Inl (SandboxNotFoundError i), w) \<and>
      list_tree i t path w = (Inl (SandboxNotFoundError i), w) \<and>
      run_in_sandbox cfg i code stdin language t w = (Inl (SandboxNotFoundError i), w)"
proof -
  have "get_sandbox i t w = (Inl (SandboxNotFoundError i), w)"
    using assms by (intro get_sandbox_foreign) auto
  then show ?thesis
    by (simp add: get_sandbox_status_def destroy_sandbox_def open_pty_def get_file_def put_file_def
        list_tree_def run_in_sandbox_def live_handle_def bind_em_run)
qed

theorem foreign_sandbox_is_unreachable_witness:
  "fst (get_file ''s1'' ''t2'' ''main.py'' (demo_world (empty_db\<lparr>d_sandboxes := [demo_sandbox ''s1'']\<rparr>) empty_registry)) =
     Inl (SandboxNotFoundError ''s1'')"
  using foreign_sandbox_is_unreachable [of "''s1''" "demo_world (empty_db\<lparr>d_sandboxes := [demo_sandbox ''s1'']\<rparr>) empty_registry"
      "demo_sandbox ''s1''" "''t2''"]
  by (simp add: demo_world_def demo_sandbox_def row_get_def)

subsection \<open>Destroying a sandbox\<close>

lemma tables_external [moves_intro]:
  "leaves sandbox_table (external ask event)" "leaves run_table (external ask event)"
  by (simp_all add: moves_def sandbox_table_def run_table_def)

lemma leaves_active_outside: "leaves outside m \<Longrightarrow> leaves w_active m"
  by (rule movesI) (drule (1) outsideD, simp)

lemma sidecars_leave [moves_intro]:
  "leaves w_active (teardown_sidecars h cs)" "leaves sandbox_table (teardown_sidecars h cs)"
  "leaves run_table (teardown_sidecars h cs)" "leaves committed_rest (teardown_sidecars h cs)"
  "leaves (\<lambda>w. d_usage (w_db w)) (teardown_sidecars h cs)"
  unfolding teardown_sidecars_def hook_on_teardown_def by (intro moves_intro)+

lemma destroy_call_leaves [moves_intro]:
  "leaves w_active (prov_destroy h)" "leaves committed_rest (prov_destroy h)" "leaves sandbox_table (prov_destroy h)"
  unfolding prov_destroy_def by (intro moves_intro)+

lemma rest_row_resolution [moves_intro]:
  "leaves committed_rest (get_sandbox i t)" "leaves committed_rest (sidecar_components_for_row row)"
  "leaves committed_rest (spec_resources_for_row row)"
  unfolding get_sandbox_def sidecar_components_for_row_def spec_resources_for_row_def by (intro moves_intro)+

lemma sandboxes_row_resolution [moves_intro]:
  "leaves sandbox_table (sidecar_components_for_row row)" "leaves sandbox_table (spec_resources_for_row row)"
  unfolding sidecar_components_for_row_def spec_resources_for_row_def by (intro moves_intro)+

text \<open>\<open>destroy_sandbox\<close> in two parts: everything up to the commit, and the commit with the gauge.\<close>

definition destroy_prepare :: "sandbox_config \<Rightarrow> sandbox_row \<Rightarrow> string \<Rightarrow> int option \<Rightarrow> unit prog" where
  "destroy_prepare cfg row tenant_id given_now =
     bind_em (sidecar_components_for_row row) (\<lambda>sidecars.
     seq_em (teardown_sidecars (handle_from_row row) sidecars)
     (seq_em (prov_destroy (handle_from_row row))
     (bind_em (case given_now of Some t \<Rightarrow> return_em t | None \<Rightarrow> utc_now) (\<lambda>now.
      bind_em (lift_em (elapsed_seconds (Aware (sb_created_at row)) (Aware now))) (\<lambda>elapsed.
      seq_em
        (if sv_billing cfg = None then return_em ()
         else bind_em (spec_resources_for_row row) (\<lambda>res.
              bind_em (lift_em (usage_events_for_run res (trunc_rat (elapsed * 1000)) (sb_id row) None
                                  (db_sidecar_count sidecars))) (bill_events cfg tenant_id)))
      (seq_em (put_sandbox (row\<lparr>sb_state := Terminated, sb_terminated_at := Some now\<rparr>))
      (audit_if cfg
         \<lparr>ae_action = ''sandbox.destroy'', ae_principal = None, ae_actor = None, ae_tenant_id = Some tenant_id,
          ae_target = Some (sb_id row),
          ae_detail = Some (JObject [(''lifetime_seconds'', JInt (trunc_rat elapsed)),
            (''persistent'', JBool (sb_persistent row)), (''backend'', JString (sb_backend row))])\<rparr>)))))))"

lemma bind_em_assoc: "bind_em (bind_em m f) g = bind_em m (\<lambda>x. bind_em (f x) g)"
  by (rule ext) (simp add: bind_em_run split: prod.split sum.split)

lemma destroy_split:
  "destroy_sandbox cfg i t now w =
     bind_em (get_sandbox i t) (\<lambda>row.
     if sb_state row = Terminated then return_em ()
     else seq_em (destroy_prepare cfg row t now) (seq_em commit (gauge_add (sb_backend row) (sb_weight_class row) (- 1)))) w"
  unfolding destroy_sandbox_def destroy_prepare_def seq_em_def bind_em_assoc by simp

lemma destroy_prepare_leaves:
  "leaves committed_rest (destroy_prepare cfg row t now)" "leaves w_active (destroy_prepare cfg row t now)"
proof -
  show "leaves committed_rest (destroy_prepare cfg row t now)"
    unfolding destroy_prepare_def by (intro moves_intro)
  show "leaves w_active (destroy_prepare cfg row t now)"
    unfolding destroy_prepare_def by (intro moves_intro leaves_active_outside outside_rows outside_row_resolution)
qed

text \<open>Every event of a list is billed to the tenant, in order.\<close>

lemma bill_one:
  assumes "billing_record_usage mode t ev w = (Inr (), w')"
  shows "\<exists>u. d_usage (w_db w') = d_usage (w_db w) @ [u] \<and> ur_tenant_id u = t \<and> ur_quantity u = ev_quantity ev"
proof -
  obtain s v where s: "strategy_record_usage s t ev (account_of mode t (w_db w)) v = (Inr (), w')" "v = with_account mode t w"
    using assms by (auto simp: billing_record_usage_def get_or_create_account_run bind_em_Inr_iff)
  have "\<exists>u. d_usage (w_db w') = d_usage (w_db v) @ [u] \<and> ur_tenant_id u = t \<and> ur_quantity u = ev_quantity ev"
    using s(1) credit.record_usage_appends [of t ev "account_of mode t (w_db w)" v]
      payg.record_usage_appends [of t ev "account_of mode t (w_db w)" v] by (cases s) auto
  then show ?thesis using s(2) by simp
qed

lemma bill_events_rows:
  assumes "bill_events cfg t evs w = (Inr (), w')" "sv_billing cfg = Some mode"
  shows "\<exists>us. d_usage (w_db w') = d_usage (w_db w) @ us \<and> map ur_quantity us = map ev_quantity evs \<and>
    list_all (\<lambda>u. ur_tenant_id u = t) us"
proof -
  have "\<exists>us. d_usage (w_db w') = d_usage (w_db w) @ us \<and> map ur_quantity us = map ev_quantity evs \<and>
      list_all (\<lambda>u. ur_tenant_id u = t) us"
    if "for_em evs (billing_record_usage mode t) w = (Inr (), w')" for w
    using that
  proof (induction evs arbitrary: w)
    case (Cons ev evs)
    then obtain v where v: "billing_record_usage mode t ev w = (Inr (), v)" "for_em evs (billing_record_usage mode t) v = (Inr (), w')"
      by (auto simp: bind_em_Inr_iff)
    obtain u where u: "d_usage (w_db v) = d_usage (w_db w) @ [u]" "ur_tenant_id u = t" "ur_quantity u = ev_quantity ev"
      using bill_one [OF v(1)] by blast
    obtain us where us: "d_usage (w_db w') = d_usage (w_db v) @ us" "map ur_quantity us = map ev_quantity evs"
      "list_all (\<lambda>u. ur_tenant_id u = t) us"
      using Cons.IH [OF v(2)] by blast
    show ?case by (rule exI [of _ "u # us"]) (use u us in simp)
  qed simp
  then show ?thesis using assms by (simp add: bill_events_def)
qed

lemma put_sandbox_run: "put_sandbox r w = (Inr (), w\<lparr>w_db := (w_db w)\<lparr>d_sandboxes := row_put sb_id r (d_sandboxes (w_db w))\<rparr>\<rparr>)"
  by (simp add: put_sandbox_def)

lemma gauge_add_run: "gauge_add b wc n w = (Inr (), w\<lparr>w_active := (w_active w)((b, wc) := w_active w (b, wc) + n)\<rparr>)"
  by (simp add: gauge_add_def)

lemma outside_bill: "leaves outside (if b then return_em () else bind_em (spec_resources_for_row row) (\<lambda>res.
    bind_em (lift_em (r res)) (bill_events cfg t)))"
  by (intro moves_intro)

lemma destroy_prepare_run:
  assumes "destroy_prepare cfg row t now w = (Inr (), w')"
  shows "\<exists>tm. d_sandboxes (w_db w') = row_put sb_id (row\<lparr>sb_state := Terminated, sb_terminated_at := Some tm\<rparr>) (d_sandboxes (w_db w))"
    "\<exists>pre. w_calls w' = pre @ [CallDestroy (handle_from_row row) (Inr ())]"
proof -
  let ?bill = "\<lambda>sidecars elapsed. if sv_billing cfg = None then return_em ()
      else bind_em (spec_resources_for_row row) (\<lambda>res.
           bind_em (lift_em (usage_events_for_run res (trunc_rat (elapsed * 1000)) (sb_id row) None
             (db_sidecar_count sidecars))) (bill_events cfg t))"
  obtain sidecars w1 u2 w2 u3 w3 tm w4 elapsed w4' u5 w5 u6 v entry where
    w1: "sidecar_components_for_row row w = (Inr sidecars, w1)" and
    w2: "teardown_sidecars (handle_from_row row) sidecars w1 = (Inr u2, w2)" and
    w3: "prov_destroy (handle_from_row row) w2 = (Inr u3, w3)" and
    w4: "(case now of Some t \<Rightarrow> return_em t | None \<Rightarrow> utc_now) w3 = (Inr tm, w4)" and
    w4': "lift_em (elapsed_seconds (Aware (sb_created_at row)) (Aware tm)) w4 = (Inr elapsed, w4')" and
    w5: "?bill sidecars elapsed w4' = (Inr u5, w5)" and
    v: "put_sandbox (row\<lparr>sb_state := Terminated, sb_terminated_at := Some tm\<rparr>) w5 = (Inr u6, v)"
      "audit_if cfg entry v = (Inr (), w')"
    using assms unfolding destroy_prepare_def em_Inr_iff
    by (elim exE conjE) (rule that, assumption+)
  have [simp]: "w4' = w4" using w4' by simp
  have bill: "leaves sandbox_table (?bill sidecars elapsed)" by (intro moves_intro)
  have tm: "leaves sandbox_table (case now of Some t \<Rightarrow> return_em t | None \<Rightarrow> utc_now)"
    "leaves outside (case now of Some t \<Rightarrow> return_em t | None \<Rightarrow> utc_now)" by (intro moves_intro)+
  have "sandbox_table w5 = sandbox_table w"
    using leavesD [OF sandboxes_row_resolution(1) w1] leavesD [OF sidecars_leave(2) w2]
      leavesD [OF destroy_call_leaves(3) w3] leavesD [OF tm(1) w4] leavesD [OF bill w5] w4' by simp
  moreover have "sandbox_table w' = sandbox_table v" using leavesD [OF sandboxes_blind.blind_audit v(2)] .
  ultimately show "\<exists>tm. d_sandboxes (w_db w') = row_put sb_id (row\<lparr>sb_state := Terminated, sb_terminated_at := Some tm\<rparr>) (d_sandboxes (w_db w))"
    using v(1) by (intro exI [of _ tm]) (auto simp: put_sandbox_run sandbox_table_def)
  have "w_calls w' = w_calls w3"
    using outsideD [OF tm(2) w4] outsideD [OF outside_bill w5] outsideD [OF outside_audit(3) v(2)]
      outsideD [OF outside_rows(1) v(1)] by simp
  moreover have "w_calls w3 = w_calls w2 @ [CallDestroy (handle_from_row row) (Inr ())]"
    using w3 by (auto simp: prov_destroy_def)
  ultimately show "\<exists>pre. w_calls w' = pre @ [CallDestroy (handle_from_row row) (Inr ())]" by simp
qed

lemma get_sandbox_own:
  "row_get sb_id i (d_sandboxes (w_db w)) = Some row \<Longrightarrow> sb_tenant_id row = t \<Longrightarrow> get_sandbox i t w = (Inr row, w)"
  by (simp add: get_sandbox_def em_simps)

lemma destroy_live:
  assumes "row_get sb_id i (d_sandboxes (w_db w)) = Some row" "sb_tenant_id row = t" "sb_state row \<noteq> Terminated"
  shows "destroy_sandbox cfg i t now w = (case destroy_prepare cfg row t now w of
    (Inl e, v) \<Rightarrow> (Inl e, v)
  | (Inr x, v) \<Rightarrow> (Inr (), v\<lparr>w_committed := w_db v,
      w_active := (w_active v)((sb_backend row, sb_weight_class row) := w_active v (sb_backend row, sb_weight_class row) - 1)\<rparr>))"
proof -
  have "destroy_sandbox cfg i t now w =
      seq_em (destroy_prepare cfg row t now) (seq_em commit (gauge_add (sb_backend row) (sb_weight_class row) (- 1))) w"
    unfolding destroy_split bind_em_Inr [of "get_sandbox i t" w row w, OF get_sandbox_own [OF assms(1,2)]]
    using assms(3) by simp
  then show ?thesis
    by (cases "destroy_prepare cfg row t now w"; cases "fst (destroy_prepare cfg row t now w)")
      (simp_all add: seq_em_run gauge_add_run)
qed

lemma destroy_dead:
  assumes "row_get sb_id i (d_sandboxes (w_db w)) = Some row" "sb_tenant_id row = t" "sb_state row = Terminated"
  shows "destroy_sandbox cfg i t now w = (Inr (), w)"
  unfolding destroy_split bind_em_Inr [of "get_sandbox i t" w row w, OF get_sandbox_own [OF assms(1,2)]]
  using assms(3) by simp

lemma destroy_table:
  assumes "row_get sb_id i (d_sandboxes (w_db w)) = Some row" "sb_tenant_id row = t" "sb_state row \<noteq> Terminated"
    and "destroy_sandbox cfg i t now w = (Inr x, w')"
  shows "\<exists>tm. d_sandboxes (w_db w') = row_put sb_id (row\<lparr>sb_state := Terminated, sb_terminated_at := Some tm\<rparr>) (d_sandboxes (w_db w))"
    "w_committed w' = w_db w'"
proof -
  obtain v where v: "destroy_prepare cfg row t now w = (Inr (), v)" "w_db w' = w_db v" "w_committed w' = w_db v"
    using assms(4) by (auto simp: destroy_live [OF assms(1-3)] split: prod.splits sum.splits)
  show "\<exists>tm. d_sandboxes (w_db w') = row_put sb_id (row\<lparr>sb_state := Terminated, sb_terminated_at := Some tm\<rparr>) (d_sandboxes (w_db w))"
    using destroy_prepare_run(1) [OF v(1)] v(2) by simp
  show "w_committed w' = w_db w'" using v by simp
qed

text \<open>
  C3. Destroying a live sandbox of one's own commits everything or nothing. When it succeeds, the
  backend's own \<open>destroy\<close> succeeded and was the last call, the row is terminated with a time stamp
  and committed, every other row is untouched, the gauge dropped by one, and a second destroy changes
  nothing. When anything raises, no committed row and no gauge has moved, so the sandbox is still
  there for the next attempt.
\<close>

theorem destroy_sandbox_effect:
  assumes "row_get sb_id i (d_sandboxes (w_db w)) = Some row" "sb_tenant_id row = t" "sb_state row \<noteq> Terminated"
  shows "case destroy_sandbox cfg i t now w of
      (Inr _, w') \<Rightarrow>
        (\<exists>tm. row_get sb_id i (d_sandboxes (w_db w')) = Some (row\<lparr>sb_state := Terminated, sb_terminated_at := Some tm\<rparr>)) \<and>
        (j = i \<or> row_get sb_id j (d_sandboxes (w_db w')) = row_get sb_id j (d_sandboxes (w_db w))) \<and>
        last (w_calls w') = CallDestroy (handle_from_row row) (Inr ()) \<and>
        w_committed w' = w_db w' \<and>
        w_active w' = (w_active w)((sb_backend row, sb_weight_class row) := w_active w (sb_backend row, sb_weight_class row) - 1) \<and>
        destroy_sandbox cfg i t later w' = (Inr (), w')
    | (Inl _, w') \<Rightarrow> committed_rest w' = committed_rest w \<and> w_active w' = w_active w"
proof -
  obtain r v where v: "destroy_prepare cfg row t now w = (r, v)" by (cases "destroy_prepare cfg row t now w")
  have kept: "committed_rest v = committed_rest w" "w_active v = w_active w"
    using leavesD [OF destroy_prepare_leaves(1) v] leavesD [OF destroy_prepare_leaves(2) v] by auto
  show ?thesis
  proof (cases r)
    case (Inl e)
    with v kept show ?thesis by (simp add: destroy_live [OF assms])
  next
    case (Inr x)
    let ?w' = "v\<lparr>w_committed := w_db v, w_active := (w_active v)((sb_backend row, sb_weight_class row) :=
      w_active v (sb_backend row, sb_weight_class row) - 1)\<rparr>"
    have run: "destroy_sandbox cfg i t now w = (Inr (), ?w')"
      using v Inr by (simp add: destroy_live [OF assms])
    from destroy_prepare_run [of cfg row t now w v] v Inr obtain tm pre where
      tm: "d_sandboxes (w_db v) = row_put sb_id (row\<lparr>sb_state := Terminated, sb_terminated_at := Some tm\<rparr>) (d_sandboxes (w_db w))"
      and pre: "w_calls v = pre @ [CallDestroy (handle_from_row row) (Inr ())]"
      by auto
    have i: "sb_id row = i" using assms(1) by (rule row_get_key)
    have row': "row_get sb_id i (d_sandboxes (w_db ?w')) = Some (row\<lparr>sb_state := Terminated, sb_terminated_at := Some tm\<rparr>)"
      using i by (simp add: tm row_get_put)
    have again: "destroy_sandbox cfg i t later ?w' = (Inr (), ?w')"
      by (rule destroy_dead [OF row']) (use assms(2) in simp_all)
    have other: "j = i \<or> row_get sb_id j (d_sandboxes (w_db ?w')) = row_get sb_id j (d_sandboxes (w_db w))"
      using i by (simp add: tm row_get_put)
    have final: "last (w_calls ?w') = CallDestroy (handle_from_row row) (Inr ())" by (simp add: pre)
    show ?thesis
      unfolding run prod.case sum.case
      by (intro conjI exI [of _ tm] row' other final again) (simp_all add: kept(2))
  qed
qed

definition one_sandbox :: world where
  "one_sandbox = demo_world (empty_db\<lparr>d_sandboxes := [demo_sandbox ''s1'']\<rparr>) empty_registry"

theorem destroy_sandbox_effect_witness:
  "\<exists>w'. destroy_sandbox (demo_config\<lparr>sv_billing := None\<rparr>) ''s1'' ''t1'' None one_sandbox = (Inr (), w') \<and>
     last (w_calls w') = CallDestroy (handle_from_row (demo_sandbox ''s1'')) (Inr ())"
proof -
  have "fst (destroy_sandbox (demo_config\<lparr>sv_billing := None\<rparr>) ''s1'' ''t1'' None one_sandbox) = Inr ()"
    by (simp add: destroy_split bind_em_run get_sandbox_def one_sandbox_def demo_world_def demo_sandbox_def row_get_def
        em_simps demo_config_def destroy_prepare_def sidecar_components_for_row_def truthy_def teardown_sidecars_def
        prov_destroy_def demo_env_def elapsed_seconds_def put_sandbox_def audit_if_def gauge_add_def)
  then show ?thesis
    using destroy_sandbox_effect [where i = "''s1''" and w = one_sandbox and row = "demo_sandbox ''s1''" and t = "''t1''"
        and cfg = "demo_config\<lparr>sv_billing := None\<rparr>" and now = None and j = "''s2''" and later = None]
    by (cases "destroy_sandbox (demo_config\<lparr>sv_billing := None\<rparr>) ''s1'' ''t1'' None one_sandbox")
      (simp add: one_sandbox_def demo_world_def demo_sandbox_def row_get_def)
qed

text \<open>
  A sandbox whose container died on its own loses its bill. The status query that notices marks
  the row terminated and commits, but records no usage and leaves the gauge as it was, and a later
  destroy finds nothing to do, so neither is ever made up for.
\<close>

theorem self_healing_forgets_the_bill:
  assumes "row_get sb_id i (d_sandboxes (w_db w)) = Some row" "sb_tenant_id row = t" "sb_state row \<noteq> Terminated"
    and "e_status (w_env w) (w_calls w) (handle_from_row row) = Inr Terminated"
  shows "\<exists>row' w'. get_sandbox_status i t w = (Inr (row', Terminated), w') \<and>
     row_get sb_id i (d_sandboxes (w_committed w')) = Some row' \<and> sb_state row' = Terminated \<and>
     d_usage (w_committed w') = d_usage (w_db w) \<and> w_active w' = w_active w \<and>
     destroy_sandbox cfg i t now w' = (Inr (), w')"
proof -
  let ?h = "handle_from_row row"
  let ?v = "w\<lparr>w_calls := w_calls w @ [CallStatus ?h (Inr Terminated)]\<rparr>"
  let ?row = "row\<lparr>sb_state := Terminated, sb_terminated_at := Some (e_now (w_env w) (w_clock w))\<rparr>"
  let ?d = "(w_db w)\<lparr>d_sandboxes := row_put sb_id ?row (d_sandboxes (w_db w))\<rparr>"
  let ?w' = "?v\<lparr>w_clock := Suc (w_clock w), w_db := ?d, w_committed := ?d\<rparr>"
  have i: "sb_id row = i" using assms(1) by (rule row_get_key)
  have run: "get_sandbox_status i t w = (Inr (?row, Terminated), ?w')"
    unfolding get_sandbox_status_def bind_em_Inr [of "get_sandbox i t" w row w, OF get_sandbox_own [OF assms(1,2)]]
    using assms(3,4) by (simp add: bind_em_run prov_status_def put_sandbox_run seq_em_run Let_def)
  have row': "row_get sb_id i (d_sandboxes (w_db ?w')) = Some ?row" using i by (simp add: row_get_put)
  have dead: "destroy_sandbox cfg i t now ?w' = (Inr (), ?w')"
    by (rule destroy_dead [OF row']) (use assms(2) in simp_all)
  show ?thesis
    by (intro exI [of _ ?row] exI [of _ ?w'] conjI run dead) (use row' in simp_all)
qed

theorem self_healing_forgets_the_bill_witness:
  "\<exists>w'. destroy_sandbox demo_config ''s1'' ''t1'' None w' = (Inr (), w') \<and>
     w_active w' (''docker'', ''light'') = 1 \<and> d_usage (w_committed w') = []"
  using self_healing_forgets_the_bill [where i = "''s1''" and row = "demo_sandbox ''s1''" and t = "''t1''" and cfg = demo_config
      and now = None and w = "one_sandbox\<lparr>w_env := demo_env\<lparr>e_status := (\<lambda>_ _. Inr Terminated)\<rparr>,
        w_active := (\<lambda>k. if k = (''docker'', ''light'') then 1 else 0)\<rparr>"]
  by (auto simp: one_sandbox_def demo_world_def demo_sandbox_def row_get_def empty_db_def)

end
