(* ===== verification/Async_Runs.thy ===== *)
theory Async_Runs
  imports Sandbox_Lifecycle
begin

section \<open>Runs in the background\<close>

text \<open>
  What a poller of an asynchronous run can rely on, and the transaction that a one-shot run is: the
  frames of the runs table through \<open>execute\<close>, what a failing run leaves committed, and the terminal
  state every background run ends in.
\<close>

subsection \<open>The runs table through a run\<close>

lemma runs_primitives [moves_intro]:
  "leaves run_table commit" "leaves run_table (put_sandbox r)" "leaves run_table (gauge_add b wc n)"
  by (simp_all add: moves_def run_table_def put_sandbox_def gauge_add_def)

lemma runs_pool_update [moves_intro]:
  "leaves run_table (update_db (\<lambda>d. d\<lparr>d_pool_members := f d\<rparr>))" "leaves run_table (update_db (\<lambda>d. d\<lparr>d_pool_state := g d\<rparr>))"
  by (simp_all add: moves_def run_table_def)

lemma runs_pool [moves_intro]:
  "leaves run_table (sync_pool_state i wc)" "leaves run_table (add_pool_member spec h)"
  "leaves run_table (try_claim spec)" "leaves run_table (release h spec)"
proof -
  show s: "leaves run_table (sync_pool_state i wc)" for i wc unfolding sync_pool_state_def by (intro moves_intro)
  show a: "leaves run_table (add_pool_member spec h)" for spec h unfolding add_pool_member_def by (intro moves_intro)
  show "leaves run_table (try_claim spec)" unfolding try_claim_def Let_def by (intro moves_intro s)
  show "leaves run_table (release h spec)"
    unfolding release_def prov_destroy_def prov_recycle_def by (intro moves_intro s a)
qed

lemma runs_slot [moves_intro]: "leaves run_table (execute_in_slot cfg rv cmd ttls t u)"
  unfolding execute_in_slot_def acquire_for_execute_def acquire_instrumented_def provision_sidecars_def
    run_instrumented_def release_or_destroy_def prov_acquire_def prov_exec_batch_def prov_destroy_def
    hook_on_provision_def Let_def
  by (intro moves_intro)

subsection \<open>A run is one transaction\<close>

text \<open>Everything \<open>execute\<close> does before its only commit.\<close>

definition execute_body ::
  "sandbox_config \<Rightarrow> string \<Rightarrow> string \<Rightarrow> string option \<Rightarrow> string \<Rightarrow> string option \<Rightarrow> string \<Rightarrow> string option \<Rightarrow>
   string option \<Rightarrow> batch_run_result prog" where
  "execute_body cfg language code version stdin template t u ex =
     bind_em (resolve_spec cfg language version template) (\<lambda>rv.
     bind_em (lift_em (build_batch_command (rv_component rv) code stdin)) (\<lambda>command.
     bind_em (lift_em (resolve_ttl_seconds cfg rv)) (\<lambda>ttls.
     bind_em (check_quota cfg rv t) (\<lambda>_.
     bind_em (authorize_billing cfg rv (sp_wall_clock_seconds (rv_spec rv)) t) (\<lambda>_.
     bind_em (execute_in_slot cfg rv command ttls t u) (\<lambda>(handle, row, result).
     bind_em (persist_run_result cfg result ex (h_sandbox_id handle) t (bc_command command)
                (component_key (rv_component rv)) u) (\<lambda>run_row.
     bind_em (put_sandbox (row\<lparr>sb_state := Terminated\<rparr>)) (\<lambda>_.
     bind_em
       (if sv_billing cfg = None then return_em ()
        else bind_em (lift_em (usage_events_for_run (sp_resources (rv_spec rv)) (br_duration_ms result)
                                 (h_sandbox_id handle) (Some (rn_id run_row))
                                 (db_sidecar_count (rv_sidecar_components rv)))) (bill_events cfg t)) (\<lambda>_.
     return_em result)))))))))"

lemma case_prod_bind: "bind_em (case p of (a, b, c) \<Rightarrow> f a b c) g = (case p of (a, b, c) \<Rightarrow> bind_em (f a b c) g)"
  by (cases p) simp

lemma return_bind: "bind_em (return_em x) g = g x"
  by (rule ext) (simp add: bind_em_run)

lemma execute_body_split:
  "execute cfg language code version stdin template t u ex =
     bind_em (execute_body cfg language code version stdin template t u ex) (\<lambda>result. seq_em commit (return_em result))"
  unfolding execute_def execute_body_def seq_em_def bind_em_assoc case_prod_bind return_bind by simp

lemma rest_execute_body: "leaves committed_rest (execute_body cfg language code version stdin template t u ex)"
  unfolding execute_body_def by (intro moves_intro)

lemma execute_cases:
  assumes "execute cfg language code version stdin template t u ex w = (r, w')"
  obtains (raises) e where "r = Inl e" "committed_rest w' = committed_rest w"
  | (returns) result v where "r = Inr result" "w' = v\<lparr>w_committed := w_db v\<rparr>"
      "execute_body cfg language code version stdin template t u ex w = (Inr result, v)"
proof -
  obtain b v where b: "execute_body cfg language code version stdin template t u ex w = (b, v)"
    by (cases "execute_body cfg language code version stdin template t u ex w")
  show thesis
  proof (cases b)
    case (Inl e)
    with assms b leavesD [OF rest_execute_body b] show thesis
      by (intro raises [of e]) (simp_all add: execute_body_split bind_em_run)
  next
    case (Inr result)
    with assms b show thesis by (intro returns [of result v]) (simp_all add: execute_body_split bind_em_run seq_em_run)
  qed
qed

text \<open>A run that was asked to reuse a row leaves that row completed, with the result on it.\<close>

definition carries_result :: "run_row \<Rightarrow> string \<Rightarrow> batch_run_result \<Rightarrow> bool" where
  "carries_result row t result \<longleftrightarrow>
     rn_status row = RunCompleted \<and> rn_tenant_id row = t \<and> rn_exit_code row = Some (br_exit_code result) \<and>
     rn_stdout_excerpt row = Some (take 10000 (br_stdout result)) \<and>
     rn_stderr_excerpt row = Some (take 10000 (br_stderr result)) \<and> rn_variables row = br_variables result \<and>
     rn_truncated row = br_truncated result \<and> rn_timed_out row = br_timed_out result"

lemma completed_carries: "carries_result (completed_run q result s t command c f) t result"
  by (simp add: carries_result_def completed_run_def)

lemma persist_existing:
  assumes "persist_run_result cfg result (Some i) s t command c u w = (Inr row, w')"
  shows "row_get rn_id i (run_table w') = Some row \<and> carries_result row t result"
proof -
  obtain row' v where row': "carries_result row' t result" "rn_id row' = i" "put_run row' v = (Inr (), v\<lparr>w_db := (w_db v)\<lparr>d_runs := row_put rn_id row' (d_runs (w_db v))\<rparr>\<rparr>)"
    "row = row'" "run_table w' = run_table (v\<lparr>w_db := (w_db v)\<lparr>d_runs := row_put rn_id row' (d_runs (w_db v))\<rparr>\<rparr>)"
  proof (cases "row_get rn_id i (d_runs (w_db w))")
    case None
    let ?row = "completed_run (blank_run i t (e_db_now (w_env w) (Suc (w_clock w)))) result s t command c (e_now (w_env w) (w_clock w))"
    let ?v = "w\<lparr>w_clock := Suc (Suc (w_clock w))\<rparr>"
    have "w' = ?v\<lparr>w_db := (w_db ?v)\<lparr>d_runs := row_put rn_id ?row (d_runs (w_db ?v))\<rparr>\<rparr>" "row = ?row"
      using assms None by (auto simp: persist_run_result_def em_simps put_run_def Let_def)
    then show thesis by (intro that [of ?row ?v]) (simp_all add: completed_carries, simp_all add: completed_run_def blank_run_def put_run_def)
  next
    case (Some q)
    let ?row = "completed_run q result s t command c (e_now (w_env w) (w_clock w))"
    let ?v = "w\<lparr>w_clock := Suc (w_clock w)\<rparr>"
    let ?v' = "?v\<lparr>w_db := (w_db ?v)\<lparr>d_runs := row_put rn_id ?row (d_runs (w_db ?v))\<rparr>\<rparr>"
    have q: "rn_id q = i" using Some by (rule row_get_key)
    obtain x where a: "audit_run cfg ?row t u c ?v' = (x, w')" and r: "row = ?row" and x: "x = Inr ()"
      using assms Some by (auto simp: persist_run_result_def em_simps put_run_def Let_def split: prod.splits sum.splits)
    have "leaves run_table (audit_run cfg ?row t u c)" unfolding audit_run_def by (intro moves_intro)
    from leavesD [OF this a] have "run_table w' = run_table ?v'" .
    with q r show thesis by (intro that [of ?row ?v]) (simp_all add: completed_carries, simp_all add: completed_run_def put_run_def)
  qed
  then show ?thesis by (simp add: run_table_def row_get_put)
qed

lemma execute_body_completes:
  assumes "execute_body cfg language code version stdin template t u (Some i) w = (Inr result, w')"
  shows "\<exists>row. row_get rn_id i (run_table w') = Some row \<and> carries_result row t result"
proof -
  let ?bill = "\<lambda>rv handle result run_row. if sv_billing cfg = None then return_em ()
        else bind_em (lift_em (usage_events_for_run (sp_resources (rv_spec rv)) (br_duration_ms result)
                                 (h_sandbox_id handle) (Some (rn_id run_row))
                                 (db_sidecar_count (rv_sidecar_components rv)))) (bill_events cfg t)"
  obtain rv :: resolved_spec and command :: batch_command and run_row v w1 w2 w3 x y
    and z :: "sandbox_handle \<times> sandbox_row \<times> batch_run_result" where
    p: "persist_run_result cfg (snd (snd z)) (Some i) (h_sandbox_id (fst z)) t (bc_command command) (component_key (rv_component rv)) u v = (Inr run_row, w1)"
    and s: "put_sandbox ((fst (snd z))\<lparr>sb_state := Terminated\<rparr>) w1 = (Inr x, w2)"
    and b: "?bill rv (fst z) (snd (snd z)) run_row w2 = (Inr y, w3)" and w': "w' = w3" and z: "result = snd (snd z)"
    using assms unfolding execute_body_def bind_em_Inr_iff case_prod_unfold return_em_Inr_iff
    by (elim exE conjE) (rule that, assumption+)
  have "leaves run_table (?bill rv (fst z) (snd (snd z)) run_row)" by (intro moves_intro)
  from leavesD [OF this b] leavesD [OF runs_primitives(2) s] have "run_table w' = run_table w1" using w' by simp
  then show ?thesis using persist_existing [OF p] z by simp
qed

subsection \<open>The background run\<close>

lemma committed_rest_tables:
  assumes "committed_rest v = committed_rest w"
  shows "d_runs (w_committed v) = d_runs (w_committed w)" "d_pool_members (w_committed v) = d_pool_members (w_committed w)"
proof -
  have eq: "(w_committed v)\<lparr>d_audit := []\<rparr> = (w_committed w)\<lparr>d_audit := []\<rparr>" using assms unfolding committed_rest_def by blast
  from arg_cong [OF eq, of d_runs] show "d_runs (w_committed v) = d_runs (w_committed w)" by simp
  from arg_cong [OF eq, of d_pool_members] show "d_pool_members (w_committed v) = d_pool_members (w_committed w)" by simp
qed

lemma fail_run_effect:
  assumes "row_get rn_id i (d_runs (w_committed w)) = Some row"
  shows "\<exists>w' row'. with_session (fail_run i e) w = (Inr (), w') \<and>
    row_get rn_id i (d_runs (w_committed w')) = Some row' \<and> rn_status row' = RunFailed \<and> rn_error row' = Some e \<and>
    rn_tenant_id row' = rn_tenant_id row"
proof -
  have "rn_id row = i" using assms by (rule row_get_key)
  with assms show ?thesis
    by (simp add: with_session_def fail_run_def em_simps put_run_def row_get_put)
qed

lemma run_async_effect:
  assumes "sv_session_factory cfg" "row_get rn_id i (d_runs (w_committed w)) = Some row"
  shows "\<exists>w' row'. run_async cfg i language code version stdin template t u w = (Inr (), w') \<and>
    row_get rn_id i (d_runs (w_committed w')) = Some row' \<and>
    ((\<exists>result v v'. execute cfg language code version stdin template t u (Some i) v = (Inr result, v') \<and> carries_result row' t result) \<or>
     rn_status row' = RunFailed \<and> rn_error row' \<noteq> None \<and> rn_tenant_id row' = rn_tenant_id row)"
proof -
  let ?running = "row\<lparr>rn_status := RunRunning\<rparr>"
  let ?d = "(w_committed w)\<lparr>d_runs := row_put rn_id ?running (d_runs (w_committed w))\<rparr>"
  let ?w1 = "w\<lparr>w_db := ?d, w_committed := ?d\<rparr>"
  have i: "rn_id row = i" using assms(2) by (rule row_get_key)
  obtain r v where ex: "execute cfg language code version stdin template t u (Some i) ?w1 = (r, v)"
    by (cases "execute cfg language code version stdin template t u (Some i) ?w1")
  let ?rest = "catch_em (bind_em (execute cfg language code version stdin template t u (Some i)) (\<lambda>_. return_em ()))
      (\<lambda>_. True) (\<lambda>e. seq_em rollback (with_session (fail_run i e)))"
  have run: "run_async cfg i language code version stdin template t u w =
      (case ?rest ?w1 of (r, w') \<Rightarrow> (r, w'\<lparr>w_db := w_committed w'\<rparr>))"
    using assms by (simp add: run_async_def with_session_def bind_em_run seq_em_run put_run_def)
  show ?thesis
    using ex
  proof (cases rule: execute_cases)
    case (raises e)
    let ?v = "v\<lparr>w_db := w_committed v\<rparr>"
    have "d_runs (w_committed v) = d_runs (w_committed ?w1)"
      by (rule committed_rest_tables [OF raises(2)])
    then have "row_get rn_id i (d_runs (w_committed ?v)) = Some ?running" using i by (simp add: row_get_put)
    from fail_run_effect [OF this, of e] obtain w' row' where w':
      "with_session (fail_run i e) ?v = (Inr (), w')" "row_get rn_id i (d_runs (w_committed w')) = Some row'"
      "rn_status row' = RunFailed" "rn_error row' = Some e" "rn_tenant_id row' = rn_tenant_id row" by auto
    have "?rest ?w1 = (Inr (), w')" using ex raises(1) w'(1) by (simp add: catch_em_run bind_em_run seq_em_run)
    then show ?thesis unfolding run using w' by simp
  next
    case (returns result v0)
    from execute_body_completes [OF returns(3)] obtain row' where
      row': "row_get rn_id i (run_table v0) = Some row'" "carries_result row' t result" by blast
    have "?rest ?w1 = (Inr (), v)" using ex returns(1) by (simp add: catch_em_run bind_em_run)
    then show ?thesis unfolding run using row' returns(1,2) ex by (auto simp: run_table_def)
  qed
qed

text \<open>
  A poller never waits forever: whatever the execution does, raises or returns, and whatever the
  backend answers, the background body itself does not raise and the committed row of the run ends up
  completed or failed, failed carrying the exception.
\<close>

theorem async_run_ends_terminal:
  assumes "sv_session_factory cfg" "row_get rn_id i (d_runs (w_committed w)) = Some row"
  shows "\<exists>w' row'. run_async cfg i language code version stdin template t u w = (Inr (), w') \<and>
    row_get rn_id i (d_runs (w_committed w')) = Some row' \<and>
    (rn_status row' = RunCompleted \<or> rn_status row' = RunFailed \<and> rn_error row' \<noteq> None)"
  using run_async_effect [OF assms, of language code version stdin template t u] by (fastforce simp: carries_result_def)

theorem async_run_ends_terminal_witness:
  "\<exists>w'. run_async demo_config ''r1'' ''python'' ''print(1)'' None [] None ''t1'' None
     (demo_world (empty_db\<lparr>d_runs := [(blank_run ''r1'' ''t1'' 0)\<lparr>rn_status := RunPending\<rparr>]\<rparr>) demo_registry) = (Inr (), w')"
  using async_run_ends_terminal [of demo_config "''r1''" "demo_world (empty_db\<lparr>d_runs := [(blank_run ''r1'' ''t1'' 0)\<lparr>rn_status := RunPending\<rparr>]\<rparr>) demo_registry"
      "(blank_run ''r1'' ''t1'' 0)\<lparr>rn_status := RunPending\<rparr>" "''python''" "''print(1)''" None "[]" None "''t1''" None]
  by (auto simp: demo_config_def demo_world_def row_get_def blank_run_def)

end
