(* ===== verification/Reconciler.thy ===== *)
theory Reconciler
  imports Sandbox_Lifecycle
begin

section \<open>The reconciler\<close>

text \<open>
  \<open>app/reconciler/loop.py\<close>: the jobs of a tick in the order the tick runs them, and the tick itself.
  A tick runs in a session of its own. Times are microseconds, so an age in seconds is compared with
  a lifetime in seconds by scaling the lifetime.
\<close>

subsection \<open>Reaping by lifetime\<close>

definition past_ttl :: "int option \<Rightarrow> int \<Rightarrow> int \<Rightarrow> bool" where
  "past_ttl ttl since now = (case ttl of None \<Rightarrow> False | Some s \<Rightarrow> now - since \<ge> s * us_per_second)"

definition expired :: "int \<Rightarrow> sandbox_row \<Rightarrow> bool" where
  "expired now row \<longleftrightarrow>
     past_ttl (sb_idle_ttl_seconds row) (case sb_last_active_at row of Some t \<Rightarrow> t | None \<Rightarrow> sb_created_at row) now \<or>
     past_ttl (sb_max_ttl_seconds row) (sb_created_at row) now"

fun reap_rows :: "sandbox_config \<Rightarrow> int \<Rightarrow> sandbox_row list \<Rightarrow> string list \<Rightarrow> string list prog" where
  "reap_rows cfg now [] reaped = return_em reaped"
| "reap_rows cfg now (row # rows) reaped =
     (if \<not> expired now row then reap_rows cfg now rows reaped
      else seq_em (destroy_sandbox cfg (sb_id row) (sb_tenant_id row) (Some now))
             (reap_rows cfg now rows (reaped @ [sb_id row])))"

definition reap_expired_sandboxes :: "sandbox_config \<Rightarrow> int \<Rightarrow> string list prog" where
  "reap_expired_sandboxes cfg now =
     bind_em (query_db (\<lambda>d. filter (\<lambda>r. sb_state r \<noteq> Terminated) (d_sandboxes d))) (\<lambda>rows.
     reap_rows cfg now rows [])"

subsection \<open>Replenishing the pools\<close>

fun collect_components :: "registry \<Rightarrow> string list \<Rightarrow> exn + component list" where
  "collect_components reg [] = Inr []"
| "collect_components reg (n # ns) =
     (case latest_component reg n of
        Inl e \<Rightarrow> Inl e
      | Inr c \<Rightarrow> (case collect_components reg ns of Inl e \<Rightarrow> Inl e | Inr cs \<Rightarrow> Inr (c # cs)))"

definition poolable_language_components :: "registry \<Rightarrow> exn + component list" where
  "poolable_language_components reg =
     collect_components reg (sort (remdups (map (\<lambda>c. md_name (c_metadata c))
       (filter (\<lambda>c. md_category (c_metadata c) = Language \<and> rt_kind (cs_runtime (c_spec c)) = MainTool)
         (list_components reg)))))"

record pool_sizes =
  light_pool_size :: int
  standard_pool_size :: int
  heavy_pool_size :: int

fun pool_target :: "pool_sizes \<Rightarrow> weight_class \<Rightarrow> int" where
  "pool_target s Light = light_pool_size s"
| "pool_target s Standard = standard_pool_size s"
| "pool_target s Heavy = heavy_pool_size s"

fun replenish_components :: "pool_sizes \<Rightarrow> component list \<Rightarrow> (string \<times> nat) list \<Rightarrow> (string \<times> nat) list prog" where
  "replenish_components sizes [] added = return_em added"
| "replenish_components sizes (c # cs) added =
     bind_em (gets_em w_registry) (\<lambda>reg.
     bind_em (lift_em (build_ad_hoc_spec reg c)) (\<lambda>spec.
     if pool_target sizes (sp_weight_class spec) \<le> 0 then replenish_components sizes cs added
     else bind_em (replenish_one spec (pool_target sizes (sp_weight_class spec))) (\<lambda>n.
       replenish_components sizes cs (if n \<noteq> 0 then AList.update (component_key c) n added else added))))"

definition replenish_pools :: "pool_sizes \<Rightarrow> (string \<times> nat) list prog" where
  "replenish_pools sizes =
     bind_em (gets_em w_registry) (\<lambda>reg.
     bind_em (lift_em (poolable_language_components reg)) (\<lambda>cs. replenish_components sizes cs []))"

subsection \<open>Orphans\<close>

fun reap_refs :: "string \<Rightarrow> int \<Rightarrow> int \<Rightarrow> string list \<Rightarrow> native_sandbox_ref list \<Rightarrow> string list \<Rightarrow> string list prog" where
  "reap_refs backend grace now live [] reaped = return_em reaped"
| "reap_refs backend grace now live (ref # refs) reaped =
     (if nr_sandbox_id ref \<in> set live then reap_refs backend grace now live refs reaped
      else if now - nr_created_at ref < grace * us_per_second then reap_refs backend grace now live refs reaped
      else
        seq_em (prov_destroy \<lparr>h_sandbox_id = nr_sandbox_id ref, h_backend = backend, h_native_ref = nr_native_ref ref,
                              h_created_at = nr_created_at ref, h_sidecar_refs = nr_sidecar_refs ref, h_persistent = False\<rparr>)
          (reap_refs backend grace now live refs (reaped @ [nr_sandbox_id ref])))"

definition live_ids :: "db \<Rightarrow> string list" where
  "live_ids d = map sb_id (filter (\<lambda>r. sb_state r \<noteq> Terminated) (d_sandboxes d))"

definition reap_orphans :: "string \<Rightarrow> int \<Rightarrow> int \<Rightarrow> string list prog" where
  "reap_orphans backend grace now =
     bind_em (query_db live_ids) (\<lambda>live.
     bind_em prov_list_sandbox_refs (\<lambda>refs. reap_refs backend grace now live refs []))"

subsection \<open>Storage billing and audit pruning\<close>

definition resolve_archiver_image :: "registry \<Rightarrow> exn + string option" where
  "resolve_archiver_image reg =
     (case (case latest_component reg ''base'' of Inl e \<Rightarrow> Inl e | Inr c \<Rightarrow> resolve_component_image reg c) of
        Inr img \<Rightarrow> Inr (Some img)
      | Inl e \<Rightarrow> (if is_kubesandbox_error e then Inr None else Inl e))"

definition storage_event :: "int \<Rightarrow> int \<Rightarrow> usage_event" where
  "storage_event interval_seconds used_mb =
     \<lparr>ev_resource_type = ''storage_gb_day'',
      ev_quantity = (rat_of_int used_mb / 1024) * (rat_of_int interval_seconds / 86400),
      ev_sandbox_id = None, ev_run_id = None\<rparr>"

fun bill_workspace_rows :: "string \<Rightarrow> int \<Rightarrow> workspace_row list \<Rightarrow> string list \<Rightarrow> string list prog" where
  "bill_workspace_rows mode interval [] billed = return_em billed"
| "bill_workspace_rows mode interval (r # rs) billed =
     (if ws_used_mb r \<le> 0 then bill_workspace_rows mode interval rs billed
      else
        bind_em (query_db (\<lambda>d. map us_tenant_id (filter (\<lambda>u. us_id u = ws_user_id r) (d_users d)))) (\<lambda>tenants.
        bind_em (lift_em (scalar_one_or_none tenants)) (\<lambda>found.
        case found of
          None \<Rightarrow> bill_workspace_rows mode interval rs billed
        | Some tenant_id \<Rightarrow>
            seq_em (billing_record_usage mode tenant_id (storage_event interval (ws_used_mb r)))
              (bill_workspace_rows mode interval rs (billed @ [ws_id r])))))"

definition bill_workspace_storage :: "string \<Rightarrow> int \<Rightarrow> string list prog" where
  "bill_workspace_storage mode interval =
     bind_em (query_db (\<lambda>d. filter (\<lambda>r. ws_state r = WsActive) (d_workspaces d))) (\<lambda>rows.
     bind_em (bill_workspace_rows mode interval rows []) (\<lambda>billed.
     seq_em (when_em (billed \<noteq> []) commit) (return_em billed)))"

definition prune_audit_logs :: "int option \<Rightarrow> int \<Rightarrow> nat prog" where
  "prune_audit_logs retention_days now =
     (case retention_days of
        None \<Rightarrow> return_em 0
      | Some days \<Rightarrow>
          (let cutoff = now - days * us_per_day in
           bind_em (query_db (\<lambda>d. length (filter (\<lambda>r. al_created_at r < cutoff) (d_audit d)))) (\<lambda>pruned.
           seq_em (update_db (\<lambda>d. d\<lparr>d_audit := filter (\<lambda>r. \<not> al_created_at r < cutoff) (d_audit d)\<rparr>))
           (seq_em commit (return_em pruned)))))"

subsection \<open>A tick\<close>

record reconciler_settings =
  rs_pool :: "pool_sizes option"
  rs_workspaces :: "workspace_config option"
  rs_billing :: "string option"
  rs_backend :: string
  rs_interval_seconds :: int
  rs_orphan_grace_seconds :: int
  rs_audit_retention_days :: "int option"

record tick_result =
  tk_reaped :: "string list"
  tk_pool_replenished :: "(string \<times> nat) list"
  tk_workspaces_archived :: "string list"
  tk_workspaces_purged :: "string list"
  tk_workspaces_skipped_active :: "string list"
  tk_workspace_storage_billed :: "string list"
  tk_orphans_reaped :: "string list"
  tk_audit_entries_pruned :: nat

definition sweep_job :: "reconciler_settings \<Rightarrow> int \<Rightarrow> retention_result prog" where
  "sweep_job st now =
     (let nothing = \<lparr>rs_archived = [], rs_purged = [], rs_skipped_active = []\<rparr> in
      case rs_workspaces st of
        None \<Rightarrow> return_em nothing
      | Some wcfg \<Rightarrow>
          bind_em (gets_em w_registry) (\<lambda>reg.
          bind_em (lift_em (resolve_archiver_image reg)) (\<lambda>image.
          case image of None \<Rightarrow> return_em nothing | Some _ \<Rightarrow> sweep_retention wcfg (Some now))))"

text \<open>The service a tick constructs: pools and billing as configured, everything else at its default.\<close>

definition reconciler_service :: "reconciler_settings \<Rightarrow> sandbox_config" where
  "reconciler_service st =
     \<lparr>sv_pool = (rs_pool st \<noteq> None), sv_default_idle_ttl_seconds = 900, sv_default_max_ttl_seconds = 7200,
      sv_heavy_node_selector = [], sv_heavy_tolerations = [], sv_workspaces = None, sv_billing = rs_billing st,
      sv_quota = None, sv_audit = None, sv_audit_accepts = True, sv_session_factory = False\<rparr>"

definition run_tick :: "reconciler_settings \<Rightarrow> tick_result prog" where
  "run_tick st =
     bind_em utc_now (\<lambda>now.
     bind_em (reap_expired_sandboxes (reconciler_service st) now) (\<lambda>reaped.
     bind_em (case rs_pool st of None \<Rightarrow> return_em [] | Some sizes \<Rightarrow> replenish_pools sizes) (\<lambda>replenished.
     bind_em (sweep_job st now) (\<lambda>sweep.
     bind_em (case rs_billing st of None \<Rightarrow> return_em [] | Some mode \<Rightarrow> bill_workspace_storage mode (rs_interval_seconds st)) (\<lambda>billed.
     bind_em (prune_audit_logs (rs_audit_retention_days st) now) (\<lambda>pruned.
     bind_em (reap_orphans (rs_backend st) (rs_orphan_grace_seconds st) now) (\<lambda>orphans.
     return_em
       \<lparr>tk_reaped = reaped, tk_pool_replenished = replenished, tk_workspaces_archived = rs_archived sweep,
        tk_workspaces_purged = rs_purged sweep, tk_workspaces_skipped_active = rs_skipped_active sweep,
        tk_workspace_storage_billed = billed, tk_orphans_reaped = orphans, tk_audit_entries_pruned = pruned\<rparr>)))))))"

text \<open>\<open>tick\<close> in a session of its own; \<open>run_forever\<close> logs an exception and waits for the next one.\<close>

definition reconciler_tick :: "reconciler_settings \<Rightarrow> tick_result prog" where
  "reconciler_tick st = with_session (run_tick st)"

fun run_ticks :: "reconciler_settings \<Rightarrow> nat \<Rightarrow> unit prog" where
  "run_ticks st 0 = return_em ()"
| "run_ticks st (Suc n) =
     seq_em (catch_em (bind_em (reconciler_tick st) (\<lambda>_. return_em ())) (\<lambda>_. True) (\<lambda>_. return_em ())) (run_ticks st n)"

end
