(* ===== verification/Reconciler_Laws.thy ===== *)
theory Reconciler_Laws
  imports Reconciler
begin

section \<open>Laws of the reconciler\<close>

text \<open>
  Which sandboxes a tick reaps, which resources the orphan collection destroys, and what a tick loses:
  one row that cannot be destroyed stops every job, the collection destroys the idle members of the warm
  pools, and what a tick adds to the pools is kept only when a later job happens to commit.
\<close>

subsection \<open>Reaping\<close>

definition reaped_at :: "db \<Rightarrow> sandbox_row \<Rightarrow> bool" where
  "reaped_at d row \<longleftrightarrow> (\<exists>tm. row_get sb_id (sb_id row) (d_sandboxes d) =
     Some (row\<lparr>sb_state := Terminated, sb_terminated_at := Some tm\<rparr>))"

lemma reap_rows_run:
  assumes "reap_rows cfg now rows acc w = (Inr reaped, w')"
    and "distinct (map sb_id rows)" "list_all (\<lambda>r. sb_state r \<noteq> Terminated) rows"
    and "list_all (\<lambda>r. row_get sb_id (sb_id r) (d_sandboxes (w_db w)) = Some r) rows"
  shows "reaped = acc @ map sb_id (filter (expired now) rows) \<and>
     (\<forall>r\<in>set rows. expired now r \<longrightarrow> reaped_at (w_db w') r) \<and>
     (\<forall>i. i \<notin> sb_id ` set (filter (expired now) rows) \<longrightarrow>
        row_get sb_id i (d_sandboxes (w_db w')) = row_get sb_id i (d_sandboxes (w_db w))) \<and>
     (w_committed w = w_db w \<longrightarrow> w_committed w' = w_db w')"
  using assms
proof (induction rows arbitrary: acc w)
  case (Cons row rows)
  show ?case
  proof (cases "expired now row")
    case False
    with Cons.prems have run: "reap_rows cfg now rows acc w = (Inr reaped, w')" by simp
    from Cons.IH [OF run] Cons.prems(2-4) False show ?thesis by auto
  next
    case True
    with Cons.prems(1) obtain u where u: "destroy_sandbox cfg (sb_id row) (sb_tenant_id row) (Some now) w = (Inr (), u)"
      and run: "reap_rows cfg now rows (acc @ [sb_id row]) u = (Inr reaped, w')"
      by (auto simp: seq_em_Inr_iff)
    have row: "row_get sb_id (sb_id row) (d_sandboxes (w_db w)) = Some row" "sb_state row \<noteq> Terminated"
      using Cons.prems(3,4) by auto
    note step = destroy_table [OF row(1) refl row(2) u]
    then obtain tm where tm: "d_sandboxes (w_db u) =
        row_put sb_id (row\<lparr>sb_state := Terminated, sb_terminated_at := Some tm\<rparr>) (d_sandboxes (w_db w))" by blast
    have fetch: "row_get sb_id i (d_sandboxes (w_db u)) =
        (if i = sb_id row then Some (row\<lparr>sb_state := Terminated, sb_terminated_at := Some tm\<rparr>)
         else row_get sb_id i (d_sandboxes (w_db w)))" for i
      unfolding tm by (auto simp: row_get_put)
    have "row_get sb_id (sb_id r) (d_sandboxes (w_db u)) = Some r" if "r \<in> set rows" for r
    proof -
      have "sb_id r \<noteq> sb_id row" using that Cons.prems(2) by (metis distinct.simps(2) image_eqI list.map(2) list.set_map)
      moreover have "row_get sb_id (sb_id r) (d_sandboxes (w_db w)) = Some r"
        using that Cons.prems(4) unfolding list_all_iff by (metis list.set_intros(2))
      ultimately show ?thesis unfolding fetch by simp
    qed
    then have "list_all (\<lambda>r. row_get sb_id (sb_id r) (d_sandboxes (w_db u)) = Some r) rows" unfolding list_all_iff by blast
    moreover have "distinct (map sb_id rows)" "list_all (\<lambda>r. sb_state r \<noteq> Terminated) rows"
      using Cons.prems(2,3) by simp_all
    ultimately have ih: "reaped = (acc @ [sb_id row]) @ map sb_id (filter (expired now) rows) \<and>
       (\<forall>r\<in>set rows. expired now r \<longrightarrow> reaped_at (w_db w') r) \<and>
       (\<forall>i. i \<notin> sb_id ` set (filter (expired now) rows) \<longrightarrow>
          row_get sb_id i (d_sandboxes (w_db w')) = row_get sb_id i (d_sandboxes (w_db u))) \<and>
       (w_committed u = w_db u \<longrightarrow> w_committed w' = w_db w')"
      using Cons.IH [OF run] by blast
    note ih' = ih [THEN conjunct1] ih [THEN conjunct2, THEN conjunct1] ih [THEN conjunct2, THEN conjunct2, THEN conjunct1]
      mp [OF ih [THEN conjunct2, THEN conjunct2, THEN conjunct2] step(2)]
    have "sb_id row \<notin> sb_id ` set (filter (expired now) rows)" using Cons.prems(2) by auto
    then have mine: "reaped_at (w_db w') row" using ih'(3) fetch by (auto simp: reaped_at_def)
    have others: "row_get sb_id i (d_sandboxes (w_db w')) = row_get sb_id i (d_sandboxes (w_db w))"
      if "i \<notin> sb_id ` set (filter (expired now) (row # rows))" for i
    proof -
      have "i \<noteq> sb_id row" "i \<notin> sb_id ` set (filter (expired now) rows)" using that True by auto
      then show ?thesis using ih'(3) fetch [of i] by simp
    qed
    show ?thesis
    proof (intro conjI)
      show "reaped = acc @ map sb_id (filter (expired now) (row # rows))" using ih'(1) True by simp
      show "\<forall>r\<in>set (row # rows). expired now r \<longrightarrow> reaped_at (w_db w') r" using ih'(2) mine by simp
      show "w_committed w = w_db w \<longrightarrow> w_committed w' = w_db w'" using ih'(4) by simp
    qed (use others in blast)
  qed
qed simp



subsection \<open>A row that cannot be destroyed\<close>

lemma destroy_unresolvable:
  assumes "row_get sb_id (sb_id row) (d_sandboxes (w_db w)) = Some row" "sb_state row \<noteq> Terminated"
    and "sb_template_ref row = Some tr" "tr \<noteq> []" "resolve_template_ref (w_registry w) tr = Inl e"
  shows "\<exists>e'. destroy_sandbox cfg (sb_id row) (sb_tenant_id row) now w = (Inl e', w)"
  using assms(3-5)
  by (simp add: destroy_live [OF assms(1) refl assms(2)] destroy_prepare_def sidecar_components_for_row_def truthy_def
      resolve_template_def bind_em_run)

text \<open>
  One stuck sandbox stops the reconciler. If the first live row is past its lifetime and refers to
  a template that is no longer in the registry, every tick raises at that row: however many ticks run,
  no sandbox is reaped, no orphan is collected, nothing is swept, and not one call reaches the backend.
\<close>

theorem one_stuck_sandbox_stops_the_reconciler:
  assumes "d_sandboxes (w_committed w) = row # rows" "sb_state row \<noteq> Terminated"
    and "\<forall>k. expired (e_now (w_env w) k) row"
    and "sb_template_ref row = Some tr" "tr \<noteq> []" "resolve_template_ref (w_registry w) tr = Inl e"
  shows "\<exists>w'. run_ticks st n w = (Inr (), w') \<and> w_committed w' = w_committed w \<and> w_calls w' = w_calls w"
proof -
  define same where "same v = (w_committed v, w_calls v, w_env v, w_registry v)" for v :: world
  have tick: "\<exists>e' v'. reconciler_tick st v = (Inl e', v') \<and> same v' = same w" if "same v = same w" for v
  proof -
    let ?v = "v\<lparr>w_db := w_committed v, w_clock := Suc (w_clock v)\<rparr>"
    let ?now = "e_now (w_env v) (w_clock v)"
    have row: "row_get sb_id (sb_id row) (d_sandboxes (w_db ?v)) = Some row"
      using that assms(1) by (simp add: same_def row_get_def)
    have reg: "resolve_template_ref (w_registry ?v) tr = Inl e" using that assms(6) by (simp add: same_def)
    obtain e' where e': "destroy_sandbox (reconciler_service st) (sb_id row) (sb_tenant_id row) (Some ?now) ?v = (Inl e', ?v)"
      using destroy_unresolvable [OF row assms(2,4,5) reg] by blast
    have "reap_expired_sandboxes (reconciler_service st) ?now ?v = (Inl e', ?v)"
      using that assms(1,2,3) e' by (simp add: reap_expired_sandboxes_def bind_em_run seq_em_run same_def)
    then have "reconciler_tick st v = (Inl e', ?v\<lparr>w_db := w_committed ?v\<rparr>)"
      by (simp add: reconciler_tick_def with_session_def run_tick_def bind_em_run)
    then show ?thesis using that by (simp add: same_def)
  qed
  have "\<exists>w'. run_ticks st n v = (Inr (), w') \<and> same w' = same w" if "same v = same w" for v
    using that
  proof (induction n arbitrary: v)
    case (Suc n)
    from tick [OF Suc.prems] obtain e' v' where v': "reconciler_tick st v = (Inl e', v')" "same v' = same w" by blast
    from Suc.IH [OF v'(2)] v'(1) show ?case by (simp add: seq_em_run catch_em_run bind_em_run)
  qed simp
  from this [OF refl] show ?thesis by (auto simp: same_def)
qed

definition stuck_sandbox :: sandbox_row where
  "stuck_sandbox = (demo_sandbox ''s1'')\<lparr>sb_template_ref := Some ''lab@1''\<rparr>"

definition quiet_settings :: reconciler_settings where
  "quiet_settings = \<lparr>rs_pool = None, rs_workspaces = None, rs_billing = None, rs_backend = ''docker'',
     rs_interval_seconds = 30, rs_orphan_grace_seconds = 120, rs_audit_retention_days = None\<rparr>"

theorem one_stuck_sandbox_stops_the_reconciler_witness:
  "\<exists>w'. run_ticks quiet_settings 100 (demo_world (empty_db\<lparr>d_sandboxes := [stuck_sandbox]\<rparr>) empty_registry) = (Inr (), w') \<and>
     w_calls w' = []"
proof -
  let ?w = "demo_world (empty_db\<lparr>d_sandboxes := [stuck_sandbox]\<rparr>) empty_registry"
  have old: "\<forall>k. expired (e_now (w_env ?w) k) stuck_sandbox"
    by (simp add: demo_world_def demo_env_def expired_def past_ttl_def stuck_sandbox_def demo_sandbox_def)
  have "resolve_template_ref empty_registry ''lab@1'' = Inl (TemplateNotFoundError ''lab@1'')" by code_simp
  then have "resolve_template_ref (w_registry ?w) ''lab@1'' = Inl (TemplateNotFoundError ''lab@1'')" by (simp add: demo_world_def)
  from one_stuck_sandbox_stops_the_reconciler [OF _ _ old _ _ this, of "[]" quiet_settings 100] have
    "\<exists>w'. run_ticks quiet_settings 100 ?w = (Inr (), w') \<and> w_committed w' = w_committed ?w \<and> w_calls w' = w_calls ?w"
    by (simp add: demo_world_def stuck_sandbox_def demo_sandbox_def)
  moreover have "w_calls ?w = []" by (simp add: demo_world_def)
  ultimately show ?thesis by auto
qed

subsection \<open>Orphans\<close>

definition orphan :: "int \<Rightarrow> int \<Rightarrow> db \<Rightarrow> native_sandbox_ref \<Rightarrow> bool" where
  "orphan grace now d ref \<longleftrightarrow> \<not> now - nr_created_at ref < grace * us_per_second \<and>
     list_all (\<lambda>r. sb_id r = nr_sandbox_id ref \<longrightarrow> sb_state r = Terminated) (d_sandboxes d)"

definition ref_handle :: "string \<Rightarrow> native_sandbox_ref \<Rightarrow> sandbox_handle" where
  "ref_handle backend ref = \<lparr>h_sandbox_id = nr_sandbox_id ref, h_backend = backend, h_native_ref = nr_native_ref ref,
     h_created_at = nr_created_at ref, h_sidecar_refs = nr_sidecar_refs ref, h_persistent = False\<rparr>"

lemma orphan_iff: "orphan grace now d ref \<longleftrightarrow>
    nr_sandbox_id ref \<notin> set (live_ids d) \<and> \<not> now - nr_created_at ref < grace * us_per_second"
  by (auto simp: orphan_def live_ids_def list_all_iff image_iff)

lemma reap_refs_run:
  assumes "reap_refs backend grace now (live_ids d) refs acc w = (Inr reaped, w')"
  shows "reaped = acc @ map nr_sandbox_id (filter (orphan grace now d) refs)"
    "w_calls w' = w_calls w @ map (\<lambda>ref. CallDestroy (ref_handle backend ref) (Inr ())) (filter (orphan grace now d) refs)"
    "w_db w' = w_db w"
proof -
  have "reaped = acc @ map nr_sandbox_id (filter (orphan grace now d) refs) \<and>
      w_calls w' = w_calls w @ map (\<lambda>ref. CallDestroy (ref_handle backend ref) (Inr ())) (filter (orphan grace now d) refs) \<and>
      w_db w' = w_db w"
    using assms
  proof (induction refs arbitrary: acc w)
    case (Cons ref refs)
    show ?case
    proof (cases "orphan grace now d ref")
      case False
      with Cons.prems have "reap_refs backend grace now (live_ids d) refs acc w = (Inr reaped, w')"
        by (auto simp: orphan_iff split: if_splits)
      from Cons.IH [OF this] False show ?thesis by simp
    next
      case True
      with Cons.prems obtain u where u: "prov_destroy (ref_handle backend ref) w = (Inr (), u)"
        and run: "reap_refs backend grace now (live_ids d) refs (acc @ [nr_sandbox_id ref]) u = (Inr reaped, w')"
        by (auto simp: orphan_iff ref_handle_def seq_em_Inr_iff)
      have "w_calls u = w_calls w @ [CallDestroy (ref_handle backend ref) (Inr ())]" "w_db u = w_db w"
        using u by (auto simp: prov_destroy_def)
      with Cons.IH [OF run] True show ?thesis by simp
    qed
  qed simp
  then show "reaped = acc @ map nr_sandbox_id (filter (orphan grace now d) refs)"
    "w_calls w' = w_calls w @ map (\<lambda>ref. CallDestroy (ref_handle backend ref) (Inr ())) (filter (orphan grace now d) refs)"
    "w_db w' = w_db w" by auto
qed

lemma reap_orphans_run:
  assumes "e_list_refs (w_env w) (w_calls w) = Inr refs" "reap_orphans backend grace now w = (Inr reaped, w')"
  shows "reaped = map nr_sandbox_id (filter (orphan grace now (w_db w)) refs)"
    "new_calls w w' = CallListRefs (Inr refs) #
       map (\<lambda>ref. CallDestroy (ref_handle backend ref) (Inr ())) (filter (orphan grace now (w_db w)) refs)"
    "w_db w' = w_db w"
proof -
  let ?v = "w\<lparr>w_calls := w_calls w @ [CallListRefs (Inr refs)]\<rparr>"
  have "reap_refs backend grace now (live_ids (w_db w)) refs [] ?v = (Inr reaped, w')"
    using assms by (simp add: reap_orphans_def bind_em_run prov_list_sandbox_refs_def)
  note run = reap_refs_run [OF this]
  show "reaped = map nr_sandbox_id (filter (orphan grace now (w_db w)) refs)" using run(1) by simp
  show "w_db w' = w_db w" using run(3) by simp
  show "new_calls w w' = CallListRefs (Inr refs) #
       map (\<lambda>ref. CallDestroy (ref_handle backend ref) (Inr ())) (filter (orphan grace now (w_db w)) refs)"
    using run(2) by (intro new_calls_append) simp
qed


definition leftover :: native_sandbox_ref where
  "leftover = \<lparr>nr_sandbox_id = ''s9'', nr_native_ref = ''c1'', nr_created_at = 0, nr_sidecar_refs = []\<rparr>"

definition pool_world :: world where
  "pool_world = (demo_world pooled_db empty_registry)\<lparr>w_env := demo_env\<lparr>e_list_refs := (\<lambda>_. Inr [leftover])\<rparr>\<rparr>"

lemma pool_world_reaps: "\<exists>w'. reap_orphans ''docker'' 120 (200 * us_per_second) pool_world = (Inr [''s9''], w')"
  by (simp add: reap_orphans_def pool_world_def demo_world_def bind_em_run seq_em_run prov_list_sandbox_refs_def prov_destroy_def
      demo_env_def live_ids_def pooled_db_def empty_db_def leftover_def)


text \<open>
  The orphan collection destroys the warm pool. An idle member of a pool has no sandbox row, so as
  soon as its container is older than the grace period the collection destroys it, while its pool row
  stays and will be handed to the next run that claims a sandbox of that image.
\<close>

theorem idle_pool_members_are_collected:
  assumes "e_list_refs (w_env w) (w_calls w) = Inr refs" "reap_orphans backend grace now w = (Inr reaped, w')"
    and "m \<in> set (d_pool_members (w_db w))" "ref \<in> set refs" "nr_native_ref ref = pm_native_ref m"
    and "nr_sandbox_id ref \<notin> sb_id ` set (d_sandboxes (w_db w))" "nr_created_at ref + grace * us_per_second \<le> now"
  shows "m \<in> set (d_pool_members (w_db w')) \<and>
    (\<exists>h. h_native_ref h = pm_native_ref m \<and> CallDestroy h (Inr ()) \<in> set (new_calls w w'))"
proof -
  have "orphan grace now (w_db w) ref" using assms(6,7) by (auto simp: orphan_def list_all_iff image_iff)
  then have "CallDestroy (ref_handle backend ref) (Inr ()) \<in> set (new_calls w w')"
    using reap_orphans_run(2) [OF assms(1,2)] assms(4) by auto
  moreover have "h_native_ref (ref_handle backend ref) = pm_native_ref m" using assms(5) by (simp add: ref_handle_def)
  ultimately show ?thesis using reap_orphans_run(3) [OF assms(1,2)] assms(3) by auto
qed

theorem idle_pool_members_are_collected_witness:
  "\<exists>w' h. reap_orphans ''docker'' 120 (200 * us_per_second) pool_world = (Inr [''s9''], w') \<and>
     d_pool_members (w_db w') \<noteq> [] \<and> h_native_ref h = ''c1'' \<and> CallDestroy h (Inr ()) \<in> set (new_calls pool_world w')"
proof -
  let ?m = "\<lparr>pm_id = ''m1'', pm_image_ref = ''python:1'', pm_weight_class = ''light'', pm_backend = ''docker'', pm_native_ref = ''c1''\<rparr>"
  obtain w' where run: "reap_orphans ''docker'' 120 (200 * us_per_second) pool_world = (Inr [''s9''], w')"
    using pool_world_reaps by blast
  have refs: "e_list_refs (w_env pool_world) (w_calls pool_world) = Inr [leftover]" by (simp add: pool_world_def)
  have m: "?m \<in> set (d_pool_members (w_db pool_world))" by (simp add: pool_world_def demo_world_def pooled_db_def)
  have none: "nr_sandbox_id leftover \<notin> sb_id ` set (d_sandboxes (w_db pool_world))"
    by (simp add: pool_world_def demo_world_def pooled_db_def empty_db_def)
  from idle_pool_members_are_collected [OF refs run m _ _ none] run show ?thesis
    by (auto simp: leftover_def)
qed

subsection \<open>What a tick loses\<close>

definition pool_pair :: "world \<Rightarrow> pool_member_row list \<times> pool_member_row list" where
  "pool_pair w = (d_pool_members (w_db w), d_pool_members (w_committed w))"

interpretation pools_blind: bookkeeping_blind pool_pair
  by unfold_locales (simp_all add: pool_pair_def)

declare pools_blind.blind_rules [moves_intro]

lemma pool_pair_steps [moves_intro]:
  "leaves pool_pair (external ask event)" "leaves pool_pair (put_sandbox r)"
  by (simp_all add: moves_def pool_pair_def put_sandbox_def)

lemma pool_pair_destroy: "leaves pool_pair (destroy_prepare cfg row t now)"
  unfolding destroy_prepare_def sidecar_components_for_row_def spec_resources_for_row_def teardown_sidecars_def
    hook_on_teardown_def prov_destroy_def
  by (intro moves_intro)

definition pools_at :: "pool_member_row list \<Rightarrow> world \<Rightarrow> bool" where
  "pools_at ms w \<longleftrightarrow> pool_pair w = (ms, ms)"

lemma pools_at_steps [moves_intro]:
  "keeps (pools_at ms) commit" "keeps (pools_at ms) (gauge_add b wc n)" "keeps (pools_at ms) (query_db q)"
  "keeps (pools_at ms) (destroy_prepare cfg row t now)" "keeps (pools_at ms) (get_sandbox i t)" "keeps (pools_at ms) utc_now"
proof -
  show "keeps (pools_at ms) (destroy_prepare cfg row t now)"
    using pool_pair_destroy [of cfg row t now] by (auto simp: moves_def pools_at_def)
  show "keeps (pools_at ms) (get_sandbox i t)"
    by (auto simp: moves_def get_sandbox_def em_simps split: option.split)
qed (simp_all add: moves_def pools_at_def pool_pair_def gauge_add_def)

lemma destroy_pools_at: "keeps (pools_at ms) (destroy_sandbox cfg i t now)"
proof -
  have "keeps (pools_at ms) (bind_em (get_sandbox i t) (\<lambda>row.
     if sb_state row = Terminated then return_em ()
     else seq_em (destroy_prepare cfg row t now) (seq_em commit (gauge_add (sb_backend row) (sb_weight_class row) (- 1)))))"
    by (intro moves_intro)
  then show ?thesis by (simp add: moves_def destroy_split)
qed

lemma reap_pools_at: "keeps (pools_at ms) (reap_expired_sandboxes cfg now)"
proof -
  have "keeps (pools_at ms) (reap_rows cfg now rows acc)" for rows acc
  proof (induction rows arbitrary: acc)
    case (Cons row rows)
    show ?case unfolding reap_rows.simps by (intro moves_intro destroy_pools_at Cons.IH)
  qed (unfold reap_rows.simps, intro moves_intro)
  then show ?thesis unfolding reap_expired_sandboxes_def by (intro moves_intro)
qed

lemma replenish_uncommitted: "leaves w_committed (replenish_pools sizes)"
proof -
  have sync: "leaves w_committed (sync_pool_state i wc)" for i wc unfolding sync_pool_state_def by (intro moves_intro)
  have add: "leaves w_committed (add_pool_member spec h)" for spec h unfolding add_pool_member_def by (intro moves_intro)
  have loop: "leaves w_committed (replenish_loop spec n)" for spec n
  proof (induction n)
    case (Suc n)
    show ?case unfolding replenish_loop.simps prov_acquire_def by (intro moves_intro add Suc.IH)
  qed (unfold replenish_loop.simps, intro moves_intro)
  have one: "leaves w_committed (replenish_one spec n)" for spec n
    unfolding replenish_one_def Let_def by (intro moves_intro loop sync)
  have "leaves w_committed (replenish_components sizes cs acc)" for cs acc
  proof (induction cs arbitrary: acc)
    case (Cons c cs)
    show ?case unfolding replenish_components.simps by (intro moves_intro one Cons.IH)
  qed (unfold replenish_components.simps, intro moves_intro)
  then show ?thesis unfolding replenish_pools_def by (intro moves_intro)
qed

lemma orphans_uncommitted: "leaves w_committed (reap_orphans backend grace now)"
proof -
  have "leaves w_committed (reap_refs backend grace now live refs acc)" for live refs acc
  proof (induction refs arbitrary: acc)
    case (Cons r rs)
    show ?case unfolding reap_refs.simps prov_destroy_def by (intro moves_intro Cons.IH)
  qed (unfold reap_refs.simps, intro moves_intro)
  then show ?thesis unfolding reap_orphans_def prov_list_sandbox_refs_def by (intro moves_intro)
qed

lemma bind_tail_leaves:
  "keeps I m \<Longrightarrow> (\<And>x. leaves g (f x)) \<Longrightarrow> (\<And>v v'. I v \<Longrightarrow> g v' = g v \<Longrightarrow> J v') \<Longrightarrow> (\<And>v. I v \<Longrightarrow> J v) \<Longrightarrow>
   I w \<Longrightarrow> J (snd (bind_em m f w))"
  by (auto simp: bind_em_run moves_def split: prod.split sum.split)

text \<open>
  What a tick adds to the warm pools is not committed by the job that adds it. In a deployment
  without persistent workspaces and billing that keeps its audit log for ever, no later job commits
  either: whatever a tick acquired and reported as replenished, the committed pools are what they were.
\<close>

theorem replenished_pools_are_lost:
  assumes "rs_workspaces st = None" "rs_billing st = None" "rs_audit_retention_days st = None"
  shows "d_pool_members (w_committed (snd (reconciler_tick st w))) = d_pool_members (w_committed w)"
proof -
  let ?ms = "d_pool_members (w_committed w)"
  let ?v = "w\<lparr>w_db := w_committed w\<rparr>"
  let ?tail = "\<lambda>now (reaped::string list).
     bind_em (case rs_pool st of None \<Rightarrow> return_em [] | Some sizes \<Rightarrow> replenish_pools sizes) (\<lambda>replenished.
     bind_em (sweep_job st now) (\<lambda>sweep.
     bind_em (case rs_billing st of None \<Rightarrow> return_em [] | Some mode \<Rightarrow> bill_workspace_storage mode (rs_interval_seconds st)) (\<lambda>billed.
     bind_em (prune_audit_logs (rs_audit_retention_days st) now) (\<lambda>pruned.
     bind_em (reap_orphans (rs_backend st) (rs_orphan_grace_seconds st) now) (\<lambda>orphans.
     return_em
       \<lparr>tk_reaped = reaped, tk_pool_replenished = replenished, tk_workspaces_archived = rs_archived sweep,
        tk_workspaces_purged = rs_purged sweep, tk_workspaces_skipped_active = rs_skipped_active sweep,
        tk_workspace_storage_billed = billed, tk_orphans_reaped = orphans, tk_audit_entries_pruned = pruned\<rparr>)))))"
  have tail: "leaves w_committed (?tail now reaped)" for now reaped
    unfolding assms option.case prune_audit_logs_def sweep_job_def Let_def
    by (intro moves_intro replenish_uncommitted orphans_uncommitted)
  have head: "keeps (pools_at ?ms) (bind_em utc_now (\<lambda>now. bind_em (reap_expired_sandboxes (reconciler_service st) now)
      (\<lambda>reaped. return_em (now, reaped))))"
    by (intro moves_intro reap_pools_at)
  have split: "run_tick st = bind_em (bind_em utc_now (\<lambda>now. bind_em (reap_expired_sandboxes (reconciler_service st) now)
      (\<lambda>reaped. return_em (now, reaped)))) (\<lambda>p. ?tail (fst p) (snd p))"
    unfolding run_tick_def bind_em_assoc by (rule ext) (simp add: bind_em_run split: prod.split sum.split)
  have "d_pool_members (w_committed (snd (run_tick st ?v))) = ?ms"
    unfolding split
    by (rule bind_tail_leaves [OF head tail]) (auto simp: pools_at_def pool_pair_def)
  then show ?thesis by (simp add: reconciler_tick_def with_session_def case_prod_beta)
qed

theorem replenished_pools_are_lost_witness:
  "d_pool_members (w_committed (snd (reconciler_tick (quiet_settings\<lparr>rs_pool := Some \<lparr>light_pool_size = 2,
      standard_pool_size = 0, heavy_pool_size = 0\<rparr>\<rparr>) (demo_world empty_db demo_registry)))) = []"
  using replenished_pools_are_lost [of "quiet_settings\<lparr>rs_pool := Some \<lparr>light_pool_size = 2,
      standard_pool_size = 0, heavy_pool_size = 0\<rparr>\<rparr>" "demo_world empty_db demo_registry"]
  by (simp add: quiet_settings_def demo_world_def empty_db_def)

end
