(* ===== verification/Limiter.thy ===== *)
theory Limiter
  imports Audit_Log
begin

section \<open>Rate limiting\<close>

text \<open>
  \<open>app/services/rate_limiter.py\<close> and \<open>app/api/ratelimit_deps.py\<close>. Redis is a service: its sorted
  sets are a parameter, the five commands of the pipeline as functions on one key's value and their
  documented behaviour as a named hypothesis. The pipeline is one round trip, so a check is one step.
  The key's time to live (one second more than the window) is left out: a set that expires holds
  nothing that the next check would not remove. Times are in milliseconds.
\<close>

record 'z zset_ops =
  z_members :: "'z \<Rightarrow> (string \<times> int) set"
  z_remrangebyscore :: "'z \<Rightarrow> int \<Rightarrow> int \<Rightarrow> 'z"
  z_card :: "'z \<Rightarrow> int"
  z_add :: "'z \<Rightarrow> string \<Rightarrow> int \<Rightarrow> 'z"
  z_first :: "'z \<Rightarrow> (string \<times> int) option"

text \<open>
  What the documentation of ZREMRANGEBYSCORE, ZCARD, ZADD and ZRANGE 0 0 says of the members of a
  sorted set: scores in a closed range are removed, the cardinality is that of the set, a member is
  added or has its score updated, and the first element has the lowest score.
\<close>

definition sorted_set_laws :: "'z zset_ops \<Rightarrow> bool" where
  "sorted_set_laws ops \<longleftrightarrow>
     (\<forall>z. finite (z_members ops z)) \<and>
     (\<forall>z lo hi. z_members ops (z_remrangebyscore ops z lo hi) = {(m, s) \<in> z_members ops z. \<not> (lo \<le> s \<and> s \<le> hi)}) \<and>
     (\<forall>z. z_card ops z = int (card (z_members ops z))) \<and>
     (\<forall>z m s. z_members ops (z_add ops z m s) = insert (m, s) {(n, t) \<in> z_members ops z. n \<noteq> m}) \<and>
     (\<forall>z. case z_first ops z of
        None \<Rightarrow> z_members ops z = {}
      | Some (m, s) \<Rightarrow> (m, s) \<in> z_members ops z \<and> (\<forall>(n, t) \<in> z_members ops z. s \<le> t))"

record rate_limit_rule =
  rl_limit :: int
  rl_window_seconds :: int

definition as_header :: "rate_limit_rule \<Rightarrow> string" where
  "as_header rule = int_str (rl_limit rule) @ '';w='' @ int_str (rl_window_seconds rule)"

record rate_limit_result =
  rr_allowed :: bool
  rr_limit :: int
  rr_remaining :: int
  rr_reset_seconds :: int

definition limiter_identity :: "principal \<Rightarrow> string" where
  "limiter_identity p =
     (case py_or (pr_user_id p) None of Some u \<Rightarrow> u | None \<Rightarrow> ''tenant:'' @ pr_tenant_id p)"

text \<open>\<open>int(x / 1000)\<close>: the quotient truncated toward zero.\<close>

definition trunc_thousand :: "int \<Rightarrow> int" where
  "trunc_thousand x = (if 0 \<le> x then x div 1000 else - ((- x) div 1000))"

text \<open>
  One check. \<open>up\<close> says whether Redis answered: when it did not, the request is allowed. \<open>member\<close> is
  the sorted-set member, the time followed by a fresh UUID.
\<close>

definition limiter_check ::
  "'z zset_ops \<Rightarrow> bool \<Rightarrow> rate_limit_rule \<Rightarrow> bool \<Rightarrow> int \<Rightarrow> string \<Rightarrow> 'z \<Rightarrow> rate_limit_result \<times> 'z" where
  "limiter_check ops enabled rule up now_ms member z =
     (if \<not> enabled then (\<lparr>rr_allowed = True, rr_limit = rl_limit rule, rr_remaining = rl_limit rule, rr_reset_seconds = 0\<rparr>, z)
      else
        (let window_ms = rl_window_seconds rule * 1000;
             cutoff = now_ms - window_ms
         in if \<not> up
            then (\<lparr>rr_allowed = True, rr_limit = rl_limit rule, rr_remaining = rl_limit rule, rr_reset_seconds = 0\<rparr>, z)
            else
              (let z1 = z_remrangebyscore ops z 0 cutoff;
                   used = z_card ops z1;
                   z2 = z_add ops z1 member now_ms
               in if used \<ge> rl_limit rule
                  then (\<lparr>rr_allowed = False, rr_limit = rl_limit rule, rr_remaining = 0,
                         rr_reset_seconds =
                           (case z_first ops z2 of
                              None \<Rightarrow> rl_window_seconds rule
                            | Some (m, oldest_ms) \<Rightarrow> max 1 (trunc_thousand (oldest_ms + window_ms - now_ms) + 1))\<rparr>, z2)
                  else (\<lparr>rr_allowed = True, rr_limit = rl_limit rule, rr_remaining = rl_limit rule - used - 1,
                         rr_reset_seconds = rl_window_seconds rule\<rparr>, z2))))"

definition limiter_reset :: "bool \<Rightarrow> 'z \<Rightarrow> 'z \<Rightarrow> 'z" where
  "limiter_reset enabled no_entries z = (if enabled then no_entries else z)"

subsection \<open>The dependency\<close>

datatype bucket = ExecuteBucket | MutationBucket | ReadBucket

fun bucket_name :: "bucket \<Rightarrow> string" where
  "bucket_name ExecuteBucket = ''execute''"
| "bucket_name MutationBucket = ''mutation''"
| "bucket_name ReadBucket = ''read''"

definition apply_headers :: "rate_limit_result \<Rightarrow> rate_limit_rule \<Rightarrow> (string \<times> string) list" where
  "apply_headers result rule =
     [(''RateLimit-Limit'', int_str (rr_limit result)), (''RateLimit-Remaining'', int_str (rr_remaining result)),
      (''RateLimit-Reset'', int_str (rr_reset_seconds result)), (''RateLimit-Policy'', as_header rule)]"

definition rejection_headers :: "rate_limit_result \<Rightarrow> rate_limit_rule \<Rightarrow> (string \<times> string) list" where
  "rejection_headers result rule =
     [(''Retry-After'', int_str (rr_reset_seconds result)), (''RateLimit-Limit'', int_str (rr_limit result)),
      (''RateLimit-Remaining'', ''0''), (''RateLimit-Reset'', int_str (rr_reset_seconds result)),
      (''RateLimit-Policy'', as_header rule)]"

text \<open>
  \<open>_enforce\<close>, for the result of the check: the response's headers, and the 429 with its own headers
  when the request is over budget, after an audit entry. The second component is the exception the
  coroutine raises, together with the headers it carries.
\<close>

definition enforce ::
  "audit_config option \<Rightarrow> bool \<Rightarrow> bucket \<Rightarrow> rate_limit_rule \<Rightarrow> principal \<Rightarrow> string \<Rightarrow> rate_limit_result \<Rightarrow>
   ((string \<times> string) list \<times> (exn \<times> (string \<times> string) list) option) prog" where
  "enforce auditing accepted bkt rule p path result =
     (if rr_allowed result then return_em (apply_headers result rule, None)
      else
        seq_em (case auditing of
                  None \<Rightarrow> return_em ()
                | Some cfg \<Rightarrow> record_standalone cfg accepted
                    \<lparr>ae_action = ''denied.rate_limit'', ae_principal = Some p, ae_actor = None, ae_tenant_id = None,
                     ae_target = Some path,
                     ae_detail = Some (JObject [(''bucket'', JString (bucket_name bkt)),
                       (''limit'', JInt (rl_limit rule)), (''window_seconds'', JInt (rl_window_seconds rule))])\<rparr>)
        (return_em (apply_headers result rule, Some (HTTPException 429 ''rate limit exceeded'', rejection_headers result rule))))"

subsection \<open>Runs of checks on one key\<close>

text \<open>The results of the checks on one key, in the order Redis executes them, each with its time.\<close>

fun limiter_run ::
  "'z zset_ops \<Rightarrow> rate_limit_rule \<Rightarrow> (int \<times> string) list \<Rightarrow> 'z \<Rightarrow> (int \<times> rate_limit_result) list" where
  "limiter_run ops rule [] z = []"
| "limiter_run ops rule ((now, member) # reqs) z =
     (case limiter_check ops True rule True now member z of
        (r, z') \<Rightarrow> (now, r) # limiter_run ops rule reqs z')"

definition limiter_state :: "'z zset_ops \<Rightarrow> rate_limit_rule \<Rightarrow> (int \<times> string) list \<Rightarrow> 'z \<Rightarrow> 'z" where
  "limiter_state ops rule reqs z =
     foldl (\<lambda>y (now, member). snd (limiter_check ops True rule True now member y)) z reqs"

lemma limiter_run_snoc:
  "limiter_run ops rule (reqs @ [(now, m)]) z =
     limiter_run ops rule reqs z @ [(now, fst (limiter_check ops True rule True now m (limiter_state ops rule reqs z)))]"
  by (induction ops rule reqs z rule: limiter_run.induct)
    (auto simp: limiter_state_def split: prod.splits)

lemma limiter_run_times: "map fst (limiter_run ops rule reqs z) = map fst reqs"
  by (induction ops rule reqs z rule: limiter_run.induct) (auto split: prod.splits)

lemma sorted_set_first:
  assumes "sorted_set_laws ops"
  shows "case z_first ops z of
        None \<Rightarrow> z_members ops z = {}
      | Some (m, s) \<Rightarrow> (m, s) \<in> z_members ops z \<and> (\<forall>(n, t) \<in> z_members ops z. s \<le> t)"
  using assms unfolding sorted_set_laws_def by (elim conjE) (erule allE)

lemma limiter_check_members:
  assumes "sorted_set_laws ops"
  shows "z_members ops (snd (limiter_check ops True rule True now m z)) =
    insert (m, now) {(n, t) \<in> z_members ops z. \<not> (0 \<le> t \<and> t \<le> now - rl_window_seconds rule * 1000) \<and> n \<noteq> m}"
  using assms by (auto simp: limiter_check_def sorted_set_laws_def Let_def)

lemma limiter_state_keeps:
  assumes laws: "sorted_set_laws ops" and "sorted (map fst reqs)" and "distinct (map snd reqs)"
    and "\<And>t. t \<in> fst ` set reqs \<Longrightarrow> t - rl_window_seconds rule * 1000 \<le> c"
    and "(t, m) \<in> set reqs" and "c < t"
  shows "(m, t) \<in> z_members ops (limiter_state ops rule reqs z)"
  using assms(2-)
proof (induction reqs rule: rev_induct)
  case (snoc x xs)
  obtain now k where x: "x = (now, k)" by (cases x)
  let ?z = "limiter_state ops rule xs z"
  have st: "z_members ops (limiter_state ops rule (xs @ [x]) z) =
      insert (k, now) {(n, t) \<in> z_members ops ?z. \<not> (0 \<le> t \<and> t \<le> now - rl_window_seconds rule * 1000) \<and> n \<noteq> k}"
    unfolding x using limiter_check_members [OF laws, of rule now k ?z] by (simp add: limiter_state_def)
  show ?case
  proof (cases "(t, m) = x")
    case True
    then show ?thesis unfolding st using x by auto
  next
    case False
    then have mem: "(t, m) \<in> set xs" using snoc.prems by auto
    have "(m, t) \<in> z_members ops ?z"
      using snoc.prems mem by (intro snoc.IH) (auto simp: sorted_append)
    moreover have "m \<noteq> k" using snoc.prems(2) mem x by force
    moreover have "now - rl_window_seconds rule * 1000 \<le> c" using snoc.prems(3) [of now] x by simp
    ultimately show ?thesis unfolding st using snoc.prems(5) by auto
  qed
qed simp

lemma limiter_check_allowed:
  assumes "sorted_set_laws ops"
  shows "rr_allowed (fst (limiter_check ops True rule True now m z)) \<longleftrightarrow>
    int (card {(n, t) \<in> z_members ops z. \<not> (0 \<le> t \<and> t \<le> now - rl_window_seconds rule * 1000)}) < rl_limit rule"
  using assms by (simp add: limiter_check_def sorted_set_laws_def Let_def not_le)

lemma card_image_filter:
  assumes "distinct (map snd reqs)" "finite S" "\<And>t m. (t, m) \<in> set reqs \<Longrightarrow> P t \<Longrightarrow> (m, t) \<in> S"
  shows "length (filter (\<lambda>r. P (fst r)) reqs) \<le> card S"
proof -
  have d: "distinct (filter (\<lambda>r. P (fst r)) reqs)"
    using assms(1) by (simp add: distinct_map)
  have "length (filter (\<lambda>r. P (fst r)) reqs) = card (set (filter (\<lambda>r. P (fst r)) reqs))"
    using distinct_card [OF d] by simp
  also have "\<dots> = card (prod.swap ` set (filter (\<lambda>r. P (fst r)) reqs))"
    by (rule card_image [symmetric]) simp
  also have "\<dots> \<le> card S" using assms(2,3) by (intro card_mono) auto
  finally show ?thesis .
qed

lemma filter_length_le: "(\<And>x. P x \<Longrightarrow> Q x) \<Longrightarrow> length (filter P xs) \<le> length (filter Q xs)"
  by (induction xs) auto

lemma filter_fst_length:
  "map fst xs = map fst ys \<Longrightarrow> length (filter (\<lambda>x. P (fst x)) xs) = length (filter (\<lambda>y. P (fst y)) ys)"
proof (induction xs arbitrary: ys)
  case (Cons x xs)
  then show ?case by (cases ys) auto
qed simp

subsection \<open>Properties\<close>

text \<open>
  C39. The limit is a limit on every sliding window, not only on aligned ones: when requests reach
  Redis in the order of their clocks with distinct members, no interval of the window's length,
  wherever it ends, contains more allowed requests of one identity than the limit.
\<close>

theorem sliding_window_bound:
  assumes "sorted_set_laws ops" and "sorted (map fst reqs)" and "distinct (map snd reqs)" and "0 \<le> rl_limit rule"
  shows "int (length (filter (\<lambda>(t, r). rr_allowed r \<and> until - rl_window_seconds rule * 1000 < t \<and> t \<le> until)
    (limiter_run ops rule reqs z))) \<le> rl_limit rule"
  using assms(2,3)
proof (induction reqs rule: rev_induct)
  case (snoc x xs)
  obtain now m where x: "x = (now, m)" by (cases x)
  let ?W = "rl_window_seconds rule * 1000" and ?z = "limiter_state ops rule xs z"
  let ?in = "\<lambda>t. until - ?W < t \<and> t \<le> until"
  let ?S = "{(n, t) \<in> z_members ops ?z. \<not> (0 \<le> t \<and> t \<le> now - ?W)}"
  let ?r = "fst (limiter_check ops True rule True now m ?z)"
  have IH: "int (length (filter (\<lambda>(t, r). rr_allowed r \<and> ?in t) (limiter_run ops rule xs z))) \<le> rl_limit rule"
    using snoc by (auto simp: sorted_append)
  show ?case
  proof (cases "rr_allowed ?r \<and> ?in now")
    case True
    have earlier: "t \<le> now" if "(t, k) \<in> set xs" for t k
      using snoc.prems(1) that x by (force simp: sorted_append)
    have kept: "(k, t) \<in> ?S" if "(t, k) \<in> set xs" "?in t" for t k
    proof -
      have "(k, t) \<in> z_members ops ?z"
      proof (rule limiter_state_keeps [OF assms(1), where c = "until - ?W"])
        show "sorted (map fst xs)" "distinct (map snd xs)" using snoc.prems by (auto simp: sorted_append)
        show "s - ?W \<le> until - ?W" if "s \<in> fst ` set xs" for s
          using that earlier True by force
      qed (use that in auto)
      then show ?thesis using that(2) True by auto
    qed
    have fin: "finite ?S" using assms(1) by (auto simp: sorted_set_laws_def intro: finite_subset [of _ "z_members ops ?z"])
    have "length (filter (\<lambda>(t, r). rr_allowed r \<and> ?in t) (limiter_run ops rule xs z))
        \<le> length (filter (\<lambda>r. ?in (fst r)) (limiter_run ops rule xs z))"
      by (rule filter_length_le) auto
    also have "\<dots> = length (filter (\<lambda>r. ?in (fst r)) xs)"
      by (rule filter_fst_length) (rule limiter_run_times)
    also have "\<dots> \<le> card ?S"
      using snoc.prems(2) kept by (intro card_image_filter [OF _ fin]) auto
    finally have "int (length (filter (\<lambda>(t, r). rr_allowed r \<and> ?in t) (limiter_run ops rule xs z))) < rl_limit rule"
      using True limiter_check_allowed [OF assms(1), of rule now m ?z] by linarith
    then show ?thesis unfolding x limiter_run_snoc using True by simp
  next
    case False
    then show ?thesis unfolding x limiter_run_snoc using IH by auto
  qed
qed (simp add: assms(4))

text \<open>
  What a caller is told is usable: an allowed request leaves between 0 and limit - 1 further
  slots; a refused one is told to wait at least one second and, when no stored request lies in the
  future of this one, no more than the window plus one second; a disabled limiter or an unreachable
  Redis allows the request.
\<close>

theorem limiter_check_answer:
  assumes "sorted_set_laws ops" and "0 < rl_window_seconds rule" and "0 \<le> now"
    and "\<And>n t. (n, t) \<in> z_members ops z \<Longrightarrow> 0 \<le> t \<and> t \<le> now"
  shows "let r = fst (limiter_check ops enabled rule up now m z) in
    (\<not> enabled \<or> \<not> up \<longrightarrow> rr_allowed r) \<and>
    (enabled \<and> up \<and> rr_allowed r \<longrightarrow> 0 \<le> rr_remaining r \<and> rr_remaining r < rl_limit rule) \<and>
    (\<not> rr_allowed r \<longrightarrow> rr_remaining r = 0 \<and> 1 \<le> rr_reset_seconds r \<and>
       rr_reset_seconds r \<le> rl_window_seconds rule + 1)"
proof -
  let ?W = "rl_window_seconds rule * 1000"
  let ?z1 = "z_remrangebyscore ops z 0 (now - ?W)"
  let ?z2 = "z_add ops ?z1 m now"
  have card: "0 \<le> z_card ops ?z1" using assms(1) by (simp add: sorted_set_laws_def)
  have mem: "z_members ops ?z2 = insert (m, now) {(n, t) \<in> z_members ops z. \<not> (0 \<le> t \<and> t \<le> now - ?W) \<and> n \<noteq> m}"
    using assms(1) by (auto simp: sorted_set_laws_def)
  obtain k s where first: "z_first ops ?z2 = Some (k, s)" and ks: "(k, s) \<in> z_members ops ?z2"
    using sorted_set_first [OF assms(1), of ?z2] mem by (cases "z_first ops ?z2") auto
  have "now - ?W < s \<and> s \<le> now" using ks assms(2,4) unfolding mem by force
  then have d: "0 < s + ?W - now" "s + ?W - now \<le> ?W" by auto
  then have "(s + ?W - now) div 1000 \<le> ?W div 1000" by (intro zdiv_mono1) auto
  then have t: "trunc_thousand (s + ?W - now) \<le> rl_window_seconds rule" "0 \<le> trunc_thousand (s + ?W - now)"
    using d by (simp_all add: trunc_thousand_def)
  show ?thesis
    using card t first by (auto simp: limiter_check_def Let_def)
qed

definition list_zset :: "(string \<times> int) list zset_ops" where
  "list_zset = \<lparr>z_members = set,
     z_remrangebyscore = (\<lambda>z lo hi. filter (\<lambda>(m, s). \<not> (lo \<le> s \<and> s \<le> hi)) z),
     z_card = (\<lambda>z. int (length (remdups z))),
     z_add = (\<lambda>z m s. (m, s) # filter (\<lambda>(n, t). n \<noteq> m) z),
     z_first = (\<lambda>z. case z of [] \<Rightarrow> None | x # xs \<Rightarrow> Some (foldl (\<lambda>a b. if snd b < snd a then b else a) x xs))\<rparr>"

lemma foldl_lowest:
  "foldl (\<lambda>a b. if snd b < snd a then b else a) x xs \<in> insert x (set xs) \<and>
   (\<forall>y \<in> insert x (set xs). (snd (foldl (\<lambda>a b. if snd b < snd a then b else a) x xs) :: int) \<le> snd y)"
proof (induction xs arbitrary: x)
  case (Cons y xs)
  from Cons [of "if snd y < snd x then y else x"] show ?case by (auto split: if_splits)
qed simp

lemma list_zset_laws: "sorted_set_laws list_zset"
proof -
  have first: "case z_first list_zset z of
        None \<Rightarrow> z_members list_zset z = {}
      | Some (m, s) \<Rightarrow> (m, s) \<in> z_members list_zset z \<and> (\<forall>(n, t) \<in> z_members list_zset z. s \<le> t)" for z
  proof (cases z)
    case (Cons x xs)
    then show ?thesis using foldl_lowest [of x xs]
      by (auto simp: list_zset_def split: prod.splits)
  qed (simp add: list_zset_def)
  show ?thesis unfolding sorted_set_laws_def
    by (intro conjI allI first) (auto simp: list_zset_def length_remdups_card_conv)
qed

theorem sliding_window_bound_witness:
  "length (filter (\<lambda>(t, r). rr_allowed r \<and> 0 < t \<and> t \<le> 60000)
     (limiter_run list_zset \<lparr>rl_limit = 2, rl_window_seconds = 60\<rparr> [(10, ''a''), (20, ''b''), (30, ''c'')] [])) \<le> 2"
  using sliding_window_bound [OF list_zset_laws, of "[(10, ''a''), (20, ''b''), (30, ''c'')]"
      "\<lparr>rl_limit = 2, rl_window_seconds = 60\<rparr>" 60000 "[]"] by simp

theorem limiter_check_answer_witness:
  "1 \<le> rr_reset_seconds (fst (limiter_check list_zset True \<lparr>rl_limit = 0, rl_window_seconds = 60\<rparr> True 100 ''a'' []))"
proof -
  let ?r = "fst (limiter_check list_zset True \<lparr>rl_limit = 0, rl_window_seconds = 60\<rparr> True 100 ''a'' [])"
  have "\<not> rr_allowed ?r" by (simp add: limiter_check_def list_zset_def Let_def)
  moreover have "z_members list_zset [] = {}" by (simp add: list_zset_def)
  ultimately show ?thesis
    using limiter_check_answer [OF list_zset_laws, of "\<lparr>rl_limit = 0, rl_window_seconds = 60\<rparr>" 100 "[]" True True "''a''"]
    by (simp add: Let_def)
qed

end
