(* ===== verification/Entitlement.thy ===== *)
theory Entitlement
  imports Store
begin

section \<open>Catalog curation\<close>

text \<open>
  \<open>app/services/entitlement_service.py\<close>: which components and templates a principal sees, and the
  administrator's entitlement and publish-grant tables. Ownership of a private entry is read off
  its registry key.
\<close>

subsection \<open>Visibility\<close>

definition private_owner :: "string \<Rightarrow> string option" where
  "private_owner qualified_name =
     (case split_max 2 CHR ''/'' qualified_name of
        [p0, p1, p2] \<Rightarrow> (if p0 = ''tenant'' then Some p1 else None)
      | _ \<Rightarrow> None)"

definition version_in_range :: "string \<Rightarrow> string \<Rightarrow> bool" where
  "version_in_range version version_range \<longleftrightarrow> version_range = ''*'' \<or> version_range = version"

definition entitlement_matches :: "component \<Rightarrow> principal \<Rightarrow> entitlement_row \<Rightarrow> bool" where
  "entitlement_matches c p e \<longleftrightarrow>
     en_visible e \<and> en_component_name e = md_name (c_metadata c) \<and>
     version_in_range (md_version (c_metadata c)) (en_version_range e) \<and>
     (en_scope e = ''tenant'' \<and> en_scope_id e = pr_tenant_id p \<or>
      en_scope e = ''user'' \<and> Some (en_scope_id e) = pr_user_id p)"

definition is_entitled :: "component \<Rightarrow> principal \<Rightarrow> entitlement_row list \<Rightarrow> bool" where
  "is_entitled c p entitlements = list_ex (entitlement_matches c p) entitlements"

definition is_admin :: "principal \<Rightarrow> bool" where
  "is_admin p \<longleftrightarrow> pr_role p = ''admin''"

text \<open>\<open>[tenant_id, *([user_id] if user_id else [])]\<close>: an empty user id counts as none.\<close>

definition scope_ids :: "principal \<Rightarrow> string list" where
  "scope_ids p = pr_tenant_id p # (case pr_user_id p of None \<Rightarrow> [] | Some u \<Rightarrow> if u = [] then [] else [u])"

definition load_entitlements_for :: "principal \<Rightarrow> db \<Rightarrow> entitlement_row list" where
  "load_entitlements_for p d = filter (\<lambda>e. en_scope_id e \<in> set (scope_ids p)) (d_entitlements d)"

definition can_see_component :: "string \<Rightarrow> component \<Rightarrow> principal \<Rightarrow> entitlement_row list \<Rightarrow> bool" where
  "can_see_component key c p entitlements =
     (if is_admin p then True
      else case private_owner key of
             Some owner \<Rightarrow> owner = pr_tenant_id p
           | None \<Rightarrow> is_entitled c p entitlements)"

definition filter_components :: "(string \<times> component) list \<Rightarrow> principal \<Rightarrow> (string \<times> component) list prog" where
  "filter_components items p =
     (if is_admin p then return_em items
      else bind_em (query_db (load_entitlements_for p)) (\<lambda>entitlements.
           return_em (filter (\<lambda>(key, c). can_see_component key c p entitlements) items)))"

definition ref_visible :: "string \<Rightarrow> principal \<Rightarrow> entitlement_row list \<Rightarrow> registry \<Rightarrow> bool" where
  "ref_visible r p entitlements reg =
     (case private_owner (if CHR ''@'' \<in> set r then fst (py_rpartition CHR ''@'' r) else []) of
        Some owner \<Rightarrow> owner = pr_tenant_id p
      | None \<Rightarrow> (case resolve_component_ref reg r of
                  Inl e \<Rightarrow> False
                | Inr c \<Rightarrow> is_entitled c p entitlements))"

definition is_ref_visible :: "string \<Rightarrow> principal \<Rightarrow> registry \<Rightarrow> bool prog" where
  "is_ref_visible r p reg =
     (if is_admin p then return_em True
      else bind_em (query_db (load_entitlements_for p)) (\<lambda>entitlements.
           return_em (ref_visible r p entitlements reg)))"

definition template_visible :: "principal \<Rightarrow> entitlement_row list \<Rightarrow> registry \<Rightarrow> string \<Rightarrow> sandbox_template \<Rightarrow> bool" where
  "template_visible p entitlements reg key t =
     (case private_owner key of
        Some owner \<Rightarrow> owner = pr_tenant_id p
      | None \<Rightarrow> list_all (\<lambda>r. ref_visible r p entitlements reg) (template_refs t))"

definition filter_templates ::
  "(string \<times> sandbox_template) list \<Rightarrow> principal \<Rightarrow> registry \<Rightarrow> (string \<times> sandbox_template) list prog" where
  "filter_templates tmpls p reg =
     (if is_admin p then return_em tmpls
      else bind_em (query_db (load_entitlements_for p)) (\<lambda>entitlements.
           return_em (filter (\<lambda>(key, t). template_visible p entitlements reg key t) tmpls)))"

definition can_publish :: "principal \<Rightarrow> string \<Rightarrow> bool prog" where
  "can_publish p cat =
     (if is_admin p then return_em True
      else query_db (\<lambda>d. filter (\<lambda>g. pg_category g = cat \<and> pg_allowed g \<and> pg_scope_id g \<in> set (scope_ids p))
                          (d_publish_grants d) \<noteq> []))"

subsection \<open>The administrator's tables\<close>

definition given :: "'a option \<Rightarrow> 'a \<Rightarrow> bool" where
  "given wanted x = (case wanted of None \<Rightarrow> True | Some y \<Rightarrow> x = y)"

definition list_entitlements ::
  "string option \<Rightarrow> string option \<Rightarrow> string option \<Rightarrow> entitlement_row list prog" where
  "list_entitlements scope scope_id component_name =
     query_db (\<lambda>d. filter (\<lambda>e. given scope (en_scope e) \<and> given scope_id (en_scope_id e) \<and>
       given component_name (en_component_name e)) (d_entitlements d))"

definition upsert_entitlement ::
  "string \<Rightarrow> string \<Rightarrow> string \<Rightarrow> string \<Rightarrow> bool \<Rightarrow> entitlement_row prog" where
  "upsert_entitlement scope scope_id component_name version_range visible =
     bind_em (query_db (\<lambda>d. filter (\<lambda>e. en_scope e = scope \<and> en_scope_id e = scope_id \<and>
       en_component_name e = component_name \<and> en_version_range e = version_range) (d_entitlements d))) (\<lambda>rows.
     bind_em (lift_em (scalar_one_or_none rows)) (\<lambda>existing.
     bind_em (case existing of
         Some e \<Rightarrow>
           seq_em (update_db (\<lambda>d. d\<lparr>d_entitlements := map (\<lambda>x. if en_id x = en_id e then x\<lparr>en_visible := visible\<rparr> else x)
                                                     (d_entitlements d)\<rparr>))
             (return_em (e\<lparr>en_visible := visible\<rparr>))
       | None \<Rightarrow>
           bind_em fresh_uuid (\<lambda>i.
           let row = \<lparr>en_id = i, en_scope = scope, en_scope_id = scope_id, en_component_name = component_name,
                      en_version_range = version_range, en_visible = visible\<rparr>
           in seq_em (update_db (\<lambda>d. d\<lparr>d_entitlements := d_entitlements d @ [row]\<rparr>)) (return_em row))) (\<lambda>row.
     seq_em commit (return_em row))))"

definition list_publish_grants ::
  "string option \<Rightarrow> string option \<Rightarrow> string option \<Rightarrow> publish_grant_row list prog" where
  "list_publish_grants scope scope_id cat =
     query_db (\<lambda>d. filter (\<lambda>g. given scope (pg_scope g) \<and> given scope_id (pg_scope_id g) \<and>
       given cat (pg_category g)) (d_publish_grants d))"

definition upsert_publish_grant :: "string \<Rightarrow> string \<Rightarrow> string \<Rightarrow> bool \<Rightarrow> publish_grant_row prog" where
  "upsert_publish_grant scope scope_id cat allowed =
     bind_em (query_db (\<lambda>d. filter (\<lambda>g. pg_scope g = scope \<and> pg_scope_id g = scope_id \<and> pg_category g = cat)
       (d_publish_grants d))) (\<lambda>rows.
     bind_em (lift_em (scalar_one_or_none rows)) (\<lambda>existing.
     bind_em (case existing of
         Some g \<Rightarrow>
           seq_em (update_db (\<lambda>d. d\<lparr>d_publish_grants := map (\<lambda>x. if pg_id x = pg_id g then x\<lparr>pg_allowed := allowed\<rparr> else x)
                                                       (d_publish_grants d)\<rparr>))
             (return_em (g\<lparr>pg_allowed := allowed\<rparr>))
       | None \<Rightarrow>
           bind_em fresh_uuid (\<lambda>i.
           let row = \<lparr>pg_id = i, pg_scope = scope, pg_scope_id = scope_id, pg_category = cat, pg_allowed = allowed\<rparr>
           in seq_em (update_db (\<lambda>d. d\<lparr>d_publish_grants := d_publish_grants d @ [row]\<rparr>)) (return_em row))) (\<lambda>row.
     seq_em commit (return_em row))))"

subsection \<open>Lemmas on keys\<close>

lemma split2_three:
  "split_max 2 c s = [a, b, r] \<longleftrightarrow> s = a @ c # b @ c # r \<and> c \<notin> set a \<and> c \<notin> set b"
proof
  assume split: "split_max 2 c s = [a, b, r]"
  have two: "(2::nat) = Suc (Suc 0)" by simp
  from split have c: "c \<in> set s" by (auto simp: two split: if_splits)
  then have s: "s = takeWhile (\<lambda>x. x \<noteq> c) s @ c # drop 1 (dropWhile (\<lambda>x. x \<noteq> c) s)"
  proof -
    have "dropWhile (\<lambda>x. x \<noteq> c) s \<noteq> []" using c by (simp add: dropWhile_eq_Nil_conv)
    then have "dropWhile (\<lambda>x. x \<noteq> c) s = c # drop 1 (dropWhile (\<lambda>x. x \<noteq> c) s)"
      using hd_dropWhile [of "\<lambda>x. x \<noteq> c" s] by (cases "dropWhile (\<lambda>x. x \<noteq> c) s") auto
    then show ?thesis by (metis takeWhile_dropWhile_id)
  qed
  define t where "t = drop 1 (dropWhile (\<lambda>x. x \<noteq> c) s)"
  from split c have a: "a = takeWhile (\<lambda>x. x \<noteq> c) s" and br: "split_max (Suc 0) c t = [b, r]"
    by (auto simp: two t_def)
  from br have ct: "c \<in> set t" by (auto split: if_splits)
  have t: "t = takeWhile (\<lambda>x. x \<noteq> c) t @ c # drop 1 (dropWhile (\<lambda>x. x \<noteq> c) t)"
  proof -
    have "dropWhile (\<lambda>x. x \<noteq> c) t \<noteq> []" using ct by (simp add: dropWhile_eq_Nil_conv)
    then have "dropWhile (\<lambda>x. x \<noteq> c) t = c # drop 1 (dropWhile (\<lambda>x. x \<noteq> c) t)"
      using hd_dropWhile [of "\<lambda>x. x \<noteq> c" t] by (cases "dropWhile (\<lambda>x. x \<noteq> c) t") auto
    then show ?thesis by (metis takeWhile_dropWhile_id)
  qed
  from br ct have "b = takeWhile (\<lambda>x. x \<noteq> c) t" "r = drop 1 (dropWhile (\<lambda>x. x \<noteq> c) t)" by auto
  then show "s = a @ c # b @ c # r \<and> c \<notin> set a \<and> c \<notin> set b"
    using s t a unfolding t_def [symmetric] by (auto dest: set_takeWhileD)
next
  assume "s = a @ c # b @ c # r \<and> c \<notin> set a \<and> c \<notin> set b"
  then show "split_max 2 c s = [a, b, r]"
    using split_max_found [of c a "Suc 0" "b @ c # r"] split_max_found [of c b 0 r]
    by (simp add: numeral_2_eq_2)
qed

lemma private_owner_iff:
  "private_owner s = Some t \<longleftrightarrow> (\<exists>rest. s = ''tenant'' @ CHR ''/'' # t @ CHR ''/'' # rest \<and> CHR ''/'' \<notin> set t)"
proof -
  have "private_owner s = Some t \<longleftrightarrow> (\<exists>rest. split_max 2 CHR ''/'' s = [''tenant'', t, rest])"
    unfolding private_owner_def by (auto split: list.splits)
  then show ?thesis unfolding split2_three by simp
qed

lemma prefix_before:
  assumes "n @ w = p @ rest" "c \<notin> set w" "p \<noteq> []" "last p = c"
  shows "\<exists>us. n = p @ us"
proof -
  from assms(1) obtain us where "n = p @ us \<or> p = n @ us \<and> us @ rest = w"
    by (auto simp: append_eq_append_conv2)
  moreover have "us = []" if "p = n @ us" "us @ rest = w"
  proof (rule ccontr)
    assume "us \<noteq> []"
    then have "c \<in> set us" using that(1) assms(4) by auto
    with that(2) assms(2) show False by auto
  qed
  ultimately show ?thesis by auto
qed

lemma private_owner_version:
  assumes "CHR ''/'' \<notin> set v"
  shows "private_owner (n @ CHR ''@'' # v) = private_owner n"
proof -
  have "private_owner (n @ CHR ''@'' # v) = Some t \<longleftrightarrow> private_owner n = Some t" for t
  proof
    assume "private_owner n = Some t"
    then show "private_owner (n @ CHR ''@'' # v) = Some t"
      unfolding private_owner_iff by (elim exE conjE) simp
  next
    assume "private_owner (n @ CHR ''@'' # v) = Some t"
    then obtain rest where eq: "n @ CHR ''@'' # v = (''tenant'' @ CHR ''/'' # t @ [CHR ''/'']) @ rest"
      and t: "CHR ''/'' \<notin> set t"
      unfolding private_owner_iff by auto
    let ?p = "''tenant'' @ CHR ''/'' # t @ [CHR ''/'']"
    obtain us where "n = ?p @ us"
      using prefix_before [OF eq, of "CHR ''/''"] assms by auto
    with t show "private_owner n = Some t" unfolding private_owner_iff by auto
  qed
  then show ?thesis
    by (cases "private_owner n"; cases "private_owner (n @ CHR ''@'' # v)") auto
qed

text \<open>The keys the loader and the publisher produce: a name part, one \<open>@\<close> and a version without a slash.\<close>

definition versioned_key :: "string \<Rightarrow> bool" where
  "versioned_key k \<longleftrightarrow> (\<exists>n v. k = n @ CHR ''@'' # v \<and> CHR ''@'' \<notin> set v \<and> CHR ''/'' \<notin> set v)"

lemma resolve_private_owner:
  assumes "resolve_component_ref reg r = Inr c" "list_all (\<lambda>(k, d). versioned_key k) (components reg)"
  shows "\<exists>k. (k, c) \<in> set (components reg) \<and> private_owner k = private_owner (fst (py_rpartition CHR ''@'' r)) \<and>
    CHR ''@'' \<in> set r"
proof -
  obtain k where k: "(k, c) \<in> set (components reg)" "k = r \<or> rsplit1_head CHR ''@'' k @ ''@latest'' = r"
    using component_lookup.fetch_found [OF assms(1)] by blast
  from k(1) assms(2) obtain n v where nv: "k = n @ CHR ''@'' # v" "CHR ''@'' \<notin> set v" "CHR ''/'' \<notin> set v"
    by (auto simp: list_all_iff versioned_key_def)
  have "r = n @ CHR ''@'' # v \<or> r = n @ CHR ''@'' # ''latest''"
    using k(2) rsplit1_head_append [OF nv(2), of n] unfolding nv(1) by auto
  then have "fst (py_rpartition CHR ''@'' r) = n \<and> CHR ''@'' \<in> set r"
    using py_rpartition_append [OF nv(2), of n] py_rpartition_append [of "CHR ''@''" "''latest''" n] by auto
  moreover have "private_owner k = private_owner n" unfolding nv(1) by (rule private_owner_version [OF nv(3)])
  ultimately show ?thesis using k(1) by auto
qed

lemma load_entitlements_complete:
  assumes "pr_user_id p \<noteq> Some []"
  shows "is_entitled c p (load_entitlements_for p d) = is_entitled c p (d_entitlements d)"
proof -
  have "en_scope_id e \<in> set (scope_ids p)" if "entitlement_matches c p e" for e
  proof (cases "pr_user_id p")
    case None
    with that show ?thesis by (simp add: entitlement_matches_def scope_ids_def)
  next
    case (Some u)
    with that assms show ?thesis by (auto simp: entitlement_matches_def scope_ids_def)
  qed
  then show ?thesis unfolding is_entitled_def load_entitlements_for_def by (auto simp: list_ex_iff)
qed

lemma ref_visible_sound:
  assumes "ref_visible r p es reg" "resolve_component_ref reg r = Inr c"
    and "list_all (\<lambda>(k, d). versioned_key k) (components reg)"
  shows "\<exists>k. (k, c) \<in> set (components reg) \<and> can_see_component k c p es"
proof -
  obtain k where k: "(k, c) \<in> set (components reg)"
    "private_owner k = private_owner (fst (py_rpartition CHR ''@'' r))" "CHR ''@'' \<in> set r"
    using resolve_private_owner [OF assms(2,3)] by blast
  have "can_see_component k c p es"
    using assms(1,2) k(2,3)
    by (cases "private_owner (fst (py_rpartition CHR ''@'' r))") (simp_all add: ref_visible_def can_see_component_def)
  with k(1) show ?thesis by blast
qed

lemma filter_components_run:
  "filter_components items p w =
     (Inr (filter (\<lambda>(k, c). can_see_component k c p (load_entitlements_for p (w_db w))) items), w)"
  by (auto simp: filter_components_def em_simps can_see_component_def)

lemma filter_templates_run:
  "filter_templates tmpls p reg w =
     (Inr (if is_admin p then tmpls
           else filter (\<lambda>(k, t). template_visible p (load_entitlements_for p (w_db w)) reg k t) tmpls), w)"
  by (simp add: filter_templates_def em_simps)

subsection \<open>Properties\<close>

text \<open>
  The component catalog of a principal is exactly: everything for an administrator; for
  everyone else the tenant's own private entries and the public entries some visible entitlement
  row of the tenant or of the user covers. Nobody but an administrator ever sees another tenant's
  private entry, whatever rows exist, and reading only the rows with a matching scope id loses no
  entitlement.
\<close>

theorem filter_components_exact:
  assumes "pr_user_id p \<noteq> Some []"
  shows "\<exists>shown. filter_components items p w = (Inr shown, w) \<and>
    ((k, c) \<in> set shown \<longleftrightarrow> (k, c) \<in> set items \<and>
       (is_admin p \<or> private_owner k = Some (pr_tenant_id p) \<or>
        private_owner k = None \<and> is_entitled c p (d_entitlements (w_db w)))) \<and>
    (\<not> is_admin p \<and> private_owner k = Some other \<and> other \<noteq> pr_tenant_id p \<longrightarrow> (k, c) \<notin> set shown)"
  unfolding filter_components_run
  by (auto simp: can_see_component_def load_entitlements_complete [OF assms] split: option.splits)

text \<open>
  Template visibility never reveals more than the component catalog: in a registry whose keys
  end in a version, a non-administrator is shown a private template only if the tenant owns it, and
  a public one only if every reference of it that resolves, resolves to an entry the same principal
  may see in the component catalog.
\<close>

theorem filter_templates_sound:
  assumes "\<not> is_admin p" and "list_all (\<lambda>(k, d). versioned_key k) (components reg)"
    and "filter_templates tmpls p reg w = (Inr shown, w')" and "(k, t) \<in> set shown"
  shows "(k, t) \<in> set tmpls \<and>
    (private_owner k = Some (pr_tenant_id p) \<or>
     private_owner k = None \<and>
     (\<forall>r c. r \<in> set (template_refs t) \<and> resolve_component_ref reg r = Inr c \<longrightarrow>
        (\<exists>key. (key, c) \<in> set (components reg) \<and>
          can_see_component key c p (load_entitlements_for p (w_db w)))))"
proof -
  have "(k, t) \<in> set tmpls" and vis: "template_visible p (load_entitlements_for p (w_db w)) reg k t"
    using assms(1,3,4) by (auto simp: filter_templates_run)
  then show ?thesis
    using ref_visible_sound [OF _ _ assms(2)]
    by (cases "private_owner k") (auto simp: template_visible_def list_all_iff)
qed

text \<open>
  Updating an entitlement is an upsert keyed by scope, scope id, component and version range:
  in a table without duplicate keys it never raises, afterwards the table has exactly one row with
  that key, carrying the requested visibility, no row with another key changes, and the table still
  has no duplicates; the result is committed.
\<close>

definition entitlement_key :: "entitlement_row \<Rightarrow> string \<times> string \<times> string \<times> string" where
  "entitlement_key e = (en_scope e, en_scope_id e, en_component_name e, en_version_range e)"

definition entitlements_wf :: "entitlement_row list \<Rightarrow> bool" where
  "entitlements_wf es \<longleftrightarrow> distinct (map entitlement_key es) \<and> distinct (map en_id es)"

lemma map_update_filter:
  assumes "distinct (map key es)" "e \<in> set es" "\<And>x. key (f x) = key x"
    and "\<And>x. x \<in> set es \<Longrightarrow> P x = (x = e)"
  shows "filter (\<lambda>x. key x = key e) (map (\<lambda>x. if P x then f x else x) es) = [f e]"
    and "filter (\<lambda>x. key x \<noteq> key e) (map (\<lambda>x. if P x then f x else x) es) = filter (\<lambda>x. key x \<noteq> key e) es"
proof -
  from assms(2) obtain xs ys where es: "es = xs @ e # ys" by (meson split_list)
  from assms(1) have other: "x \<in> set xs \<union> set ys \<Longrightarrow> key x \<noteq> key e" for x
    unfolding es by (auto simp: image_iff)
  have same: "map (\<lambda>x. if P x then f x else x) zs = zs" if "set zs \<subseteq> set xs \<union> set ys" for zs
    using that assms(4) other by (intro map_idI) (auto simp: es)
  have P: "P e" using assms(2,4) by simp
  have none: "filter (\<lambda>x. key x = key e) xs = []" "filter (\<lambda>x. key x = key e) ys = []"
    using other by (auto simp: filter_empty_conv)
  show "filter (\<lambda>x. key x = key e) (map (\<lambda>x. if P x then f x else x) es) = [f e]"
    unfolding es using same [of xs] same [of ys] P none assms(3) by simp
  show "filter (\<lambda>x. key x \<noteq> key e) (map (\<lambda>x. if P x then f x else x) es) = filter (\<lambda>x. key x \<noteq> key e) es"
    unfolding es using same [of xs] same [of ys] P assms(3) by simp
qed

lemma distinct_filter_key:
  "distinct (map key es) \<Longrightarrow> e \<in> set es \<Longrightarrow> filter (\<lambda>x. key x = key e) es = [e]"
  by (induction es) (auto simp: filter_empty_conv, metis imageI)

theorem upsert_entitlement_effect:
  assumes "entitlements_wf (d_entitlements (w_db w))"
    and "e_uuid (w_env w) (w_uuids w) \<notin> en_id ` set (d_entitlements (w_db w))"
  shows "\<exists>row w'. upsert_entitlement scope scope_id name vr visible w = (Inr row, w') \<and>
    filter (\<lambda>e. entitlement_key e = (scope, scope_id, name, vr)) (d_entitlements (w_db w')) = [row] \<and>
    en_visible row = visible \<and>
    filter (\<lambda>e. entitlement_key e \<noteq> (scope, scope_id, name, vr)) (d_entitlements (w_db w')) =
      filter (\<lambda>e. entitlement_key e \<noteq> (scope, scope_id, name, vr)) (d_entitlements (w_db w)) \<and>
    entitlements_wf (d_entitlements (w_db w')) \<and> w_committed w' = w_db w'"
proof -
  let ?es = "d_entitlements (w_db w)" and ?k = "(scope, scope_id, name, vr)"
  have dk: "distinct (map entitlement_key ?es)" and di: "distinct (map en_id ?es)"
    using assms(1) by (simp_all add: entitlements_wf_def)
  have rows: "filter (\<lambda>e. en_scope e = scope \<and> en_scope_id e = scope_id \<and> en_component_name e = name \<and>
      en_version_range e = vr) es = filter (\<lambda>e. entitlement_key e = ?k) es" for es
    by (rule filter_cong) (auto simp: entitlement_key_def)
  show ?thesis
  proof (cases "filter (\<lambda>e. entitlement_key e = ?k) ?es")
    case Nil
    let ?row = "\<lparr>en_id = e_uuid (w_env w) (w_uuids w), en_scope = scope, en_scope_id = scope_id,
       en_component_name = name, en_version_range = vr, en_visible = visible\<rparr>"
    let ?d = "(w_db w)\<lparr>d_entitlements := ?es @ [?row]\<rparr>"
    have run: "upsert_entitlement scope scope_id name vr visible w =
        (Inr ?row, w\<lparr>w_uuids := Suc (w_uuids w), w_db := ?d, w_committed := ?d\<rparr>)"
      by (simp add: upsert_entitlement_def rows Nil em_simps Let_def)
    have key: "entitlement_key ?row = ?k" by (simp add: entitlement_key_def)
    have new: "?k \<notin> entitlement_key ` set ?es" using Nil by (auto simp: filter_empty_conv)
    show ?thesis
      unfolding run using assms(2) dk di Nil new by (simp add: key entitlements_wf_def)
  next
    case (Cons e es)
    have "e \<in> set (filter (\<lambda>e. entitlement_key e = ?k) ?es)" unfolding Cons by simp
    then have e: "e \<in> set ?es" "entitlement_key e = ?k" by simp_all
    have one: "filter (\<lambda>x. entitlement_key x = ?k) ?es = [e]"
      using distinct_filter_key [OF dk e(1)] e(2) by simp
    let ?f = "\<lambda>x. x\<lparr>en_visible := visible\<rparr>"
    have key: "entitlement_key (?f x) = entitlement_key x" for x by (simp add: entitlement_key_def)
    have pick: "x \<in> set ?es \<Longrightarrow> (en_id x = en_id e) = (x = e)" for x
      using di e(1) by (metis distinct_map inj_onD)
    note upd = map_update_filter [of entitlement_key ?es e ?f "\<lambda>x. en_id x = en_id e", OF dk e(1) key pick]
    have keys: "map entitlement_key (map (\<lambda>x. if en_id x = en_id e then ?f x else x) es) = map entitlement_key es"
      and ids: "map en_id (map (\<lambda>x. if en_id x = en_id e then ?f x else x) es) = map en_id es" for es
      by (auto simp: key)
    show ?thesis
      using upd dk di unfolding e(2)
      by (simp add: upsert_entitlement_def rows one em_simps entitlements_wf_def keys ids del: map_map)
  qed
qed

definition tenant_p :: principal where
  "tenant_p = \<lparr>pr_tenant_id = ''t1'', pr_user_id = Some ''u1'', pr_role = ''member''\<rparr>"

definition shop_registry :: registry where
  "shop_registry = \<lparr>components = [(''python@1'', language_component ''python'' ''1''),
       (''tenant/t1/ml@1'', language_component ''ml'' ''1''), (''tenant/t2/secret@1'', language_component ''secret'' ''1'')],
     templates = [(''tenant/t1/mine@1'', \<lparr>t_metadata = \<lparr>tm_name = ''mine'', tm_version = ''1'', tm_displayName = None, tm_description = None\<rparr>,
        t_spec = \<lparr>ts_base = ''python@1'', ts_components = [], ts_weightClass = None, ts_workspace = None,
          ts_resources = \<lparr>tr_cpu = ''1'', tr_memory = ''1Gi'', tr_ephemeralStorageMB = None\<rparr>,
          ts_ttl = \<lparr>ttl_idle = ''15m'', ttl_max = ''1h''\<rparr>, ts_overrides = []\<rparr>\<rparr>)],
     component_dirs = [], built_images = []\<rparr>"

theorem filter_components_exact_witness:
  "\<exists>shown. filter_components (components shop_registry) tenant_p (demo_world empty_db shop_registry) =
      (Inr shown, demo_world empty_db shop_registry) \<and>
    (''tenant/t2/secret@1'', language_component ''secret'' ''1'') \<notin> set shown"
proof -
  have "pr_user_id tenant_p \<noteq> Some []" by (simp add: tenant_p_def)
  moreover have "private_owner ''tenant/t2/secret@1'' = Some ''t2''" by code_simp
  moreover have "\<not> is_admin tenant_p" by (simp add: tenant_p_def is_admin_def)
  ultimately show ?thesis
    using filter_components_exact [of tenant_p "components shop_registry" "demo_world empty_db shop_registry"
      "''tenant/t2/secret@1''" "language_component ''secret'' ''1''" "''t2''"]
    by (auto simp: tenant_p_def)
qed

theorem filter_templates_sound_witness:
  "\<exists>k t. (k, t) \<in> set (templates shop_registry) \<and> private_owner k = Some (pr_tenant_id tenant_p)"
proof -
  let ?w = "demo_world empty_db shop_registry"
  obtain k t where kt: "templates shop_registry = [(k, t)]" "k = ''tenant/t1/mine@1''"
    by (simp add: shop_registry_def)
  have owner: "private_owner k = Some ''t1''" unfolding kt(2) by code_simp
  have adm: "\<not> is_admin tenant_p" by (simp add: tenant_p_def is_admin_def)
  have "versioned_key (n @ CHR ''@'' # ''1'')" for n by (force simp: versioned_key_def)
  from this [of "''python''"] this [of "''tenant/t1/ml''"] this [of "''tenant/t2/secret''"]
  have keys: "list_all (\<lambda>(k, d). versioned_key k) (components shop_registry)"
    by (simp add: shop_registry_def)
  have run: "filter_templates (templates shop_registry) tenant_p shop_registry ?w = (Inr [(k, t)], ?w)"
    using adm owner by (simp add: filter_templates_run kt(1) template_visible_def tenant_p_def)
  from filter_templates_sound [OF adm keys run, of k t] owner show ?thesis by auto
qed

theorem upsert_entitlement_effect_witness:
  "\<exists>row w'. upsert_entitlement ''tenant'' ''t1'' ''python'' ''*'' True (demo_world empty_db empty_registry) = (Inr row, w') \<and>
     en_visible row \<and> entitlements_wf (d_entitlements (w_db w'))"
proof -
  have "entitlements_wf (d_entitlements (w_db (demo_world empty_db empty_registry)))"
    by (simp add: entitlements_wf_def demo_world_def empty_db_def)
  moreover have "e_uuid (w_env (demo_world empty_db empty_registry)) (w_uuids (demo_world empty_db empty_registry))
      \<notin> en_id ` set (d_entitlements (w_db (demo_world empty_db empty_registry)))"
    by (simp add: demo_world_def empty_db_def)
  ultimately show ?thesis
    using upsert_entitlement_effect [of "demo_world empty_db empty_registry" "''tenant''" "''t1''" "''python''" "''*''" True]
    by auto
qed

end
