(* ===== verification/Builds.thy ===== *)
theory Builds
  imports Entitlement Backend Audit_Log
begin

section \<open>Builds\<close>

text \<open>
  \<open>app/services/build_manager.py\<close>: triggering a build inside a request, the background body that runs
  the strategy and pushes the image, the tenant-scoped reads, and rehydration of the image table after
  a restart. The strategies are a parameter here (\<open>Build_Strategies\<close> models them): a strategy answers with its log and either an
  exception or an artifact, an image (\<open>True\<close>) or a stored manifest, with its reference.
\<close>

subsection \<open>Who may build what\<close>

definition can_build :: "string \<Rightarrow> principal \<Rightarrow> bool" where
  "can_build key p \<longleftrightarrow> is_admin p \<or> startswith key (''tenant/'' @ pr_tenant_id p @ ''/'')"

definition tenant_id_for :: "string \<Rightarrow> principal \<Rightarrow> string option" where
  "tenant_id_for key p = (if startswith key ''tenant/'' then Some (pr_tenant_id p) else None)"

definition in_flight :: "string \<Rightarrow> string \<Rightarrow> string option \<Rightarrow> build_row \<Rightarrow> bool" where
  "in_flight name version tenant_id r \<longleftrightarrow>
     bl_component_name r = name \<and> bl_component_version r = version \<and> bl_tenant_id r = tenant_id \<and>
     bl_status r \<in> {BuildPending, BuildRunning}"

definition put_build :: "build_row \<Rightarrow> unit prog" where
  "put_build r = update_db (\<lambda>d. d\<lparr>d_builds := row_put bl_id r (d_builds d)\<rparr>)"

definition trigger_build :: "string \<Rightarrow> principal \<Rightarrow> (build_row \<times> bool) prog" where
  "trigger_build key p =
     bind_em (gets_em w_registry) (\<lambda>reg.
     case map_of (components reg) key of
       None \<Rightarrow> raise_em (ComponentNotFoundError key)
     | Some c \<Rightarrow>
         (if \<not> can_build key p then raise_em (EntitlementError key)
          else
            (let tenant_id = tenant_id_for key p; name = md_name (c_metadata c); version = md_version (c_metadata c) in
             bind_em (query_db (\<lambda>d. find (in_flight name version tenant_id) (d_builds d))) (\<lambda>existing.
             case existing of
               Some r \<Rightarrow> return_em (r, False)
             | None \<Rightarrow>
                 bind_em fresh_uuid (\<lambda>i.
                 bind_em db_now (\<lambda>created.
                 let row = \<lparr>bl_id = i, bl_component_name = name, bl_component_version = version, bl_tenant_id = tenant_id,
                            bl_strategy = src_type (cs_source (c_spec c)), bl_status = BuildPending, bl_image_ref = None,
                            bl_artifact_ref = None, bl_log_excerpt = None, bl_error = None,
                            bl_requested_by = (case py_or (pr_user_id p) None of Some u \<Rightarrow> u | None \<Rightarrow> pr_tenant_id p),
                            bl_started_at = None, bl_finished_at = None, bl_created_at = created\<rparr>
                 in seq_em (put_build row) (seq_em commit (return_em (row, True)))))))))"

subsection \<open>Reads\<close>

definition get_build :: "string \<Rightarrow> principal \<Rightarrow> build_row prog" where
  "get_build i p =
     bind_em (query_db (\<lambda>d. row_get bl_id i (d_builds d))) (\<lambda>found.
     case found of
       None \<Rightarrow> raise_em (BuildNotFoundError i)
     | Some row \<Rightarrow>
         (if \<not> is_admin p \<and> bl_tenant_id row \<noteq> None \<and> bl_tenant_id row \<noteq> Some (pr_tenant_id p)
          then raise_em (BuildNotFoundError i)
          else return_em row))"

text \<open>The statement of \<open>build_list_statement\<close>, executed: newest first, ties broken by the larger id.\<close>

definition list_builds :: "principal \<Rightarrow> build_status option \<Rightarrow> db \<Rightarrow> build_row list" where
  "list_builds p status d =
     rev (sort_key (\<lambda>r. (bl_created_at r, bl_id r))
       (filter (\<lambda>r. (is_admin p \<or> bl_tenant_id r = None \<or> bl_tenant_id r = Some (pr_tenant_id p)) \<and>
                    (case status of None \<Rightarrow> True | Some s \<Rightarrow> bl_status r = s)) (d_builds d)))"

subsection \<open>Running a build\<close>

definition registry_key_for_build :: "build_row \<Rightarrow> string" where
  "registry_key_for_build r =
     (let key = bl_component_name r @ ''@'' @ bl_component_version r in
      case bl_tenant_id r of None \<Rightarrow> key | Some t \<Rightarrow> ''tenant/'' @ t @ ''/'' @ key)"

definition log_excerpt_limit :: nat where
  "log_excerpt_limit = 10000"

definition log_excerpt :: "string \<Rightarrow> string" where
  "log_excerpt text = drop (length text - log_excerpt_limit) text"

definition strategy_build :: "source_type \<Rightarrow> string \<Rightarrow> ((exn + (bool \<times> string)) \<times> string) prog" where
  "strategy_build st key =
     bind_em (gets_em (\<lambda>w. e_build (w_env w) (w_calls w) st key)) (\<lambda>answer.
     seq_em (modify_em (\<lambda>w. w\<lparr>w_calls := w_calls w @ [CallBuild st key answer]\<rparr>)) (return_em answer))"

definition push_image :: "string \<Rightarrow> string prog" where
  "push_image r = external (\<lambda>en tr. e_push en tr r) (CallPush r)"

definition record_built_image :: "string \<Rightarrow> string \<Rightarrow> unit prog" where
  "record_built_image key r =
     modify_em (\<lambda>w. w\<lparr>w_registry := (w_registry w)\<lparr>built_images := AList.update key r (built_images (w_registry w))\<rparr>\<rparr>)"

text \<open>\<open>str(exc)\<close>, up to the sentence around the payload.\<close>

fun exn_message :: "exn \<Rightarrow> string" where
  "exn_message (KubeSandboxError s) = s"
| "exn_message (ManifestValidationError s) = s"
| "exn_message (ComponentNotFoundError s) = s"
| "exn_message (TemplateNotFoundError s) = s"
| "exn_message (EntitlementError s) = s"
| "exn_message (QuotaExceededError s) = s"
| "exn_message (BillingAuthorizationError s) = s"
| "exn_message (ProvisionerError s) = s"
| "exn_message (ExecutionTimeoutError s) = s"
| "exn_message (SandboxNotFoundError s) = s"
| "exn_message (BuildError s) = s"
| "exn_message (BuildNotFoundError s) = s"
| "exn_message (ConfigurationError s) = s"
| "exn_message (SecretNotFoundError s) = s"
| "exn_message (AuthenticationFailed s) = s"
| "exn_message (ValueError s) = s"
| "exn_message (IndexError s) = s"
| "exn_message (MultipleResultsFound s) = s"
| "exn_message (PyJWTError s) = s"
| "exn_message (OtherException s) = s"
| "exn_message (HTTPException n s) = s"
| "exn_message (DockerError n s) = s"
| "exn_message (DockerContainerError n i s) = s"
| "exn_message (ApiException n s) = s"
| "exn_message (SdkError s) = s"
| "exn_message (SdkAPIError c n d m u) =
     ''HTTP '' @ int_str n @ '': '' @ d @ (if m \<noteq> [] \<and> u \<noteq> [] then '' ('' @ m @ '' '' @ u @ '')'' else [])"

definition finish_failed :: "build_row \<Rightarrow> string \<Rightarrow> unit prog" where
  "finish_failed row message =
     bind_em utc_now (\<lambda>now.
     seq_em (put_build (row\<lparr>bl_status := BuildFailed, bl_error := Some message, bl_finished_at := Some now\<rparr>)) commit)"

text \<open>The guarded part of \<open>run_build\<close>: what the \<open>try\<close> block makes of the row.\<close>

definition build_outcome :: "string \<Rightarrow> build_row \<Rightarrow> exn + (bool \<times> string) \<Rightarrow> build_row prog" where
  "build_outcome key row answer =
     catch_em
       (bind_em (lift_em answer) (\<lambda>(is_image, r).
        if is_image
        then bind_em (push_image r) (\<lambda>resolved.
             seq_em (record_built_image key resolved)
               (return_em (row\<lparr>bl_image_ref := Some resolved, bl_status := BuildSucceeded\<rparr>)))
        else return_em (row\<lparr>bl_artifact_ref := Some r, bl_status := BuildSucceeded\<rparr>)))
       (\<lambda>_. True)
       (\<lambda>e. return_em (row\<lparr>bl_status := BuildFailed, bl_error := Some (exn_message e)\<rparr>))"

definition run_build_body :: "string \<Rightarrow> unit prog" where
  "run_build_body i =
     bind_em (query_db (\<lambda>d. row_get bl_id i (d_builds d))) (\<lambda>found.
     case found of
       None \<Rightarrow> return_em ()
     | Some row \<Rightarrow>
         bind_em (gets_em w_registry) (\<lambda>reg.
         let key = registry_key_for_build row in
         case (map_of (components reg) key, map_of (component_dirs reg) key) of
           (Some c, Some dir) \<Rightarrow>
             (let st = src_type (cs_source (c_spec c)) in
              if st = ImageSource then finish_failed row (''no BuildStrategy registered for source.type='' @ source_type_value st)
              else
                bind_em utc_now (\<lambda>started.
                let running = row\<lparr>bl_status := BuildRunning, bl_started_at := Some started\<rparr> in
                seq_em (put_build running)
                (seq_em commit
                (bind_em (strategy_build st key) (\<lambda>(answer, log).
                 bind_em (build_outcome key running answer) (\<lambda>done_row.
                 bind_em utc_now (\<lambda>finished.
                 seq_em (put_build (done_row\<lparr>bl_log_excerpt := Some (log_excerpt log), bl_finished_at := Some finished\<rparr>))
                   commit)))))))
         | _ \<Rightarrow> finish_failed row (''component '' @ key @ '' no longer resolvable in the registry'')))"

definition run_build :: "string \<Rightarrow> unit prog" where
  "run_build i = with_session (run_build_body i)"

definition hydrate_order :: "build_row \<Rightarrow> nat \<times> int" where
  "hydrate_order r = (case bl_finished_at r of Some t \<Rightarrow> (0, t) | None \<Rightarrow> (1, 0))"

definition hydrate_built_images :: "unit prog" where
  "hydrate_built_images =
     bind_em (query_db (\<lambda>d. sort_key hydrate_order
       (filter (\<lambda>r. bl_status r = BuildSucceeded \<and> bl_image_ref r \<noteq> None) (d_builds d)))) (\<lambda>rows.
     for_em rows (\<lambda>r. record_built_image (registry_key_for_build r) (the (bl_image_ref r))))"

subsection \<open>Laws\<close>

lemma put_build_run: "put_build r w = (Inr (), w\<lparr>w_db := (w_db w)\<lparr>d_builds := row_put bl_id r (d_builds (w_db w))\<rparr>\<rparr>)"
  by (simp add: put_build_def)

text \<open>
  The listing of builds and the detail endpoint agree: a caller's listing contains exactly the builds
  that the detail endpoint would return to the same caller, each once, newest first.
\<close>

theorem build_listing_mirrors_detail:
  assumes "distinct (map bl_id (d_builds (w_db w)))"
  shows "set (list_builds p None (w_db w)) = {r. \<exists>i. get_build i p w = (Inr r, w)} \<and>
    distinct (map bl_id (list_builds p None (w_db w))) \<and>
    sorted (rev (map bl_created_at (list_builds p None (w_db w))))"
proof (intro conjI)
  let ?P = "\<lambda>r. is_admin p \<or> bl_tenant_id r = None \<or> bl_tenant_id r = Some (pr_tenant_id p)"
  have list: "list_builds p None (w_db w) = rev (sort_key (\<lambda>r. (bl_created_at r, bl_id r)) (filter ?P (d_builds (w_db w))))"
    by (simp add: list_builds_def)
  have get: "get_build i p w = (Inr r, w) \<longleftrightarrow> r \<in> set (d_builds (w_db w)) \<and> bl_id r = i \<and> ?P r" for i r
    using row_get_distinct [OF assms, of r]
    by (auto simp: get_build_def bind_em_run dest: row_get_mem row_get_key split: option.splits)
  show "set (list_builds p None (w_db w)) = {r. \<exists>i. get_build i p w = (Inr r, w)}"
    unfolding get list by auto
  have "distinct (map bl_id (filter ?P (d_builds (w_db w))))" using assms by (rule distinct_map_filter)
  then show "distinct (map bl_id (list_builds p None (w_db w)))" unfolding list by (simp add: distinct_map)
  have "sorted (map (\<lambda>r. (bl_created_at r, bl_id r)) (sort_key (\<lambda>r. (bl_created_at r, bl_id r)) (filter ?P (d_builds (w_db w)))))"
    by simp
  then have "sorted (map bl_created_at (sort_key (\<lambda>r. (bl_created_at r, bl_id r)) (filter ?P (d_builds (w_db w)))))"
    unfolding sorted_map by (rule sorted_wrt_mono_rel [rotated]) auto
  then show "sorted (rev (map bl_created_at (list_builds p None (w_db w))))" unfolding list by (simp add: rev_map)
qed

definition demo_build :: "string option \<Rightarrow> build_row" where
  "demo_build t = \<lparr>bl_id = ''b1'', bl_component_name = ''jq'', bl_component_version = ''1'', bl_tenant_id = t,
     bl_strategy = DockerfileSource, bl_status = BuildPending, bl_image_ref = None, bl_artifact_ref = None,
     bl_log_excerpt = None, bl_error = None, bl_requested_by = ''u1'', bl_started_at = None, bl_finished_at = None,
     bl_created_at = 0\<rparr>"

theorem build_listing_mirrors_detail_witness:
  "set (list_builds \<lparr>pr_tenant_id = ''t2'', pr_user_id = None, pr_role = ''user''\<rparr> None (empty_db\<lparr>d_builds := [demo_build (Some ''t1'')]\<rparr>)) =
     {r. \<exists>i. get_build i \<lparr>pr_tenant_id = ''t2'', pr_user_id = None, pr_role = ''user''\<rparr>
       (demo_world (empty_db\<lparr>d_builds := [demo_build (Some ''t1'')]\<rparr>) empty_registry) =
       (Inr r, demo_world (empty_db\<lparr>d_builds := [demo_build (Some ''t1'')]\<rparr>) empty_registry)}"
  using build_listing_mirrors_detail [of "demo_world (empty_db\<lparr>d_builds := [demo_build (Some ''t1'')]\<rparr>) empty_registry"
      "\<lparr>pr_tenant_id = ''t2'', pr_user_id = None, pr_role = ''user''\<rparr>"]
  by (simp add: demo_world_def)

lemma build_outcome_run:
  "\<exists>row' w'. build_outcome key row answer w = (Inr row', w') \<and> bl_id row' = bl_id row \<and> bl_tenant_id row' = bl_tenant_id row \<and>
     w_db w' = w_db w \<and> w_committed w' = w_committed w \<and>
     (bl_status row' = BuildSucceeded \<and>
        (\<exists>r. bl_image_ref row' = Some r \<and> w_registry w' = (w_registry w)\<lparr>built_images := AList.update key r (built_images (w_registry w))\<rparr>) \<or>
      bl_status row' = BuildSucceeded \<and> bl_artifact_ref row' \<noteq> None \<and> w_registry w' = w_registry w \<or>
      bl_status row' = BuildFailed \<and> bl_error row' \<noteq> None \<and> w_registry w' = w_registry w)"
  by (cases answer)
    (auto simp: build_outcome_def em_simps push_image_def record_built_image_def split: prod.splits sum.splits)

lemma finish_failed_run:
  assumes "bl_id row = i"
  shows "\<exists>w' row'. finish_failed row m w = (Inr (), w') \<and> row_get bl_id i (d_builds (w_db w')) = Some row' \<and>
    w_committed w' = w_db w' \<and> bl_status row' = BuildFailed \<and> bl_error row' = Some m \<and> bl_finished_at row' \<noteq> None \<and>
    bl_tenant_id row' = bl_tenant_id row \<and> w_registry w' = w_registry w"
  using assms by (simp add: finish_failed_def em_simps put_build_run row_get_put)

text \<open>What a build leaves: a finished row, and at most one new image under the row's registry key.\<close>

definition settled :: "string \<Rightarrow> registry \<Rightarrow> build_row \<Rightarrow> registry \<Rightarrow> bool" where
  "settled key reg row reg' \<longleftrightarrow> bl_finished_at row \<noteq> None \<and>
     (bl_status row = BuildSucceeded \<and>
        (\<exists>r. bl_image_ref row = Some r \<and> reg' = reg\<lparr>built_images := AList.update key r (built_images reg)\<rparr>) \<or>
      bl_status row = BuildSucceeded \<and> bl_artifact_ref row \<noteq> None \<and> reg' = reg \<or>
      bl_status row = BuildFailed \<and> bl_error row \<noteq> None \<and> reg' = reg)"

lemma run_build_body_run:
  assumes "row_get bl_id i (d_builds (w_db w)) = Some row"
  shows "\<exists>w' row'. run_build_body i w = (Inr (), w') \<and> row_get bl_id i (d_builds (w_committed w')) = Some row' \<and>
    bl_tenant_id row' = bl_tenant_id row \<and> settled (registry_key_for_build row) (w_registry w) row' (w_registry w')"
proof -
  let ?key = "registry_key_for_build row"
  have i: "bl_id row = i" using assms by (rule row_get_key)
  show ?thesis
  proof (cases "\<exists>c dir. map_of (components (w_registry w)) ?key = Some c \<and> map_of (component_dirs (w_registry w)) ?key = Some dir \<and>
      src_type (cs_source (c_spec c)) \<noteq> ImageSource")
    case False
    have "\<exists>m. run_build_body i w = finish_failed row m w"
    proof (cases "map_of (components (w_registry w)) ?key")
      case None
      with assms show ?thesis by (simp add: run_build_body_def bind_em_run Let_def) blast
    next
      case (Some c)
      with assms False show ?thesis
        by (cases "map_of (component_dirs (w_registry w)) ?key") (simp_all add: run_build_body_def bind_em_run Let_def, blast+)
    qed
    then obtain m where "run_build_body i w = finish_failed row m w" by blast
    with finish_failed_run [OF i, of m w] show ?thesis by (auto simp: settled_def)
  next
    case True
    then obtain c dir where c: "map_of (components (w_registry w)) ?key = Some c"
      "map_of (component_dirs (w_registry w)) ?key = Some dir" "src_type (cs_source (c_spec c)) \<noteq> ImageSource" by blast
    let ?running = "row\<lparr>bl_status := BuildRunning, bl_started_at := Some (e_now (w_env w) (w_clock w))\<rparr>"
    let ?d = "(w_db w)\<lparr>d_builds := row_put bl_id ?running (d_builds (w_db w))\<rparr>"
    let ?w1 = "w\<lparr>w_clock := Suc (w_clock w), w_db := ?d, w_committed := ?d\<rparr>"
    let ?st = "src_type (cs_source (c_spec c))"
    let ?ans = "e_build (w_env w) (w_calls w) ?st ?key"
    let ?w2 = "?w1\<lparr>w_calls := w_calls w @ [CallBuild ?st ?key ?ans]\<rparr>"
    obtain row' w3 where o: "build_outcome ?key ?running (fst ?ans) ?w2 = (Inr row', w3)" "bl_id row' = bl_id ?running"
      "bl_tenant_id row' = bl_tenant_id ?running"
      "bl_status row' = BuildSucceeded \<and>
        (\<exists>r. bl_image_ref row' = Some r \<and> w_registry w3 = (w_registry ?w2)\<lparr>built_images := AList.update ?key r (built_images (w_registry ?w2))\<rparr>) \<or>
      bl_status row' = BuildSucceeded \<and> bl_artifact_ref row' \<noteq> None \<and> w_registry w3 = w_registry ?w2 \<or>
      bl_status row' = BuildFailed \<and> bl_error row' \<noteq> None \<and> w_registry w3 = w_registry ?w2"
      using build_outcome_run [of ?key ?running "fst ?ans" ?w2] by blast
    let ?final = "row'\<lparr>bl_log_excerpt := Some (log_excerpt (snd ?ans)), bl_finished_at := Some (e_now (w_env w3) (w_clock w3))\<rparr>"
    let ?d' = "(w_db w3)\<lparr>d_builds := row_put bl_id ?final (d_builds (w_db w3))\<rparr>"
    have run: "run_build_body i w = (Inr (), w3\<lparr>w_clock := Suc (w_clock w3), w_db := ?d', w_committed := ?d'\<rparr>)"
      using assms c o(1)
      by (simp add: run_build_body_def bind_em_run seq_em_run put_build_run strategy_build_def Let_def case_prod_beta)
    show ?thesis
      unfolding run
      by (intro exI [of _ "w3\<lparr>w_clock := Suc (w_clock w3), w_db := ?d', w_committed := ?d'\<rparr>"] exI [of _ ?final])
        (use o(2,3,4) i in \<open>auto simp: row_get_put settled_def\<close>)
  qed
qed

lemma run_build_run:
  assumes "row_get bl_id i (d_builds (w_committed w)) = Some row"
  shows "\<exists>w' row'. run_build i w = (Inr (), w') \<and> row_get bl_id i (d_builds (w_committed w')) = Some row' \<and>
    bl_tenant_id row' = bl_tenant_id row \<and> settled (registry_key_for_build row) (w_registry w) row' (w_registry w')"
proof -
  have "row_get bl_id i (d_builds (w_db (w\<lparr>w_db := w_committed w\<rparr>))) = Some row" using assms by simp
  from run_build_body_run [OF this] obtain w' row' where
    "run_build_body i (w\<lparr>w_db := w_committed w\<rparr>) = (Inr (), w')" "row_get bl_id i (d_builds (w_committed w')) = Some row'"
    "bl_tenant_id row' = bl_tenant_id row" "settled (registry_key_for_build row) (w_registry w) row' (w_registry w')" by auto
  then show ?thesis by (intro exI [of _ "w'\<lparr>w_db := w_committed w'\<rparr>"] exI [of _ row']) (simp add: run_build_def with_session_def)
qed

text \<open>
  A build always ends. Whatever the strategy and the image registry answer, the background body does
  not raise, and the committed row is finished: succeeded with an image or an artifact, or failed with a
  message. The in-memory image table gains the image exactly when the row says so.
\<close>

theorem build_ends_terminal:
  assumes "row_get bl_id i (d_builds (w_committed w)) = Some row"
  shows "\<exists>w' row'. run_build i w = (Inr (), w') \<and> row_get bl_id i (d_builds (w_committed w')) = Some row' \<and>
    bl_finished_at row' \<noteq> None \<and>
    (bl_status row' = BuildSucceeded \<and> (bl_image_ref row' \<noteq> None \<or> bl_artifact_ref row' \<noteq> None) \<or>
     bl_status row' = BuildFailed \<and> bl_error row' \<noteq> None \<and> w_registry w' = w_registry w) \<and>
    (w_registry w' = w_registry w \<or>
     map_of (built_images (w_registry w')) (registry_key_for_build row) = bl_image_ref row')"
proof -
  obtain w' row' where r: "run_build i w = (Inr (), w')" "row_get bl_id i (d_builds (w_committed w')) = Some row'"
    "settled (registry_key_for_build row) (w_registry w) row' (w_registry w')"
    using run_build_run [OF assms] by blast
  from r(3) have "bl_finished_at row' \<noteq> None \<and>
    (bl_status row' = BuildSucceeded \<and> (bl_image_ref row' \<noteq> None \<or> bl_artifact_ref row' \<noteq> None) \<or>
     bl_status row' = BuildFailed \<and> bl_error row' \<noteq> None \<and> w_registry w' = w_registry w) \<and>
    (w_registry w' = w_registry w \<or>
     map_of (built_images (w_registry w')) (registry_key_for_build row) = bl_image_ref row')"
    unfolding settled_def by (auto simp: update_conv')
  with r(1,2) show ?thesis by blast
qed

theorem build_ends_terminal_witness:
  "\<exists>w'. run_build ''b1'' (demo_world (empty_db\<lparr>d_builds := [demo_build None]\<rparr>) empty_registry) = (Inr (), w')"
  using build_ends_terminal [of "''b1''" "demo_world (empty_db\<lparr>d_builds := [demo_build None]\<rparr>) empty_registry" "demo_build None"]
  by (auto simp: demo_world_def demo_build_def row_get_def)

lemma private_key_differs: "''tenant/'' @ t @ ''/'' @ k \<noteq> k"
proof
  assume "''tenant/'' @ t @ ''/'' @ k = k"
  then have "length (''tenant/'' @ t @ ''/'' @ k) = length k" by (rule arg_cong)
  then show False by simp
qed

text \<open>
  A tenant's own build is never used. The image of a private component is recorded under its
  tenant-qualified registry key, but an image is resolved under the bare \<open>name@version\<close>: after any run
  of such a build, the private component still resolves exactly as it did before, to no image unless a
  public component of the same name and version has one.
\<close>

theorem private_build_is_never_used:
  assumes "row_get bl_id i (d_builds (w_committed w)) = Some row" "bl_tenant_id row = Some t"
    and "component_key c = bl_component_name row @ ''@'' @ bl_component_version row"
  shows "resolve_component_image (w_registry (snd (run_build i w))) c = resolve_component_image (w_registry w) c"
proof -
  obtain w' row' where r: "run_build i w = (Inr (), w')"
    "settled (registry_key_for_build row) (w_registry w) row' (w_registry w')"
    using run_build_run [OF assms(1)] by blast
  have key: "registry_key_for_build row = ''tenant/'' @ t @ ''/'' @ component_key c"
    using assms(2,3) by (simp add: registry_key_for_build_def)
  have "map_of (built_images (w_registry w')) (component_key c) = map_of (built_images (w_registry w)) (component_key c)"
    using r(2) private_key_differs [of t "component_key c"] unfolding settled_def key by (auto simp: update_conv')
  then show ?thesis using r(1) by (simp add: resolve_component_image_def Let_def split: source_type.split option.split)
qed

theorem private_build_is_never_used_witness:
  "\<exists>c. component_key c = ''jq@1'' \<and>
     resolve_component_image (w_registry (snd (run_build ''b1''
        (demo_world (empty_db\<lparr>d_builds := [demo_build (Some ''t1'')]\<rparr>) empty_registry)))) c = resolve_component_image empty_registry c"
  using private_build_is_never_used [of "''b1''" "demo_world (empty_db\<lparr>d_builds := [demo_build (Some ''t1'')]\<rparr>) empty_registry"
      "demo_build (Some ''t1'')" "''t1''" "language_component ''jq'' ''1''"]
  by (intro exI [of _ "language_component ''jq'' ''1''"])
    (simp add: demo_world_def demo_build_def row_get_def component_key_def language_component_def)

definition flights_unique :: "db \<Rightarrow> bool" where
  "flights_unique d \<longleftrightarrow> (\<forall>n v t. length (filter (\<lambda>r. bl_component_name r = n \<and> bl_component_version r = v \<and>
     bl_tenant_id r = t \<and> bl_status r \<in> {BuildPending, BuildRunning}) (d_builds d)) \<le> 1)"

lemma flights_unique_iff: "flights_unique d \<longleftrightarrow> (\<forall>n v t. length (filter (in_flight n v t) (d_builds d)) \<le> 1)"
  unfolding flights_unique_def in_flight_def [abs_def] ..

text \<open>
  Triggering is guarded and deduplicated. A request that succeeds comes from an administrator or the
  owning tenant; it returns an in-flight build of the same component when there is one and changes
  nothing then, and otherwise commits one new pending row; a refused request changes nothing. So no two
  in-flight builds of one component and tenant ever coexist.
\<close>

theorem trigger_build_effect:
  assumes "trigger_build key p w = (r, w')" "e_uuid (w_env w) (w_uuids w) \<notin> bl_id ` set (d_builds (w_db w))"
    and "flights_unique (w_db w)"
  shows "flights_unique (w_db w') \<and>
    (case r of
       Inl e \<Rightarrow> w' = w
     | Inr (row, fresh) \<Rightarrow>
         (is_admin p \<or> startswith key (''tenant/'' @ pr_tenant_id p @ ''/'')) \<and> bl_status row \<in> {BuildPending, BuildRunning} \<and>
         (if fresh then d_builds (w_db w') = d_builds (w_db w) @ [row] \<and> w_committed w' = w_db w'
          else row \<in> set (d_builds (w_db w)) \<and> w' = w))"
proof (cases "\<exists>c. map_of (components (w_registry w)) key = Some c \<and> can_build key p")
  case False
  then have "w' = w" "\<exists>e. r = Inl e"
    using assms(1) by (auto simp: trigger_build_def em_simps split: option.splits if_splits)
  with assms(3) show ?thesis by auto
next
  case True
  then obtain c where c: "map_of (components (w_registry w)) key = Some c" "can_build key p" by blast
  let ?n = "md_name (c_metadata c)" and ?v = "md_version (c_metadata c)" and ?t = "tenant_id_for key p"
  show ?thesis
  proof (cases "find (in_flight ?n ?v ?t) (d_builds (w_db w))")
    case (Some row)
    then have "r = Inr (row, False)" "w' = w" using assms(1) c by (simp_all add: trigger_build_def em_simps Let_def)
    moreover have "row \<in> set (d_builds (w_db w))" "in_flight ?n ?v ?t row" using Some by (auto simp: find_Some_iff)
    ultimately show ?thesis using assms(3) c(2) by (auto simp: in_flight_def can_build_def)
  next
    case None
    then obtain row where row: "r = Inr (row, True)" "bl_id row = e_uuid (w_env w) (w_uuids w)" "bl_status row = BuildPending"
      "bl_component_name row = ?n" "bl_component_version row = ?v" "bl_tenant_id row = ?t"
      "w_db w' = (w_db w)\<lparr>d_builds := row_put bl_id row (d_builds (w_db w))\<rparr>" "w_committed w' = w_db w'"
      using assms(1) c by (auto simp: trigger_build_def em_simps put_build_run Let_def)
    have builds: "d_builds (w_db w') = d_builds (w_db w) @ [row]" using row(2,7) assms(2) by (simp add: row_put_new)
    have none: "filter (in_flight ?n ?v ?t) (d_builds (w_db w)) = []" using None by (simp add: find_None_iff filter_empty_conv)
    have "length (filter (in_flight n v t) (d_builds (w_db w'))) \<le> 1" for n v t
    proof (cases "in_flight n v t row")
      case True
      then have "n = ?n" "v = ?v" "t = ?t" using row(4-6) by (auto simp: in_flight_def)
      then show ?thesis using none by (simp add: builds)
    next
      case False
      then show ?thesis using assms(3) by (simp add: builds flights_unique_iff)
    qed
    then show ?thesis using row builds c(2) by (simp add: flights_unique_iff can_build_def)
  qed
qed

definition builder :: principal where
  "builder = \<lparr>pr_tenant_id = ''t1'', pr_user_id = Some ''u1'', pr_role = ''admin''\<rparr>"

definition built_registry :: registry where
  "built_registry = \<lparr>components = [(''jq@1'', language_component ''jq'' ''1'')], templates = [], component_dirs = [],
     built_images = []\<rparr>"

theorem trigger_build_effect_witness:
  "\<exists>row w'. trigger_build ''jq@1'' builder (demo_world empty_db built_registry) = (Inr (row, True), w') \<and>
     d_builds (w_db w') = [row]"
proof -
  let ?w = "demo_world empty_db built_registry"
  obtain row w' where run: "trigger_build ''jq@1'' builder ?w = (Inr (row, True), w')"
    by (simp add: trigger_build_def em_simps demo_world_def built_registry_def builder_def can_build_def is_admin_def
        empty_db_def put_build_run Let_def)
  have "flights_unique (w_db ?w)" by (simp add: flights_unique_def demo_world_def empty_db_def)
  from trigger_build_effect [OF run _ this] run show ?thesis by (auto simp: demo_world_def empty_db_def)
qed

end
