(* ===== verification/Pty_Protocol.thy ===== *)
theory Pty_Protocol
  imports Manifests "HOL-Library.Word"
begin

section \<open>The terminal's wire protocol\<close>

text \<open>
  \<open>app/streaming/pty_protocol.py\<close> and the two pumps of \<open>app/streaming/ws_gateway.py\<close>: JSON text frames with
  base64 payloads. Bytes are 8-bit words. Base64 is that of Python's \<open>base64\<close> module; \<open>json.loads\<close> and
  pydantic's conversion to an integer are arguments.
\<close>

unbundle bit_operations_syntax

type_synonym byte = "8 word"

subsection \<open>Base64\<close>

definition b64_alphabet :: string where
  "b64_alphabet = ''ABCDEFGHIJKLMNOPQRSTUVWXYZabcdefghijklmnopqrstuvwxyz0123456789+/''"

definition b64_char :: "byte \<Rightarrow> char" where
  "b64_char v = b64_alphabet ! unat v"

definition b64_value :: "char \<Rightarrow> byte option" where
  "b64_value c = (if c \<in> set b64_alphabet then Some (of_nat (length (takeWhile (\<lambda>x. x \<noteq> c) b64_alphabet))) else None)"

text \<open>The four sextets of three bytes, most significant first.\<close>

definition sextet1 :: "byte \<Rightarrow> byte" where
  "sextet1 a = drop_bit 2 a"

definition sextet2 :: "byte \<Rightarrow> byte \<Rightarrow> byte" where
  "sextet2 a b = push_bit 4 (a AND 3) OR drop_bit 4 b"

definition sextet3 :: "byte \<Rightarrow> byte \<Rightarrow> byte" where
  "sextet3 b c = push_bit 2 (b AND 15) OR drop_bit 6 c"

definition sextet4 :: "byte \<Rightarrow> byte" where
  "sextet4 c = c AND 63"

fun b64encode :: "byte list \<Rightarrow> string" where
  "b64encode [] = []"
| "b64encode [a] = [b64_char (sextet1 a), b64_char (sextet2 a 0), CHR ''='', CHR ''='']"
| "b64encode [a, b] = [b64_char (sextet1 a), b64_char (sextet2 a b), b64_char (sextet3 b 0), CHR ''='']"
| "b64encode (a # b # c # rest) =
     b64_char (sextet1 a) # b64_char (sextet2 a b) # b64_char (sextet3 b c) # b64_char (sextet4 c) # b64encode rest"

text \<open>
  \<open>binascii.a2b_base64\<close> without strict mode: characters outside the alphabet are skipped, a complete pad
  ends the input, and what is left over at the end is an error. The state is the position in the
  quadruple, the bits left from the last character and the pads seen.
\<close>

fun a2b_base64 :: "nat \<Rightarrow> byte \<Rightarrow> nat \<Rightarrow> string \<Rightarrow> exn + byte list" where
  "a2b_base64 quad left_bits pads [] = (if quad = 0 then Inr [] else Inl (ValueError ''Incorrect padding''))"
| "a2b_base64 quad left_bits pads (ch # cs) =
     (if ch = CHR ''='' then
        (if 2 \<le> quad then (if 4 \<le> quad + Suc pads then Inr [] else a2b_base64 quad left_bits (Suc pads) cs)
         else a2b_base64 quad left_bits pads cs)
      else case b64_value ch of
        None \<Rightarrow> a2b_base64 quad left_bits pads cs
      | Some v \<Rightarrow>
          (if quad = 0 then a2b_base64 1 v 0 cs
           else if quad = 1 then
             map_sum id ((#) (push_bit 2 left_bits OR drop_bit 4 v)) (a2b_base64 2 (v AND 15) 0 cs)
           else if quad = 2 then
             map_sum id ((#) (push_bit 4 left_bits OR drop_bit 2 v)) (a2b_base64 3 (v AND 3) 0 cs)
           else map_sum id ((#) (push_bit 6 left_bits OR v)) (a2b_base64 0 0 0 cs)))"

definition b64decode :: "string \<Rightarrow> exn + byte list" where
  "b64decode s =
     (if list_all (\<lambda>c. (of_char c :: nat) < 128) s then a2b_base64 0 0 0 s
      else Inl (ValueError ''string argument should contain only ASCII characters''))"

subsection \<open>Frames\<close>

datatype pty_signal = SIGINT | SIGQUIT | SIGTSTP

fun signal_bytes :: "pty_signal \<Rightarrow> byte list" where
  "signal_bytes SIGINT = [0x03]"
| "signal_bytes SIGQUIT = [0x1c]"
| "signal_bytes SIGTSTP = [0x1a]"

definition signal_named :: "string \<Rightarrow> pty_signal option" where
  "signal_named s = map_of [(''SIGINT'', SIGINT), (''SIGQUIT'', SIGQUIT), (''SIGTSTP'', SIGTSTP)] s"

datatype client_frame = StdinFrame string | ResizeFrame int int | SignalFrame pty_signal

datatype server_frame = OutputFrame string | ExitFrame int

text \<open>\<open>model.model_validate(payload)\<close> for the three frame types; \<open>to_int\<close> is pydantic's reading of an integer.\<close>

definition validate_stdin :: "(string \<times> json) list \<Rightarrow> client_frame option" where
  "validate_stdin kvs = (case map_of kvs ''data'' of Some (JString d) \<Rightarrow> Some (StdinFrame d) | _ \<Rightarrow> None)"

definition validate_resize :: "(json \<Rightarrow> int option) \<Rightarrow> (string \<times> json) list \<Rightarrow> client_frame option" where
  "validate_resize to_int kvs =
     (case (Option.bind (map_of kvs ''cols'') to_int, Option.bind (map_of kvs ''rows'') to_int) of
        (Some c, Some r) \<Rightarrow> Some (ResizeFrame c r)
      | _ \<Rightarrow> None)"

definition validate_signal :: "(string \<times> json) list \<Rightarrow> client_frame option" where
  "validate_signal kvs =
     (case map_of kvs ''signal'' of Some (JString s) \<Rightarrow> map_option SignalFrame (signal_named s) | _ \<Rightarrow> None)"

definition client_frame_model ::
  "(json \<Rightarrow> int option) \<Rightarrow> string \<Rightarrow> ((string \<times> json) list \<Rightarrow> client_frame option) option" where
  "client_frame_model to_int t =
     map_of [(''stdin'', validate_stdin), (''resize'', validate_resize to_int), (''signal'', validate_signal)] t"

text \<open>
  A list or an object cannot be looked up in a dict, so such a \<open>type\<close> raises \<open>TypeError\<close>; every other
  value that is not one of the three names raises \<open>ValueError\<close>.
\<close>

definition parse_client_frame ::
  "(string \<Rightarrow> json option) \<Rightarrow> (json \<Rightarrow> int option) \<Rightarrow> string \<Rightarrow> exn + client_frame" where
  "parse_client_frame loads to_int raw =
     (case loads raw of
        None \<Rightarrow> Inl (ValueError ''not valid JSON'')
      | Some (JObject kvs) \<Rightarrow>
          (case map_of kvs ''type'' of
             Some (JList _) \<Rightarrow> Inl (OtherException ''TypeError'')
           | Some (JObject _) \<Rightarrow> Inl (OtherException ''TypeError'')
           | Some (JString t) \<Rightarrow>
               (case client_frame_model to_int t of
                  None \<Rightarrow> Inl (ValueError ''unknown client frame type'')
                | Some validate \<Rightarrow>
                    (case validate kvs of None \<Rightarrow> Inl (ValueError ''validation'') | Some frame \<Rightarrow> Inr frame))
           | _ \<Rightarrow> Inl (ValueError ''unknown client frame type''))
      | Some _ \<Rightarrow> Inl (ValueError ''expected a JSON object''))"

subsection \<open>The pumps\<close>

datatype pty_op = WriteStdin "byte list" | ResizePty int int

definition frame_op :: "client_frame \<Rightarrow> exn + pty_op" where
  "frame_op frame =
     (case frame of
        StdinFrame d \<Rightarrow> map_sum id WriteStdin (b64decode d)
      | ResizeFrame c r \<Rightarrow> Inr (ResizePty c r)
      | SignalFrame s \<Rightarrow> Inr (WriteStdin (signal_bytes s)))"

fun is_value_error :: "exn \<Rightarrow> bool" where
  "is_value_error (ValueError _) = True"
| "is_value_error _ = False"

definition disconnect :: exn where
  "disconnect = OtherException ''WebSocketDisconnect''"

text \<open>
  \<open>_ws_to_pty\<close> over the messages a client sends before it disconnects: what is done to the terminal, and
  the exception that ends the loop.
\<close>

fun ws_to_pty :: "(string \<Rightarrow> json option) \<Rightarrow> (json \<Rightarrow> int option) \<Rightarrow> string list \<Rightarrow> pty_op list \<times> exn" where
  "ws_to_pty loads to_int [] = ([], disconnect)"
| "ws_to_pty loads to_int (raw # raws) =
     (case parse_client_frame loads to_int raw of
        Inl e \<Rightarrow> if is_value_error e then ws_to_pty loads to_int raws else ([], e)
      | Inr frame \<Rightarrow>
          (case frame_op frame of
             Inl e \<Rightarrow> ([], e)
           | Inr act \<Rightarrow> (case ws_to_pty loads to_int raws of (acts, e) \<Rightarrow> (act # acts, e))))"

datatype pty_event = PtyOutput "byte list option" | PtyExit "int option"

text \<open>\<open>_pty_to_ws\<close> over the events read; \<open>None\<close> is the end of the stream.\<close>

fun pty_to_ws :: "pty_event option list \<Rightarrow> server_frame list" where
  "pty_to_ws [] = []"
| "pty_to_ws (None # events) = []"
| "pty_to_ws (Some (PtyOutput d) # events) =
     OutputFrame (b64encode (case d of None \<Rightarrow> [] | Some bs \<Rightarrow> bs)) # pty_to_ws events"
| "pty_to_ws (Some (PtyExit code) # events) = [ExitFrame (case code of None \<Rightarrow> 0 | Some n \<Rightarrow> n)]"

text \<open>\<open>_pump\<close>: the loop that ends first decides; a disconnect is not an error.\<close>

definition pump_result :: "exn option \<Rightarrow> exn option" where
  "pump_result first = (case first of None \<Rightarrow> None | Some e \<Rightarrow> if e = disconnect then None else Some e)"

subsection \<open>Laws of base64\<close>

lemma alphabet_facts:
  assumes "n < 64"
  shows "b64_value (b64_alphabet ! n) = Some (of_nat n)" "b64_alphabet ! n \<noteq> CHR ''=''" "(of_char (b64_alphabet ! n) :: nat) < 128"
proof -
  have "list_all (\<lambda>n. b64_value (b64_alphabet ! n) = Some (of_nat n) \<and> b64_alphabet ! n \<noteq> CHR ''='' \<and>
      (of_char (b64_alphabet ! n) :: nat) < 128) [0..<64]" by code_simp
  with assms show "b64_value (b64_alphabet ! n) = Some (of_nat n)" "b64_alphabet ! n \<noteq> CHR ''=''"
    "(of_char (b64_alphabet ! n) :: nat) < 128" by (simp_all add: list_all_iff)
qed

text \<open>A sextet is a byte below 64; the four sextets of three bytes are.\<close>

lemma sextet_nat: "(v :: byte) < 64 \<Longrightarrow> unat v < 64"
  by (simp add: word_less_nat_alt)

lemma sextetI: "take_bit 6 v = v \<Longrightarrow> (v :: byte) < 64"
proof -
  assume "take_bit 6 v = v"
  then have "v = v AND 63" by (simp add: take_bit_eq_mask mask_eq_exp_minus_1)
  then have "v \<le> 63" by (metis word_and_le1)
  then show ?thesis by (simp add: word_le_nat_alt word_less_nat_alt)
qed

lemma byte_bits: "n < 8 \<Longrightarrow> n = 0 \<or> n = 1 \<or> n = 2 \<or> n = 3 \<or> n = 4 \<or> n = 5 \<or> n = 6 \<or> n = (7::nat)"
  by linarith

lemma byte_eqI:
  assumes "bit a 0 = bit b 0" "bit a 1 = bit b 1" "bit a 2 = bit b 2" "bit a 3 = bit b 3"
    "bit a 4 = bit b 4" "bit a 5 = bit b 5" "bit a 6 = bit b 6" "bit a 7 = bit b 7"
  shows "a = (b :: byte)"
  by (rule bit_word_eqI) (use assms in \<open>auto dest!: byte_bits\<close>)

lemma no_bit_beyond: "8 \<le> n \<Longrightarrow> \<not> bit (a :: byte) n"
  using bit_imp_le_length [of a n] by auto

lemma three_mask: "(3 :: byte) = mask 2" "(15 :: byte) = mask 4" "(63 :: byte) = mask 6"
  by (simp_all add: mask_eq_exp_minus_1)

lemma sextets: "sextet1 a < 64" "sextet2 a b < 64" "sextet3 b c < 64" "sextet4 c < 64"
  unfolding sextet1_def sextet2_def sextet3_def sextet4_def
  by (rule sextetI, rule byte_eqI; simp add: three_mask bit_simps no_bit_beyond)+

lemma bytes_of_sextets:
  "push_bit 2 (sextet1 a) OR drop_bit 4 (sextet2 a b) = a"
  "push_bit 4 (sextet2 a b AND 15) OR drop_bit 2 (sextet3 b c) = b"
  "push_bit 6 (sextet3 b c AND 3) OR sextet4 c = c"
  unfolding sextet1_def sextet2_def sextet3_def sextet4_def
  by (rule byte_eqI; simp add: three_mask bit_simps no_bit_beyond)+

lemma b64_char_facts:
  assumes "(v :: byte) < 64"
  shows "b64_value (b64_char v) = Some v" "b64_char v \<noteq> CHR ''=''" "(of_char (b64_char v) :: nat) < 128"
  using alphabet_facts [OF sextet_nat [OF assms]] by (simp_all add: b64_char_def)

lemma a2b_sextet:
  assumes "(v :: byte) < 64"
  shows "a2b_base64 0 l p (b64_char v # cs) = a2b_base64 1 v 0 cs"
    and "a2b_base64 (Suc 0) l p (b64_char v # cs) = map_sum id ((#) (push_bit 2 l OR drop_bit 4 v)) (a2b_base64 2 (v AND 15) 0 cs)"
    and "a2b_base64 2 l p (b64_char v # cs) = map_sum id ((#) (push_bit 4 l OR drop_bit 2 v)) (a2b_base64 3 (v AND 3) 0 cs)"
    and "a2b_base64 3 l p (b64_char v # cs) = map_sum id ((#) (push_bit 6 l OR v)) (a2b_base64 0 0 0 cs)"
  using b64_char_facts [OF assms] by simp_all

lemma a2b_encode: "a2b_base64 0 0 0 (b64encode bs) = Inr bs"
proof (induction bs rule: b64encode.induct)
  case (2 a)
  show ?case by (simp only: b64encode.simps a2b_sextet sextets One_nat_def bytes_of_sextets) simp
next
  case (3 a b)
  show ?case by (simp only: b64encode.simps a2b_sextet sextets One_nat_def bytes_of_sextets) simp
next
  case (4 a b c rest)
  then show ?case by (simp only: b64encode.simps a2b_sextet sextets One_nat_def bytes_of_sextets) simp
qed simp

lemma encode_ascii: "list_all (\<lambda>c. (of_char c :: nat) < 128) (b64encode bs)"
  by (induction bs rule: b64encode.induct) (simp_all add: b64_char_facts sextets)

text \<open>
  Binary data survives the wire. Whatever bytes a terminal or a client sends, decoding the base64
  payload of the frame that carries them gives back exactly those bytes.
\<close>

lemma base64_roundtrip: "b64decode (b64encode bs) = Inr bs"
  by (simp add: b64decode_def encode_ascii a2b_encode)

subsection \<open>Laws of the pumps\<close>

definition frame_output :: "server_frame \<Rightarrow> byte list" where
  "frame_output f = (case f of OutputFrame d \<Rightarrow> (case b64decode d of Inr bs \<Rightarrow> bs | Inl _ \<Rightarrow> []) | ExitFrame _ \<Rightarrow> [])"

text \<open>What the terminal printed before it exited or the stream ended.\<close>

fun output_until_end :: "pty_event option list \<Rightarrow> byte list" where
  "output_until_end (Some (PtyOutput (Some bs)) # events) = bs @ output_until_end events"
| "output_until_end (Some (PtyOutput None) # events) = output_until_end events"
| "output_until_end _ = []"

fun is_exit :: "server_frame \<Rightarrow> bool" where
  "is_exit (ExitFrame _) = True"
| "is_exit _ = False"

text \<open>
  The client sees what the terminal printed. Concatenating the decoded payloads of the frames sent
  gives exactly the bytes read before the exit or the end of the stream, in order, and an exit frame can
  only be the last one.
\<close>

theorem terminal_output_is_faithful:
  "concat (map frame_output (pty_to_ws events)) = output_until_end events \<and> list_all (\<lambda>f. \<not> is_exit f) (butlast (pty_to_ws events))"
proof
  show "concat (map frame_output (pty_to_ws events)) = output_until_end events"
    by (induction events rule: output_until_end.induct) (auto simp: frame_output_def base64_roundtrip [of "[]", simplified] base64_roundtrip)
  show "list_all (\<lambda>f. \<not> is_exit f) (butlast (pty_to_ws events))"
    by (induction events rule: pty_to_ws.induct) simp_all
qed

definition accepted_op :: "(string \<Rightarrow> json option) \<Rightarrow> (json \<Rightarrow> int option) \<Rightarrow> string \<Rightarrow> pty_op option" where
  "accepted_op loads to_int raw =
     (case parse_client_frame loads to_int raw of
        Inl _ \<Rightarrow> None
      | Inr frame \<Rightarrow> (case frame_op frame of Inl _ \<Rightarrow> None | Inr act \<Rightarrow> Some act))"

text \<open>A message the loop survives: parsing it raises \<open>ValueError\<close> at worst, and its payload decodes.\<close>

definition survivable :: "(string \<Rightarrow> json option) \<Rightarrow> (json \<Rightarrow> int option) \<Rightarrow> string \<Rightarrow> bool" where
  "survivable loads to_int raw =
     (case parse_client_frame loads to_int raw of
        Inl e \<Rightarrow> is_value_error e
      | Inr frame \<Rightarrow> (case frame_op frame of Inl _ \<Rightarrow> False | Inr _ \<Rightarrow> True))"

lemma a2b_error: "a2b_base64 q l p cs = Inl e \<Longrightarrow> is_value_error e"
  by (induction q l p cs rule: a2b_base64.induct) (auto split: if_splits option.splits sum.splits simp: map_sum_def)

lemma not_disconnect:
  "parse_client_frame loads to_int raw = Inl e \<Longrightarrow> e \<noteq> disconnect" "frame_op frame = Inl e \<Longrightarrow> e \<noteq> disconnect"
proof -
  show "e \<noteq> disconnect" if "parse_client_frame loads to_int raw = Inl e"
    using that by (auto simp: parse_client_frame_def disconnect_def split: option.splits json.splits)
  show "e \<noteq> disconnect" if "frame_op frame = Inl e"
  proof (cases frame)
    case (StdinFrame d)
    with that have "is_value_error e" using a2b_error
      by (cases "b64decode d") (auto simp: frame_op_def b64decode_def split: if_splits)
    then show ?thesis by (auto simp: disconnect_def)
  qed (use that in \<open>simp_all add: frame_op_def\<close>)
qed

lemma ws_to_pty_survives:
  "list_all (survivable loads to_int) raws \<Longrightarrow>
     ws_to_pty loads to_int (raws @ more_raws) =
       (let (acts, e) = ws_to_pty loads to_int more_raws in (List.map_filter (accepted_op loads to_int) raws @ acts, e))"
proof (induction raws)
  case (Cons raw raws)
  then show ?case
    by (cases "parse_client_frame loads to_int raw"; cases "ws_to_pty loads to_int more_raws")
      (auto simp: survivable_def accepted_op_def List.map_filter_def split: sum.splits)
qed (simp add: List.map_filter_def case_prod_beta)

text \<open>
  A bad frame costs only itself. As long as every message either is rejected by the parser or
  carries a payload that decodes, the loop ends with the client's disconnect only, having applied to the
  terminal the accepted frames in the order they came; the first message that breaks this ends it there,
  with everything before it applied.
\<close>

theorem bad_frames_are_dropped:
  assumes "list_all (survivable loads to_int) raws"
  shows "ws_to_pty loads to_int raws = (List.map_filter (accepted_op loads to_int) raws, disconnect) \<and>
    pump_result (Some (snd (ws_to_pty loads to_int raws))) = None \<and>
    (\<not> survivable loads to_int raw \<longrightarrow>
       fst (ws_to_pty loads to_int (raws @ raw # later)) = List.map_filter (accepted_op loads to_int) raws \<and>
       pump_result (Some (snd (ws_to_pty loads to_int (raws @ raw # later)))) \<noteq> None)"
proof -
  have run: "ws_to_pty loads to_int raws = (List.map_filter (accepted_op loads to_int) raws, disconnect)"
    using ws_to_pty_survives [OF assms, of "[]"] by simp
  have stop: "fst (ws_to_pty loads to_int (raw # later)) = []"
    "pump_result (Some (snd (ws_to_pty loads to_int (raw # later)))) \<noteq> None" if "\<not> survivable loads to_int raw"
    using that not_disconnect
    by (auto simp: survivable_def pump_result_def split: sum.splits)
  show ?thesis
    using run stop ws_to_pty_survives [OF assms, of "raw # later"]
    by (auto simp: pump_result_def case_prod_beta)
qed

definition demo_loads :: "string \<Rightarrow> json option" where
  "demo_loads raw = map_of
     [(''number'', JInt 1),
      (''hi'', JObject [(''type'', JString ''stdin''), (''data'', JString ''aGk='')]),
      (''odd'', JObject [(''type'', JString ''stdin''), (''data'', JString ''A'')])] raw"

definition demo_int :: "json \<Rightarrow> int option" where
  "demo_int v = (case v of JInt n \<Rightarrow> Some n | _ \<Rightarrow> None)"

lemma demo_frames:
  "parse_client_frame demo_loads demo_int ''number'' = Inl (ValueError ''expected a JSON object'')"
  "parse_client_frame demo_loads demo_int ''hi'' = Inr (StdinFrame ''aGk='')"
  "parse_client_frame demo_loads demo_int ''odd'' = Inr (StdinFrame ''A'')"
  by (simp_all add: parse_client_frame_def demo_loads_def client_frame_model_def validate_stdin_def)

lemma demo_payloads: "b64decode ''aGk='' = Inr [0x68, 0x69]" "b64decode ''A'' = Inl (ValueError ''Incorrect padding'')"
  by code_simp+

text \<open>
  One payload that is not base64 ends the session, although the parser's documentation promises to drop
  such a frame: the decoding happens outside the \<open>try\<close>.
\<close>

theorem one_bad_payload_ends_the_session:
  "ws_to_pty demo_loads demo_int [''odd'', ''hi''] = ([], ValueError ''Incorrect padding'') \<and>
   pump_result (Some (ValueError ''Incorrect padding'')) = Some (ValueError ''Incorrect padding'')"
  by (simp add: demo_frames frame_op_def demo_payloads pump_result_def disconnect_def)

theorem bad_frames_are_dropped_witness:
  "ws_to_pty demo_loads demo_int [''number'', ''hi''] = ([WriteStdin [0x68, 0x69]], disconnect)"
proof -
  have "list_all (survivable demo_loads demo_int) [''number'', ''hi'']"
    by (simp add: survivable_def demo_frames frame_op_def demo_payloads)
  from bad_frames_are_dropped [OF this] show ?thesis
    by (simp add: List.map_filter_def accepted_op_def demo_frames frame_op_def demo_payloads)
qed

end
