(* ===== verification/Streaming.thy ===== *)
theory Streaming
  imports Pty_Protocol Sandbox_Lifecycle
begin

section \<open>Interactive attach\<close>

text \<open>
  \<open>app/streaming/ws_gateway.py\<close>: the guards of an attach, and the viewer lock as a step relation over the
  sessions of one sandbox. Redis is a service: its \<open>GET\<close>, \<open>SET EX\<close> and \<open>EXPIRE\<close> are a parameter, with their
  documented behaviour as a named hypothesis. Times are in seconds of the Redis server's clock.
\<close>

subsection \<open>Keys that expire\<close>

record 'k kv_ops =
  kv_get :: "'k \<Rightarrow> int \<Rightarrow> string \<Rightarrow> string option"
  kv_set_ex :: "'k \<Rightarrow> int \<Rightarrow> string \<Rightarrow> string \<Rightarrow> int \<Rightarrow> 'k"
  kv_expire :: "'k \<Rightarrow> int \<Rightarrow> string \<Rightarrow> int \<Rightarrow> 'k"

text \<open>
  What a reader at a later time sees: a key set with a time to live has its value until then, \<open>EXPIRE\<close>
  gives a live key a new time to live and does nothing to a missing one, and other keys are not affected.
\<close>

definition expiring_keys :: "'k kv_ops \<Rightarrow> bool" where
  "expiring_keys ops \<longleftrightarrow>
     (\<forall>s now k v ttl t k'. now \<le> t \<longrightarrow>
        kv_get ops (kv_set_ex ops s now k v ttl) t k' = (if k' = k then if t < now + ttl then Some v else None else kv_get ops s t k')) \<and>
     (\<forall>s now k ttl t k'. now \<le> t \<longrightarrow>
        kv_get ops (kv_expire ops s now k ttl) t k' =
          (if k' = k \<and> kv_get ops s now k \<noteq> None then if t < now + ttl then kv_get ops s now k else None else kv_get ops s t k'))"

lemma get_set_ex:
  "expiring_keys ops \<Longrightarrow> now \<le> t \<Longrightarrow> kv_get ops (kv_set_ex ops s now k v ttl) t k = (if t < now + ttl then Some v else None)"
  by (simp add: expiring_keys_def)

lemma get_expire:
  "expiring_keys ops \<Longrightarrow> now \<le> t \<Longrightarrow> kv_get ops s now k = Some v \<Longrightarrow>
     kv_get ops (kv_expire ops s now k ttl) t k = (if t < now + ttl then Some v else None)"
  by (simp add: expiring_keys_def)

subsection \<open>The viewer lock\<close>

definition lock_ttl_seconds :: int where
  "lock_ttl_seconds = 30"

definition heartbeat_interval_seconds :: int where
  "heartbeat_interval_seconds = 10"

definition lock_key :: "string \<Rightarrow> string" where
  "lock_key sandbox_id = ''attach:'' @ sandbox_id"

definition viewer_identity :: "principal \<Rightarrow> string" where
  "viewer_identity p = (case py_or (pr_user_id p) None of Some u \<Rightarrow> u | None \<Rightarrow> ''service:'' @ pr_tenant_id p)"

text \<open>\<open>_acquire_viewer_lock\<close> reads and then writes: the two halves are two commands.\<close>

definition viewer_check :: "'k kv_ops \<Rightarrow> 'k \<Rightarrow> int \<Rightarrow> string \<Rightarrow> string \<Rightarrow> exn option" where
  "viewer_check ops store now sandbox_id identity =
     (case kv_get ops store now (lock_key sandbox_id) of
        None \<Rightarrow> None
      | Some current \<Rightarrow>
          if current \<noteq> identity then Some (HTTPException 409 ''sandbox already has an active interactive viewer'') else None)"

definition viewer_claim :: "'k kv_ops \<Rightarrow> 'k \<Rightarrow> int \<Rightarrow> string \<Rightarrow> string \<Rightarrow> 'k" where
  "viewer_claim ops store now sandbox_id identity =
     kv_set_ex ops store now (lock_key sandbox_id) identity lock_ttl_seconds"

definition heartbeat :: "'k kv_ops \<Rightarrow> 'k \<Rightarrow> int \<Rightarrow> string \<Rightarrow> string \<Rightarrow> 'k" where
  "heartbeat ops store now sandbox_id identity =
     (if kv_get ops store now (lock_key sandbox_id) = Some identity
      then kv_expire ops store now (lock_key sandbox_id) lock_ttl_seconds else store)"

subsection \<open>The handler\<close>

fun is_sandbox_not_found :: "exn \<Rightarrow> bool" where
  "is_sandbox_not_found (SandboxNotFoundError _) = True"
| "is_sandbox_not_found _ = False"

definition attach_guard :: "string \<Rightarrow> principal \<Rightarrow> unit prog" where
  "attach_guard sandbox_id p =
     bind_em (catch_em (get_sandbox sandbox_id (pr_tenant_id p)) is_sandbox_not_found
                (\<lambda>_. raise_em (HTTPException 404 ''no such sandbox''))) (\<lambda>row.
     if sb_state row = Terminated then raise_em (HTTPException 404 ''no such sandbox'') else return_em ())"

text \<open>
  The handler up to the pumps. The store is read at the check and written at the claim, and other
  clients may have changed it in between, so both stores and both times are arguments. An attach that
  gets past the lock yields the store after the claim, and what came of the terminal: opened, refused (the
  socket is closed with 1011), or an exception that is not the control plane's.
\<close>

definition open_terminal :: "sandbox_config \<Rightarrow> string \<Rightarrow> string \<Rightarrow> (exn + bool) prog" where
  "open_terminal cfg sandbox_id tenant_id = (\<lambda>w. case open_pty cfg sandbox_id tenant_id w of
     (Inr _, w') \<Rightarrow> (Inr (Inr True), w')
   | (Inl e, w') \<Rightarrow> (Inr (if is_kubesandbox_error e then Inr False else Inl e), w'))"

definition attach ::
  "'k kv_ops \<Rightarrow> sandbox_config \<Rightarrow> string \<Rightarrow> principal \<Rightarrow> 'k \<times> int \<Rightarrow> 'k \<times> int \<Rightarrow> ((exn + bool) \<times> 'k) prog" where
  "attach ops cfg sandbox_id p seen claimed =
     seq_em (attach_guard sandbox_id p)
       (case viewer_check ops (fst seen) (snd seen) sandbox_id (viewer_identity p) of
          Some e \<Rightarrow> raise_em e
        | None \<Rightarrow>
            (let store = viewer_claim ops (fst claimed) (snd claimed) sandbox_id (viewer_identity p) in
             bind_em (open_terminal cfg sandbox_id (pr_tenant_id p)) (\<lambda>opened. return_em (opened, store))))"

subsection \<open>The sessions of one sandbox\<close>

text \<open>
  Sessions that have passed the check and not yet claimed, and attached sessions with the time their
  heartbeat sleeps until. A heartbeat wakes up at most \<open>late\<close> seconds after that, which bounds how far
  the clock can run ahead of it. Leaving does not touch the lock.
\<close>

record 'k viewers =
  vw_store :: 'k
  vw_now :: int
  vw_checked :: "(nat \<times> string) list"
  vw_attached :: "(nat \<times> string \<times> int) list"

datatype viewer_event = Check nat string | Claim nat string | Beat nat string | Leave nat string | Tick int

inductive viewer_step :: "'k kv_ops \<Rightarrow> string \<Rightarrow> int \<Rightarrow> 'k viewers \<Rightarrow> viewer_event \<Rightarrow> 'k viewers \<Rightarrow> bool"
  for ops :: "'k kv_ops" and sandbox_id :: string and late :: int where
  check: "viewer_check ops (vw_store s) (vw_now s) sandbox_id i = None \<Longrightarrow>
    viewer_step ops sandbox_id late s (Check n i) (s\<lparr>vw_checked := (n, i) # vw_checked s\<rparr>)"
| claim: "(n, i) \<in> set (vw_checked s) \<Longrightarrow>
    viewer_step ops sandbox_id late s (Claim n i)
      (s\<lparr>vw_checked := remove1 (n, i) (vw_checked s), vw_store := viewer_claim ops (vw_store s) (vw_now s) sandbox_id i,
         vw_attached := (n, i, vw_now s + heartbeat_interval_seconds) # vw_attached s\<rparr>)"
| beat: "(n, i, t) \<in> set (vw_attached s) \<Longrightarrow> t \<le> vw_now s \<Longrightarrow>
    viewer_step ops sandbox_id late s (Beat n i)
      (s\<lparr>vw_store := heartbeat ops (vw_store s) (vw_now s) sandbox_id i,
         vw_attached := (n, i, vw_now s + heartbeat_interval_seconds) # remove1 (n, i, t) (vw_attached s)\<rparr>)"
| leave: "(n, i, t) \<in> set (vw_attached s) \<Longrightarrow>
    viewer_step ops sandbox_id late s (Leave n i) (s\<lparr>vw_attached := remove1 (n, i, t) (vw_attached s)\<rparr>)"
| tick: "0 < d \<Longrightarrow> \<forall>(n, i, t)\<in>set (vw_attached s). vw_now s + d \<le> t + late \<Longrightarrow>
    viewer_step ops sandbox_id late s (Tick d) (s\<lparr>vw_now := vw_now s + d\<rparr>)"

inductive viewer_run :: "'k kv_ops \<Rightarrow> string \<Rightarrow> int \<Rightarrow> 'k viewers \<Rightarrow> viewer_event list \<Rightarrow> 'k viewers \<Rightarrow> bool"
  for ops :: "'k kv_ops" and sandbox_id :: string and late :: int where
  stay: "viewer_run ops sandbox_id late s [] s"
| further: "viewer_run ops sandbox_id late s es s' \<Longrightarrow> viewer_step ops sandbox_id late s' e s'' \<Longrightarrow>
    viewer_run ops sandbox_id late s (es @ [e]) s''"

inductive_cases viewer_stepE: "viewer_step ops sandbox_id late s e s'"

text \<open>No event comes between the two halves of an acquisition.\<close>

fun uninterrupted :: "viewer_event list \<Rightarrow> bool" where
  "uninterrupted (Check n i # es) = (case es of [] \<Rightarrow> True | e # _ \<Rightarrow> e = Claim n i \<and> uninterrupted es)"
| "uninterrupted (_ # es) = uninterrupted es"
| "uninterrupted [] = True"

definition no_viewers :: "'k \<Rightarrow> int \<Rightarrow> 'k viewers" where
  "no_viewers store now = \<lparr>vw_store = store, vw_now = now, vw_checked = [], vw_attached = []\<rparr>"

subsection \<open>Laws\<close>

text \<open>
  The invariant: every attached viewer's lock stays its own until 20 seconds after its heartbeat is due,
  and no heartbeat is that late.
\<close>

definition viewers_ok :: "'k kv_ops \<Rightarrow> string \<Rightarrow> int \<Rightarrow> 'k viewers \<Rightarrow> bool" where
  "viewers_ok ops sandbox_id late s \<longleftrightarrow>
     (\<forall>(n, i, t)\<in>set (vw_attached s). vw_now s \<le> t + late \<and> t \<le> vw_now s + heartbeat_interval_seconds \<and>
        (\<forall>u. vw_now s \<le> u \<and> u < t + (lock_ttl_seconds - heartbeat_interval_seconds) \<longrightarrow>
           kv_get ops (vw_store s) u (lock_key sandbox_id) = Some i))"

lemma viewers_ok_holder:
  assumes "viewers_ok ops sandbox_id late s" "late < lock_ttl_seconds - heartbeat_interval_seconds" "(n, i, t) \<in> set (vw_attached s)"
  shows "kv_get ops (vw_store s) (vw_now s) (lock_key sandbox_id) = Some i"
  using assms by (fastforce simp: viewers_ok_def)

lemma viewers_ok_same:
  assumes "viewers_ok ops sandbox_id late s" "late < lock_ttl_seconds - heartbeat_interval_seconds"
    "(n, i, t) \<in> set (vw_attached s)" "(m, j, u) \<in> set (vw_attached s)"
  shows "i = j"
  using viewers_ok_holder [OF assms(1,2,3)] viewers_ok_holder [OF assms(1,2,4)] by simp

text \<open>A store in which the lock is freshly \<open>i\<close>'s is fine for any sessions of \<open>i\<close>.\<close>

lemma viewers_ok_refreshed:
  assumes "\<And>u. now \<le> u \<Longrightarrow> kv_get ops store u (lock_key sandbox_id) = (if u < now + lock_ttl_seconds then Some i else None)"
    and "\<And>n j t. (n, j, t) \<in> set att \<Longrightarrow> j = i \<and> now \<le> t + late \<and> t \<le> now + heartbeat_interval_seconds"
  shows "viewers_ok ops sandbox_id late \<lparr>vw_store = store, vw_now = now, vw_checked = c, vw_attached = att\<rparr>"
  using assms by (fastforce simp: viewers_ok_def)

lemma uninterrupted_snoc:
  "uninterrupted (es @ [e]) \<Longrightarrow> uninterrupted es \<and> (\<forall>n i. es \<noteq> [] \<and> last es = Check n i \<longrightarrow> e = Claim n i)"
proof (induction es rule: uninterrupted.induct)
  case (1 n i es)
  then show ?case by (cases es) auto
qed auto

definition pending :: "viewer_event list \<Rightarrow> (nat \<times> string) list" where
  "pending es = (case rev es of Check n i # _ \<Rightarrow> [(n, i)] | _ \<Rightarrow> [])"

lemma pending_snoc [simp]: "pending (es @ [e]) = (case e of Check n i \<Rightarrow> [(n, i)] | _ \<Rightarrow> [])"
  by (simp add: pending_def split: viewer_event.split)

lemma pending_empty [simp]: "pending [] = []"
  by (simp add: pending_def)

lemma pending_last: "pending es = [(n, i)] \<Longrightarrow> es \<noteq> [] \<and> last es = Check n i"
  by (cases es rule: rev_cases) (auto split: viewer_event.splits)

lemma pending_cases: "pending es = [] \<or> (\<exists>n i. pending es = [(n, i)])"
  by (cases es rule: rev_cases) (auto split: viewer_event.splits)

lemma viewers_ok_step:
  assumes "expiring_keys ops" "0 \<le> late" "late < lock_ttl_seconds - heartbeat_interval_seconds"
    and step: "viewer_step ops sandbox_id late s e s'" and ok: "viewers_ok ops sandbox_id late s"
    and claims: "\<And>n i. e = Claim n i \<Longrightarrow> viewer_check ops (vw_store s) (vw_now s) sandbox_id i = None"
  shows "viewers_ok ops sandbox_id late s'"
  using step
proof cases
  case (check i n)
  then show ?thesis using ok by (simp add: viewers_ok_def)
next
  case (claim n i)
  have mine: "j = i \<and> vw_now s \<le> t + late \<and> t \<le> vw_now s + heartbeat_interval_seconds" if "(m, j, t) \<in> set (vw_attached s)" for m j t
    using viewers_ok_holder [OF ok assms(3) that] claims [OF claim(1)] ok that
    by (auto simp: viewer_check_def viewers_ok_def split: if_splits)
  have "viewers_ok ops sandbox_id late \<lparr>vw_store = viewer_claim ops (vw_store s) (vw_now s) sandbox_id i, vw_now = vw_now s,
      vw_checked = remove1 (n, i) (vw_checked s), vw_attached = (n, i, vw_now s + heartbeat_interval_seconds) # vw_attached s\<rparr>"
    by (rule viewers_ok_refreshed) (use mine assms(1,2) in \<open>auto simp: viewer_claim_def get_set_ex heartbeat_interval_seconds_def\<close>)
  then show ?thesis using claim(2) by (simp add: viewers_ok_def)
next
  case (beat n i t)
  have holder: "kv_get ops (vw_store s) (vw_now s) (lock_key sandbox_id) = Some i" using viewers_ok_holder [OF ok assms(3) beat(3)] .
  have mine: "j = i \<and> vw_now s \<le> u + late \<and> u \<le> vw_now s + heartbeat_interval_seconds" if "(m, j, u) \<in> set (vw_attached s)" for m j u
    using viewers_ok_same [OF ok assms(3) that beat(3)] ok that by (auto simp: viewers_ok_def)
  have "viewers_ok ops sandbox_id late \<lparr>vw_store = heartbeat ops (vw_store s) (vw_now s) sandbox_id i, vw_now = vw_now s,
      vw_checked = vw_checked s,
      vw_attached = (n, i, vw_now s + heartbeat_interval_seconds) # remove1 (n, i, t) (vw_attached s)\<rparr>"
    by (rule viewers_ok_refreshed)
      (use mine assms(1,2) holder in \<open>auto simp: heartbeat_def get_expire heartbeat_interval_seconds_def dest: set_remove1_subset [THEN subsetD]\<close>)
  then show ?thesis using beat(2) by (simp add: viewers_ok_def)
next
  case (leave n i t)
  then show ?thesis using ok by (auto simp: viewers_ok_def dest!: set_remove1_subset [THEN subsetD])
next
  case (tick d)
  then show ?thesis using ok by (fastforce simp: viewers_ok_def)
qed

lemma viewer_run_ok:
  assumes "viewer_run ops sandbox_id late s0 es s" "uninterrupted es" "s0 = no_viewers store now"
    and "expiring_keys ops" "0 \<le> late" "late < lock_ttl_seconds - heartbeat_interval_seconds"
  shows "viewers_ok ops sandbox_id late s \<and> vw_checked s = pending es \<and>
    (\<forall>(n, i)\<in>set (pending es). viewer_check ops (vw_store s) (vw_now s) sandbox_id i = None)"
  using assms(1-3)
proof (induction rule: viewer_run.induct)
  case (stay s)
  then show ?case by (simp add: no_viewers_def viewers_ok_def)
next
  case (further s es s' e s'')
  from further.prems have u: "uninterrupted es" "\<And>n i. pending es = [(n, i)] \<Longrightarrow> e = Claim n i"
    using uninterrupted_snoc pending_last by blast+
  from further.IH [OF u(1) further.prems(2)] have ih: "viewers_ok ops sandbox_id late s'" "vw_checked s' = pending es"
    "\<forall>(n, i)\<in>set (pending es). viewer_check ops (vw_store s') (vw_now s') sandbox_id i = None" by auto
  have claim: "(n, i) \<in> set (pending es)" if "e = Claim n i" for n i
    using further.hyps(2) that ih(2) by (auto elim: viewer_stepE)
  have ok: "viewers_ok ops sandbox_id late s''"
    by (rule viewers_ok_step [OF assms(4-6) further.hyps(2) ih(1)]) (use claim ih(3) in blast)
  have only: "pending es = []" if "\<nexists>n i. e = Claim n i"
    using pending_cases [of es] u(2) that by blast
  from further.hyps(2) show ?case
  proof cases
    case (claim n i)
    then have "pending es = [(n, i)]" using ih(2) pending_cases [of es] by auto
    then show ?thesis using ok claim ih(2) by simp
  qed (use ok ih(2) only in \<open>simp_all\<close>)
qed


text \<open>A store for the closed instances: a value and the instant it expires.\<close>

definition map_keys :: "(string \<Rightarrow> (string \<times> int) option) kv_ops" where
  "map_keys = \<lparr>
     kv_get = (\<lambda>s now k. case s k of None \<Rightarrow> None | Some (v, expires) \<Rightarrow> if now < expires then Some v else None),
     kv_set_ex = (\<lambda>s now k v ttl. s(k \<mapsto> (v, now + ttl))),
     kv_expire = (\<lambda>s now k ttl. case s k of None \<Rightarrow> s
       | Some (v, expires) \<Rightarrow> if now < expires then s(k \<mapsto> (v, now + ttl)) else s)\<rparr>"

lemma map_keys_expire: "expiring_keys map_keys"
  by (auto simp: expiring_keys_def map_keys_def split: option.splits)

lemma run_two:
  assumes "viewer_step ops sandbox_id late s e1 s1" "viewer_step ops sandbox_id late s1 e2 s2"
  shows "viewer_run ops sandbox_id late s [e1, e2] s2"
  using viewer_run.further [OF viewer_run.further [OF viewer_run.stay assms(1)] assms(2)] by simp


text \<open>
  When two acquisitions overlap, both are admitted: the check and the claim are separate commands.
\<close>

theorem overlapping_acquisitions_admit_two_viewers:
  "\<exists>s. viewer_run map_keys ''s1'' 5 (no_viewers (\<lambda>_. None) 0)
       [Check 1 ''ada'', Check 2 ''bob'', Claim 1 ''ada'', Claim 2 ''bob''] s \<and>
     vw_attached s = [(2, ''bob'', 10), (1, ''ada'', 10)]"
proof -
  let ?s0 = "no_viewers (\<lambda>_. None) 0 :: (string \<Rightarrow> (string \<times> int) option) viewers"
  have free: "viewer_check map_keys (vw_store ?s0) (vw_now ?s0) ''s1'' i = None" for i
    by (simp add: viewer_check_def map_keys_def no_viewers_def)
  let ?s1 = "?s0\<lparr>vw_checked := (1, ''ada'') # vw_checked ?s0\<rparr>"
  have free1: "viewer_check map_keys (vw_store ?s1) (vw_now ?s1) ''s1'' ''bob'' = None" using free by simp
  let ?s2 = "?s1\<lparr>vw_checked := (2, ''bob'') # vw_checked ?s1\<rparr>"
  let ?s3 = "?s2\<lparr>vw_checked := remove1 (1, ''ada'') (vw_checked ?s2),
     vw_store := viewer_claim map_keys (vw_store ?s2) (vw_now ?s2) ''s1'' ''ada'',
     vw_attached := (1, ''ada'', vw_now ?s2 + heartbeat_interval_seconds) # vw_attached ?s2\<rparr>"
  let ?s4 = "?s3\<lparr>vw_checked := remove1 (2, ''bob'') (vw_checked ?s3),
     vw_store := viewer_claim map_keys (vw_store ?s3) (vw_now ?s3) ''s1'' ''bob'',
     vw_attached := (2, ''bob'', vw_now ?s3 + heartbeat_interval_seconds) # vw_attached ?s3\<rparr>"
  have "viewer_step map_keys ''s1'' 5 ?s0 (Check 1 ''ada'') ?s1" by (rule viewer_step.check [OF free])
  moreover have "viewer_step map_keys ''s1'' 5 ?s1 (Check 2 ''bob'') ?s2" by (rule viewer_step.check [OF free1])
  ultimately have two: "viewer_run map_keys ''s1'' 5 ?s0 [Check 1 ''ada'', Check 2 ''bob''] ?s2" by (rule run_two)
  have "viewer_step map_keys ''s1'' 5 ?s2 (Claim 1 ''ada'') ?s3" by (rule viewer_step.claim) simp
  from viewer_run.further [OF two this]
  have three: "viewer_run map_keys ''s1'' 5 ?s0 [Check 1 ''ada'', Check 2 ''bob'', Claim 1 ''ada''] ?s3" by simp
  have "viewer_step map_keys ''s1'' 5 ?s3 (Claim 2 ''bob'') ?s4" by (rule viewer_step.claim) simp
  from viewer_run.further [OF three this]
  have "viewer_run map_keys ''s1'' 5 ?s0 [Check 1 ''ada'', Check 2 ''bob'', Claim 1 ''ada'', Claim 2 ''bob''] ?s4" by simp
  moreover have "vw_attached ?s4 = [(2, ''bob'', 10), (1, ''ada'', 10)]" by (simp add: no_viewers_def heartbeat_interval_seconds_def)
  ultimately show ?thesis by blast
qed

text \<open>
  Who may attach. An attach that is accepted, whether its terminal opens or not, comes from the tenant
  that owns the sandbox, to a sandbox that is not terminated, at a moment when the lock is free or
  already the caller's. A missing, foreign or terminated sandbox is answered with 404 and a lock held by
  another identity with 409, and both change nothing.
\<close>

theorem attach_admission:
  assumes "attach ops cfg sandbox_id p seen claimed w = (r, w')"
  shows "let reachable = (\<exists>row. row_get sb_id sandbox_id (d_sandboxes (w_db w)) = Some row \<and> sb_tenant_id row = pr_tenant_id p \<and>
             sb_state row \<noteq> Terminated);
           holder = kv_get ops (fst seen) (snd seen) (lock_key sandbox_id)
    in (\<not> reachable \<longrightarrow> r = Inl (HTTPException 404 ''no such sandbox'') \<and> w' = w) \<and>
       (reachable \<and> holder \<notin> {None, Some (viewer_identity p)} \<longrightarrow>
          r = Inl (HTTPException 409 ''sandbox already has an active interactive viewer'') \<and> w' = w) \<and>
       (\<forall>opened store. r = Inr (opened, store) \<longrightarrow> reachable \<and> holder \<in> {None, Some (viewer_identity p)} \<and>
          store = viewer_claim ops (fst claimed) (snd claimed) sandbox_id (viewer_identity p))"
proof -
  have guard: "attach_guard sandbox_id p w =
      (if \<exists>row. row_get sb_id sandbox_id (d_sandboxes (w_db w)) = Some row \<and> sb_tenant_id row = pr_tenant_id p \<and> sb_state row \<noteq> Terminated
       then Inr () else Inl (HTTPException 404 ''no such sandbox''), w)"
    by (auto simp: attach_guard_def get_sandbox_def em_simps split: option.split)
  have seen: "viewer_check ops (fst seen) (snd seen) sandbox_id (viewer_identity p) =
      (if kv_get ops (fst seen) (snd seen) (lock_key sandbox_id) \<in> {None, Some (viewer_identity p)} then None
       else Some (HTTPException 409 ''sandbox already has an active interactive viewer''))"
    by (auto simp: viewer_check_def split: option.split)
  show ?thesis
    using assms unfolding attach_def Let_def seq_em_run guard
    by (auto simp: seen bind_em_run split: if_splits prod.splits sum.splits)
qed

definition intruder :: principal where
  "intruder = \<lparr>pr_tenant_id = ''t2'', pr_user_id = Some ''eve'', pr_role = ''user''\<rparr>"

theorem attach_admission_witness:
  "attach map_keys demo_config ''s1'' intruder (\<lambda>_. None, 0) (\<lambda>_. None, 0) one_sandbox =
     (Inl (HTTPException 404 ''no such sandbox''), one_sandbox)"
proof -
  obtain r w' where run: "attach map_keys demo_config ''s1'' intruder (\<lambda>_. None, 0) (\<lambda>_. None, 0) one_sandbox = (r, w')"
    by (cases "attach map_keys demo_config ''s1'' intruder (\<lambda>_. None, 0) (\<lambda>_. None, 0) one_sandbox")
  have "\<nexists>row. row_get sb_id ''s1'' (d_sandboxes (w_db one_sandbox)) = Some row \<and> sb_tenant_id row = pr_tenant_id intruder \<and>
      sb_state row \<noteq> Terminated"
    by (simp add: one_sandbox_def demo_world_def demo_sandbox_def row_get_def intruder_def)
  with attach_admission [OF run] run show ?thesis by (simp add: Let_def)
qed

end
