(* ===== verification/Paths.thy ===== *)
theory Paths
  imports PyStrings
begin

section \<open>Paths into a workspace\<close>

text \<open>
  \<open>_validate_relative_path\<close> of \<open>app/api/v1/sandboxes.py\<close> and the functions of \<open>posixpath\<close> it rests on,
  written as the standard library writes them. What a path means is given by walking it from a directory,
  without symbolic links.
\<close>

subsection \<open>posixpath\<close>

fun py_join :: "char \<Rightarrow> string list \<Rightarrow> string" where
  "py_join c [] = []"
| "py_join c [s] = s"
| "py_join c (s # ss) = s @ c # py_join c ss"

definition is_abs :: "string \<Rightarrow> bool" where
  "is_abs path = startswith path ''/''"

definition posix_join :: "string \<Rightarrow> string \<Rightarrow> string" where
  "posix_join a b =
     (if is_abs b then b else if a = [] \<or> endswith a ''/'' then a @ b else a @ ''/'' @ b)"

text \<open>The loop of \<open>normpath\<close>; the new components are kept newest first.\<close>

fun norm_comps :: "bool \<Rightarrow> string list \<Rightarrow> string list \<Rightarrow> string list" where
  "norm_comps rooted acc [] = rev acc"
| "norm_comps rooted acc (c # cs) =
     (if c = [] \<or> c = ''.'' then norm_comps rooted acc cs
      else if c \<noteq> ''..'' \<or> (\<not> rooted \<and> acc = []) \<or> (acc \<noteq> [] \<and> hd acc = ''..'') then norm_comps rooted (c # acc) cs
      else norm_comps rooted (tl acc) cs)"

definition initial_slashes :: "string \<Rightarrow> nat" where
  "initial_slashes path =
     (if \<not> is_abs path then 0 else if startswith path ''//'' \<and> \<not> startswith path ''///'' then 2 else 1)"

definition normpath :: "string \<Rightarrow> string" where
  "normpath path =
     (if path = [] then ''.''
      else let comps = norm_comps (initial_slashes path \<noteq> 0) [] (split_on (CHR ''/'') path);
               result = replicate (initial_slashes path) (CHR ''/'') @ py_join (CHR ''/'') comps
           in if result = [] then ''.'' else result)"

subsection \<open>The check\<close>

definition workspace_root :: string where
  "workspace_root = ''/workspace''"

definition validate_relative_path :: "string \<Rightarrow> bool \<Rightarrow> exn + string" where
  "validate_relative_path path allow_root =
     (if path \<in> {'''', ''.'', ''/''}
      then if allow_root then Inr [] else Inl (HTTPException 400 ''path must not be empty'')
      else if is_abs path then Inl (HTTPException 400 ''path must be relative to the sandbox workspace'')
      else let normalized = normpath path
           in if normalized = ''..'' \<or> startswith normalized ''../''
              then Inl (HTTPException 400 ''path must not escape the sandbox workspace'') else Inr normalized)"

subsection \<open>What a path means\<close>

text \<open>
  A directory is the list of the names on the way to it, innermost first. Walking an empty component or
  a dot stays, two dots go up, and stay at the root.
\<close>

definition enter :: "string list \<Rightarrow> string \<Rightarrow> string list" where
  "enter dir c = (if c = [] \<or> c = ''.'' then dir else if c = ''..'' then tl dir else c # dir)"

definition walk :: "string list \<Rightarrow> string \<Rightarrow> string list" where
  "walk dir path = foldl enter (if is_abs path then [] else dir) (split_on (CHR ''/'') path)"

text \<open>Some prefix of the components goes above the directory the walk starts in, \<open>n\<close> levels down.\<close>

fun climbs :: "nat \<Rightarrow> string list \<Rightarrow> bool" where
  "climbs n [] = False"
| "climbs n (c # cs) =
     (if c = [] \<or> c = ''.'' then climbs n cs
      else if c = ''..'' then (case n of 0 \<Rightarrow> True | Suc m \<Rightarrow> climbs m cs)
      else climbs (Suc n) cs)"

subsection \<open>Splitting and joining\<close>

lemma split_on_nonempty [simp]: "split_on c s \<noteq> []"
  by (induction c s rule: split_on.induct) (auto split: list.split)

lemma split_on_parts: "p \<in> set (split_on c s) \<Longrightarrow> c \<notin> set p"
  by (induction c s arbitrary: p rule: split_on.induct) (auto split: list.splits if_splits)

lemma split_on_clean: "c \<notin> set s \<Longrightarrow> split_on c s = [s]"
  by (induction s) auto

lemma split_on_cons: "c \<notin> set s \<Longrightarrow> split_on c (s @ c # t) = s # split_on c t"
  by (induction s) auto

lemma split_on_join:
  "ps \<noteq> [] \<Longrightarrow> \<forall>p\<in>set ps. c \<notin> set p \<Longrightarrow> split_on c (py_join c ps) = ps"
  by (induction c ps rule: py_join.induct) (simp_all add: split_on_clean split_on_cons)

lemma join_nonempty: "ps \<noteq> [] \<Longrightarrow> \<forall>p\<in>set ps. p \<noteq> [] \<Longrightarrow> py_join c ps \<noteq> []"
  by (cases ps rule: remdups_adj.cases) auto

lemma hd_join: "ps \<noteq> [] \<Longrightarrow> \<forall>p\<in>set ps. p \<noteq> [] \<Longrightarrow> hd (py_join c ps) = hd (hd ps)"
  by (cases ps rule: remdups_adj.cases) auto

lemma hd_split_on: "hd (split_on c s) = takeWhile (\<lambda>x. x \<noteq> c) s"
  by (induction c s rule: split_on.induct) (auto split: list.split)

lemma takeWhile_before:
  "takeWhile (\<lambda>x. x \<noteq> c) s = p \<longleftrightarrow> c \<notin> set p \<and> (s = p \<or> (\<exists>t. s = p @ c # t))"
proof (induction s arbitrary: p)
  case (Cons x s)
  then show ?case by (cases p) auto
qed auto

lemma startswith_iff: "startswith s p \<longleftrightarrow> (\<exists>t. s = p @ t)"
proof
  assume "startswith s p"
  then have "s = p @ drop (length p) s" using append_take_drop_id [of "length p" s] by (simp add: startswith_def)
  then show "\<exists>t. s = p @ t" ..
qed auto

lemma dotdot_first: "hd (split_on (CHR ''/'') s) = ''..'' \<longleftrightarrow> s = ''..'' \<or> startswith s ''../''"
proof -
  have "startswith s ''../'' \<longleftrightarrow> (\<exists>t. s = ''..'' @ CHR ''/'' # t)"
    by (simp add: startswith_iff)
  then show ?thesis unfolding hd_split_on takeWhile_before by simp
qed

subsection \<open>The normal form\<close>

text \<open>
  The loop keeps a list of names above some number of leading double dots. It drops what the walk
  would undo, and leading double dots appear exactly when the walk climbs above its start.
\<close>

definition proper :: "string list \<Rightarrow> bool" where
  "proper names \<longleftrightarrow> (\<forall>c\<in>set names. c \<noteq> [] \<and> c \<noteq> ''.'' \<and> c \<noteq> ''..'')"

lemma norm_comps_relative:
  assumes "proper names"
  shows "\<exists>names' k'. norm_comps False (names @ replicate k ''..'') cs = replicate k' ''..'' @ rev names' \<and> proper names' \<and> k \<le> k' \<and>
    set names' \<subseteq> set names \<union> set cs \<and> (k = 0 \<longrightarrow> (k' > 0 \<longleftrightarrow> climbs (length names) cs)) \<and>
    (k' = 0 \<longrightarrow> foldl enter (names @ dir) cs = names' @ dir)"
  using assms
proof (induction cs arbitrary: names k)
  case Nil
  then show ?case by (intro exI [of _ names] exI [of _ k]) auto
next
  case (Cons c cs)
  show ?case
  proof (cases "c = [] \<or> c = ''.''")
    case True
    with Cons.IH [OF Cons.prems, of k] show ?thesis by (auto simp: enter_def)
  next
    case stays: False
    show ?thesis
    proof (cases "c = ''..''")
      case False
      have "proper (c # names)" using Cons.prems stays False by (auto simp: proper_def)
      from Cons.IH [OF this, of k] stays False show ?thesis by (fastforce simp: enter_def)
    next
      case True
      show ?thesis
      proof (cases names)
        case Nil
        have "norm_comps False (names @ replicate k ''..'') (c # cs) = norm_comps False ([] @ replicate (Suc k) ''..'') cs"
          using True Nil by (cases k) auto
        moreover have "proper []" by (simp add: proper_def)
        ultimately show ?thesis using Cons.IH [of "[]" "Suc k"] True Nil by fastforce
      next
        case (Cons x xs)
        then have "proper xs" "x \<noteq> ''..''" using Cons.prems by (auto simp: proper_def)
        from Cons.IH [OF this(1), of k] this(2) Cons True show ?thesis by (fastforce simp: enter_def)
      qed
    qed
  qed
qed

lemma proper_reverse [simp]: "proper (rev names) = proper names"
  by (simp add: proper_def)

lemma proper_part: "proper names \<Longrightarrow> c \<in> set names \<Longrightarrow> c \<noteq> [] \<and> c \<noteq> ''.'' \<and> c \<noteq> ''..''"
  by (simp add: proper_def)

lemma proper_parts: "proper names \<Longrightarrow> [] \<notin> set names" "proper names \<Longrightarrow> ''..'' \<notin> set names"
  using proper_part by blast+

lemma normpath_relative:
  assumes "\<not> is_abs path" "path \<noteq> []"
  shows "\<exists>names k. split_on (CHR ''/'') (normpath path) = (if k = 0 \<and> names = [] then [''.''] else replicate k ''..'' @ names) \<and>
    proper names \<and> (k > 0 \<longleftrightarrow> climbs 0 (split_on (CHR ''/'') path)) \<and>
    (k = 0 \<longrightarrow> foldl enter dir (split_on (CHR ''/'') path) = rev names @ dir) \<and> \<not> is_abs (normpath path)"
proof -
  let ?cs = "split_on (CHR ''/'') path"
  have "proper []" by (simp add: proper_def)
  from norm_comps_relative [OF this, of 0 ?cs dir] obtain names k where
    n: "norm_comps False [] ?cs = replicate k ''..'' @ rev names" "proper names" "set names \<subseteq> set ?cs"
       "k > 0 \<longleftrightarrow> climbs 0 ?cs" "k = 0 \<longrightarrow> foldl enter dir ?cs = names @ dir" by auto
  let ?ps = "replicate k ''..'' @ rev names"
  have clean: "\<forall>p\<in>set ?ps. CHR ''/'' \<notin> set p" using n(3) split_on_parts by fastforce
  have full: "\<forall>p\<in>set ?ps. p \<noteq> []" using proper_parts(1) [OF n(2)] by (metis in_set_replicate list.distinct(1) set_append set_rev Un_iff)
  have np: "normpath path = (if ?ps = [] then ''.'' else py_join (CHR ''/'') ?ps)"
    using assms n(1) join_nonempty [of ?ps "CHR ''/''"] full unfolding normpath_def initial_slashes_def Let_def
    by (cases "?ps = []") simp_all
  have rel: "\<not> is_abs (normpath path)"
  proof (cases "?ps = []")
    case False
    then have "hd (hd ?ps) \<noteq> CHR ''/''"
      using clean full by (metis hd_in_set)
    then have "hd (normpath path) \<noteq> CHR ''/''" using False hd_join [OF False full, of "CHR ''/''"] by (simp only: np if_False simp_thms)
    moreover have "is_abs s \<Longrightarrow> hd s = CHR ''/''" for s by (auto simp: is_abs_def startswith_iff)
    ultimately show ?thesis by blast
  qed (simp add: np is_abs_def startswith_def)
  have "split_on (CHR ''/'') (normpath path) = (if k = 0 \<and> rev names = [] then [''.''] else ?ps)"
    using split_on_join [OF _ clean] by (auto simp: np)
  with n rel show ?thesis by (intro exI [of _ "rev names"] exI [of _ k]) auto
qed

text \<open>What the check does with a path that is neither empty, a dot nor the root.\<close>

lemma climbing_path:
  assumes "path \<notin> {'''', ''.'', ''/''}" "is_abs path \<or> climbs 0 (split_on (CHR ''/'') path)"
  shows "\<exists>m. validate_relative_path path allow_root = Inl (HTTPException 400 m)"
proof (cases "is_abs path")
  case rel: False
  obtain names k where n: "split_on (CHR ''/'') (normpath path) = (if k = 0 \<and> names = [] then [''.''] else replicate k ''..'' @ names)"
    "k > 0 \<longleftrightarrow> climbs 0 (split_on (CHR ''/'') path)"
    using normpath_relative [OF rel, of "[]"] assms(1) by auto
  then have "hd (split_on (CHR ''/'') (normpath path)) = ''..''" using rel assms(2) by (cases k) auto
  then show ?thesis using assms(1) rel by (auto simp: dotdot_first validate_relative_path_def Let_def)
qed (use assms in \<open>simp add: validate_relative_path_def\<close>)

lemma accepted_path:
  assumes "path \<notin> {'''', ''.'', ''/''}" "\<not> is_abs path" "\<not> climbs 0 (split_on (CHR ''/'') path)"
  obtains below where "validate_relative_path path allow_root = Inr (normpath path)" "normpath path \<noteq> []" "\<not> is_abs (normpath path)"
    "''..'' \<notin> set (split_on (CHR ''/'') (normpath path))" "walk [''workspace''] (normpath path) = below @ [''workspace'']"
    "walk [] (posix_join workspace_root (normpath path)) = below @ [''workspace'']" "walk [''workspace''] path = below @ [''workspace'']"
proof -
  obtain names k where n: "split_on (CHR ''/'') (normpath path) = (if k = 0 \<and> names = [] then [''.''] else replicate k ''..'' @ names)"
    "proper names" "k > 0 \<longleftrightarrow> climbs 0 (split_on (CHR ''/'') path)"
    "k = 0 \<longrightarrow> foldl enter [''workspace''] (split_on (CHR ''/'') path) = rev names @ [''workspace'']" "\<not> is_abs (normpath path)"
    using normpath_relative [OF assms(2), of "[''workspace'']"] assms(1) by auto
  have split: "split_on (CHR ''/'') (normpath path) = (if names = [] then [''.''] else names)" using n(1,3) assms(3) by simp
  have still: "foldl enter dir (if names = [] then [''.''] else names) = rev names @ dir" for dir
  proof -
    have "foldl enter dir names = rev names @ dir" using n(2)
      by (induction names arbitrary: dir) (auto simp: proper_def enter_def)
    then show ?thesis by (auto simp: enter_def)
  qed
  have first: "\<not> (normpath path = ''..'' \<or> startswith (normpath path) ''../'')"
    unfolding dotdot_first [symmetric] split using proper_parts(2) [OF n(2)] by (cases names) auto
  have "posix_join workspace_root (normpath path) = CHR ''/'' # ''workspace'' @ CHR ''/'' # normpath path"
    using n(5) by (simp add: posix_join_def workspace_root_def endswith_def)
  moreover have "split_on (CHR ''/'') (CHR ''/'' # ''workspace'' @ CHR ''/'' # normpath path) =
      [] # ''workspace'' # split_on (CHR ''/'') (normpath path)"
    using split_on_cons [of "CHR ''/''" "''workspace''" "normpath path"] by simp
  ultimately have absolute: "walk [] (posix_join workspace_root (normpath path)) = rev names @ [''workspace'']"
    using still by (simp add: walk_def split is_abs_def startswith_def enter_def)
  have "normpath path \<noteq> []" using split proper_parts(1) [OF n(2)] by (cases "names = []") auto
  moreover have "''..'' \<notin> set (split_on (CHR ''/'') (normpath path))" using proper_parts(2) [OF n(2)] by (simp add: split)
  moreover have "validate_relative_path path allow_root = Inr (normpath path)"
    using assms first by (simp add: validate_relative_path_def Let_def)
  moreover have "walk [''workspace''] path = rev names @ [''workspace'']" using assms(2,3) n(3,4) by (simp add: walk_def)
  moreover have "walk [''workspace''] (normpath path) = rev names @ [''workspace'']" using n(5) still by (simp add: walk_def split)
  ultimately show thesis using n(5) absolute that by blast
qed

lemma root_path:
  assumes "path \<in> {'''', ''.'', ''/''}"
  shows "validate_relative_path path allow_root = (if allow_root then Inr [] else Inl (HTTPException 400 ''path must not be empty''))"
    "walk [''workspace''] [] = [] @ [''workspace'']" "walk [] workspace_root = [] @ [''workspace'']"
    "path \<noteq> ''/'' \<Longrightarrow> walk [''workspace''] path = [] @ [''workspace'']"
  using assms by (auto simp: walk_def is_abs_def startswith_def enter_def workspace_root_def validate_relative_path_def)

text \<open>Every accepted path, put under the workspace, is a file or directory below it.\<close>

definition below_workspace :: "string \<Rightarrow> bool" where
  "below_workspace path \<longleftrightarrow> (\<exists>below. walk [] path = below @ [''workspace''])"

lemma validated_below:
  assumes "validate_relative_path path allow_root = Inr relative"
  shows "below_workspace (if relative = [] then workspace_root else posix_join workspace_root relative)"
    "allow_root \<or> relative \<noteq> []"
proof -
  consider "path \<in> {'''', ''.'', ''/''}" | "path \<notin> {'''', ''.'', ''/''}" "\<not> is_abs path" "\<not> climbs 0 (split_on (CHR ''/'') path)"
    using climbing_path [of path allow_root] assms by fastforce
  then have "below_workspace (if relative = [] then workspace_root else posix_join workspace_root relative) \<and> (allow_root \<or> relative \<noteq> [])"
  proof cases
    case 1
    from root_path(1) [OF this, of allow_root] root_path(3) [OF this] assms show ?thesis
      by (auto simp: below_workspace_def split: if_splits)
  next
    case 2
    from accepted_path [OF this, of allow_root] obtain below where
      v: "validate_relative_path path allow_root = Inr (normpath path)" and ne: "normpath path \<noteq> []"
      and "walk [] (posix_join workspace_root (normpath path)) = below @ [''workspace'']" .
    then have "below_workspace (posix_join workspace_root (normpath path))" by (simp only: below_workspace_def) (rule exI, rule refl)
    then show ?thesis using assms v ne by simp
  qed
  then show "below_workspace (if relative = [] then workspace_root else posix_join workspace_root relative)"
    "allow_root \<or> relative \<noteq> []" by simp_all
qed

text \<open>
  A client's path cannot leave the workspace. The check accepts exactly the relative paths no prefix
  of which climbs above the directory they start in (and the root itself where that is allowed); what
  it returns has no double dot, is relative, and means the same file as the client's path, which lies below the
  workspace. Everything else is answered with 400.
\<close>

theorem path_confinement:
  "case validate_relative_path path allow_root of
     Inl e \<Rightarrow> (\<exists>m. e = HTTPException 400 m) \<and>
       (if path \<in> {'''', ''.'', ''/''} then \<not> allow_root else is_abs path \<or> climbs 0 (split_on (CHR ''/'') path))
   | Inr relative \<Rightarrow>
       (if path \<in> {'''', ''.'', ''/''} then allow_root else \<not> is_abs path \<and> \<not> climbs 0 (split_on (CHR ''/'') path)) \<and>
       \<not> is_abs relative \<and> ''..'' \<notin> set (split_on (CHR ''/'') relative) \<and>
       (\<exists>below. walk [''workspace''] relative = below @ [''workspace''] \<and>
          walk [] (if relative = [] then workspace_root else posix_join workspace_root relative) = below @ [''workspace''] \<and>
          (if path = ''/'' then below = [] else walk [''workspace''] path = below @ [''workspace'']))"
proof (cases "path \<in> {'''', ''.'', ''/''}")
  case True
  from root_path [OF this] True show ?thesis by (auto simp: is_abs_def startswith_def)
next
  case False
  show ?thesis
  proof (cases "is_abs path \<or> climbs 0 (split_on (CHR ''/'') path)")
    case True
    then show ?thesis using climbing_path [OF False True, of allow_root] False by auto
  next
    case calm: False
    then have "\<not> is_abs path" "\<not> climbs 0 (split_on (CHR ''/'') path)" by auto
    from accepted_path [OF False this, of allow_root] obtain below where
      v: "validate_relative_path path allow_root = Inr (normpath path)" and "normpath path \<noteq> []" "\<not> is_abs (normpath path)"
      "''..'' \<notin> set (split_on (CHR ''/'') (normpath path))" "walk [''workspace''] (normpath path) = below @ [''workspace'']"
      "walk [] (posix_join workspace_root (normpath path)) = below @ [''workspace'']" "walk [''workspace''] path = below @ [''workspace'']" .
    moreover have "path \<noteq> ''/''" using False by simp
    ultimately show ?thesis using False calm unfolding v sum.case by (simp only: if_False) (intro conjI exI [of _ below]; simp)
  qed
qed

end
