(* ===== verification/Http.thy ===== *)
theory Http
  imports Store
begin

section \<open>The HTTP boundary\<close>

text \<open>
  \<open>app/api/pagination.py\<close> and the exception handlers of \<open>app/main.py\<close>: how a page of a listing is
  cut, and which status an exception that escapes a route becomes.
\<close>

subsection \<open>Status codes\<close>

fun is_not_found :: "exn \<Rightarrow> bool" where
  "is_not_found (ComponentNotFoundError _) = True"
| "is_not_found (TemplateNotFoundError _) = True"
| "is_not_found (SandboxNotFoundError _) = True"
| "is_not_found (BuildNotFoundError _) = True"
| "is_not_found _ = False"

fun is_entitlement_error :: "exn \<Rightarrow> bool" where
  "is_entitlement_error (EntitlementError _) = True"
| "is_entitlement_error _ = False"

text \<open>
  Starlette picks the handler of the first class in the method resolution order that has one, so the
  handler of \<open>QuotaExceededError\<close> also answers for its subclass and that of \<open>KubeSandboxError\<close> for
  the rest of the hierarchy; an exception without a handler is an internal error.
\<close>

definition status_of :: "exn \<Rightarrow> int" where
  "status_of e =
     (if is_not_found e then 404
      else if is_entitlement_error e then 403
      else if is_quota_exceeded e then 429
      else if is_provisioner_error e then 502
      else if is_kubesandbox_error e then 400
      else case e of HTTPException code _ \<Rightarrow> code | _ \<Rightarrow> 500)"

subsection \<open>Pages\<close>

definition default_limit :: int where
  "default_limit = 50"

definition max_limit :: int where
  "max_limit = 200"

record page_params =
  pp_limit :: int
  pp_offset :: int

text \<open>The declared bounds of the query parameters; a violation is answered with 422.\<close>

definition page_params_of :: "int option \<Rightarrow> int option \<Rightarrow> exn + page_params" where
  "page_params_of limit offset =
     (let l = (case limit of None \<Rightarrow> default_limit | Some n \<Rightarrow> n);
          off = (case offset of None \<Rightarrow> 0 | Some n \<Rightarrow> n)
      in if 1 \<le> l \<and> l \<le> max_limit \<and> 0 \<le> off then Inr \<lparr>pp_limit = l, pp_offset = off\<rparr>
         else Inl (HTTPException 422 ''query''))"

definition paginate :: "'r list \<Rightarrow> page_params \<Rightarrow> 'r list \<times> int" where
  "paginate rows params = (take (nat (pp_limit params)) (drop (nat (pp_offset params)) rows), int (length rows))"

subsection \<open>Laws\<close>

text \<open>
  Domain errors never surface as internal errors. Every exception of the control plane's own
  hierarchy is answered with a client error or a bad gateway, a refusal for quota or billing with 429, a
  lookup that failed with 404, and only exceptions outside the hierarchy can give 500.
\<close>

theorem status_of_domain_errors:
  "is_kubesandbox_error e \<Longrightarrow> status_of e \<in> {400, 403, 404, 429, 502} \<and>
     (status_of e = 429 \<longleftrightarrow> is_quota_exceeded e) \<and> (status_of e = 404 \<longleftrightarrow> is_not_found e) \<and>
     (status_of e = 502 \<longleftrightarrow> is_provisioner_error e)"
  by (cases e) (simp_all add: status_of_def)

theorem status_of_domain_errors_witness:
  "status_of (BillingAuthorizationError ''wallet'') = 429"
  using status_of_domain_errors [of "BillingAuthorizationError ''wallet''"] by simp

lemma page_length: "page_params_of limit offset = Inr p \<Longrightarrow> length (fst (paginate rows p)) \<le> 200"
  by (auto simp: page_params_of_def paginate_def max_limit_def Let_def split: if_splits)

definition nth_page :: "'r list \<Rightarrow> int \<Rightarrow> nat \<Rightarrow> 'r list" where
  "nth_page rows limit i = fst (paginate rows \<lparr>pp_limit = limit, pp_offset = int i * limit\<rparr>)"

lemma pages_prefix:
  assumes "0 \<le> limit"
  shows "concat (map (nth_page rows limit) [0..<n]) = take (n * nat limit) rows"
proof (induction n)
  case (Suc n)
  have "nat (int n * limit) = n * nat limit" using assms by (simp add: nat_mult_distrib)
  then have "nth_page rows limit n = take (nat limit) (drop (n * nat limit) rows)"
    by (simp add: nth_page_def paginate_def)
  moreover have "take (Suc n * nat limit) rows = take (n * nat limit) rows @ take (nat limit) (drop (n * nat limit) rows)"
    by (simp add: take_add [symmetric] add.commute)
  ultimately show ?case using Suc by simp
qed simp

text \<open>
  Paging loses and repeats nothing. For any accepted page size, the pages requested one after the
  other over an unchanged listing are, put together, the listing itself, and each page and the declared
  total respect the declared bounds.
\<close>

theorem pages_cover_listing:
  assumes "page_params_of (Some limit) offset = Inr p" "int (length rows) \<le> int n * limit"
  shows "concat (map (nth_page rows limit) [0..<n]) = rows \<and>
    length (fst (paginate rows p)) \<le> nat limit \<and> nat limit \<le> 200 \<and> snd (paginate rows p) = int (length rows)"
proof -
  have l: "1 \<le> limit" "limit \<le> 200" "pp_limit p = limit"
    using assms(1) by (auto simp: page_params_of_def max_limit_def Let_def split: if_splits)
  have "int (n * nat limit) = int n * limit" using l(1) by simp
  then have "length rows \<le> n * nat limit" using assms(2) by linarith
  then show ?thesis using l pages_prefix [of limit rows n] by (simp add: paginate_def)
qed

theorem pages_cover_listing_witness:
  "concat (map (nth_page [1, 2, 3, 4, 5::nat] 2) [0..<3]) = [1, 2, 3, 4, 5]"
  using pages_cover_listing [of 2 "Some 2" "\<lparr>pp_limit = 2, pp_offset = 2\<rparr>" "[1, 2, 3, 4, 5::nat]" 3]
  by (simp add: page_params_of_def max_limit_def)

end
