(* ===== verification/Listing.thy ===== *)
theory Listing
  imports Http "HOL-Library.Char_ord" "HOL-Library.Product_Lexorder"
begin

section \<open>Listings\<close>

text \<open>
  The shape every listing route has: filter the rows, order them by creation time and then by id, both
  descending, cut a page and convert its rows (\<open>app/api/pagination.py\<close>, and the \<open>order_by\<close> of the
  routes). The id breaks ties, so that consecutive pages neither repeat nor skip a row.
\<close>

record 'o page =
  pg_items :: "'o list"
  pg_total :: int
  pg_limit :: int
  pg_offset :: int

definition newest_first :: "('r \<Rightarrow> int) \<Rightarrow> ('r \<Rightarrow> string) \<Rightarrow> 'r list \<Rightarrow> 'r list" where
  "newest_first created i rows = rev (sort_key (\<lambda>r. (created r, i r)) rows)"

definition page_of :: "page_params \<Rightarrow> ('r \<Rightarrow> 'o) \<Rightarrow> 'r list \<Rightarrow> 'o page" where
  "page_of params convert rows =
     (case paginate rows params of (rs, n) \<Rightarrow>
        \<lparr>pg_items = map convert rs, pg_total = n, pg_limit = pp_limit params, pg_offset = pp_offset params\<rparr>)"

text \<open>A filter that is off when the query parameter is absent.\<close>

definition wanted :: "'a option \<Rightarrow> 'a \<Rightarrow> bool" where
  "wanted q x \<longleftrightarrow> (case q of None \<Rightarrow> True | Some y \<Rightarrow> x = y)"

lemma wanted_simps [simp]: "wanted None x" "wanted (Some y) x \<longleftrightarrow> x = y"
  by (simp_all add: wanted_def)

lemma set_newest_first [simp]: "set (newest_first created i rows) = set rows"
  by (simp add: newest_first_def)

lemma length_newest_first [simp]: "length (newest_first created i rows) = length rows"
  by (simp add: newest_first_def)

lemma distinct_newest_first [simp]: "distinct (map f (newest_first created i rows)) = distinct (map f rows)"
  by (simp add: newest_first_def rev_map [symmetric] distinct_map)

lemma sorted_newest_first: "sorted (map (\<lambda>r. (created r, i r)) (rev (newest_first created i rows)))"
  by (simp add: newest_first_def)

lemma sorted_newest_wrt:
  "sorted_wrt (\<lambda>x y. (created y, i y) \<le> (created x, i x)) (newest_first created i rows)"
proof -
  have "sorted_wrt (\<lambda>x y. (created x, i x) \<le> (created y, i y)) (sort_key (\<lambda>r. (created r, i r)) rows)"
    using sorted_sort_key [of "\<lambda>r. (created r, i r)" rows] by (simp add: sorted_map)
  then show ?thesis by (simp add: newest_first_def sorted_wrt_rev)
qed

lemma page_of_simps [simp]:
  "pg_total (page_of p f rows) = int (length rows)" "pg_limit (page_of p f rows) = pp_limit p"
  "pg_offset (page_of p f rows) = pp_offset p"
  "pg_items (page_of p f rows) = map f (take (nat (pp_limit p)) (drop (nat (pp_offset p)) rows))"
  by (simp_all add: page_of_def paginate_def)

lemma page_items_from: "x \<in> set (pg_items (page_of p f rows)) \<Longrightarrow> x \<in> f ` set rows"
  by (auto dest!: in_set_takeD in_set_dropD)

text \<open>The pages of one size, one after the other, are the whole listing.\<close>

lemma pages_are_listing:
  assumes "1 \<le> limit" "int (length rows) \<le> int n * limit"
  shows "concat (map (\<lambda>k. pg_items (page_of \<lparr>pp_limit = limit, pp_offset = int k * limit\<rparr> f rows)) [0..<n]) = map f rows"
proof -
  have page: "pg_items (page_of \<lparr>pp_limit = limit, pp_offset = int k * limit\<rparr> f rows) = map f (nth_page rows limit k)" for k
    by (simp add: nth_page_def paginate_def)
  have "int (n * nat limit) = int n * limit" using assms(1) by simp
  then have "length rows \<le> n * nat limit" using assms(2) by linarith
  then have "concat (map (nth_page rows limit) [0..<n]) = rows" using pages_prefix [of limit rows n] assms(1) by simp
  then have "map f (concat (map (nth_page rows limit) [0..<n])) = map f rows" by simp
  then show ?thesis unfolding page by (simp only: map_concat map_map comp_def)
qed

end
