(* ===== verification/Sandbox_Routes.thy ===== *)
theory Sandbox_Routes
  imports Async_Runs Paths Listing "HOL-Library.Word"
begin

section \<open>Execution, runs and sandboxes over HTTP\<close>

text \<open>
  \<open>app/api/v1/execute.py\<close>, \<open>app/api/v1/runs.py\<close> and \<open>app/api/v1/sandboxes.py\<close>. A route runs inside its
  request's session; \<open>with_session\<close> around it is the request. The rate-limit dependencies are in
  \<open>Limiter\<close> and run before the route. A text is represented by the characters of its UTF-8 bytes.
\<close>

subsection \<open>Views\<close>

fun sandbox_state_value :: "sandbox_state \<Rightarrow> string" where
  "sandbox_state_value Pending = ''pending''"
| "sandbox_state_value Provisioning = ''provisioning''"
| "sandbox_state_value Ready = ''ready''"
| "sandbox_state_value Active = ''active''"
| "sandbox_state_value Idle = ''idle''"
| "sandbox_state_value Terminating = ''terminating''"
| "sandbox_state_value Terminated = ''terminated''"
| "sandbox_state_value Failed = ''failed''"

record sandbox_response =
  so_id :: string
  so_state :: string
  so_backend :: string
  so_template_ref :: "string option"
  so_component_refs :: "string list"
  so_weight_class :: string
  so_persistent :: bool
  so_created_at :: int
  so_last_active_at :: "int option"
  so_terminated_at :: "int option"

definition summarize_sandbox :: "sandbox_row \<Rightarrow> string option \<Rightarrow> sandbox_response" where
  "summarize_sandbox row state_override =
     \<lparr>so_id = sb_id row,
      so_state = (case py_or state_override None of Some s \<Rightarrow> s | None \<Rightarrow> sandbox_state_value (sb_state row)),
      so_backend = sb_backend row, so_template_ref = sb_template_ref row, so_component_refs = sb_component_refs row,
      so_weight_class = sb_weight_class row, so_persistent = sb_persistent row, so_created_at = sb_created_at row,
      so_last_active_at = sb_last_active_at row, so_terminated_at = sb_terminated_at row\<rparr>"

fun run_status_value :: "run_status \<Rightarrow> string" where
  "run_status_value RunPending = ''pending''"
| "run_status_value RunRunning = ''running''"
| "run_status_value RunCompleted = ''completed''"
| "run_status_value RunFailed = ''failed''"

definition terminal_statuses :: "string list" where
  "terminal_statuses = [''completed'', ''failed'']"

record run_summary =
  ro_id :: string
  ro_sandbox_id :: "string option"
  ro_status :: string
  ro_component_ref :: "string option"
  ro_exit_code :: "int option"
  ro_duration_ms :: "int option"
  ro_truncated :: bool
  ro_timed_out :: bool
  ro_created_at :: int
  ro_finished_at :: "int option"

record run_detail = run_summary +
  ro_command :: "string list"
  ro_stdout :: string
  ro_stderr :: string
  ro_variables :: "json option"
  ro_error :: "exn option"

definition summarize_run :: "run_row \<Rightarrow> run_summary" where
  "summarize_run row =
     \<lparr>ro_id = rn_id row, ro_sandbox_id = rn_sandbox_id row, ro_status = run_status_value (rn_status row),
      ro_component_ref = rn_component_ref row, ro_exit_code = rn_exit_code row, ro_duration_ms = rn_duration_ms row,
      ro_truncated = rn_truncated row, ro_timed_out = rn_timed_out row, ro_created_at = rn_created_at row,
      ro_finished_at = rn_finished_at row\<rparr>"

definition text_or_empty :: "string option \<Rightarrow> string" where
  "text_or_empty x = (case x of None \<Rightarrow> [] | Some s \<Rightarrow> s)"

definition detail_of_run :: "run_row \<Rightarrow> run_detail" where
  "detail_of_run row = run_summary.extend (summarize_run row)
     \<lparr>ro_command = rn_command row, ro_stdout = text_or_empty (rn_stdout_excerpt row),
      ro_stderr = text_or_empty (rn_stderr_excerpt row), ro_variables = rn_variables row, ro_error = rn_error row\<rparr>"

subsection \<open>POST /v1/execute\<close>

record execute_request =
  xq_language :: string
  xq_version :: "string option"
  xq_template :: "string option"
  xq_code :: string
  xq_stdin :: string

definition version_only_without_template :: "execute_request \<Rightarrow> bool" where
  "version_only_without_template body \<longleftrightarrow> \<not> (py_or (xq_template body) None \<noteq> None \<and> py_or (xq_version body) None \<noteq> None)"

datatype execute_response = Bundled batch_run_result | AsyncRunAccepted string string

text \<open>
  The body's validator answers 422 before the handler runs. The second component is the task that FastAPI
  runs after the response has been sent, in no request's session.
\<close>

definition execute_route ::
  "sandbox_config \<Rightarrow> execute_request \<Rightarrow> bool \<Rightarrow> principal \<Rightarrow> (execute_response \<times> unit prog option) prog" where
  "execute_route cfg body run_async_flag p =
     (if \<not> version_only_without_template body then raise_em (HTTPException 422 ''body'')
      else if run_async_flag then
        bind_em (start_async_run cfg (xq_language body) (xq_version body) (xq_template body) (pr_tenant_id p)) (\<lambda>row.
        return_em (AsyncRunAccepted (rn_id row) (run_status_value (rn_status row)),
          Some (run_async cfg (rn_id row) (xq_language body) (xq_code body) (xq_version body) (xq_stdin body)
                  (xq_template body) (pr_tenant_id p) (pr_user_id p))))
      else
        bind_em (execute cfg (xq_language body) (xq_code body) (xq_version body) (xq_stdin body) (xq_template body)
                   (pr_tenant_id p) (pr_user_id p) None) (\<lambda>result.
        return_em (Bundled result, None)))"

subsection \<open>GET /v1/runs\<close>

definition list_runs :: "page_params \<Rightarrow> string option \<Rightarrow> string option \<Rightarrow> principal \<Rightarrow> run_summary page prog" where
  "list_runs params sandbox_id run_status p =
     query_db (\<lambda>d. page_of params summarize_run
       (newest_first rn_created_at rn_id
         (filter (\<lambda>r. rn_tenant_id r = pr_tenant_id p \<and>
                      (case sandbox_id of None \<Rightarrow> True | Some s \<Rightarrow> rn_sandbox_id r = Some s) \<and>
                      wanted run_status (run_status_value (rn_status r))) (d_runs d))))"

definition get_run :: "string \<Rightarrow> principal \<Rightarrow> run_detail prog" where
  "get_run run_id p =
     bind_em (query_db (\<lambda>d. row_get rn_id run_id (d_runs d))) (\<lambda>found.
     case found of
       None \<Rightarrow> raise_em (HTTPException 404 run_id)
     | Some row \<Rightarrow> if rn_tenant_id row \<noteq> pr_tenant_id p then raise_em (HTTPException 404 run_id)
                   else return_em (detail_of_run row))"

subsection \<open>/v1/sandboxes\<close>

record create_sandbox_request =
  cq_language :: string
  cq_version :: "string option"
  cq_template :: "string option"
  cq_persistent :: bool

definition create_sandbox_route :: "sandbox_config \<Rightarrow> create_sandbox_request \<Rightarrow> principal \<Rightarrow> sandbox_response prog" where
  "create_sandbox_route cfg body p =
     bind_em (create_sandbox cfg (cq_language body) (cq_version body) (cq_template body) (cq_persistent body)
                (pr_tenant_id p) (pr_user_id p)) (\<lambda>row.
     return_em (summarize_sandbox row None))"

definition list_sandboxes :: "page_params \<Rightarrow> string option \<Rightarrow> bool \<Rightarrow> principal \<Rightarrow> sandbox_response page prog" where
  "list_sandboxes params state mine p =
     query_db (\<lambda>d. page_of params (\<lambda>r. summarize_sandbox r None)
       (newest_first sb_created_at sb_id
         (filter (\<lambda>r. sb_tenant_id r = pr_tenant_id p \<and> wanted state (sandbox_state_value (sb_state r)) \<and>
                      (mine \<and> pr_user_id p \<noteq> None \<longrightarrow> sb_user_id r = pr_user_id p)) (d_sandboxes d))))"

definition get_sandbox_route :: "string \<Rightarrow> principal \<Rightarrow> sandbox_response prog" where
  "get_sandbox_route sandbox_id p =
     bind_em (get_sandbox_status sandbox_id (pr_tenant_id p)) (\<lambda>(row, live).
     return_em (summarize_sandbox row (Some (sandbox_state_value live))))"

definition destroy_sandbox_route :: "sandbox_config \<Rightarrow> string \<Rightarrow> principal \<Rightarrow> unit prog" where
  "destroy_sandbox_route cfg sandbox_id p = destroy_sandbox cfg sandbox_id (pr_tenant_id p) None"

record run_request =
  rq_language :: "string option"
  rq_code :: string
  rq_stdin :: string

definition run_in_sandbox_route :: "sandbox_config \<Rightarrow> run_request \<Rightarrow> string \<Rightarrow> principal \<Rightarrow> batch_run_result prog" where
  "run_in_sandbox_route cfg body sandbox_id p =
     run_in_sandbox cfg sandbox_id (rq_code body) (rq_stdin body) (rq_language body) (pr_tenant_id p)"

subsection \<open>Files\<close>

definition download_file :: "string \<Rightarrow> string \<Rightarrow> principal \<Rightarrow> string prog" where
  "download_file sandbox_id path p =
     bind_em (lift_em (validate_relative_path path False)) (\<lambda>relative.
     get_file sandbox_id (pr_tenant_id p) (posix_join workspace_root relative))"

text \<open>\<open>bytes.decode("utf-8")\<close> in strict mode: no overlong form, no surrogate, nothing above U+10FFFF.\<close>

definition continuation :: "8 word \<Rightarrow> bool" where
  "continuation b \<longleftrightarrow> 0x80 \<le> b \<and> b \<le> 0xBF"

fun utf8_valid :: "8 word list \<Rightarrow> bool" where
  "utf8_valid [] = True"
| "utf8_valid (a # bs) =
     (if a < 0x80 then utf8_valid bs
      else if 0xC2 \<le> a \<and> a \<le> 0xDF then (case bs of b # cs \<Rightarrow> continuation b \<and> utf8_valid cs | _ \<Rightarrow> False)
      else if 0xE0 \<le> a \<and> a \<le> 0xEF then
        (case bs of b # c # ds \<Rightarrow> continuation b \<and> (a = 0xE0 \<longrightarrow> 0xA0 \<le> b) \<and> (a = 0xED \<longrightarrow> b \<le> 0x9F) \<and> continuation c \<and> utf8_valid ds
         | _ \<Rightarrow> False)
      else if 0xF0 \<le> a \<and> a \<le> 0xF4 then
        (case bs of b # c # d # es \<Rightarrow>
           continuation b \<and> (a = 0xF0 \<longrightarrow> 0x90 \<le> b) \<and> (a = 0xF4 \<longrightarrow> b \<le> 0x8F) \<and> continuation c \<and> continuation d \<and> utf8_valid es
         | _ \<Rightarrow> False)
      else False)"

definition decode_utf8 :: "8 word list \<Rightarrow> exn + string" where
  "decode_utf8 bs = (if utf8_valid bs then Inr (map (\<lambda>b. char_of (unat b)) bs) else Inl (ValueError ''UnicodeDecodeError''))"

definition upload_file :: "string \<Rightarrow> string \<Rightarrow> 8 word list \<Rightarrow> principal \<Rightarrow> unit prog" where
  "upload_file sandbox_id path body p =
     bind_em (lift_em (validate_relative_path path False)) (\<lambda>relative.
     bind_em (catch_em (lift_em (decode_utf8 body)) (\<lambda>e. e = ValueError ''UnicodeDecodeError'')
                (\<lambda>e. raise_em (HTTPException 400 ''file content must be UTF-8''))) (\<lambda>text.
     put_file sandbox_id (pr_tenant_id p) relative text))"

definition get_tree :: "string \<Rightarrow> string \<Rightarrow> principal \<Rightarrow> (string \<times> bool) list prog" where
  "get_tree sandbox_id path p =
     bind_em (lift_em (validate_relative_path path True)) (\<lambda>relative.
     list_tree sandbox_id (pr_tenant_id p) (if relative \<noteq> [] then posix_join workspace_root relative else workspace_root))"

subsection \<open>Laws: polling\<close>

lemma start_async_run_run:
  assumes "start_async_run cfg language version template t w = (Inr row, w')"
  shows "sv_session_factory cfg \<and> rn_tenant_id row = t \<and> rn_status row = RunPending \<and>
    row_get rn_id (rn_id row) (d_runs (w_committed w')) = Some row"
proof -
  obtain rv v where "resolve_spec cfg language version template w = (Inr rv, v)"
    using assms by (auto simp: start_async_run_def em_simps split: if_splits prod.splits sum.splits)
  with assms show ?thesis
    by (auto simp: start_async_run_def em_simps put_run_def Let_def row_get_put blank_run_def split: if_splits)
qed

lemma polled:
  assumes "w\<lparr>w_db := w_committed w\<rparr> = w" "row_get rn_id i (d_runs (w_committed w)) = Some row"
  shows "with_session (get_run i p) w =
    (if rn_tenant_id row = pr_tenant_id p then Inr (detail_of_run row) else Inl (HTTPException 404 i), w)"
proof -
  have "w_db w = w_committed w" using arg_cong [OF assms(1), of w_db] by simp
  then show ?thesis using assms by (simp add: with_session_def get_run_def em_simps)
qed

lemma detail_of_run_simps [simp]:
  "ro_id (detail_of_run row) = rn_id row" "ro_status (detail_of_run row) = run_status_value (rn_status row)"
  "ro_exit_code (detail_of_run row) = rn_exit_code row" "ro_truncated (detail_of_run row) = rn_truncated row"
  "ro_timed_out (detail_of_run row) = rn_timed_out row" "ro_stdout (detail_of_run row) = text_or_empty (rn_stdout_excerpt row)"
  "ro_stderr (detail_of_run row) = text_or_empty (rn_stderr_excerpt row)" "ro_variables (detail_of_run row) = rn_variables row"
  "ro_error (detail_of_run row) = rn_error row"
  by (simp_all add: detail_of_run_def summarize_run_def run_summary.extend_def)

text \<open>What a synchronous response would have carried, as a poller sees it.\<close>

definition bundles :: "run_detail \<Rightarrow> batch_run_result \<Rightarrow> bool" where
  "bundles d result \<longleftrightarrow> ro_exit_code d = Some (br_exit_code result) \<and> ro_stdout d = take 10000 (br_stdout result) \<and>
     ro_stderr d = take 10000 (br_stderr result) \<and> ro_variables d = br_variables result \<and>
     ro_truncated d = br_truncated result \<and> ro_timed_out d = br_timed_out result"

lemma settled_run_reads:
  assumes "(\<exists>result v v'. execute cfg l c vn si t tenant u j v = (Inr result, v') \<and> carries_result row tenant result) \<or>
    rn_status row = RunFailed \<and> rn_error row \<noteq> None \<and> rn_tenant_id row = tn"
  shows "ro_status (detail_of_run row) \<in> set terminal_statuses \<and>
    (if ro_status (detail_of_run row) = ''completed''
     then \<exists>result v v'. execute cfg l c vn si t tenant u j v = (Inr result, v') \<and> bundles (detail_of_run row) result
     else ro_error (detail_of_run row) \<noteq> None)"
  using assms
proof
  assume "\<exists>result v v'. execute cfg l c vn si t tenant u j v = (Inr result, v') \<and> carries_result row tenant result"
  then show ?thesis by (fastforce simp: carries_result_def terminal_statuses_def text_or_empty_def bundles_def)
qed (simp add: terminal_statuses_def)


definition demo_request :: execute_request where
  "demo_request = \<lparr>xq_language = ''python'', xq_version = None, xq_template = None, xq_code = ''print(1)'', xq_stdin = []\<rparr>"

definition demo_caller :: principal where
  "demo_caller = \<lparr>pr_tenant_id = ''t1'', pr_user_id = Some ''ada'', pr_role = ''user''\<rparr>"


subsection \<open>Laws: files\<close>

text \<open>The files a call to the backend concerns, as absolute paths, and the container it goes to.\<close>

fun touched :: "call \<Rightarrow> string list" where
  "touched (CallGetFile h path r) = [path]"
| "touched (CallListTree h path r) = [path]"
| "touched (CallPutFiles h files r) = map (\<lambda>f. posix_join workspace_root (fst f)) files"
| "touched c = []"

fun addressed :: "call \<Rightarrow> sandbox_handle option" where
  "addressed (CallGetFile h path r) = Some h"
| "addressed (CallListTree h path r) = Some h"
| "addressed (CallPutFiles h files r) = Some h"
| "addressed c = None"

definition own_live_handle :: "string \<Rightarrow> principal \<Rightarrow> world \<Rightarrow> sandbox_handle \<Rightarrow> bool" where
  "own_live_handle i p w h \<longleftrightarrow> (\<exists>row. row_get sb_id i (d_sandboxes (w_db w)) = Some row \<and> sb_tenant_id row = pr_tenant_id p \<and>
     sb_state row \<noteq> Terminated \<and> h = handle_from_row row)"

definition confined_access :: "string \<Rightarrow> principal \<Rightarrow> world \<Rightarrow> world \<Rightarrow> bool" where
  "confined_access i p w w' \<longleftrightarrow> w' = w \<or>
     (\<exists>c h. w' = w\<lparr>w_calls := w_calls w @ [c]\<rparr> \<and> addressed c = Some h \<and> own_live_handle i p w h \<and>
        touched c \<noteq> [] \<and> list_all below_workspace (touched c))"

lemma live_handle_run:
  "live_handle i t w =
     (case row_get sb_id i (d_sandboxes (w_db w)) of
        Some row \<Rightarrow> if sb_tenant_id row = t \<and> sb_state row \<noteq> Terminated then (Inr (handle_from_row row), w)
                    else (Inl (SandboxNotFoundError i), w)
      | None \<Rightarrow> (Inl (SandboxNotFoundError i), w))"
  by (auto simp: live_handle_def get_sandbox_def em_simps split: option.split)

lemma live_handle_cases:
  assumes "live_handle i (pr_tenant_id p) w = (r, w')"
  shows "w' = w \<and> (case r of Inl e \<Rightarrow> e = SandboxNotFoundError i | Inr h \<Rightarrow> own_live_handle i p w h)"
  using assms by (auto simp: live_handle_run own_live_handle_def split: option.splits if_splits)

text \<open>
  C27. The file routes never leave the workspace. Whatever path a client sends, a download, an upload or a
  listing makes at most one call to the backend, addressed to the container of a live sandbox of the
  caller's tenant, about a file or directory below that sandbox's workspace; nothing else changes.
\<close>

theorem file_routes_confined:
  "confined_access i p w (snd (download_file i path p w)) \<and> confined_access i p w (snd (upload_file i path body p w)) \<and>
   confined_access i p w (snd (get_tree i path p w))"
proof (intro conjI)
  obtain r v where live: "live_handle i (pr_tenant_id p) w = (r, v)" by (cases "live_handle i (pr_tenant_id p) w")
  note handle = live_handle_cases [OF live]
  show "confined_access i p w (snd (download_file i path p w))"
  proof (cases "validate_relative_path path False")
    case (Inr relative)
    with validated_below [OF Inr] live handle show ?thesis
      by (cases r) (auto simp: download_file_def get_file_def prov_get_file_def em_simps confined_access_def)
  qed (simp add: download_file_def em_simps confined_access_def)
  show "confined_access i p w (snd (upload_file i path body p w))"
  proof (cases "validate_relative_path path False")
    case (Inr relative)
    with validated_below [OF Inr] live handle show ?thesis
      by (cases r) (auto simp: upload_file_def decode_utf8_def put_file_def prov_put_files_def em_simps confined_access_def)
  qed (simp add: upload_file_def em_simps confined_access_def)
  show "confined_access i p w (snd (get_tree i path p w))"
  proof (cases "validate_relative_path path True")
    case (Inr relative)
    with validated_below [OF Inr] live handle show ?thesis
      by (cases r) (auto simp: get_tree_def list_tree_def prov_list_tree_def em_simps confined_access_def)
  qed (simp add: get_tree_def em_simps confined_access_def)
qed

subsection \<open>Laws: listings\<close>

definition fetched :: "(page_params \<Rightarrow> 'o page prog) \<Rightarrow> int \<Rightarrow> nat \<Rightarrow> world \<Rightarrow> 'o list" where
  "fetched route limit n w = concat (map (\<lambda>k.
     case fst (route \<lparr>pp_limit = limit, pp_offset = int k * limit\<rparr> w) of Inr pg \<Rightarrow> pg_items pg | Inl _ \<Rightarrow> []) [0..<n])"

lemma fetched_query:
  assumes "\<And>params. route params = query_db (\<lambda>d. page_of params f (rows d))" "1 \<le> limit" "int (length (rows (w_db w))) \<le> int n * limit"
  shows "fetched route limit n w = map f (rows (w_db w))"
proof -
  have "fst (route params w) = Inr (page_of params f (rows (w_db w)))" for params by (simp add: assms(1))
  then show ?thesis using pages_are_listing [OF assms(2,3), of f] by (simp add: fetched_def del: page_of_simps)
qed

lemma row_get_image:
  assumes "distinct (map key rows)"
  shows "(\<exists>row. row_get key k rows = Some row \<and> P row) \<longleftrightarrow> k \<in> key ` {r \<in> set rows. P r}"
proof
  assume "\<exists>row. row_get key k rows = Some row \<and> P row"
  then obtain row where "row_get key k rows = Some row" "P row" by blast
  with row_get_mem [OF this(1)] row_get_key [OF this(1)] show "k \<in> key ` {r \<in> set rows. P r}" by blast
next
  assume "k \<in> key ` {r \<in> set rows. P r}"
  then obtain r where "k = key r" "r \<in> set rows" "P r" by blast
  with row_get_distinct [OF assms this(2)] show "\<exists>row. row_get key k rows = Some row \<and> P row" by blast
qed

text \<open>
  The run history is complete and private. Paging through it with any page size shows, once each and
  newest first, exactly the runs of the caller's tenant that the filters select; a run's detail is
  served to exactly the callers whose tenant's history holds it.
\<close>

theorem run_history_complete:
  assumes "1 \<le> limit" "int (length (d_runs (w_db w))) \<le> int n * limit" "distinct (map rn_id (d_runs (w_db w)))"
  shows "\<exists>rows. fetched (\<lambda>params. list_runs params sandbox_id st p) limit n w = map summarize_run rows \<and> distinct (map rn_id rows) \<and>
     sorted_wrt (\<lambda>x y. (rn_created_at y, rn_id y) \<le> (rn_created_at x, rn_id x)) rows \<and>
     set rows = {r \<in> set (d_runs (w_db w)). rn_tenant_id r = pr_tenant_id p \<and>
       (sandbox_id = None \<or> rn_sandbox_id r = sandbox_id) \<and> (st = None \<or> st = Some (run_status_value (rn_status r)))} \<and>
     (sandbox_id = None \<and> st = None \<longrightarrow> (\<exists>d. fst (get_run i p w) = Inr d) = (i \<in> rn_id ` set rows))"
proof -
  let ?P = "\<lambda>r. rn_tenant_id r = pr_tenant_id p \<and> (case sandbox_id of None \<Rightarrow> True | Some s \<Rightarrow> rn_sandbox_id r = Some s) \<and>
      wanted st (run_status_value (rn_status r))"
  let ?rows = "newest_first rn_created_at rn_id (filter ?P (d_runs (w_db w)))"
  have len: "int (length ?rows) \<le> int n * limit"
    using assms(2) length_filter_le [of ?P "d_runs (w_db w)"] by (simp only: length_newest_first)
  have all: "fetched (\<lambda>params. list_runs params sandbox_id st p) limit n w = map summarize_run ?rows"
    by (rule fetched_query [OF list_runs_def assms(1) len])
  have P: "?P r \<longleftrightarrow> rn_tenant_id r = pr_tenant_id p \<and> (sandbox_id = None \<or> rn_sandbox_id r = sandbox_id) \<and>
      (st = None \<or> st = Some (run_status_value (rn_status r)))" for r
    by (cases sandbox_id; cases st) auto
  have detail: "(\<exists>d. fst (get_run i p w) = Inr d) \<longleftrightarrow> i \<in> rn_id ` {r \<in> set (d_runs (w_db w)). rn_tenant_id r = pr_tenant_id p}"
    by (simp add: row_get_image [OF assms(3), symmetric]) (auto simp: get_run_def em_simps split: option.splits if_splits)
  have set: "set ?rows = {r \<in> set (d_runs (w_db w)). ?P r}" by simp
  have order: "sorted_wrt (\<lambda>x y. (rn_created_at y, rn_id y) \<le> (rn_created_at x, rn_id x)) ?rows" by (rule sorted_newest_wrt)
  have ids: "distinct (map rn_id ?rows)" using assms(3) by (simp add: distinct_map_filter)
  show ?thesis
  proof (intro exI [of _ ?rows] conjI all ids order)
    show rows: "set ?rows = {r \<in> set (d_runs (w_db w)). rn_tenant_id r = pr_tenant_id p \<and>
       (sandbox_id = None \<or> rn_sandbox_id r = sandbox_id) \<and> (st = None \<or> st = Some (run_status_value (rn_status r)))}"
      unfolding set by (rule Collect_cong) (simp only: P)
    show "sandbox_id = None \<and> st = None \<longrightarrow> (\<exists>d. fst (get_run i p w) = Inr d) = (i \<in> rn_id ` set ?rows)"
      unfolding rows detail by simp
  qed
qed

definition two_tenants :: db where
  "two_tenants = empty_db\<lparr>d_runs := [blank_run ''a'' ''t1'' 1, blank_run ''b'' ''t2'' 2, blank_run ''c'' ''t1'' 2, blank_run ''d'' ''t1'' 2]\<rparr>"

theorem run_history_complete_witness:
  "\<exists>rows. fetched (\<lambda>params. list_runs params None None demo_caller) 3 2 (demo_world two_tenants empty_registry) = map summarize_run rows \<and>
     distinct (map rn_id rows) \<and> rn_id ` set rows = {''a'', ''c'', ''d''}"
proof -
  have "int (length (d_runs (w_db (demo_world two_tenants empty_registry)))) \<le> int 2 * 3"
    "distinct (map rn_id (d_runs (w_db (demo_world two_tenants empty_registry))))"
    by (simp_all add: demo_world_def two_tenants_def blank_run_def)
  from run_history_complete [OF _ this, of None None demo_caller "''a''"] obtain rows where
    rows: "fetched (\<lambda>params. list_runs params None None demo_caller) 3 2 (demo_world two_tenants empty_registry) = map summarize_run rows"
      "distinct (map rn_id rows)"
      "set rows = {r \<in> set (d_runs (w_db (demo_world two_tenants empty_registry))). rn_tenant_id r = pr_tenant_id demo_caller}"
    by auto
  have "rn_id ` set rows = {''a'', ''c'', ''d''}"
    unfolding rows(3) set_filter [symmetric] by (simp add: demo_world_def two_tenants_def blank_run_def demo_caller_def)
  with rows show ?thesis by blast
qed

text \<open>The same of the sandboxes, for the caller's own as well.\<close>

theorem sandbox_listing_complete:
  assumes "1 \<le> limit" "int (length (d_sandboxes (w_db w))) \<le> int n * limit"
  shows "\<exists>rows. fetched (\<lambda>params. list_sandboxes params st mine p) limit n w = map (\<lambda>r. summarize_sandbox r None) rows \<and>
     sorted_wrt (\<lambda>x y. (sb_created_at y, sb_id y) \<le> (sb_created_at x, sb_id x)) rows \<and>
     set rows = {r \<in> set (d_sandboxes (w_db w)). sb_tenant_id r = pr_tenant_id p \<and>
       (st = None \<or> st = Some (sandbox_state_value (sb_state r))) \<and> (mine \<and> pr_user_id p \<noteq> None \<longrightarrow> sb_user_id r = pr_user_id p)}"
proof -
  let ?P = "\<lambda>r. sb_tenant_id r = pr_tenant_id p \<and> wanted st (sandbox_state_value (sb_state r)) \<and>
      (mine \<and> pr_user_id p \<noteq> None \<longrightarrow> sb_user_id r = pr_user_id p)"
  let ?rows = "newest_first sb_created_at sb_id (filter ?P (d_sandboxes (w_db w)))"
  have len: "int (length ?rows) \<le> int n * limit"
    using assms(2) length_filter_le [of ?P "d_sandboxes (w_db w)"] by (simp only: length_newest_first)
  have all: "fetched (\<lambda>params. list_sandboxes params st mine p) limit n w = map (\<lambda>r. summarize_sandbox r None) ?rows"
    by (rule fetched_query [OF list_sandboxes_def assms(1) len])
  have st: "wanted st x \<longleftrightarrow> st = None \<or> st = Some x" for x by (cases st) auto
  have "set ?rows = {r \<in> set (d_sandboxes (w_db w)). ?P r}" by simp
  moreover have "sorted_wrt (\<lambda>x y. (sb_created_at y, sb_id y) \<le> (sb_created_at x, sb_id x)) ?rows" by (rule sorted_newest_wrt)
  ultimately show ?thesis using all by (intro exI [of _ ?rows]) (simp add: st)
qed

end
