(* ===== verification/Access.thy ===== *)
theory Access
  imports Entitlement Audit_Log Quota
begin

section \<open>Authentication\<close>

text \<open>
  \<open>app/services/auth_service.py\<close> and the principal resolution of \<open>app/api/deps.py\<close>: an identity
  provider's token is exchanged for a session token, and a request is attributed to a principal by its
  session token or its API key. PyJWT, the HTTP client and SHA-256 are parameters: one \<open>auth_lib\<close> holds
  their answers within one request. Strings are ASCII where the code compares them without case.
\<close>

subsection \<open>Settings and the libraries\<close>

record auth_settings =
  as_disabled :: bool
  as_jwt_secret :: string
  as_session_ttl_seconds :: int
  as_oidc_issuer :: "string option"
  as_oidc_audience :: "string option"
  as_oidc_client_id :: "string option"
  as_oidc_jwks_url :: "string option"
  as_oidc_tenant_claim :: string
  as_bootstrap_admin_emails :: "string list"
  as_oidc_email_claim :: string

type_synonym claims = "(string \<times> json) list"

text \<open>What \<open>jwt.decode\<close> is asked to verify.\<close>

record jwt_check =
  jc_key :: string
  jc_algorithms :: "string list"
  jc_audience :: string
  jc_issuer :: "string option"
  jc_require :: "string list"

record auth_lib =
  al_get_json :: "string \<Rightarrow> exn + json"
  al_signing_key :: "string \<Rightarrow> string \<Rightarrow> exn + string"
  al_encode :: "claims \<Rightarrow> string \<Rightarrow> string \<Rightarrow> string"
  al_decode :: "jwt_check \<Rightarrow> int \<Rightarrow> string \<Rightarrow> exn + claims"
  al_sha256_hex :: "string \<Rightarrow> string"
  al_repr :: "json \<Rightarrow> string"

fun is_jwt_error :: "exn \<Rightarrow> bool" where
  "is_jwt_error (PyJWTError _) = True"
| "is_jwt_error _ = False"

fun is_authentication_failed :: "exn \<Rightarrow> bool" where
  "is_authentication_failed (AuthenticationFailed _) = True"
| "is_authentication_failed _ = False"

subsection \<open>The identity provider's token\<close>

definition oidc_algorithms :: "string list" where
  "oidc_algorithms = [''RS256'', ''RS384'', ''RS512'']"

definition rstrip_slash :: "string \<Rightarrow> string" where
  "rstrip_slash s = rev (dropWhile (\<lambda>c. c = CHR ''/'') (rev s))"

definition resolve_jwks_url :: "auth_lib \<Rightarrow> auth_settings \<Rightarrow> exn + string" where
  "resolve_jwks_url lib s =
     (case py_or (as_oidc_jwks_url s) None of
        Some url \<Rightarrow> Inr url
      | None \<Rightarrow>
          (case py_or (as_oidc_issuer s) None of
             None \<Rightarrow> Inl (ConfigurationError ''auth.oidc_issuer'')
           | Some issuer \<Rightarrow>
               (let discovery_url = rstrip_slash issuer @ ''/.well-known/openid-configuration'' in
                case al_get_json lib discovery_url of
                  Inl e \<Rightarrow> Inl e
                | Inr document \<Rightarrow>
                    (case json_get document ''jwks_uri'' of
                       Inl e \<Rightarrow> Inl e
                     | Inr (Some (JString uri)) \<Rightarrow> if uri = [] then Inl (ConfigurationError discovery_url) else Inr uri
                     | Inr (Some v) \<Rightarrow> if py_truthy v then Inr (al_repr lib v) else Inl (ConfigurationError discovery_url)
                     | Inr None \<Rightarrow> Inl (ConfigurationError discovery_url)))))"

definition oidc_check :: "auth_settings \<Rightarrow> string \<Rightarrow> string \<Rightarrow> jwt_check" where
  "oidc_check s audience key =
     \<lparr>jc_key = key, jc_algorithms = oidc_algorithms, jc_audience = audience, jc_issuer = as_oidc_issuer s,
      jc_require = [''exp'', ''iat'']\<rparr>"

definition verify_oidc_token :: "auth_lib \<Rightarrow> auth_settings \<Rightarrow> string \<Rightarrow> claims prog" where
  "verify_oidc_token lib s token =
     (case py_or (as_oidc_audience s) None of
        None \<Rightarrow> raise_em (ConfigurationError ''auth.oidc_audience'')
      | Some audience \<Rightarrow>
          bind_em (lift_em (resolve_jwks_url lib s)) (\<lambda>jwks_url.
          catch_em
            (bind_em (lift_em (al_signing_key lib jwks_url token)) (\<lambda>key.
             bind_em utc_now (\<lambda>now.
             lift_em (al_decode lib (oidc_check s audience key) now token))))
            is_jwt_error
            (\<lambda>_. raise_em (AuthenticationFailed ''invalid OIDC token''))))"

subsection \<open>Users and tenants\<close>

text \<open>\<open>str(value)\<close>: a string is itself; anything else is printed by the library.\<close>

definition claim_text :: "auth_lib \<Rightarrow> json \<Rightarrow> string" where
  "claim_text lib v = (case v of JString t \<Rightarrow> t | _ \<Rightarrow> al_repr lib v)"

text \<open>The chain of \<open>or\<close>: the first claim of the list that is present and true.\<close>

definition first_claim :: "claims \<Rightarrow> string list \<Rightarrow> json option" where
  "first_claim cs names =
     (case filter py_truthy (concat (map (\<lambda>n. case map_of cs n of None \<Rightarrow> [] | Some v \<Rightarrow> [v]) names)) of
        [] \<Rightarrow> None | v # _ \<Rightarrow> Some v)"

definition identity_from_claims :: "auth_lib \<Rightarrow> auth_settings \<Rightarrow> claims \<Rightarrow> exn + (string \<times> string)" where
  "identity_from_claims lib s cs =
     (case first_claim cs [as_oidc_tenant_claim s] of
        None \<Rightarrow> Inl (AuthenticationFailed (as_oidc_tenant_claim s))
      | Some tenant_key \<Rightarrow>
          (case first_claim cs [as_oidc_email_claim s, ''email'', ''sub''] of
             None \<Rightarrow> Inl (AuthenticationFailed ''token has no usable identity claim'')
           | Some email \<Rightarrow> Inr (claim_text lib tenant_key, claim_text lib email)))"

definition is_bootstrap_admin :: "auth_settings \<Rightarrow> string \<Rightarrow> bool" where
  "is_bootstrap_admin s email \<longleftrightarrow> py_lower email \<in> set (map py_lower (as_bootstrap_admin_emails s))"

definition tenant_name_prefix :: string where
  "tenant_name_prefix = ''oidc:''"

text \<open>The tenant of that name, created when there is none; the user of that email, likewise.\<close>

definition tenant_named :: "string \<Rightarrow> tenant_row prog" where
  "tenant_named name =
     bind_em (query_db (\<lambda>d. filter (\<lambda>t. tn_name t = name) (d_tenants d))) (\<lambda>rows.
     bind_em (lift_em (scalar_one_or_none rows)) (\<lambda>found.
     case found of
       Some t \<Rightarrow> return_em t
     | None \<Rightarrow>
         bind_em fresh_uuid (\<lambda>i. bind_em db_now (\<lambda>created_at.
         let t = \<lparr>tn_id = i, tn_name = name, tn_created_at = created_at\<rparr>
         in seq_em (update_db (\<lambda>d. d\<lparr>d_tenants := d_tenants d @ [t]\<rparr>)) (return_em t)))))"

definition add_user :: "string \<Rightarrow> string \<Rightarrow> string \<Rightarrow> user_row prog" where
  "add_user tenant_id email role =
     bind_em fresh_uuid (\<lambda>i. bind_em db_now (\<lambda>created_at.
     let u = \<lparr>us_id = i, us_tenant_id = tenant_id, us_email = email, us_role = role, us_created_at = created_at\<rparr>
     in seq_em (update_db (\<lambda>d. d\<lparr>d_users := d_users d @ [u]\<rparr>)) (return_em u)))"

definition user_of :: "string \<Rightarrow> user_row option prog" where
  "user_of email =
     bind_em (query_db (\<lambda>d. filter (\<lambda>u. us_email u = email) (d_users d))) (\<lambda>rows.
     lift_em (scalar_one_or_none rows))"

definition principal_of_user :: "string \<Rightarrow> user_row \<Rightarrow> principal" where
  "principal_of_user tenant_id u = \<lparr>pr_tenant_id = tenant_id, pr_user_id = Some (us_id u), pr_role = us_role u\<rparr>"

definition login_user :: "auth_settings \<Rightarrow> tenant_row \<Rightarrow> string \<Rightarrow> user_row prog" where
  "login_user s tenant email =
     bind_em (user_of email) (\<lambda>found.
     case found of
       None \<Rightarrow> add_user (tn_id tenant) email (if is_bootstrap_admin s email then ''admin'' else ''user'')
     | Some u \<Rightarrow>
         (if us_tenant_id u \<noteq> tn_id tenant
          then raise_em (AuthenticationFailed ''this identity is already registered under a different tenant'')
          else if is_bootstrap_admin s email \<and> us_role u \<noteq> ''admin''
          then seq_em (update_db (\<lambda>d. d\<lparr>d_users := row_put us_id (u\<lparr>us_role := ''admin''\<rparr>) (d_users d)\<rparr>))
                 (return_em (u\<lparr>us_role := ''admin''\<rparr>))
          else return_em u))"

definition resolve_principal_from_claims :: "auth_lib \<Rightarrow> auth_settings \<Rightarrow> claims \<Rightarrow> principal prog" where
  "resolve_principal_from_claims lib s cs =
     bind_em (lift_em (identity_from_claims lib s cs)) (\<lambda>(tenant_key, email).
     bind_em (tenant_named (tenant_name_prefix @ tenant_key)) (\<lambda>tenant.
     bind_em (login_user s tenant email) (\<lambda>u.
     seq_em commit (return_em (principal_of_user (us_tenant_id u) u)))))"

subsection \<open>Session tokens\<close>

record session_token =
  st_access_token :: string
  st_expires_at :: int
  st_principal :: principal

definition session_algorithm :: string where
  "session_algorithm = ''HS256''"

definition session_issuer :: string where
  "session_issuer = ''kubesandbox''"

definition session_audience :: string where
  "session_audience = ''kubesandbox-api''"

text \<open>\<open>int(t.timestamp())\<close> of an instant after 1970, kept in microseconds.\<close>

definition unix_seconds :: "int \<Rightarrow> int" where
  "unix_seconds t = t div us_per_second"

definition session_payload :: "principal \<Rightarrow> int \<Rightarrow> int \<Rightarrow> claims" where
  "session_payload p now expires_at =
     [(''iss'', JString session_issuer), (''aud'', JString session_audience),
      (''sub'', JString (case pr_user_id p of None \<Rightarrow> [] | Some u \<Rightarrow> u)), (''tid'', JString (pr_tenant_id p)),
      (''role'', JString (pr_role p)), (''iat'', JInt (unix_seconds now)), (''exp'', JInt (unix_seconds expires_at))]"

definition issue_session_token :: "auth_lib \<Rightarrow> auth_settings \<Rightarrow> principal \<Rightarrow> session_token prog" where
  "issue_session_token lib s p =
     bind_em utc_now (\<lambda>now.
     let expires_at = now + as_session_ttl_seconds s * us_per_second in
     return_em \<lparr>st_access_token = al_encode lib (session_payload p now expires_at) (as_jwt_secret s) session_algorithm,
                st_expires_at = expires_at, st_principal = p\<rparr>)"

definition session_check :: "auth_settings \<Rightarrow> jwt_check" where
  "session_check s =
     \<lparr>jc_key = as_jwt_secret s, jc_algorithms = [session_algorithm], jc_audience = session_audience,
      jc_issuer = Some session_issuer, jc_require = [''exp'', ''iat'', ''tid'', ''role'']\<rparr>"

text \<open>\<open>payload[name]\<close>; the tokens issued above carry strings there.\<close>

definition payload_text :: "auth_lib \<Rightarrow> claims \<Rightarrow> string \<Rightarrow> exn + string" where
  "payload_text lib cs name =
     (case map_of cs name of None \<Rightarrow> Inl (OtherException ''KeyError'') | Some v \<Rightarrow> Inr (claim_text lib v))"

definition verify_session_token :: "auth_lib \<Rightarrow> auth_settings \<Rightarrow> string \<Rightarrow> principal prog" where
  "verify_session_token lib s token =
     bind_em (catch_em (bind_em utc_now (\<lambda>now. lift_em (al_decode lib (session_check s) now token)))
        is_jwt_error (\<lambda>_. raise_em (AuthenticationFailed ''invalid or expired session token''))) (\<lambda>payload.
     bind_em (lift_em (payload_text lib payload ''tid'')) (\<lambda>tid.
     bind_em (lift_em (payload_text lib payload ''sub'')) (\<lambda>sub.
     bind_em (lift_em (payload_text lib payload ''role'')) (\<lambda>role.
     return_em \<lparr>pr_tenant_id = tid, pr_user_id = py_or (Some sub) None, pr_role = role\<rparr>))))"

definition login :: "auth_lib \<Rightarrow> auth_settings \<Rightarrow> string \<Rightarrow> session_token prog" where
  "login lib s oidc_token =
     bind_em (verify_oidc_token lib s oidc_token) (\<lambda>cs.
     bind_em (resolve_principal_from_claims lib s cs) (\<lambda>p.
     issue_session_token lib s p))"

subsection \<open>Who is calling\<close>

definition local_dev_tenant_name :: string where
  "local_dev_tenant_name = ''local-dev''"

definition local_dev_user_email :: string where
  "local_dev_user_email = ''local-dev@kubesandbox.local''"

definition get_or_create_local_dev_principal :: "principal prog" where
  "get_or_create_local_dev_principal =
     bind_em (tenant_named local_dev_tenant_name) (\<lambda>tenant.
     bind_em (user_of local_dev_user_email) (\<lambda>found.
     bind_em (case found of None \<Rightarrow> add_user (tn_id tenant) local_dev_user_email ''admin'' | Some u \<Rightarrow> return_em u) (\<lambda>u.
     return_em (principal_of_user (tn_id tenant) u))))"

definition bearer_token :: "string option \<Rightarrow> string option" where
  "bearer_token authorization =
     (case py_or authorization None of
        None \<Rightarrow> None
      | Some header \<Rightarrow>
          (let (scheme, _, token) = py_partition CHR '' '' header in
           if py_lower scheme \<noteq> ''bearer'' \<or> py_strip token = [] then None else Some (py_strip token)))"

definition last_used_write_interval :: rat where
  "last_used_write_interval = 60"

definition is_stale :: "int option \<Rightarrow> int \<Rightarrow> exn + bool" where
  "is_stale last_used_at now =
     (case last_used_at of None \<Rightarrow> Inr True
      | Some t \<Rightarrow> map_sum id (\<lambda>elapsed. elapsed > last_used_write_interval) (elapsed_seconds (Aware t) (Aware now)))"

definition put_api_key :: "api_key_row \<Rightarrow> unit prog" where
  "put_api_key k = update_db (\<lambda>d. d\<lparr>d_api_keys := row_put ak_id k (d_api_keys d)\<rparr>)"

definition principal_from_api_key :: "auth_lib \<Rightarrow> string \<Rightarrow> principal prog" where
  "principal_from_api_key lib api_key =
     bind_em (query_db (\<lambda>d. filter (\<lambda>k. ak_key_hash k = al_sha256_hex lib api_key \<and> \<not> ak_revoked k) (d_api_keys d))) (\<lambda>rows.
     bind_em (lift_em (scalar_one_or_none rows)) (\<lambda>found.
     case found of
       None \<Rightarrow> raise_em (HTTPException 401 ''invalid or revoked API key'')
     | Some k \<Rightarrow>
         bind_em utc_now (\<lambda>now.
         bind_em (lift_em (is_stale (ak_last_used_at k) now)) (\<lambda>stale.
         seq_em (when_em stale (seq_em (put_api_key (k\<lparr>ak_last_used_at := Some now\<rparr>)) commit))
           (return_em \<lparr>pr_tenant_id = ak_tenant_id k, pr_user_id = None, pr_role = ''service''\<rparr>)))))"

definition resolve_principal ::
  "auth_lib \<Rightarrow> auth_settings \<Rightarrow> string option \<Rightarrow> string option \<Rightarrow> principal prog" where
  "resolve_principal lib s api_key bearer =
     (if as_disabled s then
        bind_em get_or_create_local_dev_principal (\<lambda>p. seq_em commit (return_em p))
      else case py_or bearer None of
        Some token \<Rightarrow>
          catch_em (verify_session_token lib s token) is_authentication_failed
            (\<lambda>_. raise_em (HTTPException 401 ''invalid or expired session token''))
      | None \<Rightarrow>
          (case py_or api_key None of
             Some k \<Rightarrow> principal_from_api_key lib k
           | None \<Rightarrow> raise_em (HTTPException 401 ''missing credentials'')))"

definition get_current_principal ::
  "auth_lib \<Rightarrow> auth_settings \<Rightarrow> string option \<Rightarrow> string option \<Rightarrow> principal prog" where
  "get_current_principal lib s x_api_key authorization = resolve_principal lib s x_api_key (bearer_token authorization)"

text \<open>The query parameters \<open>access_token\<close> and \<open>api_key\<close> of a WebSocket handshake, and its header.\<close>

definition get_ws_principal ::
  "auth_lib \<Rightarrow> auth_settings \<Rightarrow> string option \<Rightarrow> string option \<Rightarrow> string option \<Rightarrow> principal prog" where
  "get_ws_principal lib s access_token api_key authorization =
     resolve_principal lib s api_key (py_or access_token (bearer_token authorization))"

definition require_admin :: "principal \<Rightarrow> principal prog" where
  "require_admin p = (if pr_role p \<noteq> ''admin'' then raise_em (HTTPException 403 ''admin role required'') else return_em p)"

subsection \<open>Laws of the login\<close>

lemma filter_key_distinct:
  "distinct (map key rows) \<Longrightarrow>
     filter (\<lambda>r. key r = k) rows = (case row_get key k rows of None \<Rightarrow> [] | Some r \<Rightarrow> [r])"
proof (induction rows)
  case (Cons r rows)
  show ?case
  proof (cases "key r = k")
    case True
    then have "k \<notin> key ` set rows" using Cons.prems by auto
    then have "filter (\<lambda>r. key r = k) rows = []" by (auto simp: filter_empty_conv)
    then show ?thesis using True by (simp add: row_get_def)
  next
    case False
    then show ?thesis using Cons by (simp add: row_get_def)
  qed
qed (simp add: row_get_def)

lemma scalar_of_key:
  "distinct (map key rows) \<Longrightarrow> scalar_one_or_none (filter (\<lambda>r. key r = k) rows) = Inr (row_get key k rows)"
  by (simp add: filter_key_distinct split: option.split)

definition identities_unique :: "db \<Rightarrow> bool" where
  "identities_unique d \<longleftrightarrow> distinct (map tn_name (d_tenants d)) \<and> distinct (map us_email (d_users d)) \<and>
     distinct (map us_id (d_users d))"

definition new_tenant :: "string \<Rightarrow> world \<Rightarrow> tenant_row" where
  "new_tenant name w = \<lparr>tn_id = e_uuid (w_env w) (w_uuids w), tn_name = name, tn_created_at = e_db_now (w_env w) (w_clock w)\<rparr>"

lemma tenant_named_run:
  assumes "identities_unique (w_db w)"
  shows "tenant_named name w =
    (case row_get tn_name name (d_tenants (w_db w)) of
       Some t \<Rightarrow> (Inr t, w)
     | None \<Rightarrow> (Inr (new_tenant name w), w\<lparr>w_uuids := Suc (w_uuids w), w_clock := Suc (w_clock w),
         w_db := (w_db w)\<lparr>d_tenants := d_tenants (w_db w) @ [new_tenant name w]\<rparr>\<rparr>))"
  using assms
  by (simp add: identities_unique_def tenant_named_def em_simps scalar_of_key new_tenant_def Let_def split: option.split)

lemma user_of_run:
  assumes "identities_unique (w_db w)"
  shows "user_of email w = (Inr (row_get us_email email (d_users (w_db w))), w)"
  using assms by (simp add: identities_unique_def user_of_def em_simps scalar_of_key)

lemma tenant_named_effect:
  assumes "tenant_named name w = (r, w')" "identities_unique (w_db w)"
  shows "\<exists>t. r = Inr t \<and> t \<in> set (d_tenants (w_db w')) \<and> tn_name t = name \<and> identities_unique (w_db w') \<and>
    set (d_tenants (w_db w)) \<subseteq> set (d_tenants (w_db w')) \<and> d_users (w_db w') = d_users (w_db w) \<and>
    w_committed w' = w_committed w \<and> w_env w' = w_env w \<and> w_uuids w' \<in> {w_uuids w, Suc (w_uuids w)}"
proof (cases "row_get tn_name name (d_tenants (w_db w))")
  case None
  from None have "name \<notin> tn_name ` set (d_tenants (w_db w))" by (simp add: row_get_None)
  with None show ?thesis using assms by (auto simp: tenant_named_run new_tenant_def identities_unique_def)
next
  case (Some t)
  then show ?thesis using assms by (auto simp: tenant_named_run dest: row_get_mem row_get_key)
qed

text \<open>The rows of the users after a login: one more, one promoted, or the same.\<close>

definition users_after_login :: "auth_settings \<Rightarrow> string \<Rightarrow> string \<Rightarrow> user_row list \<Rightarrow> user_row list \<Rightarrow> user_row \<Rightarrow> bool" where
  "users_after_login s tenant_id email us us' u \<longleftrightarrow>
     us_email u = email \<and> us_tenant_id u = tenant_id \<and>
     (row_get us_email email us = None \<and> us' = us @ [u] \<and>
        us_role u = (if is_bootstrap_admin s email then ''admin'' else ''user'') \<or>
      (\<exists>v. row_get us_email email us = Some v \<and>
        u = (if is_bootstrap_admin s email then v\<lparr>us_role := ''admin''\<rparr> else v) \<and> us' = row_put us_id u us))"

lemma row_put_same: "distinct (map key rows) \<Longrightarrow> r \<in> set rows \<Longrightarrow> row_put key r rows = rows"
proof (induction rows)
  case (Cons x rows)
  then show ?case by (cases "x = r") (auto dest: imageI [of r "set rows" key])
qed simp

lemma login_user_effect:
  assumes "login_user s tenant email w = (r, w')" "identities_unique (w_db w)"
  shows "case r of
       Inl e \<Rightarrow> w' = w \<and> (\<exists>m. e = AuthenticationFailed m) \<and>
         (\<exists>v\<in>set (d_users (w_db w)). us_email v = email \<and> us_tenant_id v \<noteq> tn_id tenant)
     | Inr u \<Rightarrow> users_after_login s (tn_id tenant) email (d_users (w_db w)) (d_users (w_db w')) u \<and>
         d_tenants (w_db w') = d_tenants (w_db w) \<and> w_committed w' = w_committed w \<and>
         (row_get us_email email (d_users (w_db w)) = None \<longrightarrow> us_id u = e_uuid (w_env w) (w_uuids w))"
proof (cases "row_get us_email email (d_users (w_db w))")
  case None
  then show ?thesis using assms
    by (auto simp: login_user_def user_of_run em_simps add_user_def users_after_login_def Let_def)
next
  case (Some v)
  then have v: "v \<in> set (d_users (w_db w))" "us_email v = email" by (auto dest: row_get_mem row_get_key)
  show ?thesis
  proof (cases "us_tenant_id v = tn_id tenant")
    case False
    then show ?thesis using assms Some v by (auto simp: login_user_def user_of_run em_simps)
  next
    case True
    have same: "row_put us_id v (d_users (w_db w)) = d_users (w_db w)"
      using assms(2) v(1) by (simp add: identities_unique_def row_put_same)
    show ?thesis
    proof (cases "is_bootstrap_admin s email \<and> us_role v \<noteq> ''admin''")
      case True
      then show ?thesis using assms Some v \<open>us_tenant_id v = tn_id tenant\<close>
        by (auto simp: login_user_def user_of_run em_simps users_after_login_def)
    next
      case False
      then have "(if is_bootstrap_admin s email then v\<lparr>us_role := ''admin''\<rparr> else v) = v" by auto
      then show ?thesis using assms Some v True False same
        by (auto simp: login_user_def user_of_run em_simps users_after_login_def)
    qed
  qed
qed


lemma identity_error: "identity_from_claims lib s cs = Inl e \<Longrightarrow> \<exists>m. e = AuthenticationFailed m"
  by (auto simp: identity_from_claims_def split: option.splits)

lemma login_effect:
  assumes "resolve_principal_from_claims lib s cs w = (r, w')" "identities_unique (w_db w)"
  shows "case r of
       Inl e \<Rightarrow> w_committed w' = w_committed w \<and> d_users (w_db w') = d_users (w_db w) \<and> (\<exists>m. e = AuthenticationFailed m)
     | Inr p \<Rightarrow> \<exists>tk email t u. identity_from_claims lib s cs = Inr (tk, email) \<and>
         p = principal_of_user (us_tenant_id u) u \<and> t \<in> set (d_tenants (w_db w')) \<and> tn_name t = tenant_name_prefix @ tk \<and>
         users_after_login s (tn_id t) email (d_users (w_db w)) (d_users (w_db w')) u \<and> w_committed w' = w_db w' \<and>
         (row_get us_email email (d_users (w_db w)) = None \<longrightarrow> us_id u \<in> e_uuid (w_env w) ` {w_uuids w, Suc (w_uuids w)})"
proof (cases "identity_from_claims lib s cs")
  case (Inl e)
  then show ?thesis using assms(1) identity_error [OF Inl]
    by (auto simp: resolve_principal_from_claims_def em_simps)
next
  case (Inr identity)
  obtain tk email where i: "identity = (tk, email)" by (cases identity)
  obtain rt w1 where tn: "tenant_named (tenant_name_prefix @ tk) w = (rt, w1)" by (cases "tenant_named (tenant_name_prefix @ tk) w")
  from tenant_named_effect [OF this assms(2)] obtain t where t: "rt = Inr t" "t \<in> set (d_tenants (w_db w1))"
    "tn_name t = tenant_name_prefix @ tk" "identities_unique (w_db w1)" "d_users (w_db w1) = d_users (w_db w)"
    "w_committed w1 = w_committed w" "w_env w1 = w_env w" "w_uuids w1 \<in> {w_uuids w, Suc (w_uuids w)}" by blast
  obtain ru w2 where u: "login_user s t email w1 = (ru, w2)" by (cases "login_user s t email w1")
  note eff = login_user_effect [OF u t(4)]
  show ?thesis
  proof (cases ru)
    case (Inl e)
    then have "r = Inl e" "w' = w2"
      using assms(1) Inr i tn t(1) u by (simp_all add: resolve_principal_from_claims_def em_simps)
    then show ?thesis using eff Inl t by simp
  next
    case (Inr v)
    then have "r = Inr (principal_of_user (us_tenant_id v) v)" "w' = w2\<lparr>w_committed := w_db w2\<rparr>"
      using assms(1) \<open>identity_from_claims lib s cs = Inr identity\<close> i tn t(1) u
      by (simp_all add: resolve_principal_from_claims_def em_simps)
    moreover have "users_after_login s (tn_id t) email (d_users (w_db w)) (d_users (w_db w2)) v"
      "t \<in> set (d_tenants (w_db w2))"
      "row_get us_email email (d_users (w_db w)) = None \<longrightarrow> us_id v \<in> e_uuid (w_env w) ` {w_uuids w, Suc (w_uuids w)}"
      using eff Inr t by auto
    ultimately show ?thesis
      using t(3) i \<open>identity_from_claims lib s cs = Inr identity\<close>
      by (simp only: sum.case) (intro exI [of _ tk] exI [of _ email] exI [of _ t] exI [of _ v] conjI; simp)
  qed
qed


text \<open>
  C33. Logging in grants no role. After any login, successful or not and whatever its claims say, a user
  is an administrator only if the same user was one before, or the operator listed the email that
  this very login proved; and every user that existed keeps its identity, its tenant and at least its role.
\<close>

theorem login_grants_no_role:
  assumes "resolve_principal_from_claims lib s cs w = (r, w')" "identities_unique (w_db w)"
  shows "(\<forall>u\<in>set (d_users (w_db w')). us_role u = ''admin'' \<longrightarrow>
      (\<exists>v\<in>set (d_users (w_db w)). us_id v = us_id u \<and> us_role v = ''admin'') \<or>
      is_bootstrap_admin s (us_email u) \<and> (\<exists>tk. identity_from_claims lib s cs = Inr (tk, us_email u))) \<and>
    (\<forall>v\<in>set (d_users (w_db w)). \<exists>u\<in>set (d_users (w_db w')).
      us_id u = us_id v \<and> us_email u = us_email v \<and> us_tenant_id u = us_tenant_id v \<and> us_role u \<in> {us_role v, ''admin''})"
proof (cases r)
  case (Inl e)
  then have "d_users (w_db w') = d_users (w_db w)" using login_effect [OF assms] by simp
  then show ?thesis by auto
next
  case (Inr p)
  let ?us = "d_users (w_db w)" and ?us' = "d_users (w_db w')"
  obtain tk email and t :: tenant_row and u :: user_row where i: "identity_from_claims lib s cs = Inr (tk, email)"
    and l: "users_after_login s (tn_id t) email ?us ?us' u"
    using login_effect [OF assms, unfolded Inr sum.case] by (elim exE conjE) (rule that, assumption+)
  from l consider (new) "?us' = ?us @ [u]" "us_email u = email" "us_role u = (if is_bootstrap_admin s email then ''admin'' else ''user'')"
    | (old) v where "row_get us_email email ?us = Some v" "us_email u = email" "?us' = row_put us_id u ?us"
        "u = (if is_bootstrap_admin s email then v\<lparr>us_role := ''admin''\<rparr> else v)"
    unfolding users_after_login_def by blast
  then show ?thesis
  proof cases
    case new
    then show ?thesis using i by (auto split: if_splits)
  next
    case old
    have v: "v \<in> set ?us" using old(1) by (rule row_get_mem)
    have u: "us_id u = us_id v" "us_email u = us_email v" "us_tenant_id u = us_tenant_id v" "us_role u \<in> {us_role v, ''admin''}"
      using old(4) by auto
    have mem: "\<exists>y\<in>set ?us'. us_id y = us_id x \<and> us_email y = us_email x \<and> us_tenant_id y = us_tenant_id x \<and>
        us_role y \<in> {us_role x, ''admin''}" if x: "x \<in> set ?us" for x
    proof (cases "us_id x = us_id u")
      case True
      then have "x = v" using assms(2) x v u(1) by (auto simp: identities_unique_def distinct_map dest: inj_onD)
      then show ?thesis using u old(3) row_put_mem [of u us_id ?us] by auto
    next
      case False
      then show ?thesis using mem_row_put_other [OF x] old(3) by auto
    qed
    have admin: "us_role y = ''admin'' \<longrightarrow> (\<exists>x\<in>set ?us. us_id x = us_id y \<and> us_role x = ''admin'') \<or>
        is_bootstrap_admin s (us_email y) \<and> (\<exists>tk. identity_from_claims lib s cs = Inr (tk, us_email y))" if "y \<in> set ?us'" for y
    proof -
      from that old(3) row_put_set [of us_id u ?us] have "y = u \<or> y \<in> set ?us" by auto
      then show ?thesis using i old(2,4) v by (auto split: if_splits)
    qed
    show ?thesis using mem admin by blast
  qed
qed

definition demo_auth :: auth_settings where
  "demo_auth = \<lparr>as_disabled = False, as_jwt_secret = ''secret'', as_session_ttl_seconds = 3600, as_oidc_issuer = Some ''https://idp/'',
     as_oidc_audience = Some ''app'', as_oidc_client_id = None, as_oidc_jwks_url = None, as_oidc_tenant_claim = ''tid'',
     as_bootstrap_admin_emails = [''Root@example.com''], as_oidc_email_claim = ''preferred_username''\<rparr>"

text \<open>A library that answers for one session token and one identity provider.\<close>

definition demo_lib :: auth_lib where
  "demo_lib = \<lparr>al_get_json = (\<lambda>_. Inr (JObject [(''jwks_uri'', JString ''https://idp/keys'')])),
     al_signing_key = (\<lambda>_ _. Inr ''public''),
     al_encode = (\<lambda>payload key alg. case map_of payload ''exp'' of Some (JInt n) \<Rightarrow> key @ ''.'' @ int_str n | _ \<Rightarrow> []),
     al_decode = (\<lambda>chk now token. if now < 1770003600 * us_per_second then Inr (session_payload
        \<lparr>pr_tenant_id = ''t1'', pr_user_id = Some ''u1'', pr_role = ''user''\<rparr> 1770000000000000 1770003600000000)
        else Inl (PyJWTError ''expired'')),
     al_sha256_hex = (\<lambda>k. ''h'' @ k), al_repr = (\<lambda>_. ''None'')\<rparr>"

definition demo_user :: user_row where
  "demo_user = \<lparr>us_id = ''u9'', us_tenant_id = ''t9'', us_email = ''root@example.com'', us_role = ''user'', us_created_at = 0\<rparr>"

definition demo_identities :: db where
  "demo_identities = empty_db\<lparr>d_tenants := [\<lparr>tn_id = ''t9'', tn_name = ''oidc:dir'', tn_created_at = 0\<rparr>], d_users := [demo_user]\<rparr>"

definition demo_claims :: claims where
  "demo_claims = [(''tid'', JString ''dir''), (''email'', JString ''root@example.com''), (''role'', JString ''admin'')]"

lemma demo_identities_unique: "identities_unique (w_db (demo_world demo_identities empty_registry))"
  by (simp add: identities_unique_def demo_world_def demo_identities_def)

theorem login_grants_no_role_witness:
  "\<exists>p w'. resolve_principal_from_claims demo_lib demo_auth demo_claims (demo_world demo_identities empty_registry) = (Inr p, w') \<and>
     pr_role p = ''admin'' \<and> (\<exists>u\<in>set (d_users (w_db w')). us_id u = ''u9'')"
proof -
  let ?w = "demo_world demo_identities empty_registry"
  have "\<exists>p w'. resolve_principal_from_claims demo_lib demo_auth demo_claims ?w = (Inr p, w') \<and> pr_role p = ''admin''"
    by (simp add: resolve_principal_from_claims_def identity_from_claims_def first_claim_def claim_text_def demo_claims_def
        demo_auth_def em_simps tenant_named_def user_of_def login_user_def demo_world_def demo_identities_def demo_user_def
        tenant_name_prefix_def is_bootstrap_admin_def py_lower_def lower_char_def principal_of_user_def)
  then obtain p w' where run: "resolve_principal_from_claims demo_lib demo_auth demo_claims ?w = (Inr p, w')" "pr_role p = ''admin''" by blast
  from login_grants_no_role [OF run(1) demo_identities_unique]
  have "\<exists>u\<in>set (d_users (w_db w')). us_id u = us_id demo_user" by (simp add: demo_world_def demo_identities_def) blast
  with run show ?thesis by (auto simp: demo_user_def)
qed


lemma map_row_put_same:
  "v \<in> set rows \<Longrightarrow> key r = key v \<Longrightarrow> f r = f v \<Longrightarrow> distinct (map key rows) \<Longrightarrow> map f (row_put key r rows) = map f rows"
proof (induction rows)
  case (Cons x rows)
  then show ?case by (cases "x = v") (auto dest: imageI [of v "set rows" key])
qed simp

lemma tenants_unique_effect:
  assumes "resolve_principal_from_claims lib s cs w = (Inr p, w')" "identities_unique (w_db w)"
  shows "distinct (map tn_name (d_tenants (w_db w')))"
proof -
  obtain tk email where i: "identity_from_claims lib s cs = Inr (tk, email)"
    using assms(1) by (auto simp: resolve_principal_from_claims_def em_simps split: sum.splits)
  obtain rt w1 where tn: "tenant_named (tenant_name_prefix @ tk) w = (rt, w1)" by (cases "tenant_named (tenant_name_prefix @ tk) w")
  from tenant_named_effect [OF this assms(2)] obtain t where t: "rt = Inr t" "identities_unique (w_db w1)" by blast
  obtain ru w2 where u: "login_user s t email w1 = (ru, w2)" by (cases "login_user s t email w1")
  show ?thesis
    using login_user_effect [OF u t(2)] assms(1) i tn t u
    by (cases ru) (auto simp: resolve_principal_from_claims_def em_simps identities_unique_def)
qed

lemma login_committed:
  assumes "resolve_principal_from_claims lib s cs w = (r, w')" "identities_unique (w_db w)"
    and "e_uuid (w_env w) ` {w_uuids w, Suc (w_uuids w)} \<inter> us_id ` set (d_users (w_db w)) = {}"
  shows "case r of
       Inl e \<Rightarrow> (\<exists>m. e = AuthenticationFailed m) \<and> w_committed w' = w_committed w
     | Inr p \<Rightarrow> identities_unique (w_committed w') \<and>
         (\<exists>tk email. identity_from_claims lib s cs = Inr (tk, email) \<and>
          (\<exists>t\<in>set (d_tenants (w_committed w')). \<exists>u\<in>set (d_users (w_committed w')).
             tn_name t = tenant_name_prefix @ tk \<and> us_email u = email \<and> us_tenant_id u = tn_id t \<and>
             p = \<lparr>pr_tenant_id = tn_id t, pr_user_id = Some (us_id u), pr_role = us_role u\<rparr>))"
proof (cases r)
  case (Inl e)
  then show ?thesis using login_effect [OF assms(1,2)] by simp
next
  case (Inr p)
  let ?us = "d_users (w_db w)" and ?us' = "d_users (w_db w')"
  obtain tk email and t :: tenant_row and u :: user_row where i: "identity_from_claims lib s cs = Inr (tk, email)"
    and p: "p = principal_of_user (us_tenant_id u) u" and t: "t \<in> set (d_tenants (w_db w'))" "tn_name t = tenant_name_prefix @ tk"
    and l: "users_after_login s (tn_id t) email ?us ?us' u" and c: "w_committed w' = w_db w'"
    and ids: "row_get us_email email ?us = None \<longrightarrow> us_id u \<in> e_uuid (w_env w) ` {w_uuids w, Suc (w_uuids w)}"
    using login_effect [OF assms(1,2), unfolded Inr sum.case] by (elim exE conjE) (rule that, assumption+)
  have uniq: "distinct (map us_email ?us)" "distinct (map us_id ?us)" using assms(2) by (simp_all add: identities_unique_def)
  have u: "us_email u = email" "us_tenant_id u = tn_id t" using l by (simp_all add: users_after_login_def)
  have "\<exists>v. row_get us_email email ?us = Some v \<and> ?us' = row_put us_id u ?us \<and> us_id u = us_id v \<and> us_email u = us_email v"
    if not_new: "\<not> (row_get us_email email ?us = None \<and> ?us' = ?us @ [u])"
  proof -
    from l not_new obtain v where v: "row_get us_email email ?us = Some v" "?us' = row_put us_id u ?us"
      "u = (if is_bootstrap_admin s email then v\<lparr>us_role := ''admin''\<rparr> else v)"
      unfolding users_after_login_def by blast
    from v(3) have "us_id u = us_id v" "us_email u = us_email v" by simp_all
    with v show ?thesis by blast
  qed
  note old_case = this
  have "u \<in> set ?us' \<and> distinct (map us_email ?us') \<and> distinct (map us_id ?us')"
  proof (cases "row_get us_email email ?us = None \<and> ?us' = ?us @ [u]")
    case True
    have "email \<notin> us_email ` set ?us" using True by (simp add: row_get_None)
    moreover have "us_id u \<in> e_uuid (w_env w) ` {w_uuids w, Suc (w_uuids w)}" using ids True by (iprover elim: conjE)
    then have "us_id u \<notin> us_id ` set ?us" using assms(3) by (meson disjoint_iff)
    ultimately show ?thesis using True u(1) uniq by simp
  next
    case False
    from old_case [OF this] obtain v where old: "row_get us_email email ?us = Some v" "?us' = row_put us_id u ?us"
      "us_id u = us_id v" "us_email u = us_email v" by (elim exE conjE) (rule that)
    have v: "v \<in> set ?us" using old(1) by (rule row_get_mem)
    have "map us_email ?us' = map us_email ?us"
      unfolding old(2) using v old(3,4) uniq(2) by (rule map_row_put_same)
    then show ?thesis using old(2) uniq row_put_mem [of u us_id ?us] distinct_row_put [OF uniq(2)] by simp
  qed
  then show ?thesis
    using Inr i p t u c tenants_unique_effect [of lib s cs w p w'] assms(1,2)
    by (auto simp: identities_unique_def principal_of_user_def)
qed

text \<open>
  A login lands in the tenant of its directory. From unique tenant names and emails, a login that
  succeeds yields the committed user of the proven email in the committed tenant \<open>oidc:<directory>\<close>, with
  that user's role, and names and emails are unique again; an email already registered under another
  tenant, or a token without an identity, is refused with nothing committed.
\<close>

theorem login_lands_in_own_tenant:
  assumes "resolve_principal_from_claims lib s cs w = (r, w')" "identities_unique (w_db w)"
    and "e_uuid (w_env w) ` {w_uuids w, Suc (w_uuids w)} \<inter> us_id ` set (d_users (w_db w)) = {}"
  shows "case r of
       Inl e \<Rightarrow> (\<exists>m. e = AuthenticationFailed m) \<and> w_committed w' = w_committed w
     | Inr p \<Rightarrow> identities_unique (w_committed w') \<and>
         (\<exists>tk email. identity_from_claims lib s cs = Inr (tk, email) \<and>
          (\<exists>t\<in>set (d_tenants (w_committed w')). \<exists>u\<in>set (d_users (w_committed w')).
             tn_name t = ''oidc:'' @ tk \<and> us_email u = email \<and> us_tenant_id u = tn_id t \<and>
             p = \<lparr>pr_tenant_id = tn_id t, pr_user_id = Some (us_id u), pr_role = us_role u\<rparr>))"
  using login_committed [OF assms] by (cases r) (auto simp: tenant_name_prefix_def)

theorem login_lands_in_own_tenant_witness:
  "\<exists>r w'. resolve_principal_from_claims demo_lib demo_auth demo_claims (demo_world empty_db empty_registry) = (r, w') \<and>
     (case r of Inl e \<Rightarrow> w_committed w' = empty_db | Inr p \<Rightarrow> identities_unique (w_committed w'))"
proof -
  obtain r w' where run: "resolve_principal_from_claims demo_lib demo_auth demo_claims (demo_world empty_db empty_registry) = (r, w')"
    by (cases "resolve_principal_from_claims demo_lib demo_auth demo_claims (demo_world empty_db empty_registry)")
  from login_lands_in_own_tenant [OF run] run show ?thesis
    by (cases r) (auto simp: demo_world_def empty_db_def identities_unique_def)
qed

subsection \<open>Session tokens and credentials\<close>

text \<open>
  What PyJWT documents of a token it made: checked with the same key, an allowed algorithm, the expected
  audience and issuer and the required claims present, it decodes to its payload until it expires.
\<close>

definition jwt_roundtrip :: "auth_lib \<Rightarrow> claims \<Rightarrow> string \<Rightarrow> bool" where
  "jwt_roundtrip lib payload key \<longleftrightarrow>
     (\<forall>chk now issued expires.
        jc_key chk = key \<and> session_algorithm \<in> set (jc_algorithms chk) \<and>
        map_of payload ''aud'' = Some (JString (jc_audience chk)) \<and>
        (\<forall>i. jc_issuer chk = Some i \<longrightarrow> map_of payload ''iss'' = Some (JString i)) \<and>
        set (jc_require chk) \<subseteq> fst ` set payload \<and>
        map_of payload ''iat'' = Some (JInt issued) \<and> map_of payload ''exp'' = Some (JInt expires) \<and>
        issued * us_per_second \<le> now \<longrightarrow>
        al_decode lib chk now (al_encode lib payload key session_algorithm) =
          (if now < expires * us_per_second then Inr payload else Inl (PyJWTError ''expired'')))"

lemma jwt_roundtrip_session:
  assumes "jwt_roundtrip lib (session_payload p issued expires) (as_jwt_secret s)" "issued \<le> now"
  shows "al_decode lib (session_check s) now (al_encode lib (session_payload p issued expires) (as_jwt_secret s) session_algorithm) =
    (if now < unix_seconds expires * us_per_second then Inr (session_payload p issued expires) else Inl (PyJWTError ''expired''))"
proof -
  have "unix_seconds issued * us_per_second \<le> now"
    using assms(2) by (simp add: unix_seconds_def)
  then show ?thesis
    using assms(1) [unfolded jwt_roundtrip_def, rule_format, of "session_check s" "unix_seconds issued" "unix_seconds expires" now]
    by (simp add: session_check_def session_payload_def)
qed

text \<open>
  Session tokens round-trip. A token issued for a principal verifies, at any later reading of the
  clock before its expiry in whole seconds, to the same tenant, user and role, an absent user staying
  absent, and from then on it is refused. Verification reads nothing but the clock.
\<close>

theorem session_token_roundtrip:
  assumes "issue_session_token lib s p w = (Inr tok, w1)"
    and "jwt_roundtrip lib (session_payload p (e_now (w_env w) (w_clock w)) (st_expires_at tok)) (as_jwt_secret s)"
    and "e_now (w_env w) (w_clock w) \<le> e_now (w_env v) (w_clock v)" "pr_user_id p \<noteq> Some []"
  shows "verify_session_token lib s (st_access_token tok) v =
    (if e_now (w_env v) (w_clock v) < unix_seconds (st_expires_at tok) * us_per_second then Inr p
     else Inl (AuthenticationFailed ''invalid or expired session token''),
     v\<lparr>w_clock := Suc (w_clock v)\<rparr>)"
proof -
  have tok: "st_access_token tok = al_encode lib (session_payload p (e_now (w_env w) (w_clock w)) (st_expires_at tok))
      (as_jwt_secret s) session_algorithm"
    using assms(1) by (auto simp: issue_session_token_def em_simps Let_def)
  have decoded: "al_decode lib (session_check s) (e_now (w_env v) (w_clock v)) (st_access_token tok) =
      (if e_now (w_env v) (w_clock v) < unix_seconds (st_expires_at tok) * us_per_second
       then Inr (session_payload p (e_now (w_env w) (w_clock w)) (st_expires_at tok)) else Inl (PyJWTError ''expired''))"
    unfolding tok by (rule jwt_roundtrip_session [OF assms(2,3)])
  have same_principal: "\<lparr>pr_tenant_id = pr_tenant_id p, pr_user_id = py_or (Some (case pr_user_id p of None \<Rightarrow> [] | Some u \<Rightarrow> u)) None,
      pr_role = pr_role p\<rparr> = p"
    using assms(4) by (cases p) (auto split: option.split)
  show ?thesis
  proof (cases "e_now (w_env v) (w_clock v) < unix_seconds (st_expires_at tok) * us_per_second")
    case True
    have "verify_session_token lib s (st_access_token tok) v =
      (Inr \<lparr>pr_tenant_id = pr_tenant_id p, pr_user_id = py_or (Some (case pr_user_id p of None \<Rightarrow> [] | Some u \<Rightarrow> u)) None,
        pr_role = pr_role p\<rparr>, v\<lparr>w_clock := Suc (w_clock v)\<rparr>)"
      unfolding verify_session_token_def
      using decoded True by (simp add: em_simps payload_text_def session_payload_def claim_text_def del: py_or.simps)
    then show ?thesis using same_principal True by (simp del: py_or.simps)
  next
    case False
    then show ?thesis unfolding verify_session_token_def using decoded by (simp add: em_simps)
  qed
qed

definition demo_principal :: principal where
  "demo_principal = \<lparr>pr_tenant_id = ''t1'', pr_user_id = Some ''u1'', pr_role = ''user''\<rparr>"

lemma demo_jwt_roundtrip:
  "jwt_roundtrip demo_lib (session_payload demo_principal 1770000000000000 1770003600000000) ''secret''"
  by (auto simp: jwt_roundtrip_def demo_lib_def demo_principal_def session_payload_def unix_seconds_def)

theorem session_token_roundtrip_witness:
  "\<exists>tok w1. issue_session_token demo_lib demo_auth demo_principal (demo_world empty_db empty_registry) = (Inr tok, w1) \<and>
     fst (verify_session_token demo_lib demo_auth (st_access_token tok) w1) = Inr demo_principal"
proof -
  let ?w = "demo_world empty_db empty_registry"
  have "\<exists>tok. issue_session_token demo_lib demo_auth demo_principal ?w = (Inr tok, ?w\<lparr>w_clock := 1\<rparr>) \<and> st_expires_at tok = 1770003600000000"
    by (simp add: issue_session_token_def em_simps Let_def demo_world_def demo_env_def demo_auth_def)
  then obtain tok where run: "issue_session_token demo_lib demo_auth demo_principal ?w = (Inr tok, ?w\<lparr>w_clock := 1\<rparr>)"
    "st_expires_at tok = 1770003600000000" by blast
  from session_token_roundtrip [OF run(1), of "?w\<lparr>w_clock := 1\<rparr>"] run demo_jwt_roundtrip show ?thesis
    by (simp add: demo_world_def demo_env_def demo_auth_def demo_principal_def unix_seconds_def)
qed

text \<open>The committed database changes only in the time stamp of the key that was used.\<close>

definition only_key_stamp :: "api_key_row \<Rightarrow> db \<Rightarrow> db \<Rightarrow> bool" where
  "only_key_stamp k d d' \<longleftrightarrow> d' = d \<or> (\<exists>t. d' = d\<lparr>d_api_keys := row_put ak_id (k\<lparr>ak_last_used_at := Some t\<rparr>) (d_api_keys d)\<rparr>)"

lemma is_stale_total: "\<exists>b. is_stale t now = Inr b"
  by (cases t) (auto simp: is_stale_def elapsed_seconds_def)

lemma principal_from_api_key_effect:
  assumes "principal_from_api_key lib key w = (r, w')"
  shows "case r of
       Inl e \<Rightarrow> w' = w
     | Inr p \<Rightarrow> \<exists>k\<in>set (d_api_keys (w_db w)). ak_key_hash k = al_sha256_hex lib key \<and> \<not> ak_revoked k \<and>
         p = \<lparr>pr_tenant_id = ak_tenant_id k, pr_user_id = None, pr_role = ''service''\<rparr> \<and> only_key_stamp k (w_db w) (w_db w')"
proof -
  let ?rows = "filter (\<lambda>k. ak_key_hash k = al_sha256_hex lib key \<and> \<not> ak_revoked k) (d_api_keys (w_db w))"
  show ?thesis
  proof (cases "scalar_one_or_none ?rows")
    case (Inl e)
    then show ?thesis using assms by (auto simp: principal_from_api_key_def em_simps)
  next
    case (Inr found)
    show ?thesis
    proof (cases found)
      case None
      then show ?thesis using assms Inr by (auto simp: principal_from_api_key_def em_simps)
    next
      case (Some k)
      then have "?rows = [k]" using Inr by (auto simp: scalar_one_or_none_def split: list.splits)
      then have k: "k \<in> set (d_api_keys (w_db w))" "ak_key_hash k = al_sha256_hex lib key" "\<not> ak_revoked k"
        by (auto simp: filter_eq_Cons_iff)
      obtain b where "is_stale (ak_last_used_at k) (e_now (w_env w) (w_clock w)) = Inr b" using is_stale_total by blast
      then have "r = Inr \<lparr>pr_tenant_id = ak_tenant_id k, pr_user_id = None, pr_role = ''service''\<rparr>" "only_key_stamp k (w_db w) (w_db w')"
        using assms Inr Some by (auto simp: principal_from_api_key_def em_simps put_api_key_def only_key_stamp_def split: if_splits)
      with k show ?thesis by auto
    qed
  qed
qed

text \<open>
  C29. No credential, no principal. When authentication is on, a request resolves to a principal only
  through a session token that verifies to that principal, or, without one, through the key whose
  hash is stored and not revoked, and then as role \<open>service\<close> of the key's tenant, never a user or an
  administrator; nothing but that key's time of use is written. Every other request is refused.
\<close>

theorem resolve_principal_grants:
  assumes "resolve_principal lib s api_key bearer w = (r, w')" "\<not> as_disabled s"
  shows "case r of
       Inl e \<Rightarrow> w_db w' = w_db w
     | Inr p \<Rightarrow>
         (\<exists>token. bearer = Some token \<and> fst (verify_session_token lib s token w) = Inr p \<and> w_db w' = w_db w) \<or>
         (bearer \<in> {None, Some []} \<and> p = \<lparr>pr_tenant_id = pr_tenant_id p, pr_user_id = None, pr_role = ''service''\<rparr> \<and>
          (\<exists>raw k. api_key = Some raw \<and> k \<in> set (d_api_keys (w_db w)) \<and> ak_key_hash k = al_sha256_hex lib raw \<and>
             \<not> ak_revoked k \<and> ak_tenant_id k = pr_tenant_id p \<and> only_key_stamp k (w_db w) (w_db w')))"
proof (cases "py_or bearer None")
  case (Some token)
  have b: "bearer = Some token" using Some by (cases bearer) (auto split: if_splits)
  have same: "w_db (snd (verify_session_token lib s token w)) = w_db w"
    by (auto simp: verify_session_token_def em_simps split: sum.splits)
  show ?thesis
    using assms Some b same
    by (auto simp: resolve_principal_def em_simps split: prod.splits sum.splits if_splits)
next
  case None
  have b: "bearer \<in> {None, Some []}" using None by (cases bearer) (auto split: if_splits)
  show ?thesis
  proof (cases "py_or api_key None")
    case None
    then show ?thesis using assms \<open>py_or bearer None = None\<close> by (auto simp: resolve_principal_def)
  next
    case (Some raw)
    then have k: "api_key = Some raw" by (cases api_key) (auto split: if_splits)
    have run: "principal_from_api_key lib raw w = (r, w')" using assms Some None by (simp add: resolve_principal_def)
    show ?thesis using principal_from_api_key_effect [OF run] b k by (cases r) fastforce+
  qed
qed

definition demo_key :: api_key_row where
  "demo_key = \<lparr>ak_id = ''k1'', ak_tenant_id = ''t1'', ak_key_hash = ''hraw'', ak_label = None, ak_prefix = None, ak_revoked = False,
     ak_created_by_user_id = None, ak_last_used_at = None, ak_created_at = 0\<rparr>"

theorem resolve_principal_grants_witness:
  "\<exists>p w'. resolve_principal demo_lib demo_auth (Some ''raw'') None (demo_world (empty_db\<lparr>d_api_keys := [demo_key]\<rparr>) empty_registry) = (Inr p, w') \<and>
     pr_tenant_id p = ''t1'' \<and> pr_role p = ''service''"
proof -
  let ?w = "demo_world (empty_db\<lparr>d_api_keys := [demo_key]\<rparr>) empty_registry"
  have "\<exists>p w'. resolve_principal demo_lib demo_auth (Some ''raw'') None ?w = (Inr p, w')"
    by (simp add: resolve_principal_def principal_from_api_key_def em_simps demo_world_def demo_auth_def demo_lib_def demo_key_def
        is_stale_def put_api_key_def)
  then obtain p w' where run: "resolve_principal demo_lib demo_auth (Some ''raw'') None ?w = (Inr p, w')" by blast
  have off: "\<not> as_disabled demo_auth" by (simp add: demo_auth_def)
  from resolve_principal_grants [OF run off] have "pr_role p = ''service'' \<and> pr_tenant_id p = ''t1''"
    by (auto simp: demo_world_def demo_key_def dest: arg_cong [where f = pr_role])
  with run show ?thesis by blast
qed

end
