(* ===== verification/Access_Routes.thy ===== *)
theory Access_Routes
  imports Access Http
begin

section \<open>Authentication and API-key routes\<close>

text \<open>
  \<open>app/api/v1/auth.py\<close> and \<open>app/api/v1/api_keys.py\<close>: the token exchange, the caller's own view of
  identity and quota, and minting, listing and revoking API keys. A route runs inside its request's
  session; \<open>with_session\<close> around it is the request. Audit constants are the strings of
  \<open>app/services/audit_service.py\<close>.
\<close>

subsection \<open>The token exchange\<close>

record principal_response =
  pv_tenant_id :: string
  pv_user_id :: "string option"
  pv_role :: string
  pv_email :: "string option"

record token_response =
  tr_access_token :: string
  tr_expires_in :: int
  tr_principal :: principal_response

definition principal_view :: "principal \<Rightarrow> string option \<Rightarrow> principal_response" where
  "principal_view p email =
     \<lparr>pv_tenant_id = pr_tenant_id p, pv_user_id = pr_user_id p, pv_role = pr_role p, pv_email = email\<rparr>"

fun is_configuration_error :: "exn \<Rightarrow> bool" where
  "is_configuration_error (ConfigurationError _) = True"
| "is_configuration_error _ = False"

definition email_of :: "principal \<Rightarrow> string option prog" where
  "email_of p = query_db (\<lambda>d. case pr_user_id p of
     None \<Rightarrow> None
   | Some u \<Rightarrow> map_option us_email (row_get us_id u (d_users d)))"

definition plain_entry :: "string \<Rightarrow> principal option \<Rightarrow> string option \<Rightarrow> (string \<times> json) list \<Rightarrow> audit_entry" where
  "plain_entry action p target detail =
     \<lparr>ae_action = action, ae_principal = p, ae_actor = None, ae_tenant_id = None, ae_target = target,
      ae_detail = Some (JObject detail)\<rparr>"

definition expires_in :: "session_token \<Rightarrow> int prog" where
  "expires_in tok = bind_em utc_now (\<lambda>now. return_em (max 0 ((st_expires_at tok - now) div us_per_second)))"

definition exchange_token :: "auth_lib \<Rightarrow> auth_settings \<Rightarrow> audit_config \<Rightarrow> bool \<Rightarrow> string \<Rightarrow> token_response prog" where
  "exchange_token lib s au accepted oidc_token =
     bind_em
       (catch_em
         (catch_em (login lib s oidc_token) is_authentication_failed
           (\<lambda>e. seq_em (record_standalone au accepted (plain_entry ''auth.login_failed'' None None
                   [(''reason'', JString ''authentication failed'')]))
                 (raise_em (HTTPException 401 ''authentication failed''))))
         is_configuration_error (\<lambda>e. raise_em (HTTPException 503 ''configuration''))) (\<lambda>tok.
     bind_em (email_of (st_principal tok)) (\<lambda>email.
     seq_em (record_standalone au accepted (plain_entry ''auth.login'' (Some (st_principal tok)) (pr_user_id (st_principal tok))
                [(''role'', JString (pr_role (st_principal tok)))]))
     (bind_em (expires_in tok) (\<lambda>secs.
      return_em \<lparr>tr_access_token = st_access_token tok, tr_expires_in = secs,
                 tr_principal = principal_view (st_principal tok) email\<rparr>))))"

subsection \<open>What a client asks about itself\<close>

record auth_config_response =
  ac_auth_required :: bool
  ac_provider :: string
  ac_issuer :: "string option"
  ac_client_id :: "string option"
  ac_scopes :: "string list"
  ac_session_ttl_seconds :: int

definition auth_config :: "auth_settings \<Rightarrow> auth_config_response" where
  "auth_config s =
     \<lparr>ac_auth_required = (\<not> as_disabled s),
      ac_provider = (case py_or (as_oidc_issuer s) None of None \<Rightarrow> ''none'' | Some _ \<Rightarrow> ''oidc''),
      ac_issuer = as_oidc_issuer s, ac_client_id = py_or (as_oidc_client_id s) (as_oidc_audience s),
      ac_scopes = [''openid'', ''profile'', ''email''], ac_session_ttl_seconds = as_session_ttl_seconds s\<rparr>"

record feature_flags =
  ff_persistent_workspaces :: bool
  ff_billing :: bool
  ff_pooling :: bool
  ff_interactive_attach :: bool

record me_response =
  me_principal :: principal_response
  me_features :: feature_flags
  me_app_env :: environment

definition features_of :: "bool \<Rightarrow> bool \<Rightarrow> bool \<Rightarrow> feature_flags" where
  "features_of persistence billing pooling =
     \<lparr>ff_persistent_workspaces = persistence, ff_billing = billing, ff_pooling = pooling, ff_interactive_attach = True\<rparr>"

definition me :: "feature_flags \<Rightarrow> environment \<Rightarrow> principal \<Rightarrow> me_response prog" where
  "me flags app_env p =
     bind_em (email_of p) (\<lambda>email.
     return_em \<lparr>me_principal = principal_view p email, me_features = flags, me_app_env = app_env\<rparr>)"

record my_quota_response =
  mq_enabled :: bool
  mq_max_concurrent_sandboxes :: "int option"
  mq_max_monthly_minutes :: "int option"
  mq_concurrent_sandboxes :: int
  mq_monthly_minutes :: int

definition my_quota :: "quota_defaults \<Rightarrow> bool \<Rightarrow> principal \<Rightarrow> my_quota_response prog" where
  "my_quota df enabled p =
     bind_em (quota_usage_of df (pr_tenant_id p)) (\<lambda>usage.
     seq_em commit
       (return_em \<lparr>mq_enabled = enabled, mq_max_concurrent_sandboxes = max_concurrent_sandboxes usage,
          mq_max_monthly_minutes = max_monthly_minutes usage, mq_concurrent_sandboxes = concurrent_sandboxes usage,
          mq_monthly_minutes = monthly_minutes usage\<rparr>))"

subsection \<open>API keys\<close>

definition key_prefix :: string where
  "key_prefix = ''ks_''"

definition display_prefix_length :: nat where
  "display_prefix_length = 12"

record api_key_summary =
  ks_id :: string
  ks_label :: "string option"
  ks_prefix :: "string option"
  ks_revoked :: bool
  ks_created_at :: int
  ks_last_used_at :: "int option"

definition summarize_key :: "api_key_row \<Rightarrow> api_key_summary" where
  "summarize_key r = \<lparr>ks_id = ak_id r, ks_label = ak_label r, ks_prefix = ak_prefix r, ks_revoked = ak_revoked r,
     ks_created_at = ak_created_at r, ks_last_used_at = ak_last_used_at r\<rparr>"

fun json_opt :: "string option \<Rightarrow> json" where
  "json_opt None = JNull"
| "json_opt (Some t) = JString t"

definition key_entry :: "string \<Rightarrow> principal \<Rightarrow> api_key_row \<Rightarrow> audit_entry" where
  "key_entry action p r =
     plain_entry action (Some p) (Some (ak_id r)) [(''label'', json_opt (ak_label r)), (''prefix'', json_opt (ak_prefix r))]"

text \<open>The declared maximum length of the label is checked before the route runs.\<close>

definition create_api_key :: "auth_lib \<Rightarrow> audit_config \<Rightarrow> string \<Rightarrow> principal \<Rightarrow> (api_key_summary \<times> string) prog" where
  "create_api_key lib au label p =
     (if length label > 255 then raise_em (HTTPException 422 ''label'')
      else
        bind_em fresh_token (\<lambda>token.
        bind_em fresh_uuid (\<lambda>i.
        bind_em db_now (\<lambda>created.
        let raw_key = key_prefix @ token;
            row = \<lparr>ak_id = i, ak_tenant_id = pr_tenant_id p, ak_key_hash = al_sha256_hex lib raw_key, ak_label = Some label,
                   ak_prefix = Some (take display_prefix_length raw_key), ak_revoked = False,
                   ak_created_by_user_id = pr_user_id p, ak_last_used_at = None, ak_created_at = created\<rparr>
        in seq_em (put_api_key row)
             (seq_em (audit_record au (key_entry ''apikey.create'' p row))
             (seq_em commit (return_em (summarize_key row, raw_key))))))))"

definition list_api_keys :: "principal \<Rightarrow> page_params \<Rightarrow> db \<Rightarrow> api_key_summary list \<times> int" where
  "list_api_keys p params d =
     (case paginate (rev (sort_key (\<lambda>k. (ak_created_at k, ak_id k))
              (filter (\<lambda>k. ak_tenant_id k = pr_tenant_id p) (d_api_keys d)))) params of
        (rows, n) \<Rightarrow> (map summarize_key rows, n))"

definition revoke_api_key :: "audit_config \<Rightarrow> string \<Rightarrow> principal \<Rightarrow> unit prog" where
  "revoke_api_key au key_id p =
     bind_em (query_db (\<lambda>d. row_get ak_id key_id (d_api_keys d))) (\<lambda>found.
     case found of
       None \<Rightarrow> raise_em (HTTPException 404 ''no such API key'')
     | Some row \<Rightarrow>
         (if ak_tenant_id row \<noteq> pr_tenant_id p then raise_em (HTTPException 404 ''no such API key'')
          else when_em (\<not> ak_revoked row)
                 (seq_em (put_api_key (row\<lparr>ak_revoked := True\<rparr>))
                 (seq_em (audit_record au (key_entry ''apikey.revoke'' p row)) commit))))"

subsection \<open>Laws\<close>

lemma put_api_key_run: "put_api_key k w = (Inr (), w\<lparr>w_db := (w_db w)\<lparr>d_api_keys := row_put ak_id k (d_api_keys (w_db w))\<rparr>\<rparr>)"
  by (simp add: put_api_key_def)

lemma audit_keeps_keys: "d_api_keys (w_db (snd (audit_record au entry w))) = d_api_keys (w_db w)"
  by (simp add: audit_record_run)

lemma create_api_key_effect:
  assumes "create_api_key lib au label p w = (Inr (summary, raw), w')" "e_uuid (w_env w) (w_uuids w) \<notin> ak_id ` set (d_api_keys (w_db w))"
  obtains row where "d_api_keys (w_db w') = d_api_keys (w_db w) @ [row]" "ak_id row = ks_id summary"
    "ak_id row = e_uuid (w_env w) (w_uuids w)" "ak_tenant_id row = pr_tenant_id p"
    "ak_key_hash row = al_sha256_hex lib raw" "\<not> ak_revoked row" "ak_last_used_at row = None" "raw \<noteq> []" "w_committed w' = w_db w'"
  using assms
  by (auto simp: create_api_key_def em_simps put_api_key_run audit_record_run Let_def row_put_new key_prefix_def summarize_key_def
      split: if_splits)

lemma authenticates_run:
  assumes "filter (\<lambda>k. ak_key_hash k = al_sha256_hex lib raw \<and> \<not> ak_revoked k) (d_api_keys (w_db w)) = rows"
    "raw \<noteq> []" "\<not> as_disabled s"
  shows "rows = [] \<Longrightarrow> fst (resolve_principal lib s (Some raw) None w) = Inl (HTTPException 401 ''invalid or revoked API key'')"
    and "rows = [k] \<Longrightarrow> fst (resolve_principal lib s (Some raw) None w) =
      Inr \<lparr>pr_tenant_id = ak_tenant_id k, pr_user_id = None, pr_role = ''service''\<rparr>"
proof -
  obtain b where "is_stale (ak_last_used_at k) (e_now (w_env w) (w_clock w)) = Inr b" using is_stale_total by blast
  then show "rows = [k] \<Longrightarrow> fst (resolve_principal lib s (Some raw) None w) =
      Inr \<lparr>pr_tenant_id = ak_tenant_id k, pr_user_id = None, pr_role = ''service''\<rparr>"
    using assms by (simp add: resolve_principal_def principal_from_api_key_def em_simps put_api_key_run)
qed (use assms in \<open>simp add: resolve_principal_def principal_from_api_key_def em_simps\<close>)

lemma revoke_run:
  assumes "row_get ak_id key_id (d_api_keys (w_db w)) = Some row" "\<not> ak_revoked row"
  shows "revoke_api_key au key_id q w =
    (if ak_tenant_id row \<noteq> pr_tenant_id q then (Inl (HTTPException 404 ''no such API key''), w)
     else seq_em (audit_record au (key_entry ''apikey.revoke'' q row)) commit
       (w\<lparr>w_db := (w_db w)\<lparr>d_api_keys := row_put ak_id (row\<lparr>ak_revoked := True\<rparr>) (d_api_keys (w_db w))\<rparr>\<rparr>))"
  using assms by (simp add: revoke_api_key_def em_simps put_api_key_run)

lemma row_get_last: "key q \<notin> key ` set rows \<Longrightarrow> row_get key (key q) (rows @ [q]) = Some q"
  by (induction rows) (auto simp: row_get_def)

lemma row_put_last: "key r = key q \<Longrightarrow> key q \<notin> key ` set rows \<Longrightarrow> row_put key r (rows @ [q]) = rows @ [r]"
  by (induction rows) auto

text \<open>
  The life of an API key. A minted key whose hash is new authenticates its bearer, from the
  committed state on, as a service of exactly the minter's tenant, never as the minter; only that tenant can
  revoke it, any other caller being told that there is no such key while nothing changes; and once
  revoked, it is refused.
\<close>

theorem api_key_lifecycle:
  assumes "create_api_key lib au label p w = (Inr (summary, raw), w')" "\<not> as_disabled s"
    and "e_uuid (w_env w) (w_uuids w) \<notin> ak_id ` set (d_api_keys (w_db w))"
    and "al_sha256_hex lib raw \<notin> ak_key_hash ` set (d_api_keys (w_db w))"
  shows "w_committed w' = w_db w' \<and>
    fst (resolve_principal lib s (Some raw) None w') = Inr \<lparr>pr_tenant_id = pr_tenant_id p, pr_user_id = None, pr_role = ''service''\<rparr> \<and>
    (\<forall>q. case revoke_api_key au (ks_id summary) q w' of
       (Inl e, w'') \<Rightarrow> pr_tenant_id q \<noteq> pr_tenant_id p \<and> status_of e = 404 \<and> w'' = w'
     | (Inr u, w'') \<Rightarrow> pr_tenant_id q = pr_tenant_id p \<and> w_committed w'' = w_db w'' \<and>
         fst (resolve_principal lib s (Some raw) None w'') = Inl (HTTPException 401 ''invalid or revoked API key''))"
proof -
  let ?hash = "\<lambda>d. filter (\<lambda>k. ak_key_hash k = al_sha256_hex lib raw \<and> \<not> ak_revoked k) (d_api_keys d)"
  obtain row where keys: "d_api_keys (w_db w') = d_api_keys (w_db w) @ [row]" and row: "ak_id row = ks_id summary"
    "ak_id row = e_uuid (w_env w) (w_uuids w)" "ak_tenant_id row = pr_tenant_id p" "ak_key_hash row = al_sha256_hex lib raw"
    "\<not> ak_revoked row" "raw \<noteq> []" and c: "w_committed w' = w_db w'"
    using create_api_key_effect [OF assms(1,3)] by metis
  have none: "?hash (w_db w) = []" using assms(4) by (force simp: filter_empty_conv)
  then have one: "?hash (w_db w') = [row]" using keys row(4,5) by simp
  have fresh: "ak_id row \<notin> ak_id ` set (d_api_keys (w_db w))" using assms(3) row(2) by simp
  then have found: "row_get ak_id (ks_id summary) (d_api_keys (w_db w')) = Some row"
    unfolding keys row(1) [symmetric] by (rule row_get_last)
  have "case revoke_api_key au (ks_id summary) q w' of
       (Inl e, w'') \<Rightarrow> pr_tenant_id q \<noteq> pr_tenant_id p \<and> status_of e = 404 \<and> w'' = w'
     | (Inr u, w'') \<Rightarrow> pr_tenant_id q = pr_tenant_id p \<and> w_committed w'' = w_db w'' \<and>
         fst (resolve_principal lib s (Some raw) None w'') = Inl (HTTPException 401 ''invalid or revoked API key'')" for q
  proof (cases "pr_tenant_id q = pr_tenant_id p")
    case False
    then show ?thesis using revoke_run [OF found row(5), of au q] row(3) by (simp add: status_of_def)
  next
    case True
    let ?v = "w'\<lparr>w_db := (w_db w')\<lparr>d_api_keys := row_put ak_id (row\<lparr>ak_revoked := True\<rparr>) (d_api_keys (w_db w'))\<rparr>\<rparr>"
    obtain w'' where run: "revoke_api_key au (ks_id summary) q w' = (Inr (), w'')" "w_committed w'' = w_db w''"
      "d_api_keys (w_db w'') = d_api_keys (w_db ?v)"
      using revoke_run [OF found row(5), of au q] row(3) True by (simp add: em_simps audit_record_run)
    have "d_api_keys (w_db w'') = d_api_keys (w_db w) @ [row\<lparr>ak_revoked := True\<rparr>]"
      unfolding run(3) using keys fresh by (simp add: row_put_last)
    then have "?hash (w_db w'') = []" using none by simp
    from authenticates_run(1) [OF this row(6) assms(2)] run True show ?thesis by simp
  qed
  then show ?thesis using c authenticates_run(2) [OF one row(6) assms(2)] row(3) by simp
qed

theorem api_key_lifecycle_witness:
  "\<exists>summary raw w'. create_api_key demo_lib \<lparr>au_enabled = True, au_standalone = True\<rparr> ''ci'' demo_principal
       (demo_world empty_db empty_registry) = (Inr (summary, raw), w') \<and>
     fst (resolve_principal demo_lib demo_auth (Some raw) None w') = Inr \<lparr>pr_tenant_id = ''t1'', pr_user_id = None, pr_role = ''service''\<rparr>"
proof -
  let ?au = "\<lparr>au_enabled = True, au_standalone = True\<rparr>" and ?w = "demo_world empty_db empty_registry"
  have "\<exists>summary raw w'. create_api_key demo_lib ?au ''ci'' demo_principal ?w = (Inr (summary, raw), w')"
    by (simp add: create_api_key_def em_simps Let_def put_api_key_run audit_record_run)
  then obtain summary raw w' where run: "create_api_key demo_lib ?au ''ci'' demo_principal ?w = (Inr (summary, raw), w')" by blast
  have off: "\<not> as_disabled demo_auth" by (simp add: demo_auth_def)
  from api_key_lifecycle [OF run off] run show ?thesis by (auto simp: demo_world_def empty_db_def demo_principal_def)
qed

end
