(* ===== verification/Admin.thy ===== *)
theory Admin
  imports Access_Routes Listing Billing_Laws
begin

section \<open>Administration and self-service billing routes\<close>

text \<open>
  \<open>app/api/v1/admin.py\<close> and \<open>app/api/v1/billing.py\<close>. Every administrator's route depends on
  \<open>require_admin\<close>, which runs before the handler. Response models that repeat a row field by field are the
  row. The database's \<open>ILIKE\<close> is a parameter, from a pattern and a value to a verdict.
\<close>

subsection \<open>Entitlements and publish grants\<close>

definition list_entitlements_route ::
  "string option \<Rightarrow> string option \<Rightarrow> string option \<Rightarrow> principal \<Rightarrow> entitlement_row list prog" where
  "list_entitlements_route scope scope_id component_name p =
     seq_em (require_admin p) (list_entitlements scope scope_id component_name)"

record entitlement_in =
  ei_scope :: string
  ei_scope_id :: string
  ei_component_name :: string
  ei_version_range :: string
  ei_visible :: bool

definition upsert_entitlement_route :: "entitlement_in \<Rightarrow> principal \<Rightarrow> entitlement_row prog" where
  "upsert_entitlement_route body p =
     seq_em (require_admin p)
       (upsert_entitlement (ei_scope body) (ei_scope_id body) (ei_component_name body) (ei_version_range body) (ei_visible body))"

definition list_publish_grants_route ::
  "string option \<Rightarrow> string option \<Rightarrow> string option \<Rightarrow> principal \<Rightarrow> publish_grant_row list prog" where
  "list_publish_grants_route scope scope_id cat p = seq_em (require_admin p) (list_publish_grants scope scope_id cat)"

record publish_grant_in =
  pi_scope :: string
  pi_scope_id :: string
  pi_category :: string
  pi_allowed :: bool

definition upsert_publish_grant_route :: "publish_grant_in \<Rightarrow> principal \<Rightarrow> publish_grant_row prog" where
  "upsert_publish_grant_route body p =
     seq_em (require_admin p) (upsert_publish_grant (pi_scope body) (pi_scope_id body) (pi_category body) (pi_allowed body))"

subsection \<open>Billing administration\<close>

definition target_entry :: "string \<Rightarrow> principal \<Rightarrow> string \<Rightarrow> string \<Rightarrow> json \<Rightarrow> audit_entry" where
  "target_entry action p tenant_id target detail =
     \<lparr>ae_action = action, ae_principal = Some p, ae_actor = None, ae_tenant_id = Some tenant_id, ae_target = Some target,
      ae_detail = Some detail\<rparr>"

fun json_rat_opt :: "rat option \<Rightarrow> json" where
  "json_rat_opt None = JNull"
| "json_rat_opt (Some x) = JFloat x"

text \<open>The body's \<open>Literal\<close> type answers 422 to any other mode.\<close>

definition set_tenant_billing ::
  "string \<Rightarrow> audit_config \<Rightarrow> bool \<Rightarrow> string \<Rightarrow> rat option \<Rightarrow> string \<Rightarrow> principal \<Rightarrow> billing_account_row prog" where
  "set_tenant_billing default_mode au accepted mode spend_cap tenant_id p =
     seq_em (require_admin p)
       (if mode \<notin> {''credit'', ''payg''} then raise_em (HTTPException 422 ''mode'')
        else
          bind_em (set_mode default_mode tenant_id mode spend_cap) (\<lambda>account.
          seq_em (record_standalone au accepted (target_entry ''admin.billing_mode'' p tenant_id tenant_id
                    (JObject [(''mode'', JString mode), (''spend_cap'', json_rat_opt spend_cap)])))
            (return_em account)))"

definition adjust_tenant_credit ::
  "audit_config \<Rightarrow> bool \<Rightarrow> rat \<Rightarrow> string \<Rightarrow> string \<Rightarrow> principal \<Rightarrow> wallet_row prog" where
  "adjust_tenant_credit au accepted delta reason tenant_id p =
     seq_em (require_admin p)
       (bind_em (adjust_credit tenant_id delta reason) (\<lambda>wallet.
        seq_em (record_standalone au accepted (target_entry ''admin.credit_adjust'' p tenant_id tenant_id
                  (JObject [(''delta'', JFloat delta), (''reason'', JString reason), (''balance_after'', JFloat (cw_balance wallet))])))
          (return_em wallet)))"

definition list_pricing_rules :: "string option \<Rightarrow> principal \<Rightarrow> pricing_rule_row list prog" where
  "list_pricing_rules resource_type p =
     seq_em (require_admin p)
       (query_db (\<lambda>d. newest_first pc_effective_from pc_id (filter (\<lambda>r. wanted resource_type (pc_resource_type r)) (d_pricing d))))"

record pricing_rule_in =
  ri_resource_type :: string
  ri_unit_cost :: rat
  ri_currency :: string
  ri_effective_from :: "int option"

definition add_pricing_rule_route :: "pricing_rule_in \<Rightarrow> principal \<Rightarrow> pricing_rule_row prog" where
  "add_pricing_rule_route body p =
     seq_em (require_admin p)
       (add_pricing_rule (ri_resource_type body) (ri_unit_cost body) (ri_currency body) (ri_effective_from body))"

fun request_status_value :: "request_status \<Rightarrow> string" where
  "request_status_value ReqPending = ''pending''"
| "request_status_value ReqApproved = ''approved''"
| "request_status_value ReqDenied = ''denied''"

record credit_request_out =
  co_id :: string
  co_tenant_id :: string
  co_amount :: rat
  co_reason :: string
  co_status :: string
  co_review_note :: "string option"
  co_created_at :: int
  co_reviewed_at :: "int option"

definition credit_request_to_out :: "credit_request_row \<Rightarrow> credit_request_out" where
  "credit_request_to_out row =
     \<lparr>co_id = cr_id row, co_tenant_id = cr_tenant_id row, co_amount = cr_amount row, co_reason = cr_reason row,
      co_status = request_status_value (cr_status row), co_review_note = cr_review_note row,
      co_created_at = cr_created_at row, co_reviewed_at = cr_reviewed_at row\<rparr>"

text \<open>The query parameter is a text; one that is no status selects nothing.\<close>

definition credit_requests_with :: "string option \<Rightarrow> string option \<Rightarrow> credit_request_row list prog" where
  "credit_requests_with tenant_id st =
     (case st of
        None \<Rightarrow> list_credit_requests tenant_id None
      | Some s \<Rightarrow>
          (case find (\<lambda>x. request_status_value x = s) [ReqPending, ReqApproved, ReqDenied] of
             None \<Rightarrow> return_em []
           | Some x \<Rightarrow> list_credit_requests tenant_id (Some x)))"

definition list_credit_requests_route :: "string option \<Rightarrow> string option \<Rightarrow> principal \<Rightarrow> credit_request_out list prog" where
  "list_credit_requests_route tenant_id st p =
     seq_em (require_admin p) (bind_em (credit_requests_with tenant_id st) (\<lambda>rows. return_em (map credit_request_to_out rows)))"

definition review_credit_request_route ::
  "string \<Rightarrow> bool \<Rightarrow> string option \<Rightarrow> string \<Rightarrow> principal \<Rightarrow> credit_request_out prog" where
  "review_credit_request_route default_mode approve note request_id p =
     seq_em (require_admin p)
       (bind_em (review_credit_request default_mode request_id approve (pr_user_id p) note) (\<lambda>row.
        return_em (credit_request_to_out row)))"

subsection \<open>Tenants and users\<close>

record tenant_out =
  to_id :: string
  to_name :: string
  to_created_at :: int
  to_user_count :: int
  to_active_sandbox_count :: int
  to_billing_mode :: "string option"
  to_credit_balance :: "rat option"

text \<open>
  The counts of one page: a grouped query yields a row per tenant that has one, and a missing row counts
  as zero. A dictionary built from rows keeps the last row of a key.
\<close>

definition counts_by :: "('r \<Rightarrow> string) \<Rightarrow> string list \<Rightarrow> 'r list \<Rightarrow> string \<Rightarrow> int" where
  "counts_by tenant ids rows t =
     (if t \<in> set ids then int (length (filter (\<lambda>r. tenant r = t) rows)) else 0)"

definition last_by :: "('r \<Rightarrow> string) \<Rightarrow> string list \<Rightarrow> 'r list \<Rightarrow> string \<Rightarrow> 'r option" where
  "last_by tenant ids rows t = row_get tenant t (rev (filter (\<lambda>r. tenant r \<in> set ids) rows))"

definition tenant_view :: "db \<Rightarrow> string list \<Rightarrow> tenant_row \<Rightarrow> tenant_out" where
  "tenant_view d ids t =
     \<lparr>to_id = tn_id t, to_name = tn_name t, to_created_at = tn_created_at t,
      to_user_count = counts_by us_tenant_id ids (d_users d) (tn_id t),
      to_active_sandbox_count =
        counts_by sb_tenant_id ids (filter (\<lambda>s. sb_state s \<noteq> Terminated) (d_sandboxes d)) (tn_id t),
      to_billing_mode = map_option ba_mode (last_by ba_tenant_id ids (d_accounts d) (tn_id t)),
      to_credit_balance = map_option cw_balance (last_by cw_tenant_id ids (d_wallets d) (tn_id t))\<rparr>"

definition matches_name :: "(string \<Rightarrow> string \<Rightarrow> bool) \<Rightarrow> string option \<Rightarrow> string \<Rightarrow> bool" where
  "matches_name ilike q value =
     (case py_or q None of None \<Rightarrow> True | Some s \<Rightarrow> ilike (''%'' @ s @ ''%'') value)"

definition list_tenants ::
  "(string \<Rightarrow> string \<Rightarrow> bool) \<Rightarrow> page_params \<Rightarrow> string option \<Rightarrow> principal \<Rightarrow> tenant_out page prog" where
  "list_tenants ilike params name p =
     seq_em (require_admin p)
       (query_db (\<lambda>d.
          let rows = newest_first tn_created_at tn_id (filter (\<lambda>t. matches_name ilike name (tn_name t)) (d_tenants d));
              tenant_ids = map tn_id (fst (paginate rows params))
          in page_of params (tenant_view d tenant_ids) rows))"

definition list_users ::
  "(string \<Rightarrow> string \<Rightarrow> bool) \<Rightarrow> page_params \<Rightarrow> string option \<Rightarrow> string option \<Rightarrow> principal \<Rightarrow> user_row page prog" where
  "list_users ilike params tenant_id email p =
     seq_em (require_admin p)
       (query_db (\<lambda>d. page_of params (\<lambda>u. u)
          (newest_first us_created_at us_id
            (filter (\<lambda>u. wanted tenant_id (us_tenant_id u) \<and> matches_name ilike email (us_email u)) (d_users d)))))"

definition set_user_role :: "audit_config \<Rightarrow> string \<Rightarrow> string \<Rightarrow> principal \<Rightarrow> user_row prog" where
  "set_user_role au role user_id p =
     seq_em (require_admin p)
       (if role \<notin> {''admin'', ''operator'', ''user''} then raise_em (HTTPException 422 ''role'')
        else
          bind_em (query_db (\<lambda>d. row_get us_id user_id (d_users d))) (\<lambda>found.
          case found of
            None \<Rightarrow> raise_em (HTTPException 404 user_id)
          | Some u \<Rightarrow>
              (let u' = u\<lparr>us_role := role\<rparr> in
               seq_em (update_db (\<lambda>d. d\<lparr>d_users := row_put us_id u' (d_users d)\<rparr>))
               (seq_em (audit_record au (target_entry ''admin.role_change'' p (us_tenant_id u) (us_id u)
                   (JObject [(''email'', JString (us_email u)), (''previous_role'', JString (us_role u)), (''new_role'', JString role)])))
               (seq_em commit (return_em u'))))))"

subsection \<open>Quotas\<close>

record quota_out =
  qo_tenant_id :: string
  qo_enabled :: bool
  qo_usage :: quota_usage

definition quota_out_of :: "quota_defaults \<Rightarrow> bool \<Rightarrow> string \<Rightarrow> quota_out prog" where
  "quota_out_of df enabled tenant_id =
     bind_em (quota_usage_of df tenant_id) (\<lambda>usage.
     seq_em commit (return_em \<lparr>qo_tenant_id = tenant_id, qo_enabled = enabled, qo_usage = usage\<rparr>))"

definition get_tenant_quota :: "quota_defaults \<Rightarrow> bool \<Rightarrow> string \<Rightarrow> principal \<Rightarrow> quota_out prog" where
  "get_tenant_quota df enabled tenant_id p = seq_em (require_admin p) (quota_out_of df enabled tenant_id)"

record set_quota_in =
  sq_max_concurrent_sandboxes :: "int option"
  sq_max_cpu_millicores :: "int option"
  sq_max_memory_mb :: "int option"
  sq_max_monthly_minutes :: "int option"
  sq_clear_unset :: bool

fun json_int_opt :: "int option \<Rightarrow> json" where
  "json_int_opt None = JNull"
| "json_int_opt (Some n) = JInt n"

definition quota_detail :: "set_quota_in \<Rightarrow> json" where
  "quota_detail body = JObject
     [(''max_concurrent_sandboxes'', json_int_opt (sq_max_concurrent_sandboxes body)),
      (''max_cpu_millicores'', json_int_opt (sq_max_cpu_millicores body)),
      (''max_memory_mb'', json_int_opt (sq_max_memory_mb body)),
      (''max_monthly_minutes'', json_int_opt (sq_max_monthly_minutes body)),
      (''clear_unset'', JBool (sq_clear_unset body))]"

definition non_negative :: "int option \<Rightarrow> bool" where
  "non_negative x \<longleftrightarrow> (case x of None \<Rightarrow> True | Some n \<Rightarrow> 0 \<le> n)"

definition set_tenant_quota ::
  "quota_defaults \<Rightarrow> audit_config \<Rightarrow> bool \<Rightarrow> set_quota_in \<Rightarrow> string \<Rightarrow> principal \<Rightarrow> quota_out prog" where
  "set_tenant_quota df au enabled body tenant_id p =
     seq_em (require_admin p)
       (if \<not> (non_negative (sq_max_concurrent_sandboxes body) \<and> non_negative (sq_max_cpu_millicores body) \<and>
               non_negative (sq_max_memory_mb body) \<and> non_negative (sq_max_monthly_minutes body))
        then raise_em (HTTPException 422 ''quota'')
        else
          seq_em (set_quota df tenant_id (sq_max_concurrent_sandboxes body) (sq_max_cpu_millicores body)
                    (sq_max_memory_mb body) (sq_max_monthly_minutes body) (sq_clear_unset body))
          (seq_em (audit_record au (target_entry ''admin.quota_change'' p tenant_id tenant_id (quota_detail body)))
          (seq_em commit (quota_out_of df enabled tenant_id))))"

subsection \<open>The audit trail\<close>

definition list_audit_logs ::
  "page_params \<Rightarrow> string option \<Rightarrow> string option \<Rightarrow> string option \<Rightarrow> string option \<Rightarrow> principal \<Rightarrow> audit_row page prog" where
  "list_audit_logs params tenant_id actor action target p =
     seq_em (require_admin p) (query_db (\<lambda>d. page_of params (\<lambda>r. r) (audit_query tenant_id actor action target d)))"

subsection \<open>A tenant's own billing\<close>

definition request_credit_route :: "rat \<Rightarrow> string \<Rightarrow> principal \<Rightarrow> credit_request_out prog" where
  "request_credit_route amount reason p =
     (if amount \<le> 0 then raise_em (HTTPException 422 ''amount'')
      else bind_em (request_credit (pr_tenant_id p) amount reason (pr_user_id p)) (\<lambda>row.
           return_em (credit_request_to_out row)))"

definition list_own_credit_requests :: "principal \<Rightarrow> credit_request_out list prog" where
  "list_own_credit_requests p =
     bind_em (list_credit_requests (Some (pr_tenant_id p)) None) (\<lambda>rows. return_em (map credit_request_to_out rows))"

record billing_settings =
  bs_default_mode :: string
  bs_enabled :: bool

record billing_account_response =
  br_enabled :: bool
  br_mode :: string
  br_currency :: string
  br_spend_cap :: "rat option"
  br_balance :: "rat option"
  br_month_to_date_cost :: rat

definition my_billing_account :: "billing_settings \<Rightarrow> principal \<Rightarrow> billing_account_response prog" where
  "my_billing_account s p =
     bind_em utc_now (\<lambda>now.
     query_db (\<lambda>d.
       let account = row_get ba_tenant_id (pr_tenant_id p) (d_accounts d);
           mode = (case account of None \<Rightarrow> bs_default_mode s | Some a \<Rightarrow> ba_mode a)
       in \<lparr>br_enabled = bs_enabled s, br_mode = mode,
           br_currency = (case account of None \<Rightarrow> ''USD'' | Some a \<Rightarrow> ba_currency a),
           br_spend_cap = (case account of None \<Rightarrow> None | Some a \<Rightarrow> ba_spend_cap a),
           br_balance =
             (if mode = ''credit''
              then Some (case row_get cw_tenant_id (pr_tenant_id p) (d_wallets d) of None \<Rightarrow> 0 | Some w \<Rightarrow> cw_balance w)
              else None),
           br_month_to_date_cost =
             sum_list (map ur_cost (filter (\<lambda>u. ur_tenant_id u = pr_tenant_id p \<and> month_start now \<le> ur_recorded_at u) (d_usage d)))\<rparr>))"

record usage_record_response =
  uo_id :: string
  uo_resource_type :: string
  uo_quantity :: rat
  uo_cost :: rat
  uo_sandbox_id :: "string option"
  uo_run_id :: "string option"
  uo_recorded_at :: int

definition usage_view :: "usage_row \<Rightarrow> usage_record_response" where
  "usage_view r =
     \<lparr>uo_id = ur_id r, uo_resource_type = ur_resource_type r, uo_quantity = ur_quantity r, uo_cost = ur_cost r,
      uo_sandbox_id = ur_sandbox_id r, uo_run_id = ur_run_id r, uo_recorded_at = ur_recorded_at r\<rparr>"

definition my_usage :: "page_params \<Rightarrow> int \<Rightarrow> principal \<Rightarrow> usage_record_response page prog" where
  "my_usage params since_days p =
     (if \<not> (1 \<le> since_days \<and> since_days \<le> 365) then raise_em (HTTPException 422 ''since_days'')
      else bind_em utc_now (\<lambda>now.
        query_db (\<lambda>d. page_of params usage_view
          (newest_first ur_recorded_at ur_id
            (filter (\<lambda>u. ur_tenant_id u = pr_tenant_id p \<and> now - since_days * us_per_day \<le> ur_recorded_at u) (d_usage d))))))"

subsection \<open>Laws\<close>

lemma require_admin_run: "require_admin p w = (if pr_role p = ''admin'' then Inr p else Inl (HTTPException 403 ''admin role required''), w)"
  by (simp add: require_admin_def)

text \<open>
  C28. Only administrators administer. Whatever the request, each of the sixteen routes answers a caller
  without the administrator's role with 403 and leaves the database, the backend and everything else as it was.
\<close>

theorem only_admins_administer:
  assumes "pr_role p \<noteq> ''admin''"
  shows "list_entitlements_route q1 q2 q3 p w = (Inl (HTTPException 403 ''admin role required''), w) \<and>
    upsert_entitlement_route ent p w = (Inl (HTTPException 403 ''admin role required''), w) \<and>
    list_publish_grants_route q1 q2 q3 p w = (Inl (HTTPException 403 ''admin role required''), w) \<and>
    upsert_publish_grant_route grant p w = (Inl (HTTPException 403 ''admin role required''), w) \<and>
    set_tenant_billing default_mode au accepted mode cap t p w = (Inl (HTTPException 403 ''admin role required''), w) \<and>
    adjust_tenant_credit au accepted delta reason t p w = (Inl (HTTPException 403 ''admin role required''), w) \<and>
    list_pricing_rules q1 p w = (Inl (HTTPException 403 ''admin role required''), w) \<and>
    add_pricing_rule_route rule p w = (Inl (HTTPException 403 ''admin role required''), w) \<and>
    list_credit_requests_route q1 q2 p w = (Inl (HTTPException 403 ''admin role required''), w) \<and>
    review_credit_request_route default_mode approve note i p w = (Inl (HTTPException 403 ''admin role required''), w) \<and>
    list_tenants ilike params q1 p w = (Inl (HTTPException 403 ''admin role required''), w) \<and>
    list_users ilike params q1 q2 p w = (Inl (HTTPException 403 ''admin role required''), w) \<and>
    set_user_role au role i p w = (Inl (HTTPException 403 ''admin role required''), w) \<and>
    get_tenant_quota df enabled t p w = (Inl (HTTPException 403 ''admin role required''), w) \<and>
    set_tenant_quota df au enabled quota t p w = (Inl (HTTPException 403 ''admin role required''), w) \<and>
    list_audit_logs params q1 q2 q3 q4 p w = (Inl (HTTPException 403 ''admin role required''), w)"
  using assms
  by (simp add: list_entitlements_route_def upsert_entitlement_route_def list_publish_grants_route_def
      upsert_publish_grant_route_def set_tenant_billing_def adjust_tenant_credit_def list_pricing_rules_def
      add_pricing_rule_route_def list_credit_requests_route_def review_credit_request_route_def list_tenants_def
      list_users_def set_user_role_def get_tenant_quota_def set_tenant_quota_def list_audit_logs_def
      seq_em_run require_admin_run)

definition plain_user :: principal where
  "plain_user = \<lparr>pr_tenant_id = ''t1'', pr_user_id = Some ''ada'', pr_role = ''user''\<rparr>"

definition root_user :: principal where
  "root_user = \<lparr>pr_tenant_id = ''t0'', pr_user_id = Some ''root'', pr_role = ''admin''\<rparr>"

theorem only_admins_administer_witness:
  "set_user_role \<lparr>au_enabled = True, au_standalone = True\<rparr> ''admin'' ''ada'' plain_user (demo_world empty_db empty_registry) =
     (Inl (HTTPException 403 ''admin role required''), demo_world empty_db empty_registry)"
  using only_admins_administer [of plain_user] by (simp add: plain_user_def)

text \<open>
  A role changes only in the open. A role change that succeeds was asked for by an administrator and
  commits, in one transaction, the new role of exactly that user, one of the three roles, together with
  an audit entry that names the administrator, the user, the previous and the new role; one that fails
  changes nothing.
\<close>

theorem role_change_is_audited:
  assumes "set_user_role au role i p w = (r, w')"
  shows "case r of
      Inl e \<Rightarrow> w' = w
    | Inr u' \<Rightarrow> pr_role p = ''admin'' \<and> role \<in> {''admin'', ''operator'', ''user''} \<and>
        (\<exists>u. row_get us_id i (d_users (w_db w)) = Some u \<and> u' = u\<lparr>us_role := role\<rparr> \<and>
           w_committed w' = w_db w' \<and> d_users (w_db w') = row_put us_id u' (d_users (w_db w)) \<and>
           (\<forall>j. j \<noteq> i \<longrightarrow> row_get us_id j (d_users (w_db w')) = row_get us_id j (d_users (w_db w))) \<and>
           (if au_enabled au
            then \<exists>entry. d_audit (w_db w') = d_audit (w_db w) @ [entry] \<and> al_actor entry = actor_for (Some p) \<and>
                   al_action entry = ''admin.role_change'' \<and> al_target entry = Some i \<and>
                   al_detail entry = Some (JObject [(''email'', JString (us_email u)),
                     (''previous_role'', JString (us_role u)), (''new_role'', JString role)])
            else d_audit (w_db w') = d_audit (w_db w)))"
proof (cases "pr_role p = ''admin'' \<and> role \<in> {''admin'', ''operator'', ''user''}")
  case False
  then show ?thesis using assms
    by (cases "pr_role p = ''admin''") (auto simp: set_user_role_def seq_em_run require_admin_run)
next
  case allowed: True
  show ?thesis
  proof (cases "row_get us_id i (d_users (w_db w))")
    case None
    then show ?thesis using assms allowed by (auto simp: set_user_role_def em_simps require_admin_run)
  next
    case (Some u)
    have i: "us_id u = i" by (rule row_get_key [OF Some])
    have "r = Inr (u\<lparr>us_role := role\<rparr>)" "w_committed w' = w_db w'"
      "d_users (w_db w') = row_put us_id (u\<lparr>us_role := role\<rparr>) (d_users (w_db w))"
      "d_audit (w_db w') = (if au_enabled au then d_audit (w_db w) @
         [audit_row_of (target_entry ''admin.role_change'' p (us_tenant_id u) (us_id u)
            (JObject [(''email'', JString (us_email u)), (''previous_role'', JString (us_role u)), (''new_role'', JString role)]))
            (e_uuid (w_env w) (w_uuids w)) (e_db_now (w_env w) (w_clock w))] else d_audit (w_db w))"
      using assms allowed Some by (auto simp: set_user_role_def em_simps require_admin_run Let_def audit_record_run)
    moreover have "row_get us_id j (row_put us_id (u\<lparr>us_role := role\<rparr>) (d_users (w_db w))) = row_get us_id j (d_users (w_db w))"
      if "j \<noteq> i" for j using that i by (simp add: row_get_put)
    ultimately show ?thesis using allowed Some i
      by (auto simp: target_entry_def audit_row_of_def)
  qed
qed

definition with_user :: db where
  "with_user = empty_db\<lparr>d_users := [\<lparr>us_id = ''ada'', us_tenant_id = ''t1'', us_email = ''ada@example.com'', us_role = ''user'', us_created_at = 0\<rparr>]\<rparr>"

theorem role_change_is_audited_witness:
  "\<exists>u w'. set_user_role \<lparr>au_enabled = True, au_standalone = True\<rparr> ''operator'' ''ada'' root_user (demo_world with_user empty_registry) = (Inr u, w') \<and>
     us_role u = ''operator'' \<and> length (d_audit (w_committed w')) = 1"
proof -
  let ?w = "demo_world with_user empty_registry"
  have "\<exists>u w'. set_user_role \<lparr>au_enabled = True, au_standalone = True\<rparr> ''operator'' ''ada'' root_user ?w = (Inr u, w')"
    by (simp add: set_user_role_def em_simps require_admin_run root_user_def demo_world_def with_user_def row_get_def Let_def audit_record_run)
  then obtain u w' where run: "set_user_role \<lparr>au_enabled = True, au_standalone = True\<rparr> ''operator'' ''ada'' root_user ?w = (Inr u, w')" by blast
  have "d_audit (w_db ?w) = []" by (simp add: demo_world_def with_user_def empty_db_def)
  with role_change_is_audited [OF run] run show ?thesis by auto
qed

text \<open>
  A tenant cannot grant itself credit. Filing a request moves no wallet, account or ledger entry; a filed
  request is one pending row of the caller's own tenant and user, committed; a refused one changes nothing.
\<close>

theorem self_service_grants_nothing:
  assumes "request_credit_route amount reason p w = (r, w')" "e_uuid (w_env w) (w_uuids w) \<notin> cr_id ` set (d_credit_requests (w_db w))"
  shows "d_wallets (w_db w') = d_wallets (w_db w) \<and> d_accounts (w_db w') = d_accounts (w_db w) \<and> d_ledger (w_db w') = d_ledger (w_db w) \<and>
    (case r of
       Inl e \<Rightarrow> amount \<le> 0 \<and> w' = w
     | Inr out \<Rightarrow> 0 < amount \<and> w_committed w' = w_db w' \<and>
         (\<exists>row. d_credit_requests (w_db w') = d_credit_requests (w_db w) @ [row] \<and> out = credit_request_to_out row \<and>
            cr_tenant_id row = pr_tenant_id p \<and> cr_user_id row = pr_user_id p \<and> cr_amount row = amount \<and> cr_status row = ReqPending))"
  using assms by (auto simp: request_credit_route_def request_credit_def em_simps Let_def row_put_new split: if_splits)

theorem self_service_grants_nothing_witness:
  "\<exists>out w'. request_credit_route 5 ''more'' plain_user (demo_world empty_db empty_registry) = (Inr out, w') \<and>
     d_wallets (w_db w') = [] \<and> co_status out = ''pending''"
proof -
  let ?w = "demo_world empty_db empty_registry"
  have "\<exists>out w'. request_credit_route 5 ''more'' plain_user ?w = (Inr out, w')"
    by (simp add: request_credit_route_def request_credit_def em_simps Let_def)
  then obtain out w' where run: "request_credit_route 5 ''more'' plain_user ?w = (Inr out, w')" by blast
  have fresh: "e_uuid (w_env ?w) (w_uuids ?w) \<notin> cr_id ` set (d_credit_requests (w_db ?w))" "d_wallets (w_db ?w) = []"
    by (simp_all add: demo_world_def empty_db_def)
  from self_service_grants_nothing [OF run fresh(1)] run fresh(2) show ?thesis
    by (auto simp: credit_request_to_out_def)
qed

lemma row_get_rev_filter:
  assumes "distinct (map key rows)" "k \<in> S"
  shows "row_get key k (rev (filter (\<lambda>r. key r \<in> S) rows)) = row_get key k rows"
proof (cases "row_get key k rows")
  case None
  then have "k \<notin> key ` set (rev (filter (\<lambda>r. key r \<in> S) rows))" by (auto simp: row_get_None)
  then show ?thesis using None unfolding row_get_None [symmetric] by simp
next
  case (Some r)
  have "distinct (map key (rev (filter (\<lambda>r. key r \<in> S) rows)))"
    using assms(1) by (simp add: rev_map [symmetric] distinct_map_filter)
  moreover have "r \<in> set (rev (filter (\<lambda>r. key r \<in> S) rows))" "key r = k"
    using row_get_mem [OF Some] row_get_key [OF Some] assms(2) by auto
  ultimately show ?thesis using row_get_distinct [of key _ r] Some by metis
qed

text \<open>
  What an administrator sees of a tenant is what the tables say. Every entry of a page of tenants
  is a tenant of the table with exactly the number of its users, the number of its sandboxes that are not
  terminated, and the mode and balance of its account and wallet, absent when there are none.
\<close>

theorem tenant_listing_exact:
  assumes "list_tenants ilike params name p w = (Inr pg, w')"
    and "distinct (map ba_tenant_id (d_accounts (w_db w)))" "distinct (map cw_tenant_id (d_wallets (w_db w)))"
    and "out \<in> set (pg_items pg)"
  shows "w' = w \<and> (\<exists>t\<in>set (d_tenants (w_db w)). matches_name ilike name (tn_name t) \<and> to_id out = tn_id t \<and> to_name out = tn_name t \<and>
     to_user_count out = int (length (filter (\<lambda>u. us_tenant_id u = tn_id t) (d_users (w_db w)))) \<and>
     to_active_sandbox_count out = int (length (filter (\<lambda>s. sb_tenant_id s = tn_id t \<and> sb_state s \<noteq> Terminated) (d_sandboxes (w_db w)))) \<and>
     to_billing_mode out = map_option ba_mode (row_get ba_tenant_id (tn_id t) (d_accounts (w_db w))) \<and>
     to_credit_balance out = map_option cw_balance (row_get cw_tenant_id (tn_id t) (d_wallets (w_db w))))"
proof -
  let ?d = "w_db w"
  let ?rows = "newest_first tn_created_at tn_id (filter (\<lambda>t. matches_name ilike name (tn_name t)) (d_tenants ?d))"
  let ?shown = "fst (paginate ?rows params)"
  have pg: "w' = w" "pg = page_of params (tenant_view ?d (map tn_id ?shown)) ?rows"
    using assms(1) by (auto simp: list_tenants_def em_simps require_admin_run Let_def split: if_splits)
  obtain t where t: "t \<in> set ?shown" "out = tenant_view ?d (map tn_id ?shown) t"
    using assms(4) unfolding pg(2) by (auto simp: paginate_def)
  have "t \<in> set ?rows" using t(1) by (auto simp: paginate_def dest!: in_set_takeD in_set_dropD)
  then have mem: "t \<in> set (d_tenants ?d)" "matches_name ilike name (tn_name t)" by auto
  have ids: "tn_id t \<in> set (map tn_id ?shown)" using t(1) by auto
  have "last_by ba_tenant_id (map tn_id ?shown) (d_accounts ?d) (tn_id t) = row_get ba_tenant_id (tn_id t) (d_accounts ?d)"
    "last_by cw_tenant_id (map tn_id ?shown) (d_wallets ?d) (tn_id t) = row_get cw_tenant_id (tn_id t) (d_wallets ?d)"
    unfolding last_by_def using ids by (intro row_get_rev_filter assms(2,3); simp)+
  then show ?thesis using pg(1) mem ids t(2)
    by (intro conjI bexI [of _ t]) (simp_all add: tenant_view_def counts_by_def conj_commute)
qed

theorem tenant_listing_exact_witness:
  "\<exists>pg. list_tenants (\<lambda>_ _. True) \<lparr>pp_limit = 50, pp_offset = 0\<rparr> None root_user
       (demo_world (with_user\<lparr>d_tenants := [\<lparr>tn_id = ''t1'', tn_name = ''acme'', tn_created_at = 0\<rparr>]\<rparr>) empty_registry) =
     (Inr pg, demo_world (with_user\<lparr>d_tenants := [\<lparr>tn_id = ''t1'', tn_name = ''acme'', tn_created_at = 0\<rparr>]\<rparr>) empty_registry) \<and>
     map to_user_count (pg_items pg) = [1]"
proof -
  let ?w = "demo_world (with_user\<lparr>d_tenants := [\<lparr>tn_id = ''t1'', tn_name = ''acme'', tn_created_at = 0\<rparr>]\<rparr>) empty_registry"
  let ?p = "\<lparr>pp_limit = 50, pp_offset = 0\<rparr>"
  obtain pg w' where run: "list_tenants (\<lambda>_ _. True) ?p None root_user ?w = (Inr pg, w')"
    by (simp add: list_tenants_def em_simps require_admin_run root_user_def Let_def)
  have items: "pg_items pg = [tenant_view (w_db ?w) [''t1''] \<lparr>tn_id = ''t1'', tn_name = ''acme'', tn_created_at = 0\<rparr>]"
    using run by (auto simp: list_tenants_def em_simps require_admin_run root_user_def Let_def demo_world_def with_user_def
        matches_name_def newest_first_def paginate_def)
  let ?out = "tenant_view (w_db ?w) [''t1''] \<lparr>tn_id = ''t1'', tn_name = ''acme'', tn_created_at = 0\<rparr>"
  have "d_accounts (w_db ?w) = []" "d_wallets (w_db ?w) = []"
    by (simp_all add: demo_world_def with_user_def empty_db_def)
  then have dist: "distinct (map ba_tenant_id (d_accounts (w_db ?w)))" "distinct (map cw_tenant_id (d_wallets (w_db ?w)))" by simp_all
  have "?out \<in> set (pg_items pg)" unfolding items by simp
  from tenant_listing_exact [OF run dist this] have "w' = ?w" "to_user_count ?out = 1"
    by (auto simp: demo_world_def with_user_def)
  then show ?thesis using run unfolding items by (intro exI [of _ pg]) (simp add: items)
qed

text \<open>
  The self-service view changes nothing and reports the wallet of a credit tenant, zero when it has none,
  and no balance at all for the other mode.
\<close>

theorem account_view_exact:
  "my_billing_account s p w = (Inr \<lparr>br_enabled = bs_enabled s,
      br_mode = ba_mode (account_of (bs_default_mode s) (pr_tenant_id p) (w_db w)),
      br_currency = ba_currency (account_of (bs_default_mode s) (pr_tenant_id p) (w_db w)),
      br_spend_cap = ba_spend_cap (account_of (bs_default_mode s) (pr_tenant_id p) (w_db w)),
      br_balance = (if ba_mode (account_of (bs_default_mode s) (pr_tenant_id p) (w_db w)) = ''credit''
                    then Some (wallet_balance (pr_tenant_id p) (w_db w)) else None),
      br_month_to_date_cost = sum_list (map ur_cost (filter (\<lambda>u. ur_tenant_id u = pr_tenant_id p \<and>
        month_start (e_now (w_env w) (w_clock w)) \<le> ur_recorded_at u) (d_usage (w_db w))))\<rparr>, w\<lparr>w_clock := Suc (w_clock w)\<rparr>)"
  by (simp add: my_billing_account_def em_simps account_of_def wallet_balance_def Let_def split: option.split)

text \<open>
  The administrator's changes that leave no trace in the audit trail, although the action vocabulary has a
  name for each of them.
\<close>

theorem unaudited_changes:
  "d_audit (w_db (snd (upsert_entitlement_route ent p w))) = d_audit (w_db w) \<and>
   d_audit (w_db (snd (upsert_publish_grant_route grant p w))) = d_audit (w_db w) \<and>
   d_audit (w_db (snd (add_pricing_rule_route rule p w))) = d_audit (w_db w) \<and>
   d_audit (w_db (snd (review_credit_request_route m approve note i p w))) = d_audit (w_db w)"
proof -
  let ?a = "\<lambda>w. d_audit (w_db w)"
  have steps: "leaves ?a (update_db f)" if "\<And>d. d_audit (f d) = d_audit d" for f using that by (simp add: moves_def)
  have prims: "leaves ?a utc_now" "leaves ?a fresh_uuid" "leaves ?a commit" "leaves ?a (require_admin p)" "leaves ?a (query_db q)" for q
    by (simp_all add: moves_def require_admin_run)
  have "leaves ?a (upsert_entitlement_route ent p)"
    unfolding upsert_entitlement_route_def upsert_entitlement_def Let_def by (intro moves_intro prims steps) simp_all
  moreover have "leaves ?a (upsert_publish_grant_route grant p)"
    unfolding upsert_publish_grant_route_def upsert_publish_grant_def Let_def by (intro moves_intro prims steps) simp_all
  moreover have "leaves ?a (add_pricing_rule_route rule p)"
    unfolding add_pricing_rule_route_def add_pricing_rule_def Let_def by (intro moves_intro prims steps) simp_all
  moreover have "leaves ?a (review_credit_request_route m approve note i p)"
    unfolding review_credit_request_route_def review_credit_request_def apply_request_def adjust_credit_def apply_delta_def
      set_mode_def get_or_create_account_def Let_def by (intro moves_intro prims steps) simp_all
  ultimately show ?thesis by (simp add: moves_def)
qed

end
