(* ===== verification/Catalog.thy ===== *)
theory Catalog
  imports Entitlement Sandbox_Spec "HOL-Library.Char_ord"
begin

section \<open>The catalogue services\<close>

text \<open>
  \<open>app/services/registry_service.py\<close> and \<open>app/services/template_service.py\<close>: listing what a caller may
  see, and publishing a manifest, which writes a file, extends the live registry and records a row.
  The validator (JSON Schema and pydantic) is an argument, as for the loader; so is \<open>str\<close> of a JSON value
  that is not a string. A path is the list of its parts.
\<close>

subsection \<open>Listing\<close>

definition catalog_components :: "principal \<Rightarrow> string option \<Rightarrow> (string \<times> component) list prog" where
  "catalog_components p cat =
     bind_em (gets_em w_registry) (\<lambda>reg.
     bind_em (filter_components (components reg) p) (\<lambda>visible.
     return_em (sort_key fst (filter (\<lambda>(key, c).
       case cat of None \<Rightarrow> True | Some k \<Rightarrow> category_value (md_category (c_metadata c)) = k) visible))))"

text \<open>\<open>sort(key=f, reverse=True)\<close> keeps the order of equal elements.\<close>

definition sort_reverse :: "('a \<Rightarrow> 'k::linorder) \<Rightarrow> 'a list \<Rightarrow> 'a list" where
  "sort_reverse f xs = rev (sort_key f (rev xs))"

definition component_versions :: "string \<Rightarrow> principal \<Rightarrow> (string \<times> component) list prog" where
  "component_versions name p =
     bind_em (gets_em w_registry) (\<lambda>reg.
     bind_em (filter_components (components reg) p) (\<lambda>visible.
     let matches = filter (\<lambda>(key, c). rsplit1_head CHR ''@'' key = name) visible in
     if matches = [] then raise_em (ComponentNotFoundError name)
     else return_em (sort_reverse (\<lambda>(key, c). version_sort_key (md_version (c_metadata c))) matches)))"

definition catalog_templates :: "principal \<Rightarrow> string option \<Rightarrow> (string \<times> sandbox_template) list prog" where
  "catalog_templates p name =
     bind_em (gets_em w_registry) (\<lambda>reg.
     bind_em (filter_templates (templates reg) p reg) (\<lambda>visible.
     return_em (sort_key fst (filter (\<lambda>(key, t).
       case name of None \<Rightarrow> True | Some n \<Rightarrow> rsplit1_head CHR ''@'' key = n) visible))))"

subsection \<open>Paths and fields of a raw manifest\<close>

text \<open>\<open>path / s\<close>: an absolute \<open>s\<close> replaces the path; empty and \<open>.\<close> parts vanish.\<close>

definition path_join :: "string list \<Rightarrow> string \<Rightarrow> string list" where
  "path_join path s =
     (let parts = filter (\<lambda>x. x \<noteq> [] \<and> x \<noteq> ''.'') (split_on CHR ''/'' s)
      in if startswith s ''/'' then ''/'' # parts else path @ parts)"

definition metadata_field :: "(string \<times> json) list \<Rightarrow> string \<Rightarrow> exn + json option" where
  "metadata_field raw field = json_get (case map_of raw ''metadata'' of None \<Rightarrow> JObject [] | Some m \<Rightarrow> m) field"

definition category_dirs :: "(string \<times> string) list" where
  "category_dirs = [(''language'', ''languages''), (''database'', ''databases''), (''tool'', ''tools''),
     (''service'', ''services''), (''base'', ''base''), (''build-strategy'', ''build-strategies'')]"

text \<open>
  \<open>_CATEGORY_DIRS.get(category, category or "misc")\<close>: a value that is neither a string nor false cannot be
  joined to a path.
\<close>

definition category_dir :: "json option \<Rightarrow> exn + string" where
  "category_dir cat =
     (case cat of
        None \<Rightarrow> Inr ''misc''
      | Some (JString k) \<Rightarrow>
          Inr (case map_of category_dirs k of Some d \<Rightarrow> d | None \<Rightarrow> if k = [] then ''misc'' else k)
      | Some (JList _) \<Rightarrow> Inl (OtherException ''TypeError'')
      | Some (JObject _) \<Rightarrow> Inl (OtherException ''TypeError'')
      | Some v \<Rightarrow> if py_truthy v then Inl (OtherException ''TypeError'') else Inr ''misc'')"

definition text_part :: "string \<Rightarrow> json option \<Rightarrow> exn + string" where
  "text_part fallback v =
     (case v of None \<Rightarrow> Inr fallback | Some (JString s) \<Rightarrow> Inr s | Some _ \<Rightarrow> Inl (OtherException ''TypeError''))"

subsection \<open>Publishing\<close>

text \<open>
  A category that is missing or null refuses a non-administrator; one that is not a string makes the
  query for the grant fail.
\<close>

definition may_publish :: "json option \<Rightarrow> principal \<Rightarrow> unit prog" where
  "may_publish cat p =
     (if is_admin p then return_em ()
      else case cat of
        None \<Rightarrow> raise_em (EntitlementError ''publish'')
      | Some JNull \<Rightarrow> raise_em (EntitlementError ''publish'')
      | Some (JString k) \<Rightarrow>
          bind_em (can_publish p k) (\<lambda>granted.
          if granted then return_em () else raise_em (EntitlementError k))
      | Some _ \<Rightarrow> raise_em (OtherException ''category''))"

text \<open>Every reference must resolve and, unless the publisher is an administrator, be visible to it.\<close>

definition check_published_refs :: "string \<Rightarrow> string list \<Rightarrow> principal \<Rightarrow> unit prog" where
  "check_published_refs owner refs p =
     for_em refs (\<lambda>r.
       bind_em (gets_em w_registry) (\<lambda>reg.
       bind_em (catch_em (lift_em (resolve_component_ref reg r)) is_component_not_found
                 (\<lambda>_. raise_em (ManifestValidationError (owner @ '' '' @ r)))) (\<lambda>_.
       if is_admin p then return_em ()
       else bind_em (is_ref_visible r p reg) (\<lambda>visible.
            if visible then return_em () else raise_em (EntitlementError (owner @ '' '' @ r))))))"

definition write_manifest :: "string list \<Rightarrow> json \<Rightarrow> unit prog" where
  "write_manifest path raw = external (\<lambda>en tr. e_write_file en tr path raw) (CallWriteFile path raw)"

definition component_target_dir :: "string list \<Rightarrow> json option \<Rightarrow> principal \<Rightarrow> exn + string list" where
  "component_target_dir dir cat p =
     (if is_admin p then map_sum id (path_join dir) (category_dir cat)
      else Inr (path_join (path_join dir ''tenant'') (pr_tenant_id p)))"

definition add_component :: "string \<Rightarrow> component \<Rightarrow> string list \<Rightarrow> unit prog" where
  "add_component key c path =
     modify_em (\<lambda>w. w\<lparr>w_registry := (w_registry w)\<lparr>
       components := AList.update key c (components (w_registry w)),
       component_dirs := AList.update key (butlast path) (component_dirs (w_registry w))\<rparr>\<rparr>)"

definition add_component_record :: "string \<Rightarrow> component \<Rightarrow> json \<Rightarrow> unit prog" where
  "add_component_record key c raw =
     (let (bare_name, _, version) = py_rpartition CHR ''@'' key in
      update_db (\<lambda>d. d\<lparr>d_components := d_components d @
        [\<lparr>cm_name = bare_name, cm_version = version, cm_category = md_category (c_metadata c), cm_manifest = raw\<rparr>]\<rparr>))"

definition register_component ::
  "((string \<times> json) list \<Rightarrow> exn + component) \<Rightarrow> string list \<Rightarrow> (string \<times> json) list \<Rightarrow> principal \<Rightarrow> (string \<times> component) prog" where
  "register_component validate dir raw p =
     bind_em (lift_em (metadata_field raw ''category'')) (\<lambda>cat.
     seq_em (may_publish cat p)
     (bind_em (lift_em (metadata_field raw ''name'')) (\<lambda>name.
      bind_em (lift_em (metadata_field raw ''version'')) (\<lambda>version.
      bind_em (lift_em (component_target_dir dir cat p)) (\<lambda>target.
      bind_em (lift_em (text_part ''component'' name)) (\<lambda>name_part.
      bind_em (lift_em (text_part ''0'' version)) (\<lambda>version_part.
      let path = path_join (path_join (path_join target name_part) version_part) ''component.yaml'' in
      bind_em (lift_em (validate raw)) (\<lambda>c.
      seq_em (check_published_refs (component_key c) (cs_requires (c_spec c)) p)
      (let key = registry_key_for path (component_key c) dir in
       bind_em (gets_em w_registry) (\<lambda>reg.
       if map_of (components reg) key \<noteq> None then raise_em (ManifestValidationError key)
       else
         seq_em (write_manifest path (JObject raw))
         (seq_em (add_component key c path)
         (seq_em (add_component_record key c (JObject raw))
         (seq_em commit (return_em (key, c)))))))))))))))"

definition add_template :: "string \<Rightarrow> sandbox_template \<Rightarrow> unit prog" where
  "add_template key t =
     modify_em (\<lambda>w. w\<lparr>w_registry := (w_registry w)\<lparr>templates := AList.update key t (templates (w_registry w))\<rparr>\<rparr>)"

definition add_template_record :: "string \<Rightarrow> json \<Rightarrow> unit prog" where
  "add_template_record key raw =
     (let (bare_name, _, version) = py_rpartition CHR ''@'' key in
      update_db (\<lambda>d. d\<lparr>d_templates := d_templates d @
        [\<lparr>tmr_name = bare_name, tmr_version = version, tmr_manifest = raw\<rparr>]\<rparr>))"

definition may_publish_template :: "principal \<Rightarrow> unit prog" where
  "may_publish_template p =
     (if is_admin p then return_em ()
      else bind_em (can_publish p ''template'') (\<lambda>granted.
           if granted then return_em () else raise_em (EntitlementError ''template'')))"

text \<open>The file name interpolates the version, whatever it is: \<open>str_of\<close> prints a value that is not a string.\<close>

definition version_text :: "(json \<Rightarrow> string) \<Rightarrow> json option \<Rightarrow> string" where
  "version_text str_of v = (case v of None \<Rightarrow> ''0'' | Some (JString s) \<Rightarrow> s | Some other \<Rightarrow> str_of other)"

definition create_template ::
  "((string \<times> json) list \<Rightarrow> exn + sandbox_template) \<Rightarrow> (json \<Rightarrow> string) \<Rightarrow> string list \<Rightarrow> (string \<times> json) list \<Rightarrow> principal \<Rightarrow>
   (string \<times> sandbox_template) prog" where
  "create_template validate str_of dir raw p =
     seq_em (may_publish_template p)
     (bind_em (lift_em (metadata_field raw ''name'')) (\<lambda>name.
      bind_em (lift_em (metadata_field raw ''version'')) (\<lambda>version.
      let target = (if is_admin p then dir else path_join (path_join dir ''tenant'') (pr_tenant_id p)) in
      bind_em (lift_em (text_part ''template'' name)) (\<lambda>name_part.
      let path = path_join (path_join target name_part) (version_text str_of version @ ''.yaml'') in
      bind_em (lift_em (validate raw)) (\<lambda>t.
      seq_em (check_published_refs (template_key t) (template_refs t) p)
      (let key = registry_key_for path (template_key t) dir in
       bind_em (gets_em w_registry) (\<lambda>reg.
       if map_of (templates reg) key \<noteq> None then raise_em (ManifestValidationError key)
       else
         seq_em (write_manifest path (JObject raw))
         (seq_em (add_template key t)
         (seq_em (add_template_record key (JObject raw))
         (seq_em commit (return_em (key, t))))))))))))"

subsection \<open>Laws of the listings\<close>

lemma set_sort_reverse [simp]: "set (sort_reverse f xs) = set xs"
  by (simp add: sort_reverse_def)

lemma sort_reverse_empty [simp]: "sort_reverse f xs = [] \<longleftrightarrow> xs = []"
  by (simp add: sort_reverse_def flip: length_0_conv)

lemma sorted_sort_reverse: "sorted (rev (map f (sort_reverse f xs)))"
  by (simp add: sort_reverse_def rev_map)

lemma filter_components_visible:
  assumes "pr_user_id p \<noteq> Some []"
  shows "filter_components items p w =
    (Inr (filter (\<lambda>(k, c). can_see_component k c p (d_entitlements (w_db w))) items), w)"
proof -
  have "can_see_component k c p (load_entitlements_for p (w_db w)) = can_see_component k c p (d_entitlements (w_db w))" for k c
    by (simp add: can_see_component_def load_entitlements_complete [OF assms] split: option.split)
  then show ?thesis by (simp add: filter_components_run)
qed

lemma filter_pairs: "filter (\<lambda>(k, c). Q k c) (filter (\<lambda>(k, c). P k c) xs) = filter (\<lambda>(k, c). P k c \<and> Q k c) xs"
  by (induction xs) auto

lemma component_versions_run:
  assumes "pr_user_id p \<noteq> Some []"
  shows "component_versions name p w =
    (let matches = filter (\<lambda>(k, c). can_see_component k c p (d_entitlements (w_db w)) \<and> rsplit1_head CHR ''@'' k = name)
                     (components (w_registry w)) in
     (if matches = [] then Inl (ComponentNotFoundError name)
      else Inr (sort_reverse (\<lambda>(k, c). version_sort_key (md_version (c_metadata c))) matches), w))"
  unfolding component_versions_def by (simp add: em_simps filter_components_visible [OF assms] filter_pairs Let_def del: filter_filter)

text \<open>
  The versions of a component are complete and newest first. A caller is shown exactly the
  versions of that name that entitlement allows it to see, in descending version order; when there is
  none, whether the name is unknown or hidden, the answer is the same \<open>ComponentNotFoundError\<close>, and
  nothing changes.
\<close>

theorem component_versions_newest_first:
  assumes "pr_user_id p \<noteq> Some []" "component_versions name p w = (r, w')"
  shows "w' = w \<and>
    (case r of
       Inl e \<Rightarrow> e = ComponentNotFoundError name \<and>
         (\<forall>(k, c)\<in>set (components (w_registry w)). rsplit1_head CHR ''@'' k = name \<longrightarrow> \<not> can_see_component k c p (d_entitlements (w_db w)))
     | Inr vs \<Rightarrow> vs \<noteq> [] \<and>
         set vs = {(k, c). (k, c) \<in> set (components (w_registry w)) \<and> rsplit1_head CHR ''@'' k = name \<and>
                     can_see_component k c p (d_entitlements (w_db w))} \<and>
         sorted (rev (map (\<lambda>(k, c). version_sort_key (md_version (c_metadata c))) vs)))"
proof -
  let ?m = "filter (\<lambda>(k, c). can_see_component k c p (d_entitlements (w_db w)) \<and> rsplit1_head CHR ''@'' k = name)
      (components (w_registry w))"
  note run = assms(2) [unfolded component_versions_run [OF assms(1)] Let_def]
  show ?thesis
  proof (cases "?m = []")
    case True
    with run show ?thesis by (auto simp: filter_empty_conv)
  next
    case False
    then have r: "r = Inr (sort_reverse (\<lambda>(k, c). version_sort_key (md_version (c_metadata c))) ?m)" "w' = w" using run by auto
    have "sort_reverse (\<lambda>(k, c). version_sort_key (md_version (c_metadata c))) ?m \<noteq> []"
      using False by (simp only: sort_reverse_empty not_False_eq_True)
    moreover have "set (sort_reverse (\<lambda>(k, c). version_sort_key (md_version (c_metadata c))) ?m) =
        {(k, c). (k, c) \<in> set (components (w_registry w)) \<and> rsplit1_head CHR ''@'' k = name \<and>
                 can_see_component k c p (d_entitlements (w_db w))}" by auto
    ultimately show ?thesis unfolding r by (simp only: sum.case sorted_sort_reverse simp_thms not_False_eq_True)
  qed
qed

definition two_versions :: registry where
  "two_versions = \<lparr>components = [(''jq@9.0'', language_component ''jq'' ''9.0''), (''jq@10.0'', language_component ''jq'' ''10.0'')],
     templates = [], component_dirs = [], built_images = []\<rparr>"

definition catalog_admin :: principal where
  "catalog_admin = \<lparr>pr_tenant_id = ''t1'', pr_user_id = Some ''u1'', pr_role = ''admin''\<rparr>"

theorem component_versions_newest_first_witness:
  "\<exists>vs. component_versions ''jq'' catalog_admin (demo_world empty_db two_versions) = (Inr vs, demo_world empty_db two_versions) \<and> vs \<noteq> []"
proof -
  have u: "pr_user_id catalog_admin \<noteq> Some []" by (simp add: catalog_admin_def)
  obtain r w' where run: "component_versions ''jq'' catalog_admin (demo_world empty_db two_versions) = (r, w')"
    by (cases "component_versions ''jq'' catalog_admin (demo_world empty_db two_versions)")
  have "rsplit1_head CHR ''@'' ''jq@9.0'' = ''jq''" by (simp add: rsplit1_head_def)
  then have "\<exists>(k, c)\<in>set (components two_versions). rsplit1_head CHR ''@'' k = ''jq'' \<and> can_see_component k c catalog_admin []"
    by (simp add: two_versions_def can_see_component_def catalog_admin_def is_admin_def)
  with component_versions_newest_first [OF u run] run show ?thesis
    by (cases r) (auto simp: demo_world_def empty_db_def)
qed

subsection \<open>Laws of publishing\<close>

lemma reads_only:
  "leaves (\<lambda>w :: world. w) (may_publish cat p)" "leaves (\<lambda>w :: world. w) (may_publish_template p)"
  "leaves (\<lambda>w :: world. w) (check_published_refs owner refs p)"
proof -
  have q: "leaves (\<lambda>w :: world. w) (query_db f)" for f :: "db \<Rightarrow> 'q" by (simp add: moves_def)
  have grant: "leaves (\<lambda>w :: world. w) (can_publish p k)" for k unfolding can_publish_def by (intro moves_intro q)
  show "leaves (\<lambda>w :: world. w) (may_publish_template p)" unfolding may_publish_template_def by (intro moves_intro grant)
  have json: "leaves (\<lambda>w :: world. w) (case v of JNull \<Rightarrow> m | JString k \<Rightarrow> f k | _ \<Rightarrow> e)"
    if "leaves (\<lambda>w. w) m" "\<And>k. leaves (\<lambda>w. w) (f k)" "leaves (\<lambda>w. w) e" for v :: json and m f and e :: "unit prog"
    using that by (cases v) simp_all
  show "leaves (\<lambda>w :: world. w) (may_publish cat p)"
    unfolding may_publish_def by (intro moves_intro json grant)
  show "leaves (\<lambda>w :: world. w) (check_published_refs owner refs p)"
    unfolding check_published_refs_def is_ref_visible_def by (intro moves_intro q)
qed

lemma unchanged: "leaves (\<lambda>w :: world. w) m \<Longrightarrow> m w = (r, w') \<Longrightarrow> w' = w"
  by (drule leavesD) auto

lemma update_new: "map_of al k = None \<Longrightarrow> AList.update k v al = al @ [(k, v)]"
  by (induction al) (auto split: if_splits)

lemma may_publish_cases: "may_publish cat p w = (Inr (), w) \<or> (\<exists>e. may_publish cat p w = (Inl e, w))"
  using unchanged [OF reads_only(1)] by (cases "may_publish cat p w"; cases "fst (may_publish cat p w)") auto

lemma may_publish_template_cases: "may_publish_template p w = (Inr (), w) \<or> (\<exists>e. may_publish_template p w = (Inl e, w))"
  using unchanged [OF reads_only(2)] by (cases "may_publish_template p w"; cases "fst (may_publish_template p w)") auto

lemma check_published_refs_cases:
  "check_published_refs owner refs p w = (Inr (), w) \<or> (\<exists>e. check_published_refs owner refs p w = (Inl e, w))"
  using unchanged [OF reads_only(3)] by (cases "check_published_refs owner refs p w"; cases "fst (check_published_refs owner refs p w)") auto

lemma check_published_refs_ok:
  "check_published_refs owner refs p w = (Inr (), w) \<longleftrightarrow>
     (\<forall>r\<in>set refs. (\<exists>c. resolve_component_ref (w_registry w) r = Inr c) \<and>
        (is_admin p \<or> ref_visible r p (load_entitlements_for p (w_db w)) (w_registry w)))"
proof (induction refs)
  case (Cons r refs)
  show ?case
    using Cons check_published_refs_cases [of owner refs p w]
    by (cases "resolve_component_ref (w_registry w) r")
      (auto simp: check_published_refs_def em_simps is_ref_visible_def)
qed (simp add: check_published_refs_def)

text \<open>The write: file, registry, row, commit.\<close>

definition publish_component_steps :: "string list \<Rightarrow> (string \<times> json) list \<Rightarrow> string \<Rightarrow> component \<Rightarrow> (string \<times> component) prog" where
  "publish_component_steps path raw key c =
     seq_em (write_manifest path (JObject raw))
       (seq_em (add_component key c path)
       (seq_em (add_component_record key c (JObject raw))
       (seq_em commit (return_em (key, c)))))"

lemma publish_component_steps_run:
  "publish_component_steps path raw key c w =
    (let w1 = w\<lparr>w_calls := w_calls w @ [CallWriteFile path (JObject raw) (e_write_file (w_env w) (w_calls w) path (JObject raw))]\<rparr>;
         row = (case py_rpartition CHR ''@'' key of (n, _, v) \<Rightarrow>
           \<lparr>cm_name = n, cm_version = v, cm_category = md_category (c_metadata c), cm_manifest = JObject raw\<rparr>);
         d = (w_db w)\<lparr>d_components := d_components (w_db w) @ [row]\<rparr>
     in case e_write_file (w_env w) (w_calls w) path (JObject raw) of
          Inl e \<Rightarrow> (Inl e, w1)
        | Inr _ \<Rightarrow> (Inr (key, c), w1\<lparr>w_registry := (w_registry w)\<lparr>components := AList.update key c (components (w_registry w)),
             component_dirs := AList.update key (butlast path) (component_dirs (w_registry w))\<rparr>, w_db := d, w_committed := d\<rparr>))"
  by (cases "e_write_file (w_env w) (w_calls w) path (JObject raw)"; cases "py_rpartition CHR ''@'' key")
    (simp_all add: publish_component_steps_def write_manifest_def add_component_def add_component_record_def em_simps Let_def)

lemma register_component_cases:
  assumes "register_component validate dir raw p w = (r, w')"
  obtains (refused) e where "r = Inl e" "w' = w"
  | (written) cat target n v path c where "metadata_field raw ''category'' = Inr cat" "may_publish cat p w = (Inr (), w)"
      "component_target_dir dir cat p = Inr target"
      "metadata_field raw ''name'' = Inr n" "metadata_field raw ''version'' = Inr v"
      "map_sum id (\<lambda>n. map_sum id (\<lambda>v. path_join (path_join (path_join target n) v) ''component.yaml'') (text_part ''0'' v))
         (text_part ''component'' n) = Inr (Inr path)"
      "validate raw = Inr c" "check_published_refs (component_key c) (cs_requires (c_spec c)) p w = (Inr (), w)"
      "map_of (components (w_registry w)) (registry_key_for path (component_key c) dir) = None"
      "publish_component_steps path raw (registry_key_for path (component_key c) dir) c w = (r, w')"
proof (cases "\<exists>e. r = Inl e \<and> w' = w")
  case True
  then show thesis using refused by blast
next
  case False
  note run = assms [unfolded register_component_def publish_component_steps_def [symmetric]]
  obtain cat where cat: "metadata_field raw ''category'' = Inr cat" using run False by (cases "metadata_field raw ''category''") (auto simp: em_simps)
  have mp: "may_publish cat p w = (Inr (), w)" using run False cat may_publish_cases [of cat p w] by (auto simp: em_simps)
  obtain n where n: "metadata_field raw ''name'' = Inr n" using run False cat mp by (cases "metadata_field raw ''name''") (auto simp: em_simps)
  obtain v where v: "metadata_field raw ''version'' = Inr v" using run False cat mp n by (cases "metadata_field raw ''version''") (auto simp: em_simps)
  obtain target where t: "component_target_dir dir cat p = Inr target" using run False cat mp n v
    by (cases "component_target_dir dir cat p") (auto simp: em_simps)
  obtain n' where n': "text_part ''component'' n = Inr n'" using run False cat mp n v t
    by (cases "text_part ''component'' n") (auto simp: em_simps)
  obtain v' where v': "text_part ''0'' v = Inr v'" using run False cat mp n v t n'
    by (cases "text_part ''0'' v") (auto simp: em_simps)
  obtain c where c: "validate raw = Inr c" using run False cat mp n v t n' v' by (cases "validate raw") (auto simp: em_simps Let_def)
  have refs: "check_published_refs (component_key c) (cs_requires (c_spec c)) p w = (Inr (), w)"
    using run False cat mp n v t n' v' c check_published_refs_cases [of "component_key c" "cs_requires (c_spec c)" p w]
    by (auto simp: em_simps Let_def)
  let ?path = "path_join (path_join (path_join target n') v') ''component.yaml''"
  have rest: "bind_em (gets_em w_registry) (\<lambda>reg.
       if map_of (components reg) (registry_key_for ?path (component_key c) dir) \<noteq> None
       then raise_em (ManifestValidationError (registry_key_for ?path (component_key c) dir))
       else publish_component_steps ?path raw (registry_key_for ?path (component_key c) dir) c) w = (r, w')"
    using run cat mp n v t n' v' c refs by (simp add: em_simps Let_def)
  have key: "map_of (components (w_registry w)) (registry_key_for ?path (component_key c) dir) = None"
    using rest False by (auto simp: em_simps split: if_splits)
  show thesis
    using rest key by (intro written [of cat target n v ?path c] cat mp t n v c refs) (simp_all add: em_simps n' v')
qed

text \<open>A single part of a path, and a name that cannot replace the path it is joined to.\<close>

definition one_part :: "string \<Rightarrow> bool" where
  "one_part s \<longleftrightarrow> CHR ''/'' \<notin> set s \<and> s \<noteq> [] \<and> s \<noteq> ''.''"

definition relative_field :: "(string \<times> json) list \<Rightarrow> string \<Rightarrow> bool" where
  "relative_field raw field =
     (case metadata_field raw field of Inr (Some (JString s)) \<Rightarrow> \<not> startswith s ''/'' | _ \<Rightarrow> True)"

lemma split_on_one: "CHR ''/'' \<notin> set s \<Longrightarrow> split_on CHR ''/'' s = [s]"
  by (induction s) auto

lemma one_part_relative: "one_part s \<Longrightarrow> \<not> startswith s ''/''"
  by (cases s) (auto simp: one_part_def startswith_def)

lemma path_join_one: "one_part s \<Longrightarrow> path_join path s = path @ [s]"
  using one_part_relative [of s] by (simp add: path_join_def split_on_one one_part_def)

lemma path_join_relative: "\<not> startswith s ''/'' \<Longrightarrow> \<exists>parts. path_join path s = path @ parts"
  by (simp add: path_join_def)

lemma fixed_parts [simp]: "one_part ''tenant''" "one_part ''component.yaml''"
  by (simp_all add: one_part_def)

lemma tenant_path_key:
  assumes "one_part t" "path = (dir @ [''tenant'', t]) @ parts"
  shows "registry_key_for path bare dir = ''tenant/'' @ t @ ''/'' @ bare"
  using assms by (simp add: registry_key_for_def relative_to_def)

lemma text_part_relative:
  assumes "text_part fallback v = Inr s" "metadata_field raw field = Inr v" "relative_field raw field" "\<not> startswith fallback ''/''"
  shows "\<not> startswith s ''/''"
  using assms by (auto simp: text_part_def relative_field_def split: option.splits json.splits)

lemma private_key_owner: "one_part t \<Longrightarrow> private_owner (''tenant/'' @ t @ ''/'' @ bare) = Some t"
  by (simp add: private_owner_iff one_part_def)

lemma tenant_component_key:
  assumes "\<not> is_admin p" "component_target_dir dir cat p = Inr target" "one_part (pr_tenant_id p)"
    and "metadata_field raw ''name'' = Inr n" "metadata_field raw ''version'' = Inr v"
    and "relative_field raw ''name''" "relative_field raw ''version''"
    and "map_sum id (\<lambda>n. map_sum id (\<lambda>v. path_join (path_join (path_join target n) v) ''component.yaml'') (text_part ''0'' v))
         (text_part ''component'' n) = Inr (Inr path)"
  shows "registry_key_for path bare dir = ''tenant/'' @ pr_tenant_id p @ ''/'' @ bare"
proof -
  have target: "target = dir @ [''tenant'', pr_tenant_id p]"
    using assms(1-3) by (simp add: component_target_dir_def path_join_one)
  obtain n' v' where parts: "text_part ''component'' n = Inr n'" "text_part ''0'' v = Inr v'"
    "path = path_join (path_join (path_join target n') v') ''component.yaml''"
    using assms(8) by (cases "text_part ''component'' n"; cases "text_part ''0'' v") auto
  have "\<not> startswith n' ''/''" using text_part_relative [OF parts(1) assms(4,6)] by (simp add: startswith_def)
  then obtain xs where xs: "path_join target n' = target @ xs" using path_join_relative by blast
  have "\<not> startswith v' ''/''" using text_part_relative [OF parts(2) assms(5,7)] by (simp add: startswith_def)
  then obtain ys where ys: "path_join (target @ xs) v' = (target @ xs) @ ys" using path_join_relative by blast
  have "path = (dir @ [''tenant'', pr_tenant_id p]) @ xs @ ys @ [''component.yaml'']"
    unfolding parts(3) xs ys by (simp add: path_join_one target)
  then show ?thesis by (rule tenant_path_key [OF assms(3)])
qed

lemma publish_component_steps_Inr:
  assumes "publish_component_steps path raw key c w = (Inr kc, w')" "map_of (components (w_registry w)) key = None"
  shows "kc = (key, c) \<and> components (w_registry w') = components (w_registry w) @ [(key, c)] \<and>
    templates (w_registry w') = templates (w_registry w) \<and> built_images (w_registry w') = built_images (w_registry w) \<and>
    w_committed w' = w_db w' \<and>
    map cm_manifest (d_components (w_db w')) = map cm_manifest (d_components (w_db w)) @ [JObject raw]"
  using assms by (auto simp: publish_component_steps_run Let_def update_new split: sum.splits prod.splits)

text \<open>
  A publisher reaches its own namespace only. When the validator rejects names that are absolute
  paths, a component that a non-administrator registers gets the key
  \<open>tenant/<own tenant>/name@version\<close>, which was free; it is appended to the live registry and recorded,
  no other entry of the registry changes, no non-administrator of another tenant can see it, the publisher holds a
  grant, and every component it requires resolves to something the publisher may see.
\<close>

theorem published_component_is_confined:
  assumes "register_component validate dir raw p w = (Inr (key, c), w')" "\<not> is_admin p" "one_part (pr_tenant_id p)"
    and "\<And>raw c. validate raw = Inr c \<Longrightarrow> relative_field raw ''name'' \<and> relative_field raw ''version''"
  shows "key = ''tenant/'' @ pr_tenant_id p @ ''/'' @ component_key c \<and> map_of (components (w_registry w)) key = None \<and>
    components (w_registry w') = components (w_registry w) @ [(key, c)] \<and> templates (w_registry w') = templates (w_registry w) \<and>
    w_committed w' = w_db w' \<and> map cm_manifest (d_components (w_db w')) = map cm_manifest (d_components (w_db w)) @ [JObject raw] \<and>
    (\<forall>q es. \<not> is_admin q \<and> pr_tenant_id q \<noteq> pr_tenant_id p \<longrightarrow> \<not> can_see_component key c q es) \<and>
    (\<exists>g\<in>set (d_publish_grants (w_db w)). pg_allowed g \<and> pg_scope_id g \<in> set (scope_ids p)) \<and>
    (\<forall>r\<in>set (cs_requires (c_spec c)). (\<exists>d. resolve_component_ref (w_registry w) r = Inr d) \<and>
       ref_visible r p (load_entitlements_for p (w_db w)) (w_registry w))"
  using assms(1)
proof (cases rule: register_component_cases)
  case (written cat target n v path c')
  let ?key = "registry_key_for path (component_key c') dir"
  have rel: "relative_field raw ''name''" "relative_field raw ''version''" using assms(4) [OF written(7)] by auto
  have k: "?key = ''tenant/'' @ pr_tenant_id p @ ''/'' @ component_key c'"
    using written(3-6) rel assms(2,3) by (intro tenant_component_key)
  note res = publish_component_steps_Inr [OF written(10,9)]
  have kc: "key = ?key" "c = c'" using res by auto
  have owner: "private_owner key = Some (pr_tenant_id p)" unfolding kc k using assms(3) by (rule private_key_owner)
  have grant: "\<exists>g\<in>set (d_publish_grants (w_db w)). pg_allowed g \<and> pg_scope_id g \<in> set (scope_ids p)"
    using written(2) assms(2)
    by (auto simp: may_publish_def can_publish_def em_simps filter_empty_conv split: option.splits json.splits if_splits)
  have refs: "\<forall>r\<in>set (cs_requires (c_spec c)). (\<exists>d. resolve_component_ref (w_registry w) r = Inr d) \<and>
       ref_visible r p (load_entitlements_for p (w_db w)) (w_registry w)"
    using written(8) assms(2) kc(2) by (simp add: check_published_refs_ok)
  show ?thesis using res grant refs owner kc k written(9) by (auto simp: can_see_component_def)
qed simp

text \<open>
  A refused registration leaves no trace. Whatever the reason, manifest, grant, reference or key, a
  registration that raises changes neither the registry nor the database; only when the write of the
  file itself fails has the outside been called at all.
\<close>

theorem refused_registration_changes_nothing:
  assumes "register_component validate dir raw p w = (Inl e, w')"
  shows "w' = w \<or> (\<exists>path. w' = w\<lparr>w_calls := w_calls w @ [CallWriteFile path (JObject raw) (Inl e)]\<rparr>)"
  using assms
proof (cases rule: register_component_cases)
  case (written cat target n v path c)
  then show ?thesis by (auto simp: publish_component_steps_run Let_def split: sum.splits)
qed auto

definition publisher :: principal where
  "publisher = \<lparr>pr_tenant_id = ''t1'', pr_user_id = Some ''u1'', pr_role = ''user''\<rparr>"

definition granted_db :: db where
  "granted_db = empty_db\<lparr>d_publish_grants := [\<lparr>pg_id = ''g1'', pg_scope = ''tenant'', pg_scope_id = ''t1'', pg_category = ''tool'', pg_allowed = True\<rparr>]\<rparr>"

definition raw_tool :: "(string \<times> json) list" where
  "raw_tool = [(''metadata'', JObject [(''name'', JString ''jq''), (''version'', JString ''1.0''), (''category'', JString ''tool'')])]"

definition tool_validator :: "(string \<times> json) list \<Rightarrow> exn + component" where
  "tool_validator raw = (if raw = raw_tool then Inr (language_component ''jq'' ''1.0'') else Inl (ManifestValidationError ''schema''))"

theorem published_component_is_confined_witness:
  "\<exists>key c w'. register_component tool_validator [''components''] raw_tool publisher (demo_world granted_db empty_registry) = (Inr (key, c), w') \<and>
     key = ''tenant/t1/jq@1.0''"
proof -
  let ?w = "demo_world granted_db empty_registry"
  have "\<exists>key c w'. register_component tool_validator [''components''] raw_tool publisher ?w = (Inr (key, c), w')"
    by (simp add: register_component_def em_simps metadata_field_def raw_tool_def may_publish_def publisher_def is_admin_def
        can_publish_def granted_db_def demo_world_def scope_ids_def component_target_dir_def text_part_def tool_validator_def
        check_published_refs_def language_component_def empty_registry_def write_manifest_def demo_env_def
        add_component_def add_component_record_def Let_def split: prod.split)
  then obtain key c w' where run: "register_component tool_validator [''components''] raw_tool publisher ?w = (Inr (key, c), w')" by blast
  have c: "c = language_component ''jq'' ''1.0''"
    using run by (cases rule: register_component_cases) (auto simp: tool_validator_def publish_component_steps_run Let_def split: if_splits sum.splits)
  have rel: "relative_field raw ''name'' \<and> relative_field raw ''version''" if "tool_validator raw = Inr d" for raw d
    using that by (auto simp: tool_validator_def relative_field_def metadata_field_def raw_tool_def startswith_def split: if_splits)
  have "key = ''tenant/'' @ ''t1'' @ ''/'' @ component_key c"
    using published_component_is_confined [OF run _ _ rel] by (simp add: publisher_def is_admin_def one_part_def)
  with run show ?thesis unfolding c by (auto simp: component_key_def language_component_def)
qed

theorem refused_registration_changes_nothing_witness:
  "\<exists>e. register_component tool_validator [''components''] raw_tool publisher (demo_world empty_db empty_registry) =
     (Inl e, demo_world empty_db empty_registry)"
proof -
  let ?w = "demo_world empty_db empty_registry"
  have "\<exists>e w'. register_component tool_validator [''components''] raw_tool publisher ?w = (Inl e, w') \<and> w_calls w' = []"
    by (simp add: register_component_def em_simps metadata_field_def raw_tool_def may_publish_def publisher_def is_admin_def
        can_publish_def empty_db_def demo_world_def)
  then obtain e w' where run: "register_component tool_validator [''components''] raw_tool publisher ?w = (Inl e, w')" "w_calls w' = []" by blast
  from refused_registration_changes_nothing [OF run(1)] run show ?thesis by (auto simp: demo_world_def)
qed

subsection \<open>Templates\<close>

definition publish_template_steps :: "string list \<Rightarrow> (string \<times> json) list \<Rightarrow> string \<Rightarrow> sandbox_template \<Rightarrow> (string \<times> sandbox_template) prog" where
  "publish_template_steps path raw key t =
     seq_em (write_manifest path (JObject raw))
       (seq_em (add_template key t)
       (seq_em (add_template_record key (JObject raw))
       (seq_em commit (return_em (key, t)))))"

lemma publish_template_steps_Inr:
  assumes "publish_template_steps path raw key t w = (Inr kt, w')" "map_of (templates (w_registry w)) key = None"
  shows "kt = (key, t) \<and> templates (w_registry w') = templates (w_registry w) @ [(key, t)] \<and>
    components (w_registry w') = components (w_registry w) \<and> w_committed w' = w_db w'"
  using assms
  by (auto simp: publish_template_steps_def write_manifest_def add_template_def add_template_record_def em_simps Let_def update_new
      split: sum.splits prod.splits)

definition template_target_dir :: "string list \<Rightarrow> principal \<Rightarrow> string list" where
  "template_target_dir dir p = (if is_admin p then dir else path_join (path_join dir ''tenant'') (pr_tenant_id p))"

lemma create_template_Inr:
  assumes "create_template validate str_of dir raw p w = (Inr kt, w')"
  obtains n n' v path t where "may_publish_template p w = (Inr (), w)"
      "metadata_field raw ''name'' = Inr n" "metadata_field raw ''version'' = Inr v" "text_part ''template'' n = Inr n'"
      "path = path_join (path_join (template_target_dir dir p) n') (version_text str_of v @ ''.yaml'')"
      "validate raw = Inr t" "check_published_refs (template_key t) (template_refs t) p w = (Inr (), w)"
      "map_of (templates (w_registry w)) (registry_key_for path (template_key t) dir) = None"
      "publish_template_steps path raw (registry_key_for path (template_key t) dir) t w = (Inr kt, w')"
proof -
  note run = assms [unfolded create_template_def publish_template_steps_def [symmetric] template_target_dir_def [symmetric]]
  have mp: "may_publish_template p w = (Inr (), w)" using run may_publish_template_cases [of p w] by (auto simp: em_simps)
  obtain n where n: "metadata_field raw ''name'' = Inr n" using run mp by (cases "metadata_field raw ''name''") (auto simp: em_simps)
  obtain v where v: "metadata_field raw ''version'' = Inr v" using run mp n by (cases "metadata_field raw ''version''") (auto simp: em_simps)
  obtain n' where n': "text_part ''template'' n = Inr n'" using run mp n v
    by (cases "text_part ''template'' n") (auto simp: em_simps Let_def)
  obtain t where t: "validate raw = Inr t" using run mp n v n' by (cases "validate raw") (auto simp: em_simps Let_def)
  have refs: "check_published_refs (template_key t) (template_refs t) p w = (Inr (), w)"
    using run mp n v n' t check_published_refs_cases [of "template_key t" "template_refs t" p w] by (auto simp: em_simps Let_def)
  let ?path = "path_join (path_join (template_target_dir dir p) n') (version_text str_of v @ ''.yaml'')"
  have rest: "bind_em (gets_em w_registry) (\<lambda>reg.
       if map_of (templates reg) (registry_key_for ?path (template_key t) dir) \<noteq> None
       then raise_em (ManifestValidationError (registry_key_for ?path (template_key t) dir))
       else publish_template_steps ?path raw (registry_key_for ?path (template_key t) dir) t) w = (Inr kt, w')"
    using run mp n v n' t refs by (simp add: em_simps Let_def)
  then have key: "map_of (templates (w_registry w)) (registry_key_for ?path (template_key t) dir) = None"
    by (auto simp: em_simps split: if_splits)
  show thesis using rest key by (intro that [of n v n' ?path t] mp n v n' t refs) (simp_all add: em_simps)
qed

text \<open>
  C34. A template shows no more than its publisher could see. A template that a non-administrator publishes
  lands under its own tenant's key, which was free, and every component it composes resolves to something
  the publisher may see; no other template and no component changes.
\<close>

theorem published_template_is_confined:
  assumes "create_template validate str_of dir raw p w = (Inr (key, t), w')" "\<not> is_admin p" "one_part (pr_tenant_id p)"
    and "\<And>raw t. validate raw = Inr t \<Longrightarrow> relative_field raw ''name'' \<and> metadata_field raw ''version'' \<in> range (\<lambda>s. Inr (Some (JString s))) \<and>
      relative_field raw ''version''"
  shows "key = ''tenant/'' @ pr_tenant_id p @ ''/'' @ template_key t \<and> map_of (templates (w_registry w)) key = None \<and>
    templates (w_registry w') = templates (w_registry w) @ [(key, t)] \<and> components (w_registry w') = components (w_registry w) \<and>
    w_committed w' = w_db w' \<and>
    (\<forall>r\<in>set (template_refs t). (\<exists>d. resolve_component_ref (w_registry w) r = Inr d) \<and>
       ref_visible r p (load_entitlements_for p (w_db w)) (w_registry w))"
  using assms(1)
proof (cases rule: create_template_Inr)
  case (1 n n' v path t')
  have rel: "relative_field raw ''name''" "relative_field raw ''version''" and v: "\<exists>s. v = Some (JString s)"
    using assms(4) [OF 1(6)] 1(3) by auto
  have "\<not> startswith n' ''/''" using text_part_relative [OF 1(4,2) rel(1)] by (simp add: startswith_def)
  then obtain xs where xs: "path_join (template_target_dir dir p) n' = template_target_dir dir p @ xs" using path_join_relative by blast
  obtain s where s: "v = Some (JString s)" using v by blast
  then have "\<not> startswith s ''/''" using rel(2) 1(3) by (simp add: relative_field_def)
  then have "\<not> startswith (version_text str_of v @ ''.yaml'') ''/''" unfolding s by (cases s) (auto simp: version_text_def startswith_def)
  then obtain ys where ys: "path_join (template_target_dir dir p @ xs) (version_text str_of v @ ''.yaml'') = (template_target_dir dir p @ xs) @ ys"
    using path_join_relative by blast
  have "path = (dir @ [''tenant'', pr_tenant_id p]) @ xs @ ys"
    using assms(2,3) unfolding 1(5) xs ys by (simp add: template_target_dir_def path_join_one)
  then have k: "registry_key_for path (template_key t') dir = ''tenant/'' @ pr_tenant_id p @ ''/'' @ template_key t'"
    by (rule tenant_path_key [OF assms(3)])
  note res = publish_template_steps_Inr [OF 1(9,8)]
  have t: "t = t'" "key = registry_key_for path (template_key t') dir" using res by auto
  have "\<forall>r\<in>set (template_refs t). (\<exists>d. resolve_component_ref (w_registry w) r = Inr d) \<and>
       ref_visible r p (load_entitlements_for p (w_db w)) (w_registry w)"
    using 1(7) assms(2) t(1) by (simp add: check_published_refs_ok)
  then show ?thesis using res k t 1(8) by auto
qed

text \<open>
  An administrator's template called \<open>tenant\<close> vanishes. The key of a public template is read off its
  file's path, and the file of a template named \<open>tenant\<close> lies in the directory of the private ones: it
  is published as the private template of a tenant called like the file, and no one but administrators sees it.
\<close>

theorem template_named_tenant_becomes_private:
  assumes "create_template validate str_of dir raw p w = (Inr (key, t), w')" "is_admin p"
    and "metadata_field raw ''name'' = Inr (Some (JString ''tenant''))"
    and "metadata_field raw ''version'' = Inr (Some (JString v))" "one_part (v @ ''.yaml'')"
  shows "key = ''tenant/'' @ (v @ ''.yaml'') @ ''/'' @ template_key t \<and>
    (\<forall>q es reg. pr_tenant_id q \<noteq> v @ ''.yaml'' \<longrightarrow> \<not> template_visible q es reg key t)"
  using assms(1)
proof (cases rule: create_template_Inr)
  case (1 n n' v' path t')
  have "n' = ''tenant''" "v' = Some (JString v)" using 1(2-4) assms(3,4) by (auto simp: text_part_def)
  then have "path = (dir @ [''tenant'', v @ ''.yaml'']) @ []"
    using 1(5) assms(2,5) by (simp add: template_target_dir_def path_join_one version_text_def)
  then have k: "registry_key_for path (template_key t') dir = ''tenant/'' @ (v @ ''.yaml'') @ ''/'' @ template_key t'"
    by (rule tenant_path_key [OF assms(5)])
  have t: "t = t'" "key = registry_key_for path (template_key t') dir" using publish_template_steps_Inr [OF 1(9,8)] by auto
  have "private_owner key = Some (v @ ''.yaml'')" unfolding t(2) k by (rule private_key_owner [OF assms(5)])
  then show ?thesis using k t by (simp add: template_visible_def)
qed

text \<open>
  The catalogue hides another tenant's private component, but the lookup that runs code does not ask
  who is calling.
\<close>

theorem private_component_resolves_for_everyone:
  assumes "map_of (components reg) (''tenant/'' @ t @ ''/'' @ n @ ''@'' @ v) = Some c" "one_part t" "v \<noteq> []"
    and "\<not> is_admin q" "pr_tenant_id q \<noteq> t"
  shows "\<not> can_see_component (''tenant/'' @ t @ ''/'' @ n @ ''@'' @ v) c q es \<and>
    resolve_component reg (''tenant/'' @ t @ ''/'' @ n) (Some v) = Inr c"
proof
  show "\<not> can_see_component (''tenant/'' @ t @ ''/'' @ n @ ''@'' @ v) c q es"
    using private_key_owner [OF assms(2), of "n @ ''@'' @ v"] assms(4,5) by (simp add: can_see_component_def)
  show "resolve_component reg (''tenant/'' @ t @ ''/'' @ n) (Some v) = Inr c"
    using assms(1,3) by (simp add: resolve_component_def get_component_def truthy_def Let_def)
qed

definition raw_template :: "string \<Rightarrow> (string \<times> json) list" where
  "raw_template n = [(''metadata'', JObject [(''name'', JString n), (''version'', JString ''1.0'')])]"

definition demo_template_validator :: "(string \<times> json) list \<Rightarrow> exn + sandbox_template" where
  "demo_template_validator raw =
     (if raw = raw_template ''lab'' \<or> raw = raw_template ''tenant'' then Inr demo_template else Inl (ManifestValidationError ''schema''))"

definition template_db :: db where
  "template_db = empty_db\<lparr>
     d_publish_grants := [\<lparr>pg_id = ''g1'', pg_scope = ''tenant'', pg_scope_id = ''t1'', pg_category = ''template'', pg_allowed = True\<rparr>],
     d_entitlements := [\<lparr>en_id = ''e1'', en_scope = ''tenant'', en_scope_id = ''t1'', en_component_name = ''python'', en_version_range = ''*'',
       en_visible = True\<rparr>]\<rparr>"

lemma demo_refs:
  "check_published_refs owner (template_refs demo_template) p (demo_world template_db demo_registry) =
     (Inr (), demo_world template_db demo_registry)" if "p = publisher \<or> p = catalog_admin"
proof -
  have ref: "resolve_component_ref demo_registry ''python@1'' = Inr (language_component ''python'' ''1'')" by code_simp
  have "private_owner ''python'' = None" by code_simp
  moreover have "fst (py_rpartition CHR ''@'' ''python@1'') = ''python''" by code_simp
  ultimately have "ref_visible ''python@1'' publisher (load_entitlements_for publisher template_db) demo_registry"
    using ref
    by (simp add: ref_visible_def load_entitlements_for_def scope_ids_def publisher_def template_db_def is_entitled_def
        entitlement_matches_def version_in_range_def language_component_def)
  then show ?thesis
    using that ref unfolding check_published_refs_ok
    by (auto simp: demo_world_def template_refs_def demo_template_def catalog_admin_def is_admin_def)
qed

lemma demo_template_published:
  assumes "p = publisher \<or> p = catalog_admin" "n = ''lab'' \<or> n = ''tenant''"
  shows "\<exists>key w'. create_template demo_template_validator (\<lambda>_. []) [''templates''] (raw_template n) p (demo_world template_db demo_registry) =
    (Inr (key, demo_template), w')"
proof -
  have grant: "may_publish_template p (demo_world template_db demo_registry) = (Inr (), demo_world template_db demo_registry)"
    using assms(1) by (auto simp: may_publish_template_def can_publish_def em_simps demo_world_def template_db_def publisher_def
        scope_ids_def catalog_admin_def is_admin_def)
  have v: "demo_template_validator (raw_template n) = Inr demo_template"
    using assms(2) by (auto simp: demo_template_validator_def)
  let ?W = "demo_world template_db demo_registry"
  have none: "map_of (templates (w_registry ?W)) k = None" for k
    by (simp add: demo_world_def demo_registry_def)
  have written: "e_write_file (w_env ?W) tr path raw = Inr ()" for tr path raw
    by (simp add: demo_world_def demo_env_def)
  have fields: "metadata_field (raw_template n) ''name'' = Inr (Some (JString n))"
    "metadata_field (raw_template n) ''version'' = Inr (Some (JString ''1.0''))"
    by (simp_all add: metadata_field_def raw_template_def)
  show ?thesis
    by (simp add: create_template_def em_simps grant fields text_part_def demo_refs [OF assms(1)] v none written Let_def
        write_manifest_def add_template_def add_template_record_def split: prod.split)
qed

theorem published_template_is_confined_witness:
  "\<exists>key w'. create_template demo_template_validator (\<lambda>_. []) [''templates''] (raw_template ''lab'') publisher (demo_world template_db demo_registry) =
     (Inr (key, demo_template), w') \<and> key = ''tenant/t1/lab@1''"
proof -
  obtain key w' where run: "create_template demo_template_validator (\<lambda>_. []) [''templates''] (raw_template ''lab'') publisher
      (demo_world template_db demo_registry) = (Inr (key, demo_template), w')"
    using demo_template_published by blast
  have rel: "relative_field raw ''name'' \<and> metadata_field raw ''version'' \<in> range (\<lambda>s. Inr (Some (JString s))) \<and> relative_field raw ''version''"
    if "demo_template_validator raw = Inr d" for raw d
    using that by (auto simp: demo_template_validator_def relative_field_def metadata_field_def raw_template_def startswith_def split: if_splits)
  have "key = ''tenant/'' @ ''t1'' @ ''/'' @ template_key demo_template"
    using published_template_is_confined [OF run _ _ rel] by (simp add: publisher_def is_admin_def one_part_def)
  with run show ?thesis by (auto simp: template_key_def demo_template_def)
qed

theorem template_named_tenant_becomes_private_witness:
  "\<exists>key w'. create_template demo_template_validator (\<lambda>_. []) [''templates''] (raw_template ''tenant'') catalog_admin (demo_world template_db demo_registry) =
     (Inr (key, demo_template), w') \<and> key = ''tenant/1.0.yaml/lab@1''"
proof -
  obtain key w' where run: "create_template demo_template_validator (\<lambda>_. []) [''templates''] (raw_template ''tenant'') catalog_admin
      (demo_world template_db demo_registry) = (Inr (key, demo_template), w')"
    using demo_template_published by blast
  have "key = ''tenant/'' @ (''1.0'' @ ''.yaml'') @ ''/'' @ template_key demo_template"
    using template_named_tenant_becomes_private [OF run, of "''1.0''"]
    by (simp add: catalog_admin_def is_admin_def one_part_def metadata_field_def raw_template_def)
  with run show ?thesis by (auto simp: template_key_def demo_template_def)
qed

end
