(* ===== verification/Catalog_Routes.thy ===== *)
theory Catalog_Routes
  imports Catalog Builds Listing Workspaces
begin

section \<open>Catalogue, build and workspace routes\<close>

text \<open>
  \<open>app/api/v1/components.py\<close>, \<open>app/api/v1/templates.py\<close>, \<open>app/api/v1/builds.py\<close> and
  \<open>app/api/v1/workspaces.py\<close>. The JSON Schema that two responses carry along is a parameter.
\<close>

subsection \<open>Components\<close>

record component_summary =
  cu_key :: string
  cu_name :: string
  cu_version :: string
  cu_category :: string
  cu_displayName :: "string option"
  cu_description :: "string option"

definition summarize_component :: "string \<Rightarrow> component \<Rightarrow> component_summary" where
  "summarize_component key c =
     \<lparr>cu_key = key, cu_name = md_name (c_metadata c), cu_version = md_version (c_metadata c),
      cu_category = category_value (md_category (c_metadata c)), cu_displayName = md_displayName (c_metadata c),
      cu_description = md_description (c_metadata c)\<rparr>"

record component_versions_response =
  cv_name :: string
  cv_versions :: "component_summary list"
  cv_json_schema :: json

definition list_components_route :: "string option \<Rightarrow> principal \<Rightarrow> component_summary list prog" where
  "list_components_route cat p =
     bind_em (catalog_components p cat) (\<lambda>items. return_em (map (\<lambda>(key, c). summarize_component key c) items))"

definition get_component_versions_route :: "json \<Rightarrow> string \<Rightarrow> principal \<Rightarrow> component_versions_response prog" where
  "get_component_versions_route schema name p =
     bind_em (component_versions name p) (\<lambda>versions.
     return_em \<lparr>cv_name = name, cv_versions = map (\<lambda>(key, c). summarize_component key c) versions, cv_json_schema = schema\<rparr>)"

definition register_component_route ::
  "((string \<times> json) list \<Rightarrow> exn + component) \<Rightarrow> string list \<Rightarrow> (string \<times> json) list \<Rightarrow> principal \<Rightarrow> component_summary prog" where
  "register_component_route validate dir body p =
     bind_em (register_component validate dir body p) (\<lambda>(key, c). return_em (summarize_component key c))"

subsection \<open>Templates\<close>

record template_summary =
  tu_key :: string
  tu_name :: string
  tu_version :: string
  tu_displayName :: "string option"
  tu_description :: "string option"
  tu_base_ref :: string
  tu_component_refs :: "string list"

record template_detail = template_summary +
  tu_weight_class :: "string option"
  tu_cpu :: string
  tu_memory :: string
  tu_ephemeral_storage_mb :: "int option"
  tu_persistent_workspace :: bool
  tu_workspace_size_mb :: "int option"
  tu_ttl_idle :: string
  tu_ttl_max :: string

definition summarize_template :: "string \<Rightarrow> sandbox_template \<Rightarrow> template_summary" where
  "summarize_template key t =
     \<lparr>tu_key = key, tu_name = tm_name (t_metadata t), tu_version = tm_version (t_metadata t),
      tu_displayName = tm_displayName (t_metadata t), tu_description = tm_description (t_metadata t),
      tu_base_ref = ts_base (t_spec t), tu_component_refs = ts_components (t_spec t)\<rparr>"

definition detail_of_template :: "string \<Rightarrow> sandbox_template \<Rightarrow> template_detail" where
  "detail_of_template key t = template_summary.extend (summarize_template key t)
     (let spec = t_spec t; workspace = ts_workspace spec in
      \<lparr>tu_weight_class = map_option weight_class_value (ts_weightClass spec), tu_cpu = tr_cpu (ts_resources spec),
       tu_memory = tr_memory (ts_resources spec), tu_ephemeral_storage_mb = tr_ephemeralStorageMB (ts_resources spec),
       tu_persistent_workspace = (case workspace of None \<Rightarrow> False | Some ws \<Rightarrow> wk_persistent ws),
       tu_workspace_size_mb = (case workspace of None \<Rightarrow> None | Some ws \<Rightarrow> wk_sizeMB ws),
       tu_ttl_idle = ttl_idle (ts_ttl spec), tu_ttl_max = ttl_max (ts_ttl spec)\<rparr>)"

definition list_templates_route :: "string option \<Rightarrow> principal \<Rightarrow> template_summary list prog" where
  "list_templates_route name p =
     bind_em (catalog_templates p name) (\<lambda>items. return_em (map (\<lambda>(key, t). summarize_template key t) items))"

definition get_template_versions :: "string \<Rightarrow> principal \<Rightarrow> (string \<times> template_detail list) prog" where
  "get_template_versions name p =
     bind_em (catalog_templates p (Some name)) (\<lambda>items.
     if items = [] then raise_em (TemplateNotFoundError name)
     else return_em (name, map (\<lambda>(key, t). detail_of_template key t) items))"

definition create_template_route ::
  "((string \<times> json) list \<Rightarrow> exn + sandbox_template) \<Rightarrow> (json \<Rightarrow> string) \<Rightarrow> string list \<Rightarrow> (string \<times> json) list \<Rightarrow> principal \<Rightarrow>
   template_summary prog" where
  "create_template_route validate str_of dir body p =
     bind_em (create_template validate str_of dir body p) (\<lambda>(key, t). return_em (summarize_template key t))"

subsection \<open>Builds\<close>

fun build_status_value :: "build_status \<Rightarrow> string" where
  "build_status_value BuildPending = ''pending''"
| "build_status_value BuildRunning = ''running''"
| "build_status_value BuildSucceeded = ''succeeded''"
| "build_status_value BuildFailed = ''failed''"

record build_response =
  bo_id :: string
  bo_component_name :: string
  bo_component_version :: string
  bo_strategy :: string
  bo_status :: string
  bo_image_ref :: "string option"
  bo_artifact_ref :: "string option"
  bo_error :: "string option"
  bo_log_excerpt :: "string option"
  bo_created_at :: int
  bo_started_at :: "int option"
  bo_finished_at :: "int option"

definition summarize_build :: "build_row \<Rightarrow> build_response" where
  "summarize_build row =
     \<lparr>bo_id = bl_id row, bo_component_name = bl_component_name row, bo_component_version = bl_component_version row,
      bo_strategy = source_type_value (bl_strategy row), bo_status = build_status_value (bl_status row),
      bo_image_ref = bl_image_ref row, bo_artifact_ref = bl_artifact_ref row, bo_error = bl_error row,
      bo_log_excerpt = bl_log_excerpt row, bo_created_at = bl_created_at row, bo_started_at = bl_started_at row,
      bo_finished_at = bl_finished_at row\<rparr>"

definition resolve_build_target :: "registry \<Rightarrow> string \<Rightarrow> string option \<Rightarrow> exn + string" where
  "resolve_build_target reg name version =
     (case (case version of
              Some v \<Rightarrow> Inr (name @ ''@'' @ v)
            | None \<Rightarrow> map_sum id (\<lambda>c. name @ ''@'' @ md_version (c_metadata c)) (latest_component reg name)) of
        Inl e \<Rightarrow> Inl e
      | Inr key \<Rightarrow> if map_of (components reg) key = None then Inl (ComponentNotFoundError key) else Inr key)"

text \<open>The second component is the task FastAPI runs after the response.\<close>

definition trigger_build_route :: "string \<Rightarrow> string option \<Rightarrow> principal \<Rightarrow> (build_response \<times> unit prog option) prog" where
  "trigger_build_route name version p =
     bind_em (gets_em w_registry) (\<lambda>reg.
     bind_em (lift_em (resolve_build_target reg name version)) (\<lambda>key.
     bind_em (trigger_build key p) (\<lambda>(row, is_new).
     return_em (summarize_build row, if is_new then Some (run_build (bl_id row)) else None))))"

text \<open>A status that is none of the four selects nothing.\<close>

definition list_builds_route :: "page_params \<Rightarrow> string option \<Rightarrow> principal \<Rightarrow> build_response page prog" where
  "list_builds_route params st p =
     query_db (\<lambda>d. page_of params summarize_build
       (case st of
          None \<Rightarrow> list_builds p None d
        | Some s \<Rightarrow> (case find (\<lambda>x. build_status_value x = s) [BuildPending, BuildRunning, BuildSucceeded, BuildFailed] of
                       None \<Rightarrow> []
                     | Some x \<Rightarrow> list_builds p (Some x) d)))"

definition get_build_route :: "string \<Rightarrow> principal \<Rightarrow> build_response prog" where
  "get_build_route i p = bind_em (get_build i p) (\<lambda>row. return_em (summarize_build row))"

subsection \<open>The caller's workspace\<close>

fun workspace_state_value :: "workspace_state \<Rightarrow> string" where
  "workspace_state_value WsActive = ''active''"
| "workspace_state_value WsArchived = ''archived''"
| "workspace_state_value WsDeleted = ''deleted''"

record workspace_response =
  wo_id :: string
  wo_state :: string
  wo_quota_mb :: int
  wo_used_mb :: int
  wo_used_percent :: rat
  wo_last_access_at :: int
  wo_created_at :: int

text \<open>\<open>round(x, 2)\<close>: to the nearest hundredth, a tie to the even one.\<close>

definition round_half_even :: "rat \<Rightarrow> int" where
  "round_half_even x =
     (let n = \<lfloor>x\<rfloor>; d = x - of_int n
      in if d < 1 / 2 then n else if 1 / 2 < d then n + 1 else if even n then n else n + 1)"

definition round_hundredths :: "rat \<Rightarrow> rat" where
  "round_hundredths x = of_int (round_half_even (x * 100)) / 100"

definition summarize_workspace :: "workspace_row \<Rightarrow> workspace_response" where
  "summarize_workspace row =
     \<lparr>wo_id = ws_id row, wo_state = workspace_state_value (ws_state row), wo_quota_mb = ws_quota_mb row, wo_used_mb = ws_used_mb row,
      wo_used_percent =
        (if ws_quota_mb row \<noteq> 0 then round_hundredths (of_int (ws_used_mb row) / of_int (ws_quota_mb row) * 100) else 0),
      wo_last_access_at = ws_last_access_at row, wo_created_at = ws_created_at row\<rparr>"

record workspace_settings =
  wt_persistence_enabled :: bool
  wt_default_quota_mb :: int
  wt_idle_retention_days :: int
  wt_archive_grace_days :: int
  wt_max_lifetime_days :: int

record workspace_status_response =
  wx_enabled :: bool
  wx_workspace :: "workspace_response option"
  wx_retention :: "(string \<times> int) list"

definition my_workspace :: "workspace_settings \<Rightarrow> principal \<Rightarrow> workspace_status_response prog" where
  "my_workspace s p =
     (case pr_user_id p of
        None \<Rightarrow> raise_em (HTTPException 400 ''a persistent workspace is per-user; a service-account caller has none'')
      | Some u \<Rightarrow>
          bind_em (query_db (\<lambda>d. filter (\<lambda>r. ws_user_id r = u) (d_workspaces d))) (\<lambda>rows.
          bind_em (lift_em (scalar_one_or_none rows)) (\<lambda>row.
          return_em
            \<lparr>wx_enabled = wt_persistence_enabled s, wx_workspace = map_option summarize_workspace row,
             wx_retention =
               [(''default_quota_mb'', wt_default_quota_mb s), (''idle_retention_days'', wt_idle_retention_days s),
                (''archive_grace_days'', wt_archive_grace_days s), (''max_lifetime_days'', wt_max_lifetime_days s)]\<rparr>)))"

subsection \<open>Laws\<close>

lemma trigger_build_new:
  assumes "trigger_build key p w = (Inr (row, True), w')"
  shows "bl_status row = BuildPending \<and> row_get bl_id (bl_id row) (d_builds (w_committed w')) = Some row \<and>
    (is_admin p \<or> bl_tenant_id row = Some (pr_tenant_id p))"
proof -
  have "startswith key (''tenant/'' @ x) \<Longrightarrow> startswith key ''tenant/''" for x
    by (metis append_take_drop_id append_assoc startswith_append startswith_def)
  then show ?thesis using assms
    by (auto simp: trigger_build_def em_simps put_build_run Let_def row_get_put can_build_def tenant_id_for_def split: option.splits if_splits)
qed

text \<open>
  C23. An accepted build can be polled to its end. When the request that triggers a build starts one, the
  response says it is pending, the same caller can read it at once, and after the background task, whatever
  the strategy and the image registry did, reads that it succeeded, with an image or an artifact, or failed,
  with a message.
\<close>

theorem build_is_pollable:
  assumes "with_session (trigger_build_route name version p) w = (Inr (resp, Some task), w1)"
  shows "bo_status resp = ''pending'' \<and> with_session (get_build_route (bo_id resp) p) w1 = (Inr resp, w1) \<and>
    (\<exists>w2 d. task w1 = (Inr (), w2) \<and> with_session (get_build_route (bo_id resp) p) w2 = (Inr d, w2) \<and> bo_finished_at d \<noteq> None \<and>
       (bo_status d = ''succeeded'' \<and> (bo_image_ref d \<noteq> None \<or> bo_artifact_ref d \<noteq> None) \<or>
        bo_status d = ''failed'' \<and> bo_error d \<noteq> None))"
proof -
  obtain key row v where trig: "trigger_build key p (w\<lparr>w_db := w_committed w\<rparr>) = (Inr (row, True), v)"
    and resp: "resp = summarize_build row" and task: "task = run_build (bl_id row)" and w1: "w1 = v\<lparr>w_db := w_committed v\<rparr>"
    using assms by (auto simp: with_session_def trigger_build_route_def bind_em_run split: if_splits prod.splits sum.splits)
  note row = trigger_build_new [OF trig]
  have c1: "row_get bl_id (bl_id row) (d_builds (w_committed w1)) = Some row" using row w1 by simp
  from run_build_run [OF c1] obtain w2 row' where run: "task w1 = (Inr (), w2)"
    "row_get bl_id (bl_id row) (d_builds (w_committed w2)) = Some row'" "bl_tenant_id row' = bl_tenant_id row"
    "settled (registry_key_for_build row) (w_registry w1) row' (w_registry w2)" unfolding task by blast
  have clean: "w1\<lparr>w_db := w_committed w1\<rparr> = w1" "w2\<lparr>w_db := w_committed w2\<rparr> = w2"
  proof -
    show "w1\<lparr>w_db := w_committed w1\<rparr> = w1" by (simp add: w1)
    show "w2\<lparr>w_db := w_committed w2\<rparr> = w2" using run(1) unfolding task run_build_def with_session_def by (auto split: prod.splits)
  qed
  have poll: "with_session (get_build_route (bl_id row) p) u = (Inr (summarize_build r), u)"
    if "u\<lparr>w_db := w_committed u\<rparr> = u" "row_get bl_id (bl_id row) (d_builds (w_committed u)) = Some r" "bl_tenant_id r = bl_tenant_id row" for u r
  proof -
    have "w_db u = w_committed u" using arg_cong [OF that(1), of w_db] by simp
    then show ?thesis using that row by (auto simp: with_session_def get_build_route_def get_build_def em_simps)
  qed
  have "bo_finished_at (summarize_build row') \<noteq> None \<and>
       (bo_status (summarize_build row') = ''succeeded'' \<and> (bo_image_ref (summarize_build row') \<noteq> None \<or> bo_artifact_ref (summarize_build row') \<noteq> None) \<or>
        bo_status (summarize_build row') = ''failed'' \<and> bo_error (summarize_build row') \<noteq> None)"
    using run(4) by (auto simp: settled_def summarize_build_def)
  moreover have "bo_id resp = bl_id row" "bo_status resp = ''pending''" using resp row by (simp_all add: summarize_build_def)
  ultimately show ?thesis
    using poll [OF clean(1) c1 refl] poll [OF clean(2) run(2,3)] run(1) resp by auto
qed

theorem build_is_pollable_witness:
  "\<exists>resp task w1 w2 d. with_session (trigger_build_route ''jq'' (Some ''1'') builder) (demo_world empty_db built_registry) = (Inr (resp, Some task), w1) \<and>
     task w1 = (Inr (), w2) \<and> with_session (get_build_route (bo_id resp) builder) w2 = (Inr d, w2)"
proof -
  let ?w = "demo_world empty_db built_registry"
  have "\<exists>resp task w1. with_session (trigger_build_route ''jq'' (Some ''1'') builder) ?w = (Inr (resp, Some task), w1)"
    by (simp add: with_session_def trigger_build_route_def resolve_build_target_def trigger_build_def em_simps demo_world_def
        built_registry_def builder_def can_build_def is_admin_def empty_db_def put_build_run Let_def)
  then obtain resp task w1 where run: "with_session (trigger_build_route ''jq'' (Some ''1'') builder) ?w = (Inr (resp, Some task), w1)" by blast
  from build_is_pollable [OF run] run show ?thesis by blast
qed

text \<open>The meter of a workspace is between 0 and 100 when the measured size is within the quota.\<close>

lemma round_half_even_bounds: "x - 1 / 2 \<le> of_int (round_half_even x) \<and> of_int (round_half_even x) \<le> x + 1 / 2"
proof -
  have f: "of_int \<lfloor>x\<rfloor> \<le> x" "x < of_int \<lfloor>x\<rfloor> + 1" using floor_correct [of x] by simp_all
  consider "round_half_even x = \<lfloor>x\<rfloor>" "x - of_int \<lfloor>x\<rfloor> \<le> 1 / 2" | "round_half_even x = \<lfloor>x\<rfloor> + 1" "1 / 2 \<le> x - of_int \<lfloor>x\<rfloor>"
  proof (cases "x - of_int \<lfloor>x\<rfloor>" "1 / 2 :: rat" rule: linorder_cases)
    case equal then show ?thesis using that
      by (cases "even \<lfloor>x\<rfloor>") (simp_all add: round_half_even_def Let_def)
  qed (use that in \<open>simp_all add: round_half_even_def Let_def\<close>)
  then show ?thesis
  proof cases
    case 1 with f show ?thesis by linarith
  next
    case 2 then have "of_int (round_half_even x) = of_int \<lfloor>x\<rfloor> + (1 :: rat)" by simp
    with 2 f show ?thesis by linarith
  qed
qed

theorem used_percent_within:
  assumes "0 \<le> ws_used_mb row" "ws_used_mb row \<le> ws_quota_mb row"
  shows "0 \<le> wo_used_percent (summarize_workspace row) \<and> wo_used_percent (summarize_workspace row) \<le> 100"
proof (cases "ws_quota_mb row = 0")
  case False
  let ?x = "of_int (ws_used_mb row) / of_int (ws_quota_mb row) * 100 * 100 :: rat"
  have x: "0 \<le> ?x" "?x \<le> 10000" using assms False by (simp_all add: divide_le_eq)
  from round_half_even_bounds [of ?x] x have "- 1 < (of_int (round_half_even ?x) :: rat)" "(of_int (round_half_even ?x) :: rat) < 10001" by linarith+
  then have "0 \<le> round_half_even ?x" "round_half_even ?x \<le> 10000" by linarith+
  then have "(0 :: rat) \<le> of_int (round_half_even ?x)" "(of_int (round_half_even ?x) :: rat) \<le> 10000" by linarith+
  then show ?thesis using False by (simp add: summarize_workspace_def round_hundredths_def)
qed (simp add: summarize_workspace_def)

end
