(* ===== verification/Utf8.thy ===== *)
theory Utf8
  imports PyStrings
begin

section \<open>Decoding process output\<close>

text \<open>
  A Python \<open>str\<close> of the backends stands for its UTF-8 encoding, so \<open>str.encode()\<close> is the identity and
  \<open>bytes.decode(errors="replace")\<close> rewrites bytes: every maximal ill-formed part becomes the encoding of
  the replacement character U+FFFD, as CPython's decoder does it.
\<close>

definition replacement :: string where
  "replacement = [CHR 0xEF, CHR 0xBF, CHR 0xBD]"

text \<open>The ranges the bytes after a leading byte must lie in, \<open>None\<close> for a byte that cannot lead.\<close>

definition trail :: "nat \<Rightarrow> (nat \<times> nat) list option" where
  "trail a =
     (if a < 0x80 then Some []
      else if a < 0xC2 then None
      else if a < 0xE0 then Some [(0x80, 0xBF)]
      else if a = 0xE0 then Some [(0xA0, 0xBF), (0x80, 0xBF)]
      else if a = 0xED then Some [(0x80, 0x9F), (0x80, 0xBF)]
      else if a < 0xF0 then Some [(0x80, 0xBF), (0x80, 0xBF)]
      else if a = 0xF0 then Some [(0x90, 0xBF), (0x80, 0xBF), (0x80, 0xBF)]
      else if a < 0xF4 then Some [(0x80, 0xBF), (0x80, 0xBF), (0x80, 0xBF)]
      else if a = 0xF4 then Some [(0x80, 0x8F), (0x80, 0xBF), (0x80, 0xBF)]
      else None)"

fun matched :: "(nat \<times> nat) list \<Rightarrow> string \<Rightarrow> nat" where
  "matched ((lo, hi) # rs) (c # cs) = (if lo \<le> of_char c \<and> of_char c \<le> hi then Suc (matched rs cs) else 0)"
| "matched _ _ = 0"

fun decode_replace :: "string \<Rightarrow> string" where
  "decode_replace [] = []"
| "decode_replace (c # cs) =
     (case trail (of_char c) of
        None \<Rightarrow> replacement @ decode_replace cs
      | Some rs \<Rightarrow>
          (if matched rs cs = length rs
           then c # take (length rs) cs @ decode_replace (drop (length rs) cs)
           else replacement @ decode_replace (drop (matched rs cs) cs)))"

declare decode_replace.simps(2) [simp del]

lemma matched_length: "matched rs cs \<le> length rs" "matched rs cs \<le> length cs"
  by (induction rs cs rule: matched.induct) auto

lemma matched_prefix:
  "matched rs cs = length rs \<Longrightarrow> matched rs (take (length rs) cs @ ds) = length rs"
  by (induction rs cs rule: matched.induct) (auto split: if_splits)

lemma decode_wellformed_part:
  assumes "trail (of_char c) = Some rs" "matched rs cs = length rs"
  shows "decode_replace (c # take (length rs) cs @ ds) = c # take (length rs) cs @ decode_replace ds"
proof -
  have "length (take (length rs) cs) = length rs" using assms(2) matched_length(2) [of rs cs] by simp
  then have "take (length rs) (take (length rs) cs @ ds) = take (length rs) cs"
    "drop (length rs) (take (length rs) cs @ ds) = ds" by simp_all
  with assms matched_prefix [OF assms(2)] show ?thesis by (simp add: decode_replace.simps(2))
qed

lemma decode_replacement [simp]: "decode_replace (replacement @ ds) = replacement @ decode_replace ds"
  by (simp add: replacement_def decode_replace.simps(2) trail_def)

lemma decode_ascii: "list_all (\<lambda>c. of_char c < (0x80 :: nat)) s \<Longrightarrow> decode_replace s = s"
  by (induction s) (simp_all add: decode_replace.simps(2) trail_def)

lemma decode_replace_idem [simp]: "decode_replace (decode_replace s) = decode_replace s"
proof (induction s rule: decode_replace.induct)
  case (2 c cs)
  show ?case
  proof (cases "trail (of_char c)")
    case None with "2.IH"(1) show ?thesis by (simp add: decode_replace.simps(2) [of c cs])
  next
    case (Some rs)
    show ?thesis
    proof (cases "matched rs cs = length rs")
      case True
      with "2.IH"(2) [OF Some] show ?thesis
        using Some by (simp add: decode_replace.simps(2) [of c cs] decode_wellformed_part [OF Some True])
    next
      case False
      with "2.IH"(3) [OF Some] Some show ?thesis by (simp add: decode_replace.simps(2) [of c cs])
    qed
  qed
qed simp

end
