(* ===== verification/Docker_Engine.thy ===== *)
theory Docker_Engine
  imports Backend Utf8 "HOL-Library.AList"
begin

section \<open>The container engine as the Docker backend sees it\<close>

text \<open>
  \<open>app/provisioners/docker.py\<close> talks to a daemon through aiodocker. The daemon is the parameter
  \<open>engine\<close>: what it answers to a call may depend on everything that happened before, and the history
  \<open>dk_events\<close> keeps every call with its configuration and its answer, so a theorem can say which
  containers were created, how, and what became of them.

  Time is \<open>dk_clock\<close>, in microseconds: an event takes as long as the engine says, never less than
  nothing, and a sleep at least as long as it was asked for. That is what \<open>time.monotonic\<close> and
  \<open>asyncio.sleep\<close> promise, and it is all that the termination of the polling loops rests on.
\<close>

subsection \<open>Configurations and events\<close>

text \<open>An absent key of the request body is \<open>None\<close>, the empty list or \<open>False\<close>.\<close>

record mount =
  mt_source :: string
  mt_target :: string
  mt_read_only :: bool

record host_config =
  hc_nano_cpus :: "int option"
  hc_memory :: "int option"
  hc_memory_swap :: "int option"
  hc_pids_limit :: "int option"
  hc_readonly_rootfs :: bool
  hc_tmpfs :: "(string \<times> string) list"
  hc_mounts :: "mount list"
  hc_cap_drop :: "string list"
  hc_cap_add :: "string list"
  hc_security_opt :: "string list"
  hc_network_mode :: string

record container_config =
  cc_image :: string
  cc_cmd :: "string list"
  cc_working_dir :: string
  cc_env :: "string list"
  cc_labels :: "(string \<times> string) list"
  cc_host :: host_config

record exec_config =
  xc_cmd :: "string list"
  xc_stdin :: bool
  xc_tty :: bool
  xc_user :: string
  xc_workdir :: "string option"

record container_info =
  ci_id :: string
  ci_running :: bool
  ci_status :: "string option"
  ci_labels :: "(string \<times> string) list"
  ci_created :: string

text \<open>
  What comes back on the stream of an exec: chunks with the channel they belong to. \<open>Chunk at ch data\<close>
  arrives \<open>at\<close> microseconds after the start; the stream ends, breaks, or stays silent for ever.
\<close>

datatype chunk = Chunk (chunk_at: nat) (chunk_channel: nat) (chunk_data: string)

datatype stream_end = Eof nat | Broken nat exn | Silent

datatype engine_event =
    VolumeCreated string "exn + unit"
  | VolumeDeleted string "exn + unit"
  | ContainerRan string container_config "exn + string"
  | ContainerShown string "exn + container_info"
  | ContainerStopped string "exn + unit"
  | ContainerDeleted string "exn + unit"
  | ContainersListed string "exn + string list"
  | ExecCreated string exec_config "exn + string"
  | ExecDrained string "exn + string list"
  | ExecStreamed string "chunk list \<times> stream_end"
  | ExecInspected string "exn + int option"
  | ExecStarted string "exn + unit"
  | ExecWritten string string "exn + unit"
  | ExecResized string int int "exn + unit"
  | ExecRead string "exn + string option"
  | Slept int

subsection \<open>The engine and the provisioner's state\<close>

text \<open>
  A drained stream (\<open>en_drain\<close>) is one that is read to its end with no time limit; it ends, or raises.
  A stream that never ends blocks the coroutine for ever and has no value here.
\<close>

record engine =
  en_delay :: "engine_event list \<Rightarrow> nat"
  en_volume_create :: "engine_event list \<Rightarrow> string \<Rightarrow> exn + unit"
  en_volume_delete :: "engine_event list \<Rightarrow> string \<Rightarrow> exn + unit"
  en_run :: "engine_event list \<Rightarrow> string \<Rightarrow> container_config \<Rightarrow> exn + string"
  en_show :: "engine_event list \<Rightarrow> string \<Rightarrow> exn + container_info"
  en_stop :: "engine_event list \<Rightarrow> string \<Rightarrow> exn + unit"
  en_delete :: "engine_event list \<Rightarrow> string \<Rightarrow> exn + unit"
  en_list :: "engine_event list \<Rightarrow> string \<Rightarrow> exn + string list"
  en_exec :: "engine_event list \<Rightarrow> string \<Rightarrow> exec_config \<Rightarrow> exn + string"
  en_drain :: "engine_event list \<Rightarrow> string \<Rightarrow> exn + string list"
  en_stream :: "engine_event list \<Rightarrow> string \<Rightarrow> chunk list \<times> stream_end"
  en_inspect :: "engine_event list \<Rightarrow> string \<Rightarrow> exn + int option"
  en_start :: "engine_event list \<Rightarrow> string \<Rightarrow> exn + unit"
  en_write :: "engine_event list \<Rightarrow> string \<Rightarrow> string \<Rightarrow> exn + unit"
  en_resize :: "engine_event list \<Rightarrow> string \<Rightarrow> int \<Rightarrow> int \<Rightarrow> exn + unit"
  en_read :: "engine_event list \<Rightarrow> string \<Rightarrow> exn + string option"
  en_now :: "engine_event list \<Rightarrow> int"
  en_uuid :: "nat \<Rightarrow> string"

record docker =
  dk_engine :: engine
  dk_security_opts :: "string list"
  dk_events :: "engine_event list"
  dk_clock :: int
  dk_uuids :: nat

type_synonym 'a dk = "(docker, 'a) em"

subsection \<open>Calls\<close>

definition engine_call :: "(engine \<Rightarrow> engine_event list \<Rightarrow> exn + 'a) \<Rightarrow> (exn + 'a \<Rightarrow> engine_event) \<Rightarrow> 'a dk" where
  "engine_call ask event = (\<lambda>d.
     let r = ask (dk_engine d) (dk_events d) in
     (r, d\<lparr>dk_events := dk_events d @ [event r], dk_clock := dk_clock d + int (en_delay (dk_engine d) (dk_events d))\<rparr>))"

definition engine_sleep :: "nat \<Rightarrow> unit dk" where
  "engine_sleep us = (\<lambda>d.
     (Inr (), d\<lparr>dk_events := dk_events d @ [Slept (int us)],
       dk_clock := dk_clock d + int us + int (en_delay (dk_engine d) (dk_events d))\<rparr>))"

definition engine_uuid :: "string dk" where
  "engine_uuid = (\<lambda>d. (Inr (en_uuid (dk_engine d) (dk_uuids d)), d\<lparr>dk_uuids := Suc (dk_uuids d)\<rparr>))"

definition engine_now :: "int dk" where
  "engine_now = gets_em (\<lambda>d. en_now (dk_engine d) (dk_events d))"

definition volumes_create :: "string \<Rightarrow> unit dk" where
  "volumes_create v = engine_call (\<lambda>en tr. en_volume_create en tr v) (VolumeCreated v)"

definition volume_delete :: "string \<Rightarrow> unit dk" where
  "volume_delete v = engine_call (\<lambda>en tr. en_volume_delete en tr v) (VolumeDeleted v)"

definition containers_run :: "string \<Rightarrow> container_config \<Rightarrow> string dk" where
  "containers_run name c = engine_call (\<lambda>en tr. en_run en tr name c) (ContainerRan name c)"

definition container_show :: "string \<Rightarrow> container_info dk" where
  "container_show i = engine_call (\<lambda>en tr. en_show en tr i) (ContainerShown i)"

definition container_stop :: "string \<Rightarrow> unit dk" where
  "container_stop i = engine_call (\<lambda>en tr. en_stop en tr i) (ContainerStopped i)"

definition container_delete :: "string \<Rightarrow> unit dk" where
  "container_delete i = engine_call (\<lambda>en tr. en_delete en tr i) (ContainerDeleted i)"

definition containers_list :: "string \<Rightarrow> string list dk" where
  "containers_list label = engine_call (\<lambda>en tr. en_list en tr label) (ContainersListed label)"

definition container_exec :: "string \<Rightarrow> exec_config \<Rightarrow> string dk" where
  "container_exec i x = engine_call (\<lambda>en tr. en_exec en tr i x) (ExecCreated i x)"

definition exec_drain :: "string \<Rightarrow> string list dk" where
  "exec_drain x = engine_call (\<lambda>en tr. en_drain en tr x) (ExecDrained x)"

definition exec_inspect :: "string \<Rightarrow> int option dk" where
  "exec_inspect x = engine_call (\<lambda>en tr. en_inspect en tr x) (ExecInspected x)"

definition exec_start :: "string \<Rightarrow> unit dk" where
  "exec_start x = engine_call (\<lambda>en tr. en_start en tr x) (ExecStarted x)"

definition exec_write :: "string \<Rightarrow> string \<Rightarrow> unit dk" where
  "exec_write x data = engine_call (\<lambda>en tr. en_write en tr x data) (ExecWritten x data)"

definition exec_resize :: "string \<Rightarrow> int \<Rightarrow> int \<Rightarrow> unit dk" where
  "exec_resize x h w = engine_call (\<lambda>en tr. en_resize en tr x h w) (ExecResized x h w)"

definition exec_read :: "string \<Rightarrow> string option dk" where
  "exec_read x = engine_call (\<lambda>en tr. en_read en tr x) (ExecRead x)"

text \<open>The whole stream at once, with the instants its chunks arrive at; the reader decides how far it gets.\<close>

definition exec_stream :: "string \<Rightarrow> (chunk list \<times> stream_end) dk" where
  "exec_stream x =
     engine_call (\<lambda>en tr. Inr (en_stream en tr x)) (\<lambda>r. ExecStreamed x (case r of Inr s \<Rightarrow> s | Inl _ \<Rightarrow> ([], Silent)))"

text \<open>The reader waits for a chunk, for the end of the stream or for the end of its patience.\<close>

definition engine_wait :: "nat \<Rightarrow> unit dk" where
  "engine_wait us = modify_em (\<lambda>d. d\<lparr>dk_clock := dk_clock d + int us\<rparr>)"

definition engine_clock :: "int dk" where
  "engine_clock = gets_em dk_clock"

definition map_em :: "('a \<Rightarrow> 'b) \<Rightarrow> ('s, 'a) em \<Rightarrow> ('s, 'b) em" where
  "map_em f m = bind_em m (\<lambda>x. return_em (f x))"

lemmas engine_calls = volumes_create_def volume_delete_def containers_run_def container_show_def
  container_stop_def container_delete_def containers_list_def container_exec_def exec_drain_def
  exec_inspect_def exec_start_def exec_write_def exec_resize_def exec_read_def exec_stream_def

lemma engine_call_run [em_simps]:
  "engine_call ask event d =
     (ask (dk_engine d) (dk_events d), d\<lparr>dk_events := dk_events d @ [event (ask (dk_engine d) (dk_events d))],
        dk_clock := dk_clock d + int (en_delay (dk_engine d) (dk_events d))\<rparr>)"
  by (simp add: engine_call_def Let_def)

lemma engine_sleep_run [simp, em_simps]:
  "engine_sleep us d = (Inr (), d\<lparr>dk_events := dk_events d @ [Slept (int us)],
     dk_clock := dk_clock d + int us + int (en_delay (dk_engine d) (dk_events d))\<rparr>)"
  by (simp add: engine_sleep_def)

lemma engine_uuid_run [simp, em_simps]:
  "engine_uuid d = (Inr (en_uuid (dk_engine d) (dk_uuids d)), d\<lparr>dk_uuids := Suc (dk_uuids d)\<rparr>)"
  by (simp add: engine_uuid_def)

lemma engine_now_run [simp, em_simps]: "engine_now d = (Inr (en_now (dk_engine d) (dk_events d)), d)"
  by (simp add: engine_now_def)

subsection \<open>What every computation does to the history and the clock\<close>

text \<open>
  \<open>extends P\<close>: the engine and the security options stay, the clock does not run backwards, and the
  history grows by events that all satisfy \<open>P\<close>. It is reflexive and transitive, so the rules of
  \<open>frame_relation\<close> carry it through every operation of the backend.
\<close>

definition extends :: "(engine_event \<Rightarrow> bool) \<Rightarrow> docker \<Rightarrow> docker \<Rightarrow> bool" where
  "extends P d d' \<longleftrightarrow> dk_engine d' = dk_engine d \<and> dk_security_opts d' = dk_security_opts d \<and> dk_clock d \<le> dk_clock d' \<and>
     (\<exists>evs. dk_events d' = dk_events d @ evs \<and> list_all P evs)"

interpretation ext: frame_relation "extends P" for P :: "engine_event \<Rightarrow> bool"
  by unfold_locales (auto simp: extends_def)

declare ext.all_moves [moves_intro]

definition happened :: "docker \<Rightarrow> docker \<Rightarrow> engine_event list" where
  "happened d d' = drop (length (dk_events d)) (dk_events d')"

lemma happened_append [simp]: "dk_events d' = dk_events d @ evs \<Longrightarrow> happened d d' = evs"
  by (simp add: happened_def)

lemma happened_self [simp]: "happened d d = []"
  by (simp add: happened_def)

lemma extends_happened: "extends P d d' \<Longrightarrow> list_all P (happened d d')"
  by (auto simp: extends_def)

lemma extends_events: "extends P d d' \<Longrightarrow> dk_events d' = dk_events d @ happened d d'"
  by (auto simp: extends_def)

lemma extends_clock: "extends P d d' \<Longrightarrow> dk_clock d \<le> dk_clock d'"
  by (simp add: extends_def)

lemma extends_security: "extends P d d' \<Longrightarrow> dk_security_opts d' = dk_security_opts d"
  by (simp add: extends_def)

lemma happened_trans:
  "extends P d e \<Longrightarrow> extends Q e f \<Longrightarrow> happened d f = happened d e @ happened e f"
  by (auto simp: extends_def happened_def)

lemma extends_mono: "extends P d d' \<Longrightarrow> (\<And>e. P e \<Longrightarrow> Q e) \<Longrightarrow> extends Q d d'"
  by (auto simp: extends_def list_all_iff)

lemma moves_extends_mono: "moves (extends P) m \<Longrightarrow> (\<And>e. P e \<Longrightarrow> Q e) \<Longrightarrow> moves (extends Q) m"
  by (auto simp: moves_def intro: extends_mono)

lemma engine_call_extends: "(\<And>r. P (event r)) \<Longrightarrow> moves (extends P) (engine_call ask event)"
  by (simp add: moves_def extends_def engine_call_run)

lemma engine_sleep_extends: "P (Slept (int us)) \<Longrightarrow> moves (extends P) (engine_sleep us)"
  by (simp add: moves_def extends_def)

lemma engine_uuid_extends [moves_intro]: "moves (extends P) engine_uuid"
  by (simp add: moves_def extends_def)

lemma engine_now_extends [moves_intro]: "moves (extends P) engine_now"
  by (simp add: moves_def extends_def)

lemma engine_wait_extends [moves_intro]: "moves (extends P) (engine_wait us)" "moves (extends P) engine_clock"
  by (simp_all add: moves_def extends_def engine_wait_def engine_clock_def)

lemma calls_extend [moves_intro]:
  "(\<And>r. P (VolumeCreated v r)) \<Longrightarrow> moves (extends P) (volumes_create v)"
  "(\<And>r. P (VolumeDeleted v r)) \<Longrightarrow> moves (extends P) (volume_delete v)"
  "(\<And>r. P (ContainerRan n c r)) \<Longrightarrow> moves (extends P) (containers_run n c)"
  "(\<And>r. P (ContainerShown i r)) \<Longrightarrow> moves (extends P) (container_show i)"
  "(\<And>r. P (ContainerStopped i r)) \<Longrightarrow> moves (extends P) (container_stop i)"
  "(\<And>r. P (ContainerDeleted i r)) \<Longrightarrow> moves (extends P) (container_delete i)"
  "(\<And>r. P (ContainersListed l r)) \<Longrightarrow> moves (extends P) (containers_list l)"
  "(\<And>r. P (ExecCreated i x r)) \<Longrightarrow> moves (extends P) (container_exec i x)"
  "(\<And>r. P (ExecDrained i r)) \<Longrightarrow> moves (extends P) (exec_drain i)"
  "(\<And>r. P (ExecInspected i r)) \<Longrightarrow> moves (extends P) (exec_inspect i)"
  "(\<And>r. P (ExecStarted i r)) \<Longrightarrow> moves (extends P) (exec_start i)"
  "(\<And>r. P (ExecWritten i s r)) \<Longrightarrow> moves (extends P) (exec_write i s)"
  "(\<And>r. P (ExecResized i h w r)) \<Longrightarrow> moves (extends P) (exec_resize i h w)"
  "(\<And>r. P (ExecRead i r)) \<Longrightarrow> moves (extends P) (exec_read i)"
  "(\<And>r. P (ExecStreamed i r)) \<Longrightarrow> moves (extends P) (exec_stream i)"
  by (simp_all add: engine_calls engine_call_extends)

end
