(* ===== verification/Docker.thy ===== *)
theory Docker
  imports Docker_Engine
begin

section \<open>The Docker backend\<close>

text \<open>
  \<open>app/provisioners/docker.py\<close>: creating, watching, using and destroying the containers of a sandbox.
  \<open>json.loads\<close> is an argument of the operation that reads the variable dump.
\<close>

subsection \<open>Constants and helpers\<close>

definition container_name_prefix :: string where "container_name_prefix = ''kubesandbox-''"
definition sandbox_uid :: int where "sandbox_uid = 10001"
definition sandbox_exec_user :: string where "sandbox_exec_user = int_str sandbox_uid @ '':'' @ int_str sandbox_uid"

definition interactive_shell_cmd :: "string list" where
  "interactive_shell_cmd = [''dtach'', ''-A'', ''/tmp/.kubesandbox-attach.sock'', ''-e'', ''none'', ''-z'', ''/bin/bash'']"

definition sidecar_health_timeout_us :: int where "sidecar_health_timeout_us = 90 * us_per_second"
definition sidecar_health_poll_us :: nat where "sidecar_health_poll_us = 500000"
definition running_poll_us :: nat where "running_poll_us = 50000"
definition variable_dump_path :: string where "variable_dump_path = ''/tmp/.kubesandbox_vars.json''"
definition sandbox_id_label :: string where "sandbox_id_label = ''io.kubesandbox.sandbox-id''"
definition sidecar_label :: string where "sidecar_label = ''io.kubesandbox.sidecar''"
definition default_tmpfs_size_mb :: int where "default_tmpfs_size_mb = 1024"

definition security_opts :: "string \<Rightarrow> string option \<Rightarrow> string list" where
  "security_opts seccomp apparmor =
     [''no-new-privileges'', ''seccomp='' @ seccomp] @
     (case apparmor of None \<Rightarrow> [] | Some a \<Rightarrow> if a \<noteq> [] then [''apparmor='' @ a] else [])"

definition tmpfs_size_mb :: "sandbox_spec \<Rightarrow> int" where
  "tmpfs_size_mb spec =
     (case res_ephemeral_storage_mb (sp_resources spec) of
        None \<Rightarrow> default_tmpfs_size_mb
      | Some n \<Rightarrow> if n \<noteq> 0 then n else default_tmpfs_size_mb)"

definition tmpfs_options :: "int \<Rightarrow> string" where
  "tmpfs_options size_mb =
     ''rw,exec,nosuid,nodev,size='' @ int_str size_mb @ ''m,'' @
     ''uid='' @ int_str sandbox_uid @ '',gid='' @ int_str sandbox_uid @ '',mode=0755''"

definition docker_provisioner :: "engine \<Rightarrow> string \<Rightarrow> string option \<Rightarrow> docker" where
  "docker_provisioner en seccomp apparmor =
     \<lparr>dk_engine = en, dk_security_opts = security_opts seccomp apparmor, dk_events = [], dk_clock = 0, dk_uuids = 0\<rparr>"

definition workspace_volume_name :: "string \<Rightarrow> string" where
  "workspace_volume_name workspace_id = ''kubesandbox-ws-'' @ workspace_id"

definition env_lines :: "(string \<times> string) list \<Rightarrow> string list" where
  "env_lines env = map (\<lambda>(k, v). k @ ''='' @ v) env"

text \<open>\<open>info.get("ExitCode")\<close> in a condition, and \<open>info.get("ExitCode") or 0\<close>.\<close>

fun failed_exit :: "int option \<Rightarrow> bool" where
  "failed_exit None = False"
| "failed_exit (Some n) = (n \<noteq> 0)"

fun exit_or_zero :: "int option \<Rightarrow> int" where
  "exit_or_zero None = 0"
| "exit_or_zero (Some n) = n"

definition force_remove :: "string \<Rightarrow> unit dk" where
  "force_remove native_ref = catch_em (container_delete native_ref) is_docker_error (\<lambda>_. return_em ())"

subsection \<open>Reading an exec to its end\<close>

definition exec_capture :: "string \<Rightarrow> string list \<Rightarrow> string \<Rightarrow> (int \<times> string) dk" where
  "exec_capture container cmd user =
     bind_em (container_exec container \<lparr>xc_cmd = cmd, xc_stdin = False, xc_tty = False, xc_user = user, xc_workdir = None\<rparr>) (\<lambda>x.
     bind_em (exec_drain x) (\<lambda>output.
     bind_em (exec_inspect x) (\<lambda>info.
     return_em (exit_or_zero info, concat output))))"

definition fix_workspace_ownership :: "string \<Rightarrow> string \<Rightarrow> unit dk" where
  "fix_workspace_ownership container workdir =
     bind_em (container_exec container \<lparr>xc_cmd = [''chown'', sandbox_exec_user, workdir], xc_stdin = False, xc_tty = False,
       xc_user = ''0:0'', xc_workdir = None\<rparr>) (\<lambda>x.
     bind_em (exec_drain x) (\<lambda>_.
     bind_em (exec_inspect x) (\<lambda>info.
     when_em (failed_exit info) (raise_em (ProvisionerError workdir)))))"

subsection \<open>The polling loops\<close>

text \<open>
  The loop behind \<open>_wait_container_running\<close>, once the deadline is fixed. The clock passes the deadline
  after finitely many sleeps, which is why it ends.
\<close>

lemma container_show_clock: "container_show i d = (r, d') \<Longrightarrow> dk_clock d \<le> dk_clock d'"
  by (auto simp: container_show_def engine_call_run)

function wait_loop :: "string \<Rightarrow> int \<Rightarrow> docker \<Rightarrow> (exn + unit) \<times> docker" where
  "wait_loop container deadline d =
     (case container_show container d of
        (Inl e, d1) \<Rightarrow> (Inl e, d1)
      | (Inr info, d1) \<Rightarrow>
          if ci_running info then (Inr (), d1)
          else if deadline \<le> dk_clock d1 then (Inl (ProvisionerError container), d1)
          else wait_loop container deadline (snd (engine_sleep running_poll_us d1)))"
  by pat_completeness auto
termination
  by (relation "measure (\<lambda>(container, deadline, d). nat (deadline - dk_clock d))")
    (auto simp: running_poll_us_def dest!: container_show_clock [OF sym])

definition wait_container_running :: "string \<Rightarrow> int \<Rightarrow> unit dk" where
  "wait_container_running container timeout_us d = wait_loop container (dk_clock d + timeout_us) d"

definition running_timeout_us :: int where "running_timeout_us = 10 * us_per_second"

lemma exec_capture_extends: 
  "(\<And>x r. P (ExecCreated i x r)) \<Longrightarrow> (\<And>x r. P (ExecDrained x r)) \<Longrightarrow> (\<And>x r. P (ExecInspected x r)) \<Longrightarrow>
   moves (extends P) (exec_capture i cmd user)"
  unfolding exec_capture_def by (intro moves_intro)

lemma exec_capture_clock: "exec_capture i cmd user d = (r, d') \<Longrightarrow> dk_clock d \<le> dk_clock d'"
  using exec_capture_extends [of "\<lambda>_. True" i cmd user] by (auto dest: movesD' extends_clock)

function health_loop :: "string \<Rightarrow> string \<Rightarrow> string list \<Rightarrow> int \<Rightarrow> docker \<Rightarrow> (exn + unit) \<times> docker" where
  "health_loop container nm check deadline d =
     (if dk_clock d < deadline
      then (case exec_capture container check [] d of
              (Inl e, d1) \<Rightarrow>
                if is_docker_error e then health_loop container nm check deadline (snd (engine_sleep sidecar_health_poll_us d1))
                else (Inl e, d1)
            | (Inr (exit_code, output), d1) \<Rightarrow>
                if exit_code = 0 then (Inr (), d1)
                else health_loop container nm check deadline (snd (engine_sleep sidecar_health_poll_us d1)))
      else (Inl (ProvisionerError nm), d))"
  by pat_completeness auto
termination
  by (relation "measure (\<lambda>(container, nm, check, deadline, d). nat (deadline - dk_clock d))")
    (auto simp: sidecar_health_poll_us_def dest!: exec_capture_clock [OF sym])

declare wait_loop.simps [simp del] health_loop.simps [simp del]

definition wait_sidecar_healthy :: "string \<Rightarrow> string \<Rightarrow> string list \<Rightarrow> unit dk" where
  "wait_sidecar_healthy container nm check d =
     health_loop container nm check (dk_clock d + sidecar_health_timeout_us) d"

subsection \<open>Lifecycle\<close>

text \<open>The request body of a sandbox's main container; the quantities are parsed first, which may raise.\<close>

definition main_host_config :: "string list \<Rightarrow> sandbox_spec \<Rightarrow> int \<Rightarrow> int \<Rightarrow> host_config" where
  "main_host_config opts spec nanos mem =
     (let persistent = (sp_workspace_id spec \<noteq> None);
          tmpfs_paths = filter (\<lambda>p. \<not> (persistent \<and> p = sp_workdir spec)) (sp_writable_paths spec)
      in \<lparr>hc_nano_cpus = Some nanos, hc_memory = Some mem, hc_memory_swap = Some mem,
          hc_pids_limit = Some (sp_max_processes spec), hc_readonly_rootfs = sp_read_only_root_filesystem spec,
          hc_tmpfs = map (\<lambda>p. (p, tmpfs_options (tmpfs_size_mb spec))) tmpfs_paths,
          hc_mounts = (case sp_workspace_id spec of
             None \<Rightarrow> []
           | Some i \<Rightarrow> [\<lparr>mt_source = workspace_volume_name i, mt_target = sp_workdir spec, mt_read_only = False\<rparr>]),
          hc_cap_drop = [''ALL''], hc_cap_add = (if persistent then [''CHOWN''] else []),
          hc_security_opt = opts, hc_network_mode = ''none''\<rparr>)"

definition main_config :: "string list \<Rightarrow> sandbox_spec \<Rightarrow> string \<Rightarrow> exn + container_config" where
  "main_config opts spec sandbox_id =
     (case parse_cpu_to_nanocpus (res_cpu (sp_resources spec)) of
        Inl e \<Rightarrow> Inl e
      | Inr nanos \<Rightarrow>
          (case parse_memory_to_bytes (res_memory (sp_resources spec)) of
             Inl e \<Rightarrow> Inl e
           | Inr mem \<Rightarrow> Inr
               \<lparr>cc_image = sp_image spec, cc_cmd = [''sleep'', ''infinity''], cc_working_dir = sp_workdir spec,
                cc_env = env_lines (sp_env spec), cc_labels = AList.update sandbox_id_label sandbox_id (sp_labels spec),
                cc_host = main_host_config opts spec nanos mem\<rparr>))"

definition sidecar_host_config :: "string list \<Rightarrow> string \<Rightarrow> sidecar_spec \<Rightarrow> int \<Rightarrow> int \<Rightarrow> host_config" where
  "sidecar_host_config opts main sidecar nanos mem =
     \<lparr>hc_nano_cpus = Some nanos, hc_memory = Some mem, hc_memory_swap = Some mem,
      hc_pids_limit = Some (sc_max_processes sidecar), hc_readonly_rootfs = False,
      hc_tmpfs = map (\<lambda>p. (p, ''rw,exec,nosuid,nodev,size=1g,uid='' @ int_str (sc_uid sidecar) @ '',gid='' @
                          int_str (sc_uid sidecar) @ '',mode=0755'')) (sc_writable_paths sidecar),
      hc_mounts = [], hc_cap_drop = [''ALL''],
      hc_cap_add = [''CHOWN'', ''FOWNER'', ''DAC_OVERRIDE'', ''SETUID'', ''SETGID''],
      hc_security_opt = opts, hc_network_mode = ''container:'' @ main\<rparr>"

definition sidecar_config :: "string list \<Rightarrow> string \<Rightarrow> string \<Rightarrow> sidecar_spec \<Rightarrow> exn + container_config" where
  "sidecar_config opts sandbox_id main sidecar =
     (case parse_cpu_to_nanocpus (res_cpu (sc_resources sidecar)) of
        Inl e \<Rightarrow> Inl e
      | Inr nanos \<Rightarrow>
          (case parse_memory_to_bytes (res_memory (sc_resources sidecar)) of
             Inl e \<Rightarrow> Inl e
           | Inr mem \<Rightarrow> Inr
               \<lparr>cc_image = sc_image sidecar, cc_cmd = [], cc_working_dir = [], cc_env = env_lines (sc_env sidecar),
                cc_labels = [(sandbox_id_label, sandbox_id), (sidecar_label, sc_name sidecar)],
                cc_host = sidecar_host_config opts main sidecar nanos mem\<rparr>))"

text \<open>
  \<open>containers.run\<close> and the two \<open>except\<close> clauses around it: a container that was created and did not
  start is removed again.
\<close>

definition run_container :: "string \<Rightarrow> container_config \<Rightarrow> string \<Rightarrow> string dk" where
  "run_container nm config ref =
     catch_em (containers_run nm config) is_docker_error (\<lambda>e.
       case e of
         DockerContainerError n i m \<Rightarrow> seq_em (force_remove i) (raise_em (ProvisionerError ref))
       | _ \<Rightarrow> raise_em (ProvisionerError ref))"

definition create_sidecar :: "string \<Rightarrow> string \<Rightarrow> sidecar_spec \<Rightarrow> string dk" where
  "create_sidecar sandbox_id main sidecar =
     bind_em (gets_em dk_security_opts) (\<lambda>opts.
     bind_em (lift_em (sidecar_config opts sandbox_id main sidecar)) (\<lambda>config.
     run_container (container_name_prefix @ sandbox_id @ ''-'' @ sc_name sidecar) config (sc_name sidecar)))"

text \<open>
  The loop over the sidecars. The references survive the exception that ends it, since the handler
  removes what they name: the first component is that exception, if any.
\<close>

fun launch_sidecars ::
  "string \<Rightarrow> string \<Rightarrow> sidecar_spec list \<Rightarrow> (string \<times> string) list \<Rightarrow> (exn option \<times> (string \<times> string) list) dk" where
  "launch_sidecars sandbox_id main [] refs d = (Inr (None, refs), d)"
| "launch_sidecars sandbox_id main (sidecar # sidecars) refs d =
     (case create_sidecar sandbox_id main sidecar d of
        (Inl e, d1) \<Rightarrow> (Inr (Some e, refs), d1)
      | (Inr container, d1) \<Rightarrow>
          let refs' = AList.update (sc_name sidecar) container refs in
          (case sc_health_check sidecar of
             Some (c # cs) \<Rightarrow>
               (case wait_sidecar_healthy container (sc_name sidecar) (c # cs) d1 of
                  (Inl e, d2) \<Rightarrow> (Inr (Some e, refs'), d2)
                | (Inr _, d2) \<Rightarrow> launch_sidecars sandbox_id main sidecars refs' d2)
           | _ \<Rightarrow> launch_sidecars sandbox_id main sidecars refs' d1))"

definition settle_main :: "sandbox_spec \<Rightarrow> string \<Rightarrow> unit dk" where
  "settle_main spec main =
     catch_em
       (seq_em (wait_container_running main running_timeout_us)
         (when_em (sp_workspace_id spec \<noteq> None) (fix_workspace_ownership main (sp_workdir spec))))
       is_provisioner_error
       (\<lambda>e. seq_em (force_remove main) (raise_em e))"

definition docker_acquire :: "sandbox_spec \<Rightarrow> sandbox_handle dk" where
  "docker_acquire spec =
     bind_em engine_uuid (\<lambda>sandbox_id.
     seq_em (case sp_workspace_id spec of None \<Rightarrow> return_em () | Some i \<Rightarrow> volumes_create (workspace_volume_name i))
     (bind_em (gets_em dk_security_opts) (\<lambda>opts.
     bind_em (lift_em (main_config opts spec sandbox_id)) (\<lambda>config.
     bind_em (run_container (container_name_prefix @ sandbox_id) config sandbox_id) (\<lambda>main.
     seq_em (settle_main spec main)
     (bind_em (launch_sidecars sandbox_id main (sp_sidecars spec) []) (\<lambda>(failure, refs).
      case failure of
        Some e \<Rightarrow>
          seq_em (for_em (map snd refs) force_remove)
          (seq_em (force_remove main)
          (raise_em (if is_provisioner_error e then e else ProvisionerError sandbox_id)))
      | None \<Rightarrow>
          bind_em engine_now (\<lambda>now.
          return_em \<lparr>h_sandbox_id = sandbox_id, h_backend = ''docker'', h_native_ref = main, h_created_at = now,
            h_sidecar_refs = refs, h_persistent = (sp_workspace_id spec \<noteq> None)\<rparr>))))))))"

definition docker_status :: "sandbox_handle \<Rightarrow> sandbox_state dk" where
  "docker_status handle =
     catch_em
       (bind_em (container_show (h_native_ref handle)) (\<lambda>info.
        return_em (if ci_running info then Active
                   else if ci_status info = Some ''created'' then Provisioning else Terminated)))
       is_docker_error (\<lambda>_. return_em Terminated)"

definition docker_recycle :: "sandbox_handle \<Rightarrow> unit dk" where
  "docker_recycle handle =
     catch_em
       (bind_em (container_exec (h_native_ref handle)
          \<lparr>xc_cmd = [''sh'', ''-c'', ''rm -rf /workspace/* /workspace/.[!.]* 2>/dev/null; true''], xc_stdin = False,
           xc_tty = False, xc_user = sandbox_exec_user, xc_workdir = None\<rparr>) (\<lambda>x.
        bind_em (exec_drain x) (\<lambda>_. return_em ())))
       is_docker_error (\<lambda>_. raise_em (ProvisionerError (h_sandbox_id handle)))"

definition destroy_one :: "string \<Rightarrow> string \<Rightarrow> bool \<Rightarrow> unit dk" where
  "destroy_one native_ref sandbox_id best_effort =
     seq_em (catch_em (container_stop native_ref) is_docker_error (\<lambda>_. return_em ()))
     (catch_em (container_delete native_ref) is_docker_error
       (\<lambda>e. if error_status e = 404 \<or> best_effort then return_em () else raise_em (ProvisionerError sandbox_id)))"

definition docker_destroy :: "sandbox_handle \<Rightarrow> unit dk" where
  "docker_destroy handle =
     seq_em (for_em (map snd (h_sidecar_refs handle)) (\<lambda>r. destroy_one r (h_sandbox_id handle) True))
       (destroy_one (h_native_ref handle) (h_sandbox_id handle) False)"

end
