(* ===== verification/Docker_Exec.thy ===== *)
theory Docker_Exec
  imports Docker
begin

section \<open>Workspaces, files and programs in Docker containers\<close>

text \<open>
  The rest of \<open>app/provisioners/docker.py\<close>: the throwaway containers that archive, measure and restore a
  workspace, the listing behind the collection of orphans, and everything that runs inside a container.
\<close>

subsection \<open>Workspaces\<close>

definition mount_config :: "string \<Rightarrow> string \<Rightarrow> string \<Rightarrow> bool \<Rightarrow> string list \<Rightarrow> string list \<Rightarrow> container_config" where
  "mount_config archiver_image volume mount_path read_only cap_add opts =
     \<lparr>cc_image = archiver_image, cc_cmd = [''sleep'', ''infinity''], cc_working_dir = [], cc_env = [], cc_labels = [],
      cc_host = \<lparr>hc_nano_cpus = None, hc_memory = None, hc_memory_swap = None, hc_pids_limit = None,
        hc_readonly_rootfs = False, hc_tmpfs = [],
        hc_mounts = [\<lparr>mt_source = volume, mt_target = mount_path, mt_read_only = read_only\<rparr>],
        hc_cap_drop = [''ALL''], hc_cap_add = cap_add, hc_security_opt = opts, hc_network_mode = ''none''\<rparr>\<rparr>"

text \<open>\<open>uuid.uuid4().hex[:12]\<close>, with the hyphens of the textual form taken out.\<close>

definition hex12 :: "string \<Rightarrow> string" where
  "hex12 u = take 12 (filter (\<lambda>c. c \<noteq> CHR ''-'') u)"

definition exec_against_workspace_mount :: "string \<Rightarrow> string \<Rightarrow> (string \<Rightarrow> string list) \<Rightarrow> (string \<times> int) dk" where
  "exec_against_workspace_mount workspace_id archiver_image build_cmd =
     bind_em (gets_em dk_security_opts) (\<lambda>opts.
     bind_em engine_uuid (\<lambda>u.
     bind_em (containers_run (''kubesandbox-wsmount-'' @ hex12 u)
       (mount_config archiver_image (workspace_volume_name workspace_id) ''/workspace-src'' True [] opts)) (\<lambda>container.
     finally_em
       (catch_em
         (seq_em (wait_container_running container running_timeout_us)
         (bind_em (container_exec container \<lparr>xc_cmd = build_cmd ''/workspace-src'', xc_stdin = False, xc_tty = False,
            xc_user = ''0:0'', xc_workdir = None\<rparr>) (\<lambda>x.
          bind_em (exec_drain x) (\<lambda>chunks.
          bind_em (exec_inspect x) (\<lambda>info.
          return_em (concat chunks, exit_or_zero info))))))
         is_docker_error (\<lambda>_. raise_em (ProvisionerError workspace_id)))
       (force_remove container))))"

definition docker_archive_workspace :: "string \<Rightarrow> string \<Rightarrow> string dk" where
  "docker_archive_workspace workspace_id archiver_image =
     bind_em (exec_against_workspace_mount workspace_id archiver_image (\<lambda>m. [''tar'', ''czf'', ''-'', ''-C'', m, ''.''])) (\<lambda>(data, exit_code).
     if exit_code \<noteq> 0 then raise_em (ProvisionerError workspace_id) else return_em data)"

text \<open>\<open>data.split()[0]\<close> of the bytes \<open>du\<close> printed.\<close>

definition first_field :: "string \<Rightarrow> exn + string" where
  "first_field s =
     (case dropWhile is_py_space s of
        [] \<Rightarrow> Inl (IndexError ''list index out of range'')
      | t \<Rightarrow> Inr (takeWhile (\<lambda>c. \<not> is_py_space c) t))"

definition docker_measure_workspace_usage :: "string \<Rightarrow> string \<Rightarrow> int dk" where
  "docker_measure_workspace_usage workspace_id archiver_image =
     bind_em (exec_against_workspace_mount workspace_id archiver_image (\<lambda>m. [''du'', ''-sm'', m])) (\<lambda>(data, exit_code).
     if exit_code \<noteq> 0 then raise_em (ProvisionerError workspace_id)
     else bind_em (lift_em (first_field data)) (\<lambda>n. lift_em (py_int n)))"

definition docker_restore_workspace :: "string \<Rightarrow> string \<Rightarrow> string \<Rightarrow> unit dk" where
  "docker_restore_workspace workspace_id data archiver_image =
     seq_em (volumes_create (workspace_volume_name workspace_id))
     (bind_em (gets_em dk_security_opts) (\<lambda>opts.
     bind_em engine_uuid (\<lambda>u.
     bind_em (containers_run (''kubesandbox-wsrestore-'' @ hex12 u)
       (mount_config archiver_image (workspace_volume_name workspace_id) ''/workspace-restore'' False [''CHOWN''] opts)) (\<lambda>container.
     finally_em
       (catch_em
         (seq_em (wait_container_running container running_timeout_us)
         (bind_em (container_exec container \<lparr>xc_cmd = [''tar'', ''xzf'', ''-'', ''-C'', ''/workspace-restore''], xc_stdin = True,
            xc_tty = False, xc_user = ''0:0'', xc_workdir = None\<rparr>) (\<lambda>x.
          seq_em (exec_start x)
          (seq_em (exec_write x data)
          (bind_em (exec_drain x) (\<lambda>_.
          bind_em (exec_inspect x) (\<lambda>info.
          seq_em (when_em (failed_exit info) (raise_em (ProvisionerError workspace_id)))
            (fix_workspace_ownership container ''/workspace-restore''))))))))
         is_docker_error (\<lambda>_. raise_em (ProvisionerError workspace_id)))
       (force_remove container)))))"

definition docker_delete_workspace_volume :: "string \<Rightarrow> unit dk" where
  "docker_delete_workspace_volume workspace_id =
     catch_em (volume_delete (workspace_volume_name workspace_id)) is_docker_error
       (\<lambda>e. if error_status e \<noteq> 404 then raise_em (ProvisionerError workspace_id) else return_em ())"

subsection \<open>Orphan collection\<close>

text \<open>
  \<open>datetime.fromisoformat(created.replace("Z", "+00:00"))\<close> on what the Engine API writes, which is
  \<open>YYYY-MM-DDTHH:MM:SS\<close>, an optional fraction (cut to microseconds) and an offset. Python also reads other
  ISO 8601 forms; they are a \<open>ValueError\<close> here. The day number is that of the proleptic Gregorian calendar.
\<close>

definition days_from_civil :: "int \<Rightarrow> int \<Rightarrow> int \<Rightarrow> int" where
  "days_from_civil y m d =
     (let y' = (if m \<le> 2 then y - 1 else y);
          era = y' div 400;
          yoe = y' - era * 400;
          doy = (153 * (if 2 < m then m - 3 else m + 9) + 2) div 5 + d - 1;
          doe = yoe * 365 + yoe div 4 - yoe div 100 + doy
      in era * 146097 + doe - 719468)"

definition replace_z :: "string \<Rightarrow> string" where
  "replace_z s = concat (map (\<lambda>c. if c = CHR ''Z'' then ''+00:00'' else [c]) s)"

definition digits_of :: "string \<Rightarrow> int option" where
  "digits_of s = (if s \<noteq> [] \<and> list_all is_digit s then digits_int 0 s else None)"

fun offset_minutes :: "string \<Rightarrow> int option" where
  "offset_minutes [sign, a, b, c, d, e] =
     (if c = CHR '':'' \<and> (sign = CHR ''+'' \<or> sign = CHR ''-'')
      then (case (digits_of [a, b], digits_of [d, e]) of
              (Some h, Some m) \<Rightarrow> if h \<le> 23 \<and> m \<le> 59 then Some ((if sign = CHR ''-'' then - 1 else 1) * (60 * h + m)) else None
            | _ \<Rightarrow> None)
      else None)"
| "offset_minutes _ = None"

definition micros_of :: "string \<Rightarrow> int option" where
  "micros_of fraction = (if fraction = [] then None else digits_of (take 6 (fraction @ ''00000'')))"

definition clock_part :: "string \<Rightarrow> (int \<times> string) option" where
  "clock_part s =
     (case (digits_of (take 2 s), digits_of (take 2 (drop 3 s)), digits_of (take 2 (drop 6 s))) of
        (Some h, Some m, Some sec) \<Rightarrow>
          (if h \<le> 23 \<and> m \<le> 59 \<and> sec \<le> 59 \<and> take 1 (drop 2 s) = '':'' \<and> take 1 (drop 5 s) = '':''
           then (case drop 8 s of
                   c # rest \<Rightarrow>
                     (if c = CHR ''.''
                      then map_option (\<lambda>us. (((h * 60 + m) * 60 + sec) * us_per_second + us, dropWhile is_digit rest))
                             (micros_of (takeWhile is_digit rest))
                      else Some (((h * 60 + m) * 60 + sec) * us_per_second, c # rest))
                 | [] \<Rightarrow> None)
           else None)
      | _ \<Rightarrow> None)"

definition days_in_month :: "int \<Rightarrow> int \<Rightarrow> int" where
  "days_in_month y m =
     (if m = 2 then (if y mod 4 = 0 \<and> (y mod 100 \<noteq> 0 \<or> y mod 400 = 0) then 29 else 28)
      else if m \<in> {4, 6, 9, 11} then 30 else 31)"

definition fromisoformat :: "string \<Rightarrow> exn + int" where
  "fromisoformat s =
     (case (digits_of (take 4 s), digits_of (take 2 (drop 5 s)), digits_of (take 2 (drop 8 s)), clock_part (drop 11 s)) of
        (Some y, Some m, Some d, Some (us, zone)) \<Rightarrow>
          (case offset_minutes zone of
             Some off \<Rightarrow>
               (if 1 \<le> y \<and> 1 \<le> m \<and> m \<le> 12 \<and> 1 \<le> d \<and> d \<le> days_in_month y m \<and>
                   take 1 (drop 4 s) = ''-'' \<and> take 1 (drop 7 s) = ''-'' \<and> take 1 (drop 10 s) = ''T''
                then Inr (days_from_civil y m d * us_per_day + us - off * 60 * us_per_second)
                else Inl (ValueError s))
           | None \<Rightarrow> Inl (ValueError s))
      | _ \<Rightarrow> Inl (ValueError s))"

text \<open>The loop over the listed containers fills two dictionaries: the mains and, by sandbox, the sidecars.\<close>

type_synonym listing = "(string \<times> container_info) list \<times> (string \<times> (string \<times> string) list) list"

definition group_container :: "string \<Rightarrow> container_info \<Rightarrow> listing \<Rightarrow> listing" where
  "group_container container info acc =
     (case acc of (mains, sidecars) \<Rightarrow>
        (case map_of (ci_labels info) sandbox_id_label of
           None \<Rightarrow> acc
         | Some sandbox_id \<Rightarrow>
             if sandbox_id = [] then acc
             else (case map_of (ci_labels info) sidecar_label of
                     Some n \<Rightarrow>
                       if n \<noteq> []
                       then (mains, AList.update sandbox_id
                               (AList.update n container (case map_of sidecars sandbox_id of None \<Rightarrow> [] | Some r \<Rightarrow> r)) sidecars)
                       else (AList.update sandbox_id info mains, sidecars)
                   | None \<Rightarrow> (AList.update sandbox_id info mains, sidecars))))"

fun group_containers :: "string list \<Rightarrow> listing \<Rightarrow> listing dk" where
  "group_containers [] acc = return_em acc"
| "group_containers (c # cs) acc =
     bind_em (container_show c) (\<lambda>info. group_containers cs (group_container c info acc))"

definition native_ref_of :: "(string \<times> (string \<times> string) list) list \<Rightarrow> string \<times> container_info \<Rightarrow> exn + native_sandbox_ref" where
  "native_ref_of sidecars m =
     map_sum id (\<lambda>t. \<lparr>nr_sandbox_id = fst m, nr_native_ref = ci_id (snd m), nr_created_at = t,
                      nr_sidecar_refs = (case map_of sidecars (fst m) of None \<Rightarrow> [] | Some r \<Rightarrow> r)\<rparr>)
       (fromisoformat (replace_z (ci_created (snd m))))"

definition docker_list_sandbox_refs :: "native_sandbox_ref list dk" where
  "docker_list_sandbox_refs =
     bind_em (containers_list sandbox_id_label) (\<lambda>cs.
     bind_em (group_containers cs ([], [])) (\<lambda>(mains, sidecars).
     collect_em mains (\<lambda>m. lift_em (native_ref_of sidecars m))))"

subsection \<open>Files\<close>

definition write_file_cmd :: "string \<Rightarrow> string list" where
  "write_file_cmd rel_path =
     [''sh'', ''-c'', ''mkdir -p '' @ [CHR 0x22] @ ''$(dirname '' @ [CHR 0x22] @ ''$1'' @ [CHR 0x22] @ '')'' @ [CHR 0x22] @
        '' && cat > '' @ [CHR 0x22] @ ''$1'' @ [CHR 0x22], ''--'', rel_path]"

definition write_file_via_exec :: "string \<Rightarrow> string \<Rightarrow> string \<Rightarrow> unit dk" where
  "write_file_via_exec container rel_path content =
     bind_em (catch_em (container_exec container \<lparr>xc_cmd = write_file_cmd rel_path, xc_stdin = True, xc_tty = False,
         xc_user = sandbox_exec_user, xc_workdir = Some ''/workspace''\<rparr>) is_docker_error
       (\<lambda>_. raise_em (ProvisionerError rel_path))) (\<lambda>x.
     seq_em (exec_start x)
     (seq_em (exec_write x content)
     (bind_em (exec_drain x) (\<lambda>_.
     bind_em (exec_inspect x) (\<lambda>info.
     when_em (failed_exit info) (raise_em (ProvisionerError rel_path)))))))"

definition docker_put_files :: "sandbox_handle \<Rightarrow> (string \<times> string) list \<Rightarrow> unit dk" where
  "docker_put_files handle files =
     for_em files (\<lambda>(rel_path, content). write_file_via_exec (h_native_ref handle) rel_path content)"

definition docker_get_file :: "sandbox_handle \<Rightarrow> string \<Rightarrow> string dk" where
  "docker_get_file handle path =
     bind_em (catch_em (exec_capture (h_native_ref handle) [''cat'', path] sandbox_exec_user) is_docker_error
       (\<lambda>_. raise_em (ProvisionerError path))) (\<lambda>(exit_code, output).
     if exit_code \<noteq> 0 then raise_em (ProvisionerError path) else return_em output)"

definition docker_list_tree :: "sandbox_handle \<Rightarrow> string \<Rightarrow> (string \<times> bool) list dk" where
  "docker_list_tree handle path =
     bind_em (catch_em (exec_capture (h_native_ref handle)
         [''find'', path, ''-mindepth'', ''1'', ''-printf'', ''%y|%P'' @ [CHR 0x0A]] sandbox_exec_user) is_docker_error
       (\<lambda>_. raise_em (ProvisionerError path))) (\<lambda>(exit_code, output).
     if exit_code \<noteq> 0 then raise_em (ProvisionerError path) else return_em (parse_find_output (decode_replace output)))"

subsection \<open>Batch execution\<close>

record raw_exec_result =
  rx_exit_code :: int
  rx_stdout :: string
  rx_stderr :: string
  rx_duration_ms :: int
  rx_truncated :: bool
  rx_timed_out :: bool

record pump_state =
  pu_stdout :: string
  pu_stderr :: string
  pu_truncated :: bool

text \<open>One message of the loop in \<open>_pump\<close>: appended while the buffer is below the limit, else dropped.\<close>

definition take_chunk :: "int \<Rightarrow> chunk \<Rightarrow> pump_state \<Rightarrow> pump_state" where
  "take_chunk max_output_bytes c st =
     (if chunk_channel c = 2
      then (if int (length (pu_stderr st)) < max_output_bytes then st\<lparr>pu_stderr := pu_stderr st @ chunk_data c\<rparr>
            else st\<lparr>pu_truncated := True\<rparr>)
      else (if int (length (pu_stdout st)) < max_output_bytes then st\<lparr>pu_stdout := pu_stdout st @ chunk_data c\<rparr>
            else st\<lparr>pu_truncated := True\<rparr>))"

text \<open>
  The loop under \<open>asyncio.wait_for\<close> with \<open>patience\<close> microseconds left: how it ends (\<open>Inr True\<close> when the
  time ran out), the buffers, and how long it took.
\<close>

fun pump_chunks :: "int \<Rightarrow> nat \<Rightarrow> chunk list \<Rightarrow> stream_end \<Rightarrow> pump_state \<Rightarrow> (exn + bool) \<times> pump_state \<times> nat" where
  "pump_chunks max_output_bytes patience [] fin st =
     (case fin of
        Eof t \<Rightarrow> if t < patience then (Inr False, st, t) else (Inr True, st, patience)
      | Broken t e \<Rightarrow> if t < patience then (Inl e, st, t) else (Inr True, st, patience)
      | Silent \<Rightarrow> (Inr True, st, patience))"
| "pump_chunks max_output_bytes patience (c # cs) fin st =
     (if chunk_at c < patience then pump_chunks max_output_bytes patience cs fin (take_chunk max_output_bytes c st)
      else (Inr True, st, patience))"

definition exec_with_stdin ::
  "string \<Rightarrow> string list \<Rightarrow> string \<Rightarrow> int \<Rightarrow> int \<Rightarrow> string \<Rightarrow> string option \<Rightarrow> string \<Rightarrow> raw_exec_result dk" where
  "exec_with_stdin container cmd stdin timeout_seconds max_output_bytes user workdir sandbox_id =
     bind_em (catch_em (container_exec container \<lparr>xc_cmd = cmd, xc_stdin = True, xc_tty = False, xc_user = user,
         xc_workdir = workdir\<rparr>) is_docker_error
       (\<lambda>e. raise_em (if error_status e = 404 then SandboxNotFoundError sandbox_id else ProvisionerError sandbox_id))) (\<lambda>x.
     bind_em engine_clock (\<lambda>start.
     seq_em (exec_start x)
     (seq_em (when_em (stdin \<noteq> []) (exec_write x stdin))
     (bind_em (exec_stream x) (\<lambda>(chunks, fin).
      bind_em engine_clock (\<lambda>now.
      case pump_chunks max_output_bytes (nat (timeout_seconds * us_per_second - (now - start))) chunks fin
             \<lparr>pu_stdout = [], pu_stderr = [], pu_truncated = False\<rparr> of
        (Inl e, st, took) \<Rightarrow> seq_em (engine_wait took) (raise_em e)
      | (Inr timed_out, st, took) \<Rightarrow>
          seq_em (engine_wait took)
          (bind_em engine_clock (\<lambda>finish.
           bind_em (if timed_out then return_em 124
                    else catch_em (bind_em (exec_inspect x) (\<lambda>info. return_em (exit_or_zero info)))
                           is_docker_error (\<lambda>_. return_em 0)) (\<lambda>exit_code.
           return_em \<lparr>rx_exit_code = exit_code, rx_stdout = pu_stdout st, rx_stderr = pu_stderr st,
             rx_duration_ms = (finish - start) div 1000, rx_truncated = pu_truncated st, rx_timed_out = timed_out\<rparr>)))))))))"

text \<open>\<open>output.decode("utf-8")\<close>: strict, and \<open>json.loads\<close>; either \<open>ValueError\<close> means no variables.\<close>

definition decode_strict :: "string \<Rightarrow> exn + string" where
  "decode_strict s = (if decode_replace s = s then Inr s else Inl (ValueError ''UnicodeDecodeError''))"

fun dump_unreadable :: "exn \<Rightarrow> bool" where
  "dump_unreadable (ValueError _) = True"
| "dump_unreadable _ = False"

definition parse_dump :: "(string \<Rightarrow> exn + json) \<Rightarrow> string \<Rightarrow> exn + json" where
  "parse_dump loads output = (case decode_strict output of Inl e \<Rightarrow> Inl e | Inr s \<Rightarrow> loads s)"

definition read_variable_dump :: "(string \<Rightarrow> exn + json) \<Rightarrow> string \<Rightarrow> json option dk" where
  "read_variable_dump loads container =
     bind_em (catch_em (map_em Some (exec_capture container [''cat'', variable_dump_path] sandbox_exec_user)) is_docker_error
       (\<lambda>_. return_em None)) (\<lambda>captured.
     case captured of
       None \<Rightarrow> return_em None
     | Some (exit_code, output) \<Rightarrow>
         if exit_code \<noteq> 0 then return_em None
         else catch_em (map_em Some (lift_em (parse_dump loads output))) dump_unreadable (\<lambda>_. return_em None))"

text \<open>
  \<open>BatchRunResult(variables=...)\<close>: the model's field is a dictionary or \<open>None\<close>, so pydantic rejects
  every other JSON value.
\<close>

fun variables_field :: "json option \<Rightarrow> exn + json option" where
  "variables_field None = Inr None"
| "variables_field (Some JNull) = Inr None"
| "variables_field (Some (JObject kvs)) = Inr (Some (JObject kvs))"
| "variables_field (Some _) = Inl (ValueError ''ValidationError'')"

definition batch_result :: "string \<Rightarrow> raw_exec_result \<Rightarrow> json option \<Rightarrow> batch_run_result" where
  "batch_result run_id raw variables =
     \<lparr>br_run_id = run_id, br_exit_code = rx_exit_code raw, br_stdout = decode_replace (rx_stdout raw),
      br_stderr = decode_replace (rx_stderr raw), br_duration_ms = rx_duration_ms raw, br_truncated = rx_truncated raw,
      br_timed_out = rx_timed_out raw, br_variables = variables\<rparr>"

definition docker_exec_batch :: "(string \<Rightarrow> exn + json) \<Rightarrow> sandbox_handle \<Rightarrow> batch_command \<Rightarrow> batch_run_result dk" where
  "docker_exec_batch loads handle command =
     seq_em (when_em (bc_files command \<noteq> []) (docker_put_files handle (bc_files command)))
     (bind_em (exec_with_stdin (h_native_ref handle) (bc_command command) (bc_stdin command) (bc_timeout_seconds command)
        (bc_max_output_bytes command) sandbox_exec_user (Some ''/workspace'') (h_sandbox_id handle)) (\<lambda>raw.
     bind_em (if bc_capture_variables command then read_variable_dump loads (h_native_ref handle) else return_em None) (\<lambda>variables.
     bind_em engine_uuid (\<lambda>run_id.
     bind_em (lift_em (variables_field variables)) (\<lambda>vs.
     return_em (batch_result run_id raw vs))))))"

definition resolve_target :: "sandbox_handle \<Rightarrow> string \<Rightarrow> exn + string" where
  "resolve_target handle tgt =
     (if tgt = ''main'' then Inr (h_native_ref handle)
      else case map_of (h_sidecar_refs handle) tgt of
             None \<Rightarrow> Inl (ProvisionerError (h_sandbox_id handle))
           | Some r \<Rightarrow> Inr r)"

definition docker_exec_in ::
  "sandbox_handle \<Rightarrow> string \<Rightarrow> string list \<Rightarrow> string \<Rightarrow> int \<Rightarrow> int \<Rightarrow> batch_run_result dk" where
  "docker_exec_in handle tgt command stdin timeout_seconds max_output_bytes =
     bind_em (lift_em (resolve_target handle tgt)) (\<lambda>container.
     bind_em (exec_with_stdin container command stdin timeout_seconds max_output_bytes
        (if tgt = ''main'' then sandbox_exec_user else []) (if tgt = ''main'' then Some ''/workspace'' else None)
        (h_sandbox_id handle)) (\<lambda>raw.
     bind_em engine_uuid (\<lambda>run_id. return_em (batch_result run_id raw None))))"

subsection \<open>Interactive terminals\<close>

record docker_pty_stream =
  dp_exec :: string
  dp_exited :: bool

definition docker_attach :: "sandbox_handle \<Rightarrow> docker_pty_stream dk" where
  "docker_attach handle =
     bind_em (catch_em (container_exec (h_native_ref handle) \<lparr>xc_cmd = interactive_shell_cmd, xc_stdin = True, xc_tty = True,
         xc_user = sandbox_exec_user, xc_workdir = Some ''/workspace''\<rparr>) is_docker_error
       (\<lambda>e. raise_em (if error_status e = 404 then SandboxNotFoundError (h_sandbox_id handle)
                      else ProvisionerError (h_sandbox_id handle)))) (\<lambda>x.
     seq_em (exec_start x) (return_em \<lparr>dp_exec = x, dp_exited = False\<rparr>))"

definition pty_write_stdin :: "docker_pty_stream \<Rightarrow> string \<Rightarrow> unit dk" where
  "pty_write_stdin s data = exec_write (dp_exec s) data"

definition pty_resize :: "docker_pty_stream \<Rightarrow> int \<Rightarrow> int \<Rightarrow> unit dk" where
  "pty_resize s cols rows = exec_resize (dp_exec s) rows cols"

datatype docker_pty_event = PtyOutput string | PtyExit int

text \<open>\<open>read\<close>: the event, and the stream with its \<open>_exited\<close> flag, which is set before the exit is looked up.\<close>

definition pty_read :: "docker_pty_stream \<Rightarrow> (docker_pty_event option \<times> docker_pty_stream) dk" where
  "pty_read s =
     (if dp_exited s then return_em (None, s)
      else bind_em (exec_read (dp_exec s)) (\<lambda>msg.
        case msg of
          Some data \<Rightarrow> return_em (Some (PtyOutput data), s)
        | None \<Rightarrow>
            catch_em
              (bind_em (exec_inspect (dp_exec s)) (\<lambda>info.
               return_em (Some (PtyExit (exit_or_zero info)), s\<lparr>dp_exited := True\<rparr>)))
              is_docker_error (\<lambda>_. return_em (None, s\<lparr>dp_exited := True\<rparr>))))"

end
