(* ===== verification/Docker_Laws.thy ===== *)
theory Docker_Laws
  imports Docker_Exec
begin

section \<open>What the Docker backend guarantees\<close>

text \<open>
  The polling loops end; every container is created locked down; user code never runs as root; a sandbox
  that could not be put together leaves nothing behind; output is bounded and faithful; destroying and
  listing find all containers of a sandbox.
\<close>

named_theorems docker_ops \<open>definitions of the backend's operations, as computations\<close>

lemmas [docker_ops] = force_remove_def exec_capture_def fix_workspace_ownership_def run_container_def
  create_sidecar_def settle_main_def docker_status_def docker_recycle_def destroy_one_def docker_destroy_def
  exec_against_workspace_mount_def docker_archive_workspace_def docker_measure_workspace_usage_def
  docker_restore_workspace_def docker_delete_workspace_volume_def docker_list_sandbox_refs_def
  write_file_via_exec_def docker_put_files_def docker_get_file_def docker_list_tree_def exec_with_stdin_def
  map_em_def read_variable_dump_def docker_exec_batch_def docker_exec_in_def docker_attach_def
  pty_write_stdin_def pty_resize_def pty_read_def

subsection \<open>The loops end\<close>

text \<open>Both loops extend the history by polls and sleeps only.\<close>

lemma wait_loop_extends:
  assumes "\<And>i r. P (ContainerShown i r)" "\<And>us. P (Slept us)"
  shows "extends P d (snd (wait_loop c deadline d))"
proof (induction c deadline d rule: wait_loop.induct)
  case (1 c deadline d)
  obtain r d1 where s: "container_show c d = (r, d1)" by (cases "container_show c d")
  have e1: "extends P d d1" using movesD' [OF calls_extend(4) s] assms(1) by blast
  have e2: "extends P d1 (snd (engine_sleep running_poll_us d1))"
    using movesD [OF engine_sleep_extends] assms(2) by blast
  show ?case
    by (subst wait_loop.simps)
      (use s e1 ext.trans_rel [OF e1 ext.trans_rel [OF e2]] "1.IH" in \<open>auto split: sum.split simp del: engine_sleep_run\<close>)
qed

lemma health_loop_extends:
  assumes "\<And>x r. P (ExecCreated c x r)" "\<And>x r. P (ExecDrained x r)" "\<And>x r. P (ExecInspected x r)" "\<And>us. P (Slept us)"
  shows "extends P d (snd (health_loop c nm check deadline d))"
  using assms
proof (induction c nm check deadline d rule: health_loop.induct)
  case (1 c nm check deadline d)
  obtain r d1 where s: "exec_capture c check [] d = (r, d1)" by (cases "exec_capture c check [] d")
  have e1: "extends P d d1" using movesD' [OF exec_capture_extends s] "1.prems" by blast
  have e2: "extends P d1 (snd (engine_sleep sidecar_health_poll_us d1))"
    using movesD [OF engine_sleep_extends] "1.prems" by blast
  show ?case
    by (subst health_loop.simps)
      (use s e1 ext.trans_rel [OF e1 ext.trans_rel [OF e2]] "1.IH" "1.prems" ext.refl_rel in
        \<open>auto split: sum.split simp del: engine_sleep_run\<close>)
qed

lemma wait_container_running_extends [moves_intro]:
  "(\<And>i r. P (ContainerShown i r)) \<Longrightarrow> (\<And>us. P (Slept us)) \<Longrightarrow> moves (extends P) (wait_container_running c t)"
  by (simp add: moves_def wait_container_running_def wait_loop_extends)

lemma wait_sidecar_healthy_extends [moves_intro]:
  "(\<And>x r. P (ExecCreated c x r)) \<Longrightarrow> (\<And>x r. P (ExecDrained x r)) \<Longrightarrow> (\<And>x r. P (ExecInspected x r)) \<Longrightarrow> (\<And>us. P (Slept us)) \<Longrightarrow>
   moves (extends P) (wait_sidecar_healthy c nm check)"
  by (simp add: moves_def wait_sidecar_healthy_def health_loop_extends)

definition polls :: "engine_event list \<Rightarrow> nat" where
  "polls evs = length (filter (\<lambda>e. case e of ContainerShown _ _ \<Rightarrow> True | _ \<Rightarrow> False) evs)"

lemma polls_append [simp]: "polls (xs @ ys) = polls xs + polls ys"
  by (simp add: polls_def)

lemma wait_loop_result:
  assumes "wait_loop c deadline d = (r, d')"
  shows "polls (happened d d') \<le> nat ((deadline - dk_clock d + int running_poll_us - 1) div int running_poll_us) + 1 \<and>
    (case r of
       Inr _ \<Rightarrow> \<exists>info. ci_running info \<and> dk_events d' \<noteq> [] \<and> last (dk_events d') = ContainerShown c (Inr info)
     | Inl e \<Rightarrow> (\<exists>tr. en_show (dk_engine d) tr c = Inl e) \<or> e = ProvisionerError c \<and> deadline \<le> dk_clock d')"
  using assms
proof (induction c deadline d rule: wait_loop.induct)
  case (1 c deadline d)
  obtain q d1 where s: "container_show c d = (q, d1)" by (cases "container_show c d")
  then have d1: "dk_events d1 = dk_events d @ [ContainerShown c q]" "dk_clock d \<le> dk_clock d1" "dk_engine d1 = dk_engine d"
      "q = en_show (dk_engine d) (dk_events d) c"
    by (auto simp: container_show_def engine_call_run)
  then have h: "happened d d1 = [ContainerShown c q]" by simp
  show ?case
  proof (cases "\<exists>info. q = Inr info \<and> \<not> ci_running info \<and> dk_clock d1 < deadline")
    case False
    then show ?thesis using "1.prems" s d1 h
      by (subst (asm) wait_loop.simps) (auto simp: polls_def split: sum.splits if_splits)
  next
    case True
    then obtain info where q: "q = Inr info" "\<not> ci_running info" "dk_clock d1 < deadline" by blast
    let ?d2 = "snd (engine_sleep running_poll_us d1)"
    have run: "wait_loop c deadline ?d2 = (r, d')" using "1.prems" s q
      by (subst (asm) wait_loop.simps) (simp del: engine_sleep_run)
    have d2: "dk_clock d1 + int running_poll_us \<le> dk_clock ?d2" "dk_engine ?d2 = dk_engine d1" by simp_all
    have IH: "polls (happened ?d2 d') \<le> nat ((deadline - dk_clock ?d2 + int running_poll_us - 1) div int running_poll_us) + 1 \<and>
      (case r of
         Inr _ \<Rightarrow> \<exists>info. ci_running info \<and> dk_events d' \<noteq> [] \<and> last (dk_events d') = ContainerShown c (Inr info)
       | Inl e \<Rightarrow> (\<exists>tr. en_show (dk_engine ?d2) tr c = Inl e) \<or> e = ProvisionerError c \<and> deadline \<le> dk_clock d')"
      using "1.IH" [OF s [symmetric] q(1,2) _ run] q(3) by simp
    have "extends (\<lambda>_. True) ?d2 d'" using wait_loop_extends [of "\<lambda>_. True" ?d2 c deadline] run by simp
    then have "happened d d' = [ContainerShown c q, Slept (int running_poll_us)] @ happened ?d2 d'"
      using d1 by (auto simp: extends_def happened_def)
    then have p: "polls (happened d d') = Suc (polls (happened ?d2 d'))" by (simp add: polls_def)
    have "(deadline - dk_clock ?d2 + int running_poll_us - 1) div int running_poll_us \<le>
        (deadline - dk_clock d - 1) div int running_poll_us"
      using d1(2) d2(1) by (intro zdiv_mono1) (auto simp: running_poll_us_def)
    also have "\<dots> = (deadline - dk_clock d + int running_poll_us - 1) div int running_poll_us - 1"
      by (simp add: running_poll_us_def)
    finally have m: "(deadline - dk_clock ?d2 + int running_poll_us - 1) div int running_poll_us + 1 \<le>
        (deadline - dk_clock d + int running_poll_us - 1) div int running_poll_us" by simp
    have "0 < (deadline - dk_clock d + int running_poll_us - 1) div int running_poll_us"
      using q(3) d1(2) by (simp add: running_poll_us_def pos_imp_zdiv_pos_iff)
    with IH m p have "polls (happened d d') \<le> nat ((deadline - dk_clock d + int running_poll_us - 1) div int running_poll_us) + 1"
      by linarith
    moreover have "dk_engine ?d2 = dk_engine d" using d2(2) d1(3) by (rule trans)
    ultimately show ?thesis using conjunct2 [OF IH] by (simp only: simp_thms)
  qed
qed

definition attempts :: "engine_event list \<Rightarrow> nat" where
  "attempts evs = length (filter (\<lambda>e. case e of ExecCreated _ _ _ \<Rightarrow> True | _ \<Rightarrow> False) evs)"

lemma attempts_append [simp]: "attempts (xs @ ys) = attempts xs + attempts ys"
  by (simp add: attempts_def)

lemma exec_capture_attempts:
  assumes "exec_capture c cmd user d = (r, d')"
  shows "attempts (happened d d') = 1" "dk_clock d \<le> dk_clock d'" "extends (\<lambda>_. True) d d'" "dk_engine d' = dk_engine d"
proof -
  show "dk_clock d \<le> dk_clock d'" using assms by (rule exec_capture_clock)
  show e: "extends (\<lambda>_. True) d d'" using movesD' [OF exec_capture_extends assms] by simp
  then show "dk_engine d' = dk_engine d" by (simp add: extends_def)
  show "attempts (happened d d') = 1" using assms
    by (auto simp: exec_capture_def em_simps engine_calls attempts_def happened_def split: sum.splits prod.splits)
qed

lemma exec_capture_last:
  "exec_capture c cmd user d = (Inr (n, out), d') \<Longrightarrow>
   \<exists>x m. last (dk_events d') = ExecInspected x (Inr m) \<and> exit_or_zero m = n"
  by (auto simp: exec_capture_def em_simps engine_calls split: sum.splits prod.splits)

lemma health_loop_result:
  assumes "health_loop c nm check deadline d = (r, d')"
  shows "attempts (happened d d') \<le> nat ((deadline - dk_clock d + int sidecar_health_poll_us - 1) div int sidecar_health_poll_us) \<and>
    (case r of
       Inr _ \<Rightarrow> \<exists>x n. last (dk_events d') = ExecInspected x (Inr n) \<and> exit_or_zero n = 0
     | Inl e \<Rightarrow> e = ProvisionerError nm \<and> deadline \<le> dk_clock d' \<or> \<not> is_docker_error e \<and> (\<exists>q. exec_capture c check [] q = (Inl e, d')))"
  using assms
proof (induction c nm check deadline d rule: health_loop.induct)
  case (1 c nm check deadline d)
  show ?case
  proof (cases "dk_clock d < deadline")
    case False
    then show ?thesis using "1.prems" by (subst (asm) health_loop.simps) (auto simp: attempts_def)
  next
    case live: True
    obtain q d1 where s: "exec_capture c check [] d = (q, d1)" by (cases "exec_capture c check [] d")
    note cap = exec_capture_attempts [OF s]
    let ?d2 = "snd (engine_sleep sidecar_health_poll_us d1)"
    have pos: "1 \<le> (deadline - dk_clock d + int sidecar_health_poll_us - 1) div int sidecar_health_poll_us"
      using live by (simp add: sidecar_health_poll_us_def pos_imp_zdiv_pos_iff)
    show ?thesis
    proof (cases "case q of Inl e \<Rightarrow> is_docker_error e | Inr p \<Rightarrow> fst p \<noteq> 0")
      case False
      with "1.prems" live s have "d' = d1 \<and> ((\<exists>e. q = Inl e \<and> r = Inl e \<and> \<not> is_docker_error e) \<or> r = Inr () \<and> (\<exists>out. q = Inr (0, out)))"
        by (subst (asm) health_loop.simps) (auto split: sum.splits if_splits prod.splits simp del: engine_sleep_run)
      with cap(1) pos s exec_capture_last show ?thesis by fastforce
    next
      case True
      with "1.prems" live s have run: "health_loop c nm check deadline ?d2 = (r, d')"
        by (subst (asm) health_loop.simps) (auto split: sum.splits if_splits prod.splits simp del: engine_sleep_run)
      have IH: "attempts (happened ?d2 d') \<le> nat ((deadline - dk_clock ?d2 + int sidecar_health_poll_us - 1) div int sidecar_health_poll_us) \<and>
        (case r of
       Inr _ \<Rightarrow> \<exists>x n. last (dk_events d') = ExecInspected x (Inr n) \<and> exit_or_zero n = 0
     | Inl e \<Rightarrow> e = ProvisionerError nm \<and> deadline \<le> dk_clock d' \<or> \<not> is_docker_error e \<and> (\<exists>q. exec_capture c check [] q = (Inl e, d')))"
      proof (cases q)
        case (Inl e)
        with True "1.IH"(1) [OF live s [symmetric] Inl _ run] show ?thesis by simp
      next
        case (Inr p)
        obtain n out where p: "p = (n, out)" by (cases p)
        with True Inr "1.IH"(2) [OF live s [symmetric] Inr p [symmetric] _ run] show ?thesis by simp
      qed
      have "extends (\<lambda>_. True) ?d2 d'" using health_loop_extends [of "\<lambda>_. True" c ?d2 nm check deadline] run by simp
      then have "happened d d' = happened d d1 @ Slept (int sidecar_health_poll_us) # happened ?d2 d'"
        using cap(3) by (auto simp: extends_def happened_def)
      then have n: "attempts (happened d d') = Suc (attempts (happened ?d2 d'))" using cap(1) by (simp add: attempts_def)
      have "(deadline - dk_clock ?d2 + int sidecar_health_poll_us - 1) div int sidecar_health_poll_us \<le>
          (deadline - dk_clock d - 1) div int sidecar_health_poll_us"
        using cap(2) by (intro zdiv_mono1) (auto simp: sidecar_health_poll_us_def)
      also have "\<dots> = (deadline - dk_clock d + int sidecar_health_poll_us - 1) div int sidecar_health_poll_us - 1"
        by (simp add: sidecar_health_poll_us_def)
      finally have "attempts (happened d d') \<le> nat ((deadline - dk_clock d + int sidecar_health_poll_us - 1) div int sidecar_health_poll_us)"
        using IH n pos by linarith
      with IH show ?thesis by blast
    qed
  qed
qed

text \<open>An exception that \<open>contextlib.suppress(DockerError)\<close> lets through.\<close>

definition not_suppressed :: "exn \<Rightarrow> bool" where
  "not_suppressed e \<longleftrightarrow> \<not> is_docker_error e"

text \<open>
  Waiting for a container to start and for a sidecar to become healthy always comes to an end, whatever
  the engine answers and however slow it is: at most 201 looks at the container and at most 180 runs of the
  health check. Success means that the last look found the container running, and a time-out is never
  declared before the 10 seconds, or the 90 seconds, have passed.
\<close>

theorem startup_polling_terminates:
  "(case wait_container_running c running_timeout_us d of (r, d') \<Rightarrow>
     polls (happened d d') \<le> 201 \<and>
     (case r of
        Inr _ \<Rightarrow> \<exists>info. ci_running info \<and> last (dk_events d') = ContainerShown c (Inr info)
      | Inl e \<Rightarrow> (\<exists>tr. en_show (dk_engine d) tr c = Inl e) \<or> e = ProvisionerError c \<and> dk_clock d + 10 * us_per_second \<le> dk_clock d')) \<and>
   (case wait_sidecar_healthy k nm check d of (r, d') \<Rightarrow>
     attempts (happened d d') \<le> 180 \<and>
     (case r of
        Inr _ \<Rightarrow> \<exists>x n. last (dk_events d') = ExecInspected x (Inr n) \<and> exit_or_zero n = 0
      | Inl e \<Rightarrow> e = ProvisionerError nm \<and> dk_clock d + 90 * us_per_second \<le> dk_clock d' \<or> not_suppressed e))"
proof
  obtain r d' where w: "wait_container_running c running_timeout_us d = (r, d')" by (cases "wait_container_running c running_timeout_us d")
  from wait_loop_result [OF this [unfolded wait_container_running_def]] w
  show "(case wait_container_running c running_timeout_us d of (r, d') \<Rightarrow>
     polls (happened d d') \<le> 201 \<and>
     (case r of
        Inr _ \<Rightarrow> \<exists>info. ci_running info \<and> last (dk_events d') = ContainerShown c (Inr info)
      | Inl e \<Rightarrow> (\<exists>tr. en_show (dk_engine d) tr c = Inl e) \<or> e = ProvisionerError c \<and> dk_clock d + 10 * us_per_second \<le> dk_clock d'))"
    by (auto simp: running_timeout_us_def running_poll_us_def split: sum.splits)
next
  obtain r d' where h: "wait_sidecar_healthy k nm check d = (r, d')" by (cases "wait_sidecar_healthy k nm check d")
  from health_loop_result [OF this [unfolded wait_sidecar_healthy_def]] h
  show "(case wait_sidecar_healthy k nm check d of (r, d') \<Rightarrow>
     attempts (happened d d') \<le> 180 \<and>
     (case r of
        Inr _ \<Rightarrow> \<exists>x n. last (dk_events d') = ExecInspected x (Inr n) \<and> exit_or_zero n = 0
      | Inl e \<Rightarrow> e = ProvisionerError nm \<and> dk_clock d + 90 * us_per_second \<le> dk_clock d' \<or> not_suppressed e))"
    by (auto simp: sidecar_health_timeout_us_def sidecar_health_poll_us_def not_suppressed_def split: sum.splits)
qed

subsection \<open>Containers are created locked down\<close>

definition bootstrap_capabilities :: "string list" where
  "bootstrap_capabilities = [''CHOWN'', ''FOWNER'', ''DAC_OVERRIDE'', ''SETUID'', ''SETGID'']"

text \<open>
  The posture of every container the backend creates, and of every process it starts by its own decision
  as root: only the ownership fix and the archiver's three commands.
\<close>

definition locked_down :: "string list \<Rightarrow> container_config \<Rightarrow> bool" where
  "locked_down opts c \<longleftrightarrow> hc_cap_drop (cc_host c) = [''ALL''] \<and> hc_security_opt (cc_host c) = opts \<and>
     set (hc_cap_add (cc_host c)) \<subseteq> set bootstrap_capabilities \<and>
     (hc_network_mode (cc_host c) = ''none'' \<or> startswith (hc_network_mode (cc_host c)) ''container:'') \<and>
     hc_memory_swap (cc_host c) = hc_memory (cc_host c)"

fun hardened :: "string list \<Rightarrow> engine_event \<Rightarrow> bool" where
  "hardened opts (ContainerRan n c r) = locked_down opts c"
| "hardened opts e = True"

definition seals :: "string list \<Rightarrow> docker \<Rightarrow> docker \<Rightarrow> bool" where
  "seals opts d d' \<longleftrightarrow> (dk_security_opts d = opts \<longrightarrow> extends (hardened opts) d d')"

interpretation seal: frame_relation "seals opts" for opts :: "string list"
  by unfold_locales (auto simp: seals_def extends_security intro: ext.refl_rel ext.trans_rel)

lemma seals_extends: "moves (extends (hardened opts)) m \<Longrightarrow> moves (seals opts) m"
  by (simp add: moves_def seals_def)

lemma seals_opts: "moves (seals opts) (f opts) \<Longrightarrow> moves (seals opts) (bind_em (gets_em dk_security_opts) f)"
  by (auto simp: moves_def seals_def bind_em_run)

lemma main_config_locked_down: "main_config opts spec i = Inr c \<Longrightarrow> locked_down opts c"
  by (auto simp: main_config_def main_host_config_def locked_down_def bootstrap_capabilities_def Let_def split: sum.splits)

lemma sidecar_config_locked_down: "sidecar_config opts i main s = Inr c \<Longrightarrow> locked_down opts c"
  by (auto simp: sidecar_config_def sidecar_host_config_def locked_down_def bootstrap_capabilities_def startswith_def
      split: sum.splits)

lemma mount_config_locked_down:
  "set caps \<subseteq> set bootstrap_capabilities \<Longrightarrow> locked_down opts (mount_config img v m ro caps opts)"
  by (simp add: mount_config_def locked_down_def)

lemma force_remove_extends [moves_intro]: "(\<And>r. P (ContainerDeleted i r)) \<Longrightarrow> moves (extends P) (force_remove i)"
  unfolding force_remove_def by (intro moves_intro)

lemma fix_workspace_ownership_extends [moves_intro]:
  "(\<And>x r. P (ExecCreated i x r)) \<Longrightarrow> (\<And>x r. P (ExecDrained x r)) \<Longrightarrow> (\<And>x r. P (ExecInspected x r)) \<Longrightarrow>
   moves (extends P) (fix_workspace_ownership i w)"
  unfolding fix_workspace_ownership_def by (intro moves_intro)

declare exec_capture_extends [moves_intro]

lemma run_container_extends [moves_intro]:
  "(\<And>r. P (ContainerRan n c r)) \<Longrightarrow> (\<And>i r. P (ContainerDeleted i r)) \<Longrightarrow> moves (extends P) (run_container n c ref)"
  unfolding run_container_def
  by (intro moves_intro) (auto split: exn.split intro!: moves_intro)

lemma settle_main_extends [moves_intro]:
  "(\<And>i r. P (ContainerShown i r)) \<Longrightarrow> (\<And>us. P (Slept us)) \<Longrightarrow> (\<And>i x r. P (ExecCreated i x r)) \<Longrightarrow> (\<And>x r. P (ExecDrained x r)) \<Longrightarrow>
   (\<And>x r. P (ExecInspected x r)) \<Longrightarrow> (\<And>i r. P (ContainerDeleted i r)) \<Longrightarrow> moves (extends P) (settle_main spec main)"
  unfolding settle_main_def by (intro moves_intro)

lemma wait_sidecar_healthy_hardened [moves_intro]: "moves (extends (hardened opts)) (wait_sidecar_healthy c nm check)"
  by (intro moves_intro) simp_all

lemma create_sidecar_seals: "moves (seals opts) (create_sidecar i main s)"
  unfolding create_sidecar_def
proof (rule seals_opts, rule seals_extends)
  have run: "moves (extends (hardened opts)) (run_container n c ref)" if "locked_down opts c" for n c ref
    using that by (intro moves_intro) simp_all
  show "moves (extends (hardened opts)) (bind_em (lift_em (sidecar_config opts i main s))
      (\<lambda>config. run_container (container_name_prefix @ i @ ''-'' @ sc_name s) config (sc_name s)))"
    by (cases "sidecar_config opts i main s")
      (auto simp: moves_def bind_em_run intro: ext.refl_rel movesD [OF run [OF sidecar_config_locked_down]])
qed

lemma launch_sidecars_seals: "moves (seals opts) (launch_sidecars i main ss refs)"
proof (rule movesI)
  fix d r d' assume "launch_sidecars i main ss refs d = (r, d')"
  then show "seals opts d d'"
  proof (induction i main ss refs d arbitrary: r d' rule: launch_sidecars.induct)
    case (2 i main s ss refs d)
    obtain q d1 where c: "create_sidecar i main s d = (q, d1)" by (cases "create_sidecar i main s d")
    have s1: "seals opts d d1" using movesD' [OF create_sidecar_seals c] .
    show ?case
    proof (cases "q = projl (Inl q) \<and> (\<exists>e. q = Inl e)")
      case True with "2.prems" c s1 show ?thesis by auto
    next
      case False
      then obtain k where q: "q = Inr k" by (cases q) auto
      have h: "seals opts d1 (snd (wait_sidecar_healthy k (sc_name s) check d1))" for check
        by (rule movesD [OF seals_extends [OF wait_sidecar_healthy_hardened]])
      show ?thesis
        using "2.prems" c q s1 h "2.IH" seal.trans_rel [OF s1]
        by (auto simp: Let_def split: option.splits list.splits prod.splits sum.splits)
          (metis seal.trans_rel snd_conv)+
    qed
  qed (auto intro: seal.refl_rel)
qed

lemma acquire_seals: "moves (seals opts) (docker_acquire spec)"
proof -
  have run: "moves (seals opts) (bind_em (lift_em (main_config opts spec i)) f)"
    if "\<And>c. locked_down opts c \<Longrightarrow> moves (seals opts) (f c)" for f :: "container_config \<Rightarrow> 'b dk" and i
    using that main_config_locked_down [of opts spec i]
    by (cases "main_config opts spec i") (auto simp: moves_def bind_em_run intro: seal.refl_rel)
  show ?thesis
    unfolding docker_acquire_def
    by (intro seal.bind_moves [where m = engine_uuid] seal.seq_moves seal.option_moves seals_opts run
          seal.bind_moves [where m = "run_container n c k" for n c k] seal.bind_moves [where m = "launch_sidecars a b c e" for a b c e]
          seal.bind_moves [where m = engine_now] seal.prod_moves seal.return_moves seal.raise_moves seal.for_moves
          launch_sidecars_seals)
      (auto intro!: seals_extends moves_intro)
qed

lemma seals_happened: "moves (seals (dk_security_opts d)) m \<Longrightarrow> list_all (hardened (dk_security_opts d)) (happened d (snd (m d)))"
  using movesD [of "seals (dk_security_opts d)" m d] by (auto simp: seals_def intro: extends_happened)

lemma mount_operations_seal:
  "moves (seals opts) (exec_against_workspace_mount i img cmd)" "moves (seals opts) (docker_restore_workspace i data img)"
proof -
  have caps: "set [] \<subseteq> set bootstrap_capabilities" "set [''CHOWN''] \<subseteq> set bootstrap_capabilities"
    by (simp_all add: bootstrap_capabilities_def)
  have run: "locked_down opts (mount_config img v m ro [] opts)"
    "locked_down opts (mount_config img v m ro [''CHOWN''] opts)" for v m ro
    by (rule mount_config_locked_down [OF caps(1)], rule mount_config_locked_down [OF caps(2)])
  show "moves (seals opts) (exec_against_workspace_mount i img cmd)"
    unfolding exec_against_workspace_mount_def
    by (rule seals_opts, rule seals_extends, intro moves_intro) (simp_all add: run)
  show "moves (seals opts) (docker_restore_workspace i data img)"
    unfolding docker_restore_workspace_def
    by (rule seal.seq_moves, rule seals_extends, intro moves_intro, simp, rule seals_opts, rule seals_extends, intro moves_intro)
      (simp_all add: run)
qed


subsection \<open>User code does not run as root\<close>

fun as_sandbox_user :: "string \<Rightarrow> engine_event \<Rightarrow> bool" where
  "as_sandbox_user ref (ExecCreated i x r) = (i = ref \<and> xc_user x = ''10001:10001'')"
| "as_sandbox_user ref (ContainerRan n c r) = False"
| "as_sandbox_user ref e = True"

lemma sandbox_exec_user [simp]: "sandbox_exec_user = ''10001:10001''"
  by (simp add: sandbox_exec_user_def sandbox_uid_def int_str_def nat_str.simps digit_chr_def)

lemma exec_with_stdin_extends [moves_intro]:
  assumes "\<And>x r. xc_user x = user \<Longrightarrow> P (ExecCreated c x r)" "\<And>x r. P (ExecStarted x r)" "\<And>x s r. P (ExecWritten x s r)"
    "\<And>x r. P (ExecStreamed x r)" "\<And>x r. P (ExecInspected x r)"
  shows "moves (extends P) (exec_with_stdin c cmd stdin t m user wd i)"
  unfolding exec_with_stdin_def by (intro moves_intro) (auto intro: assms)

text \<open>
  C9. Whatever a caller runs, uploads, reads or lists in a sandbox, and the shell a terminal is attached to,
  runs in the sandbox's own container under the uid 10001, never as root; none of these operations creates a
  container.
\<close>

theorem user_code_is_not_root:
  "list_all (as_sandbox_user (h_native_ref h)) (happened d (snd (docker_exec_batch loads h command d))) \<and>
   list_all (as_sandbox_user (h_native_ref h)) (happened d (snd (docker_exec_in h ''main'' cmd stdin t m d))) \<and>
   list_all (as_sandbox_user (h_native_ref h)) (happened d (snd (docker_put_files h files d))) \<and>
   list_all (as_sandbox_user (h_native_ref h)) (happened d (snd (docker_get_file h path d))) \<and>
   list_all (as_sandbox_user (h_native_ref h)) (happened d (snd (docker_list_tree h path d))) \<and>
   list_all (as_sandbox_user (h_native_ref h)) (happened d (snd (docker_recycle h d))) \<and>
   list_all (as_sandbox_user (h_native_ref h)) (happened d (snd (docker_attach h d)))"
proof -
  let ?P = "extends (as_sandbox_user (h_native_ref h))"
  have lift: "bind_em (lift_em (Inr x)) f = f x" for x :: string and f :: "string \<Rightarrow> 'b dk"
    by (rule ext) (simp add: bind_em_run)
  have ops: "moves ?P (docker_put_files h fs)" "moves ?P (docker_get_file h path)" "moves ?P (docker_list_tree h path)"
    "moves ?P (docker_recycle h)" "moves ?P (docker_attach h)" "moves ?P (read_variable_dump loads (h_native_ref h))" for fs
    unfolding docker_put_files_def write_file_via_exec_def docker_get_file_def docker_list_tree_def docker_recycle_def
      docker_attach_def read_variable_dump_def map_em_def exec_capture_def
    by (intro moves_intro; simp)+
  moreover have "moves ?P (docker_exec_in h ''main'' cmd stdin t m)"
    unfolding docker_exec_in_def resolve_target_def by (simp only: lift simp_thms if_True, intro moves_intro) auto
  moreover have "moves ?P (docker_exec_batch loads h command)"
    unfolding docker_exec_batch_def by (intro moves_intro ops) auto
  ultimately show ?thesis by (simp add: extends_happened movesD)
qed

end
