(* ===== verification/Docker_Cleanup.thy ===== *)
theory Docker_Cleanup
  imports Docker_Laws
begin

section \<open>No container is left behind\<close>

text \<open>
  The book-keeping of containers along the history: which ones a call brought into being, which ones were
  given up by a forced removal, and which are left over.
\<close>

fun created_by :: "engine_event \<Rightarrow> string list" where
  "created_by (ContainerRan n c (Inr i)) = [i]"
| "created_by (ContainerRan n c (Inl (DockerContainerError s i m))) = [i]"
| "created_by e = []"

fun removed_by :: "engine_event \<Rightarrow> string list" where
  "removed_by (ContainerDeleted i r) = [i]"
| "removed_by e = []"

fun left_over :: "string list \<Rightarrow> engine_event list \<Rightarrow> string list" where
  "left_over live [] = live"
| "left_over live (e # es) = left_over (filter (\<lambda>i. i \<notin> set (removed_by e)) live @ created_by e) es"

lemma left_over_append [simp]: "left_over live (xs @ ys) = left_over (left_over live xs) ys"
  by (induction xs arbitrary: live) simp_all

definition uneventful :: "engine_event \<Rightarrow> bool" where
  "uneventful e \<longleftrightarrow> created_by e = [] \<and> removed_by e = []"

lemma uneventful_simps [simp]:
  "uneventful (ContainerShown i r)" "uneventful (ExecCreated i x s)" "uneventful (ExecDrained i t)"
  "uneventful (ExecInspected i u)" "uneventful (ExecStarted i v)" "uneventful (ExecWritten i k v)"
  "uneventful (Slept us)" "uneventful (VolumeCreated i v)" "uneventful (ExecStreamed i y)" "uneventful (ContainerStopped i v)"
  by (simp_all add: uneventful_def)

lemma left_over_uneventful [simp]: "list_all uneventful es \<Longrightarrow> left_over live es = live"
  by (induction es arbitrary: live) (auto simp: uneventful_def)

text \<open>
  The engine's refusals are aiodocker's exceptions (or those of the HTTP client below it), never the control
  plane's own classes.
\<close>

definition foreign_errors :: "engine \<Rightarrow> bool" where
  "foreign_errors en \<longleftrightarrow>
     (\<forall>tr x e. en_volume_create en tr x = Inl e \<longrightarrow> \<not> is_kubesandbox_error e) \<and>
     (\<forall>tr n c e. en_run en tr n c = Inl e \<longrightarrow> \<not> is_kubesandbox_error e) \<and>
     (\<forall>tr x e. en_show en tr x = Inl e \<longrightarrow> \<not> is_kubesandbox_error e) \<and>
     (\<forall>tr x e. en_delete en tr x = Inl e \<longrightarrow> \<not> is_kubesandbox_error e) \<and>
     (\<forall>tr i x e. en_exec en tr i x = Inl e \<longrightarrow> \<not> is_kubesandbox_error e) \<and>
     (\<forall>tr x e. en_drain en tr x = Inl e \<longrightarrow> \<not> is_kubesandbox_error e) \<and>
     (\<forall>tr x e. en_inspect en tr x = Inl e \<longrightarrow> \<not> is_kubesandbox_error e)"

lemma provisioner_error_kubesandbox: "is_provisioner_error e \<Longrightarrow> is_kubesandbox_error e"
  by (cases e) simp_all

lemma docker_error_foreign: "is_docker_error e \<Longrightarrow> \<not> is_kubesandbox_error e"
  by (cases e) simp_all

definition anything :: "engine_event \<Rightarrow> bool" where "anything e = True"

lemma anything_simp: "anything e" by (simp add: anything_def)

lemma quiet_step: "moves (extends uneventful) m \<Longrightarrow> m d = (r, d') \<Longrightarrow> left_over live (happened d d') = live"
  by (metis extends_happened left_over_uneventful movesD')

lemma force_remove_run:
  assumes "force_remove i d = (r, d')"
  shows "left_over live (happened d d') = filter (\<lambda>k. k \<noteq> i) live \<and> dk_engine d' = dk_engine d"
    and "foreign_errors (dk_engine d) \<Longrightarrow> r = Inl e \<Longrightarrow> \<not> is_kubesandbox_error e"
  using assms
  by (auto simp: force_remove_def container_delete_def em_simps foreign_errors_def split: sum.splits if_splits)

lemma force_remove_all:
  assumes "for_em is force_remove d = (r, d')" "foreign_errors (dk_engine d)"
  shows "case r of Inr _ \<Rightarrow> left_over live (happened d d') = filter (\<lambda>k. k \<notin> set is) live | Inl e \<Rightarrow> \<not> is_kubesandbox_error e"
  using assms
proof (induction "is" arbitrary: d live)
  case (Cons i "is")
  obtain q d1 where f: "force_remove i d = (q, d1)" by (cases "force_remove i d")
  note one = force_remove_run [OF f]
  show ?case
  proof (cases q)
    case (Inl e)
    then show ?thesis using Cons.prems f one(2) by (auto simp: bind_em_run)
  next
    case (Inr u)
    with Cons.prems f have rest: "for_em is force_remove d1 = (r, d')" by (simp add: bind_em_run)
    have "moves (extends anything) (for_em is force_remove)" by (intro moves_intro anything_simp)
    from movesD' [OF this rest] have "extends anything d1 d'" .
    moreover have "extends anything d d1" using movesD' [OF force_remove_extends f] anything_simp by blast
    ultimately have h: "happened d d' = happened d d1 @ happened d1 d'" by (rule happened_trans [rotated])
    from Cons.IH [OF rest, of "filter (\<lambda>k. k \<noteq> i) live"] one(1) [of live] Cons.prems(2) h show ?thesis
      by (auto split: sum.splits intro: filter_cong)
  qed
qed auto

lemma created_by_failure: "\<not> is_docker_error e \<Longrightarrow> created_by (ContainerRan n c (Inl e)) = []"
  by (cases e) simp_all

lemma run_container_run:
  assumes "run_container n c ref d = (r, d')"
  shows "dk_engine d' = dk_engine d"
    and "r = Inr i \<Longrightarrow> happened d d' = [ContainerRan n c (Inr i)]"
    and "r = Inl e \<Longrightarrow> set (left_over live (happened d d')) \<subseteq> set live"
  using assms
  by (auto simp: run_container_def force_remove_def container_delete_def containers_run_def em_simps happened_def created_by_failure
      split: sum.splits if_splits exn.splits)

lemma startup_errors:
  assumes "seq_em (wait_container_running c t) (when_em b (fix_workspace_ownership c wd)) d = (Inl e, d')"
    "foreign_errors (dk_engine d)"
  shows "is_provisioner_error e \<or> \<not> is_kubesandbox_error e"
proof -
  obtain q d1 where w: "wait_container_running c t d = (q, d1)" by (cases "wait_container_running c t d")
  have "extends anything d d1" using movesD' [OF wait_container_running_extends w] anything_simp by blast
  then have en: "dk_engine d1 = dk_engine d" by (simp add: extends_def)
  show ?thesis
  proof (cases q)
    case (Inl x)
    with assms w have "e = x" by (simp add: seq_em_run)
    with Inl wait_loop_result [OF w [unfolded wait_container_running_def]] assms(2) show ?thesis
      by (auto simp: foreign_errors_def)
  next
    case (Inr u)
    with assms w have "fix_workspace_ownership c wd d1 = (Inl e, d')" by (simp add: seq_em_run split: if_splits)
    then show ?thesis using assms(2) en
      by (auto simp: fix_workspace_ownership_def container_exec_def exec_drain_def exec_inspect_def em_simps foreign_errors_def
          split: sum.splits if_splits)
  qed
qed

lemma settle_main_run:
  assumes run: "settle_main spec main d = (r, d')" and foreign: "foreign_errors (dk_engine d)"
  shows "case r of
      Inr _ \<Rightarrow> left_over live (happened d d') = live
    | Inl e \<Rightarrow> \<not> is_kubesandbox_error e \<or> left_over live (happened d d') = filter (\<lambda>k. k \<noteq> main) live"
proof -
  let ?body = "seq_em (wait_container_running main running_timeout_us)
      (when_em (sp_workspace_id spec \<noteq> None) (fix_workspace_ownership main (sp_workdir spec)))"
  have ext: "moves (extends uneventful) ?body" by (intro moves_intro uneventful_simps)
  obtain q d1 where b: "?body d = (q, d1)" by (cases "?body d")
  have quiet: "left_over live (happened d d1) = live" by (rule quiet_step [OF ext b])
  have en: "dk_engine d1 = dk_engine d" using movesD' [OF ext b] by (simp add: extends_def)
  show ?thesis
  proof (cases q)
    case (Inr u)
    with run b have "r = Inr ()" "d' = d1" by (simp_all add: settle_main_def catch_em_run)
    with quiet show ?thesis by simp
  next
    case (Inl e)
    show ?thesis
    proof (cases "is_provisioner_error e")
      case False
      with run b Inl startup_errors [OF b [unfolded Inl] foreign] show ?thesis
        by (auto simp: settle_main_def catch_em_run)
    next
      case True
      obtain k d2 where f: "force_remove main d1 = (k, d2)" by (cases "force_remove main d1")
      have "extends anything d1 d2" using movesD' [OF force_remove_extends f] anything_simp by blast
      then have "happened d d2 = happened d d1 @ happened d1 d2"
        using movesD' [OF ext b] by (rule happened_trans [rotated])
      with quiet force_remove_run(1) [OF f, of live] have "left_over live (happened d d2) = filter (\<lambda>k. k \<noteq> main) live" by simp
      with run b Inl True f force_remove_run(2) [OF f] foreign en show ?thesis
        by (auto simp: settle_main_def catch_em_run seq_em_run split: sum.splits)
    qed
  qed
qed

lemma create_sidecar_run:
  assumes "create_sidecar i main s d = (r, d')"
  shows "extends anything d d'"
    and "r = Inr k \<Longrightarrow> \<exists>n c. happened d d' = [ContainerRan n c (Inr k)]"
    and "r = Inl e \<Longrightarrow> set (left_over live (happened d d')) \<subseteq> set live"
proof -
  have "moves (extends anything) (create_sidecar i main s)"
    unfolding create_sidecar_def by (intro moves_intro anything_simp)
  from movesD' [OF this assms] show "extends anything d d'" .
  show "r = Inr k \<Longrightarrow> \<exists>n c. happened d d' = [ContainerRan n c (Inr k)]"
    using assms by (auto simp: create_sidecar_def em_simps split: sum.splits dest: run_container_run(2))
  show "r = Inl e \<Longrightarrow> set (left_over live (happened d d')) \<subseteq> set live"
    using assms by (auto simp: create_sidecar_def em_simps split: sum.splits dest!: run_container_run(3))
qed

lemma update_fresh: "k \<notin> fst ` set al \<Longrightarrow> AList.update k v al = al @ [(k, v)]"
  by (induction al) auto

lemma launch_sidecars_run:
  assumes "launch_sidecars i main ss refs d = (r, d')" "distinct (map fst refs @ map sc_name ss)"
  shows "extends anything d d' \<and> (\<exists>failure refs'. r = Inr (failure, refs') \<and>
    (case failure of
       None \<Rightarrow> map fst refs' = map fst refs @ map sc_name ss \<and>
         left_over (main # map snd refs) (happened d d') = main # map snd refs'
     | Some e \<Rightarrow> set (left_over (main # map snd refs) (happened d d')) \<subseteq> set (main # map snd refs')))"
  using assms
proof (induction i main ss refs d arbitrary: r d' rule: launch_sidecars.induct)
  case (1 i main refs d)
  then show ?case by (auto intro: ext.refl_rel)
next
  case (2 i main s ss refs d)
  obtain q d1 where c: "create_sidecar i main s d = (q, d1)" by (cases "create_sidecar i main s d")
  note cr = create_sidecar_run [OF c]
  show ?case
  proof (cases q)
    case (Inl e)
    with "2.prems" c cr(1) cr(3) [OF Inl, of "main # map snd refs"] show ?thesis by auto
  next
    case (Inr k)
    let ?refs = "refs @ [(sc_name s, k)]"
    have upd: "AList.update (sc_name s) k refs = ?refs" using "2.prems"(2) by (intro update_fresh) auto
    have dist: "distinct (map fst ?refs @ map sc_name ss)" using "2.prems"(2) by auto
    have one: "left_over (main # map snd refs) (happened d d1) = main # map snd ?refs" using cr(2) [OF Inr] by auto
    show ?thesis
    proof (cases "\<exists>x xs. sc_health_check s = Some (x # xs)")
      case False
      then have run: "launch_sidecars i main ss ?refs d1 = (r, d')"
        using "2.prems"(1) c Inr upd by (cases "sc_health_check s") (auto simp: Let_def split: list.splits)
      have "extends anything d1 d' \<and> (\<exists>failure refs'. r = Inr (failure, refs') \<and>
        (case failure of
           None \<Rightarrow> map fst refs' = map fst ?refs @ map sc_name ss \<and>
             left_over (main # map snd ?refs) (happened d1 d') = main # map snd refs'
         | Some e \<Rightarrow> set (left_over (main # map snd ?refs) (happened d1 d')) \<subseteq> set (main # map snd refs')))"
      proof (cases "sc_health_check s")
        case None
        with False "2.IH" c Inr upd dist \<open>launch_sidecars i main ss ?refs d1 = (r, d')\<close> show ?thesis by simp
      next
        case (Some a)
        with False have "a = []" by (cases a) auto
        with Some "2.IH" c Inr upd dist \<open>launch_sidecars i main ss ?refs d1 = (r, d')\<close> show ?thesis by simp
      qed
      with one cr(1) happened_trans [of anything d d1 anything d'] show ?thesis
        by (auto intro: ext.trans_rel split: option.splits)
    next
      case True
      then obtain x xs where check: "sc_health_check s = Some (x # xs)" by blast
      obtain v d2 where w: "wait_sidecar_healthy k (sc_name s) (x # xs) d1 = (v, d2)"
        by (cases "wait_sidecar_healthy k (sc_name s) (x # xs) d1")
      have ext: "extends uneventful d1 d2" using movesD' [OF wait_sidecar_healthy_extends w] by simp
      then have ext': "extends anything d1 d2" by (rule extends_mono) (rule anything_simp)
      have two: "left_over (main # map snd refs) (happened d d2) = main # map snd ?refs"
        using one left_over_uneventful [OF extends_happened [OF ext]] happened_trans [OF cr(1) ext'] by simp
      have ext2: "extends anything d d2" by (rule ext.trans_rel [OF cr(1) ext'])
      show ?thesis
      proof (cases v)
        case (Inl e)
        with "2.prems"(1) c Inr upd check w two ext2 show ?thesis by auto
      next
        case (Inr u)
        then have "launch_sidecars i main ss ?refs d2 = (r, d')"
          using "2.prems"(1) c \<open>q = Inr k\<close> upd check w by simp
        with "2.IH" c \<open>q = Inr k\<close> upd check w Inr dist have "extends anything d2 d' \<and> (\<exists>failure refs'. r = Inr (failure, refs') \<and>
          (case failure of
             None \<Rightarrow> map fst refs' = map fst ?refs @ map sc_name ss \<and>
               left_over (main # map snd ?refs) (happened d2 d') = main # map snd refs'
           | Some e \<Rightarrow> set (left_over (main # map snd ?refs) (happened d2 d')) \<subseteq> set (main # map snd refs')))"
          by simp
        with two ext2 happened_trans [of anything d d2 anything d'] show ?thesis
          by (auto intro: ext.trans_rel split: option.splits)
      qed
    qed
  qed
qed

text \<open>What follows the start of the main container.\<close>

lemma acquire_rest:
  assumes rest: "seq_em (settle_main spec main)
        (bind_em (launch_sidecars i main (sp_sidecars spec) []) (\<lambda>(failure, refs).
          case failure of
            Some e \<Rightarrow> seq_em (for_em (map snd refs) force_remove) (seq_em (force_remove main)
              (raise_em (if is_provisioner_error e then e else ProvisionerError i)))
          | None \<Rightarrow> bind_em engine_now (\<lambda>now.
              return_em \<lparr>h_sandbox_id = i, h_backend = ''docker'', h_native_ref = main, h_created_at = now,
                h_sidecar_refs = refs, h_persistent = (sp_workspace_id spec \<noteq> None)\<rparr>))) d2 = (r, d')"
    and grown: "extends anything d d2" and foreign: "foreign_errors (dk_engine d2)"
    and start: "left_over [] (happened d d2) = [main]" and names: "distinct (map sc_name (sp_sidecars spec))"
  shows "case r of
      Inr h \<Rightarrow> left_over [] (happened d d') = h_native_ref h # map snd (h_sidecar_refs h) \<and>
        map fst (h_sidecar_refs h) = map sc_name (sp_sidecars spec)
    | Inl e \<Rightarrow> left_over [] (happened d d') = [] \<or> \<not> is_kubesandbox_error e"
proof -
  obtain s d3 where s: "settle_main spec main d2 = (s, d3)" by (cases "settle_main spec main d2")
  have "moves (extends anything) (settle_main spec main)" by (intro moves_intro anything_simp)
  note e3 = movesD' [OF this s]
  have h3: "left_over [] (happened d d3) = left_over [main] (happened d2 d3)"
    using happened_trans [OF grown e3] start by simp
  note a3 = ext.trans_rel [OF grown e3]
  have f3: "foreign_errors (dk_engine d3)" using foreign e3 by (simp add: extends_def)
  show ?thesis
  proof (cases s)
    case (Inl e)
    with rest s have "r = Inl e" "d' = d3" by (simp_all add: seq_em_run)
    with settle_main_run [OF s foreign, of "[main]"] h3 Inl show ?thesis by auto
  next
    case (Inr u)
    with settle_main_run [OF s foreign, of "[main]"] h3 have l3: "left_over [] (happened d d3) = [main]" by simp
    obtain p d4 where p: "launch_sidecars i main (sp_sidecars spec) [] d3 = (p, d4)"
      by (cases "launch_sidecars i main (sp_sidecars spec) [] d3")
    from launch_sidecars_run [OF p, unfolded list.map append_Nil, OF names] obtain failure refs where
      pr: "extends anything d3 d4" "p = Inr (failure, refs)" and
      out: "case failure of
         None \<Rightarrow> map fst refs = map sc_name (sp_sidecars spec) \<and> left_over [main] (happened d3 d4) = main # map snd refs
       | Some e \<Rightarrow> set (left_over [main] (happened d3 d4)) \<subseteq> set (main # map snd refs)"
      by blast
    have h4: "left_over [] (happened d d4) = left_over [main] (happened d3 d4)"
      using happened_trans [OF a3 pr(1)] l3 by simp
    show ?thesis
    proof (cases failure)
      case None
      with rest s Inr p pr(2) out h4 show ?thesis by (auto simp: seq_em_run bind_em_run)
    next
      case (Some e)
      have f4: "foreign_errors (dk_engine d4)" using f3 pr(1) by (simp add: extends_def)
      obtain g d5 where g: "for_em (map snd refs) force_remove d4 = (g, d5)" by (cases "for_em (map snd refs) force_remove d4")
      have "moves (extends anything) (for_em (map snd refs) force_remove)" by (intro moves_intro anything_simp)
      note e5 = movesD' [OF this g]
      obtain v d6 where v: "force_remove main d5 = (v, d6)" by (cases "force_remove main d5")
      have e6: "extends anything d5 d6" using movesD' [OF force_remove_extends v] anything_simp by blast
      have f5: "foreign_errors (dk_engine d5)" using f4 e5 by (simp add: extends_def)
      note a4 = ext.trans_rel [OF a3 pr(1)]
      show ?thesis
      proof (cases g)
        case (Inl x)
        with rest s Inr p pr(2) Some g have "r = Inl x" by (auto simp: seq_em_run bind_em_run)
        with force_remove_all [OF g f4] Inl show ?thesis by simp
      next
        case gone: (Inr u')
        have l5: "left_over [] (happened d d5) = filter (\<lambda>k. k \<notin> set (map snd refs)) (left_over [] (happened d d4))"
          using force_remove_all [OF g f4] gone happened_trans [OF a4 e5] by simp
        have "left_over [] (happened d d6) = filter (\<lambda>k. k \<noteq> main) (left_over [] (happened d d5))"
          using force_remove_run(1) [OF v] happened_trans [OF ext.trans_rel [OF a4 e5] e6] by simp
        also have "\<dots> = []" using l5 h4 out Some by (auto simp: filter_empty_conv)
        finally have "left_over [] (happened d d6) = []" .
        moreover have "d' = d6 \<and> ((\<exists>x. r = Inl x \<and> v = Inl x) \<or> (\<exists>x. r = Inl x))"
          using rest s Inr p pr(2) Some g gone v by (auto simp: seq_em_run bind_em_run split: sum.splits)
        ultimately show ?thesis by auto
      qed
    qed
  qed
qed

lemma acquire_after_preparation:
  assumes run: "docker_acquire spec d = (r, d')" and foreign: "foreign_errors (dk_engine d)"
    and names: "distinct (map sc_name (sp_sidecars spec))" and i_def: "i = en_uuid (dk_engine d) (dk_uuids d)"
    and pre: "seq_em engine_uuid (case sp_workspace_id spec of None \<Rightarrow> return_em () | Some i \<Rightarrow> volumes_create (workspace_volume_name i)) d = (Inr (), d1)"
    and c: "main_config (dk_security_opts d1) spec i = Inr c" and e1: "extends uneventful d d1"
  shows "case r of
      Inr h \<Rightarrow> left_over [] (happened d d') = h_native_ref h # map snd (h_sidecar_refs h) \<and>
        map fst (h_sidecar_refs h) = map sc_name (sp_sidecars spec)
    | Inl e \<Rightarrow> left_over [] (happened d d') = [] \<or> \<not> is_kubesandbox_error e"
proof -
  obtain k d2 where k: "run_container (container_name_prefix @ i) c i d1 = (k, d2)"
    by (cases "run_container (container_name_prefix @ i) c i d1")
  have "moves (extends anything) (run_container (container_name_prefix @ i) c i)" by (intro moves_intro anything_simp)
  note e2 = movesD' [OF this k]
  have a1: "extends anything d d1" using e1 by (rule extends_mono) (rule anything_simp)
  have l1: "left_over [] (happened d d2) = left_over [] (happened d1 d2)"
    using happened_trans [OF e1 e2] left_over_uneventful [OF extends_happened [OF e1]] by simp
  show ?thesis
  proof (cases k)
    case (Inl e)
    with run pre c k have "r = Inl e \<and> d' = d2"
      by (auto simp: docker_acquire_def em_simps i_def split: sum.splits prod.splits option.splits)
    with l1 run_container_run(3) [OF k Inl, of "[]"] show ?thesis by simp
  next
    case (Inr main)
    have l2: "left_over [] (happened d d2) = [main]" using l1 run_container_run(2) [OF k Inr] by simp
    note a2 = ext.trans_rel [OF a1 e2]
    have f2: "foreign_errors (dk_engine d2)" using foreign a2 by (simp add: extends_def)
    let ?rest = "seq_em (settle_main spec main)
      (bind_em (launch_sidecars i main (sp_sidecars spec) []) (\<lambda>(failure, refs).
        case failure of
          Some e \<Rightarrow> seq_em (for_em (map snd refs) force_remove) (seq_em (force_remove main)
            (raise_em (if is_provisioner_error e then e else ProvisionerError i)))
        | None \<Rightarrow> bind_em engine_now (\<lambda>now.
            return_em \<lparr>h_sandbox_id = i, h_backend = ''docker'', h_native_ref = main, h_created_at = now,
              h_sidecar_refs = refs, h_persistent = (sp_workspace_id spec \<noteq> None)\<rparr>)))"
    have rest: "?rest d2 = (r, d')"
      using run pre c k Inr by (auto simp: docker_acquire_def em_simps i_def split: sum.splits prod.splits option.splits)
    show ?thesis using acquire_rest [OF rest a2 f2 l2 names] .
  qed
qed

text \<open>
  C7. Acquiring a sandbox accounts for every container it started. When it returns, what is left over is the
  main container and one container for each sidecar of the specification, under its name: exactly what the
  handle lists. When it fails with an error of the control plane (a container that does not start or does not
  come up, a database that does not get healthy), every container it created has been given up by a forced
  removal. The one gap is an exception of the engine itself that passes through unhandled.
\<close>

theorem acquire_accounts_for_every_container:
  assumes run: "docker_acquire spec d = (r, d')" and foreign: "foreign_errors (dk_engine d)"
    and names: "distinct (map sc_name (sp_sidecars spec))"
  shows "case r of
      Inr h \<Rightarrow> left_over [] (happened d d') = h_native_ref h # map snd (h_sidecar_refs h) \<and>
        map fst (h_sidecar_refs h) = map sc_name (sp_sidecars spec)
    | Inl e \<Rightarrow> left_over [] (happened d d') = [] \<or> \<not> is_kubesandbox_error e"
proof -
  define i where "i = en_uuid (dk_engine d) (dk_uuids d)"
  let ?pre = "seq_em engine_uuid (case sp_workspace_id spec of None \<Rightarrow> return_em () | Some i \<Rightarrow> volumes_create (workspace_volume_name i))"
  obtain q d1 where pre: "?pre d = (q, d1)" by (cases "?pre d")
  have "moves (extends uneventful) ?pre" by (intro moves_intro uneventful_simps)
  note e1 = movesD' [OF this pre]
  show ?thesis
  proof (cases "\<exists>c. q = Inr () \<and> main_config (dk_security_opts d1) spec i = Inr c")
    case False
    with run pre have "d' = d1 \<and> (\<exists>e. r = Inl e)"
      by (auto simp: docker_acquire_def em_simps i_def split: sum.splits prod.splits option.splits)
    with left_over_uneventful [OF extends_happened [OF e1]] show ?thesis by auto
  next
    case True
    then obtain c where c: "q = Inr ()" "main_config (dk_security_opts d1) spec i = Inr c" by blast
    with pre show ?thesis using acquire_after_preparation [OF run foreign names i_def _ c(2) e1] by simp
  qed
qed

text \<open>An engine that does what it is asked: containers are numbered by the history and run at once.\<close>

definition demo_engine :: engine where
  "demo_engine = \<lparr>en_delay = (\<lambda>_. 1000), en_volume_create = (\<lambda>_ _. Inr ()), en_volume_delete = (\<lambda>_ _. Inr ()),
     en_run = (\<lambda>tr _ _. Inr (CHR ''c'' # nat_str (length tr))),
     en_show = (\<lambda>_ i. Inr \<lparr>ci_id = i, ci_running = True, ci_status = Some ''running'', ci_labels = [], ci_created = []\<rparr>),
     en_stop = (\<lambda>_ _. Inr ()), en_delete = (\<lambda>_ _. Inr ()), en_list = (\<lambda>_ _. Inr []),
     en_exec = (\<lambda>tr _ _. Inr (CHR ''x'' # nat_str (length tr))), en_drain = (\<lambda>_ _. Inr [''ok'']),
     en_stream = (\<lambda>_ _. ([Chunk 10 1 ''ok''], Eof 20)), en_inspect = (\<lambda>_ _. Inr (Some 0)),
     en_start = (\<lambda>_ _. Inr ()), en_write = (\<lambda>_ _ _. Inr ()), en_resize = (\<lambda>_ _ _ _. Inr ()), en_read = (\<lambda>_ _. Inr None),
     en_now = (\<lambda>_. 0), en_uuid = (\<lambda>n. ''u'' @ nat_str n)\<rparr>"

definition demo_docker :: docker where
  "demo_docker = docker_provisioner demo_engine ''builtin'' (Some ''docker-default'')"

definition demo_resources :: resource_spec where
  "demo_resources = \<lparr>res_cpu = ''1'', res_memory = ''512'', res_ephemeral_storage_mb = None\<rparr>"

definition database_sidecar :: sidecar_spec where
  "database_sidecar = \<lparr>sc_name = ''db'', sc_image = ''postgres'', sc_env = [], sc_resources = demo_resources, sc_ports = [],
     sc_writable_paths = [], sc_health_check = Some [''pg_isready''], sc_uid = 70, sc_max_processes = 64\<rparr>"

definition database_spec :: sandbox_spec where
  "database_spec = (default_sandbox_spec ''python'' [] demo_resources)\<lparr>sp_sidecars := [database_sidecar]\<rparr>"

lemma demo_foreign [simp]: "foreign_errors demo_engine"
  by (simp add: foreign_errors_def demo_engine_def)

lemma demo_quantities:
  "parse_cpu_to_nanocpus ''1'' = Inr 1000000000" "parse_memory_to_bytes ''512'' = Inr 512"
  by code_simp+

theorem acquire_accounts_for_every_container_witness:
  "\<exists>h d'. docker_acquire database_spec demo_docker = (Inr h, d') \<and> left_over [] (happened demo_docker d') = [''c0'', ''c2''] \<and>
     h_sidecar_refs h = [(''db'', ''c2'')]"
proof -
  let ?d = demo_docker
  obtain r d' where run: "docker_acquire database_spec ?d = (r, d')" by (cases "docker_acquire database_spec ?d")
  have d: "foreign_errors (dk_engine ?d)" "distinct (map sc_name (sp_sidecars database_spec))"
    by (simp_all add: demo_docker_def docker_provisioner_def database_spec_def default_sandbox_spec_def)
  have "\<exists>h. r = Inr h \<and> h_native_ref h = ''c0'' \<and> h_sidecar_refs h = [(''db'', ''c2'')]"
    using run
    by (auto simp: docker_acquire_def em_simps engine_calls demo_docker_def docker_provisioner_def demo_engine_def database_spec_def
        default_sandbox_spec_def database_sidecar_def demo_resources_def main_config_def sidecar_config_def demo_quantities
        run_container_def settle_main_def wait_container_running_def wait_loop.simps wait_sidecar_healthy_def health_loop.simps
        create_sidecar_def exec_capture_def nat_str.simps digit_chr_def sidecar_health_timeout_us_def Let_def)
  with acquire_accounts_for_every_container [OF run d] run show ?thesis by auto
qed

text \<open>
  The gap is real. Only \<open>ProvisionerError\<close> is caught around the wait for the main container, and a failing
  \<open>container.show()\<close> raises aiodocker's own exception, so the container it should have removed stays.
\<close>

definition refusing_engine :: engine where
  "refusing_engine = demo_engine\<lparr>en_show := (\<lambda>_ _. Inl (DockerError 500 ''server error''))\<rparr>"

theorem engine_error_leaks_the_container:
  "case docker_acquire (default_sandbox_spec ''python'' [] demo_resources) (docker_provisioner refusing_engine ''builtin'' None) of
     (r, d') \<Rightarrow> r = Inl (DockerError 500 ''server error'') \<and> left_over [] (dk_events d') = [''c0'']"
  by (simp add: docker_acquire_def em_simps engine_calls docker_provisioner_def demo_engine_def refusing_engine_def
      default_sandbox_spec_def demo_resources_def main_config_def demo_quantities run_container_def settle_main_def
      wait_container_running_def wait_loop.simps nat_str.simps digit_chr_def)

subsection \<open>Destroying a sandbox\<close>

text \<open>The engine's refusals are \<open>DockerError\<close>s: no failure of the connection itself.\<close>

definition engine_answers :: "engine \<Rightarrow> bool" where
  "engine_answers en \<longleftrightarrow>
     (\<forall>tr x e. en_stop en tr x = Inl e \<longrightarrow> is_docker_error e) \<and>
     (\<forall>tr x e. en_delete en tr x = Inl e \<longrightarrow> is_docker_error e) \<and>
     (\<forall>tr x e. en_show en tr x = Inl e \<longrightarrow> is_docker_error e) \<and>
     (\<forall>tr i x e. en_exec en tr i x = Inl e \<longrightarrow> is_docker_error e) \<and>
     (\<forall>tr x e. en_drain en tr x = Inl e \<longrightarrow> is_docker_error e) \<and>
     (\<forall>tr x e. en_inspect en tr x = Inl e \<longrightarrow> is_docker_error e)"

fun stop_or_delete :: "engine_event \<Rightarrow> (bool \<times> string) option" where
  "stop_or_delete (ContainerStopped i r) = Some (False, i)"
| "stop_or_delete (ContainerDeleted i r) = Some (True, i)"
| "stop_or_delete e = None"

definition taken_down :: "string \<Rightarrow> (bool \<times> string) option list" where
  "taken_down i = [Some (False, i), Some (True, i)]"

definition removal_verdict :: "string \<Rightarrow> exn + unit \<Rightarrow> exn + unit" where
  "removal_verdict sandbox_id q =
     (case q of
        Inr _ \<Rightarrow> Inr ()
      | Inl e \<Rightarrow> if error_status e = 404 then Inr () else Inl (ProvisionerError sandbox_id))"

lemma stop_quietly:
  assumes "engine_answers (dk_engine d)"
  obtains s d1 where "catch_em (container_stop i) is_docker_error (\<lambda>_. return_em ()) d = (Inr (), d1)"
    "dk_events d1 = dk_events d @ [ContainerStopped i s]" "dk_engine d1 = dk_engine d" "extends (\<lambda>_. True) d d1"
proof -
  obtain q d1 where c: "container_stop i d = (q, d1)" by (cases "container_stop i d")
  then have d1: "q = en_stop (dk_engine d) (dk_events d) i" "dk_events d1 = dk_events d @ [ContainerStopped i q]"
    "dk_engine d1 = dk_engine d" "extends (\<lambda>_. True) d d1"
    by (auto simp: container_stop_def engine_call_run extends_def)
  have "catch_em (container_stop i) is_docker_error (\<lambda>_. return_em ()) d = (Inr (), d1)"
    using c d1(1) assms by (cases q) (auto simp: catch_em_run engine_answers_def dest: sym)
  from that [OF this d1(2-4)] show thesis .
qed

lemma destroy_one_run:
  assumes "destroy_one i k b d = (r, d')" "engine_answers (dk_engine d)"
  shows "map stop_or_delete (happened d d') = taken_down i \<and> dk_engine d' = dk_engine d \<and> extends (\<lambda>_. True) d d' \<and>
    (\<exists>q. last (dk_events d') = ContainerDeleted i q \<and> r = (if b then Inr () else removal_verdict k q))"
proof -
  obtain s d1 where one: "catch_em (container_stop i) is_docker_error (\<lambda>_. return_em ()) d = (Inr (), d1)"
    "dk_events d1 = dk_events d @ [ContainerStopped i s]" "dk_engine d1 = dk_engine d" "extends (\<lambda>_. True) d d1"
    using stop_quietly [OF assms(2)] by metis
  obtain q d2 where c: "container_delete i d1 = (q, d2)" by (cases "container_delete i d1")
  then have two: "q = en_delete (dk_engine d1) (dk_events d1) i" "dk_events d2 = dk_events d1 @ [ContainerDeleted i q]"
    "dk_engine d2 = dk_engine d1" "extends (\<lambda>_. True) d1 d2"
    by (auto simp: container_delete_def engine_call_run extends_def)
  have "d' = d2 \<and> r = (if b then Inr () else removal_verdict k q)"
  proof (cases q)
    case (Inl e)
    with two(1) assms(2) one(3) have "is_docker_error e" by (auto simp: engine_answers_def dest: sym)
    with Inl assms(1) one(1) c show ?thesis
      by (auto simp: destroy_one_def seq_em_run catch_em_run removal_verdict_def split: if_splits)
  next
    case (Inr u)
    with assms(1) one(1) c show ?thesis by (auto simp: destroy_one_def seq_em_run catch_em_run removal_verdict_def)
  qed
  with one two ext.trans_rel [OF one(4) two(4)] show ?thesis by (auto simp: happened_def taken_down_def)
qed

lemma destroy_sidecars_run:
  assumes "for_em is (\<lambda>i. destroy_one i k True) d = (r, d')" "engine_answers (dk_engine d)"
  shows "r = Inr () \<and> map stop_or_delete (happened d d') = concat (map taken_down is) \<and> dk_engine d' = dk_engine d \<and> extends (\<lambda>_. True) d d'"
  using assms
proof (induction "is" arbitrary: d)
  case (Cons i "is")
  obtain q d1 where o: "destroy_one i k True d = (q, d1)" by (cases "destroy_one i k True d")
  note one = destroy_one_run [OF o Cons.prems(2)]
  then have q: "q = Inr ()" by auto
  with Cons.prems(1) o have rest: "for_em is (\<lambda>i. destroy_one i k True) d1 = (r, d')" by (simp add: bind_em_run)
  from Cons.IH [OF rest] one Cons.prems(2) happened_trans [of "\<lambda>_. True" d d1 "\<lambda>_. True" d'] show ?case
    by (auto intro: ext.trans_rel)
qed (auto intro: ext.refl_rel)

text \<open>
  Destroying a sandbox stops and then forcibly removes each of its containers, the databases first and the
  main container last, however the engine answers on the way. A refusal concerning a database never gets in
  the way of the main container; the call fails only when the removal of the main container was refused, and
  never because it was gone already.
\<close>

theorem destroy_takes_everything_down:
  assumes run: "docker_destroy h d = (r, d')" and engine: "engine_answers (dk_engine d)"
  shows "map stop_or_delete (happened d d') = concat (map taken_down (map snd (h_sidecar_refs h) @ [h_native_ref h])) \<and>
    (\<exists>q. last (dk_events d') = ContainerDeleted (h_native_ref h) q \<and> r = removal_verdict (h_sandbox_id h) q)"
proof -
  let ?each = "\<lambda>i. destroy_one i (h_sandbox_id h) True"
  obtain q d1 where s: "for_em (map snd (h_sidecar_refs h)) ?each d = (q, d1)" by (cases "for_em (map snd (h_sidecar_refs h)) ?each d")
  note sides = destroy_sidecars_run [OF s engine]
  with run s have main: "destroy_one (h_native_ref h) (h_sandbox_id h) False d1 = (r, d')" by (simp add: docker_destroy_def seq_em_run)
  from destroy_one_run [OF this] sides engine happened_trans [of "\<lambda>_. True" d d1 "\<lambda>_. True" d'] show ?thesis by auto
qed

definition demo_pair :: sandbox_handle where
  "demo_pair = \<lparr>h_sandbox_id = ''s'', h_backend = ''docker'', h_native_ref = ''m'', h_created_at = 0,
     h_sidecar_refs = [(''db'', ''p'')], h_persistent = False\<rparr>"

theorem destroy_takes_everything_down_witness:
  "\<exists>d'. docker_destroy demo_pair demo_docker = (Inr (), d') \<and>
     map stop_or_delete (happened demo_docker d') = [Some (False, ''p''), Some (True, ''p''), Some (False, ''m''), Some (True, ''m'')]"
proof -
  obtain r d' where run: "docker_destroy demo_pair demo_docker = (r, d')" by (cases "docker_destroy demo_pair demo_docker")
  have "engine_answers (dk_engine demo_docker)"
    by (simp add: demo_docker_def docker_provisioner_def demo_engine_def engine_answers_def)
  note down = destroy_takes_everything_down [OF run this]
  moreover have "fst (docker_destroy demo_pair demo_docker) = Inr ()"
    by (simp add: docker_destroy_def destroy_one_def em_simps engine_calls demo_pair_def demo_docker_def docker_provisioner_def demo_engine_def)
  ultimately show ?thesis using run by (auto simp: demo_pair_def taken_down_def)
qed

end
