(* ===== verification/Cluster.thy ===== *)
theory Cluster
  imports Backend Utf8 Units
begin

section \<open>The Kubernetes API as the backend sees it\<close>

text \<open>
  \<open>app/provisioners/kubernetes.py\<close> talks to an API server through \<open>kubernetes_asyncio\<close>. The objects it
  sends are records with the fields the code sets; the server is the parameter \<open>cluster\<close>, which answers a
  request as it likes, given everything that happened before; \<open>kw_events\<close> is that history. Time is kept as
  for the Docker engine: a request takes as long as the server says, a sleep at least as long as asked.
\<close>

subsection \<open>Objects\<close>

record security_context =
  sx_allow_privilege_escalation :: bool
  sx_drop :: "string list"
  sx_read_only_root_filesystem :: bool
  sx_run_as_non_root :: "bool option"
  sx_run_as_user :: "int option"
  sx_run_as_group :: "int option"

record volume_mount =
  vm_name :: string
  vm_mount_path :: string
  vm_read_only :: bool

record probe =
  pb_command :: "string list"
  pb_initial_delay_seconds :: int
  pb_period_seconds :: int
  pb_failure_threshold :: int

record k8s_container =
  kc_name :: string
  kc_image :: string
  kc_command :: "string list"
  kc_working_dir :: string
  kc_env :: "(string \<times> string) list"
  kc_requests :: "(string \<times> string) list"
  kc_limits :: "(string \<times> string) list"
  kc_ports :: "(string \<times> int) list"
  kc_security_context :: security_context
  kc_volume_mounts :: "volume_mount list"
  kc_readiness_probe :: "probe option"

text \<open>A volume is a claim on the workspace's disk (and whether it is read-only), or an empty directory.\<close>

datatype volume_source = Claim string bool | EmptyDir

record k8s_volume =
  vl_name :: string
  vl_source :: volume_source

record k8s_pod =
  kp_name :: string
  kp_namespace :: string
  kp_labels :: "(string \<times> string) list"
  kp_annotations :: "(string \<times> string) list"
  kp_restart_policy :: string
  kp_automount_token :: bool
  kp_grace_seconds :: int
  kp_runtime_class :: "string option"
  kp_node_selector :: "(string \<times> string) list option"
  kp_tolerations :: "(string \<times> string) list list option"
  kp_run_as_non_root :: bool
  kp_run_as_user :: int
  kp_run_as_group :: int
  kp_fs_group :: int
  kp_seccomp :: string
  kp_apparmor :: string
  kp_containers :: "k8s_container list"
  kp_volumes :: "k8s_volume list"

text \<open>A block of addresses without some of its sub-blocks, the only peer the code ever names.\<close>

record ip_block =
  ib_cidr :: string
  ib_except :: "string list"

record network_policy =
  np_name :: string
  np_policy_types :: "string list"
  np_ingress :: "ip_block list list"
  np_egress :: "ip_block list list"

record k8s_namespace =
  ns_name :: string
  ns_labels :: "(string \<times> string) list"
  ns_annotations :: "(string \<times> string) list"
  ns_created :: int

record limit_range =
  lr_default :: "(string \<times> string) list"
  lr_max :: "(string \<times> string) list"

text \<open>The part of a pod's status the code reads: the phase, and which containers are ready.\<close>

record pod_status =
  ps_phase :: string
  ps_ready :: "bool list"

subsection \<open>Requests and replies\<close>

datatype k8s_request =
    ReadNamespace string
  | CreateNamespace k8s_namespace
  | DeleteNamespace string
  | ListNamespaces string
  | CreateNetworkPolicy string network_policy
  | CreateResourceQuota string "(string \<times> string) list"
  | CreateLimitRange string limit_range
  | CreateClaim string string string
  | ReadPod string string
  | CreatePod string k8s_pod
  | DeletePod string string
  | OpenExec string string "string list" bool
  | SendBytes string string

datatype k8s_reply = Done | PodStatus pod_status | Namespaces "k8s_namespace list" | Socket string

text \<open>
  What an exec socket delivers: a frame whose first byte names the channel, or a message of another type.
  It closes, breaks, or stays silent for ever.
\<close>

datatype ws_message = WsFrame (ws_at: nat) string | WsOther (ws_at: nat)

datatype ws_end = WsClosed nat | WsBroken nat exn | WsSilent

datatype k8s_event =
    Asked k8s_request "exn + k8s_reply"
  | Received string "ws_message list \<times> ws_end"
  | ReadMessages string "exn + ws_message list"
  | Paused int

record cluster =
  cl_delay :: "k8s_event list \<Rightarrow> nat"
  cl_api :: "k8s_event list \<Rightarrow> k8s_request \<Rightarrow> exn + k8s_reply"
  cl_stream :: "k8s_event list \<Rightarrow> string \<Rightarrow> ws_message list \<times> ws_end"
  cl_next :: "k8s_event list \<Rightarrow> string \<Rightarrow> exn + ws_message list"
  cl_parse_error_data :: "string \<Rightarrow> exn + int"
  cl_now :: "k8s_event list \<Rightarrow> int"
  cl_uuid :: "nat \<Rightarrow> string"

record kube =
  kw_cluster :: cluster
  kw_namespace_prefix :: string
  kw_runtime_class :: "string option"
  kw_events :: "k8s_event list"
  kw_clock :: int
  kw_uuids :: nat

type_synonym 'a ku = "(kube, 'a) em"

subsection \<open>Calls\<close>

definition kube_call :: "(cluster \<Rightarrow> k8s_event list \<Rightarrow> exn + 'a) \<Rightarrow> (exn + 'a \<Rightarrow> k8s_event) \<Rightarrow> 'a ku" where
  "kube_call ask event = (\<lambda>k.
     let r = ask (kw_cluster k) (kw_events k) in
     (r, k\<lparr>kw_events := kw_events k @ [event r], kw_clock := kw_clock k + int (cl_delay (kw_cluster k) (kw_events k))\<rparr>))"

definition kube_ask :: "k8s_request \<Rightarrow> k8s_reply ku" where
  "kube_ask q = kube_call (\<lambda>cl tr. cl_api cl tr q) (Asked q)"

definition kube_do :: "k8s_request \<Rightarrow> unit ku" where
  "kube_do q = bind_em (kube_ask q) (\<lambda>_. return_em ())"

text \<open>The typed replies; a server that answers with an object of another kind is not modelled.\<close>

definition read_pod :: "string \<Rightarrow> string \<Rightarrow> pod_status ku" where
  "read_pod n ns =
     bind_em (kube_ask (ReadPod n ns)) (\<lambda>r. case r of PodStatus s \<Rightarrow> return_em s | _ \<Rightarrow> raise_em (OtherException ''AttributeError''))"

definition list_namespace :: "string \<Rightarrow> k8s_namespace list ku" where
  "list_namespace selector =
     bind_em (kube_ask (ListNamespaces selector))
       (\<lambda>r. case r of Namespaces ns \<Rightarrow> return_em ns | _ \<Rightarrow> raise_em (OtherException ''AttributeError''))"

definition open_exec :: "string \<Rightarrow> string \<Rightarrow> string list \<Rightarrow> bool \<Rightarrow> string ku" where
  "open_exec namespace container command tty =
     bind_em (kube_ask (OpenExec namespace container command tty))
       (\<lambda>r. case r of Socket s \<Rightarrow> return_em s | _ \<Rightarrow> raise_em (OtherException ''AttributeError''))"

definition receive_all :: "string \<Rightarrow> (ws_message list \<times> ws_end) ku" where
  "receive_all s =
     kube_call (\<lambda>cl tr. Inr (cl_stream cl tr s)) (\<lambda>r. Received s (case r of Inr x \<Rightarrow> x | Inl _ \<Rightarrow> ([], WsSilent)))"

text \<open>The messages up to the next one that concerns a terminal, or up to the close.\<close>

definition receive_some :: "string \<Rightarrow> ws_message list ku" where
  "receive_some s = kube_call (\<lambda>cl tr. cl_next cl tr s) (ReadMessages s)"

definition kube_sleep :: "nat \<Rightarrow> unit ku" where
  "kube_sleep us = (\<lambda>k.
     (Inr (), k\<lparr>kw_events := kw_events k @ [Paused (int us)],
       kw_clock := kw_clock k + int us + int (cl_delay (kw_cluster k) (kw_events k))\<rparr>))"

definition kube_wait :: "nat \<Rightarrow> unit ku" where
  "kube_wait us = modify_em (\<lambda>k. k\<lparr>kw_clock := kw_clock k + int us\<rparr>)"

definition kube_clock :: "int ku" where
  "kube_clock = gets_em kw_clock"

definition kube_now :: "int ku" where
  "kube_now = gets_em (\<lambda>k. cl_now (kw_cluster k) (kw_events k))"

definition kube_uuid :: "string ku" where
  "kube_uuid = (\<lambda>k. (Inr (cl_uuid (kw_cluster k) (kw_uuids k)), k\<lparr>kw_uuids := Suc (kw_uuids k)\<rparr>))"

definition parse_error_data :: "string \<Rightarrow> int ku" where
  "parse_error_data frame = bind_em (gets_em kw_cluster) (\<lambda>cl. lift_em (cl_parse_error_data cl frame))"

lemma kube_call_run [em_simps]:
  "kube_call ask event k =
     (ask (kw_cluster k) (kw_events k), k\<lparr>kw_events := kw_events k @ [event (ask (kw_cluster k) (kw_events k))],
        kw_clock := kw_clock k + int (cl_delay (kw_cluster k) (kw_events k))\<rparr>)"
  by (simp add: kube_call_def Let_def)

lemma kube_sleep_run [simp, em_simps]:
  "kube_sleep us k = (Inr (), k\<lparr>kw_events := kw_events k @ [Paused (int us)],
     kw_clock := kw_clock k + int us + int (cl_delay (kw_cluster k) (kw_events k))\<rparr>)"
  by (simp add: kube_sleep_def)

lemma kube_uuid_run [simp, em_simps]:
  "kube_uuid k = (Inr (cl_uuid (kw_cluster k) (kw_uuids k)), k\<lparr>kw_uuids := Suc (kw_uuids k)\<rparr>)"
  by (simp add: kube_uuid_def)

subsection \<open>What every computation does to the history and the clock\<close>

definition advances :: "(k8s_event \<Rightarrow> bool) \<Rightarrow> kube \<Rightarrow> kube \<Rightarrow> bool" where
  "advances P k k' \<longleftrightarrow> kw_cluster k' = kw_cluster k \<and> kw_namespace_prefix k' = kw_namespace_prefix k \<and>
     kw_runtime_class k' = kw_runtime_class k \<and> kw_clock k \<le> kw_clock k' \<and>
     (\<exists>evs. kw_events k' = kw_events k @ evs \<and> list_all P evs)"

interpretation adv: frame_relation "advances P" for P :: "k8s_event \<Rightarrow> bool"
  by unfold_locales (auto simp: advances_def)

declare adv.all_moves [moves_intro]

definition occurred :: "kube \<Rightarrow> kube \<Rightarrow> k8s_event list" where
  "occurred k k' = drop (length (kw_events k)) (kw_events k')"

lemma occurred_append [simp]: "kw_events k' = kw_events k @ evs \<Longrightarrow> occurred k k' = evs"
  by (simp add: occurred_def)

lemma occurred_self [simp]: "occurred k k = []"
  by (simp add: occurred_def)

lemma advances_occurred: "advances P k k' \<Longrightarrow> list_all P (occurred k k')"
  by (auto simp: advances_def)

lemma occurred_trans: "advances P k l \<Longrightarrow> advances Q l m \<Longrightarrow> occurred k m = occurred k l @ occurred l m"
  by (auto simp: advances_def occurred_def)

lemma advances_mono: "advances P k k' \<Longrightarrow> (\<And>e. P e \<Longrightarrow> Q e) \<Longrightarrow> advances Q k k'"
  by (auto simp: advances_def list_all_iff)

lemma kube_call_advances: "(\<And>r. P (event r)) \<Longrightarrow> moves (advances P) (kube_call ask event)"
  by (simp add: moves_def advances_def kube_call_run)

lemma kube_primitives_advance [moves_intro]:
  "moves (advances P) (kube_wait us)" "moves (advances P) kube_clock" "moves (advances P) kube_now" "moves (advances P) kube_uuid"
  "P (Paused (int us)) \<Longrightarrow> moves (advances P) (kube_sleep us)"
  by (simp_all add: moves_def advances_def kube_wait_def kube_clock_def kube_now_def)

lemma kube_ask_advances [moves_intro]: "(\<And>r. P (Asked q r)) \<Longrightarrow> moves (advances P) (kube_ask q)"
  by (simp add: kube_ask_def kube_call_advances)

lemma reply_moves [moves_intro]:
  assumes "moves (advances P) a" "\<And>x. moves (advances P) (b x)" "\<And>x. moves (advances P) (c x)" "\<And>x. moves (advances P) (d x)"
  shows "moves (advances P) (case r of Done \<Rightarrow> a | PodStatus x \<Rightarrow> b x | Namespaces x \<Rightarrow> c x | Socket x \<Rightarrow> d x)"
  using assms by (cases r) simp_all

lemma kube_calls_advance [moves_intro]:
  "(\<And>r. P (Asked q r)) \<Longrightarrow> moves (advances P) (kube_do q)"
  "(\<And>r. P (Asked (ReadPod n ns) r)) \<Longrightarrow> moves (advances P) (read_pod n ns)"
  "(\<And>r. P (Asked (ListNamespaces l) r)) \<Longrightarrow> moves (advances P) (list_namespace l)"
  "(\<And>r. P (Asked (OpenExec ns c cmd tty) r)) \<Longrightarrow> moves (advances P) (open_exec ns c cmd tty)"
  "(\<And>r. P (Received s r)) \<Longrightarrow> moves (advances P) (receive_all s)"
  "(\<And>r. P (ReadMessages s r)) \<Longrightarrow> moves (advances P) (receive_some s)"
  "moves (advances P) (parse_error_data f)"
  unfolding kube_do_def read_pod_def list_namespace_def open_exec_def receive_all_def receive_some_def parse_error_data_def
  by (intro moves_intro kube_call_advances; simp)+

end
