(* ===== verification/Kubernetes.thy ===== *)
theory Kubernetes
  imports Cluster Docker_Exec
begin

section \<open>The Kubernetes backend\<close>

text \<open>
  \<open>app/provisioners/kubernetes.py\<close>: the objects a sandbox consists of, and the lifecycle of its namespace.
  \<open>_RawExecResult\<close>, which the module declares a second time, is the record of the Docker backend.
\<close>

subsection \<open>Constants and helpers\<close>

definition pod_name :: string where "pod_name = ''sandbox''"
definition main_container :: string where "main_container = ''main''"
definition workspace_pvc_name :: string where "workspace_pvc_name = ''workspace-pvc''"
definition default_workspace_size_mb :: int where "default_workspace_size_mb = 1024"
definition termination_grace_seconds :: int where "termination_grace_seconds = 5"
definition pod_ready_timeout_us :: int where "pod_ready_timeout_us = 60 * us_per_second"
definition pod_gone_timeout_us :: int where "pod_gone_timeout_us = 30 * us_per_second"
definition pod_poll_us :: nat where "pod_poll_us = 500000"
definition file_op_timeout_seconds :: int where "file_op_timeout_seconds = 30"
definition workspace_id_label :: string where "workspace_id_label = ''io.kubesandbox.workspace-id''"
definition link_local_cidr :: string where "link_local_cidr = ''169.254.0.0/16''"

definition path_slug :: "string \<Rightarrow> string" where
  "path_slug path =
     (let stripped = rev (dropWhile (\<lambda>c. c = CHR ''/'') (rev (dropWhile (\<lambda>c. c = CHR ''/'') path)));
          slug = map (\<lambda>c. if c = CHR ''/'' then CHR ''-'' else c) stripped
      in if slug = [] then ''root'' else slug)"

definition volume_name :: "string \<Rightarrow> string" where
  "volume_name path = ''vol-'' @ path_slug path"

definition sidecar_volume_name :: "string \<Rightarrow> string \<Rightarrow> string" where
  "sidecar_volume_name sidecar path = ''vol-'' @ sidecar @ ''-'' @ path_slug path"

text \<open>The amounts of the main container and of every sidecar, which parsing may refuse.\<close>

fun parse_all :: "(string \<Rightarrow> exn + int) \<Rightarrow> string list \<Rightarrow> exn + int list" where
  "parse_all parse [] = Inr []"
| "parse_all parse (s # ss) =
     (case parse s of
        Inl e \<Rightarrow> Inl e
      | Inr n \<Rightarrow> (case parse_all parse ss of Inl e \<Rightarrow> Inl e | Inr ns \<Rightarrow> Inr (n # ns)))"

definition container_resources :: "sandbox_spec \<Rightarrow> resource_spec list" where
  "container_resources spec = sp_resources spec # map sc_resources (sp_sidecars spec)"

definition combined_resources :: "(int list \<Rightarrow> int) \<Rightarrow> sandbox_spec \<Rightarrow> exn + string \<times> string" where
  "combined_resources f spec =
     (case parse_all parse_cpu_to_nanocpus (map res_cpu (container_resources spec)) of
        Inl e \<Rightarrow> Inl e
      | Inr nanos \<Rightarrow>
          (case parse_all parse_memory_to_bytes (map res_memory (container_resources spec)) of
             Inl e \<Rightarrow> Inl e
           | Inr bytes \<Rightarrow> Inr (format_nanocpus_to_cpu (f nanos), format_bytes_to_memory (f bytes))))"

definition total_resources :: "sandbox_spec \<Rightarrow> exn + string \<times> string" where
  "total_resources = combined_resources sum_list"

definition max_single_container_resources :: "sandbox_spec \<Rightarrow> exn + string \<times> string" where
  "max_single_container_resources = combined_resources (\<lambda>ns. fold max (tl ns) (hd ns))"

subsection \<open>The namespace's policies, quota and limits\<close>

definition default_deny :: network_policy where
  "default_deny = \<lparr>np_name = ''default-deny'', np_policy_types = [''Ingress'', ''Egress''], np_ingress = [], np_egress = []\<rparr>"

definition deny_metadata_egress :: network_policy where
  "deny_metadata_egress =
     \<lparr>np_name = ''deny-metadata-egress'', np_policy_types = [''Egress''], np_ingress = [],
      np_egress = [[\<lparr>ib_cidr = ''0.0.0.0/0'', ib_except = [link_local_cidr]\<rparr>]]\<rparr>"

definition create_network_policy :: "string \<Rightarrow> unit ku" where
  "create_network_policy namespace =
     seq_em (kube_do (CreateNetworkPolicy namespace default_deny)) (kube_do (CreateNetworkPolicy namespace deny_metadata_egress))"

definition megabytes :: "int \<Rightarrow> string" where
  "megabytes n = int_str n @ ''Mi''"

definition quota_hard :: "sandbox_spec \<Rightarrow> exn + (string \<times> string) list" where
  "quota_hard spec =
     map_sum id (\<lambda>(cpu, memory).
       [(''pods'', ''1''), (''requests.cpu'', cpu), (''requests.memory'', memory), (''limits.cpu'', cpu), (''limits.memory'', memory)] @
       (case res_ephemeral_storage_mb (sp_resources spec) of
          None \<Rightarrow> []
        | Some n \<Rightarrow> [(''requests.ephemeral-storage'', megabytes n), (''limits.ephemeral-storage'', megabytes n)]))
       (total_resources spec)"

definition create_resource_quota :: "string \<Rightarrow> sandbox_spec \<Rightarrow> unit ku" where
  "create_resource_quota namespace spec =
     bind_em (lift_em (quota_hard spec)) (\<lambda>hard. kube_do (CreateResourceQuota namespace hard))"

definition limits_of :: "sandbox_spec \<Rightarrow> exn + limit_range" where
  "limits_of spec =
     map_sum id (\<lambda>(cpu, memory).
       \<lparr>lr_default = [(''cpu'', res_cpu (sp_resources spec)), (''memory'', res_memory (sp_resources spec))],
        lr_max = [(''cpu'', cpu), (''memory'', memory)]\<rparr>)
       (max_single_container_resources spec)"

definition create_limit_range :: "string \<Rightarrow> sandbox_spec \<Rightarrow> unit ku" where
  "create_limit_range namespace spec =
     bind_em (lift_em (limits_of spec)) (\<lambda>l. kube_do (CreateLimitRange namespace l))"

definition create_pvc :: "string \<Rightarrow> sandbox_spec \<Rightarrow> unit ku" where
  "create_pvc namespace spec =
     kube_do (CreateClaim namespace workspace_pvc_name
       (megabytes (case sp_workspace_size_mb spec of None \<Rightarrow> default_workspace_size_mb
                   | Some n \<Rightarrow> if n \<noteq> 0 then n else default_workspace_size_mb)))"

subsection \<open>The pod\<close>

definition requests_of :: "resource_spec \<Rightarrow> (string \<times> string) list" where
  "requests_of r = [(''cpu'', res_cpu r), (''memory'', res_memory r)]"

definition sidecar_container :: "sidecar_spec \<Rightarrow> k8s_container" where
  "sidecar_container s =
     \<lparr>kc_name = sc_name s, kc_image = sc_image s, kc_command = [], kc_working_dir = [], kc_env = sc_env s,
      kc_requests = requests_of (sc_resources s), kc_limits = requests_of (sc_resources s), kc_ports = sc_ports s,
      kc_security_context = \<lparr>sx_allow_privilege_escalation = False, sx_drop = [''ALL''], sx_read_only_root_filesystem = False,
        sx_run_as_non_root = Some True, sx_run_as_user = Some (sc_uid s), sx_run_as_group = Some (sc_uid s)\<rparr>,
      kc_volume_mounts = map (\<lambda>p. \<lparr>vm_name = sidecar_volume_name (sc_name s) p, vm_mount_path = p, vm_read_only = False\<rparr>)
        (sc_writable_paths s),
      kc_readiness_probe =
        (case sc_health_check s of
           Some (c # cs) \<Rightarrow> Some \<lparr>pb_command = c # cs, pb_initial_delay_seconds = 1, pb_period_seconds = 2, pb_failure_threshold = 30\<rparr>
         | _ \<Rightarrow> None)\<rparr>"

definition main_requests :: "sandbox_spec \<Rightarrow> (string \<times> string) list" where
  "main_requests spec =
     requests_of (sp_resources spec) @
     (case res_ephemeral_storage_mb (sp_resources spec) of None \<Rightarrow> [] | Some n \<Rightarrow> [(''ephemeral-storage'', megabytes n)])"

definition main_k8s_container :: "sandbox_spec \<Rightarrow> k8s_container" where
  "main_k8s_container spec =
     \<lparr>kc_name = main_container, kc_image = sp_image spec, kc_command = sp_command spec, kc_working_dir = sp_workdir spec,
      kc_env = sp_env spec, kc_requests = main_requests spec, kc_limits = main_requests spec, kc_ports = [],
      kc_security_context = \<lparr>sx_allow_privilege_escalation = False, sx_drop = [''ALL''],
        sx_read_only_root_filesystem = sp_read_only_root_filesystem spec, sx_run_as_non_root = None,
        sx_run_as_user = None, sx_run_as_group = None\<rparr>,
      kc_volume_mounts = map (\<lambda>p. \<lparr>vm_name = volume_name p, vm_mount_path = p, vm_read_only = False\<rparr>) (sp_writable_paths spec),
      kc_readiness_probe = None\<rparr>"

definition main_volume :: "sandbox_spec \<Rightarrow> string \<Rightarrow> k8s_volume" where
  "main_volume spec p =
     \<lparr>vl_name = volume_name p,
      vl_source = (if sp_workspace_id spec \<noteq> None \<and> p = sp_workdir spec then Claim workspace_pvc_name False else EmptyDir)\<rparr>"

definition sidecar_volumes :: "sidecar_spec \<Rightarrow> k8s_volume list" where
  "sidecar_volumes s = map (\<lambda>p. \<lparr>vl_name = sidecar_volume_name (sc_name s) p, vl_source = EmptyDir\<rparr>) (sc_writable_paths s)"

definition none_if_empty :: "'a list \<Rightarrow> 'a list option" where
  "none_if_empty xs = (if xs = [] then None else Some xs)"

definition sandbox_pod :: "string option \<Rightarrow> string \<Rightarrow> string \<Rightarrow> sandbox_spec \<Rightarrow> k8s_pod" where
  "sandbox_pod runtime_class namespace sandbox_id spec =
     \<lparr>kp_name = pod_name, kp_namespace = namespace, kp_labels = [(sandbox_id_label, sandbox_id)],
      kp_annotations = sp_labels spec, kp_restart_policy = ''Never'', kp_automount_token = False,
      kp_grace_seconds = termination_grace_seconds, kp_runtime_class = runtime_class,
      kp_node_selector = none_if_empty (sp_node_selector spec), kp_tolerations = none_if_empty (sp_tolerations spec),
      kp_run_as_non_root = True, kp_run_as_user = sandbox_uid, kp_run_as_group = sandbox_uid, kp_fs_group = sandbox_uid,
      kp_seccomp = ''RuntimeDefault'', kp_apparmor = ''RuntimeDefault'',
      kp_containers = main_k8s_container spec # map sidecar_container (sp_sidecars spec),
      kp_volumes = map (main_volume spec) (sp_writable_paths spec) @ concat (map sidecar_volumes (sp_sidecars spec))\<rparr>"

definition create_pod :: "string \<Rightarrow> string \<Rightarrow> sandbox_spec \<Rightarrow> unit ku" where
  "create_pod namespace sandbox_id spec =
     bind_em (gets_em kw_runtime_class) (\<lambda>rc. kube_do (CreatePod namespace (sandbox_pod rc namespace sandbox_id spec)))"

subsection \<open>Waiting\<close>

lemma read_pod_clock: "read_pod n ns k = (r, k') \<Longrightarrow> kw_clock k \<le> kw_clock k'"
  using kube_calls_advance(2) [of "\<lambda>_. True" n ns] by (auto dest: movesD' simp: advances_def)

function pod_gone_loop :: "string \<Rightarrow> int \<Rightarrow> kube \<Rightarrow> (exn + unit) \<times> kube" where
  "pod_gone_loop namespace deadline k =
     (if kw_clock k < deadline
      then (case read_pod pod_name namespace k of
              (Inl e, k1) \<Rightarrow> (if is_api_exception e \<and> error_status e = 404 then Inr () else Inl e, k1)
            | (Inr _, k1) \<Rightarrow> pod_gone_loop namespace deadline (snd (kube_sleep pod_poll_us k1)))
      else (Inl (ProvisionerError namespace), k))"
  by pat_completeness auto
termination
  by (relation "measure (\<lambda>(namespace, deadline, k). nat (deadline - kw_clock k))")
    (auto simp: pod_poll_us_def dest!: read_pod_clock [OF sym])

function ready_loop :: "string \<Rightarrow> int \<Rightarrow> kube \<Rightarrow> (exn + unit) \<times> kube" where
  "ready_loop namespace deadline k =
     (if kw_clock k < deadline
      then (case read_pod pod_name namespace k of
              (Inl e, k1) \<Rightarrow> (Inl e, k1)
            | (Inr pod, k1) \<Rightarrow>
                if ps_phase pod = ''Running'' \<and> ps_ready pod \<noteq> [] \<and> list_all id (ps_ready pod) then (Inr (), k1)
                else if ps_phase pod = ''Failed'' then (Inl (ProvisionerError namespace), k1)
                else ready_loop namespace deadline (snd (kube_sleep pod_poll_us k1)))
      else (Inl (ProvisionerError namespace), k))"
  by pat_completeness auto
termination
  by (relation "measure (\<lambda>(namespace, deadline, k). nat (deadline - kw_clock k))")
    (auto simp: pod_poll_us_def dest!: read_pod_clock [OF sym])

declare pod_gone_loop.simps [simp del] ready_loop.simps [simp del]

definition wait_pod_gone :: "string \<Rightarrow> unit ku" where
  "wait_pod_gone namespace k = pod_gone_loop namespace (kw_clock k + pod_gone_timeout_us) k"

definition wait_ready :: "string \<Rightarrow> unit ku" where
  "wait_ready namespace k = ready_loop namespace (kw_clock k + pod_ready_timeout_us) k"

subsection \<open>Lifecycle\<close>

definition delete_pod_only :: "string \<Rightarrow> unit ku" where
  "delete_pod_only namespace = catch_em (kube_do (DeletePod namespace pod_name)) is_api_exception (\<lambda>_. return_em ())"

definition cleanup_namespace :: "string \<Rightarrow> unit ku" where
  "cleanup_namespace namespace = catch_em (kube_do (DeleteNamespace namespace)) is_api_exception (\<lambda>_. return_em ())"

definition cleanup_after_acquire_failure :: "string \<Rightarrow> bool \<Rightarrow> unit ku" where
  "cleanup_after_acquire_failure namespace persistent =
     (if persistent then delete_pod_only namespace else cleanup_namespace namespace)"

definition ensure_no_stale_pod :: "string \<Rightarrow> unit ku" where
  "ensure_no_stale_pod namespace =
     bind_em (catch_em (bind_em (read_pod pod_name namespace) (\<lambda>_. return_em True))
                (\<lambda>e. is_api_exception e \<and> error_status e = 404) (\<lambda>_. return_em False)) (\<lambda>stale.
     when_em stale (seq_em (delete_pod_only namespace) (wait_pod_gone namespace)))"

definition ensure_persistent_namespace :: "string \<Rightarrow> sandbox_spec \<Rightarrow> string \<Rightarrow> bool ku" where
  "ensure_persistent_namespace namespace spec workspace_id =
     bind_em (catch_em (bind_em (kube_do (ReadNamespace namespace)) (\<lambda>_. return_em True))
                (\<lambda>e. is_api_exception e \<and> error_status e = 404) (\<lambda>_. return_em False)) (\<lambda>existed.
     if existed then return_em True
     else
       seq_em (kube_do (CreateNamespace \<lparr>ns_name = namespace, ns_labels = [(workspace_id_label, workspace_id)],
         ns_annotations = AList.update workspace_id_label workspace_id (sp_labels spec), ns_created = 0\<rparr>))
       (seq_em (create_network_policy namespace)
       (seq_em (create_resource_quota namespace spec)
       (seq_em (create_limit_range namespace spec)
       (seq_em (create_pvc namespace spec)
       (return_em False))))))"

definition sandbox_namespace :: "string \<Rightarrow> sandbox_spec \<Rightarrow> string \<Rightarrow> string" where
  "sandbox_namespace prefix spec sandbox_id =
     (case sp_workspace_id spec of
        Some i \<Rightarrow> prefix @ ''ws-'' @ i
      | None \<Rightarrow> prefix @ take 16 (filter (\<lambda>c. c \<noteq> CHR ''-'') sandbox_id))"

text \<open>The body of the \<open>try\<close>: everything that can fail before the handle exists.\<close>

definition provision_namespace :: "string \<Rightarrow> string \<Rightarrow> sandbox_spec \<Rightarrow> unit ku" where
  "provision_namespace namespace sandbox_id spec =
     seq_em
       (case sp_workspace_id spec of
          Some i \<Rightarrow>
            bind_em (ensure_persistent_namespace namespace spec i) (\<lambda>existed. when_em existed (ensure_no_stale_pod namespace))
        | None \<Rightarrow>
            seq_em (kube_do (CreateNamespace \<lparr>ns_name = namespace, ns_labels = [(sandbox_id_label, sandbox_id)],
              ns_annotations = sp_labels spec, ns_created = 0\<rparr>))
            (seq_em (create_network_policy namespace)
            (seq_em (create_resource_quota namespace spec)
            (create_limit_range namespace spec))))
       (seq_em (create_pod namespace sandbox_id spec) (wait_ready namespace))"

definition k8s_acquire :: "sandbox_spec \<Rightarrow> sandbox_handle ku" where
  "k8s_acquire spec =
     bind_em kube_uuid (\<lambda>sandbox_id.
     bind_em (gets_em kw_namespace_prefix) (\<lambda>prefix.
     let namespace = sandbox_namespace prefix spec sandbox_id; persistent = (sp_workspace_id spec \<noteq> None) in
     seq_em (catch_em (provision_namespace namespace sandbox_id spec) (\<lambda>_. True) (\<lambda>e.
       seq_em (cleanup_after_acquire_failure namespace persistent)
         (raise_em (if is_api_exception e then ProvisionerError namespace else e))))
     (bind_em kube_now (\<lambda>now.
      return_em \<lparr>h_sandbox_id = sandbox_id, h_backend = ''kubernetes'', h_native_ref = namespace, h_created_at = now,
        h_sidecar_refs = map (\<lambda>s. (sc_name s, sc_name s)) (sp_sidecars spec), h_persistent = persistent\<rparr>))))"

definition phase_state :: "string \<Rightarrow> sandbox_state" where
  "phase_state phase = (if phase = ''Pending'' then Provisioning else if phase = ''Running'' then Active else Terminated)"

definition k8s_status :: "sandbox_handle \<Rightarrow> sandbox_state ku" where
  "k8s_status handle =
     catch_em (bind_em (read_pod pod_name (h_native_ref handle)) (\<lambda>pod. return_em (phase_state (ps_phase pod))))
       is_api_exception
       (\<lambda>e. if error_status e = 404 then return_em Terminated else raise_em (ProvisionerError (h_sandbox_id handle)))"

definition k8s_destroy :: "sandbox_handle \<Rightarrow> unit ku" where
  "k8s_destroy handle =
     (if h_persistent handle then delete_pod_only (h_native_ref handle)
      else catch_em (kube_do (DeleteNamespace (h_native_ref handle))) is_api_exception
        (\<lambda>e. if error_status e = 404 then return_em () else raise_em (ProvisionerError (h_sandbox_id handle))))"

definition k8s_delete_workspace_volume :: "string \<Rightarrow> unit ku" where
  "k8s_delete_workspace_volume workspace_id =
     bind_em (gets_em kw_namespace_prefix) (\<lambda>prefix. cleanup_namespace (prefix @ ''ws-'' @ workspace_id))"

definition k8s_list_sandbox_refs :: "native_sandbox_ref list ku" where
  "k8s_list_sandbox_refs =
     bind_em (list_namespace sandbox_id_label) (\<lambda>namespaces.
     return_em (concat (map (\<lambda>ns.
       case map_of (ns_labels ns) sandbox_id_label of
         None \<Rightarrow> []
       | Some sandbox_id \<Rightarrow>
           if sandbox_id = [] then []
           else [\<lparr>nr_sandbox_id = sandbox_id, nr_native_ref = ns_name ns, nr_created_at = ns_created ns, nr_sidecar_refs = []\<rparr>])
       namespaces)))"

end
