(* ===== verification/Kubernetes_Exec.thy ===== *)
theory Kubernetes_Exec
  imports Kubernetes
begin

section \<open>Programs, files and workspaces in Kubernetes pods\<close>

text \<open>
  The rest of \<open>app/provisioners/kubernetes.py\<close>: the exec protocol over one WebSocket, what is built on it,
  and the throwaway pods that look after a workspace.
\<close>

subsection \<open>The exec protocol\<close>

definition stdin_channel :: char where "stdin_channel = CHR 0x00"
definition stdout_channel :: char where "stdout_channel = CHR 0x01"
definition stderr_channel :: char where "stderr_channel = CHR 0x02"
definition error_channel :: char where "error_channel = CHR 0x03"
definition resize_channel :: char where "resize_channel = CHR 0x04"
definition close_channel_index :: char where "close_channel_index = CHR 0xFF"
definition stdin_chunk_bytes :: nat where "stdin_chunk_bytes = 512 * 1024"

text \<open>The loop that cuts the input into chunks; an empty input is still one, empty, chunk.\<close>

function stdin_chunks :: "nat \<Rightarrow> string \<Rightarrow> string list" where
  "stdin_chunks n s = take n s # (if length s \<le> n \<or> n = 0 then [] else stdin_chunks n (drop n s))"
  by pat_completeness auto
termination
  by (relation "measure (\<lambda>(n, s). length s)") auto

declare stdin_chunks.simps [simp del]

definition send_stdin :: "string \<Rightarrow> string \<Rightarrow> unit ku" where
  "send_stdin socket stdin =
     seq_em (for_em (stdin_chunks stdin_chunk_bytes stdin) (\<lambda>chunk. kube_do (SendBytes socket (stdin_channel # chunk))))
       (kube_do (SendBytes socket [close_channel_index, stdin_channel]))"

record ws_buffers =
  wb_stdout :: string
  wb_stderr :: string
  wb_truncated :: bool

definition buffer_payload :: "int \<Rightarrow> char \<Rightarrow> string \<Rightarrow> ws_buffers \<Rightarrow> ws_buffers" where
  "buffer_payload max_output_bytes channel payload b =
     (if channel = stdout_channel
      then (if int (length (wb_stdout b)) < max_output_bytes then b\<lparr>wb_stdout := wb_stdout b @ payload\<rparr> else b\<lparr>wb_truncated := True\<rparr>)
      else (if int (length (wb_stderr b)) < max_output_bytes then b\<lparr>wb_stderr := wb_stderr b @ payload\<rparr> else b\<lparr>wb_truncated := True\<rparr>))"

datatype exec_outcome = TimedOut | ExitFrame string | ClosedEarly

text \<open>The loop under \<open>asyncio.timeout\<close>: how it ends, the buffers, and how long it took.\<close>

fun pump_messages :: "int \<Rightarrow> nat \<Rightarrow> ws_message list \<Rightarrow> ws_end \<Rightarrow> ws_buffers \<Rightarrow> (exn + exec_outcome) \<times> ws_buffers \<times> nat" where
  "pump_messages max_output_bytes patience [] fin b =
     (case fin of
        WsClosed t \<Rightarrow> if t < patience then (Inr ClosedEarly, b, t) else (Inr TimedOut, b, patience)
      | WsBroken t e \<Rightarrow> if t < patience then (Inl e, b, t) else (Inr TimedOut, b, patience)
      | WsSilent \<Rightarrow> (Inr TimedOut, b, patience))"
| "pump_messages max_output_bytes patience (m # ms) fin b =
     (if ws_at m < patience
      then (case m of
              WsFrame t (channel # payload) \<Rightarrow>
                if channel = stdout_channel \<or> channel = stderr_channel
                then pump_messages max_output_bytes patience ms fin (buffer_payload max_output_bytes channel payload b)
                else if channel = error_channel then (Inr (ExitFrame payload), b, t)
                else pump_messages max_output_bytes patience ms fin b
            | _ \<Rightarrow> pump_messages max_output_bytes patience ms fin b)
      else (Inr TimedOut, b, patience))"

definition exit_code_of :: "string \<Rightarrow> exec_outcome \<Rightarrow> int ku" where
  "exit_code_of namespace outcome =
     (case outcome of
        TimedOut \<Rightarrow> return_em 124
      | ExitFrame frame \<Rightarrow> parse_error_data frame
      | ClosedEarly \<Rightarrow> raise_em (ProvisionerError namespace))"

definition run_exec_raw :: "string \<Rightarrow> string list \<Rightarrow> string \<Rightarrow> int \<Rightarrow> int \<Rightarrow> string \<Rightarrow> raw_exec_result ku" where
  "run_exec_raw namespace command stdin timeout_seconds max_output_bytes container =
     bind_em (catch_em (open_exec namespace container command False)
       (\<lambda>e. is_api_exception e \<and> error_status e = 404) (\<lambda>_. raise_em (SandboxNotFoundError namespace))) (\<lambda>socket.
     bind_em kube_clock (\<lambda>start.
     seq_em (send_stdin socket stdin)
     (bind_em (receive_all socket) (\<lambda>(messages, fin).
      case pump_messages max_output_bytes (nat (timeout_seconds * us_per_second)) messages fin
             \<lparr>wb_stdout = [], wb_stderr = [], wb_truncated = False\<rparr> of
        (Inl e, b, took) \<Rightarrow> seq_em (kube_wait took) (raise_em e)
      | (Inr outcome, b, took) \<Rightarrow>
          seq_em (kube_wait took)
          (bind_em kube_clock (\<lambda>finish.
           bind_em (exit_code_of namespace outcome) (\<lambda>exit_code.
           return_em \<lparr>rx_exit_code = exit_code, rx_stdout = wb_stdout b, rx_stderr = wb_stderr b,
             rx_duration_ms = (finish - start) div 1000, rx_truncated = wb_truncated b,
             rx_timed_out = (outcome = TimedOut)\<rparr>)))))))"

definition run_exec :: "string \<Rightarrow> string list \<Rightarrow> string \<Rightarrow> int \<Rightarrow> int \<Rightarrow> string \<Rightarrow> batch_run_result ku" where
  "run_exec namespace command stdin timeout_seconds max_output_bytes container =
     bind_em (run_exec_raw namespace command stdin timeout_seconds max_output_bytes container) (\<lambda>raw.
     bind_em kube_uuid (\<lambda>run_id. return_em (batch_result run_id raw None)))"

definition k8s_recycle :: "sandbox_handle \<Rightarrow> unit ku" where
  "k8s_recycle handle =
     bind_em (run_exec (h_native_ref handle) [''sh'', ''-c'', ''rm -rf /workspace/* /workspace/.[!.]* 2>/dev/null; true''] []
       file_op_timeout_seconds 1000000 main_container) (\<lambda>_. return_em ())"

subsection \<open>Files\<close>

definition k8s_put_files :: "sandbox_handle \<Rightarrow> (string \<times> string) list \<Rightarrow> unit ku" where
  "k8s_put_files handle files =
     for_em files (\<lambda>(rel_path, content).
       bind_em (run_exec (h_native_ref handle) (write_file_cmd rel_path) content file_op_timeout_seconds 1000000 main_container) (\<lambda>result.
       when_em (br_exit_code result \<noteq> 0) (raise_em (ProvisionerError rel_path))))"

definition k8s_get_file :: "sandbox_handle \<Rightarrow> string \<Rightarrow> string ku" where
  "k8s_get_file handle path =
     bind_em (run_exec_raw (h_native_ref handle) [''cat'', path] [] file_op_timeout_seconds 10000000 main_container) (\<lambda>raw.
     if rx_exit_code raw \<noteq> 0 then raise_em (ProvisionerError path) else return_em (rx_stdout raw))"

definition k8s_list_tree :: "sandbox_handle \<Rightarrow> string \<Rightarrow> (string \<times> bool) list ku" where
  "k8s_list_tree handle path =
     bind_em (run_exec (h_native_ref handle) [''find'', path, ''-mindepth'', ''1'', ''-printf'', ''%y|%P'' @ [CHR 0x0A]] []
       file_op_timeout_seconds 5000000 main_container) (\<lambda>result.
     if br_exit_code result \<noteq> 0 then raise_em (ProvisionerError path) else return_em (parse_find_output (br_stdout result)))"

subsection \<open>Batch execution\<close>

fun is_sandbox_missing :: "exn \<Rightarrow> bool" where
  "is_sandbox_missing (SandboxNotFoundError _) = True"
| "is_sandbox_missing _ = False"

definition k8s_read_variable_dump :: "(string \<Rightarrow> exn + json) \<Rightarrow> string \<Rightarrow> json option ku" where
  "k8s_read_variable_dump loads namespace =
     bind_em (catch_em (map_em Some (run_exec namespace [''cat'', variable_dump_path] [] file_op_timeout_seconds 5000000 main_container))
       (\<lambda>e. is_api_exception e \<or> is_sandbox_missing e) (\<lambda>_. return_em None)) (\<lambda>captured.
     case captured of
       None \<Rightarrow> return_em None
     | Some result \<Rightarrow>
         if br_exit_code result \<noteq> 0 then return_em None
         else catch_em (map_em Some (lift_em (loads (br_stdout result)))) dump_unreadable (\<lambda>_. return_em None))"

definition k8s_exec_batch :: "(string \<Rightarrow> exn + json) \<Rightarrow> sandbox_handle \<Rightarrow> batch_command \<Rightarrow> batch_run_result ku" where
  "k8s_exec_batch loads handle command =
     seq_em (when_em (bc_files command \<noteq> []) (k8s_put_files handle (bc_files command)))
     (bind_em (catch_em (run_exec (h_native_ref handle) (bc_command command) (bc_stdin command) (bc_timeout_seconds command)
         (bc_max_output_bytes command) main_container) is_api_exception
       (\<lambda>_. raise_em (ProvisionerError (h_sandbox_id handle)))) (\<lambda>result.
     bind_em (if bc_capture_variables command then k8s_read_variable_dump loads (h_native_ref handle) else return_em None) (\<lambda>variables.
     bind_em kube_uuid (\<lambda>run_id.
     bind_em (lift_em (variables_field variables)) (\<lambda>vs.
     return_em (result\<lparr>br_run_id := run_id, br_variables := vs\<rparr>))))))"

definition k8s_exec_in :: "sandbox_handle \<Rightarrow> string \<Rightarrow> string list \<Rightarrow> string \<Rightarrow> int \<Rightarrow> int \<Rightarrow> batch_run_result ku" where
  "k8s_exec_in handle tgt command stdin timeout_seconds max_output_bytes =
     (if tgt \<noteq> ''main'' \<and> tgt \<notin> fst ` set (h_sidecar_refs handle) then raise_em (ProvisionerError (h_sandbox_id handle))
      else catch_em (run_exec (h_native_ref handle) command stdin timeout_seconds max_output_bytes
               (if tgt = ''main'' then main_container else tgt)) is_api_exception
             (\<lambda>_. raise_em (ProvisionerError tgt)))"

subsection \<open>Workspaces\<close>

definition workspace_pod :: "string \<Rightarrow> string \<Rightarrow> bool \<Rightarrow> k8s_pod" where
  "workspace_pod namespace archiver_image read_only =
     \<lparr>kp_name = pod_name, kp_namespace = namespace, kp_labels = [], kp_annotations = [], kp_restart_policy = ''Never'',
      kp_automount_token = False, kp_grace_seconds = termination_grace_seconds, kp_runtime_class = None,
      kp_node_selector = None, kp_tolerations = None, kp_run_as_non_root = True, kp_run_as_user = sandbox_uid,
      kp_run_as_group = sandbox_uid, kp_fs_group = sandbox_uid, kp_seccomp = ''RuntimeDefault'', kp_apparmor = ''RuntimeDefault'',
      kp_containers =
        [\<lparr>kc_name = main_container, kc_image = archiver_image, kc_command = [''sleep'', ''infinity''], kc_working_dir = [],
          kc_env = [], kc_requests = [], kc_limits = [], kc_ports = [],
          kc_security_context = \<lparr>sx_allow_privilege_escalation = False, sx_drop = [''ALL''], sx_read_only_root_filesystem = True,
            sx_run_as_non_root = None, sx_run_as_user = None, sx_run_as_group = None\<rparr>,
          kc_volume_mounts = [\<lparr>vm_name = ''workspace-src'', vm_mount_path = ''/workspace-mount'', vm_read_only = read_only\<rparr>],
          kc_readiness_probe = None\<rparr>],
      kp_volumes = [\<lparr>vl_name = ''workspace-src'', vl_source = Claim workspace_pvc_name read_only\<rparr>]\<rparr>"

definition run_against_workspace_pvc :: "string \<Rightarrow> string \<Rightarrow> (string \<Rightarrow> string list) \<Rightarrow> bool \<Rightarrow> string \<Rightarrow> raw_exec_result ku" where
  "run_against_workspace_pvc workspace_id archiver_image build_command read_only stdin =
     bind_em (gets_em kw_namespace_prefix) (\<lambda>prefix.
     let namespace = prefix @ ''ws-'' @ workspace_id in
     finally_em
       (catch_em
         (seq_em (kube_do (CreatePod namespace (workspace_pod namespace archiver_image read_only)))
         (seq_em (wait_ready namespace)
         (run_exec_raw namespace (build_command ''/workspace-mount'') stdin 60 (20 * 1024 ^ 3) main_container)))
         is_api_exception (\<lambda>_. raise_em (ProvisionerError workspace_id)))
       (delete_pod_only namespace))"

definition k8s_archive_workspace :: "string \<Rightarrow> string \<Rightarrow> string ku" where
  "k8s_archive_workspace workspace_id archiver_image =
     bind_em (run_against_workspace_pvc workspace_id archiver_image (\<lambda>m. [''tar'', ''czf'', ''-'', ''-C'', m, ''.'']) True []) (\<lambda>raw.
     if rx_exit_code raw \<noteq> 0 \<or> rx_truncated raw then raise_em (ProvisionerError workspace_id) else return_em (rx_stdout raw))"

definition k8s_measure_workspace_usage :: "string \<Rightarrow> string \<Rightarrow> int ku" where
  "k8s_measure_workspace_usage workspace_id archiver_image =
     bind_em (run_against_workspace_pvc workspace_id archiver_image (\<lambda>m. [''du'', ''-sm'', m]) True []) (\<lambda>raw.
     if rx_exit_code raw \<noteq> 0 then raise_em (ProvisionerError workspace_id)
     else bind_em (lift_em (first_field (rx_stdout raw))) (\<lambda>n. lift_em (py_int n)))"

definition placeholder_spec :: "string \<Rightarrow> string \<Rightarrow> sandbox_spec" where
  "placeholder_spec archiver_image workspace_id =
     (default_sandbox_spec archiver_image [''sleep'', ''infinity'']
       \<lparr>res_cpu = ''1'', res_memory = ''512Mi'', res_ephemeral_storage_mb = None\<rparr>)\<lparr>sp_workspace_id := Some workspace_id\<rparr>"

definition k8s_restore_workspace :: "string \<Rightarrow> string \<Rightarrow> string \<Rightarrow> unit ku" where
  "k8s_restore_workspace workspace_id data archiver_image =
     bind_em (gets_em kw_namespace_prefix) (\<lambda>prefix.
     let namespace = prefix @ ''ws-'' @ workspace_id in
     bind_em (catch_em (bind_em (kube_do (ReadNamespace namespace)) (\<lambda>_. return_em True)) is_api_exception
       (\<lambda>e. if error_status e \<noteq> 404 then raise_em (ProvisionerError workspace_id) else return_em False)) (\<lambda>existed.
     seq_em (if existed then return_em ()
             else bind_em (ensure_persistent_namespace namespace (placeholder_spec archiver_image workspace_id) workspace_id)
                    (\<lambda>_. return_em ()))
     (bind_em (run_against_workspace_pvc workspace_id archiver_image (\<lambda>m. [''tar'', ''xzf'', ''-'', ''-C'', m]) False data) (\<lambda>raw.
      when_em (rx_exit_code raw \<noteq> 0) (raise_em (ProvisionerError workspace_id))))))"

subsection \<open>Interactive terminals\<close>

record k8s_pty_stream =
  kt_socket :: string
  kt_exited :: bool

definition k8s_attach :: "sandbox_handle \<Rightarrow> k8s_pty_stream ku" where
  "k8s_attach handle =
     bind_em (catch_em (open_exec (h_native_ref handle) main_container interactive_shell_cmd True) is_api_exception
       (\<lambda>e. raise_em (if error_status e = 404 then SandboxNotFoundError (h_sandbox_id handle)
                      else ProvisionerError (h_sandbox_id handle)))) (\<lambda>socket.
     return_em \<lparr>kt_socket = socket, kt_exited = False\<rparr>)"

definition k8s_write_stdin :: "k8s_pty_stream \<Rightarrow> string \<Rightarrow> unit ku" where
  "k8s_write_stdin s data = kube_do (SendBytes (kt_socket s) (stdin_channel # data))"

text \<open>\<open>json.dumps({"Width": cols, "Height": rows})\<close>.\<close>

definition resize_payload :: "int \<Rightarrow> int \<Rightarrow> string" where
  "resize_payload cols rows =
     [CHR 0x7B, CHR 0x22] @ ''Width'' @ [CHR 0x22] @ '': '' @ int_str cols @ '', '' @ [CHR 0x22] @ ''Height'' @ [CHR 0x22] @ '': '' @
     int_str rows @ [CHR 0x7D]"

definition k8s_resize :: "k8s_pty_stream \<Rightarrow> int \<Rightarrow> int \<Rightarrow> unit ku" where
  "k8s_resize s cols rows = kube_do (SendBytes (kt_socket s) (resize_channel # resize_payload cols rows))"

datatype scanned = Printed string | Ended string | HungUp

fun scan_messages :: "ws_message list \<Rightarrow> scanned" where
  "scan_messages [] = HungUp"
| "scan_messages (WsFrame t (channel # payload) # ms) =
     (if channel = stdout_channel \<or> channel = stderr_channel then Printed payload
      else if channel = error_channel then Ended payload
      else scan_messages ms)"
| "scan_messages (m # ms) = scan_messages ms"

definition k8s_read :: "k8s_pty_stream \<Rightarrow> (docker_pty_event option \<times> k8s_pty_stream) ku" where
  "k8s_read s =
     (if kt_exited s then return_em (None, s)
      else bind_em (receive_some (kt_socket s)) (\<lambda>messages.
        case scan_messages messages of
          Printed data \<Rightarrow> return_em (Some (PtyOutput data), s)
        | Ended frame \<Rightarrow> bind_em (parse_error_data frame) (\<lambda>code. return_em (Some (PtyExit code), s\<lparr>kt_exited := True\<rparr>))
        | HungUp \<Rightarrow> return_em (None, s\<lparr>kt_exited := True\<rparr>)))"

end
