(* ===== verification/Kubernetes_Laws.thy ===== *)
theory Kubernetes_Laws
  imports Kubernetes_Exec "HOL-Library.Word"
begin

section \<open>What the Kubernetes backend guarantees\<close>

text \<open>
  Input reaches a process whole; waiting ends; pods are locked down, refer only to volumes they declare and
  fit the quota made for them; what the network policies permit; what is left of a namespace that could not be
  provisioned.
\<close>

subsection \<open>Input reaches the process whole\<close>

lemma stdin_chunks_concat: "concat (stdin_chunks n s) = (if n = 0 then [] else s)"
proof (induction n s rule: stdin_chunks.induct)
  case (1 n s)
  show ?case by (subst stdin_chunks.simps) (use "1.IH" in auto)
qed

lemma stdin_chunks_bound: "c \<in> set (stdin_chunks n s) \<Longrightarrow> length c \<le> n"
proof (induction n s rule: stdin_chunks.induct)
  case (1 n s)
  from "1.prems" show ?case
    by (subst (asm) stdin_chunks.simps) (use "1.IH" in \<open>auto split: if_splits\<close>)
qed

definition sent :: "k8s_event list \<Rightarrow> string list" where
  "sent evs = concat (map (\<lambda>e. case e of Asked (SendBytes s data) r \<Rightarrow> [data] | _ \<Rightarrow> []) evs)"

lemma sent_append [simp]: "sent (xs @ ys) = sent xs @ sent ys"
  by (simp add: sent_def)

lemma send_bytes_run:
  "kube_do (SendBytes s data) k = (Inr u, k') \<Longrightarrow> sent (occurred k k') = [data] \<and> advances (\<lambda>_. True) k k'"
  by (auto simp: kube_do_def kube_ask_def em_simps sent_def advances_def split: sum.splits)

lemma send_chunks_run:
  "for_em cs (\<lambda>c. kube_do (SendBytes s (stdin_channel # c))) k = (Inr u, k') \<Longrightarrow>
   sent (occurred k k') = map ((#) stdin_channel) cs \<and> advances (\<lambda>_. True) k k'"
proof (induction cs arbitrary: k)
  case (Cons c cs)
  then obtain v k1 where one: "kube_do (SendBytes s (stdin_channel # c)) k = (Inr v, k1)"
    and rest: "for_em cs (\<lambda>c. kube_do (SendBytes s (stdin_channel # c))) k1 = (Inr u, k')"
    by (auto simp: bind_em_Inr_iff)
  from Cons.IH [OF rest] send_bytes_run [OF one] occurred_trans [of "\<lambda>_. True" k k1 "\<lambda>_. True" k'] show ?case
    by (auto intro: adv.trans_rel)
qed (auto simp: sent_def intro: adv.refl_rel)

text \<open>
  C13. What a caller passes as standard input reaches the process unchanged. The frames sent on the socket
  carry it in order, at most 512 KiB each and at least one, all on the input channel; then one control frame
  closes that channel, and nothing follows.
\<close>

theorem stdin_arrives_whole:
  assumes "send_stdin s stdin k = (Inr (), k')"
  shows "\<exists>chunks. sent (occurred k k') = map (\<lambda>c. CHR 0x00 # c) chunks @ [[CHR 0xFF, CHR 0x00]] \<and>
    concat chunks = stdin \<and> chunks \<noteq> [] \<and> list_all (\<lambda>c. length c \<le> 512 * 1024) chunks"
proof -
  let ?cs = "stdin_chunks stdin_chunk_bytes stdin"
  from assms obtain u k1 where one: "for_em ?cs (\<lambda>c. kube_do (SendBytes s (stdin_channel # c))) k = (Inr u, k1)"
    and two: "kube_do (SendBytes s [close_channel_index, stdin_channel]) k1 = (Inr (), k')"
    by (auto simp: send_stdin_def seq_em_Inr_iff)
  have "sent (occurred k k') = map ((#) stdin_channel) ?cs @ [[close_channel_index, stdin_channel]]"
    using send_chunks_run [OF one] send_bytes_run [OF two] occurred_trans [of "\<lambda>_. True" k k1 "\<lambda>_. True" k'] by simp
  moreover have "concat ?cs = stdin" by (simp add: stdin_chunks_concat stdin_chunk_bytes_def)
  moreover have "?cs \<noteq> []" by (subst stdin_chunks.simps) simp
  moreover have "list_all (\<lambda>c. length c \<le> 512 * 1024) ?cs"
    using stdin_chunks_bound [of _ stdin_chunk_bytes stdin] by (auto simp: list_all_iff stdin_chunk_bytes_def)
  ultimately show ?thesis by (intro exI [of _ ?cs]) (simp add: stdin_channel_def close_channel_index_def)
qed

text \<open>A cluster in which everything works.\<close>

definition demo_cluster :: cluster where
  "demo_cluster = \<lparr>cl_delay = (\<lambda>_. 1000),
     cl_api = (\<lambda>tr q. case q of
         ReadPod n ns \<Rightarrow> Inr (PodStatus \<lparr>ps_phase = ''Running'', ps_ready = [True]\<rparr>)
       | ListNamespaces l \<Rightarrow> Inr (Namespaces [])
       | OpenExec ns c cmd tty \<Rightarrow> Inr (Socket ''ws'')
       | _ \<Rightarrow> Inr Done),
     cl_stream = (\<lambda>_ _. ([WsFrame 10 (CHR 0x01 # ''ok''), WsFrame 20 [CHR 0x03]], WsClosed 30)),
     cl_next = (\<lambda>_ _. Inr []), cl_parse_error_data = (\<lambda>_. Inr 0), cl_now = (\<lambda>_. 0), cl_uuid = (\<lambda>n. ''u'' @ nat_str n)\<rparr>"

definition kube_of :: "cluster \<Rightarrow> kube" where
  "kube_of cl = \<lparr>kw_cluster = cl, kw_namespace_prefix = ''sb-'', kw_runtime_class = None, kw_events = [], kw_clock = 0, kw_uuids = 0\<rparr>"

theorem stdin_arrives_whole_witness:
  "\<exists>k'. send_stdin ''ws'' ''print(1)'' (kube_of demo_cluster) = (Inr (), k') \<and>
     (\<exists>chunks. sent (occurred (kube_of demo_cluster) k') = map (\<lambda>c. CHR 0x00 # c) chunks @ [[CHR 0xFF, CHR 0x00]] \<and>
       concat chunks = ''print(1)'')"
proof -
  obtain r k' where run: "send_stdin ''ws'' ''print(1)'' (kube_of demo_cluster) = (r, k')"
    by (cases "send_stdin ''ws'' ''print(1)'' (kube_of demo_cluster)")
  have "fst (send_stdin ''ws'' ''print(1)'' (kube_of demo_cluster)) = Inr ()"
    by (simp add: send_stdin_def stdin_chunks.simps stdin_chunk_bytes_def kube_do_def kube_ask_def em_simps kube_of_def demo_cluster_def)
  with run have "r = Inr ()" by simp
  with run stdin_arrives_whole [of "''ws''" "''print(1)''" "kube_of demo_cluster" k'] show ?thesis by blast
qed

subsection \<open>Waiting ends\<close>

definition pod_reads :: "k8s_event list \<Rightarrow> nat" where
  "pod_reads evs = length (filter (\<lambda>e. case e of Asked (ReadPod _ _) _ \<Rightarrow> True | _ \<Rightarrow> False) evs)"

lemma pod_reads_append [simp]: "pod_reads (xs @ ys) = pod_reads xs + pod_reads ys"
  by (simp add: pod_reads_def)

lemma read_pod_run:
  assumes "read_pod n ns k = (r, k')"
  shows "pod_reads (occurred k k') = 1" "advances (\<lambda>_. True) k k'"
proof -
  show "advances (\<lambda>_. True) k k'" using movesD' [OF kube_calls_advance(2) assms] by simp
  show "pod_reads (occurred k k') = 1" using assms
    by (auto simp: read_pod_def kube_ask_def em_simps pod_reads_def split: sum.splits k8s_reply.splits)
qed

definition budget :: "int \<Rightarrow> nat" where
  "budget left = nat ((left + int pod_poll_us - 1) div int pod_poll_us)"

lemma budget_pos: "0 < left \<Longrightarrow> 1 \<le> budget left"
  by (simp add: budget_def pod_poll_us_def pos_imp_zdiv_pos_iff Suc_le_eq)

lemma budget_step:
  assumes "0 < left" "rest + int pod_poll_us \<le> left"
  shows "Suc (budget rest) \<le> budget left"
proof -
  have "(rest + int pod_poll_us - 1) div int pod_poll_us \<le> (left - 1) div int pod_poll_us"
    using assms(2) by (intro zdiv_mono1) (auto simp: pod_poll_us_def)
  also have "\<dots> = (left + int pod_poll_us - 1) div int pod_poll_us - 1" by (simp add: pod_poll_us_def)
  finally show ?thesis using budget_pos [OF assms(1)] by (simp add: budget_def)
qed

text \<open>One round of either loop: a read, and then a sleep unless the loop is over.\<close>

lemma poll_round:
  assumes "read_pod n ns k = (q, k1)" "kw_clock k < deadline"
    and "advances (\<lambda>_. True) (snd (kube_sleep pod_poll_us k1)) k'"
    and "pod_reads (occurred (snd (kube_sleep pod_poll_us k1)) k') \<le> budget (deadline - kw_clock (snd (kube_sleep pod_poll_us k1)))"
  shows "pod_reads (occurred k k') \<le> budget (deadline - kw_clock k) \<and> advances (\<lambda>_. True) k k'"
proof -
  let ?k2 = "snd (kube_sleep pod_poll_us k1)"
  note rd = read_pod_run [OF assms(1)]
  have s: "advances (\<lambda>_. True) k1 ?k2" "occurred k1 ?k2 = [Paused (int pod_poll_us)]"
    by (simp_all add: advances_def occurred_def)
  have "occurred k k' = occurred k k1 @ occurred k1 ?k2 @ occurred ?k2 k'"
    using occurred_trans [OF rd(2) adv.trans_rel [OF s(1) assms(3)]] occurred_trans [OF s(1) assms(3)] by simp
  then have "pod_reads (occurred k k') = Suc (pod_reads (occurred ?k2 k'))"
    using rd(1) s(2) by (simp add: pod_reads_def)
  moreover have "Suc (budget (deadline - kw_clock ?k2)) \<le> budget (deadline - kw_clock k)"
    using assms(2) rd(2) by (intro budget_step) (auto simp: advances_def)
  ultimately show ?thesis using assms(3,4) adv.trans_rel [OF rd(2) adv.trans_rel [OF s(1)]] by auto
qed

lemma pod_gone_loop_bound:
  "pod_reads (occurred k (snd (pod_gone_loop ns deadline k))) \<le> budget (deadline - kw_clock k) \<and>
   advances (\<lambda>_. True) k (snd (pod_gone_loop ns deadline k))"
proof (induction ns deadline k rule: pod_gone_loop.induct)
  case (1 ns deadline k)
  show ?case
  proof (cases "kw_clock k < deadline")
    case False
    then show ?thesis by (simp add: pod_gone_loop.simps [of ns deadline k] pod_reads_def adv.refl_rel)
  next
    case live: True
    obtain q k1 where r: "read_pod pod_name ns k = (q, k1)" by (cases "read_pod pod_name ns k")
    show ?thesis
    proof (cases q)
      case (Inl e)
      with live r read_pod_run [OF r] budget_pos [of "deadline - kw_clock k"] show ?thesis
        by (simp add: pod_gone_loop.simps [of ns deadline k])
    next
      case (Inr s)
      with live r have "pod_gone_loop ns deadline k = pod_gone_loop ns deadline (snd (kube_sleep pod_poll_us k1))"
        by (simp add: pod_gone_loop.simps [of ns deadline k] del: kube_sleep_run)
      with poll_round [OF r live] "1.IH" [OF live r [symmetric] Inr] show ?thesis by simp
    qed
  qed
qed

lemma ready_loop_bound:
  "pod_reads (occurred k (snd (ready_loop ns deadline k))) \<le> budget (deadline - kw_clock k) \<and>
   advances (\<lambda>_. True) k (snd (ready_loop ns deadline k))"
proof (induction ns deadline k rule: ready_loop.induct)
  case (1 ns deadline k)
  show ?case
  proof (cases "kw_clock k < deadline")
    case False
    then show ?thesis by (simp add: ready_loop.simps [of ns deadline k] pod_reads_def adv.refl_rel)
  next
    case live: True
    obtain q k1 where r: "read_pod pod_name ns k = (q, k1)" by (cases "read_pod pod_name ns k")
    show ?thesis
    proof (cases "\<exists>s. q = Inr s \<and> \<not> (ps_phase s = ''Running'' \<and> ps_ready s \<noteq> [] \<and> list_all id (ps_ready s)) \<and> ps_phase s \<noteq> ''Failed''")
      case False
      then have "snd (ready_loop ns deadline k) = k1"
        using live r by (subst ready_loop.simps) (auto split: sum.split simp del: kube_sleep_run)
      with read_pod_run [OF r] budget_pos [of "deadline - kw_clock k"] live show ?thesis by simp
    next
      case True
      then obtain s where s: "q = Inr s" "\<not> (ps_phase s = ''Running'' \<and> ps_ready s \<noteq> [] \<and> list_all id (ps_ready s))" "ps_phase s \<noteq> ''Failed''"
        by blast
      with live r have "ready_loop ns deadline k = ready_loop ns deadline (snd (kube_sleep pod_poll_us k1))"
        by (subst ready_loop.simps) (auto simp del: kube_sleep_run)
      with poll_round [OF r live] "1.IH" [OF live r [symmetric] s] show ?thesis by simp
    qed
  qed
qed

text \<open>
  Waiting for a pod ends, whatever the API server answers and however slowly: at most 120 reads until a
  new pod is declared ready or the wait is given up, at most 60 until a stale one is gone.
\<close>

theorem pod_polling_terminates:
  "pod_reads (occurred k (snd (wait_ready ns k))) \<le> 120 \<and> pod_reads (occurred k (snd (wait_pod_gone ns k))) \<le> 60"
  using ready_loop_bound [of k ns "kw_clock k + pod_ready_timeout_us"] pod_gone_loop_bound [of k ns "kw_clock k + pod_gone_timeout_us"]
  by (simp add: wait_ready_def wait_pod_gone_def budget_def pod_ready_timeout_us_def pod_gone_timeout_us_def pod_poll_us_def)

lemma pod_gone_loop_advances:
  assumes "\<And>n ns r. P (Asked (ReadPod n ns) r)" "\<And>us. P (Paused us)"
  shows "advances P k (snd (pod_gone_loop ns deadline k))"
proof (induction ns deadline k rule: pod_gone_loop.induct)
  case (1 ns deadline k)
  obtain q k1 where r: "read_pod pod_name ns k = (q, k1)" by (cases "read_pod pod_name ns k")
  have e1: "advances P k k1" using movesD' [OF kube_calls_advance(2) r] assms(1) by blast
  have e2: "advances P k1 (snd (kube_sleep pod_poll_us k1))" using assms(2) by (simp add: advances_def)
  show ?case
    by (subst pod_gone_loop.simps)
      (use r e1 adv.trans_rel [OF e1 adv.trans_rel [OF e2]] "1.IH" adv.refl_rel in \<open>auto split: sum.split simp del: kube_sleep_run\<close>)
qed

lemma ready_loop_advances:
  assumes "\<And>n ns r. P (Asked (ReadPod n ns) r)" "\<And>us. P (Paused us)"
  shows "advances P k (snd (ready_loop ns deadline k))"
proof (induction ns deadline k rule: ready_loop.induct)
  case (1 ns deadline k)
  obtain q k1 where r: "read_pod pod_name ns k = (q, k1)" by (cases "read_pod pod_name ns k")
  have e1: "advances P k k1" using movesD' [OF kube_calls_advance(2) r] assms(1) by blast
  have e2: "advances P k1 (snd (kube_sleep pod_poll_us k1))" using assms(2) by (simp add: advances_def)
  show ?case
    by (subst ready_loop.simps)
      (use r e1 adv.trans_rel [OF e1 adv.trans_rel [OF e2]] "1.IH" adv.refl_rel in \<open>auto split: sum.split simp del: kube_sleep_run\<close>)
qed

lemma waiting_advances [moves_intro]:
  assumes "\<And>n ns r. P (Asked (ReadPod n ns) r)" "\<And>us. P (Paused us)"
  shows "moves (advances P) (wait_ready ns)" "moves (advances P) (wait_pod_gone ns)"
  using ready_loop_advances [of P] pod_gone_loop_advances [of P] assms by (simp_all add: moves_def wait_ready_def wait_pod_gone_def)

subsection \<open>Pods are locked down\<close>

text \<open>
  A pod that runs as the sandbox user (its databases as their own, never as root by name), may not gain
  privileges, holds no capability and no token of the API server, is confined by the runtime's profiles, and
  mounts only volumes it declares.
\<close>

definition container_sealed :: "k8s_pod \<Rightarrow> k8s_container \<Rightarrow> bool" where
  "container_sealed pod c \<longleftrightarrow>
     \<not> sx_allow_privilege_escalation (kc_security_context c) \<and> sx_drop (kc_security_context c) = [''ALL''] \<and>
     sx_run_as_non_root (kc_security_context c) \<noteq> Some False \<and>
     set (map vm_name (kc_volume_mounts c)) \<subseteq> set (map vl_name (kp_volumes pod))"

definition pod_sealed :: "k8s_pod \<Rightarrow> bool" where
  "pod_sealed pod \<longleftrightarrow>
     kp_run_as_non_root pod \<and> kp_run_as_user pod = 10001 \<and> \<not> kp_automount_token pod \<and> kp_seccomp pod = ''RuntimeDefault'' \<and>
     kp_apparmor pod = ''RuntimeDefault'' \<and> kp_restart_policy pod = ''Never'' \<and> kp_containers pod \<noteq> [] \<and>
     list_all (container_sealed pod) (kp_containers pod)"

fun pod_event_sealed :: "k8s_event \<Rightarrow> bool" where
  "pod_event_sealed (Asked (CreatePod ns pod) r) = (pod_sealed pod \<and> kp_namespace pod = ns \<and> kp_name pod = ''sandbox'')"
| "pod_event_sealed e = True"

lemma sandbox_pod_sealed: "pod_sealed (sandbox_pod rc ns i spec)"
proof -
  have names: "vl_name ` set (kp_volumes (sandbox_pod rc ns i spec)) =
      volume_name ` set (sp_writable_paths spec) \<union> (\<Union>s\<in>set (sp_sidecars spec). sidecar_volume_name (sc_name s) ` set (sc_writable_paths s))"
    by (simp add: sandbox_pod_def main_volume_def sidecar_volumes_def image_Un image_UN image_image)
  have vols: "set (map vm_name (kc_volume_mounts c)) \<subseteq> set (map vl_name (kp_volumes (sandbox_pod rc ns i spec)))"
    if member: "c \<in> set (kp_containers (sandbox_pod rc ns i spec))" for c
  proof -
    consider "c = main_k8s_container spec" | s where "s \<in> set (sp_sidecars spec)" "c = sidecar_container s"
      using member by (auto simp: sandbox_pod_def)
    then show ?thesis unfolding set_map names
      by cases (auto simp: main_k8s_container_def sidecar_container_def image_image)
  qed
  have sealed: "container_sealed (sandbox_pod rc ns i spec) c" if member: "c \<in> set (kp_containers (sandbox_pod rc ns i spec))" for c
  proof -
    consider "c = main_k8s_container spec" | s where "c = sidecar_container s"
      using member by (auto simp: sandbox_pod_def)
    then have "\<not> sx_allow_privilege_escalation (kc_security_context c) \<and> sx_drop (kc_security_context c) = [''ALL''] \<and>
        sx_run_as_non_root (kc_security_context c) \<noteq> Some False"
      by cases (simp_all add: main_k8s_container_def sidecar_container_def)
    with vols [OF member] show ?thesis by (simp only: container_sealed_def simp_thms)
  qed
  then have "list_all (container_sealed (sandbox_pod rc ns i spec)) (kp_containers (sandbox_pod rc ns i spec))"
    by (simp only: list_all_iff) blast
  then show ?thesis unfolding pod_sealed_def by (simp add: sandbox_pod_def sandbox_uid_def)
qed

lemma workspace_pod_sealed: "pod_sealed (workspace_pod ns img ro)"
  by (simp add: pod_sealed_def container_sealed_def workspace_pod_def sandbox_uid_def)

lemma provision_sealed: "moves (advances pod_event_sealed) (k8s_acquire spec)"
proof -
  have pod: "pod_event_sealed (Asked (CreatePod ns (sandbox_pod rc ns i spec)) r)" for ns rc i r
    by (simp add: sandbox_pod_sealed) (simp add: sandbox_pod_def pod_name_def)
  have ops: "moves (advances pod_event_sealed) (create_pod ns i spec)" for ns i
    unfolding create_pod_def by (intro moves_intro pod)
  show ?thesis
    unfolding k8s_acquire_def provision_namespace_def Let_def ensure_persistent_namespace_def ensure_no_stale_pod_def
      create_network_policy_def create_resource_quota_def create_limit_range_def create_pvc_def delete_pod_only_def
      cleanup_after_acquire_failure_def cleanup_namespace_def
    by (intro moves_intro ops) simp_all
qed

lemma send_stdin_advances [moves_intro]:
  "(\<And>d r. P (Asked (SendBytes s d) r)) \<Longrightarrow> moves (advances P) (send_stdin s stdin)"
  unfolding send_stdin_def by (intro moves_intro)

lemma outcome_advances [moves_intro]: "moves (advances P) (exit_code_of ns outcome)"
  unfolding exit_code_of_def by (cases outcome) (auto intro!: moves_intro)

lemma run_exec_raw_advances [moves_intro]:
  assumes "\<And>r. P (Asked (OpenExec ns container cmd False) r)" "\<And>s d r. P (Asked (SendBytes s d) r)" "\<And>s r. P (Received s r)"
  shows "moves (advances P) (run_exec_raw ns cmd stdin t m container)"
proof -
  have tail: "moves (advances P)
      (case x of (Inl e, b, took) \<Rightarrow> seq_em (kube_wait took) (raise_em e)
       | (Inr outcome, b, took) \<Rightarrow> seq_em (kube_wait took) (bind_em kube_clock (\<lambda>finish.
           bind_em (exit_code_of ns outcome) (\<lambda>exit_code. return_em (f b finish exit_code outcome)))))"
    for x :: "(exn + exec_outcome) \<times> ws_buffers \<times> nat" and f :: "ws_buffers \<Rightarrow> int \<Rightarrow> int \<Rightarrow> exec_outcome \<Rightarrow> raw_exec_result"
    by (cases x; cases "fst x") (auto intro!: moves_intro)
  show ?thesis unfolding run_exec_raw_def by (intro moves_intro tail assms)
qed

lemma pvc_sealed: "moves (advances pod_event_sealed) (run_against_workspace_pvc i img cmd ro stdin)"
proof -
  have pod: "pod_event_sealed (Asked (CreatePod ns (workspace_pod ns img ro)) r)" for ns r
    by (simp add: workspace_pod_sealed) (simp add: workspace_pod_def pod_name_def)
  show ?thesis
    unfolding run_against_workspace_pvc_def Let_def delete_pod_only_def
    by (intro moves_intro pod) simp_all
qed


subsection \<open>A pod fits the quota made for it\<close>

lemma parse_all_bounds:
  "parse_all f ss = Inr ns \<Longrightarrow> length ns = length ss \<and> (\<forall>i < length ss. f (ss ! i) = Inr (ns ! i))"
proof (induction ss arbitrary: ns)
  case (Cons s ss)
  then show ?case by (auto simp: nth_Cons split: sum.splits nat.splits)
qed simp

lemma cpu_amounts_whole: "parse_cpu_to_nanocpus s = Inr n \<Longrightarrow> n mod 1000000 = 0"
proof -
  have whole: "map_sum id (\<lambda>m. m * q) r = Inr n \<Longrightarrow> n mod 1000000 = 0" if "q mod 1000000 = 0" for q :: int and r :: "exn + int"
    using that by (cases r) (auto simp: mod_mult_right_eq [symmetric])
  show "parse_cpu_to_nanocpus s = Inr n \<Longrightarrow> n mod 1000000 = 0"
    by (auto simp: parse_cpu_to_nanocpus_def Let_def split: if_splits dest: whole [rotated])
qed

lemma parse_all_whole: "parse_all parse_cpu_to_nanocpus ss = Inr ns \<Longrightarrow> list_all (\<lambda>n. n mod 1000000 = 0) ns"
  by (induction ss arbitrary: ns) (auto split: sum.splits dest: cpu_amounts_whole)

lemma sum_whole: "list_all (\<lambda>n. n mod 1000000 = (0 :: int)) ns \<Longrightarrow> sum_list ns mod 1000000 = 0"
  by (induction ns) (auto simp: mod_add_eq [symmetric])

definition quantity :: "string \<Rightarrow> k8s_container \<Rightarrow> string" where
  "quantity r c = the (map_of (kc_requests c) r)"

lemma container_quantities:
  "map (quantity ''cpu'') (kp_containers (sandbox_pod rc ns i spec)) = map res_cpu (container_resources spec)"
  "map (quantity ''memory'') (kp_containers (sandbox_pod rc ns i spec)) = map res_memory (container_resources spec)"
  by (simp_all add: sandbox_pod_def main_k8s_container_def sidecar_container_def main_requests_def requests_of_def
      quantity_def container_resources_def)

lemma requests_are_limits: "list_all (\<lambda>c. kc_requests c = kc_limits c) (kp_containers (sandbox_pod rc ns i spec))"
  by (simp add: sandbox_pod_def main_k8s_container_def sidecar_container_def list_all_iff)

lemma fold_max: "fold max ns m \<in> set (m # ns) \<and> list_all (\<lambda>n. n \<le> fold max ns m) (m # ns)" for m :: int
proof (induction ns arbitrary: m)
  case (Cons n ns)
  from Cons.IH [of "max n m"] show ?case by (auto simp: list_all_iff max_def split: if_splits)
qed simp


definition pair_spec :: sandbox_spec where
  "pair_spec = (default_sandbox_spec ''python'' [''sleep'', ''infinity'']
     \<lparr>res_cpu = ''250m'', res_memory = ''512Mi'', res_ephemeral_storage_mb = Some 100\<rparr>)\<lparr>sp_sidecars :=
       [\<lparr>sc_name = ''db'', sc_image = ''postgres'', sc_env = [],
         sc_resources = \<lparr>res_cpu = ''1'', res_memory = ''256Mi'', res_ephemeral_storage_mb = None\<rparr>, sc_ports = [],
         sc_writable_paths = [''/data''], sc_health_check = None, sc_uid = 70, sc_max_processes = 64\<rparr>]\<rparr>"

lemma pair_quota:
  "quota_hard pair_spec = Inr [(''pods'', ''1''), (''requests.cpu'', ''1250m''), (''requests.memory'', ''768Mi''), (''limits.cpu'', ''1250m''),
    (''limits.memory'', ''768Mi''), (''requests.ephemeral-storage'', ''100Mi''), (''limits.ephemeral-storage'', ''100Mi'')]"
  "limits_of pair_spec = Inr \<lparr>lr_default = [(''cpu'', ''250m''), (''memory'', ''512Mi'')], lr_max = [(''cpu'', ''1''), (''memory'', ''512Mi'')]\<rparr>"
  by code_simp+


subsection \<open>What the network policies permit\<close>

text \<open>
  The documented meaning of egress policies, as the source states it itself: policies are additive, and a
  pod's egress is the union of every rule that selects it. Both policies of a sandbox namespace select every
  pod. Addresses are 32-bit words; a block is read from its textual form.
\<close>

definition octets :: "string \<Rightarrow> nat list" where
  "octets s = map (\<lambda>p. case digits_of p of None \<Rightarrow> 0 | Some n \<Rightarrow> nat n) (split_on CHR ''.'' s)"

definition address :: "nat list \<Rightarrow> 32 word" where
  "address os = fold (\<lambda>n w. push_bit 8 w + of_nat n) os 0"

definition in_cidr :: "string \<Rightarrow> 32 word \<Rightarrow> bool" where
  "in_cidr cidr a =
     (case py_partition CHR ''/'' cidr of (base, sep, len) \<Rightarrow>
        (case digits_of len of
           None \<Rightarrow> False
         | Some n \<Rightarrow> drop_bit (32 - nat n) a = drop_bit (32 - nat n) (address (octets base))))"

definition in_block :: "ip_block \<Rightarrow> 32 word \<Rightarrow> bool" where
  "in_block b a \<longleftrightarrow> in_cidr (ib_cidr b) a \<and> \<not> list_ex (\<lambda>c. in_cidr c a) (ib_except b)"

definition egress_permitted :: "network_policy list \<Rightarrow> 32 word \<Rightarrow> bool" where
  "egress_permitted policies a \<longleftrightarrow>
     (let selecting = filter (\<lambda>p. ''Egress'' \<in> set (np_policy_types p)) policies
      in selecting = [] \<or> list_ex (\<lambda>p. list_ex (\<lambda>rule. rule = [] \<or> list_ex (\<lambda>b. in_block b a) rule) (np_egress p)) selecting)"

fun policies_of :: "string \<Rightarrow> k8s_event list \<Rightarrow> network_policy list" where
  "policies_of ns [] = []"
| "policies_of ns (Asked (CreateNetworkPolicy n p) (Inr r) # es) = (if n = ns then p # policies_of ns es else policies_of ns es)"
| "policies_of ns (e # es) = policies_of ns es"

lemma in_cidr_blocks:
  "in_cidr ''0.0.0.0/0'' a" "in_cidr ''169.254.0.0/16'' a \<longleftrightarrow> drop_bit 16 a = 0xA9FE"
proof -
  have parts: "py_partition CHR ''/'' ''0.0.0.0/0'' = (''0.0.0.0'', True, ''0'')" "digits_of ''0'' = Some 0"
    "py_partition CHR ''/'' ''169.254.0.0/16'' = (''169.254.0.0'', True, ''16'')" "digits_of ''16'' = Some 16"
    "octets ''169.254.0.0'' = [169, 254, 0, 0]" by code_simp+
  show "in_cidr ''0.0.0.0/0'' a" by (simp add: in_cidr_def parts)
  have "drop_bit 16 (address [169, 254, 0, 0]) = 0xA9FE" by code_simp
  then show "in_cidr ''169.254.0.0/16'' a \<longleftrightarrow> drop_bit 16 a = 0xA9FE" by (simp add: in_cidr_def parts)
qed

text \<open>
  With the two policies of a sandbox namespace in force, a sandbox can reach an address exactly when the
  address lies outside the link-local range 169.254.0.0/16: the cloud's metadata service is out of reach, and
  every other address is not.
\<close>

theorem egress_of_a_sandbox:
  "egress_permitted [default_deny, deny_metadata_egress] a \<longleftrightarrow> drop_bit 16 a \<noteq> 0xA9FE"
  by (simp add: egress_permitted_def default_deny_def deny_metadata_egress_def link_local_cidr_def in_block_def in_cidr_blocks)

subsection \<open>A namespace comes up whole or goes away\<close>

definition accepted :: "k8s_event list \<Rightarrow> k8s_request list" where
  "accepted evs = concat (map (\<lambda>e. case e of Asked q (Inr r) \<Rightarrow> [q] | _ \<Rightarrow> []) evs)"

lemma accepted_append [simp]: "accepted (xs @ ys) = accepted xs @ accepted ys"
  by (simp add: accepted_def)

lemma kube_do_run:
  "kube_do q k = (Inr u, k') \<Longrightarrow> accepted (occurred k k') = [q] \<and> advances (\<lambda>_. True) k k'"
  by (auto simp: kube_do_def kube_ask_def em_simps accepted_def advances_def split: sum.splits)

text \<open>Steps in sequence append what they had accepted.\<close>

lemma accepted_seq:
  assumes "seq_em m n k = (Inr y, k')"
    and "\<And>x l. m k = (Inr x, l) \<Longrightarrow> accepted (occurred k l) = qs \<and> advances (\<lambda>_. True) k l"
    and "\<And>l. n l = (Inr y, k') \<Longrightarrow> accepted (occurred l k') = rs \<and> advances (\<lambda>_. True) l k'"
  shows "accepted (occurred k k') = qs @ rs \<and> advances (\<lambda>_. True) k k'"
proof -
  from assms(1) obtain x l where "m k = (Inr x, l)" "n l = (Inr y, k')" by (auto simp: seq_em_Inr_iff)
  with assms(2,3) occurred_trans [of "\<lambda>_. True" k l "\<lambda>_. True" k'] show ?thesis by (auto intro: adv.trans_rel)
qed

definition removal :: "string \<Rightarrow> bool \<Rightarrow> k8s_request" where
  "removal namespace persistent = (if persistent then DeletePod namespace pod_name else DeleteNamespace namespace)"

lemma cleanup_run:
  assumes "cleanup_after_acquire_failure namespace persistent k = (r, k')"
  shows "(\<exists>q. last (kw_events k') = Asked (removal namespace persistent) q) \<and> (\<forall>e. r = Inl e \<longrightarrow> \<not> is_api_exception e)"
  using assms
  by (auto simp: cleanup_after_acquire_failure_def delete_pod_only_def cleanup_namespace_def removal_def kube_do_def kube_ask_def
      em_simps split: sum.splits if_splits)

lemma create_parts_run:
  "create_network_policy ns k = (Inr u, k') \<Longrightarrow>
     accepted (occurred k k') = [CreateNetworkPolicy ns default_deny, CreateNetworkPolicy ns deny_metadata_egress] \<and> advances (\<lambda>_. True) k k'"
  "create_resource_quota ns spec k = (Inr u, k') \<Longrightarrow>
     \<exists>hard. quota_hard spec = Inr hard \<and> accepted (occurred k k') = [CreateResourceQuota ns hard] \<and> advances (\<lambda>_. True) k k'"
  "create_limit_range ns spec k = (Inr u, k') \<Longrightarrow>
     \<exists>l. limits_of spec = Inr l \<and> accepted (occurred k k') = [CreateLimitRange ns l] \<and> advances (\<lambda>_. True) k k'"
  "create_pod ns i spec k = (Inr u, k') \<Longrightarrow>
     accepted (occurred k k') = [CreatePod ns (sandbox_pod (kw_runtime_class k) ns i spec)] \<and> advances (\<lambda>_. True) k k'"
proof -
  show "create_network_policy ns k = (Inr u, k') \<Longrightarrow>
     accepted (occurred k k') = [CreateNetworkPolicy ns default_deny, CreateNetworkPolicy ns deny_metadata_egress] \<and> advances (\<lambda>_. True) k k'"
    unfolding create_network_policy_def
    using accepted_seq [of "kube_do (CreateNetworkPolicy ns default_deny)" "kube_do (CreateNetworkPolicy ns deny_metadata_egress)" k u k'
        "[CreateNetworkPolicy ns default_deny]" "[CreateNetworkPolicy ns deny_metadata_egress]"] kube_do_run by simp
qed (auto simp: create_resource_quota_def create_limit_range_def create_pod_def bind_em_Inr_iff dest!: kube_do_run)

lemma ephemeral_namespace_is_complete:
  assumes p: "provision_namespace ns i spec k0 = (Inr u, k1)" and none: "sp_workspace_id spec = None"
  shows "\<exists>hard lrange rest. quota_hard spec = Inr hard \<and> limits_of spec = Inr lrange \<and> accepted (occurred k0 k1) =
    [CreateNamespace \<lparr>ns_name = ns, ns_labels = [(sandbox_id_label, i)], ns_annotations = sp_labels spec, ns_created = 0\<rparr>,
     CreateNetworkPolicy ns default_deny, CreateNetworkPolicy ns deny_metadata_egress, CreateResourceQuota ns hard,
     CreateLimitRange ns lrange, CreatePod ns (sandbox_pod (kw_runtime_class k0) ns i spec)] @ rest"
proof -
  from p none obtain a1 a2 a3 a b1 where
    s: "kube_do (CreateNamespace \<lparr>ns_name = ns, ns_labels = [(sandbox_id_label, i)], ns_annotations = sp_labels spec, ns_created = 0\<rparr>) k0 = (Inr (), a1)"
    "create_network_policy ns a1 = (Inr (), a2)" "create_resource_quota ns spec a2 = (Inr (), a3)" "create_limit_range ns spec a3 = (Inr (), a)"
    "create_pod ns i spec a = (Inr (), b1)" "wait_ready ns b1 = (Inr (), k1)"
    by (auto simp: provision_namespace_def seq_em_Inr_iff)
  note e1 = kube_do_run [OF s(1)] and e2 = create_parts_run(1) [OF s(2)] and e5 = create_parts_run(4) [OF s(5)]
  from create_parts_run(2) [OF s(3)] create_parts_run(3) [OF s(4)] obtain hard lrange where
    e3: "quota_hard spec = Inr hard" "accepted (occurred a2 a3) = [CreateResourceQuota ns hard]" "advances (\<lambda>_. True) a2 a3" and
    e4: "limits_of spec = Inr lrange" "accepted (occurred a3 a) = [CreateLimitRange ns lrange]" "advances (\<lambda>_. True) a3 a" by blast
  have e6: "advances (\<lambda>_. True) b1 k1" using movesD' [OF waiting_advances(1) s(6)] by simp
  note t5 = adv.trans_rel [OF conjunct2 [OF e5] e6]
  note t4 = adv.trans_rel [OF e4(3) t5]
  note t3 = adv.trans_rel [OF e3(3) t4]
  note t2 = adv.trans_rel [OF conjunct2 [OF e2] t3]
  have "occurred k0 k1 = occurred k0 a1 @ occurred a1 a2 @ occurred a2 a3 @ occurred a3 a @ occurred a b1 @ occurred b1 k1"
    using occurred_trans [OF conjunct2 [OF e1] t2] occurred_trans [OF conjunct2 [OF e2] t3] occurred_trans [OF e3(3) t4]
      occurred_trans [OF e4(3) t5] occurred_trans [OF conjunct2 [OF e5] e6] by simp
  moreover have "kw_runtime_class a = kw_runtime_class k0"
    using conjunct2 [OF e1] conjunct2 [OF e2] e3(3) e4(3) by (simp add: advances_def)
  ultimately show ?thesis using e1 e2 e3 e4 e5 by auto
qed



subsection \<open>A namespace that was half made\<close>

text \<open>
  A namespace of a persistent workspace outlives a failed acquisition, and the next acquisition takes its
  existence for its completeness. The server below refuses the first network policy it is asked for (the API
  server restarts, say) and nothing else.
\<close>

definition flaky_cluster :: cluster where
  "flaky_cluster = demo_cluster\<lparr>cl_api := (\<lambda>tr q. case q of
       ReadNamespace ns \<Rightarrow>
         if list_all (\<lambda>e. case e of Asked (CreateNamespace n) (Inr r) \<Rightarrow> False | _ \<Rightarrow> True) tr then Inl (ApiException 404 ''absent'') else Inr Done
     | ReadPod n ns \<Rightarrow>
         if list_all (\<lambda>e. case e of Asked (CreatePod m p) (Inr r) \<Rightarrow> False | _ \<Rightarrow> True) tr then Inl (ApiException 404 ''absent'')
         else Inr (PodStatus \<lparr>ps_phase = ''Running'', ps_ready = [True]\<rparr>)
     | CreateNetworkPolicy ns p \<Rightarrow>
         if list_all (\<lambda>e. case e of Asked (CreateNetworkPolicy m x) r \<Rightarrow> False | _ \<Rightarrow> True) tr then Inl (ApiException 500 ''restarting'') else Inr Done
     | _ \<Rightarrow> Inr Done)\<rparr>"

definition volume_pair_spec :: sandbox_spec where
  "volume_pair_spec = pair_spec\<lparr>sp_workspace_id := Some ''w1''\<rparr>"

lemmas k8s_run_simps = k8s_acquire_def provision_namespace_def ensure_persistent_namespace_def ensure_no_stale_pod_def
  create_network_policy_def create_pod_def wait_ready_def ready_loop.simps read_pod_def
  kube_do_def kube_ask_def kube_now_def cleanup_after_acquire_failure_def delete_pod_only_def em_simps Let_def

lemma half_made_namespace_stays_open:
  "\<exists>e k1 h k2. k8s_acquire volume_pair_spec (kube_of flaky_cluster) = (Inl e, k1) \<and>
     k8s_acquire volume_pair_spec k1 = (Inr h, k2) \<and> h_native_ref h = ''sb-ws-w1'' \<and>
     policies_of ''sb-ws-w1'' (kw_events k2) = [] \<and>
     list_all (\<lambda>e. case e of Asked (CreateResourceQuota n q) r \<Rightarrow> False | Asked (CreateClaim n c s) r \<Rightarrow> False | _ \<Rightarrow> True) (kw_events k2)"
proof -
  have w: "sp_workspace_id volume_pair_spec = Some ''w1''" by (simp add: volume_pair_spec_def)
  have ns: "sandbox_namespace ''sb-'' volume_pair_spec i = ''sb-ws-w1''" for i by (simp add: sandbox_namespace_def w)
  obtain e k1 where one: "k8s_acquire volume_pair_spec (kube_of flaky_cluster) = (Inl e, k1)"
    and tr: "k1 = snd (k8s_acquire volume_pair_spec (kube_of flaky_cluster))"
    by (simp add: k8s_run_simps w ns kube_of_def flaky_cluster_def demo_cluster_def)
  obtain h k2 where two: "k8s_acquire volume_pair_spec k1 = (Inr h, k2)"
    and "h_native_ref h = ''sb-ws-w1''" "policies_of ''sb-ws-w1'' (kw_events k2) = []"
    "list_all (\<lambda>e. case e of Asked (CreateResourceQuota n q) r \<Rightarrow> False | Asked (CreateClaim n c s) r \<Rightarrow> False | _ \<Rightarrow> True) (kw_events k2)"
    unfolding tr
    by (simp add: k8s_run_simps w ns kube_of_def flaky_cluster_def demo_cluster_def pod_ready_timeout_us_def)
  with one show ?thesis by blast
qed

text \<open>
  The names of a sidecar's volumes do not only differ from the main container's by chance: the slug of a path
  starts with the letters of the path, so a path that starts with the sidecar's name gives the same one.
\<close>

lemma volume_names_can_collide:
  "volume_name ''/db/data'' = sidecar_volume_name ''db'' ''/data''"
  by code_simp

end
