(* ===== verification/Sdk_Models.thy ===== *)
theory Sdk_Models
  imports Manifests
begin

section \<open>The SDK's models of responses\<close>

text \<open>
  \<open>sdk/kubesandbox/models.py\<close>. The dataclasses check no types: a field holds whatever JSON value the
  response has, \<open>None\<close> being \<open>JNull\<close>, except where \<open>from_dict\<close> converts it. \<open>datetime.fromisoformat\<close> is an
  argument; a time is a count of microseconds.
\<close>

subsection \<open>Reading a dict\<close>

text \<open>\<open>data[key]\<close>: only a dict can be indexed by a string.\<close>

fun subscript :: "json \<Rightarrow> string \<Rightarrow> exn + json" where
  "subscript (JObject kvs) k = (case map_of kvs k of None \<Rightarrow> Inl (OtherException ''KeyError'') | Some v \<Rightarrow> Inr v)"
| "subscript _ k = Inl (OtherException ''TypeError'')"

text \<open>\<open>data[key]\<close>, \<open>data.get(key, default)\<close>, \<open>list(data.get(key) or [])\<close> and \<open>_parse_dt(data.get(key))\<close>, with what is built from them.\<close>

definition need :: "json \<Rightarrow> string \<Rightarrow> (json \<Rightarrow> exn + 'a) \<Rightarrow> exn + 'a" where
  "need data k f = (case subscript data k of Inl e \<Rightarrow> Inl e | Inr v \<Rightarrow> f v)"

definition maybe :: "json \<Rightarrow> string \<Rightarrow> json \<Rightarrow> (json \<Rightarrow> exn + 'a) \<Rightarrow> exn + 'a" where
  "maybe data k default_value f =
     (case json_get data k of Inl e \<Rightarrow> Inl e | Inr None \<Rightarrow> f default_value | Inr (Some v) \<Rightarrow> f v)"

fun py_list :: "json \<Rightarrow> exn + json list" where
  "py_list (JList xs) = Inr xs"
| "py_list (JString s) = Inr (map (\<lambda>c. JString [c]) s)"
| "py_list (JObject kvs) = Inr (map (JString \<circ> fst) kvs)"
| "py_list _ = Inl (OtherException ''TypeError'')"

definition py_or_json :: "json \<Rightarrow> json \<Rightarrow> json" where
  "py_or_json v alternative = (if py_truthy v then v else alternative)"

definition a_list :: "json \<Rightarrow> string \<Rightarrow> (json list \<Rightarrow> exn + 'a) \<Rightarrow> exn + 'a" where
  "a_list data k f =
     maybe data k JNull (\<lambda>v. case py_list (py_or_json v (JList [])) of Inl e \<Rightarrow> Inl e | Inr xs \<Rightarrow> f xs)"

fun parse_dt :: "(string \<Rightarrow> exn + int) \<Rightarrow> json \<Rightarrow> exn + int option" where
  "parse_dt from_iso JNull = Inr None"
| "parse_dt from_iso (JString s) = map_sum id Some (from_iso s)"
| "parse_dt from_iso _ = Inl (OtherException ''TypeError'')"

definition a_time :: "(string \<Rightarrow> exn + int) \<Rightarrow> json \<Rightarrow> string \<Rightarrow> (int option \<Rightarrow> exn + 'a) \<Rightarrow> exn + 'a" where
  "a_time from_iso data k f =
     maybe data k JNull (\<lambda>v. case parse_dt from_iso v of Inl e \<Rightarrow> Inl e | Inr t \<Rightarrow> f t)"

text \<open>Numbers as Python compares and adds them; a bool is one.\<close>

fun py_number :: "json \<Rightarrow> rat option" where
  "py_number (JInt n) = Some (of_int n)"
| "py_number (JFloat q) = Some q"
| "py_number (JBool b) = Some (if b then 1 else 0)"
| "py_number _ = None"

definition py_is_zero :: "json \<Rightarrow> bool" where
  "py_is_zero v \<longleftrightarrow> py_number v = Some 0"

subsection \<open>Runs and sandboxes\<close>

record sdk_run_result =
  jr_run_id :: json
  jr_exit_code :: json
  jr_stdout :: json
  jr_stderr :: json
  jr_duration_ms :: json
  jr_truncated :: json
  jr_timed_out :: json
  jr_variables :: json

definition run_result_ok :: "sdk_run_result \<Rightarrow> bool" where
  "run_result_ok r \<longleftrightarrow> py_is_zero (jr_exit_code r) \<and> \<not> py_truthy (jr_timed_out r) \<and> \<not> py_truthy (jr_truncated r)"

definition run_result_from_dict :: "json \<Rightarrow> exn + sdk_run_result" where
  "run_result_from_dict data =
     need data ''run_id'' (\<lambda>i.
     need data ''exit_code'' (\<lambda>code.
     need data ''stdout'' (\<lambda>out.
     need data ''stderr'' (\<lambda>err.
     need data ''duration_ms'' (\<lambda>ms.
     maybe data ''truncated'' (JBool False) (\<lambda>cut.
     maybe data ''timed_out'' (JBool False) (\<lambda>late.
     maybe data ''variables'' JNull (\<lambda>vars.
     Inr \<lparr>jr_run_id = i, jr_exit_code = code, jr_stdout = out, jr_stderr = err, jr_duration_ms = ms,
          jr_truncated = cut, jr_timed_out = late, jr_variables = vars\<rparr>))))))))"

record sdk_sandbox =
  jx_id :: json
  jx_state :: json
  jx_backend :: json
  jx_weight_class :: json
  jx_persistent :: json
  jx_created_at :: "int option"
  jx_template_ref :: json
  jx_component_refs :: "json list"
  jx_last_active_at :: "int option"
  jx_terminated_at :: "int option"

definition sandbox_from_dict :: "(string \<Rightarrow> exn + int) \<Rightarrow> json \<Rightarrow> exn + sdk_sandbox" where
  "sandbox_from_dict from_iso data =
     need data ''id'' (\<lambda>i.
     need data ''state'' (\<lambda>state.
     need data ''backend'' (\<lambda>backend.
     need data ''weight_class'' (\<lambda>wc.
     need data ''persistent'' (\<lambda>persistent.
     a_time from_iso data ''created_at'' (\<lambda>created.
     maybe data ''template_ref'' JNull (\<lambda>tref.
     a_list data ''component_refs'' (\<lambda>crefs.
     a_time from_iso data ''last_active_at'' (\<lambda>active.
     a_time from_iso data ''terminated_at'' (\<lambda>ended.
     Inr \<lparr>jx_id = i, jx_state = state, jx_backend = backend, jx_weight_class = wc, jx_persistent = persistent,
          jx_created_at = created, jx_template_ref = tref, jx_component_refs = crefs, jx_last_active_at = active,
          jx_terminated_at = ended\<rparr>))))))))))"

record sdk_file_entry =
  jf_path :: json
  jf_is_dir :: json

definition file_entry_from_dict :: "json \<Rightarrow> exn + sdk_file_entry" where
  "file_entry_from_dict data =
     need data ''path'' (\<lambda>p. need data ''is_dir'' (\<lambda>d. Inr \<lparr>jf_path = p, jf_is_dir = d\<rparr>))"

record sdk_run =
  jn_id :: json
  jn_status :: json
  jn_sandbox_id :: json
  jn_component_ref :: json
  jn_exit_code :: json
  jn_duration_ms :: json
  jn_truncated :: json
  jn_timed_out :: json
  jn_created_at :: "int option"
  jn_finished_at :: "int option"
  jn_command :: "json list"
  jn_stdout :: json
  jn_stderr :: json
  jn_variables :: json
  jn_error :: json

definition run_done :: "sdk_run \<Rightarrow> bool" where
  "run_done r \<longleftrightarrow> jn_status r = JString ''completed'' \<or> jn_status r = JString ''failed''"

definition run_ok :: "sdk_run \<Rightarrow> bool" where
  "run_ok r \<longleftrightarrow> jn_status r = JString ''completed'' \<and> py_is_zero (jn_exit_code r) \<and> \<not> py_truthy (jn_timed_out r) \<and>
     \<not> py_truthy (jn_truncated r)"

definition as_result :: "sdk_run \<Rightarrow> sdk_run_result" where
  "as_result r =
     \<lparr>jr_run_id = jn_id r, jr_exit_code = (if jn_exit_code r = JNull then JInt (- 1) else jn_exit_code r),
      jr_stdout = jn_stdout r, jr_stderr = jn_stderr r, jr_duration_ms = py_or_json (jn_duration_ms r) (JInt 0),
      jr_truncated = jn_truncated r, jr_timed_out = jn_timed_out r, jr_variables = jn_variables r\<rparr>"

definition run_from_dict :: "(string \<Rightarrow> exn + int) \<Rightarrow> json \<Rightarrow> exn + sdk_run" where
  "run_from_dict from_iso data =
     need data ''id'' (\<lambda>i.
     need data ''status'' (\<lambda>status.
     maybe data ''sandbox_id'' JNull (\<lambda>sandbox.
     maybe data ''component_ref'' JNull (\<lambda>component.
     maybe data ''exit_code'' JNull (\<lambda>code.
     maybe data ''duration_ms'' JNull (\<lambda>ms.
     maybe data ''truncated'' (JBool False) (\<lambda>cut.
     maybe data ''timed_out'' (JBool False) (\<lambda>late.
     a_time from_iso data ''created_at'' (\<lambda>created.
     a_time from_iso data ''finished_at'' (\<lambda>finished.
     a_list data ''command'' (\<lambda>command.
     maybe data ''stdout'' (JString []) (\<lambda>out.
     maybe data ''stderr'' (JString []) (\<lambda>err.
     maybe data ''variables'' JNull (\<lambda>vars.
     maybe data ''error'' JNull (\<lambda>error.
     Inr \<lparr>jn_id = i, jn_status = status, jn_sandbox_id = sandbox, jn_component_ref = component, jn_exit_code = code,
          jn_duration_ms = ms, jn_truncated = cut, jn_timed_out = late, jn_created_at = created, jn_finished_at = finished,
          jn_command = command, jn_stdout = out, jn_stderr = err, jn_variables = vars, jn_error = error\<rparr>)))))))))))))))"

subsection \<open>The catalogue and builds\<close>

record sdk_component =
  jc_key :: json
  jc_name :: json
  jc_version :: json
  jc_category :: json
  jc_display_name :: json
  jc_description :: json

definition component_from_dict :: "json \<Rightarrow> exn + sdk_component" where
  "component_from_dict data =
     need data ''key'' (\<lambda>k.
     need data ''name'' (\<lambda>n.
     need data ''version'' (\<lambda>v.
     need data ''category'' (\<lambda>c.
     maybe data ''displayName'' JNull (\<lambda>shown.
     maybe data ''description'' JNull (\<lambda>text.
     Inr \<lparr>jc_key = k, jc_name = n, jc_version = v, jc_category = c, jc_display_name = shown, jc_description = text\<rparr>))))))"

record sdk_template =
  jt_key :: json
  jt_name :: json
  jt_version :: json
  jt_base_ref :: json
  jt_component_refs :: "json list"
  jt_display_name :: json
  jt_description :: json

definition template_from_dict :: "json \<Rightarrow> exn + sdk_template" where
  "template_from_dict data =
     need data ''key'' (\<lambda>k.
     need data ''name'' (\<lambda>n.
     need data ''version'' (\<lambda>v.
     need data ''base_ref'' (\<lambda>b.
     a_list data ''component_refs'' (\<lambda>crefs.
     maybe data ''displayName'' JNull (\<lambda>shown.
     maybe data ''description'' JNull (\<lambda>text.
     Inr \<lparr>jt_key = k, jt_name = n, jt_version = v, jt_base_ref = b, jt_component_refs = crefs, jt_display_name = shown,
          jt_description = text\<rparr>)))))))"

record sdk_build =
  jb_build_id :: json
  jb_component_name :: json
  jb_component_version :: json
  jb_strategy :: json
  jb_status :: json
  jb_image_ref :: json
  jb_artifact_ref :: json
  jb_error :: json
  jb_log_excerpt :: json
  jb_build_created_at :: "int option"
  jb_started_at :: "int option"
  jb_finished_at :: "int option"

definition build_done :: "sdk_build \<Rightarrow> bool" where
  "build_done b \<longleftrightarrow> jb_status b = JString ''succeeded'' \<or> jb_status b = JString ''failed''"

definition build_from_dict :: "(string \<Rightarrow> exn + int) \<Rightarrow> json \<Rightarrow> exn + sdk_build" where
  "build_from_dict from_iso data =
     need data ''id'' (\<lambda>i.
     need data ''component_name'' (\<lambda>n.
     need data ''component_version'' (\<lambda>v.
     need data ''strategy'' (\<lambda>strategy.
     need data ''status'' (\<lambda>status.
     maybe data ''image_ref'' JNull (\<lambda>img.
     maybe data ''artifact_ref'' JNull (\<lambda>artifact.
     maybe data ''error'' JNull (\<lambda>error.
     maybe data ''log_excerpt'' JNull (\<lambda>log.
     a_time from_iso data ''created_at'' (\<lambda>created.
     a_time from_iso data ''started_at'' (\<lambda>started.
     a_time from_iso data ''finished_at'' (\<lambda>finished.
     Inr \<lparr>jb_build_id = i, jb_component_name = n, jb_component_version = v, jb_strategy = strategy, jb_status = status,
          jb_image_ref = img, jb_artifact_ref = artifact, jb_error = error, jb_log_excerpt = log,
          jb_build_created_at = created, jb_started_at = started, jb_finished_at = finished\<rparr>))))))))))))"

subsection \<open>Pages\<close>

record 'a sdk_page =
  jp_items :: "'a list"
  jp_total :: json
  jp_limit :: json
  jp_offset :: json

text \<open>\<open>for item in data\<close>, with \<open>parse\<close> applied to each item, first to last.\<close>

fun parse_each :: "(json \<Rightarrow> exn + 'a) \<Rightarrow> json list \<Rightarrow> exn + 'a list" where
  "parse_each parse [] = Inr []"
| "parse_each parse (v # vs) =
     (case parse v of
        Inl e \<Rightarrow> Inl e
      | Inr x \<Rightarrow> (case parse_each parse vs of Inl e \<Rightarrow> Inl e | Inr xs \<Rightarrow> Inr (x # xs)))"

definition items_of :: "(json \<Rightarrow> exn + 'a) \<Rightarrow> json \<Rightarrow> exn + 'a list" where
  "items_of parse data = (case py_list data of Inl e \<Rightarrow> Inl e | Inr vs \<Rightarrow> parse_each parse vs)"

definition page_from_dict :: "(json \<Rightarrow> exn + 'a) \<Rightarrow> json \<Rightarrow> exn + 'a sdk_page" where
  "page_from_dict parse data =
     need data ''items'' (\<lambda>items.
     case items_of parse items of
       Inl e \<Rightarrow> Inl e
     | Inr xs \<Rightarrow>
         need data ''total'' (\<lambda>n.
         need data ''limit'' (\<lambda>limit.
         need data ''offset'' (\<lambda>offset.
         Inr \<lparr>jp_items = xs, jp_total = n, jp_limit = limit, jp_offset = offset\<rparr>))))"

definition has_more :: "'a sdk_page \<Rightarrow> exn + bool" where
  "has_more p =
     (case (py_number (jp_offset p), py_number (jp_total p)) of
        (Some offset, Some n) \<Rightarrow> Inr (offset + of_nat (length (jp_items p)) < n)
      | _ \<Rightarrow> Inl (OtherException ''TypeError''))"

subsection \<open>Identity and API keys\<close>

record sdk_principal =
  ji_tenant_id :: json
  ji_user_id :: json
  ji_role :: json
  ji_email :: json

definition is_service_account :: "sdk_principal \<Rightarrow> bool" where
  "is_service_account p \<longleftrightarrow> ji_role p = JString ''service''"

definition principal_from_dict :: "json \<Rightarrow> exn + sdk_principal" where
  "principal_from_dict data =
     need data ''tenant_id'' (\<lambda>t.
     maybe data ''user_id'' JNull (\<lambda>u.
     need data ''role'' (\<lambda>role.
     maybe data ''email'' JNull (\<lambda>email.
     Inr \<lparr>ji_tenant_id = t, ji_user_id = u, ji_role = role, ji_email = email\<rparr>))))"

record sdk_features =
  je_persistent_workspaces :: json
  je_billing :: json
  je_pooling :: json
  je_interactive_attach :: json

definition features_from_dict :: "json \<Rightarrow> exn + sdk_features" where
  "features_from_dict data =
     need data ''persistent_workspaces'' (\<lambda>w.
     need data ''billing'' (\<lambda>b.
     need data ''pooling'' (\<lambda>p.
     maybe data ''interactive_attach'' (JBool True) (\<lambda>a.
     Inr \<lparr>je_persistent_workspaces = w, je_billing = b, je_pooling = p, je_interactive_attach = a\<rparr>))))"

record sdk_identity =
  jd_principal :: sdk_principal
  jd_features :: sdk_features
  jd_app_env :: json

definition identity_from_dict :: "json \<Rightarrow> exn + sdk_identity" where
  "identity_from_dict data =
     need data ''principal'' (\<lambda>pd.
     case principal_from_dict pd of
       Inl e \<Rightarrow> Inl e
     | Inr p \<Rightarrow>
         need data ''features'' (\<lambda>fd.
         case features_from_dict fd of
           Inl e \<Rightarrow> Inl e
         | Inr fs \<Rightarrow> need data ''app_env'' (\<lambda>env. Inr \<lparr>jd_principal = p, jd_features = fs, jd_app_env = env\<rparr>)))"

record sdk_api_key =
  jk_id :: json
  jk_label :: json
  jk_prefix :: json
  jk_revoked :: json
  jk_created_at :: "int option"
  jk_last_used_at :: "int option"

definition api_key_from_dict :: "(string \<Rightarrow> exn + int) \<Rightarrow> json \<Rightarrow> exn + sdk_api_key" where
  "api_key_from_dict from_iso data =
     need data ''id'' (\<lambda>i.
     maybe data ''label'' JNull (\<lambda>label.
     maybe data ''prefix'' JNull (\<lambda>pre.
     need data ''revoked'' (\<lambda>revoked.
     a_time from_iso data ''created_at'' (\<lambda>created.
     a_time from_iso data ''last_used_at'' (\<lambda>used.
     Inr \<lparr>jk_id = i, jk_label = label, jk_prefix = pre, jk_revoked = revoked, jk_created_at = created,
          jk_last_used_at = used\<rparr>))))))"

record sdk_created_key = sdk_api_key +
  jk_api_key :: json

definition created_key_from_dict :: "(string \<Rightarrow> exn + int) \<Rightarrow> json \<Rightarrow> exn + sdk_created_key" where
  "created_key_from_dict from_iso data =
     (case api_key_from_dict from_iso data of
        Inl e \<Rightarrow> Inl e
      | Inr base \<Rightarrow> need data ''api_key'' (\<lambda>key. Inr (sdk_api_key.extend base \<lparr>jk_api_key = key\<rparr>)))"

subsection \<open>Billing and workspaces\<close>

record sdk_credit_request =
  jq_request_id :: json
  jq_tenant_id :: json
  jq_amount :: json
  jq_reason :: json
  jq_status :: json
  jq_review_note :: json
  jq_created_at :: "int option"
  jq_reviewed_at :: "int option"

definition credit_request_from_dict :: "(string \<Rightarrow> exn + int) \<Rightarrow> json \<Rightarrow> exn + sdk_credit_request" where
  "credit_request_from_dict from_iso data =
     need data ''id'' (\<lambda>i.
     need data ''tenant_id'' (\<lambda>t.
     need data ''amount'' (\<lambda>amount.
     need data ''reason'' (\<lambda>reason.
     need data ''status'' (\<lambda>status.
     maybe data ''review_note'' JNull (\<lambda>note.
     a_time from_iso data ''created_at'' (\<lambda>created.
     a_time from_iso data ''reviewed_at'' (\<lambda>reviewed.
     Inr \<lparr>jq_request_id = i, jq_tenant_id = t, jq_amount = amount, jq_reason = reason, jq_status = status,
          jq_review_note = note, jq_created_at = created, jq_reviewed_at = reviewed\<rparr>))))))))"

record sdk_billing_account =
  ja_enabled :: json
  ja_mode :: json
  ja_currency :: json
  ja_month_to_date_cost :: json
  ja_spend_cap :: json
  ja_balance :: json

definition billing_account_from_dict :: "json \<Rightarrow> exn + sdk_billing_account" where
  "billing_account_from_dict data =
     need data ''enabled'' (\<lambda>enabled.
     need data ''mode'' (\<lambda>mode.
     need data ''currency'' (\<lambda>currency.
     need data ''month_to_date_cost'' (\<lambda>cost.
     maybe data ''spend_cap'' JNull (\<lambda>cap.
     maybe data ''balance'' JNull (\<lambda>balance.
     Inr \<lparr>ja_enabled = enabled, ja_mode = mode, ja_currency = currency, ja_month_to_date_cost = cost,
          ja_spend_cap = cap, ja_balance = balance\<rparr>))))))"

record sdk_usage =
  ju_id :: json
  ju_resource_type :: json
  ju_quantity :: json
  ju_cost :: json
  ju_sandbox_id :: json
  ju_run_id :: json
  ju_recorded_at :: "int option"

definition usage_from_dict :: "(string \<Rightarrow> exn + int) \<Rightarrow> json \<Rightarrow> exn + sdk_usage" where
  "usage_from_dict from_iso data =
     need data ''id'' (\<lambda>i.
     need data ''resource_type'' (\<lambda>kind.
     need data ''quantity'' (\<lambda>quantity.
     need data ''cost'' (\<lambda>cost.
     maybe data ''sandbox_id'' JNull (\<lambda>sandbox.
     maybe data ''run_id'' JNull (\<lambda>run.
     a_time from_iso data ''recorded_at'' (\<lambda>recorded.
     Inr \<lparr>ju_id = i, ju_resource_type = kind, ju_quantity = quantity, ju_cost = cost, ju_sandbox_id = sandbox,
          ju_run_id = run, ju_recorded_at = recorded\<rparr>)))))))"

record sdk_workspace =
  jw_id :: json
  jw_state :: json
  jw_quota_mb :: json
  jw_used_mb :: json
  jw_used_percent :: json
  jw_last_access_at :: "int option"
  jw_created_at :: "int option"

definition workspace_from_dict :: "(string \<Rightarrow> exn + int) \<Rightarrow> json \<Rightarrow> exn + sdk_workspace" where
  "workspace_from_dict from_iso data =
     need data ''id'' (\<lambda>i.
     need data ''state'' (\<lambda>state.
     need data ''quota_mb'' (\<lambda>quota.
     need data ''used_mb'' (\<lambda>used.
     need data ''used_percent'' (\<lambda>percent.
     a_time from_iso data ''last_access_at'' (\<lambda>access.
     a_time from_iso data ''created_at'' (\<lambda>created.
     Inr \<lparr>jw_id = i, jw_state = state, jw_quota_mb = quota, jw_used_mb = used, jw_used_percent = percent,
          jw_last_access_at = access, jw_created_at = created\<rparr>)))))))"

record sdk_workspace_status =
  jws_enabled :: json
  jws_workspace :: "sdk_workspace option"
  jws_retention :: json

definition workspace_status_from_dict :: "(string \<Rightarrow> exn + int) \<Rightarrow> json \<Rightarrow> exn + sdk_workspace_status" where
  "workspace_status_from_dict from_iso data =
     maybe data ''workspace'' JNull (\<lambda>ws.
     need data ''enabled'' (\<lambda>enabled.
     case (if py_truthy ws then map_sum id Some (workspace_from_dict from_iso ws) else Inr None) of
       Inl e \<Rightarrow> Inl e
     | Inr w \<Rightarrow>
         maybe data ''retention'' JNull (\<lambda>retention.
         Inr \<lparr>jws_enabled = enabled, jws_workspace = w, jws_retention = py_or_json retention (JObject [])\<rparr>)))"

end
