(* ===== verification/Sdk_Client.thy ===== *)
theory Sdk_Client
  imports Sdk_Models PyStrings "HOL-Library.AList"
begin

section \<open>The synchronous SDK client\<close>

text \<open>
  \<open>sdk/kubesandbox/errors.py\<close>, \<open>_transport.py\<close> and \<open>client.py\<close>. The HTTP library and the server behind it are
  the parameter \<open>sl_send\<close>, which answers a request, knowing the configuration of the library's client and
  every exchange so far; \<open>json.dumps\<close>, \<open>str\<close> of a value that is not a string and \<open>datetime.fromisoformat\<close> are
  parameters too. The clock is \<open>time.monotonic()\<close>, in seconds: a request or a sleep takes as long as
  \<open>sl_delay\<close> says, in microseconds, beyond what was asked for.
\<close>

subsection \<open>Requests and responses\<close>

record http_request =
  hq_method :: string
  hq_path :: string
  hq_params :: "(string \<times> json) list option"
  hq_json :: "json option"
  hq_content :: "string option"
  hq_headers :: "(string \<times> string) list"

record http_response =
  hp_status :: int
  hp_body :: "exn + json"
  hp_text :: string
  hp_content :: string
  hp_method :: string
  hp_url :: string

record httpx_config =
  hx_base_url :: string
  hx_timeout :: rat
  hx_headers :: "(string \<times> string) list"

type_synonym sdk_log = "(http_request \<times> (exn + http_response)) list"

record sdk_lib =
  sl_send :: "httpx_config \<Rightarrow> sdk_log \<Rightarrow> http_request \<Rightarrow> exn + http_response"
  sl_delay :: "sdk_log \<Rightarrow> nat"
  sl_dumps :: "json \<Rightarrow> string"
  sl_str :: "json \<Rightarrow> string"
  sl_from_iso :: "string \<Rightarrow> exn + int"

record sdk_client =
  sdc_base_url :: string
  sdc_api_key :: "string option"
  sdc_owns_client :: bool
  sdc_http :: httpx_config

record sdk_world =
  sd_lib :: sdk_lib
  sd_client :: sdk_client
  sd_log :: sdk_log
  sd_clock :: rat
  sd_closed :: bool

type_synonym 'a sdk = "(sdk_world, 'a) em"

subsection \<open>Errors\<close>

definition status_map :: "(int \<times> api_error) list" where
  "status_map = [(400, BadRequest), (401, Authentication), (403, PermissionDenied), (404, NotFound), (409, Conflict),
     (422, BadRequest), (429, QuotaExceeded), (502, ProvisionerFailed), (503, ServiceUnavailable)]"

definition error_for_status :: "int \<Rightarrow> string \<Rightarrow> string \<Rightarrow> string \<Rightarrow> exn" where
  "error_for_status status detail http_method url =
     SdkAPIError (case map_of status_map status of None \<Rightarrow> APIError | Some cls \<Rightarrow> cls) status detail http_method url"

subsection \<open>Transport\<close>

definition default_timeout :: rat where
  "default_timeout = 180"

definition api_key_header :: string where
  "api_key_header = ''X-API-Key''"

definition build_headers :: "string option \<Rightarrow> (string \<times> string) list option \<Rightarrow> (string \<times> string) list" where
  "build_headers api_key extra =
     (let headers = [(''Accept'', ''application/json'')];
          headers = (case api_key of None \<Rightarrow> headers
                     | Some k \<Rightarrow> if k = [] then headers else AList.update api_key_header k headers)
      in case extra of None \<Rightarrow> headers | Some kvs \<Rightarrow> fold (\<lambda>(k, v). AList.update k v) kvs headers)"

fun is_value_error_sdk :: "exn \<Rightarrow> bool" where
  "is_value_error_sdk (ValueError _) = True"
| "is_value_error_sdk _ = False"

definition detail_from :: "(json \<Rightarrow> string) \<Rightarrow> http_response \<Rightarrow> exn + string" where
  "detail_from dumps response =
     (case hp_body response of
        Inl e \<Rightarrow>
          if is_value_error_sdk e then
            Inr (let t = py_strip (hp_text response) in if t \<noteq> [] then t else ''<empty '' @ int_str (hp_status response) @ '' body>'')
          else Inl e
      | Inr payload \<Rightarrow>
          Inr (case payload of
                 JObject kvs \<Rightarrow>
                   (case map_of kvs ''detail'' of
                      None \<Rightarrow> dumps payload
                    | Some detail \<Rightarrow> (case detail of JString s \<Rightarrow> s | _ \<Rightarrow> dumps detail))
               | _ \<Rightarrow> dumps payload))"

text \<open>\<open>response.is_success\<close> is a status of 200 to 299.\<close>

definition raise_for_status :: "http_response \<Rightarrow> unit sdk" where
  "raise_for_status response =
     (if 200 \<le> hp_status response \<and> hp_status response \<le> 299 then return_em ()
      else
        bind_em (gets_em (\<lambda>w. sl_dumps (sd_lib w))) (\<lambda>dumps.
        bind_em (lift_em (detail_from dumps response)) (\<lambda>detail.
        raise_em (error_for_status (hp_status response) detail (hp_method response) (hp_url response)))))"

definition json_body :: "http_response \<Rightarrow> json sdk" where
  "json_body response = seq_em (raise_for_status response) (lift_em (hp_body response))"

subsection \<open>The client object\<close>

text \<open>\<open>base_url.rstrip("/")\<close>.\<close>

definition rstrip_slashes :: "string \<Rightarrow> string" where
  "rstrip_slashes s = rev (dropWhile (\<lambda>c. c = CHR ''/'') (rev s))"

definition new_client ::
  "string \<Rightarrow> string option \<Rightarrow> rat \<Rightarrow> (string \<times> string) list option \<Rightarrow> httpx_config option \<Rightarrow> sdk_client" where
  "new_client base_url api_key timeout headers given =
     \<lparr>sdc_base_url = rstrip_slashes base_url, sdc_api_key = api_key, sdc_owns_client = (given = None),
      sdc_http = (case given of
          Some c \<Rightarrow> c
        | None \<Rightarrow> \<lparr>hx_base_url = rstrip_slashes base_url, hx_timeout = timeout, hx_headers = build_headers api_key headers\<rparr>)\<rparr>"

definition sdk_pass_time :: "rat \<Rightarrow> sdk_world \<Rightarrow> sdk_world" where
  "sdk_pass_time seconds w = w\<lparr>sd_clock := sd_clock w + seconds + of_nat (sl_delay (sd_lib w) (sd_log w)) / 1000000\<rparr>"

text \<open>A closed client refuses to send.\<close>

definition sdk_request :: "http_request \<Rightarrow> http_response sdk" where
  "sdk_request q = (\<lambda>w.
     if sd_closed w then (Inl (OtherException ''RuntimeError''), w)
     else
       let r = sl_send (sd_lib w) (sdc_http (sd_client w)) (sd_log w) q
       in (r, sdk_pass_time 0 (w\<lparr>sd_log := sd_log w @ [(q, r)]\<rparr>)))"

definition get_of :: "string \<Rightarrow> http_request" where
  "get_of path = \<lparr>hq_method = ''GET'', hq_path = path, hq_params = None, hq_json = None, hq_content = None, hq_headers = []\<rparr>"

definition post_of :: "string \<Rightarrow> json \<Rightarrow> http_request" where
  "post_of path body = (get_of path)\<lparr>hq_method := ''POST'', hq_json := Some body\<rparr>"

definition delete_of :: "string \<Rightarrow> http_request" where
  "delete_of path = (get_of path)\<lparr>hq_method := ''DELETE''\<rparr>"

definition sdk_json :: "http_request \<Rightarrow> json sdk" where
  "sdk_json q = bind_em (sdk_request q) json_body"

definition close_client :: "unit sdk" where
  "close_client = (\<lambda>w. (Inr (), if sdc_owns_client (sd_client w) then w\<lparr>sd_closed := True\<rparr> else w))"

text \<open>\<open>with KubeSandboxClient(...) as ks\<close>.\<close>

definition with_client :: "'a sdk \<Rightarrow> 'a sdk" where
  "with_client body = finally_em body close_client"

text \<open>A response body read by a \<open>from_dict\<close>.\<close>

definition fetch :: "((string \<Rightarrow> exn + int) \<Rightarrow> json \<Rightarrow> exn + 'a) \<Rightarrow> http_request \<Rightarrow> 'a sdk" where
  "fetch parse q =
     bind_em (sdk_json q) (\<lambda>data.
     bind_em (gets_em (\<lambda>w. sl_from_iso (sd_lib w))) (\<lambda>from_iso.
     lift_em (parse from_iso data)))"

definition expect_success :: "http_request \<Rightarrow> unit sdk" where
  "expect_success q = bind_em (sdk_request q) raise_for_status"

subsection \<open>Health\<close>

definition sdk_healthz :: "json sdk" where
  "sdk_healthz = sdk_json (get_of ''/healthz'')"

definition sdk_readyz :: "json sdk" where
  "sdk_readyz = sdk_json (get_of ''/readyz'')"

subsection \<open>Batch execution and sandboxes\<close>

definition optional_field :: "string \<Rightarrow> string option \<Rightarrow> (string \<times> json) list" where
  "optional_field k v = (case v of None \<Rightarrow> [] | Some s \<Rightarrow> [(k, JString s)])"

definition sdk_execute_body :: "string \<Rightarrow> string \<Rightarrow> string \<Rightarrow> string option \<Rightarrow> string option \<Rightarrow> json" where
  "sdk_execute_body language code stdin version template =
     JObject ([(''language'', JString language), (''code'', JString code), (''stdin'', JString stdin)] @
       optional_field ''version'' version @ optional_field ''template'' template)"

definition sdk_execute ::
  "string \<Rightarrow> string \<Rightarrow> string \<Rightarrow> string option \<Rightarrow> string option \<Rightarrow> sdk_run_result sdk" where
  "sdk_execute language code stdin version template =
     fetch (\<lambda>_. run_result_from_dict) (post_of ''/v1/execute'' (sdk_execute_body language code stdin version template))"

definition sdk_create_sandbox :: "string \<Rightarrow> string option \<Rightarrow> string option \<Rightarrow> bool \<Rightarrow> sdk_sandbox sdk" where
  "sdk_create_sandbox language version template persistent =
     fetch sandbox_from_dict (post_of ''/v1/sandboxes''
       (JObject ([(''language'', JString language), (''persistent'', JBool persistent)] @
         optional_field ''version'' version @ optional_field ''template'' template)))"

definition sandbox_path :: "string \<Rightarrow> string" where
  "sandbox_path sandbox_id = ''/v1/sandboxes/'' @ sandbox_id"

definition sdk_get_sandbox :: "string \<Rightarrow> sdk_sandbox sdk" where
  "sdk_get_sandbox sandbox_id = fetch sandbox_from_dict (get_of (sandbox_path sandbox_id))"

definition sdk_destroy_sandbox :: "string \<Rightarrow> unit sdk" where
  "sdk_destroy_sandbox sandbox_id = expect_success (delete_of (sandbox_path sandbox_id))"

definition sdk_run_code :: "string \<Rightarrow> string \<Rightarrow> string \<Rightarrow> string option \<Rightarrow> sdk_run_result sdk" where
  "sdk_run_code sandbox_id code stdin language =
     fetch (\<lambda>_. run_result_from_dict) (post_of (sandbox_path sandbox_id @ ''/runs'')
       (JObject ([(''code'', JString code), (''stdin'', JString stdin)] @ optional_field ''language'' language)))"

text \<open>The text of a value in an f-string.\<close>

definition py_format :: "(json \<Rightarrow> string) \<Rightarrow> json \<Rightarrow> string" where
  "py_format str_of v = (case v of JString s \<Rightarrow> s | _ \<Rightarrow> str_of v)"

text \<open>The context manager \<open>sandbox\<close>, around the body of the \<open>with\<close> statement.\<close>

definition with_sandbox :: "string \<Rightarrow> string option \<Rightarrow> string option \<Rightarrow> bool \<Rightarrow> (sdk_sandbox \<Rightarrow> 'a sdk) \<Rightarrow> 'a sdk" where
  "with_sandbox language version template persistent body =
     bind_em (sdk_create_sandbox language version template persistent) (\<lambda>created.
     finally_em (body created)
       (bind_em (gets_em (\<lambda>w. sl_str (sd_lib w))) (\<lambda>str_of.
        sdk_destroy_sandbox (py_format str_of (jx_id created)))))"

subsection \<open>Files\<close>

definition sdk_upload_file :: "string \<Rightarrow> string \<Rightarrow> string \<Rightarrow> unit sdk" where
  "sdk_upload_file sandbox_id path content =
     expect_success ((get_of (sandbox_path sandbox_id @ ''/files''))
       \<lparr>hq_method := ''PUT'', hq_params := Some [(''path'', JString path)], hq_content := Some content,
        hq_headers := [(''Content-Type'', ''application/octet-stream'')]\<rparr>)"

definition sdk_download_file :: "string \<Rightarrow> string \<Rightarrow> string sdk" where
  "sdk_download_file sandbox_id path =
     bind_em (sdk_request ((get_of (sandbox_path sandbox_id @ ''/files''))\<lparr>hq_params := Some [(''path'', JString path)]\<rparr>)) (\<lambda>response.
     seq_em (raise_for_status response) (return_em (hp_content response)))"

definition sdk_list_tree :: "string \<Rightarrow> string \<Rightarrow> sdk_file_entry list sdk" where
  "sdk_list_tree sandbox_id path =
     fetch (\<lambda>_. items_of file_entry_from_dict)
       ((get_of (sandbox_path sandbox_id @ ''/tree''))\<lparr>hq_params := Some [(''path'', JString path)]\<rparr>)"

subsection \<open>Catalogue and builds\<close>

text \<open>A parameter that is left out when it is falsy.\<close>

definition truthy_param :: "string \<Rightarrow> string option \<Rightarrow> (string \<times> json) list option" where
  "truthy_param k v = (case v of None \<Rightarrow> None | Some s \<Rightarrow> if s = [] then None else Some [(k, JString s)])"

definition sdk_list_components :: "string option \<Rightarrow> sdk_component list sdk" where
  "sdk_list_components category =
     fetch (\<lambda>_. items_of component_from_dict) ((get_of ''/v1/components'')\<lparr>hq_params := truthy_param ''category'' category\<rparr>)"

definition sdk_get_component_versions :: "string \<Rightarrow> json sdk" where
  "sdk_get_component_versions name = sdk_json (get_of (''/v1/components/'' @ name))"

definition sdk_list_templates :: "sdk_template list sdk" where
  "sdk_list_templates = fetch (\<lambda>_. items_of template_from_dict) (get_of ''/v1/templates'')"

definition sdk_get_template :: "string \<Rightarrow> json sdk" where
  "sdk_get_template name = sdk_json (get_of (''/v1/templates/'' @ name))"

definition sdk_trigger_build :: "string \<Rightarrow> string option \<Rightarrow> sdk_build sdk" where
  "sdk_trigger_build name version =
     fetch build_from_dict ((get_of (''/v1/components/'' @ name @ ''/build''))
       \<lparr>hq_method := ''POST'', hq_params := truthy_param ''version'' version\<rparr>)"

definition sdk_get_build :: "string \<Rightarrow> sdk_build sdk" where
  "sdk_get_build build_id = fetch build_from_dict (get_of (''/v1/builds/'' @ build_id))"

subsection \<open>Waiting\<close>

text \<open>\<open>time.sleep\<close> refuses a negative length.\<close>

definition sdk_sleep :: "rat \<Rightarrow> unit sdk" where
  "sdk_sleep seconds = (\<lambda>w. if seconds < 0 then (Inl (ValueError ''sleep length must be non-negative''), w) else (Inr (), sdk_pass_time seconds w))"

text \<open>
  The loop that \<open>wait_for_build\<close> and \<open>wait_for_run\<close> share: it may go on for ever when nothing takes any time,
  so a run that does not end is \<open>None\<close>.
\<close>

partial_function (option) poll_until ::
  "'a sdk \<Rightarrow> ('a \<Rightarrow> bool) \<Rightarrow> exn \<Rightarrow> unit sdk \<Rightarrow> rat \<Rightarrow> sdk_world \<Rightarrow> ((exn + 'a) \<times> sdk_world) option" where
  "poll_until get finished too_late pause deadline w =
     (case get w of
        (Inl e, w1) \<Rightarrow> Some (Inl e, w1)
      | (Inr x, w1) \<Rightarrow>
          if finished x then Some (Inr x, w1)
          else if deadline \<le> sd_clock w1 then Some (Inl too_late, w1)
          else
            (case pause w1 of
               (Inl e, w2) \<Rightarrow> Some (Inl e, w2)
             | (Inr _, w2) \<Rightarrow> poll_until get finished too_late pause deadline w2))"

definition sdk_wait_for_build :: "string \<Rightarrow> rat \<Rightarrow> rat \<Rightarrow> sdk_world \<Rightarrow> ((exn + sdk_build) \<times> sdk_world) option" where
  "sdk_wait_for_build build_id timeout interval w =
     poll_until (sdk_get_build build_id) build_done (SdkError build_id) (sdk_sleep interval) (sd_clock w + timeout) w"

subsection \<open>Runs in the background\<close>

definition sdk_get_run :: "string \<Rightarrow> sdk_run sdk" where
  "sdk_get_run run_id = fetch run_from_dict (get_of (''/v1/runs/'' @ run_id))"

definition sdk_execute_async ::
  "string \<Rightarrow> string \<Rightarrow> string \<Rightarrow> string option \<Rightarrow> string option \<Rightarrow> json sdk" where
  "sdk_execute_async language code stdin version template =
     bind_em (sdk_json ((post_of ''/v1/execute'' (sdk_execute_body language code stdin version template))
                \<lparr>hq_params := Some [(''async'', JBool True)]\<rparr>)) (\<lambda>data.
     lift_em (subscript data ''run_id''))"

definition sdk_wait_for_run :: "string \<Rightarrow> rat \<Rightarrow> rat \<Rightarrow> sdk_world \<Rightarrow> ((exn + sdk_run) \<times> sdk_world) option" where
  "sdk_wait_for_run run_id timeout interval w =
     poll_until (sdk_get_run run_id) run_done (SdkError run_id) (sdk_sleep interval) (sd_clock w + timeout) w"

subsection \<open>Billing, identity, listings, keys and workspaces\<close>

definition sdk_request_credit :: "rat \<Rightarrow> string \<Rightarrow> sdk_credit_request sdk" where
  "sdk_request_credit amount reason =
     fetch credit_request_from_dict (post_of ''/v1/billing/credit-requests''
       (JObject [(''amount'', JFloat amount), (''reason'', JString reason)]))"

definition sdk_list_credit_requests :: "sdk_credit_request list sdk" where
  "sdk_list_credit_requests = fetch (\<lambda>from_iso. items_of (credit_request_from_dict from_iso)) (get_of ''/v1/billing/credit-requests'')"

definition sdk_auth_config :: "json sdk" where
  "sdk_auth_config = sdk_json (get_of ''/v1/auth/config'')"

definition sdk_exchange_oidc_token :: "string \<Rightarrow> json sdk" where
  "sdk_exchange_oidc_token oidc_token = sdk_json (post_of ''/v1/auth/token'' (JObject [(''oidc_token'', JString oidc_token)]))"

definition sdk_me :: "sdk_identity sdk" where
  "sdk_me = fetch (\<lambda>_. identity_from_dict) (get_of ''/v1/me'')"

definition sdk_list_sandboxes :: "string option \<Rightarrow> bool \<Rightarrow> int \<Rightarrow> int \<Rightarrow> sdk_sandbox sdk_page sdk" where
  "sdk_list_sandboxes state mine limit offset =
     fetch (\<lambda>from_iso. page_from_dict (sandbox_from_dict from_iso)) ((get_of ''/v1/sandboxes'')\<lparr>hq_params :=
       Some ([(''limit'', JInt limit), (''offset'', JInt offset), (''mine'', JBool mine)] @ optional_field ''state'' state)\<rparr>)"

definition sdk_list_runs :: "string option \<Rightarrow> string option \<Rightarrow> int \<Rightarrow> int \<Rightarrow> sdk_run sdk_page sdk" where
  "sdk_list_runs sandbox_id status limit offset =
     fetch (\<lambda>from_iso. page_from_dict (run_from_dict from_iso)) ((get_of ''/v1/runs'')\<lparr>hq_params :=
       Some ([(''limit'', JInt limit), (''offset'', JInt offset)] @ optional_field ''sandbox_id'' sandbox_id @
         optional_field ''status'' status)\<rparr>)"

definition sdk_list_builds :: "string option \<Rightarrow> int \<Rightarrow> int \<Rightarrow> sdk_build sdk_page sdk" where
  "sdk_list_builds status limit offset =
     fetch (\<lambda>from_iso. page_from_dict (build_from_dict from_iso)) ((get_of ''/v1/builds'')\<lparr>hq_params :=
       Some ([(''limit'', JInt limit), (''offset'', JInt offset)] @ optional_field ''status'' status)\<rparr>)"

definition sdk_create_api_key :: "string \<Rightarrow> sdk_created_key sdk" where
  "sdk_create_api_key label = fetch created_key_from_dict (post_of ''/v1/api-keys'' (JObject [(''label'', JString label)]))"

definition sdk_list_api_keys :: "int \<Rightarrow> int \<Rightarrow> sdk_api_key sdk_page sdk" where
  "sdk_list_api_keys limit offset =
     fetch (\<lambda>from_iso. page_from_dict (api_key_from_dict from_iso)) ((get_of ''/v1/api-keys'')\<lparr>hq_params :=
       Some [(''limit'', JInt limit), (''offset'', JInt offset)]\<rparr>)"

definition sdk_revoke_api_key :: "string \<Rightarrow> unit sdk" where
  "sdk_revoke_api_key key_id = expect_success (delete_of (''/v1/api-keys/'' @ key_id))"

definition sdk_get_billing_account :: "sdk_billing_account sdk" where
  "sdk_get_billing_account = fetch (\<lambda>_. billing_account_from_dict) (get_of ''/v1/billing/account'')"

definition sdk_list_usage :: "int \<Rightarrow> int \<Rightarrow> int \<Rightarrow> sdk_usage sdk_page sdk" where
  "sdk_list_usage since_days limit offset =
     fetch (\<lambda>from_iso. page_from_dict (usage_from_dict from_iso)) ((get_of ''/v1/billing/usage'')\<lparr>hq_params :=
       Some [(''since_days'', JInt since_days), (''limit'', JInt limit), (''offset'', JInt offset)]\<rparr>)"

definition sdk_my_workspace :: "sdk_workspace_status sdk" where
  "sdk_my_workspace = fetch workspace_status_from_dict (get_of ''/v1/workspaces/me'')"

end
