(* ===== verification/Sdk_Async.thy ===== *)
theory Sdk_Async
  imports Sdk_Client
begin

section \<open>The asynchronous SDK client\<close>

text \<open>
  \<open>sdk/kubesandbox/async_client.py\<close>: the same endpoints over an asynchronous HTTP client, method by method. Then
  what the module promises: that the two clients differ in nothing a caller could observe.
\<close>

subsection \<open>Plumbing\<close>

definition async_new_client ::
  "string \<Rightarrow> string option \<Rightarrow> rat \<Rightarrow> (string \<times> string) list option \<Rightarrow> httpx_config option \<Rightarrow> sdk_client" where
  "async_new_client base_url api_key timeout headers given =
     \<lparr>sdc_base_url = rstrip_slashes base_url, sdc_api_key = api_key, sdc_owns_client = (given = None),
      sdc_http = (case given of
          Some c \<Rightarrow> c
        | None \<Rightarrow> \<lparr>hx_base_url = rstrip_slashes base_url, hx_timeout = timeout, hx_headers = build_headers api_key headers\<rparr>)\<rparr>"

definition async_request :: "http_request \<Rightarrow> http_response sdk" where
  "async_request q = (\<lambda>w.
     if sd_closed w then (Inl (OtherException ''RuntimeError''), w)
     else
       let r = sl_send (sd_lib w) (sdc_http (sd_client w)) (sd_log w) q
       in (r, sdk_pass_time 0 (w\<lparr>sd_log := sd_log w @ [(q, r)]\<rparr>)))"

definition async_json :: "http_request \<Rightarrow> json sdk" where
  "async_json q = bind_em (async_request q) json_body"

definition async_close_client :: "unit sdk" where
  "async_close_client = (\<lambda>w. (Inr (), if sdc_owns_client (sd_client w) then w\<lparr>sd_closed := True\<rparr> else w))"

definition async_with_client :: "'a sdk \<Rightarrow> 'a sdk" where
  "async_with_client body = finally_em body async_close_client"

definition async_fetch :: "((string \<Rightarrow> exn + int) \<Rightarrow> json \<Rightarrow> exn + 'a) \<Rightarrow> http_request \<Rightarrow> 'a sdk" where
  "async_fetch parse q =
     bind_em (async_json q) (\<lambda>data.
     bind_em (gets_em (\<lambda>w. sl_from_iso (sd_lib w))) (\<lambda>from_iso.
     lift_em (parse from_iso data)))"

definition async_expect_success :: "http_request \<Rightarrow> unit sdk" where
  "async_expect_success q = bind_em (async_request q) raise_for_status"

subsection \<open>The methods\<close>

definition async_healthz :: "json sdk" where
  "async_healthz = async_json (get_of ''/healthz'')"

definition async_readyz :: "json sdk" where
  "async_readyz = async_json (get_of ''/readyz'')"

definition async_execute ::
  "string \<Rightarrow> string \<Rightarrow> string \<Rightarrow> string option \<Rightarrow> string option \<Rightarrow> sdk_run_result sdk" where
  "async_execute language code stdin version template =
     async_fetch (\<lambda>_. run_result_from_dict) (post_of ''/v1/execute'' (sdk_execute_body language code stdin version template))"

definition async_create_sandbox :: "string \<Rightarrow> string option \<Rightarrow> string option \<Rightarrow> bool \<Rightarrow> sdk_sandbox sdk" where
  "async_create_sandbox language version template persistent =
     async_fetch sandbox_from_dict (post_of ''/v1/sandboxes''
       (JObject ([(''language'', JString language), (''persistent'', JBool persistent)] @
         optional_field ''version'' version @ optional_field ''template'' template)))"

definition async_get_sandbox :: "string \<Rightarrow> sdk_sandbox sdk" where
  "async_get_sandbox sandbox_id = async_fetch sandbox_from_dict (get_of (sandbox_path sandbox_id))"

definition async_destroy_sandbox :: "string \<Rightarrow> unit sdk" where
  "async_destroy_sandbox sandbox_id = async_expect_success (delete_of (sandbox_path sandbox_id))"

definition async_run_code :: "string \<Rightarrow> string \<Rightarrow> string \<Rightarrow> string option \<Rightarrow> sdk_run_result sdk" where
  "async_run_code sandbox_id code stdin language =
     async_fetch (\<lambda>_. run_result_from_dict) (post_of (sandbox_path sandbox_id @ ''/runs'')
       (JObject ([(''code'', JString code), (''stdin'', JString stdin)] @ optional_field ''language'' language)))"

definition async_with_sandbox :: "string \<Rightarrow> string option \<Rightarrow> string option \<Rightarrow> bool \<Rightarrow> (sdk_sandbox \<Rightarrow> 'a sdk) \<Rightarrow> 'a sdk" where
  "async_with_sandbox language version template persistent body =
     bind_em (async_create_sandbox language version template persistent) (\<lambda>created.
     finally_em (body created)
       (bind_em (gets_em (\<lambda>w. sl_str (sd_lib w))) (\<lambda>str_of.
        async_destroy_sandbox (py_format str_of (jx_id created)))))"

definition async_upload_file :: "string \<Rightarrow> string \<Rightarrow> string \<Rightarrow> unit sdk" where
  "async_upload_file sandbox_id path content =
     async_expect_success ((get_of (sandbox_path sandbox_id @ ''/files''))
       \<lparr>hq_method := ''PUT'', hq_params := Some [(''path'', JString path)], hq_content := Some content,
        hq_headers := [(''Content-Type'', ''application/octet-stream'')]\<rparr>)"

definition async_download_file :: "string \<Rightarrow> string \<Rightarrow> string sdk" where
  "async_download_file sandbox_id path =
     bind_em (async_request ((get_of (sandbox_path sandbox_id @ ''/files''))\<lparr>hq_params := Some [(''path'', JString path)]\<rparr>)) (\<lambda>response.
     seq_em (raise_for_status response) (return_em (hp_content response)))"

definition async_list_tree :: "string \<Rightarrow> string \<Rightarrow> sdk_file_entry list sdk" where
  "async_list_tree sandbox_id path =
     async_fetch (\<lambda>_. items_of file_entry_from_dict)
       ((get_of (sandbox_path sandbox_id @ ''/tree''))\<lparr>hq_params := Some [(''path'', JString path)]\<rparr>)"

definition async_list_components :: "string option \<Rightarrow> sdk_component list sdk" where
  "async_list_components category =
     async_fetch (\<lambda>_. items_of component_from_dict) ((get_of ''/v1/components'')\<lparr>hq_params := truthy_param ''category'' category\<rparr>)"

definition async_get_component_versions :: "string \<Rightarrow> json sdk" where
  "async_get_component_versions name = async_json (get_of (''/v1/components/'' @ name))"

definition async_list_templates :: "sdk_template list sdk" where
  "async_list_templates = async_fetch (\<lambda>_. items_of template_from_dict) (get_of ''/v1/templates'')"

definition async_get_template :: "string \<Rightarrow> json sdk" where
  "async_get_template name = async_json (get_of (''/v1/templates/'' @ name))"

definition async_trigger_build :: "string \<Rightarrow> string option \<Rightarrow> sdk_build sdk" where
  "async_trigger_build name version =
     async_fetch build_from_dict ((get_of (''/v1/components/'' @ name @ ''/build''))
       \<lparr>hq_method := ''POST'', hq_params := truthy_param ''version'' version\<rparr>)"

definition async_get_build :: "string \<Rightarrow> sdk_build sdk" where
  "async_get_build build_id = async_fetch build_from_dict (get_of (''/v1/builds/'' @ build_id))"

text \<open>\<open>asyncio.sleep\<close> takes a negative length for none.\<close>

definition async_sleep :: "rat \<Rightarrow> unit sdk" where
  "async_sleep seconds = (\<lambda>w. (Inr (), sdk_pass_time (max 0 seconds) w))"

definition async_wait_for_build :: "string \<Rightarrow> rat \<Rightarrow> rat \<Rightarrow> sdk_world \<Rightarrow> ((exn + sdk_build) \<times> sdk_world) option" where
  "async_wait_for_build build_id timeout interval w =
     poll_until (async_get_build build_id) build_done (SdkError build_id) (async_sleep interval) (sd_clock w + timeout) w"

definition async_get_run :: "string \<Rightarrow> sdk_run sdk" where
  "async_get_run run_id = async_fetch run_from_dict (get_of (''/v1/runs/'' @ run_id))"

definition async_execute_async ::
  "string \<Rightarrow> string \<Rightarrow> string \<Rightarrow> string option \<Rightarrow> string option \<Rightarrow> json sdk" where
  "async_execute_async language code stdin version template =
     bind_em (async_json ((post_of ''/v1/execute'' (sdk_execute_body language code stdin version template))
                \<lparr>hq_params := Some [(''async'', JBool True)]\<rparr>)) (\<lambda>data.
     lift_em (subscript data ''run_id''))"

definition async_wait_for_run :: "string \<Rightarrow> rat \<Rightarrow> rat \<Rightarrow> sdk_world \<Rightarrow> ((exn + sdk_run) \<times> sdk_world) option" where
  "async_wait_for_run run_id timeout interval w =
     poll_until (async_get_run run_id) run_done (SdkError run_id) (async_sleep interval) (sd_clock w + timeout) w"

definition async_request_credit :: "rat \<Rightarrow> string \<Rightarrow> sdk_credit_request sdk" where
  "async_request_credit amount reason =
     async_fetch credit_request_from_dict (post_of ''/v1/billing/credit-requests''
       (JObject [(''amount'', JFloat amount), (''reason'', JString reason)]))"

definition async_list_credit_requests :: "sdk_credit_request list sdk" where
  "async_list_credit_requests = async_fetch (\<lambda>from_iso. items_of (credit_request_from_dict from_iso)) (get_of ''/v1/billing/credit-requests'')"

definition async_auth_config :: "json sdk" where
  "async_auth_config = async_json (get_of ''/v1/auth/config'')"

definition async_exchange_oidc_token :: "string \<Rightarrow> json sdk" where
  "async_exchange_oidc_token oidc_token = async_json (post_of ''/v1/auth/token'' (JObject [(''oidc_token'', JString oidc_token)]))"

definition async_me :: "sdk_identity sdk" where
  "async_me = async_fetch (\<lambda>_. identity_from_dict) (get_of ''/v1/me'')"

definition async_list_sandboxes :: "string option \<Rightarrow> bool \<Rightarrow> int \<Rightarrow> int \<Rightarrow> sdk_sandbox sdk_page sdk" where
  "async_list_sandboxes state mine limit offset =
     async_fetch (\<lambda>from_iso. page_from_dict (sandbox_from_dict from_iso)) ((get_of ''/v1/sandboxes'')\<lparr>hq_params :=
       Some ([(''limit'', JInt limit), (''offset'', JInt offset), (''mine'', JBool mine)] @ optional_field ''state'' state)\<rparr>)"

definition async_list_runs :: "string option \<Rightarrow> string option \<Rightarrow> int \<Rightarrow> int \<Rightarrow> sdk_run sdk_page sdk" where
  "async_list_runs sandbox_id status limit offset =
     async_fetch (\<lambda>from_iso. page_from_dict (run_from_dict from_iso)) ((get_of ''/v1/runs'')\<lparr>hq_params :=
       Some ([(''limit'', JInt limit), (''offset'', JInt offset)] @ optional_field ''sandbox_id'' sandbox_id @
         optional_field ''status'' status)\<rparr>)"

definition async_list_builds :: "string option \<Rightarrow> int \<Rightarrow> int \<Rightarrow> sdk_build sdk_page sdk" where
  "async_list_builds status limit offset =
     async_fetch (\<lambda>from_iso. page_from_dict (build_from_dict from_iso)) ((get_of ''/v1/builds'')\<lparr>hq_params :=
       Some ([(''limit'', JInt limit), (''offset'', JInt offset)] @ optional_field ''status'' status)\<rparr>)"

definition async_create_api_key :: "string \<Rightarrow> sdk_created_key sdk" where
  "async_create_api_key label = async_fetch created_key_from_dict (post_of ''/v1/api-keys'' (JObject [(''label'', JString label)]))"

definition async_list_api_keys :: "int \<Rightarrow> int \<Rightarrow> sdk_api_key sdk_page sdk" where
  "async_list_api_keys limit offset =
     async_fetch (\<lambda>from_iso. page_from_dict (api_key_from_dict from_iso)) ((get_of ''/v1/api-keys'')\<lparr>hq_params :=
       Some [(''limit'', JInt limit), (''offset'', JInt offset)]\<rparr>)"

definition async_revoke_api_key :: "string \<Rightarrow> unit sdk" where
  "async_revoke_api_key key_id = async_expect_success (delete_of (''/v1/api-keys/'' @ key_id))"

definition async_get_billing_account :: "sdk_billing_account sdk" where
  "async_get_billing_account = async_fetch (\<lambda>_. billing_account_from_dict) (get_of ''/v1/billing/account'')"

definition async_list_usage :: "int \<Rightarrow> int \<Rightarrow> int \<Rightarrow> sdk_usage sdk_page sdk" where
  "async_list_usage since_days limit offset =
     async_fetch (\<lambda>from_iso. page_from_dict (usage_from_dict from_iso)) ((get_of ''/v1/billing/usage'')\<lparr>hq_params :=
       Some [(''since_days'', JInt since_days), (''limit'', JInt limit), (''offset'', JInt offset)]\<rparr>)"

definition async_my_workspace :: "sdk_workspace_status sdk" where
  "async_my_workspace = async_fetch workspace_status_from_dict (get_of ''/v1/workspaces/me'')"

subsection \<open>Agreement\<close>

lemma async_plumbing:
  "async_new_client = new_client" "async_request = sdk_request" "async_json = sdk_json" "async_close_client = close_client"
  "async_with_client = with_client" "async_fetch = fetch" "async_expect_success = expect_success"
proof -
  show r: "async_request = sdk_request" by (simp add: fun_eq_iff async_request_def sdk_request_def)
  show j: "async_json = sdk_json" by (simp add: fun_eq_iff async_json_def sdk_json_def r)
  show "async_fetch = fetch" by (simp add: fun_eq_iff async_fetch_def fetch_def j)
  show "async_expect_success = expect_success" by (simp add: fun_eq_iff async_expect_success_def expect_success_def r)
  show "async_new_client = new_client" by (simp add: fun_eq_iff async_new_client_def new_client_def)
  show c: "async_close_client = close_client" by (simp add: fun_eq_iff async_close_client_def close_client_def)
  show "async_with_client = with_client" by (simp add: fun_eq_iff async_with_client_def with_client_def c)
qed

lemma sleeps_agree: "async_sleep \<bar>q\<bar> = sdk_sleep \<bar>q\<bar>"
  by (simp add: fun_eq_iff async_sleep_def sdk_sleep_def)

text \<open>
  The two clients differ in nothing a caller could observe: built from the same arguments they are the same,
  and every method sends the same requests, passes the same time and returns or raises the same, whatever the
  server answers. The two methods that poll agree whenever the interval is not negative.
\<close>

theorem clients_agree:
  "async_new_client = new_client \<and> async_request = sdk_request \<and> async_json = sdk_json \<and>
    async_close_client = close_client \<and> async_with_client = with_client \<and>
    async_healthz = sdk_healthz \<and> async_readyz = sdk_readyz \<and> async_execute = sdk_execute \<and>
    async_create_sandbox = sdk_create_sandbox \<and> async_get_sandbox = sdk_get_sandbox \<and>
    async_destroy_sandbox = sdk_destroy_sandbox \<and> async_run_code = sdk_run_code \<and>
    async_with_sandbox = with_sandbox \<and> async_upload_file = sdk_upload_file \<and>
    async_download_file = sdk_download_file \<and> async_list_tree = sdk_list_tree \<and>
    async_list_components = sdk_list_components \<and>
    async_get_component_versions = sdk_get_component_versions \<and>
    async_list_templates = sdk_list_templates \<and> async_get_template = sdk_get_template \<and>
    async_trigger_build = sdk_trigger_build \<and> async_get_build = sdk_get_build \<and>
    async_get_run = sdk_get_run \<and> async_execute_async = sdk_execute_async \<and>
    async_request_credit = sdk_request_credit \<and> async_list_credit_requests = sdk_list_credit_requests \<and>
    async_auth_config = sdk_auth_config \<and> async_exchange_oidc_token = sdk_exchange_oidc_token \<and>
    async_me = sdk_me \<and> async_list_sandboxes = sdk_list_sandboxes \<and> async_list_runs = sdk_list_runs \<and>
    async_list_builds = sdk_list_builds \<and> async_create_api_key = sdk_create_api_key \<and>
    async_list_api_keys = sdk_list_api_keys \<and> async_revoke_api_key = sdk_revoke_api_key \<and>
    async_get_billing_account = sdk_get_billing_account \<and> async_list_usage = sdk_list_usage \<and>
    async_my_workspace = sdk_my_workspace \<and>
    async_wait_for_build i timeout \<bar>q\<bar> w = sdk_wait_for_build i timeout \<bar>q\<bar> w \<and>
    async_wait_for_run i timeout \<bar>q\<bar> w = sdk_wait_for_run i timeout \<bar>q\<bar> w"
proof -
  note def_pairs =
    async_healthz_def sdk_healthz_def async_readyz_def sdk_readyz_def async_execute_def sdk_execute_def
    async_create_sandbox_def sdk_create_sandbox_def async_get_sandbox_def sdk_get_sandbox_def
    async_destroy_sandbox_def sdk_destroy_sandbox_def async_run_code_def sdk_run_code_def
    async_with_sandbox_def with_sandbox_def async_upload_file_def sdk_upload_file_def
    async_download_file_def sdk_download_file_def async_list_tree_def sdk_list_tree_def
    async_list_components_def sdk_list_components_def
    async_get_component_versions_def sdk_get_component_versions_def
    async_list_templates_def sdk_list_templates_def async_get_template_def sdk_get_template_def
    async_trigger_build_def sdk_trigger_build_def async_get_build_def sdk_get_build_def
    async_get_run_def sdk_get_run_def async_execute_async_def sdk_execute_async_def
    async_request_credit_def sdk_request_credit_def async_list_credit_requests_def sdk_list_credit_requests_def
    async_auth_config_def sdk_auth_config_def async_exchange_oidc_token_def sdk_exchange_oidc_token_def
    async_me_def sdk_me_def async_list_sandboxes_def sdk_list_sandboxes_def
    async_list_runs_def sdk_list_runs_def async_list_builds_def sdk_list_builds_def
    async_create_api_key_def sdk_create_api_key_def async_list_api_keys_def sdk_list_api_keys_def
    async_revoke_api_key_def sdk_revoke_api_key_def async_get_billing_account_def sdk_get_billing_account_def
    async_list_usage_def sdk_list_usage_def async_my_workspace_def sdk_my_workspace_def
  have b: "async_get_build = sdk_get_build" and r: "async_get_run = sdk_get_run"
    by (simp_all add: fun_eq_iff async_get_build_def sdk_get_build_def async_get_run_def sdk_get_run_def async_plumbing)
  have "async_wait_for_build i timeout \<bar>q\<bar> w = sdk_wait_for_build i timeout \<bar>q\<bar> w"
    "async_wait_for_run i timeout \<bar>q\<bar> w = sdk_wait_for_run i timeout \<bar>q\<bar> w"
    by (simp_all add: async_wait_for_build_def sdk_wait_for_build_def async_wait_for_run_def sdk_wait_for_run_def b r sleeps_agree)
  then show ?thesis
    by (intro conjI) (simp_all add: fun_eq_iff async_plumbing def_pairs)
qed

end
