(* ===== verification/Sdk_Attach.thy ===== *)
theory Sdk_Attach
  imports Pty_Protocol Sdk_Models PyStrings
begin

section \<open>The SDK's terminal session\<close>

text \<open>
  \<open>sdk/kubesandbox/attach.py\<close>: the address of the socket, the three messages a client may send and the reading
  of the server's frames; then the round trip with the server's side of the protocol (\<open>Pty_Protocol\<close>). The
  \<open>websockets\<close> library and the \<open>json\<close> module are parameters. Strings are UTF-8 byte strings.
\<close>

subsection \<open>The address\<close>

text \<open>\<open>urllib.parse.quote\<close> and \<open>quote_plus\<close>, byte by byte.\<close>

definition always_safe :: string where
  "always_safe = ''ABCDEFGHIJKLMNOPQRSTUVWXYZabcdefghijklmnopqrstuvwxyz0123456789_.-~''"

definition hex_digit :: "nat \<Rightarrow> char" where
  "hex_digit n = ''0123456789ABCDEF'' ! n"

definition percent :: "char \<Rightarrow> string" where
  "percent c = [CHR ''%'', hex_digit (of_char c div 16), hex_digit (of_char c mod 16)]"

definition quote_url :: "string \<Rightarrow> string" where
  "quote_url s = concat (map (\<lambda>c. if c \<in> set always_safe \<or> c = CHR ''/'' then [c] else percent c) s)"

definition quote_plus :: "string \<Rightarrow> string" where
  "quote_plus s = concat (map (\<lambda>c. if c \<in> set always_safe then [c] else if c = CHR '' '' then ''+'' else percent c) s)"

definition ws_url :: "string \<Rightarrow> string \<Rightarrow> string option \<Rightarrow> exn + string" where
  "ws_url base_url sandbox_id api_key =
     (case (if startswith base_url ''https://'' then Some (''wss://'' @ drop 8 base_url)
            else if startswith base_url ''http://'' then Some (''ws://'' @ drop 7 base_url)
            else None) of
        None \<Rightarrow> Inl (SdkError base_url)
      | Some url \<Rightarrow>
          let url = rev (dropWhile (\<lambda>c. c = CHR ''/'') (rev url)) @ ''/v1/sandboxes/'' @ quote_url sandbox_id @ ''/attach''
          in Inr (case api_key of
               None \<Rightarrow> url
             | Some k \<Rightarrow> if k = [] then url else url @ ''?api_key='' @ quote_plus k))"

subsection \<open>The session\<close>

text \<open>The messages sent so far are the state of a session.\<close>

definition pty_signals :: "string list" where
  "pty_signals = [''SIGINT'', ''SIGQUIT'', ''SIGTSTP'']"

definition pty_send :: "(json \<Rightarrow> string) \<Rightarrow> json \<Rightarrow> (string list, unit) em" where
  "pty_send dumps message = modify_em (\<lambda>sent. sent @ [dumps message])"

definition sdk_pty_send_stdin :: "(json \<Rightarrow> string) \<Rightarrow> byte list \<Rightarrow> (string list, unit) em" where
  "sdk_pty_send_stdin dumps data =
     pty_send dumps (JObject [(''type'', JString ''stdin''), (''data'', JString (b64encode data))])"

definition sdk_pty_resize :: "(json \<Rightarrow> string) \<Rightarrow> int \<Rightarrow> int \<Rightarrow> (string list, unit) em" where
  "sdk_pty_resize dumps cols rows =
     pty_send dumps (JObject [(''type'', JString ''resize''), (''cols'', JInt cols), (''rows'', JInt rows)])"

definition sdk_pty_send_signal :: "(json \<Rightarrow> string) \<Rightarrow> string \<Rightarrow> (string list, unit) em" where
  "sdk_pty_send_signal dumps signal =
     (if signal \<notin> set pty_signals then raise_em (SdkError signal)
      else pty_send dumps (JObject [(''type'', JString ''signal''), (''signal'', JString signal)]))"

datatype sdk_pty_event = SdkOutput "byte list" | SdkExit json

text \<open>\<open>base64.b64decode(frame["data"])\<close>.\<close>

definition frame_data :: "json \<Rightarrow> exn + byte list" where
  "frame_data frame =
     need frame ''data'' (\<lambda>d. case d of JString s \<Rightarrow> b64decode s | _ \<Rightarrow> Inl (OtherException ''TypeError''))"

text \<open>What iterating over the session yields for the messages received, and what ends it: \<open>None\<close> when the socket closes.\<close>

fun pty_events :: "(string \<Rightarrow> exn + json) \<Rightarrow> string list \<Rightarrow> sdk_pty_event list \<times> exn option" where
  "pty_events loads [] = ([], None)"
| "pty_events loads (raw # raws) =
     (case loads raw of
        Inl e \<Rightarrow> ([], Some e)
      | Inr frame \<Rightarrow>
          (case json_get frame ''type'' of
             Inl e \<Rightarrow> ([], Some e)
           | Inr kind \<Rightarrow>
               if kind = Some (JString ''stdout'') then
                 (case frame_data frame of
                    Inl e \<Rightarrow> ([], Some e)
                  | Inr bytes \<Rightarrow> map_prod ((#) (SdkOutput bytes)) id (pty_events loads raws))
               else if kind = Some (JString ''exit'') then
                 (case subscript frame ''exit_code'' of
                    Inl e \<Rightarrow> ([], Some e)
                  | Inr code \<Rightarrow> map_prod ((#) (SdkExit code)) id (pty_events loads raws))
               else if kind = Some (JString ''error'') then ([], Some (SdkError ''server error frame''))
               else pty_events loads raws))"

subsection \<open>Opening a session\<close>

text \<open>
  \<open>websockets\<close> may be missing; \<open>connect\<close> opens the socket or raises, and \<open>text_of\<close> is \<open>str(exc)\<close>. The result is
  the session's empty history.
\<close>

fun contains :: "string \<Rightarrow> string \<Rightarrow> bool" where
  "contains needle [] \<longleftrightarrow> needle = []"
| "contains needle (c # s) \<longleftrightarrow> startswith (c # s) needle \<or> contains needle s"

definition sdk_attach ::
  "bool \<Rightarrow> (string \<Rightarrow> exn + unit) \<Rightarrow> (exn \<Rightarrow> string) \<Rightarrow> string \<Rightarrow> string option \<Rightarrow> string \<Rightarrow> exn + string list" where
  "sdk_attach installed connect text_of base_url api_key sandbox_id =
     (if \<not> installed then Inl (SdkError ''websockets'')
      else
        case ws_url base_url sandbox_id api_key of
          Inl e \<Rightarrow> Inl e
        | Inr url \<Rightarrow>
            (case connect url of
               Inr u \<Rightarrow> Inr []
             | Inl e \<Rightarrow>
                 if contains ''409'' (text_of e) then Inl (SdkAPIError Conflict 409 ''sandbox already has an active viewer'' [] [])
                 else Inl e))"

subsection \<open>Both ends together\<close>

text \<open>What a user of the session does, and what the terminal is to be told.\<close>

datatype pty_call = Typed "byte list" | Resized int int | Signalled string

fun pty_do :: "(json \<Rightarrow> string) \<Rightarrow> pty_call \<Rightarrow> (string list, unit) em" where
  "pty_do dumps (Typed bs) = sdk_pty_send_stdin dumps bs"
| "pty_do dumps (Resized c r) = sdk_pty_resize dumps c r"
| "pty_do dumps (Signalled s) = sdk_pty_send_signal dumps s"

fun meant :: "pty_call \<Rightarrow> pty_op" where
  "meant (Typed bs) = WriteStdin bs"
| "meant (Resized c r) = ResizePty c r"
| "meant (Signalled s) = WriteStdin (if s = ''SIGINT'' then [0x03] else if s = ''SIGQUIT'' then [0x1c] else [0x1a])"

text \<open>The message of a call, and the dict of a server frame, which \<open>send_json\<close> writes.\<close>

fun pty_message :: "pty_call \<Rightarrow> json" where
  "pty_message (Typed bs) = JObject [(''type'', JString ''stdin''), (''data'', JString (b64encode bs))]"
| "pty_message (Resized c r) = JObject [(''type'', JString ''resize''), (''cols'', JInt c), (''rows'', JInt r)]"
| "pty_message (Signalled s) = JObject [(''type'', JString ''signal''), (''signal'', JString s)]"

fun frame_dump :: "server_frame \<Rightarrow> json" where
  "frame_dump (OutputFrame d) = JObject [(''type'', JString ''stdout''), (''data'', JString d)]"
| "frame_dump (ExitFrame n) = JObject [(''type'', JString ''exit''), (''exit_code'', JInt n)]"

text \<open>\<open>json.loads\<close> reads back what \<open>json.dumps\<close> wrote, for these messages; pydantic reads an integer as itself.\<close>

definition reads_back :: "(string \<Rightarrow> json option) \<Rightarrow> (json \<Rightarrow> string) \<Rightarrow> json list \<Rightarrow> bool" where
  "reads_back loads dumps messages \<longleftrightarrow> list_all (\<lambda>j. loads (dumps j) = Some j) messages"

definition reads_ints :: "(json \<Rightarrow> int option) \<Rightarrow> bool" where
  "reads_ints to_int \<longleftrightarrow> (\<forall>n. to_int (JInt n) = Some n)"

definition loads_or_raise :: "(string \<Rightarrow> json option) \<Rightarrow> string \<Rightarrow> exn + json" where
  "loads_or_raise loads raw = (case loads raw of None \<Rightarrow> Inl (ValueError ''JSON'') | Some j \<Rightarrow> Inr j)"

lemma pty_do_sends:
  assumes "pty_do dumps call sent = (Inr (), sent')" "loads (dumps (pty_message call)) = Some (pty_message call)"
    "reads_ints to_int"
  shows "\<exists>raw. sent' = sent @ [raw] \<and> (\<exists>f. parse_client_frame loads to_int raw = Inr f \<and> frame_op f = Inr (meant call))"
proof (cases call)
  case (Typed bs)
  with assms show ?thesis
    by (auto simp: sdk_pty_send_stdin_def pty_send_def parse_client_frame_def client_frame_model_def validate_stdin_def
        frame_op_def base64_roundtrip)
next
  case (Resized c r)
  with assms show ?thesis
    by (auto simp: reads_ints_def sdk_pty_resize_def pty_send_def parse_client_frame_def client_frame_model_def validate_resize_def frame_op_def)
next
  case (Signalled s)
  with assms show ?thesis
    by (auto simp: sdk_pty_send_signal_def pty_send_def parse_client_frame_def client_frame_model_def validate_signal_def
        frame_op_def pty_signals_def signal_named_def split: if_splits)
qed

lemma pty_calls_arrive:
  assumes "reads_ints to_int"
  shows "for_em calls (pty_do dumps) sent = (Inr (), sent') \<Longrightarrow> reads_back loads dumps (map pty_message calls) \<Longrightarrow>
    \<exists>raws. sent' = sent @ raws \<and> ws_to_pty loads to_int raws = (map meant calls, disconnect)"
proof (induction calls arbitrary: sent)
  case (Cons call calls)
  then obtain mid where one: "pty_do dumps call sent = (Inr (), mid)" and rest: "for_em calls (pty_do dumps) mid = (Inr (), sent')"
    by (auto simp: bind_em_Inr_iff)
  from Cons.prems(2) have rd: "loads (dumps (pty_message call)) = Some (pty_message call)" "reads_back loads dumps (map pty_message calls)"
    by (simp_all add: reads_back_def)
  from pty_do_sends [of dumps call sent mid loads to_int, OF one rd(1) assms] obtain raw f where
    raw: "mid = sent @ [raw]" "parse_client_frame loads to_int raw = Inr f" "frame_op f = Inr (meant call)" by blast
  from Cons.IH [OF rest rd(2)] obtain raws where "sent' = mid @ raws" "ws_to_pty loads to_int raws = (map meant calls, disconnect)" by blast
  with raw show ?case by (intro exI [of _ "raw # raws"]) simp
qed simp

definition event_bytes :: "sdk_pty_event \<Rightarrow> byte list" where
  "event_bytes ev = (case ev of SdkOutput bs \<Rightarrow> bs | SdkExit _ \<Rightarrow> [])"

lemma frames_arrive:
  "reads_back loads dumps (map frame_dump (pty_to_ws events)) \<Longrightarrow>
   concat (map event_bytes (fst (pty_events (loads_or_raise loads) (map (dumps \<circ> frame_dump) (pty_to_ws events))))) = output_until_end events \<and>
   snd (pty_events (loads_or_raise loads) (map (dumps \<circ> frame_dump) (pty_to_ws events))) = None"
proof (induction events rule: pty_to_ws.induct)
  case (3 d events)
  then show ?case
    by (cases d) (auto simp: reads_back_def loads_or_raise_def frame_data_def need_def base64_roundtrip event_bytes_def
        base64_roundtrip [of "[]", simplified])
qed (auto simp: reads_back_def loads_or_raise_def event_bytes_def)

text \<open>
  C36. A terminal session over the SDK loses nothing in either direction. Whatever a user types, resizes or
  signals, in any order, reaches the terminal as exactly those bytes and sizes, in that order; and what the
  terminal prints until it exits comes out of the session as the same bytes, without an error.
\<close>

theorem terminal_session_roundtrip:
  assumes "for_em calls (pty_do dumps) [] = (Inr (), raws)"
    and "reads_back loads dumps (map pty_message calls @ map frame_dump (pty_to_ws events))" and "reads_ints to_int"
  shows "ws_to_pty loads to_int raws = (map meant calls, disconnect) \<and>
    (\<exists>seen. pty_events (loads_or_raise loads) (map (dumps \<circ> frame_dump) (pty_to_ws events)) = (seen, None) \<and>
       concat (map event_bytes seen) = output_until_end events)"
proof -
  have rd: "reads_back loads dumps (map pty_message calls)" "reads_back loads dumps (map frame_dump (pty_to_ws events))"
    using assms(2) by (simp_all add: reads_back_def)
  show ?thesis using pty_calls_arrive [OF assms(3,1) rd(1)] frames_arrive [OF rd(2)]
    by (cases "pty_events (loads_or_raise loads) (map (dumps \<circ> frame_dump) (pty_to_ws events))") simp
qed

definition demo_dumps :: "json \<Rightarrow> string" where
  "demo_dumps j =
     (if j = pty_message (Typed [0x6c, 0x73]) then ''typed'' else if j = pty_message (Signalled ''SIGINT'') then ''signal''
      else if j = pty_message (Resized 80 24) then ''resized'' else ''printed'')"

definition demo_loads :: "string \<Rightarrow> json option" where
  "demo_loads s = map_of [(''typed'', pty_message (Typed [0x6c, 0x73])), (''signal'', pty_message (Signalled ''SIGINT'')),
     (''resized'', pty_message (Resized 80 24)), (''printed'', frame_dump (OutputFrame (b64encode [0x6f, 0x6b])))] s"

theorem terminal_session_roundtrip_witness:
  "ws_to_pty demo_loads (\<lambda>j. case j of JInt n \<Rightarrow> Some n | _ \<Rightarrow> None) [''typed'', ''resized'', ''signal''] =
     ([WriteStdin [0x6c, 0x73], ResizePty 80 24, WriteStdin [0x03]], disconnect) \<and>
   (\<exists>seen. pty_events (loads_or_raise demo_loads) [''printed''] = (seen, None) \<and> concat (map event_bytes seen) = [0x6f, 0x6b])"
proof -
  let ?calls = "[Typed [0x6c, 0x73], Resized 80 24, Signalled ''SIGINT'']" and ?events = "[Some (PtyOutput (Some [0x6f, 0x6b])), None]"
  have sent: "for_em ?calls (pty_do demo_dumps) [] = (Inr (), [''typed'', ''resized'', ''signal''])"
    by (simp add: em_simps sdk_pty_send_stdin_def sdk_pty_resize_def sdk_pty_send_signal_def pty_send_def pty_signals_def demo_dumps_def)
  have rd: "reads_back demo_loads demo_dumps (map pty_message ?calls @ map frame_dump (pty_to_ws ?events))"
    by (simp add: reads_back_def demo_dumps_def demo_loads_def)
  have printed: "map (demo_dumps \<circ> frame_dump) (pty_to_ws ?events) = [''printed'']"
    by (simp add: demo_dumps_def)
  show ?thesis
    using terminal_session_roundtrip [OF sent rd, of "\<lambda>j. case j of JInt n \<Rightarrow> Some n | _ \<Rightarrow> None"]
    unfolding printed by (simp add: reads_ints_def)
qed

text \<open>
  A refusal is recognised by the digits of its status anywhere in the text of the exception, so a server that
  cannot be reached at a port or an address with these digits is reported as having another viewer.
\<close>

lemma unreachable_reported_as_conflict:
  "sdk_attach True (\<lambda>url. Inl (OtherException ''ConnectionRefusedError'')) (\<lambda>e. ''Connect call failed (127.0.0.1, 40912)'')
     ''http://127.0.0.1:40912'' None ''s1'' = Inl (SdkAPIError Conflict 409 ''sandbox already has an active viewer'' [] [])"
  by code_simp

end
