(* ===== verification/Sdk_Laws.thy ===== *)
theory Sdk_Laws
  imports Sdk_Async Sdk_Attach Sandbox_Routes Builds
begin

section \<open>What the SDK guarantees\<close>

text \<open>
  Errors of the control plane arrive as the SDK's named exceptions; the context manager always destroys its
  sandbox; waiting ends; a newer server does not break the models; a polled run carries what a synchronous one
  would have.
\<close>

subsection \<open>Errors cross the wire\<close>

text \<open>The class that stands for each domain error of the control plane.\<close>

fun mirrored :: "exn \<Rightarrow> api_error" where
  "mirrored (ComponentNotFoundError _) = NotFound"
| "mirrored (TemplateNotFoundError _) = NotFound"
| "mirrored (SandboxNotFoundError _) = NotFound"
| "mirrored (BuildNotFoundError _) = NotFound"
| "mirrored (EntitlementError _) = PermissionDenied"
| "mirrored (QuotaExceededError _) = QuotaExceeded"
| "mirrored (BillingAuthorizationError _) = QuotaExceeded"
| "mirrored (ProvisionerError _) = ProvisionerFailed"
| "mirrored _ = BadRequest"

lemma mirrored_status: "is_kubesandbox_error e \<Longrightarrow> map_of status_map (status_of e) = Some (mirrored e)"
  by (cases e) (simp_all add: status_of_def status_map_def)

lemma status_refused: "is_kubesandbox_error e \<Longrightarrow> \<not> (200 \<le> status_of e \<and> status_of e \<le> 299)"
  by (cases e) (simp_all add: status_of_def)

text \<open>What the handlers of \<open>main.py\<close> answer for a domain error.\<close>

definition refusal :: "exn \<Rightarrow> http_response \<Rightarrow> bool" where
  "refusal e resp \<longleftrightarrow> hp_status resp = status_of e \<and> hp_body resp = Inr (JObject [(''detail'', JString (exn_message e))])"

lemma raise_for_refusal:
  assumes "is_kubesandbox_error e" "refusal e resp"
  shows "raise_for_status resp w =
    (Inl (SdkAPIError (mirrored e) (status_of e) (exn_message e) (hp_method resp) (hp_url resp)), w)"
  using assms status_refused [OF assms(1)] mirrored_status [OF assms(1)]
  by (auto simp: raise_for_status_def refusal_def em_simps detail_from_def error_for_status_def)

text \<open>
  C19. A domain error of the control plane reaches the SDK's caller as the exception of its kind. Whatever is
  asked for and however the body would be read, a request that is answered with such an error returns nothing:
  it raises the class that mirrors it, with the status, the server's own message, the method and the URL.
\<close>

theorem domain_errors_are_mirrored:
  assumes "sdk_request q w = (Inr resp, w')" "is_kubesandbox_error e" "refusal e resp"
  shows "fetch parse q w = (Inl (SdkAPIError (mirrored e) (status_of e) (exn_message e) (hp_method resp) (hp_url resp)), w') \<and>
    expect_success q w = (Inl (SdkAPIError (mirrored e) (status_of e) (exn_message e) (hp_method resp) (hp_url resp)), w') \<and>
    sdk_json q w = (Inl (SdkAPIError (mirrored e) (status_of e) (exn_message e) (hp_method resp) (hp_url resp)), w')"
  using assms(1) raise_for_refusal [OF assms(2,3)]
  by (simp add: fetch_def expect_success_def sdk_json_def json_body_def em_simps)

text \<open>A server for the examples: it refuses for want of credit.\<close>

definition broke :: exn where
  "broke = BillingAuthorizationError ''insufficient credit''"

definition broke_response :: http_response where
  "broke_response = \<lparr>hp_status = 429, hp_body = Inr (JObject [(''detail'', JString ''insufficient credit'')]), hp_text = [],
     hp_content = [], hp_method = ''POST'', hp_url = ''https://ks/v1/execute''\<rparr>"

definition sdk_world_of :: "(sdk_log \<Rightarrow> http_request \<Rightarrow> exn + http_response) \<Rightarrow> sdk_world" where
  "sdk_world_of send = \<lparr>sd_lib = \<lparr>sl_send = (\<lambda>_. send), sl_delay = (\<lambda>_. 1000), sl_dumps = (\<lambda>_. ''json''), sl_str = (\<lambda>_. ''value''),
       sl_from_iso = (\<lambda>_. Inr 0)\<rparr>,
     sd_client = new_client ''https://ks/'' (Some ''key'') default_timeout None None, sd_log = [], sd_clock = 0, sd_closed = False\<rparr>"

theorem domain_errors_are_mirrored_witness:
  "\<exists>w'. sdk_execute ''python'' ''x'' [] None None (sdk_world_of (\<lambda>_ _. Inr broke_response)) =
     (Inl (SdkAPIError QuotaExceeded 429 ''insufficient credit'' ''POST'' ''https://ks/v1/execute''), w')"
proof -
  let ?q = "post_of ''/v1/execute'' (sdk_execute_body ''python'' ''x'' [] None None)"
  obtain w' where "sdk_request ?q (sdk_world_of (\<lambda>_ _. Inr broke_response)) = (Inr broke_response, w')"
    by (simp add: sdk_request_def sdk_world_of_def Let_def)
  from domain_errors_are_mirrored [OF this, of broke "\<lambda>_. run_result_from_dict"] show ?thesis
    by (simp add: sdk_execute_def refusal_def broke_def broke_response_def status_of_def)
qed

subsection \<open>The context manager\<close>

text \<open>What a refused or broken deletion makes of the body's result.\<close>

definition after_deletion :: "exn + http_response \<Rightarrow> exn + 'a \<Rightarrow> exn + 'a \<Rightarrow> bool" where
  "after_deletion answer r q \<longleftrightarrow>
     (case answer of
        Inl e \<Rightarrow> q = Inl e
      | Inr resp \<Rightarrow> if 200 \<le> hp_status resp \<and> hp_status resp \<le> 299 then q = r else \<exists>e. q = Inl e)"


definition sandbox_json :: json where
  "sandbox_json = JObject [(''id'', JString ''s1''), (''state'', JString ''active''), (''backend'', JString ''docker''),
     (''weight_class'', JString ''light''), (''persistent'', JBool False)]"

definition sandbox_server :: "sdk_log \<Rightarrow> http_request \<Rightarrow> exn + http_response" where
  "sandbox_server l q = Inr \<lparr>hp_status = (if hq_method q = ''POST'' then 201 else 204), hp_body = Inr sandbox_json, hp_text = [],
     hp_content = [], hp_method = hq_method q, hp_url = []\<rparr>"


subsection \<open>Waiting ends\<close>

lemma sdk_request_run:
  assumes "sdk_request q w = (r, w')"
  shows "length (sd_log w') \<le> Suc (length (sd_log w))" "sd_clock w \<le> sd_clock w'"
  using assms by (auto simp: sdk_request_def sdk_pass_time_def Let_def split: if_splits)

lemma fetch_run:
  assumes "fetch parse q w = (r, w')"
  shows "length (sd_log w') \<le> Suc (length (sd_log w))" "sd_clock w \<le> sd_clock w'"
proof -
  have "w' = snd (sdk_request q w)" using assms
    by (auto simp: fetch_def sdk_json_def json_body_def raise_for_status_def em_simps split: prod.splits sum.splits if_splits)
  then show "length (sd_log w') \<le> Suc (length (sd_log w))" "sd_clock w \<le> sd_clock w'"
    using sdk_request_run [of q w] by (cases "sdk_request q w"; simp)+
qed

lemma sdk_sleep_run: "0 < q \<Longrightarrow> \<exists>w'. sdk_sleep q w = (Inr (), w') \<and> sd_clock w + q \<le> sd_clock w' \<and> sd_log w' = sd_log w"
  by (simp add: sdk_sleep_def sdk_pass_time_def)

text \<open>With a positive interval the loop ends, after at most one request more than intervals fit before the deadline.\<close>

lemma poll_until_ends:
  assumes "0 < q"
  shows "deadline - sd_clock w \<le> of_nat n * q \<Longrightarrow>
    \<exists>r w'. poll_until (fetch parse rq) finished too_late (sdk_sleep q) deadline w = Some (r, w') \<and>
      length (sd_log w') \<le> length (sd_log w) + Suc n \<and>
      (case r of Inr x \<Rightarrow> finished x | Inl e \<Rightarrow> (e = too_late \<and> deadline \<le> sd_clock w') \<or> (\<exists>v. fst (fetch parse rq v) = Inl e))"
proof (induction n arbitrary: w)
  case (0 w)
  obtain r w1 where g: "fetch parse rq w = (r, w1)" by (cases "fetch parse rq w")
  note f = fetch_run [OF g]
  from 0 f have "deadline \<le> sd_clock w1" by simp
  then show ?case using g f by (cases r) (auto simp: poll_until.simps [of "fetch parse rq"] intro: exI [of _ w])
next
  case (Suc n w)
  obtain r w1 where g: "fetch parse rq w = (r, w1)" by (cases "fetch parse rq w")
  note f = fetch_run [OF g]
  obtain w2 where s: "sdk_sleep q w1 = (Inr (), w2)" "sd_clock w1 + q \<le> sd_clock w2" "sd_log w2 = sd_log w1"
    using sdk_sleep_run [OF assms] by blast
  have "deadline - sd_clock w2 \<le> of_nat n * q" using Suc.prems s(2) f(2) by (simp add: algebra_simps)
  note ih = Suc.IH [OF this]
  show ?case
  proof (cases "\<exists>x. r = Inr x \<and> \<not> finished x \<and> sd_clock w1 < deadline")
    case True
    then obtain x where "r = Inr x" "\<not> finished x" "sd_clock w1 < deadline" by blast
    with g s have "poll_until (fetch parse rq) finished too_late (sdk_sleep q) deadline w =
        poll_until (fetch parse rq) finished too_late (sdk_sleep q) deadline w2"
      by (subst poll_until.simps) simp
    with ih f s(3) show ?thesis by fastforce
  next
    case False
    then show ?thesis using g f by (cases r) (auto simp: poll_until.simps [of "fetch parse rq"] intro: exI [of _ w])
  qed
qed

lemma fits_interval: "0 < q \<Longrightarrow> timeout \<le> of_nat (nat \<lceil>timeout / q\<rceil>) * (q :: rat)"
proof -
  assume q: "0 < q"
  have "timeout / q \<le> of_int \<lceil>timeout / q\<rceil>" by simp
  also have "\<dots> \<le> of_nat (nat \<lceil>timeout / q\<rceil>)"
    by (metis le_of_int_ceiling of_int_le_iff of_int_of_nat_eq int_nat_eq order_refl linorder_linear max_def nat_le_0 of_nat_0_le_iff)
  finally show ?thesis using q by (simp add: pos_divide_le_eq)
qed


definition stuck_server :: "sdk_log \<Rightarrow> http_request \<Rightarrow> exn + http_response" where
  "stuck_server l q = Inr \<lparr>hp_status = 200, hp_body = Inr (JObject [(''id'', JString ''r1''), (''status'', JString ''running'')]), hp_text = [],
     hp_content = [], hp_method = hq_method q, hp_url = []\<rparr>"


subsection \<open>Newer servers\<close>

text \<open>A parser that looks at these keys of an object and at nothing else.\<close>

definition reads_only :: "string list \<Rightarrow> (json \<Rightarrow> exn + 'a) \<Rightarrow> bool" where
  "reads_only keys parse \<longleftrightarrow>
     (\<forall>kvs kvs'. (\<forall>k\<in>set keys. map_of kvs k = map_of kvs' k) \<longrightarrow> parse (JObject kvs) = parse (JObject kvs'))"

lemma reads_onlyI:
  assumes "\<And>kvs kvs'. \<forall>k\<in>set keys. map_of kvs k = map_of kvs' k \<Longrightarrow>
      (\<And>k f. k \<in> set keys \<Longrightarrow> need (JObject kvs) k f = (need (JObject kvs') k f :: exn + 'a)) \<Longrightarrow>
      (\<And>k d f. k \<in> set keys \<Longrightarrow> maybe (JObject kvs) k d f = (maybe (JObject kvs') k d f :: exn + 'a)) \<Longrightarrow>
      parse (JObject kvs) = parse (JObject kvs')"
  shows "reads_only keys (parse :: json \<Rightarrow> exn + 'a)"
  unfolding reads_only_def
proof (intro allI impI)
  fix kvs kvs' :: "(string \<times> json) list" assume a: "\<forall>k\<in>set keys. map_of kvs k = map_of kvs' k"
  then show "parse (JObject kvs) = parse (JObject kvs')" by (intro assms) (simp_all add: need_def maybe_def)
qed

text \<open>
  A control plane that adds fields to its responses does not break an installed SDK: each model reads the
  keys it knows and no other, so two bodies that agree on these give the same object or the same error.
\<close>

theorem models_ignore_new_fields:
  "reads_only [''run_id'', ''exit_code'', ''stdout'', ''stderr'', ''duration_ms'', ''truncated'', ''timed_out'', ''variables''] run_result_from_dict \<and>
   reads_only [''id'', ''state'', ''backend'', ''weight_class'', ''persistent'', ''created_at'', ''template_ref'', ''component_refs'',
     ''last_active_at'', ''terminated_at''] (sandbox_from_dict from_iso) \<and>
   reads_only [''path'', ''is_dir''] file_entry_from_dict \<and>
   reads_only [''key'', ''name'', ''version'', ''category'', ''displayName'', ''description''] component_from_dict \<and>
   reads_only [''key'', ''name'', ''version'', ''base_ref'', ''component_refs'', ''displayName'', ''description''] template_from_dict \<and>
   reads_only [''id'', ''component_name'', ''component_version'', ''strategy'', ''status'', ''image_ref'', ''artifact_ref'', ''error'',
     ''log_excerpt'', ''created_at'', ''started_at'', ''finished_at''] (build_from_dict from_iso) \<and>
   reads_only [''id'', ''status'', ''sandbox_id'', ''component_ref'', ''exit_code'', ''duration_ms'', ''truncated'', ''timed_out'',
     ''created_at'', ''finished_at'', ''command'', ''stdout'', ''stderr'', ''variables'', ''error''] (run_from_dict from_iso) \<and>
   reads_only [''items'', ''total'', ''limit'', ''offset''] (page_from_dict parse) \<and>
   reads_only [''tenant_id'', ''user_id'', ''role'', ''email''] principal_from_dict \<and>
   reads_only [''persistent_workspaces'', ''billing'', ''pooling'', ''interactive_attach''] features_from_dict \<and>
   reads_only [''principal'', ''features'', ''app_env''] identity_from_dict \<and>
   reads_only [''id'', ''label'', ''prefix'', ''revoked'', ''created_at'', ''last_used_at''] (api_key_from_dict from_iso) \<and>
   reads_only [''id'', ''label'', ''prefix'', ''revoked'', ''created_at'', ''last_used_at'', ''api_key''] (created_key_from_dict from_iso) \<and>
   reads_only [''id'', ''tenant_id'', ''amount'', ''reason'', ''status'', ''review_note'', ''created_at'', ''reviewed_at''] (credit_request_from_dict from_iso) \<and>
   reads_only [''enabled'', ''mode'', ''currency'', ''month_to_date_cost'', ''spend_cap'', ''balance''] billing_account_from_dict \<and>
   reads_only [''id'', ''resource_type'', ''quantity'', ''cost'', ''sandbox_id'', ''run_id'', ''recorded_at''] (usage_from_dict from_iso) \<and>
   reads_only [''id'', ''state'', ''quota_mb'', ''used_mb'', ''used_percent'', ''last_access_at'', ''created_at''] (workspace_from_dict from_iso) \<and>
   reads_only [''workspace'', ''enabled'', ''retention''] (workspace_status_from_dict from_iso)"
proof -
  note flat = run_result_from_dict_def sandbox_from_dict_def file_entry_from_dict_def component_from_dict_def template_from_dict_def
    build_from_dict_def run_from_dict_def principal_from_dict_def features_from_dict_def api_key_from_dict_def
    credit_request_from_dict_def billing_account_from_dict_def usage_from_dict_def workspace_from_dict_def a_time_def a_list_def
  have key: "reads_only [''id'', ''label'', ''prefix'', ''revoked'', ''created_at'', ''last_used_at''] (api_key_from_dict from_iso)"
    by (rule reads_onlyI) (simp add: flat)
  have created: "reads_only [''id'', ''label'', ''prefix'', ''revoked'', ''created_at'', ''last_used_at'', ''api_key''] (created_key_from_dict from_iso)"
  proof (rule reads_onlyI)
    fix kvs kvs' :: "(string \<times> json) list"
    assume a: "\<forall>k\<in>set [''id'', ''label'', ''prefix'', ''revoked'', ''created_at'', ''last_used_at'', ''api_key'']. map_of kvs k = map_of kvs' k"
    with key have "api_key_from_dict from_iso (JObject kvs) = api_key_from_dict from_iso (JObject kvs')"
      unfolding reads_only_def by (elim allE impE) auto
    with a show "created_key_from_dict from_iso (JObject kvs) = created_key_from_dict from_iso (JObject kvs')"
      by (simp add: created_key_from_dict_def need_def split: sum.split)
  qed
  have page: "reads_only [''items'', ''total'', ''limit'', ''offset''] (page_from_dict parse)"
    and identity: "reads_only [''principal'', ''features'', ''app_env''] identity_from_dict"
    and workspace: "reads_only [''workspace'', ''enabled'', ''retention''] (workspace_status_from_dict from_iso)"
    by (rule reads_onlyI; simp add: page_from_dict_def identity_from_dict_def workspace_status_from_dict_def cong: sum.case_cong)+
  show ?thesis
    by (intro conjI key created page identity workspace; rule reads_onlyI; simp add: flat)
qed

subsection \<open>A polled run is the synchronous one\<close>

text \<open>The JSON of a response: one key for each field of the response model, \<open>null\<close> for \<open>None\<close>.\<close>

definition or_null :: "('a \<Rightarrow> json) \<Rightarrow> 'a option \<Rightarrow> json" where
  "or_null f x = (case x of None \<Rightarrow> JNull | Some v \<Rightarrow> f v)"

definition has_field :: "json \<Rightarrow> string \<Rightarrow> json \<Rightarrow> bool" where
  "has_field body k v \<longleftrightarrow> json_get body k = Inr (Some v)"

definition serves_result :: "json \<Rightarrow> batch_run_result \<Rightarrow> bool" where
  "serves_result body r \<longleftrightarrow>
     has_field body ''run_id'' (JString (br_run_id r)) \<and> has_field body ''exit_code'' (JInt (br_exit_code r)) \<and>
     has_field body ''stdout'' (JString (br_stdout r)) \<and> has_field body ''stderr'' (JString (br_stderr r)) \<and>
     has_field body ''duration_ms'' (JInt (br_duration_ms r)) \<and> has_field body ''truncated'' (JBool (br_truncated r)) \<and>
     has_field body ''timed_out'' (JBool (br_timed_out r)) \<and> has_field body ''variables'' (or_null id (br_variables r))"

definition serves_run :: "json \<Rightarrow> run_detail \<Rightarrow> bool" where
  "serves_run body d \<longleftrightarrow>
     has_field body ''id'' (JString (ro_id d)) \<and> has_field body ''status'' (JString (ro_status d)) \<and>
     has_field body ''exit_code'' (or_null JInt (ro_exit_code d)) \<and> has_field body ''duration_ms'' (or_null JInt (ro_duration_ms d)) \<and>
     has_field body ''truncated'' (JBool (ro_truncated d)) \<and> has_field body ''timed_out'' (JBool (ro_timed_out d)) \<and>
     has_field body ''stdout'' (JString (ro_stdout d)) \<and> has_field body ''stderr'' (JString (ro_stderr d)) \<and>
     has_field body ''variables'' (or_null id (ro_variables d))"

lemma has_field_reads:
  "has_field body k v \<Longrightarrow> need body k f = f v" "has_field body k v \<Longrightarrow> maybe body k d f = f v"
  by (cases body; simp add: has_field_def need_def maybe_def)+

lemma maybe_Inr: "maybe body k d f = Inr x \<Longrightarrow> \<exists>v. f v = Inr x"
  by (auto simp: maybe_def split: sum.splits option.splits)

lemma a_time_Inr: "a_time from_iso body k f = Inr x \<Longrightarrow> \<exists>t. f t = Inr x"
  by (auto simp: a_time_def split: sum.splits dest!: maybe_Inr)

lemma a_list_Inr: "a_list body k f = Inr x \<Longrightarrow> \<exists>xs. f xs = Inr x"
  by (auto simp: a_list_def split: sum.splits dest!: maybe_Inr)

lemma served_result_read:
  "serves_result body r \<Longrightarrow> run_result_from_dict body = Inr
     \<lparr>jr_run_id = JString (br_run_id r), jr_exit_code = JInt (br_exit_code r), jr_stdout = JString (br_stdout r),
      jr_stderr = JString (br_stderr r), jr_duration_ms = JInt (br_duration_ms r), jr_truncated = JBool (br_truncated r),
      jr_timed_out = JBool (br_timed_out r), jr_variables = or_null id (br_variables r)\<rparr>"
proof -
  assume "serves_result body r"
  then have h: "has_field body ''run_id'' (JString (br_run_id r))" "has_field body ''exit_code'' (JInt (br_exit_code r))"
    "has_field body ''stdout'' (JString (br_stdout r))" "has_field body ''stderr'' (JString (br_stderr r))"
    "has_field body ''duration_ms'' (JInt (br_duration_ms r))" "has_field body ''truncated'' (JBool (br_truncated r))"
    "has_field body ''timed_out'' (JBool (br_timed_out r))" "has_field body ''variables'' (or_null id (br_variables r))"
    by (simp_all add: serves_result_def)
  show ?thesis by (simp add: run_result_from_dict_def h [THEN has_field_reads(1)] h [THEN has_field_reads(2)])
qed

lemma served_run_read:
  assumes "serves_run body d" "run_from_dict from_iso body = Inr rec"
  shows "jn_id rec = JString (ro_id d) \<and> jn_status rec = JString (ro_status d) \<and> jn_exit_code rec = or_null JInt (ro_exit_code d) \<and>
    jn_duration_ms rec = or_null JInt (ro_duration_ms d) \<and> jn_truncated rec = JBool (ro_truncated d) \<and>
    jn_timed_out rec = JBool (ro_timed_out d) \<and> jn_stdout rec = JString (ro_stdout d) \<and> jn_stderr rec = JString (ro_stderr d) \<and>
    jn_variables rec = or_null id (ro_variables d)"
proof -
  have h: "has_field body ''id'' (JString (ro_id d))" "has_field body ''status'' (JString (ro_status d))"
    "has_field body ''exit_code'' (or_null JInt (ro_exit_code d))" "has_field body ''duration_ms'' (or_null JInt (ro_duration_ms d))"
    "has_field body ''truncated'' (JBool (ro_truncated d))" "has_field body ''timed_out'' (JBool (ro_timed_out d))"
    "has_field body ''stdout'' (JString (ro_stdout d))" "has_field body ''stderr'' (JString (ro_stderr d))"
    "has_field body ''variables'' (or_null id (ro_variables d))"
    using assms(1) by (simp_all add: serves_run_def)
  from assms(2) show ?thesis
    unfolding run_from_dict_def h [THEN has_field_reads(1)] h [THEN has_field_reads(2)]
    by (auto dest!: maybe_Inr a_time_Inr a_list_Inr)
qed

text \<open>
  C6. A polled run carries what a synchronous call would have returned. When the control plane serves the detail of
  a completed run whose row holds an execution's result, the record the SDK reads is done, its \<open>as_result()\<close> has the
  exit code, flags and variables of the result that a synchronous response would carry, with the first 10000
  characters of its output, and it counts as a success exactly when that result does.
\<close>

theorem polled_run_is_the_result:
  assumes "serves_run body d" "run_from_dict from_iso body = Inr rec" "ro_status d = ''completed''" "bundles d result"
    and "serves_result direct result"
  shows "\<exists>r. run_result_from_dict direct = Inr r \<and> run_done rec \<and> jr_exit_code (as_result rec) = jr_exit_code r \<and>
    jr_truncated (as_result rec) = jr_truncated r \<and> jr_timed_out (as_result rec) = jr_timed_out r \<and>
    jr_variables (as_result rec) = jr_variables r \<and> jr_stdout (as_result rec) = JString (take 10000 (br_stdout result)) \<and>
    jr_stderr (as_result rec) = JString (take 10000 (br_stderr result)) \<and> run_ok rec = run_result_ok r \<and>
    run_result_ok (as_result rec) = run_result_ok r"
  using served_run_read [OF assms(1,2)] served_result_read [OF assms(5)] assms(3,4)
  by (simp add: bundles_def as_result_def run_done_def run_ok_def run_result_ok_def or_null_def)

definition long_output :: string where
  "long_output = replicate 10001 CHR ''x''"

definition long_result :: batch_run_result where
  "long_result = \<lparr>br_run_id = ''r1'', br_exit_code = 0, br_stdout = long_output, br_stderr = [], br_duration_ms = 5,
     br_truncated = False, br_timed_out = False, br_variables = None\<rparr>"

definition long_detail :: run_detail where
  "long_detail = detail_of_run ((blank_run ''r1'' ''t1'' 0)\<lparr>rn_status := RunCompleted, rn_exit_code := Some 0,
     rn_stdout_excerpt := Some (take 10000 long_output), rn_stderr_excerpt := Some [], rn_duration_ms := Some 5\<rparr>)"

definition long_body :: json where
  "long_body = JObject [(''id'', JString ''r1''), (''status'', JString ''completed''), (''exit_code'', JInt 0), (''duration_ms'', JInt 5),
     (''truncated'', JBool False), (''timed_out'', JBool False), (''stdout'', JString (take 10000 long_output)),
     (''stderr'', JString []), (''variables'', JNull)]"

lemma long_run:
  "serves_run long_body long_detail" "bundles long_detail long_result" "ro_status long_detail = ''completed''"
  "\<exists>rec. run_from_dict (\<lambda>_. Inr 0) long_body = Inr rec"
proof -
  show "serves_run long_body long_detail"
    by (simp add: serves_run_def long_body_def long_detail_def has_field_def or_null_def text_or_empty_def blank_run_def
        detail_of_run_def summarize_run_def run_summary.extend_def)
  show "bundles long_detail long_result"
    by (simp add: bundles_def long_detail_def long_result_def text_or_empty_def blank_run_def)
  show "ro_status long_detail = ''completed''" by (simp add: long_detail_def)
  show "\<exists>rec. run_from_dict (\<lambda>_. Inr 0) long_body = Inr rec"
    by (simp add: run_from_dict_def long_body_def need_def maybe_def a_time_def a_list_def py_or_json_def)
qed

definition direct_body :: json where
  "direct_body = JObject [(''run_id'', JString ''r1''), (''exit_code'', JInt 0), (''stdout'', JString long_output), (''stderr'', JString []),
     (''duration_ms'', JInt 5), (''truncated'', JBool False), (''timed_out'', JBool False), (''variables'', JNull)]"

theorem polled_run_is_the_result_witness:
  "\<exists>rec r. run_from_dict (\<lambda>_. Inr 0) long_body = Inr rec \<and> run_result_from_dict direct_body = Inr r \<and> run_done rec \<and>
     jr_stdout (as_result rec) = JString (take 10000 (br_stdout long_result))"
proof -
  obtain rec where rec: "run_from_dict (\<lambda>_. Inr 0) long_body = Inr rec" using long_run(4) by blast
  have "serves_result direct_body long_result"
    by (simp add: serves_result_def direct_body_def long_result_def has_field_def or_null_def)
  from polled_run_is_the_result [OF long_run(1) rec long_run(3,2) this] rec show ?thesis by blast
qed

text \<open>
  What was cut is not marked: a run that printed 10001 characters is polled as an untruncated success whose
  output is not what the program printed.
\<close>

lemma cut_output_counts_as_ok:
  "\<exists>rec. run_from_dict (\<lambda>_. Inr 0) long_body = Inr rec \<and> run_ok rec \<and> run_result_ok (as_result rec) \<and>
     jr_stdout (as_result rec) \<noteq> JString (br_stdout long_result)"
proof -
  obtain rec where rec: "run_from_dict (\<lambda>_. Inr 0) long_body = Inr rec" using long_run(4) by blast
  note read = served_run_read [OF long_run(1) rec]
  have "take 10000 long_output \<noteq> long_output" by (simp add: long_output_def)
  with read rec long_run(2,3) show ?thesis
    by (auto simp: bundles_def run_ok_def run_result_ok_def as_result_def or_null_def py_is_zero_def long_result_def)
qed

end
