(* ===== verification/Build_Strategies.thy ===== *)
theory Build_Strategies
  imports Builds Paths
begin

section \<open>The build strategies\<close>

text \<open>
  \<open>app/build/strategies\<close>, the build context of \<open>app/domain/build.py\<close>, and the image registry of
  \<open>app/cloud/registry.py\<close>. The file system, the Docker daemon, the shell, \<open>helm\<close>, the object store, the YAML and
  JSON readers, \<open>str.format\<close> and the token exchange of a cloud registry are parameters, which answer knowing
  every call so far; output of a process is text already.
\<close>

subsection \<open>The environment\<close>

datatype build_call =
    DockerBuild string json string "exn + json list"
  | RunStep string string "(string \<times> string) list" "int \<times> string"
  | HelmTemplate "string list" "json option" "int \<times> string \<times> string"
  | StorageGet string "exn + string"
  | StoragePut string string "exn + unit"
  | TagImage string string string "exn + unit"
  | PushImage string string "(string \<times> string) list option" "exn + unit"
  | ExchangeToken string "exn + string"

type_synonym build_calls = "build_call list"

record build_env =
  be_is_dir :: "string \<Rightarrow> bool"
  be_is_file :: "string \<Rightarrow> bool"
  be_read_yaml :: "string \<Rightarrow> exn + json"
  be_docker_build :: "build_calls \<Rightarrow> string \<Rightarrow> json \<Rightarrow> string \<Rightarrow> exn + json list"
  be_run_step :: "build_calls \<Rightarrow> string \<Rightarrow> string \<Rightarrow> (string \<times> string) list \<Rightarrow> int \<times> string"
  be_has_helm :: bool
  be_tempfile :: "build_calls \<Rightarrow> string"
  be_helm :: "build_calls \<Rightarrow> string list \<Rightarrow> json option \<Rightarrow> int \<times> string \<times> string"
  be_storage_get :: "build_calls \<Rightarrow> string \<Rightarrow> exn + string"
  be_storage_put :: "build_calls \<Rightarrow> string \<Rightarrow> string \<Rightarrow> exn + unit"
  be_tag :: "build_calls \<Rightarrow> string \<Rightarrow> string \<Rightarrow> string \<Rightarrow> exn + unit"
  be_push :: "build_calls \<Rightarrow> string \<Rightarrow> string \<Rightarrow> (string \<times> string) list option \<Rightarrow> exn + unit"
  be_exchange :: "build_calls \<Rightarrow> string \<Rightarrow> exn + string"
  be_format :: "string \<Rightarrow> string \<Rightarrow> string \<Rightarrow> exn + string"
  be_loads :: "string \<Rightarrow> exn + json"
  be_dumps :: "json \<Rightarrow> string"
  be_str :: "json \<Rightarrow> string"

record build_state =
  bs_env :: build_env
  bs_calls :: build_calls
  bs_log :: "string list"

type_synonym 'a bm = "(build_state, 'a) em"

definition build_ask :: "(build_env \<Rightarrow> build_calls \<Rightarrow> 'a) \<Rightarrow> ('a \<Rightarrow> build_call) \<Rightarrow> 'a bm" where
  "build_ask ask call = (\<lambda>s.
     let r = ask (bs_env s) (bs_calls s) in (Inr r, s\<lparr>bs_calls := bs_calls s @ [call r]\<rparr>))"

text \<open>A call that may raise.\<close>

definition build_try :: "(build_env \<Rightarrow> build_calls \<Rightarrow> exn + 'a) \<Rightarrow> (exn + 'a \<Rightarrow> build_call) \<Rightarrow> 'a bm" where
  "build_try ask call = bind_em (build_ask ask call) lift_em"

definition log_line :: "string \<Rightarrow> unit bm" where
  "log_line line = modify_em (\<lambda>s. s\<lparr>bs_log := bs_log s @ [line]\<rparr>)"

record build_context =
  cx_component_dir :: string
  cx_build_id :: string
  cx_image_repo :: string
  cx_image_tag :: string
  cx_object_storage :: bool

datatype artifact_kind = ImageArtifact | ManifestArtifact

record artifact =
  ar_kind :: artifact_kind
  ar_ref :: json
  ar_metadata :: "(string \<times> json) list"

text \<open>The context that \<open>BuildManager.run_build\<close> makes.\<close>

definition context_for :: "component \<Rightarrow> string \<Rightarrow> string \<Rightarrow> bool \<Rightarrow> build_context" where
  "context_for c directory build_id storage =
     \<lparr>cx_component_dir = directory, cx_build_id = build_id, cx_image_repo = ''kubesandbox/'' @ md_name (c_metadata c),
      cx_image_tag = md_version (c_metadata c), cx_object_storage = storage\<rparr>"

definition local_tag :: "build_context \<Rightarrow> string" where
  "local_tag ctx = cx_image_repo ctx @ '':'' @ cx_image_tag ctx"

text \<open>\<open>Path(a) / b\<close>: an absolute \<open>b\<close> replaces \<open>a\<close>.\<close>

definition path_join :: "string \<Rightarrow> string \<Rightarrow> string" where
  "path_join a b = (if is_abs b then b else a @ ''/'' @ b)"

subsection \<open>Dockerfiles\<close>

text \<open>\<open>str(chunk["stream"]).rstrip("\n")\<close> of each chunk that has one.\<close>

definition chunk_line :: "(json \<Rightarrow> string) \<Rightarrow> json \<Rightarrow> string option" where
  "chunk_line str_of chunk =
     (case chunk of
        JObject kvs \<Rightarrow>
          map_option (\<lambda>v. rev (dropWhile (\<lambda>c. c = CHR 0x0A) (rev (case v of JString s \<Rightarrow> s | _ \<Rightarrow> str_of v)))) (map_of kvs ''stream'')
      | _ \<Rightarrow> None)"

definition build_image_from_dockerfile :: "string \<Rightarrow> json \<Rightarrow> json \<Rightarrow> string \<Rightarrow> string bm" where
  "build_image_from_dockerfile component_dir context dockerfile_path tag =
     bind_em (lift_em (if py_truthy context then (case context of JString s \<Rightarrow> Inr (path_join component_dir s) | _ \<Rightarrow> Inl (OtherException ''TypeError''))
                       else Inr component_dir)) (\<lambda>context_dir.
     bind_em (gets_em (\<lambda>s. be_is_dir (bs_env s) context_dir)) (\<lambda>ok.
     if \<not> ok then raise_em (BuildError context_dir)
     else
       bind_em (catch_em
         (build_try (\<lambda>en tr. be_docker_build en tr context_dir dockerfile_path tag) (DockerBuild context_dir dockerfile_path tag))
         is_docker_error (\<lambda>e. raise_em (BuildError tag))) (\<lambda>chunks.
       bind_em (gets_em (\<lambda>s. be_str (bs_env s))) (\<lambda>str_of.
       seq_em (for_em (List.map_filter (chunk_line str_of) chunks) log_line)
         (return_em tag)))))"

definition or_none :: "string option \<Rightarrow> json" where
  "or_none x = (case x of None \<Rightarrow> JNull | Some s \<Rightarrow> JString s)"

definition dockerfile_build :: "component \<Rightarrow> build_context \<Rightarrow> artifact bm" where
  "dockerfile_build c ctx =
     (let source = src_dockerfile (cs_source (c_spec c)) in
      bind_em (build_image_from_dockerfile (cx_component_dir ctx)
        (case source of None \<Rightarrow> JNull | Some d \<Rightarrow> or_none (df_context d))
        (case source of None \<Rightarrow> JNull | Some d \<Rightarrow> or_none (df_path d)) (local_tag ctx)) (\<lambda>_.
      return_em \<lparr>ar_kind = ImageArtifact, ar_ref = JString (local_tag ctx), ar_metadata = []\<rparr>))"

subsection \<open>Compose files\<close>

definition default_compose_file :: string where
  "default_compose_file = ''docker-compose.yaml''"

definition parse_compose_services :: "json \<Rightarrow> exn + (string \<times> json) list" where
  "parse_compose_services raw =
     (case json_get raw ''services'' of
        Inl e \<Rightarrow> Inl e
      | Inr (Some (JObject (kv # kvs))) \<Rightarrow> Inr (kv # kvs)
      | Inr _ \<Rightarrow> Inl (BuildError ''services''))"

definition select_primary_service :: "(string \<times> json) list \<Rightarrow> string \<Rightarrow> string" where
  "select_primary_service services name = (if name \<in> fst ` set services then name else fst (hd services))"

definition get_or_null :: "json \<Rightarrow> string \<Rightarrow> exn + json" where
  "get_or_null v k = map_sum id (\<lambda>x. case x of None \<Rightarrow> JNull | Some w \<Rightarrow> w) (json_get v k)"

definition service_tag :: "build_context \<Rightarrow> string \<Rightarrow> string \<Rightarrow> string" where
  "service_tag ctx primary name =
     (if name = primary then local_tag ctx else cx_image_repo ctx @ ''-'' @ name @ '':'' @ cx_image_tag ctx)"

text \<open>One service: built, or taken as it is, or passed over.\<close>

definition build_service :: "build_context \<Rightarrow> string \<Rightarrow> string \<Rightarrow> json \<Rightarrow> json option bm" where
  "build_service ctx primary name service =
     bind_em (lift_em (get_or_null service ''build'')) (\<lambda>build_spec.
     if build_spec \<noteq> JNull then
       bind_em (lift_em (case build_spec of
           JString s \<Rightarrow> Inr (build_spec, JNull)
         | _ \<Rightarrow>
             (case json_get build_spec ''context'' of
                Inl e \<Rightarrow> Inl e
              | Inr context \<Rightarrow>
                  map_sum id (Pair (case context of None \<Rightarrow> JString ''.'' | Some v \<Rightarrow> v)) (get_or_null build_spec ''dockerfile'')))) (\<lambda>(context, dockerfile).
       bind_em (build_image_from_dockerfile (cx_component_dir ctx) context dockerfile (service_tag ctx primary name)) (\<lambda>_.
       return_em (Some (JString (service_tag ctx primary name)))))
     else lift_em (json_get service ''image''))"

fun build_services :: "build_context \<Rightarrow> string \<Rightarrow> (string \<times> json) list \<Rightarrow> (string \<times> json) list \<Rightarrow> (string \<times> json) list bm" where
  "build_services ctx primary [] refs = return_em refs"
| "build_services ctx primary ((name, service) # rest) refs =
     bind_em (build_service ctx primary name service) (\<lambda>r.
     build_services ctx primary rest (case r of None \<Rightarrow> refs | Some v \<Rightarrow> AList.update name v refs))"

definition compose_build :: "component \<Rightarrow> build_context \<Rightarrow> artifact bm" where
  "compose_build c ctx =
     (let filename = (case src_compose_file (cs_source (c_spec c)) of
            Some f \<Rightarrow> if f = [] then default_compose_file else f | None \<Rightarrow> default_compose_file);
          compose_path = path_join (cx_component_dir ctx) filename in
      bind_em (gets_em (\<lambda>s. be_is_file (bs_env s) compose_path)) (\<lambda>ok.
      if \<not> ok then raise_em (BuildError compose_path)
      else
        bind_em (gets_em (\<lambda>s. be_read_yaml (bs_env s) compose_path)) (\<lambda>raw.
        bind_em (lift_em (case raw of Inl e \<Rightarrow> Inl e | Inr v \<Rightarrow> parse_compose_services v)) (\<lambda>services.
        let primary = select_primary_service services (md_name (c_metadata c)) in
        bind_em (build_services ctx primary services []) (\<lambda>built.
        case map_of built primary of
          None \<Rightarrow> raise_em (BuildError primary)
        | Some r \<Rightarrow>
            if r = JNull then raise_em (BuildError primary)
            else return_em \<lparr>ar_kind = ImageArtifact, ar_ref = r,
              ar_metadata = [(''services'', JObject (filter (\<lambda>(k, v). k \<noteq> primary) built))]\<rparr>)))))"

subsection \<open>Pipelines\<close>

definition cache_object_key :: "string \<Rightarrow> string" where
  "cache_object_key key = ''pipeline-cache/'' @ key @ ''.json''"

fun is_key_error :: "exn \<Rightarrow> bool" where
  "is_key_error (OtherException s) = (s = ''KeyError'')"
| "is_key_error _ = False"

definition cached_image_ref :: "json \<Rightarrow> exn + json" where
  "cached_image_ref cached =
     (case cached of
        JObject kvs \<Rightarrow> (case map_of kvs ''image_ref'' of None \<Rightarrow> Inl (OtherException ''KeyError'') | Some v \<Rightarrow> Inr v)
      | _ \<Rightarrow> Inl (OtherException ''TypeError''))"

definition cached_artifact :: "string \<Rightarrow> artifact option bm" where
  "cached_artifact key =
     bind_em (catch_em
       (bind_em (build_try (\<lambda>en tr. be_storage_get en tr (cache_object_key key)) (StorageGet (cache_object_key key))) (\<lambda>data. return_em (Some data)))
       is_key_error (\<lambda>_. return_em None)) (\<lambda>found.
     case found of
       None \<Rightarrow> return_em None
     | Some data \<Rightarrow>
         bind_em (gets_em (\<lambda>s. be_loads (bs_env s) data)) (\<lambda>parsed.
         bind_em (lift_em (case parsed of Inl e \<Rightarrow> Inl e | Inr v \<Rightarrow> cached_image_ref v)) (\<lambda>r.
         return_em (Some \<lparr>ar_kind = ImageArtifact, ar_ref = r, ar_metadata = [(''cache_hit'', JBool True)]\<rparr>))))"

text \<open>\<open>run_step_subprocess\<close>, the default runner: a shell command in the component's directory.\<close>

definition run_step :: "string \<Rightarrow> string \<Rightarrow> (string \<times> string) list \<Rightarrow> unit bm" where
  "run_step command cwd env =
     bind_em (build_ask (\<lambda>en tr. be_run_step en tr command cwd env) (RunStep command cwd env)) (\<lambda>(code, out).
     seq_em (when_em (out \<noteq> []) (log_line out))
       (if code \<noteq> 0 then raise_em (BuildError command) else return_em ()))"

definition pipeline_env :: "component \<Rightarrow> build_context \<Rightarrow> (string \<times> string) list" where
  "pipeline_env c ctx =
     [(''IMAGE'', local_tag ctx), (''COMPONENT_NAME'', md_name (c_metadata c)), (''COMPONENT_VERSION'', md_version (c_metadata c))]"

definition run_steps :: "component \<Rightarrow> build_context \<Rightarrow> pipeline_step list \<Rightarrow> unit bm" where
  "run_steps c ctx steps =
     for_em steps (\<lambda>step.
       seq_em (log_line (''['' @ step_name step @ ''] $ '' @ step_run step))
         (run_step (step_run step) (cx_component_dir ctx) (pipeline_env c ctx)))"

text \<open>Everything after the cache: the steps, the image, the new cache entry.\<close>

definition pipeline_fresh :: "component \<Rightarrow> build_context \<Rightarrow> pipeline_step list \<Rightarrow> string option \<Rightarrow> artifact bm" where
  "pipeline_fresh c ctx steps key =
     seq_em (run_steps c ctx steps)
     (seq_em (build_image_from_dockerfile (cx_component_dir ctx) JNull JNull (local_tag ctx))
     (seq_em (case key of
                None \<Rightarrow> return_em ()
              | Some k \<Rightarrow> when_em (cx_object_storage ctx)
                  (bind_em (gets_em (\<lambda>s. be_dumps (bs_env s) (JObject [(''image_ref'', JString (local_tag ctx))]))) (\<lambda>data.
                   build_try (\<lambda>en tr. be_storage_put en tr (cache_object_key k) data) (StoragePut (cache_object_key k) data))))
     (return_em \<lparr>ar_kind = ImageArtifact, ar_ref = JString (local_tag ctx), ar_metadata = []\<rparr>)))"

definition pipeline_build :: "component \<Rightarrow> build_context \<Rightarrow> artifact bm" where
  "pipeline_build c ctx =
     (case src_pipeline (cs_source (c_spec c)) of
        None \<Rightarrow> raise_em (OtherException ''AttributeError'')
      | Some source \<Rightarrow>
          (case py_or (pl_cache_key source) None of
             None \<Rightarrow> pipeline_fresh c ctx (pl_steps source) None
           | Some template \<Rightarrow>
               if \<not> cx_object_storage ctx then raise_em (BuildError ''object_storage'')
               else
                 bind_em (gets_em (\<lambda>s. be_format (bs_env s) template (md_name (c_metadata c)))) (\<lambda>fmt.
                 bind_em (lift_em (fmt (md_version (c_metadata c)))) (\<lambda>key.
                 bind_em (cached_artifact key) (\<lambda>cached.
                 case cached of
                   Some a \<Rightarrow> seq_em (log_line (''cache hit for '' @ key)) (return_em a)
                 | None \<Rightarrow> pipeline_fresh c ctx (pl_steps source) (Some key))))))"

subsection \<open>Helm charts\<close>

definition default_chart_dir :: string where
  "default_chart_dir = ''chart''"

definition helm_build :: "component \<Rightarrow> build_context \<Rightarrow> artifact bm" where
  "helm_build c ctx =
     bind_em (gets_em (\<lambda>s. be_has_helm (bs_env s))) (\<lambda>present.
     if \<not> present then raise_em (BuildError ''helm'')
     else if \<not> cx_object_storage ctx then raise_em (BuildError ''object_storage'')
     else
       (let source = src_helm (cs_source (c_spec c));
            chart_dir = path_join (cx_component_dir ctx)
              (case py_or (Option.bind source hl_chart) None of Some d \<Rightarrow> d | None \<Rightarrow> default_chart_dir);
            vals = (case Option.bind source hl_values of Some v \<Rightarrow> if py_truthy v then Some v else None | None \<Rightarrow> None) in
        bind_em (gets_em (\<lambda>s. be_is_dir (bs_env s) chart_dir)) (\<lambda>ok.
        if \<not> ok then raise_em (BuildError chart_dir)
        else
          bind_em (gets_em (\<lambda>s. be_tempfile (bs_env s) (bs_calls s))) (\<lambda>values_path.
          let command = [''helm'', ''template'', md_name (c_metadata c), chart_dir] @ (if vals = None then [] else [''-f'', values_path]) in
          bind_em (build_ask (\<lambda>en tr. be_helm en tr command vals) (HelmTemplate command vals)) (\<lambda>(code, out, err).
          if code \<noteq> 0 then raise_em (BuildError err)
          else
            (let key = ''helm-artifacts/'' @ md_name (c_metadata c) @ ''/'' @ md_version (c_metadata c) @ ''/manifest.yaml'' in
             seq_em (log_line out)
             (seq_em (build_try (\<lambda>en tr. be_storage_put en tr key out) (StoragePut key out))
             (return_em \<lparr>ar_kind = ManifestArtifact, ar_ref = JString key, ar_metadata = []\<rparr>))))))))"

subsection \<open>Dispatch\<close>

text \<open>The fixed map of \<open>BuildManager\<close>; an image source has no strategy.\<close>

definition run_strategy :: "component \<Rightarrow> build_context \<Rightarrow> artifact bm option" where
  "run_strategy c ctx =
     (case src_type (cs_source (c_spec c)) of
        DockerfileSource \<Rightarrow> Some (dockerfile_build c ctx)
      | ComposeSource \<Rightarrow> Some (compose_build c ctx)
      | PipelineSource \<Rightarrow> Some (pipeline_build c ctx)
      | HelmSource \<Rightarrow> Some (helm_build c ctx)
      | ImageSource \<Rightarrow> None)"

subsection \<open>Image registries\<close>

definition split_repo_tag :: "string \<Rightarrow> exn + string \<times> string" where
  "split_repo_tag tag =
     (case py_rpartition CHR '':'' tag of (repository, sep, t) \<Rightarrow> if \<not> sep then Inl (BuildError tag) else Inr (repository, t))"

definition tag_and_push :: "string \<Rightarrow> string \<Rightarrow> string \<Rightarrow> (string \<times> string) list option \<Rightarrow> unit bm" where
  "tag_and_push tag remote_repo t auth =
     seq_em (build_try (\<lambda>en tr. be_tag en tr tag remote_repo t) (TagImage tag remote_repo t))
       (build_try (\<lambda>en tr. be_push en tr remote_repo t auth) (PushImage remote_repo t auth))"

definition local_store_push :: "string \<Rightarrow> string \<Rightarrow> string bm" where
  "local_store_push endpoint tag =
     bind_em (lift_em (split_repo_tag tag)) (\<lambda>(repository, t).
     let remote_repo = endpoint @ ''/'' @ repository in
     seq_em (tag_and_push tag remote_repo t None) (return_em (remote_repo @ '':'' @ t)))"

definition registry_resolve :: "string \<Rightarrow> string \<Rightarrow> string" where
  "registry_resolve endpoint r = endpoint @ ''/'' @ r"

definition anonymous_sentinel :: string where
  "anonymous_sentinel = ''00000000-0000-0000-0000-000000000000''"

definition acr_refresh_token :: "string \<Rightarrow> string bm" where
  "acr_refresh_token endpoint = build_try (\<lambda>en tr. be_exchange en tr endpoint) (ExchangeToken endpoint)"

definition acr_push :: "string \<Rightarrow> string \<Rightarrow> string bm" where
  "acr_push endpoint tag =
     bind_em (lift_em (split_repo_tag tag)) (\<lambda>(repository, t).
     let remote_repo = endpoint @ ''/'' @ repository in
     bind_em (acr_refresh_token endpoint) (\<lambda>token.
     seq_em (tag_and_push tag remote_repo t
              (Some [(''username'', anonymous_sentinel), (''password'', token), (''serveraddress'', endpoint)]))
       (return_em (remote_repo @ '':'' @ t))))"

end
