(* ===== verification/Strategy_Laws.thy ===== *)
theory Strategy_Laws
  imports Build_Strategies
begin

section \<open>What the build strategies guarantee\<close>

text \<open>
  A pipeline builds its image only after every step has succeeded, and caches only what it built; a cached image
  is found again; what a build pushes is named by the component's name and version alone.
\<close>

subsection \<open>Histories\<close>

definition builds_on :: "(build_call \<Rightarrow> bool) \<Rightarrow> build_state \<Rightarrow> build_state \<Rightarrow> bool" where
  "builds_on P s s' \<longleftrightarrow> bs_env s' = bs_env s \<and> (\<exists>cs. bs_calls s' = bs_calls s @ cs \<and> list_all P cs)"

interpretation bld: frame_relation "builds_on P" for P :: "build_call \<Rightarrow> bool"
  by unfold_locales (auto simp: builds_on_def)

declare bld.all_moves [moves_intro]

lemma build_ask_run [em_simps]:
  "build_ask ask call s = (Inr (ask (bs_env s) (bs_calls s)), s\<lparr>bs_calls := bs_calls s @ [call (ask (bs_env s) (bs_calls s))]\<rparr>)"
  by (simp add: build_ask_def Let_def)

lemma build_try_run [em_simps]:
  "build_try ask call s = (ask (bs_env s) (bs_calls s), s\<lparr>bs_calls := bs_calls s @ [call (ask (bs_env s) (bs_calls s))]\<rparr>)"
  by (simp add: build_try_def em_simps)

lemma log_line_run [simp, em_simps]: "log_line l s = (Inr (), s\<lparr>bs_log := bs_log s @ [l]\<rparr>)"
  by (simp add: log_line_def)

lemma build_primitives_move [moves_intro]:
  "(\<And>r. P (call r)) \<Longrightarrow> moves (builds_on P) (build_ask ask call)"
  "(\<And>r. P (call' r)) \<Longrightarrow> moves (builds_on P) (build_try ask' call')"
  "moves (builds_on P) (log_line l)"
  by (simp_all add: moves_def builds_on_def build_ask_run build_try_run)

lemma log_lines_run: "for_em ls log_line s = (Inr (), s\<lparr>bs_log := bs_log s @ ls\<rparr>)"
  by (induction ls arbitrary: s) (simp_all add: em_simps)

text \<open>Building an image is one call of the daemon or none.\<close>

lemma build_image_run:
  assumes "build_image_from_dockerfile d context df tag s = (r, s')"
  shows "bs_env s' = bs_env s \<and>
    (case r of
       Inr t \<Rightarrow> t = tag \<and> (\<exists>dir chunks. bs_calls s' = bs_calls s @ [DockerBuild dir df tag (Inr chunks)] \<and> (context = JNull \<longrightarrow> dir = d))
     | Inl e \<Rightarrow> bs_calls s' = bs_calls s \<or> (\<exists>dir e'. bs_calls s' = bs_calls s @ [DockerBuild dir df tag (Inl e')]))"
  using assms
  by (auto simp: build_image_from_dockerfile_def em_simps log_lines_run split: if_splits sum.splits json.splits)

subsection \<open>Pipelines\<close>

definition step_call :: "component \<Rightarrow> build_context \<Rightarrow> pipeline_step \<Rightarrow> int \<times> string \<Rightarrow> build_call" where
  "step_call c ctx step answer = RunStep (step_run step) (cx_component_dir ctx) (pipeline_env c ctx) answer"

lemma run_steps_run:
  "run_steps c ctx steps s = (r, s') \<Longrightarrow>
   bs_env s' = bs_env s \<and> (\<exists>answers. bs_calls s' = bs_calls s @ map2 (step_call c ctx) steps answers \<and> length answers \<le> length steps \<and>
     (case r of Inr _ \<Rightarrow> length answers = length steps \<and> list_all (\<lambda>a. fst a = 0) answers | Inl e \<Rightarrow> \<exists>m. e = BuildError m))"
proof (induction steps arbitrary: s)
  case Nil
  then show ?case by (auto simp: run_steps_def)
next
  case (Cons step steps)
  let ?a = "be_run_step (bs_env s) (bs_calls s) (step_run step) (cx_component_dir ctx) (pipeline_env c ctx)"
  obtain code out where a: "?a = (code, out)" by (cases ?a)
  define s1 where "s1 = snd (run_step (step_run step) (cx_component_dir ctx) (pipeline_env c ctx)
     (s\<lparr>bs_log := bs_log s @ [''['' @ step_name step @ ''] $ '' @ step_run step]\<rparr>))"
  have s1: "bs_env s1 = bs_env s" "bs_calls s1 = bs_calls s @ [step_call c ctx step (code, out)]"
    using a by (auto simp: s1_def run_step_def em_simps step_call_def)
  have run: "run_steps c ctx (step # steps) s = (if code \<noteq> 0 then (Inl (BuildError (step_run step)), s1) else run_steps c ctx steps s1)"
    using a by (auto simp: run_steps_def s1_def run_step_def em_simps)
  show ?case
  proof (cases "code = 0")
    case True
    with Cons.prems run have "run_steps c ctx steps s1 = (r, s')" by simp
    from Cons.IH [OF this] obtain answers where
      "bs_env s' = bs_env s1" "bs_calls s' = bs_calls s1 @ map2 (step_call c ctx) steps answers" "length answers \<le> length steps"
      "case r of Inr _ \<Rightarrow> length answers = length steps \<and> list_all (\<lambda>a. fst a = 0) answers | Inl e \<Rightarrow> \<exists>m. e = BuildError m" by blast
    with s1 True show ?thesis by (intro conjI exI [of _ "(code, out) # answers"]) (auto split: sum.splits)
  next
    case False
    with Cons.prems run s1 show ?thesis by (intro conjI exI [of _ "[(code, out)]"]) auto
  qed
qed

text \<open>A stored entry.\<close>

fun stores :: "build_call \<Rightarrow> bool" where
  "stores (StoragePut k d (Inr _)) = True"
| "stores _ = False"

fun builds_image :: "build_call \<Rightarrow> bool" where
  "builds_image (DockerBuild dir df t r) = True"
| "builds_image _ = False"

definition cache_calls :: "string option \<Rightarrow> build_call list \<Rightarrow> bool" where
  "cache_calls key cs \<longleftrightarrow> cs = [] \<or> (\<exists>k d. key = Some k \<and> cs = [StoragePut (cache_object_key k) d (Inr ())])"

lemma steps_are_no_builds: "list_all (\<lambda>x. \<not> stores x \<and> \<not> builds_image x) (map2 (step_call c ctx) steps answers)"
  by (auto simp: list_all_iff step_call_def dest!: set_zip_leftD)

text \<open>
  C24. A pipeline's image is built from finished steps. When the steps of a pipeline are run and an image comes
  out, every step has run, once, in the declared order, in the component's directory, and has exited with 0,
  before the daemon was asked to build, and an entry was put in the cache at most after that. When it fails,
  nothing has been put in the cache, and if a step failed the daemon was not asked at all.
\<close>

theorem pipeline_builds_from_finished_steps:
  assumes "pipeline_fresh c ctx steps key s = (r, s')"
  shows "\<exists>answers rest. bs_calls s' = bs_calls s @ map2 (step_call c ctx) steps answers @ rest \<and> length answers \<le> length steps \<and>
    (case r of
       Inr a \<Rightarrow> length answers = length steps \<and> list_all (\<lambda>x. fst x = 0) answers \<and> ar_ref a = JString (local_tag ctx) \<and>
         (\<exists>chunks cached. rest = DockerBuild (cx_component_dir ctx) JNull (local_tag ctx) (Inr chunks) # cached \<and> cache_calls key cached)
     | Inl e \<Rightarrow> list_all (\<lambda>x. stores x = False) rest \<and>
         (if length answers = length steps \<and> list_all (\<lambda>x. fst x = 0) answers then True else rest = []))"
proof -
  obtain q s1 where st: "run_steps c ctx steps s = (q, s1)" by (cases "run_steps c ctx steps s")
  from run_steps_run [OF st] obtain answers where e1: "bs_env s1 = bs_env s"
    and c1: "bs_calls s1 = bs_calls s @ map2 (step_call c ctx) steps answers" "length answers \<le> length steps"
    and q: "case q of Inr _ \<Rightarrow> length answers = length steps \<and> list_all (\<lambda>a. fst a = 0) answers | Inl e \<Rightarrow> \<exists>m. e = BuildError m" by blast
  show ?thesis
  proof (cases q)
    case (Inl e)
    with st assms have "r = Inl e" "s' = s1" by (auto simp: pipeline_fresh_def em_simps)
    with c1 show ?thesis by (intro exI [of _ answers] exI [of _ "[]"]) auto
  next
    case (Inr u)
    with q have full: "length answers = length steps" "list_all (\<lambda>a. fst a = 0) answers" by auto
    obtain p s2 where im: "build_image_from_dockerfile (cx_component_dir ctx) JNull JNull (local_tag ctx) s1 = (p, s2)"
      by (cases "build_image_from_dockerfile (cx_component_dir ctx) JNull JNull (local_tag ctx) s1")
    note im' = build_image_run [OF im]
    show ?thesis
    proof (cases p)
      case (Inl e)
      with im Inr st assms have r: "r = Inl e" "s' = s2" by (auto simp: pipeline_fresh_def em_simps)
      from im' Inl obtain rest where "bs_calls s2 = bs_calls s1 @ rest" "list_all (\<lambda>x. stores x = False) rest"
        by (auto intro: that [of "[]"] that)
      with r c1 full show ?thesis by (intro exI [of _ answers] exI [of _ rest]) auto
    next
      case p: (Inr t)
      from im' p obtain chunks where c2: "bs_calls s2 = bs_calls s1 @ [DockerBuild (cx_component_dir ctx) JNull (local_tag ctx) (Inr chunks)]" by auto
      have "\<exists>cached. bs_calls s' = bs_calls s2 @ cached \<and>
          (case r of Inr a \<Rightarrow> ar_ref a = JString (local_tag ctx) \<and> cache_calls key cached | Inl e \<Rightarrow> list_all (\<lambda>x. stores x = False) cached)"
        using assms st Inr im p
        by (auto simp: pipeline_fresh_def em_simps cache_calls_def split: option.splits if_splits sum.splits)
      then obtain cached where "bs_calls s' = bs_calls s2 @ cached"
        "case r of Inr a \<Rightarrow> ar_ref a = JString (local_tag ctx) \<and> cache_calls key cached | Inl e \<Rightarrow> list_all (\<lambda>x. stores x = False) cached" by blast
      with c1 c2 full show ?thesis
        by (intro exI [of _ answers] exI [of _ "DockerBuild (cx_component_dir ctx) JNull (local_tag ctx) (Inr chunks) # cached"])
          (auto split: sum.splits)
    qed
  qed
qed

text \<open>An environment in which everything works, whose object store is the history.\<close>

fun last_put :: "string \<Rightarrow> build_calls \<Rightarrow> string option" where
  "last_put k [] = None"
| "last_put k (StoragePut k' d (Inr u) # cs) = (case last_put k cs of Some d' \<Rightarrow> Some d' | None \<Rightarrow> if k' = k then Some d else None)"
| "last_put k (c # cs) = last_put k cs"

definition demo_build_env :: build_env where
  "demo_build_env = \<lparr>be_is_dir = (\<lambda>_. True), be_is_file = (\<lambda>_. True), be_read_yaml = (\<lambda>_. Inr JNull),
     be_docker_build = (\<lambda>_ _ _ _. Inr [JObject [(''stream'', JString ''done'')]]), be_run_step = (\<lambda>_ _ _ _. (0, ''ok'')), be_has_helm = True,
     be_tempfile = (\<lambda>_. ''/tmp/values.yaml''), be_helm = (\<lambda>_ _ _. (0, ''kind: Pod'', [])),
     be_storage_get = (\<lambda>tr k. case last_put k tr of Some d \<Rightarrow> Inr d | None \<Rightarrow> Inl (OtherException ''KeyError'')),
     be_storage_put = (\<lambda>_ _ _. Inr ()), be_tag = (\<lambda>_ _ _ _. Inr ()), be_push = (\<lambda>_ _ _ _. Inr ()), be_exchange = (\<lambda>_ _. Inr ''token''),
     be_format = (\<lambda>_ n v. Inr (n @ ''-'' @ v)), be_loads = (\<lambda>d. Inr (JObject [(''image_ref'', JString d)])),
     be_dumps = (\<lambda>j. case j of JObject [(_, JString s)] \<Rightarrow> s | _ \<Rightarrow> []), be_str = (\<lambda>_. [])\<rparr>"

definition build_state_of :: "build_env \<Rightarrow> build_state" where
  "build_state_of en = \<lparr>bs_env = en, bs_calls = [], bs_log = []\<rparr>"

definition piped :: component where
  "piped = (language_component ''jq'' ''1'')\<lparr>c_spec := (c_spec (language_component ''jq'' ''1''))\<lparr>cs_source :=
     \<lparr>src_type = PipelineSource, src_image = None, src_dockerfile = None, src_compose_file = None,
      src_pipeline = Some \<lparr>pl_steps = [\<lparr>step_name = ''fetch'', step_run = ''make fetch''\<rparr>, \<lparr>step_name = ''lint'', step_run = ''make lint''\<rparr>],
        pl_cache_key = Some ''{name}-{version}''\<rparr>, src_helm = None\<rparr>\<rparr>\<rparr>"

theorem pipeline_builds_from_finished_steps_witness:
  "\<exists>a s' answers rest. pipeline_fresh piped (context_for piped ''/c'' ''b1'' True) [\<lparr>step_name = ''fetch'', step_run = ''make fetch''\<rparr>] None
       (build_state_of demo_build_env) = (Inr a, s') \<and>
     bs_calls s' = map2 (step_call piped (context_for piped ''/c'' ''b1'' True)) [\<lparr>step_name = ''fetch'', step_run = ''make fetch''\<rparr>] answers @ rest"
proof -
  obtain r s' where run: "pipeline_fresh piped (context_for piped ''/c'' ''b1'' True) [\<lparr>step_name = ''fetch'', step_run = ''make fetch''\<rparr>] None
      (build_state_of demo_build_env) = (r, s')"
    by (cases "pipeline_fresh piped (context_for piped ''/c'' ''b1'' True) [\<lparr>step_name = ''fetch'', step_run = ''make fetch''\<rparr>] None (build_state_of demo_build_env)")
  then have "\<exists>a. r = Inr a"
    by (auto simp: pipeline_fresh_def run_steps_def run_step_def build_image_from_dockerfile_def em_simps build_state_of_def demo_build_env_def
        List.map_filter_def chunk_line_def log_lines_run)
  with run pipeline_builds_from_finished_steps [OF run] show ?thesis by (fastforce simp: build_state_of_def)
qed

subsection \<open>The cache\<close>

text \<open>
  What the code relies on: the object store returns what was last put under a key, and \<open>KeyError\<close> when nothing
  was; \<open>json.loads\<close> reads back the one entry that is written.
\<close>

definition storage_remembers :: "build_env \<Rightarrow> bool" where
  "storage_remembers en \<longleftrightarrow>
     (\<forall>tr k. be_storage_get en tr k = (case last_put k tr of Some d \<Rightarrow> Inr d | None \<Rightarrow> Inl (OtherException ''KeyError'')))"

definition entry_reads_back :: "build_env \<Rightarrow> string \<Rightarrow> bool" where
  "entry_reads_back en tag \<longleftrightarrow>
     be_loads en (be_dumps en (JObject [(''image_ref'', JString tag)])) = Inr (JObject [(''image_ref'', JString tag)])"

lemma last_put_append:
  "last_put k (xs @ ys) = (case last_put k ys of Some d \<Rightarrow> Some d | None \<Rightarrow> last_put k xs)"
  by (induction k xs rule: last_put.induct) (auto split: option.splits)

lemma last_put_quiet: "list_all (\<lambda>c. \<not> stores c) cs \<Longrightarrow> last_put k cs = None"
  by (induction k cs rule: last_put.induct) auto

lemma fresh_stores:
  assumes "pipeline_fresh c ctx steps (Some k) s = (Inr a, s')" "cx_object_storage ctx"
  shows "last_put (cache_object_key k) (bs_calls s') = Some (be_dumps (bs_env s) (JObject [(''image_ref'', JString (local_tag ctx))])) \<and>
    bs_env s' = bs_env s \<and> ar_ref a = JString (local_tag ctx)"
proof -
  obtain u s1 t s2 where st: "run_steps c ctx steps s = (Inr u, s1)"
    and im: "build_image_from_dockerfile (cx_component_dir ctx) JNull JNull (local_tag ctx) s1 = (Inr t, s2)"
    and rest: "build_try (\<lambda>en tr. be_storage_put en tr (cache_object_key k) (be_dumps (bs_env s2) (JObject [(''image_ref'', JString (local_tag ctx))])))
        (StoragePut (cache_object_key k) (be_dumps (bs_env s2) (JObject [(''image_ref'', JString (local_tag ctx))]))) s2 = (Inr (), s')"
    and a: "ar_ref a = JString (local_tag ctx)"
    using assms by (auto simp: pipeline_fresh_def seq_em_Inr_iff bind_em_Inr_iff)
  from run_steps_run [OF st] build_image_run [OF im] have "bs_env s2 = bs_env s" by simp
  with rest a show ?thesis by (auto simp: em_simps last_put_append)
qed

lemma cache_hit_run:
  assumes "storage_remembers (bs_env s)" "last_put (cache_object_key k) (bs_calls s) = Some d"
    "be_loads (bs_env s) d = Inr (JObject [(''image_ref'', r)])"
  shows "\<exists>s'. cached_artifact k s = (Inr (Some \<lparr>ar_kind = ImageArtifact, ar_ref = r, ar_metadata = [(''cache_hit'', JBool True)]\<rparr>), s') \<and>
    bs_calls s' = bs_calls s @ [StorageGet (cache_object_key k) (Inr d)] \<and> bs_env s' = bs_env s"
  using assms by (simp add: cached_artifact_def em_simps storage_remembers_def cached_image_ref_def)

lemma cache_miss_run:
  assumes "storage_remembers (bs_env s)" "cached_artifact k s = (Inr None, s1)"
  shows "bs_env s1 = bs_env s \<and> bs_calls s1 = bs_calls s @ [StorageGet (cache_object_key k) (Inl (OtherException ''KeyError''))]"
  using assms by (auto simp: cached_artifact_def em_simps storage_remembers_def split: option.splits sum.splits prod.splits if_splits)

text \<open>
  The cache of a pipeline works. Once a build with a cache key has put its image there, a later build under the
  same key, of whatever component, takes the image it names without running a step or asking the daemon.
\<close>

theorem pipeline_cache_is_used:
  assumes "pipeline_fresh c ctx steps (Some key) s = (Inr a, s')" "cx_object_storage ctx"
    and "storage_remembers (bs_env s)" "entry_reads_back (bs_env s) (local_tag ctx)"
    and "src_pipeline (cs_source (c_spec c')) = Some source" "pl_cache_key source = Some template" "template \<noteq> []" "cx_object_storage ctx'"
    and "be_format (bs_env s) template (md_name (c_metadata c')) (md_version (c_metadata c')) = Inr key"
  shows "\<exists>b s'' d. pipeline_build c' ctx' s' = (Inr b, s'') \<and> ar_ref b = ar_ref a \<and>
    bs_calls s'' = bs_calls s' @ [StorageGet (cache_object_key key) (Inr d)]"
proof -
  note st = fresh_stores [OF assms(1,2)]
  from assms(4) st have "be_loads (bs_env s') (be_dumps (bs_env s) (JObject [(''image_ref'', JString (local_tag ctx))])) =
      Inr (JObject [(''image_ref'', JString (local_tag ctx))])" by (simp add: entry_reads_back_def)
  with st assms(3) cache_hit_run [of s' key "be_dumps (bs_env s) (JObject [(''image_ref'', JString (local_tag ctx))])" "JString (local_tag ctx)"]
  obtain s2 where hit: "cached_artifact key s' =
      (Inr (Some \<lparr>ar_kind = ImageArtifact, ar_ref = JString (local_tag ctx), ar_metadata = [(''cache_hit'', JBool True)]\<rparr>), s2)"
    "bs_calls s2 = bs_calls s' @ [StorageGet (cache_object_key key) (Inr (be_dumps (bs_env s) (JObject [(''image_ref'', JString (local_tag ctx))])))]"
    by auto
  from assms st hit show ?thesis by (simp add: pipeline_build_def em_simps)
qed

theorem pipeline_cache_is_used_witness:
  "\<exists>a s' b s''. pipeline_fresh piped (context_for piped ''/c'' ''b1'' True) [] (Some ''jq-1'') (build_state_of demo_build_env) = (Inr a, s') \<and>
     pipeline_build piped (context_for piped ''/d'' ''b2'' True) s' = (Inr b, s'') \<and> ar_ref b = ar_ref a"
proof -
  obtain r s' where run: "pipeline_fresh piped (context_for piped ''/c'' ''b1'' True) [] (Some ''jq-1'') (build_state_of demo_build_env) = (r, s')"
    by (cases "pipeline_fresh piped (context_for piped ''/c'' ''b1'' True) [] (Some ''jq-1'') (build_state_of demo_build_env)")
  then obtain a where r: "r = Inr a"
    by (auto simp: pipeline_fresh_def run_steps_def build_image_from_dockerfile_def em_simps build_state_of_def demo_build_env_def
        List.map_filter_def chunk_line_def log_lines_run context_for_def)
  have law: "storage_remembers demo_build_env" "entry_reads_back demo_build_env (local_tag (context_for piped ''/c'' ''b1'' True))"
    by (simp_all add: storage_remembers_def entry_reads_back_def demo_build_env_def)
  have src: "\<exists>source. src_pipeline (cs_source (c_spec piped)) = Some source \<and> pl_cache_key source = Some ''{name}-{version}''"
    by (simp add: piped_def)
  have fmt: "be_format demo_build_env ''{name}-{version}'' (md_name (c_metadata piped)) (md_version (c_metadata piped)) = Inr ''jq-1''"
    by (simp add: demo_build_env_def piped_def language_component_def)
  from src obtain source where "src_pipeline (cs_source (c_spec piped)) = Some source" "pl_cache_key source = Some ''{name}-{version}''" by blast
  from pipeline_cache_is_used [OF run [unfolded r] _ _ _ this, of "context_for piped ''/d'' ''b2'' True"] law fmt run r
  show ?thesis by (fastforce simp: context_for_def build_state_of_def)
qed

subsection \<open>What a build pushes\<close>

lemma image_of_a_build:
  assumes "dockerfile_build c (context_for c directory i storage) s = (Inr a, s')"
  shows "ar_ref a = JString (''kubesandbox/'' @ md_name (c_metadata c) @ '':'' @ md_version (c_metadata c))"
  using assms by (auto simp: dockerfile_build_def Let_def bind_em_Inr_iff local_tag_def context_for_def)

lemma pushed_ref:
  assumes "local_store_push endpoint tag s = (Inr r, s')"
  shows "r = endpoint @ ''/'' @ tag"
proof -
  obtain repository sep t where p: "py_rpartition CHR '':'' tag = (repository, sep, t)" by (cases "py_rpartition CHR '':'' tag")
  with assms have sep: "sep" and r: "r = endpoint @ ''/'' @ repository @ '':'' @ t"
    by (auto simp: local_store_push_def split_repo_tag_def em_simps split: if_splits sum.splits prod.splits)
  from rpartition_ref [of "CHR '':''" tag repository t] p sep have "tag = repository @ '':'' @ t" by simp
  with r show ?thesis by simp
qed

text \<open>
  The image of a private component has the name of the public one: whatever their keys and directories, two
  components of one name and version are pushed under the same reference, the later over the earlier.
\<close>

lemma private_build_overwrites_the_public_image:
  assumes "md_name (c_metadata mine) = md_name (c_metadata public)" "md_version (c_metadata mine) = md_version (c_metadata public)"
    and "dockerfile_build public (context_for public d1 i1 st1) s = (Inr a, s1)" "dockerfile_build mine (context_for mine d2 i2 st2) v = (Inr b, v1)"
    and "ar_ref a = JString ta" "local_store_push endpoint ta s1 = (Inr r, s2)" "ar_ref b = JString tb" "local_store_push endpoint tb v1 = (Inr q, v2)"
  shows "q = r"
  using image_of_a_build [OF assms(3)] image_of_a_build [OF assms(4)] pushed_ref [OF assms(6)] pushed_ref [OF assms(8)] assms(1,2,5,7) by simp

text \<open>A daemon that reports a failed build in its output has built, as far as the code can tell.\<close>

lemma error_chunks_are_ignored:
  assumes "be_is_dir (bs_env s) d" "be_docker_build (bs_env s) (bs_calls s) d JNull tag = Inr [JObject [(''error'', JString m)]]"
  shows "\<exists>s'. build_image_from_dockerfile d JNull JNull tag s = (Inr tag, s') \<and> bs_log s' = bs_log s"
  using assms by (auto simp: build_image_from_dockerfile_def em_simps List.map_filter_def chunk_line_def)

text \<open>A build context is not confined to the component's directory.\<close>

lemma context_may_be_anywhere:
  assumes "be_is_dir (bs_env s) ''/etc''" "be_docker_build (bs_env s) (bs_calls s) ''/etc'' JNull tag = Inr []"
  shows "\<exists>s'. build_image_from_dockerfile d (JString ''/etc'') JNull tag s = (Inr tag, s') \<and> bs_calls s' = bs_calls s @ [DockerBuild ''/etc'' JNull tag (Inr [])]"
  using assms by (auto simp: build_image_from_dockerfile_def em_simps path_join_def is_abs_def startswith_def List.map_filter_def)

end
