(* ===== verification/Cloud_Providers.thy ===== *)
theory Cloud_Providers
  imports Settings Backend
begin

section \<open>Secrets and object storage\<close>

text \<open>
  \<open>app/cloud/secrets.py\<close> and \<open>app/cloud/storage.py\<close>. The process environment, the text of \<open>.env\<close>, the key vault,
  the S3 client and the blob client are parameters. Both storage providers refine a map from keys to objects, which
  is what the workspace service and the build strategies rely on.
\<close>

subsection \<open>Secrets\<close>

definition secret_prefix :: string where
  "secret_prefix = ''KUBESANDBOX_SECRET_''"

definition upper_char :: "char \<Rightarrow> char" where
  "upper_char c =
     (case map_of (zip ''abcdefghijklmnopqrstuvwxyz'' ''ABCDEFGHIJKLMNOPQRSTUVWXYZ'') c of Some d \<Rightarrow> d | None \<Rightarrow> c)"

definition env_key :: "string \<Rightarrow> string" where
  "env_key name = secret_prefix @ map (\<lambda>c. upper_char (if c = CHR ''-'' \<or> c = CHR ''.'' then CHR ''_'' else c)) name"

text \<open>One matched layer of quotes is taken off.\<close>

definition unquoted :: "string \<Rightarrow> string" where
  "unquoted v =
     (if 2 \<le> length v \<and> hd v = last v \<and> (hd v = CHR 0x27 \<or> hd v = CHR 0x22) then butlast (tl v) else v)"

definition dotenv_line :: "string \<Rightarrow> string \<Rightarrow> string option" where
  "dotenv_line key raw =
     (let line = py_strip raw in
      if line = [] \<or> startswith line ''#'' \<or> CHR ''='' \<notin> set line then None
      else case py_partition CHR ''='' line of (found, sep, v) \<Rightarrow>
        if py_strip found = key then Some (unquoted (py_strip v)) else None)"

text \<open>The first line that matches decides; \<open>None\<close> is a file that does not exist.\<close>

fun first_match :: "string \<Rightarrow> string list \<Rightarrow> string option" where
  "first_match key [] = None"
| "first_match key (raw # raws) = (case dotenv_line key raw of Some v \<Rightarrow> Some v | None \<Rightarrow> first_match key raws)"

definition from_dotenv :: "string option \<Rightarrow> string \<Rightarrow> string option" where
  "from_dotenv file key = (case file of None \<Rightarrow> None | Some t \<Rightarrow> first_match key (splitlines t))"

definition dotenv_get :: "(string \<Rightarrow> string option) \<Rightarrow> string option \<Rightarrow> string \<Rightarrow> exn + string" where
  "dotenv_get environ file name =
     (case (case environ (env_key name) of Some v \<Rightarrow> Some v | None \<Rightarrow> from_dotenv file (env_key name)) of
        Some v \<Rightarrow> Inr v
      | None \<Rightarrow> Inl (SecretNotFoundError name))"

text \<open>The vault answers with a value, perhaps none, or refuses; \<open>ResourceNotFoundError\<close> is an absent secret.\<close>

definition keyvault_get :: "(string \<Rightarrow> string \<Rightarrow> exn + string option) \<Rightarrow> string \<Rightarrow> string \<Rightarrow> exn + string" where
  "keyvault_get vault url name =
     (case vault url name of
        Inl e \<Rightarrow> if e = OtherException ''ResourceNotFoundError'' then Inl (SecretNotFoundError name) else Inl e
      | Inr None \<Rightarrow> Inl (SecretNotFoundError name)
      | Inr (Some v) \<Rightarrow> Inr v)"

subsection \<open>MinIO\<close>

record 's s3_ops =
  s3_head_bucket :: "'s \<Rightarrow> string \<Rightarrow> exn + unit"
  s3_create_bucket :: "'s \<Rightarrow> string \<Rightarrow> (exn + unit) \<times> 's"
  s3_put_object :: "'s \<Rightarrow> string \<Rightarrow> string \<Rightarrow> string \<Rightarrow> (exn + unit) \<times> 's"
  s3_get_object :: "'s \<Rightarrow> string \<Rightarrow> string \<Rightarrow> exn + string"
  s3_delete_object :: "'s \<Rightarrow> string \<Rightarrow> string \<Rightarrow> (exn + unit) \<times> 's"

text \<open>\<open>ClientError\<close> of botocore, and its subclass for a missing key.\<close>

definition client_error :: exn where "client_error = OtherException ''ClientError''"
definition no_such_key :: exn where "no_such_key = OtherException ''NoSuchKey''"
definition key_error :: "string \<Rightarrow> exn" where "key_error key = OtherException ''KeyError''"

definition is_client_error :: "exn \<Rightarrow> bool" where
  "is_client_error e \<longleftrightarrow> e = client_error \<or> e = no_such_key"

definition ensure_bucket :: "'s s3_ops \<Rightarrow> string \<Rightarrow> ('s, unit) em" where
  "ensure_bucket ops bucket =
     catch_em (\<lambda>s. (s3_head_bucket ops s bucket, s)) is_client_error (\<lambda>_ s. s3_create_bucket ops s bucket)"

definition minio_put :: "'s s3_ops \<Rightarrow> string \<Rightarrow> string \<Rightarrow> string \<Rightarrow> ('s, unit) em" where
  "minio_put ops bucket key data = seq_em (ensure_bucket ops bucket) (\<lambda>s. s3_put_object ops s bucket key data)"

definition minio_get :: "'s s3_ops \<Rightarrow> string \<Rightarrow> string \<Rightarrow> ('s, string) em" where
  "minio_get ops bucket key =
     seq_em (ensure_bucket ops bucket)
       (catch_em (\<lambda>s. (s3_get_object ops s bucket key, s)) (\<lambda>e. e = no_such_key) (\<lambda>_. raise_em (key_error key)))"

definition minio_delete :: "'s s3_ops \<Rightarrow> string \<Rightarrow> string \<Rightarrow> ('s, unit) em" where
  "minio_delete ops bucket key = seq_em (ensure_bucket ops bucket) (\<lambda>s. s3_delete_object ops s bucket key)"

subsection \<open>Azure blobs\<close>

record 's blob_ops =
  bl_upload :: "'s \<Rightarrow> string \<Rightarrow> string \<Rightarrow> string \<Rightarrow> (exn + unit) \<times> 's"
  bl_exists :: "'s \<Rightarrow> string \<Rightarrow> string \<Rightarrow> exn + bool"
  bl_download :: "'s \<Rightarrow> string \<Rightarrow> string \<Rightarrow> exn + string"
  bl_delete :: "'s \<Rightarrow> string \<Rightarrow> string \<Rightarrow> (exn + unit) \<times> 's"

definition azure_put :: "'s blob_ops \<Rightarrow> string \<Rightarrow> string \<Rightarrow> string \<Rightarrow> ('s, unit) em" where
  "azure_put ops container key data = (\<lambda>s. bl_upload ops s container key data)"

definition azure_get :: "'s blob_ops \<Rightarrow> string \<Rightarrow> string \<Rightarrow> ('s, string) em" where
  "azure_get ops container key =
     bind_em (\<lambda>s. (bl_exists ops s container key, s)) (\<lambda>there.
     if \<not> there then raise_em (key_error key) else (\<lambda>s. (bl_download ops s container key, s)))"

definition azure_delete :: "'s blob_ops \<Rightarrow> string \<Rightarrow> string \<Rightarrow> ('s, unit) em" where
  "azure_delete ops container key =
     bind_em (\<lambda>s. (bl_exists ops s container key, s)) (\<lambda>there.
     if there then (\<lambda>s. bl_delete ops s container key) else return_em ())"

subsection \<open>Refinement\<close>

text \<open>
  The documented behaviour of the two services when they work: \<open>view\<close> is what a bucket or container holds,
  \<open>None\<close> when it does not exist.
\<close>

type_synonym 's buckets = "'s \<Rightarrow> string \<Rightarrow> (string \<Rightarrow> string option) option"

definition s3_works :: "'s s3_ops \<Rightarrow> 's buckets \<Rightarrow> bool" where
  "s3_works ops view \<longleftrightarrow>
     (\<forall>s b. s3_head_bucket ops s b = (if view s b = None then Inl client_error else Inr ())) \<and>
     (\<forall>s b. view s b = None \<longrightarrow> (\<exists>s'. s3_create_bucket ops s b = (Inr (), s') \<and> view s' = (view s)(b \<mapsto> Map.empty))) \<and>
     (\<forall>s b m k d. view s b = Some m \<longrightarrow> (\<exists>s'. s3_put_object ops s b k d = (Inr (), s') \<and> view s' = (view s)(b \<mapsto> m(k \<mapsto> d)))) \<and>
     (\<forall>s b m k. view s b = Some m \<longrightarrow> s3_get_object ops s b k = (case m k of Some d \<Rightarrow> Inr d | None \<Rightarrow> Inl no_such_key)) \<and>
     (\<forall>s b m k. view s b = Some m \<longrightarrow> (\<exists>s'. s3_delete_object ops s b k = (Inr (), s') \<and> view s' = (view s)(b \<mapsto> m(k := None))))"

definition blobs_work :: "'s blob_ops \<Rightarrow> 's buckets \<Rightarrow> bool" where
  "blobs_work ops view \<longleftrightarrow>
     (\<forall>s b m k d. view s b = Some m \<longrightarrow> (\<exists>s'. bl_upload ops s b k d = (Inr (), s') \<and> view s' = (view s)(b \<mapsto> m(k \<mapsto> d)))) \<and>
     (\<forall>s b m k. view s b = Some m \<longrightarrow> bl_exists ops s b k = Inr (m k \<noteq> None)) \<and>
     (\<forall>s b m k d. view s b = Some m \<longrightarrow> m k = Some d \<longrightarrow> bl_download ops s b k = Inr d) \<and>
     (\<forall>s b m k d. view s b = Some m \<longrightarrow> m k = Some d \<longrightarrow> (\<exists>s'. bl_delete ops s b k = (Inr (), s') \<and> view s' = (view s)(b \<mapsto> m(k := None))))"

text \<open>What a store holds: a bucket that does not exist holds nothing.\<close>

definition objects :: "'s buckets \<Rightarrow> string \<Rightarrow> 's \<Rightarrow> string \<Rightarrow> string option" where
  "objects view bucket s = (case view s bucket of None \<Rightarrow> Map.empty | Some m \<Rightarrow> m)"

lemma ensure_bucket_run:
  assumes "s3_works ops view"
  shows "\<exists>s'. ensure_bucket ops b s = (Inr (), s') \<and> view s' b = Some (objects view b s)"
proof (cases "view s b")
  case None
  with assms obtain s' where "s3_create_bucket ops s b = (Inr (), s')" "view s' = (view s)(b \<mapsto> Map.empty)"
    unfolding s3_works_def by blast
  with None assms show ?thesis by (simp add: ensure_bucket_def em_simps s3_works_def is_client_error_def objects_def)
next
  case (Some m)
  with assms show ?thesis by (simp add: ensure_bucket_def em_simps s3_works_def objects_def)
qed

text \<open>
  The contract of \<open>ObjectStorageProvider\<close>: on a store that is ready, the operations are those of a map. The workspace
  service (archives) and the pipeline strategy (its cache) rely on no more.
\<close>

locale object_store =
  fixes ready :: "'s \<Rightarrow> bool"
    and contents :: "'s \<Rightarrow> string \<Rightarrow> string option"
    and put :: "string \<Rightarrow> string \<Rightarrow> ('s, unit) em"
    and get :: "string \<Rightarrow> ('s, string) em"
    and delete :: "string \<Rightarrow> ('s, unit) em"
  assumes put: "ready s \<Longrightarrow> \<exists>s'. put k d s = (Inr (), s') \<and> ready s' \<and> contents s' = (contents s)(k \<mapsto> d)"
    and get: "ready s \<Longrightarrow> \<exists>s'. get k s = (case contents s k of Some d \<Rightarrow> Inr d | None \<Rightarrow> Inl (key_error k), s') \<and>
      ready s' \<and> contents s' = contents s"
    and delete: "ready s \<Longrightarrow> \<exists>s'. delete k s = (Inr (), s') \<and> ready s' \<and> contents s' = (contents s)(k := None)"
begin

lemma read_back:
  assumes "ready s"
  shows "fst (seq_em (put k d) (get k) s) = Inr d"
proof -
  obtain s1 where p: "put k d s = (Inr (), s1)" "ready s1" "contents s1 = (contents s)(k \<mapsto> d)" using put [OF assms] by blast
  obtain s2 where "get k s1 = (case contents s1 k of Some d \<Rightarrow> Inr d | None \<Rightarrow> Inl (key_error k), s2)" using get [OF p(2)] by blast
  with p show ?thesis by (simp add: em_simps)
qed

lemma other_keys_untouched:
  assumes "ready s" "j \<noteq> k"
  shows "fst (seq_em (put k d) (get j) s) = fst (get j s)"
proof -
  obtain s1 where p: "put k d s = (Inr (), s1)" "ready s1" "contents s1 = (contents s)(k \<mapsto> d)" using put [OF assms(1)] by blast
  obtain s2 where "get j s1 = (case contents s1 j of Some d \<Rightarrow> Inr d | None \<Rightarrow> Inl (key_error j), s2)" using get [OF p(2)] by blast
  moreover obtain s3 where "get j s = (case contents s j of Some d \<Rightarrow> Inr d | None \<Rightarrow> Inl (key_error j), s3)" using get [OF assms(1)] by blast
  ultimately show ?thesis using p assms(2) by (simp add: em_simps)
qed

lemma gone_once_deleted:
  assumes "ready s"
  shows "fst (seq_em (delete k) (seq_em (delete k) (get k)) s) = Inl (key_error k)"
proof -
  obtain s1 where p: "delete k s = (Inr (), s1)" "ready s1" "contents s1 = (contents s)(k := None)" using delete [OF assms] by blast
  obtain s2 where q: "delete k s1 = (Inr (), s2)" "ready s2" "contents s2 = (contents s1)(k := None)" using delete [OF p(2)] by blast
  obtain s3 where "get k s2 = (case contents s2 k of Some d \<Rightarrow> Inr d | None \<Rightarrow> Inl (key_error k), s3)" using get [OF q(2)] by blast
  with p q show ?thesis by (simp add: em_simps)
qed

end

lemma minio_is_a_store:
  assumes "s3_works ops view"
  shows "object_store (\<lambda>s. True) (objects view b) (minio_put ops b) (minio_get ops b) (minio_delete ops b)"
proof
  fix s k d
  obtain s1 where e: "ensure_bucket ops b s = (Inr (), s1)" "view s1 b = Some (objects view b s)"
    using ensure_bucket_run [OF assms] by blast
  have ops: "\<exists>s'. s3_put_object ops s1 b k d = (Inr (), s') \<and> view s' = (view s1)(b \<mapsto> (objects view b s)(k \<mapsto> d))"
    "s3_get_object ops s1 b k = (case objects view b s k of Some d \<Rightarrow> Inr d | None \<Rightarrow> Inl no_such_key)"
    "\<exists>s'. s3_delete_object ops s1 b k = (Inr (), s') \<and> view s' = (view s1)(b \<mapsto> (objects view b s)(k := None))"
    using assms e(2) unfolding s3_works_def by blast+
  then show "\<exists>s'. minio_put ops b k d s = (Inr (), s') \<and> True \<and> objects view b s' = (objects view b s)(k \<mapsto> d)"
    "\<exists>s'. minio_get ops b k s = (case objects view b s k of Some d \<Rightarrow> Inr d | None \<Rightarrow> Inl (key_error k), s') \<and> True \<and>
       objects view b s' = objects view b s"
    "\<exists>s'. minio_delete ops b k s = (Inr (), s') \<and> True \<and> objects view b s' = (objects view b s)(k := None)"
    using e by (auto simp: minio_put_def minio_get_def minio_delete_def em_simps objects_def split: option.split)
qed

lemma azure_is_a_store:
  assumes "blobs_work ops view"
  shows "object_store (\<lambda>s. view s c \<noteq> None) (objects view c) (azure_put ops c) (azure_get ops c) (azure_delete ops c)"
proof
  fix s k d
  assume "view s c \<noteq> None"
  then obtain m where m: "view s c = Some m" by blast
  have ops: "\<exists>s'. bl_upload ops s c k d = (Inr (), s') \<and> view s' = (view s)(c \<mapsto> m(k \<mapsto> d))"
    "bl_exists ops s c k = Inr (m k \<noteq> None)" "\<And>v. m k = Some v \<Longrightarrow> bl_download ops s c k = Inr v"
    "\<And>v. m k = Some v \<Longrightarrow> \<exists>s'. bl_delete ops s c k = (Inr (), s') \<and> view s' = (view s)(c \<mapsto> m(k := None))"
    using assms m unfolding blobs_work_def by blast+
  then show "\<exists>s'. azure_put ops c k d s = (Inr (), s') \<and> view s' c \<noteq> None \<and> objects view c s' = (objects view c s)(k \<mapsto> d)"
    using m by (auto simp: azure_put_def objects_def)
  show "\<exists>s'. azure_get ops c k s = (case objects view c s k of Some d \<Rightarrow> Inr d | None \<Rightarrow> Inl (key_error k), s') \<and> view s' c \<noteq> None \<and>
       objects view c s' = objects view c s"
    using m ops by (auto simp: azure_get_def em_simps objects_def split: option.split)
  show "\<exists>s'. azure_delete ops c k s = (Inr (), s') \<and> view s' c \<noteq> None \<and> objects view c s' = (objects view c s)(k := None)"
    using m ops by (cases "m k") (auto simp: azure_delete_def em_simps objects_def fun_upd_idem)
qed

lemma azure_get_run:
  assumes "blobs_work ops view" "view s c = Some m"
  shows "azure_get ops c k s = (case objects view c s k of Some d \<Rightarrow> Inr d | None \<Rightarrow> Inl (key_error k), s)"
proof -
  have "bl_exists ops s c k = Inr (m k \<noteq> None)" "\<And>v. m k = Some v \<Longrightarrow> bl_download ops s c k = Inr v"
    using assms unfolding blobs_work_def by blast+
  with assms(2) show ?thesis by (auto simp: azure_get_def em_simps objects_def split: option.split)
qed

text \<open>A store in memory, that both kinds of client can stand on.\<close>

type_synonym memory_store = "string \<Rightarrow> (string \<Rightarrow> string option) option"

definition memory_s3 :: "memory_store s3_ops" where
  "memory_s3 = \<lparr>s3_head_bucket = (\<lambda>s b. if s b = None then Inl client_error else Inr ()),
     s3_create_bucket = (\<lambda>s b. (Inr (), s(b \<mapsto> Map.empty))),
     s3_put_object = (\<lambda>s b k d. case s b of Some m \<Rightarrow> (Inr (), s(b \<mapsto> m(k \<mapsto> d))) | None \<Rightarrow> (Inl client_error, s)),
     s3_get_object = (\<lambda>s b k. case s b of Some m \<Rightarrow> (case m k of Some d \<Rightarrow> Inr d | None \<Rightarrow> Inl no_such_key) | None \<Rightarrow> Inl client_error),
     s3_delete_object = (\<lambda>s b k. case s b of Some m \<Rightarrow> (Inr (), s(b \<mapsto> m(k := None))) | None \<Rightarrow> (Inl client_error, s))\<rparr>"

definition memory_blobs :: "memory_store blob_ops" where
  "memory_blobs = \<lparr>bl_upload = s3_put_object memory_s3,
     bl_exists = (\<lambda>s c k. case s c of Some m \<Rightarrow> Inr (m k \<noteq> None) | None \<Rightarrow> Inl client_error),
     bl_download = s3_get_object memory_s3, bl_delete = s3_delete_object memory_s3\<rparr>"

lemma memory_s3_works: "s3_works memory_s3 (\<lambda>s. s)"
  by (simp add: s3_works_def memory_s3_def)

lemma memory_blobs_work: "blobs_work memory_blobs (\<lambda>s. s)"
  by (simp add: blobs_work_def memory_blobs_def memory_s3_def)

interpretation minio: object_store "\<lambda>s. True" "objects (\<lambda>s. s) b" "minio_put memory_s3 b" "minio_get memory_s3 b" "minio_delete memory_s3 b"
  for b by (rule minio_is_a_store [OF memory_s3_works])

interpretation azure: object_store "\<lambda>s. s c \<noteq> None" "objects (\<lambda>s. s) c" "azure_put memory_blobs c" "azure_get memory_blobs c" "azure_delete memory_blobs c"
  for c by (rule azure_is_a_store [OF memory_blobs_work])

text \<open>
  C25. Object storage is a map from keys to objects. Over a working service, MinIO's provider puts, reads and deletes
  as on a map, whatever was there before, the bucket itself included: a put is read back, another key is left alone,
  a missing key is \<open>KeyError\<close> even in a bucket that was never made, deleting twice is deleting once. Azure's does the
  same once its container exists.
\<close>

theorem storage_refines_a_map:
  assumes "s3_works ops view" "blobs_work bops bview" "bview t c = Some m"
  shows "(\<exists>s'. minio_put ops b k d s = (Inr (), s') \<and> objects view b s' = (objects view b s)(k \<mapsto> d)) \<and>
    (\<exists>s'. minio_get ops b k s = (case objects view b s k of Some v \<Rightarrow> Inr v | None \<Rightarrow> Inl (OtherException ''KeyError''), s') \<and>
       objects view b s' = objects view b s) \<and>
    (\<exists>s'. minio_delete ops b k s = (Inr (), s') \<and> objects view b s' = (objects view b s)(k := None)) \<and>
    (\<exists>t'. azure_put bops c k d t = (Inr (), t') \<and> objects bview c t' = (objects bview c t)(k \<mapsto> d)) \<and>
    azure_get bops c k t = (case objects bview c t k of Some v \<Rightarrow> Inr v | None \<Rightarrow> Inl (OtherException ''KeyError''), t) \<and>
    (\<exists>t'. azure_delete bops c k t = (Inr (), t') \<and> objects bview c t' = (objects bview c t)(k := None))"
proof -
  note minio = minio_is_a_store [OF assms(1), of b] and azure = azure_is_a_store [OF assms(2), of c]
  have t: "bview t c \<noteq> None" using assms(3) by simp
  show ?thesis
    using object_store.put [OF minio TrueI, of k d s] object_store.get [OF minio TrueI, of k s]
      object_store.delete [OF minio TrueI, of k s] object_store.put [OF azure t, of k d]
      object_store.delete [OF azure t, of k] azure_get_run [OF assms(2,3), of k]
    unfolding key_error_def by blast
qed

theorem storage_refines_a_map_witness:
  "\<exists>s'. minio_put memory_s3 ''kubesandbox'' ''a'' ''1'' Map.empty = (Inr (), s') \<and>
     objects (\<lambda>s. s) ''kubesandbox'' s' = [''a'' \<mapsto> ''1'']"
  using storage_refines_a_map [OF memory_s3_works memory_blobs_work, of "[''c'' \<mapsto> Map.empty]" "''c''" Map.empty
      "''kubesandbox''" "''a''" "''1''" Map.empty]
  by (simp add: objects_def)

end
