(* ===== verification/Cli.thy ===== *)
theory Cli
  imports Access
begin

section \<open>The operator's command line\<close>

text \<open>
  \<open>app/cli.py\<close>. A command is a program over a session of its own; its result is the exit code and the lines it
  prints, each a constructor with the values in it. The parser of the arguments is \<open>argparse\<close>: a parsed command is a
  datatype.
\<close>

datatype cli_line =
    CreatedTenant string string
  | UsingTenant string string
  | CreatedAdmin string string string
  | AlreadyAdmin string string
  | NotPromoted string string string
  | Promoted string string string
  | NoAdmins
  | AdminLine string string string string

datatype cli_command =
    SeedAdmin (seed_email: string) (seed_tenant: string) (seed_promote: bool)
  | ListAdmins

definition default_tenant_name :: string where
  "default_tenant_name = ''bootstrap''"

text \<open>\<open>tenant_named\<close> looks the name up once more before it inserts; nothing happens in between.\<close>

definition seed_tenant_row :: "string \<Rightarrow> (tenant_row \<times> cli_line) prog" where
  "seed_tenant_row tenant_name =
     bind_em (query_db (\<lambda>d. filter (\<lambda>t. tn_name t = tenant_name) (d_tenants d))) (\<lambda>rows.
     bind_em (lift_em (scalar_one_or_none rows)) (\<lambda>found.
     bind_em (tenant_named tenant_name) (\<lambda>t.
     return_em (t, case found of None \<Rightarrow> CreatedTenant tenant_name (tn_id t) | Some _ \<Rightarrow> UsingTenant tenant_name (tn_id t)))))"

definition seed_admin_body :: "string \<Rightarrow> string \<Rightarrow> bool \<Rightarrow> (int \<times> cli_line list) prog" where
  "seed_admin_body email tenant_name promote_existing =
     bind_em (seed_tenant_row tenant_name) (\<lambda>(tenant, line).
     bind_em (user_of email) (\<lambda>found.
     case found of
       None \<Rightarrow>
         bind_em (add_user (tn_id tenant) email ''admin'') (\<lambda>u.
         seq_em commit (return_em (0, [line, CreatedAdmin email (us_id u) (tn_id tenant)])))
     | Some u \<Rightarrow>
         (if us_role u = ''admin'' then return_em (0, [line, AlreadyAdmin email (us_id u)])
          else if \<not> promote_existing then return_em (1, [line, NotPromoted email (us_role u) (us_tenant_id u)])
          else
            seq_em (update_db (\<lambda>d. d\<lparr>d_users := row_put us_id (u\<lparr>us_role := ''admin''\<rparr>) (d_users d)\<rparr>))
            (seq_em commit (return_em (0, [line, Promoted email (us_id u) (us_role u)]))))))"

definition seed_admin :: "string \<Rightarrow> string \<Rightarrow> bool \<Rightarrow> (int \<times> cli_line list) prog" where
  "seed_admin email tenant_name promote_existing = with_session (seed_admin_body email tenant_name promote_existing)"

text \<open>The inner join of users and tenants, in the order of the users' creation.\<close>

definition admin_rows :: "db \<Rightarrow> (user_row \<times> tenant_row) list" where
  "admin_rows d =
     sort_key (\<lambda>(u, t). us_created_at u)
       [(u, t). u \<leftarrow> d_users d, t \<leftarrow> d_tenants d, tn_id t = us_tenant_id u \<and> us_role u = ''admin'']"

definition list_admins :: "(int \<times> cli_line list) prog" where
  "list_admins =
     with_session (bind_em (query_db admin_rows) (\<lambda>rows.
       return_em
         (if rows = [] then (1, [NoAdmins])
          else (0, map (\<lambda>(u, t). AdminLine (us_email u) (us_id u) (tn_name t) (tn_id t)) rows))))"

definition cli_main :: "cli_command \<Rightarrow> (int \<times> cli_line list) prog" where
  "cli_main c = (case c of SeedAdmin email tenant promote \<Rightarrow> seed_admin email tenant promote | ListAdmins \<Rightarrow> list_admins)"

subsection \<open>Laws\<close>

lemma seed_tenant_row_run:
  assumes "identities_unique (w_db w)"
  shows "seed_tenant_row name w =
    (case row_get tn_name name (d_tenants (w_db w)) of
       Some t \<Rightarrow> (Inr (t, UsingTenant name (tn_id t)), w)
     | None \<Rightarrow> (Inr (new_tenant name w, CreatedTenant name (tn_id (new_tenant name w))),
         w\<lparr>w_uuids := Suc (w_uuids w), w_clock := Suc (w_clock w),
           w_db := (w_db w)\<lparr>d_tenants := d_tenants (w_db w) @ [new_tenant name w]\<rparr>\<rparr>))"
  using assms
  by (simp add: seed_tenant_row_def em_simps tenant_named_run scalar_of_key identities_unique_def split: option.split)

text \<open>What a run of the seeding leaves behind, by what was there before.\<close>

definition seeded :: "string \<Rightarrow> string \<Rightarrow> bool \<Rightarrow> db \<Rightarrow> int \<Rightarrow> db \<Rightarrow> bool" where
  "seeded email tenant_name promote d code d' \<longleftrightarrow>
     (case row_get us_email email (d_users d) of
        None \<Rightarrow> code = 0 \<and>
          (\<exists>u t. d_users d' = d_users d @ [u] \<and> us_email u = email \<and> us_role u = ''admin'' \<and>
             t \<in> set (d_tenants d') \<and> tn_name t = tenant_name \<and> us_tenant_id u = tn_id t)
      | Some u \<Rightarrow>
          (if us_role u = ''admin'' then code = 0 \<and> d' = d
           else if promote then code = 0 \<and> d_users d' = row_put us_id (u\<lparr>us_role := ''admin''\<rparr>) (d_users d)
           else code = 1 \<and> d' = d))"

lemma seed_admin_run:
  assumes "identities_unique (w_committed w)"
  shows "\<exists>code out w'. seed_admin email tenant_name promote w = (Inr (code, out), w') \<and>
    seeded email tenant_name promote (w_committed w) code (w_committed w') \<and> w_db w' = w_committed w' \<and>
    w_env w' = w_env w \<and> w_uuids w \<le> w_uuids w' \<and>
    (\<forall>u\<in>set (d_users (w_committed w')). us_id u \<in> us_id ` set (d_users (w_committed w)) \<or> us_id u \<in> e_uuid (w_env w) ` {w_uuids w ..< w_uuids w'}) \<and>
    (\<forall>u. row_get us_email email (d_users (w_committed w)) = None \<longrightarrow> d_users (w_committed w') = d_users (w_committed w) @ [u] \<longrightarrow>
       us_id u \<in> e_uuid (w_env w) ` {w_uuids w ..}) \<and>
    (d_tenants (w_committed w') = d_tenants (w_committed w) \<or>
     w_uuids w < w_uuids w' \<and> row_get tn_name tenant_name (d_tenants (w_committed w)) = None \<and>
       d_tenants (w_committed w') = d_tenants (w_committed w) @ [new_tenant tenant_name w])"
proof -
  let ?w = "w\<lparr>w_db := w_committed w\<rparr>"
  from assms have uq: "identities_unique (w_db ?w)" by simp
  obtain t line w1 where st: "seed_tenant_row tenant_name ?w = (Inr (t, line), w1)"
    and t: "t \<in> set (d_tenants (w_db w1))" "tn_name t = tenant_name" "d_users (w_db w1) = d_users (w_committed w)"
    "w_committed w1 = w_committed w" "w_env w1 = w_env w" "w_uuids w \<le> w_uuids w1"
    "d_tenants (w_db w1) = d_tenants (w_committed w) \<or> w_uuids w < w_uuids w1 \<and>
      row_get tn_name tenant_name (d_tenants (w_committed w)) = None \<and>
      d_tenants (w_db w1) = d_tenants (w_committed w) @ [new_tenant tenant_name w]"
    by (cases "row_get tn_name tenant_name (d_tenants (w_db ?w))")
      (auto simp: seed_tenant_row_run [OF uq] new_tenant_def dest: row_get_mem row_get_key)
  from assms t(3) have us: "user_of email w1 = (Inr (row_get us_email email (d_users (w_committed w))), w1)"
    by (simp add: user_of_def em_simps scalar_of_key identities_unique_def)
  show ?thesis
  proof (cases "row_get us_email email (d_users (w_committed w))")
    case None
    with t show ?thesis
      by (auto simp: seed_admin_def with_session_def seed_admin_body_def em_simps st us add_user_def Let_def seeded_def)
  next
    case (Some u)
    then have "us_id u \<in> us_id ` set (d_users (w_committed w))" by (auto dest: row_get_mem)
    with Some t show ?thesis
      by (auto simp: seed_admin_def with_session_def seed_admin_body_def em_simps st us seeded_def dest!: row_put_set [THEN subsetD])
  qed
qed

text \<open>\<open>uuid4\<close> never gives an id twice, nor one that is in use.\<close>

definition ids_fresh :: "world \<Rightarrow> db \<Rightarrow> bool" where
  "ids_fresh w d \<longleftrightarrow> inj (e_uuid (w_env w)) \<and> distinct (map tn_id (d_tenants d)) \<and>
     (\<forall>n\<ge>w_uuids w. e_uuid (w_env w) n \<notin> tn_id ` set (d_tenants d) \<union> us_id ` set (d_users d))"

lemma seeding_keeps_order:
  assumes "identities_unique (w_committed w)" "ids_fresh w (w_committed w)"
    and "seed_admin email tenant_name promote w = (r, w')"
  shows "identities_unique (w_committed w') \<and> ids_fresh w' (w_committed w')"
proof -
  let ?d = "w_committed w" and ?d' = "w_committed w'"
  from seed_admin_run [OF assms(1), of email tenant_name promote] assms(3) obtain code where
    s: "seeded email tenant_name promote ?d code ?d'" and env: "w_env w' = w_env w" "w_uuids w \<le> w_uuids w'"
    and us: "\<And>u. u \<in> set (d_users ?d') \<Longrightarrow> us_id u \<in> us_id ` set (d_users ?d) \<or> us_id u \<in> e_uuid (w_env w) ` {w_uuids w ..< w_uuids w'}"
    and new: "\<And>u. row_get us_email email (d_users ?d) = None \<Longrightarrow> d_users ?d' = d_users ?d @ [u] \<Longrightarrow> us_id u \<in> e_uuid (w_env w) ` {w_uuids w ..}"
    and tn: "d_tenants ?d' = d_tenants ?d \<or> w_uuids w < w_uuids w' \<and> row_get tn_name tenant_name (d_tenants ?d) = None \<and>
       d_tenants ?d' = d_tenants ?d @ [new_tenant tenant_name w]"
    by auto
  note fresh = assms(2) [unfolded ids_fresh_def]
  have unused: "\<And>n t. w_uuids w \<le> n \<Longrightarrow> t \<in> set (d_tenants ?d) \<Longrightarrow> e_uuid (w_env w) n \<noteq> tn_id t"
    using fresh by (metis UnI1 imageI)
  then have later: "\<And>n t. w_uuids w' \<le> n \<Longrightarrow> t \<in> set (d_tenants ?d) \<Longrightarrow> e_uuid (w_env w) n \<noteq> tn_id t"
    "\<And>t. t \<in> set (d_tenants ?d) \<Longrightarrow> e_uuid (w_env w) (w_uuids w) \<noteq> tn_id t"
    "\<And>n. w_uuids w < w_uuids w' \<Longrightarrow> w_uuids w' \<le> n \<Longrightarrow> e_uuid (w_env w) n \<noteq> e_uuid (w_env w) (w_uuids w)"
    using fresh env(2) by (simp_all add: inj_eq)
  have tenants: "distinct (map tn_name (d_tenants ?d'))" "distinct (map tn_id (d_tenants ?d'))"
    "\<forall>n\<ge>w_uuids w'. e_uuid (w_env w) n \<notin> tn_id ` set (d_tenants ?d')"
    using tn assms(1) fresh later by (auto simp: identities_unique_def new_tenant_def row_get_None)
  have users: "\<forall>n\<ge>w_uuids w'. e_uuid (w_env w) n \<notin> us_id ` set (d_users ?d')"
  proof (intro allI impI notI)
    fix n assume n: "w_uuids w' \<le> n" "e_uuid (w_env w) n \<in> us_id ` set (d_users ?d')"
    then have "e_uuid (w_env w) n \<in> us_id ` set (d_users ?d) \<or> e_uuid (w_env w) n \<in> e_uuid (w_env w) ` {w_uuids w ..< w_uuids w'}"
      using us by fastforce
    moreover have "e_uuid (w_env w) n \<notin> us_id ` set (d_users ?d)" using fresh n(1) env(2) by simp
    ultimately show False using n(1) fresh by (auto simp: inj_eq)
  qed
  have "distinct (map us_email (d_users ?d')) \<and> distinct (map us_id (d_users ?d'))"
  proof (cases "row_get us_email email (d_users ?d)")
    case None
    with s obtain u where u: "d_users ?d' = d_users ?d @ [u]" "us_email u = email" by (auto simp: seeded_def)
    have "us_id u \<notin> us_id ` set (d_users ?d)"
      using new [OF None u(1)] fresh by (metis UnI2 atLeast_iff imageE)
    then show ?thesis using u None assms(1) by (auto simp: identities_unique_def row_get_None)
  next
    case (Some v)
    then have "v \<in> set (d_users ?d)" by (rule row_get_mem)
    with s Some assms(1) show ?thesis
      by (auto simp: seeded_def identities_unique_def map_row_put_same split: if_splits)
  qed
  with tenants users fresh env show ?thesis by (simp add: identities_unique_def ids_fresh_def)
qed

lemma filter_row_put:
  "v \<in> set rows \<Longrightarrow> key r = key v \<Longrightarrow> \<not> P r \<Longrightarrow> \<not> P v \<Longrightarrow> distinct (map key rows) \<Longrightarrow> filter P (row_put key r rows) = filter P rows"
proof (induction rows)
  case (Cons x rows)
  then show ?case by (cases "x = v") (auto dest: imageI [of v "set rows" key])
qed simp

lemma row_get_iff: "distinct (map key rows) \<Longrightarrow> row_get key k rows = Some r \<longleftrightarrow> r \<in> set rows \<and> key r = k"
  by (auto dest: row_get_mem row_get_key row_get_distinct)

lemma seeded_account:
  assumes "seeded email tenant_name promote d code d'" "identities_unique d" "identities_unique d'"
  shows "(code = 0) = (\<exists>u. row_get us_email email (d_users d') = Some u \<and> us_role u = ''admin'')"
    "filter (\<lambda>u. us_email u \<noteq> email) (d_users d') = filter (\<lambda>u. us_email u \<noteq> email) (d_users d)"
    "\<not> promote \<Longrightarrow> set (d_users d) \<subseteq> set (d_users d')"
    "row_get us_email email (d_users d') \<noteq> None" "code \<noteq> 0 \<Longrightarrow> code = 1 \<and> \<not> promote"
proof -
  have uq: "distinct (map us_email (d_users d'))" "distinct (map us_id (d_users d))"
    using assms(2,3) by (simp_all add: identities_unique_def)
  have all: "((code = 0) = (\<exists>u. row_get us_email email (d_users d') = Some u \<and> us_role u = ''admin'')) \<and>
    filter (\<lambda>u. us_email u \<noteq> email) (d_users d') = filter (\<lambda>u. us_email u \<noteq> email) (d_users d) \<and>
    (\<not> promote \<longrightarrow> set (d_users d) \<subseteq> set (d_users d')) \<and> row_get us_email email (d_users d') \<noteq> None \<and>
    (code \<noteq> 0 \<longrightarrow> code = 1 \<and> \<not> promote)"
  proof (cases "row_get us_email email (d_users d)")
    case None
    with assms(1) uq(1) show ?thesis by (auto simp: seeded_def row_get_iff row_get_None)
  next
    case (Some v)
    then have v: "v \<in> set (d_users d)" "us_email v = email" by (auto dest: row_get_mem row_get_key)
    show ?thesis
    proof (cases "us_role v \<noteq> ''admin'' \<and> promote")
      case True
      let ?v = "v\<lparr>us_role := ''admin''\<rparr>"
      from True assms(1) Some have p: "code = 0" "d_users d' = row_put us_id ?v (d_users d)" by (simp_all add: seeded_def)
      have "row_get us_email email (d_users d') = Some ?v"
        using uq(1) v(2) by (simp add: row_get_iff p(2) row_put_mem)
      moreover have "filter (\<lambda>u. us_email u \<noteq> email) (d_users d') = filter (\<lambda>u. us_email u \<noteq> email) (d_users d)"
        unfolding p(2) by (rule filter_row_put [OF v(1)]) (use v(2) uq(2) in simp_all)
      ultimately show ?thesis using p(1) True by simp
    next
      case False
      with assms(1) Some show ?thesis by (auto simp: seeded_def split: if_splits)
    qed
  qed
  then show "(code = 0) = (\<exists>u. row_get us_email email (d_users d') = Some u \<and> us_role u = ''admin'')"
    "filter (\<lambda>u. us_email u \<noteq> email) (d_users d') = filter (\<lambda>u. us_email u \<noteq> email) (d_users d)"
    "\<not> promote \<Longrightarrow> set (d_users d) \<subseteq> set (d_users d')"
    "row_get us_email email (d_users d') \<noteq> None" "code \<noteq> 0 \<Longrightarrow> code = 1 \<and> \<not> promote"
    by blast+
qed

lemma seeded_again:
  assumes "seeded email tenant_name promote d code d'" "identities_unique d" "identities_unique d'"
    and "seeded email tenant_name promote d' again d''"
  shows "again = code \<and> d_users d'' = d_users d'"
proof -
  note a = seeded_account [OF assms(1-3)]
  from a(4) obtain u where u: "row_get us_email email (d_users d') = Some u" by blast
  show ?thesis
  proof (cases "code = 0")
    case True
    with a(1) u have "us_role u = ''admin''" by simp
    with assms(4) u True show ?thesis by (simp add: seeded_def)
  next
    case False
    with a(1) u have "us_role u \<noteq> ''admin''" by simp
    with assms(4) u a(5) [OF False] show ?thesis by (simp add: seeded_def)
  qed
qed

text \<open>
  Seeding an administrator is careful and can be repeated. Nothing but the named account changes; without
  \<open>--promote-existing\<close> no row that was there is touched; the command says zero exactly when the account is an
  administrator afterwards; and a second run of the same command says the same and changes nothing.
\<close>

theorem seeding_is_careful:
  assumes "seed_admin email tenant_name promote w = (Inr (code, out), w')"
    and "identities_unique (w_committed w)" "ids_fresh w (w_committed w)"
  shows "filter (\<lambda>u. us_email u \<noteq> email) (d_users (w_committed w')) = filter (\<lambda>u. us_email u \<noteq> email) (d_users (w_committed w)) \<and>
    (if promote then True else set (d_users (w_committed w)) \<subseteq> set (d_users (w_committed w'))) \<and>
    (code = 0) = (\<exists>u\<in>set (d_users (w_committed w')). us_email u = email \<and> us_role u = ''admin'') \<and>
    (case seed_admin email tenant_name promote w' of
       (Inr (again, _), w'') \<Rightarrow> again = code \<and> d_users (w_committed w'') = d_users (w_committed w')
     | (Inl e, w'') \<Rightarrow> False)"
proof -
  have s: "seeded email tenant_name promote (w_committed w) code (w_committed w')"
    using seed_admin_run [OF assms(2), of email tenant_name promote] assms(1) by auto
  have uq: "identities_unique (w_committed w')" using seeding_keeps_order [OF assms(2,3,1)] by simp
  obtain again out' w'' where run: "seed_admin email tenant_name promote w' = (Inr (again, out'), w'')"
    and s': "seeded email tenant_name promote (w_committed w') again (w_committed w'')"
    using seed_admin_run [OF uq, of email tenant_name promote] by auto
  have "(code = 0) = (\<exists>u\<in>set (d_users (w_committed w')). us_email u = email \<and> us_role u = ''admin'')"
    using seeded_account(1) [OF s assms(2) uq] uq by (auto simp: row_get_iff identities_unique_def)
  then show ?thesis using run seeded_account(2,3) [OF s assms(2) uq] seeded_again [OF s assms(2) uq s'] by simp
qed

lemma int_str_inj: "int_str m = int_str n \<Longrightarrow> m = n"
  by (metis py_int_int_str sum.inject(2))

lemma demo_ids_fresh: "ids_fresh (demo_world empty_db empty_registry) empty_db"
proof -
  have "inj (\<lambda>n. ''u'' @ nat_str n)"
  proof (rule injI)
    fix m n assume "''u'' @ nat_str m = ''u'' @ nat_str n"
    then have "int_str (int m) = int_str (int n)" by (simp add: int_str_def)
    then have "int m = int n" by (rule int_str_inj)
    then show "m = n" by simp
  qed
  then show ?thesis by (simp add: ids_fresh_def demo_world_def demo_env_def empty_db_def)
qed

theorem seeding_is_careful_witness:
  "\<exists>out w'. seed_admin ''root@example.com'' ''bootstrap'' False (demo_world empty_db empty_registry) = (Inr (0, out), w') \<and>
     (\<exists>u\<in>set (d_users (w_committed w')). us_email u = ''root@example.com'' \<and> us_role u = ''admin'') \<and>
     (\<exists>out' w''. seed_admin ''root@example.com'' ''bootstrap'' False w' = (Inr (0, out'), w''))"
proof -
  let ?w = "demo_world empty_db empty_registry"
  have uq: "identities_unique (w_committed ?w)" by (simp add: demo_world_def empty_db_def identities_unique_def)
  have fr: "ids_fresh ?w (w_committed ?w)" using demo_ids_fresh by (simp add: demo_world_def)
  obtain code out w' where run: "seed_admin ''root@example.com'' ''bootstrap'' False ?w = (Inr (code, out), w')"
    and s: "seeded ''root@example.com'' ''bootstrap'' False (w_committed ?w) code (w_committed w')"
    using seed_admin_run [OF uq, of "''root@example.com''" "''bootstrap''" False] by auto
  have "code = 0" using s by (simp add: seeded_def demo_world_def empty_db_def row_get_def)
  with seeding_is_careful [OF run uq fr] run show ?thesis by (auto split: prod.splits sum.splits)
qed

text \<open>
  An account that was seeded belongs to the tenant it was seeded in, and a login through the identity provider lands
  in the tenant of its directory: unless the operator names the tenant after the directory, with its prefix, the
  seeded administrator is turned away. There is no other way to obtain a session.
\<close>

theorem seeded_admin_cannot_log_in:
  assumes "seed_admin email tenant_name promote w = (Inr (code, out), w')" "row_get us_email email (d_users (w_committed w)) = None"
    and "identities_unique (w_committed w)" "ids_fresh w (w_committed w)"
    and "identity_from_claims lib s cs = Inr (directory, email)" "tenant_name \<noteq> ''oidc:'' @ directory"
  shows "\<exists>m. fst (with_session (resolve_principal_from_claims lib s cs) w') = Inl (AuthenticationFailed m)"
proof -
  let ?d' = "w_committed w'" and ?w = "w'\<lparr>w_db := w_committed w'\<rparr>"
  have uq: "identities_unique ?d'" and fr: "ids_fresh w' ?d'" using seeding_keeps_order [OF assms(3,4,1)] by simp_all
  have "seeded email tenant_name promote (w_committed w) code ?d'"
    using seed_admin_run [OF assms(3), of email tenant_name promote] assms(1) by auto
  with assms(2) obtain u t where u: "d_users ?d' = d_users (w_committed w) @ [u]" "us_email u = email"
    and t: "t \<in> set (d_tenants ?d')" "tn_name t = tenant_name" "us_tenant_id u = tn_id t"
    by (auto simp: seeded_def)
  have found: "row_get us_email email (d_users ?d') = Some u"
    using uq u by (simp add: row_get_iff identities_unique_def)
  obtain t' w1 where tn: "tenant_named (''oidc:'' @ directory) ?w = (Inr t', w1)"
    and t': "tn_name t' = ''oidc:'' @ directory" "t' \<in> set (d_tenants ?d') \<or> tn_id t' = e_uuid (w_env w') (w_uuids w')"
    and same: "d_users (w_db w1) = d_users ?d'"
    using uq by (cases "row_get tn_name (''oidc:'' @ directory) (d_tenants ?d')")
      (auto simp: tenant_named_run new_tenant_def dest: row_get_mem row_get_key)
  have "tn_id t' \<noteq> tn_id t"
  proof
    assume eq: "tn_id t' = tn_id t"
    moreover have "e_uuid (w_env w') (w_uuids w') \<noteq> tn_id t" using fr t(1) by (metis UnI1 ids_fresh_def imageI order_refl)
    ultimately have "t' \<in> set (d_tenants ?d')" using t'(2) by auto
    with eq t(1) fr have "t' = t" by (auto simp: ids_fresh_def distinct_map inj_on_def)
    with t'(1) t(2) assms(6) show False by simp
  qed
  moreover have "user_of email w1 = (Inr (Some u), w1)"
    using uq same found by (simp add: user_of_def em_simps scalar_of_key identities_unique_def)
  ultimately show ?thesis
    using tn t(3) assms(5) by (simp add: with_session_def resolve_principal_from_claims_def em_simps login_user_def tenant_name_prefix_def)
qed

text \<open>
  A new tenant is reported before it is known whether anything will be kept: when the account is there already, the
  session ends without a commit and the tenant that was announced does not exist.
\<close>

lemma announced_tenant_is_discarded:
  assumes "identities_unique (w_committed w)" "row_get tn_name tenant_name (d_tenants (w_committed w)) = None"
    and "row_get us_email email (d_users (w_committed w)) = Some u" "us_role u = ''admin''"
  shows "\<exists>i w'. seed_admin email tenant_name promote w = (Inr (0, [CreatedTenant tenant_name i, AlreadyAdmin email (us_id u)]), w') \<and>
    w_committed w' = w_committed w"
proof -
  have uq: "identities_unique (w_db (w\<lparr>w_db := w_committed w\<rparr>))" using assms(1) by simp
  have "distinct (map us_email (d_users (w_committed w)))" using assms(1) by (simp add: identities_unique_def)
  with assms show ?thesis
    by (simp add: seed_admin_def with_session_def seed_admin_body_def em_simps seed_tenant_row_run [OF uq] user_of_def scalar_of_key)
qed

end
