(* ===== verification/Hooks.thy ===== *)
theory Hooks
  imports Render
begin

section \<open>The hooks of the database components\<close>

text \<open>
  \<open>app/extensions/hooks.py\<close> and \<open>components/databases/{postgresql,mysql,redis}/hooks.py\<close>: what is run inside a
  sidecar once it is healthy, to create the role that the main container's DSN promises. The backend's \<open>exec_in\<close> is a
  parameter, a function of the commands issued before; it may answer with any exit code, or raise.
\<close>

subsection \<open>The backend as the hooks see it\<close>

record hook_call =
  hc_handle :: sandbox_handle
  hc_target :: string
  hc_command :: "string list"
  hc_timeout :: int

record hook_state =
  hk_calls :: "hook_call list"
  hk_exec :: "hook_call list \<Rightarrow> hook_call \<Rightarrow> exn + batch_run_result"

type_synonym 'a hook = "(hook_state, 'a) em"

definition hook_exec_in :: "sandbox_handle \<Rightarrow> string \<Rightarrow> string list \<Rightarrow> int \<Rightarrow> batch_run_result hook" where
  "hook_exec_in sb tgt command timeout = (\<lambda>s.
     let c = \<lparr>hc_handle = sb, hc_target = tgt, hc_command = command, hc_timeout = timeout\<rparr>
     in (hk_exec s (hk_calls s) c, s\<lparr>hk_calls := hk_calls s @ [c]\<rparr>))"

record render_context =
  rc_component :: component
  rc_credentials :: db_credentials

definition hook_timeout_seconds :: int where
  "hook_timeout_seconds = 30"

text \<open>\<open>_psql\<close>, \<open>_mysql\<close> and \<open>_redis_cli\<close> differ in the command and in the first word of the message.\<close>

definition hook_run :: "string \<Rightarrow> sandbox_handle \<Rightarrow> string list \<Rightarrow> unit hook" where
  "hook_run tgt sb command =
     bind_em (hook_exec_in sb tgt command hook_timeout_seconds) (\<lambda>result.
     if br_exit_code result \<noteq> 0
     then raise_em (ProvisionerError (tgt @ '' on_provision failed: '' @ (if br_stderr result \<noteq> [] then br_stderr result else br_stdout result)))
     else return_em ())"

definition database_of :: "render_context \<Rightarrow> database_access option" where
  "database_of ctx = ac_database (cs_access (c_spec (rc_component ctx)))"

definition limits_or_none :: "render_context \<Rightarrow> database_access_limits option" where
  "limits_or_none ctx = (case database_of ctx of None \<Rightarrow> None | Some a \<Rightarrow> db_limits a)"

definition grants_of :: "render_context \<Rightarrow> string list" where
  "grants_of ctx = (case database_of ctx of None \<Rightarrow> [] | Some a \<Rightarrow> db_grants a)"

text \<open>\<open>limits and limits.maxConnections\<close>, and the statement timeout: absent, zero and empty count as none.\<close>

definition max_connections :: "render_context \<Rightarrow> int option" where
  "max_connections ctx =
     (case limits_or_none ctx of
        None \<Rightarrow> None
      | Some l \<Rightarrow> (case dal_maxConnections l of None \<Rightarrow> None | Some n \<Rightarrow> if n = 0 then None else Some n))"

definition statement_timeout :: "render_context \<Rightarrow> string option" where
  "statement_timeout ctx =
     (case limits_or_none ctx of
        None \<Rightarrow> None
      | Some l \<Rightarrow> (case dal_statementTimeout l of None \<Rightarrow> None | Some t \<Rightarrow> if t = [] then None else Some t))"

fun comma_separated :: "string list \<Rightarrow> string" where
  "comma_separated [] = ''''"
| "comma_separated [x] = x"
| "comma_separated (x # xs) = x @ '', '' @ comma_separated xs"

abbreviation quote :: string where
  "quote \<equiv> [CHR 0x27]"

subsection \<open>PostgreSQL\<close>

definition psql :: "sandbox_handle \<Rightarrow> string \<Rightarrow> unit hook" where
  "psql sb sql =
     hook_run ''postgresql'' sb [''psql'', ''-U'', ''postgres'', ''-d'', ''postgres'', ''-v'', ''ON_ERROR_STOP=1'', ''-c'', sql]"

definition postgres_create_role :: "db_credentials \<Rightarrow> int \<Rightarrow> string" where
  "postgres_create_role cr conn_limit =
     ''CREATE ROLE '' @ dc_role cr @ '' WITH LOGIN PASSWORD '' @ quote @ dc_password cr @ quote @
     '' NOSUPERUSER NOCREATEROLE NOCREATEDB NOREPLICATION CONNECTION LIMIT '' @ int_str conn_limit @ '';''"

definition postgres_create_database :: "db_credentials \<Rightarrow> string" where
  "postgres_create_database cr = ''CREATE DATABASE '' @ dc_database cr @ '' OWNER '' @ dc_role cr @ '';''"

text \<open>The last invocation carries what is left to say; the statements are joined with a space.\<close>

definition postgres_rest :: "render_context \<Rightarrow> string option" where
  "postgres_rest ctx =
     (let cr = rc_credentials ctx;
          grant = (if grants_of ctx = [] then []
            else [''GRANT '' @ comma_separated (grants_of ctx) @ '' ON DATABASE '' @ dc_database cr @ '' TO '' @ dc_role cr @ '';'']);
          limit = (case statement_timeout ctx of
              None \<Rightarrow> []
            | Some t \<Rightarrow> [''ALTER DATABASE '' @ dc_database cr @ '' SET statement_timeout = '' @ quote @ t @ quote @ '';'']);
          statements = grant @ limit
      in if statements = [] then None else Some (concat (map2 (@) ([] # map (\<lambda>_. '' '') (tl statements)) statements)))"

definition postgres_on_provision :: "sandbox_handle \<Rightarrow> render_context \<Rightarrow> unit hook" where
  "postgres_on_provision sb ctx =
     (let cr = rc_credentials ctx in
      seq_em (psql sb (postgres_create_role cr (case max_connections ctx of None \<Rightarrow> - 1 | Some n \<Rightarrow> n)))
      (seq_em (psql sb (postgres_create_database cr))
      (case postgres_rest ctx of None \<Rightarrow> return_em () | Some sql \<Rightarrow> psql sb sql)))"

subsection \<open>MySQL\<close>

definition parse_seconds :: "string \<Rightarrow> exn + int" where
  "parse_seconds duration =
     (let d = py_strip duration in if endswith d ''s'' then py_int (butlast d) else py_int d)"

definition mysql :: "sandbox_handle \<Rightarrow> string \<Rightarrow> string \<Rightarrow> unit hook" where
  "mysql sb admin_password sql =
     hook_run ''mysql'' sb
       [''sh'', ''-c'', ''MYSQL_PWD=\"$1\" mysql -uroot -e \"$2\"'', ''--'', admin_password, sql]"

definition mysql_create_database :: "db_credentials \<Rightarrow> string" where
  "mysql_create_database cr = ''CREATE DATABASE IF NOT EXISTS `'' @ dc_database cr @ ''`;''"

definition mysql_account :: "db_credentials \<Rightarrow> string" where
  "mysql_account cr = quote @ dc_role cr @ quote @ ''@'' @ quote @ ''%'' @ quote"

definition mysql_create_user :: "db_credentials \<Rightarrow> int option \<Rightarrow> string" where
  "mysql_create_user cr conn =
     ''CREATE USER IF NOT EXISTS '' @ mysql_account cr @ '' IDENTIFIED BY '' @ quote @ dc_password cr @ quote @
     (case conn of None \<Rightarrow> '''' | Some n \<Rightarrow> '' WITH MAX_USER_CONNECTIONS '' @ int_str n) @ '';''"

definition mysql_grant :: "db_credentials \<Rightarrow> string list \<Rightarrow> string" where
  "mysql_grant cr grants =
     ''GRANT '' @ comma_separated grants @ '' ON `'' @ dc_database cr @ ''`.* TO '' @ mysql_account cr @ ''; FLUSH PRIVILEGES;''"

definition mysql_on_provision :: "sandbox_handle \<Rightarrow> render_context \<Rightarrow> unit hook" where
  "mysql_on_provision sb ctx =
     (let cr = rc_credentials ctx; ask = mysql sb (dc_admin_password cr) in
      seq_em (ask (mysql_create_database cr))
      (seq_em (ask (mysql_create_user cr (max_connections ctx)))
      (seq_em (if grants_of ctx = [] then return_em () else ask (mysql_grant cr (grants_of ctx)))
      (case statement_timeout ctx of
         None \<Rightarrow> return_em ()
       | Some t \<Rightarrow> bind_em (lift_em (parse_seconds t)) (\<lambda>n. ask (''SET GLOBAL max_execution_time = '' @ int_str (n * 1000) @ '';''))))))"

subsection \<open>Redis\<close>

definition default_acl_rules :: "string list" where
  "default_acl_rules = [''~*'', ''+@all'', ''-@dangerous'']"

definition redis_cli :: "sandbox_handle \<Rightarrow> string list \<Rightarrow> unit hook" where
  "redis_cli sb args = hook_run ''redis'' sb (''redis-cli'' # args)"

definition redis_on_provision :: "sandbox_handle \<Rightarrow> render_context \<Rightarrow> unit hook" where
  "redis_on_provision sb ctx =
     (let cr = rc_credentials ctx; rules = (if grants_of ctx = [] then default_acl_rules else grants_of ctx) in
      seq_em (redis_cli sb ([''ACL'', ''SETUSER'', dc_role cr, ''on'', CHR ''>'' # dc_password cr] @ rules))
        (redis_cli sb [''ACL'', ''SETUSER'', ''default'', ''off'']))"

subsection \<open>Loading\<close>

type_synonym provision_hook = "sandbox_handle \<Rightarrow> render_context \<Rightarrow> unit hook"

text \<open>
  \<open>importlib\<close> is a parameter: an imported module has a \<open>hook\<close> or not. The repository ships three; \<open>on_teardown\<close> of
  each does nothing.
\<close>

definition load_hook :: "(string \<Rightarrow> exn + provision_hook option) \<Rightarrow> string \<Rightarrow> exn + provision_hook" where
  "load_hook import_module module_path =
     (case import_module module_path of
        Inl e \<Rightarrow> Inl e
      | Inr None \<Rightarrow> Inl (ValueError module_path)
      | Inr (Some h) \<Rightarrow> Inr h)"

definition database_hooks :: "string \<Rightarrow> provision_hook option" where
  "database_hooks =
     [''postgresql'' \<mapsto> postgres_on_provision, ''mysql'' \<mapsto> mysql_on_provision, ''redis'' \<mapsto> redis_on_provision]"

definition hook_on_teardown_noop :: "sandbox_handle \<Rightarrow> unit hook" where
  "hook_on_teardown_noop sb = return_em ()"

subsection \<open>Scripts\<close>

text \<open>What a hook is meant to run, command by command, and what it ends in when every command succeeds.\<close>

definition sidecar_call :: "string \<Rightarrow> sandbox_handle \<Rightarrow> string list \<Rightarrow> hook_call" where
  "sidecar_call tgt sb command = \<lparr>hc_handle = sb, hc_target = tgt, hc_command = command, hc_timeout = 30\<rparr>"

fun run_script :: "string \<Rightarrow> sandbox_handle \<Rightarrow> string list list \<Rightarrow> exn + unit \<Rightarrow> unit hook" where
  "run_script tgt sb [] fin = lift_em fin"
| "run_script tgt sb (c # cs) fin = seq_em (hook_run tgt sb c) (run_script tgt sb cs fin)"

definition psql_command :: "string \<Rightarrow> string list" where
  "psql_command sql = [''psql'', ''-U'', ''postgres'', ''-d'', ''postgres'', ''-v'', ''ON_ERROR_STOP=1'', ''-c'', sql]"

definition mysql_command :: "string \<Rightarrow> string \<Rightarrow> string list" where
  "mysql_command password sql = [''sh'', ''-c'', ''MYSQL_PWD=\"$1\" mysql -uroot -e \"$2\"'', ''--'', password, sql]"

definition postgres_script :: "render_context \<Rightarrow> string list list" where
  "postgres_script ctx =
     (let cr = rc_credentials ctx in
      map psql_command
        ([postgres_create_role cr (case max_connections ctx of None \<Rightarrow> - 1 | Some n \<Rightarrow> n), postgres_create_database cr] @
         (case postgres_rest ctx of None \<Rightarrow> [] | Some sql \<Rightarrow> [sql])))"

definition mysql_script :: "render_context \<Rightarrow> string list list \<times> (exn + unit)" where
  "mysql_script ctx =
     (let cr = rc_credentials ctx;
          sure = [mysql_create_database cr, mysql_create_user cr (max_connections ctx)] @
            (if grants_of ctx = [] then [] else [mysql_grant cr (grants_of ctx)]);
          (rest, fin) = (case statement_timeout ctx of
              None \<Rightarrow> ([], Inr ())
            | Some t \<Rightarrow> (case parse_seconds t of
                  Inl e \<Rightarrow> ([], Inl e)
                | Inr n \<Rightarrow> ([''SET GLOBAL max_execution_time = '' @ int_str (n * 1000) @ '';''], Inr ())))
      in (map (mysql_command (dc_admin_password cr)) (sure @ rest), fin))"

definition redis_script :: "render_context \<Rightarrow> string list list" where
  "redis_script ctx =
     (let cr = rc_credentials ctx in
      [[''redis-cli'', ''ACL'', ''SETUSER'', dc_role cr, ''on'', CHR ''>'' # dc_password cr] @
         (if grants_of ctx = [] then default_acl_rules else grants_of ctx),
       [''redis-cli'', ''ACL'', ''SETUSER'', ''default'', ''off'']])"

definition hook_script :: "string \<Rightarrow> render_context \<Rightarrow> string list list \<times> (exn + unit)" where
  "hook_script name ctx =
     (if name = ''postgresql'' then (postgres_script ctx, Inr ())
      else if name = ''mysql'' then mysql_script ctx
      else (redis_script ctx, Inr ()))"

text \<open>Every one of the commands was answered, and with exit code zero.\<close>

fun succeeded :: "hook_state \<Rightarrow> hook_call list \<Rightarrow> hook_call list \<Rightarrow> bool" where
  "succeeded s before [] = True"
| "succeeded s before (c # cs) =
     (case hk_exec s before c of Inl e \<Rightarrow> False | Inr b \<Rightarrow> br_exit_code b = 0 \<and> succeeded s (before @ [c]) cs)"

lemma hook_run_step:
  "hook_run tgt sb c s =
     (case hk_exec s (hk_calls s) (sidecar_call tgt sb c) of
        Inl e \<Rightarrow> Inl e
      | Inr b \<Rightarrow> if br_exit_code b = 0 then Inr () else
          Inl (ProvisionerError (tgt @ '' on_provision failed: '' @ (if br_stderr b \<noteq> [] then br_stderr b else br_stdout b))),
      s\<lparr>hk_calls := hk_calls s @ [sidecar_call tgt sb c]\<rparr>)"
  by (simp add: hook_run_def hook_exec_in_def sidecar_call_def hook_timeout_seconds_def em_simps Let_def split: sum.split)

lemma succeeded_state: "hk_exec s = hk_exec t \<Longrightarrow> succeeded s before cs = succeeded t before cs"
  by (induction cs arbitrary: before) (simp_all split: sum.split)

lemma run_script_effect:
  assumes "run_script tgt sb cs fin s = (r, s')"
  shows "\<exists>n\<le>length cs. hk_calls s' = hk_calls s @ map (sidecar_call tgt sb) (take n cs) \<and>
    (if succeeded s (hk_calls s) (map (sidecar_call tgt sb) (take n cs)) then n = length cs \<and> r = fin
     else 0 < n \<and> succeeded s (hk_calls s) (map (sidecar_call tgt sb) (take (n - 1) cs)) \<and> r \<noteq> Inr ())"
  using assms
proof (induction cs arbitrary: s)
  case (Cons c cs)
  let ?c = "sidecar_call tgt sb c"
  let ?s = "s\<lparr>hk_calls := hk_calls s @ [?c]\<rparr>"
  show ?case
  proof (cases "\<exists>b. hk_exec s (hk_calls s) ?c = Inr b \<and> br_exit_code b = 0")
    case True
    with Cons.prems have "run_script tgt sb cs fin ?s = (r, s')"
      by (auto simp: em_simps hook_run_step)
    from Cons.IH [OF this] obtain n where n: "n \<le> length cs" "hk_calls s' = hk_calls ?s @ map (sidecar_call tgt sb) (take n cs)"
      "if succeeded ?s (hk_calls ?s) (map (sidecar_call tgt sb) (take n cs)) then n = length cs \<and> r = fin
       else 0 < n \<and> succeeded ?s (hk_calls ?s) (map (sidecar_call tgt sb) (take (n - 1) cs)) \<and> r \<noteq> Inr ()"
      by blast
    have sim: "succeeded ?s b xs = succeeded s b xs" for b xs by (rule succeeded_state) simp
    have calls: "hk_calls ?s = hk_calls s @ [?c]" by simp
    note n3 = n(3) [unfolded sim calls]
    from True obtain b where b: "hk_exec s (hk_calls s) ?c = Inr b" "br_exit_code b = 0" by blast
    show ?thesis
    proof (cases "succeeded s (hk_calls s @ [?c]) (map (sidecar_call tgt sb) (take n cs))")
      case all: True
      with n3 have "n = length cs" "r = fin" by (simp_all only: if_True simp_thms)
      with n(2) all b show ?thesis unfolding calls by (intro exI [of _ "Suc n"]) simp
    next
      case False
      with n3 have m: "0 < n" "succeeded s (hk_calls s @ [?c]) (map (sidecar_call tgt sb) (take (n - 1) cs))" "r \<noteq> Inr ()"
        by (simp_all only: if_False simp_thms)
      then obtain m where "n = Suc m" by (cases n) simp_all
      with n(1,2) m False b show ?thesis unfolding calls by (intro exI [of _ "Suc n"]) simp
    qed
  next
    case False
    then have "r \<noteq> Inr () \<and> s' = ?s"
      using Cons.prems by (auto simp: em_simps hook_run_step split: sum.splits if_splits)
    moreover have "\<not> succeeded s (hk_calls s) [?c]" using False by (auto split: sum.split)
    ultimately show ?thesis by (intro exI [of _ 1]) simp
  qed
qed (auto simp: em_simps)

lemma seq_em_return_unit: "seq_em m (return_em ()) = m"
  by (rule ext) (auto simp: em_simps split: prod.split sum.split)

lemma lift_em_Inr: "lift_em (Inr x) = return_em x" and lift_em_Inl: "lift_em (Inl e) = raise_em e"
  by (rule ext, simp add: em_simps)+

lemma bind_raise: "bind_em (raise_em e) f = raise_em e" and bind_return: "bind_em (return_em x) f = f x"
  by (rule ext, simp add: em_simps)+

lemma seq_return: "seq_em (return_em x) m = m"
  by (rule ext, simp add: em_simps)

lemmas script_simps = seq_return seq_em_return_unit lift_em_Inr lift_em_Inl bind_raise bind_return

lemma hooks_run_their_scripts:
  assumes "database_hooks name = Some hook"
  shows "hook sb ctx = run_script name sb (fst (hook_script name ctx)) (snd (hook_script name ctx))"
proof -
  consider "name = ''postgresql''" "hook = postgres_on_provision" | "name = ''mysql''" "hook = mysql_on_provision"
    | "name = ''redis''" "hook = redis_on_provision"
    using assms by (auto simp: database_hooks_def split: if_splits)
  then show ?thesis
  proof cases
    case 1
    then show ?thesis
      by (simp add: hook_script_def postgres_script_def postgres_on_provision_def psql_def psql_command_def Let_def script_simps
          split: option.split)
  next
    case 2
    then show ?thesis
      by (simp add: hook_script_def mysql_script_def mysql_on_provision_def mysql_def mysql_command_def Let_def script_simps
          split: option.split sum.split)
  next
    case 3
    then show ?thesis
      by (simp add: hook_script_def redis_script_def redis_on_provision_def redis_cli_def Let_def script_simps)
  qed
qed

subsection \<open>What the main container was promised\<close>

text \<open>
  The statement that makes the account holds the password as one quoted literal, as long as the role has no quote in
  it: a generated password is made of the URL-safe alphabet.
\<close>

definition url_safe :: "string \<Rightarrow> bool" where
  "url_safe s \<longleftrightarrow> list_all (\<lambda>c. c \<in> set ''ABCDEFGHIJKLMNOPQRSTUVWXYZabcdefghijklmnopqrstuvwxyz0123456789-_'') s"

lemma url_safe_no_quote: "url_safe s \<Longrightarrow> CHR 0x27 \<notin> set s"
  by (induction s) (auto simp: url_safe_def)

lemma split_on_first: "c \<notin> set s \<Longrightarrow> split_on c (s @ c # t) = s # split_on c t"
  by (induction s) auto

lemma split_on_whole: "c \<notin> set s \<Longrightarrow> split_on c s = [s]"
  by (induction s) auto

lemma int_str_no_quote: "CHR 0x27 \<notin> set (int_str n)"
proof -
  have "\<not> is_digit CHR 0x27" by code_simp
  then show ?thesis by (auto simp: int_str_def dest: nat_str_char)
qed

lemma generated_password_is_one_literal:
  assumes "generate_db_credentials c w = (Inr cr, w')" "url_safe (e_token (w_env w) (w_tokens w))" "CHR 0x27 \<notin> set (dc_role cr)"
  shows "\<exists>a b. split_on CHR 0x27 (postgres_create_role cr n) = [a, dc_password cr, b]"
proof -
  have "dc_password cr = e_token (w_env w) (w_tokens w)"
    using assms(1) by (auto simp: generate_db_credentials_def em_simps)
  then have pw: "CHR 0x27 \<notin> set (dc_password cr)" using assms(2) url_safe_no_quote by simp
  let ?a = "''CREATE ROLE '' @ dc_role cr @ '' WITH LOGIN PASSWORD ''"
  let ?b = "'' NOSUPERUSER NOCREATEROLE NOCREATEDB NOREPLICATION CONNECTION LIMIT '' @ int_str n @ '';''"
  have sql: "postgres_create_role cr n = ?a @ CHR 0x27 # (dc_password cr @ CHR 0x27 # ?b)"
    by (simp add: postgres_create_role_def)
  have a: "CHR 0x27 \<notin> set ?a" and b: "CHR 0x27 \<notin> set ?b" using assms(3) int_str_no_quote by simp_all
  have "split_on CHR 0x27 (postgres_create_role cr n) = [?a, dc_password cr, ?b]"
    unfolding sql split_on_first [OF a] split_on_first [OF pw] split_on_whole [OF b] by (rule refl)
  then show ?thesis by blast
qed


definition demo_render_context :: render_context where
  "demo_render_context = \<lparr>rc_component = language_component ''redis'' ''7'',
     rc_credentials = \<lparr>dc_role = ''sandbox_user'', dc_password = ''pw'', dc_database = ''sandbox'', dc_admin_password = ''root''\<rparr>\<rparr>"

text \<open>A sidecar whose second command fails: the default user stays, the hook does not report success.\<close>

definition flaky_sidecar :: hook_state where
  "flaky_sidecar = \<lparr>hk_calls = [], hk_exec = (\<lambda>before _. Inr (if before = [] then demo_result else demo_result\<lparr>br_exit_code := 1\<rparr>))\<rparr>"


text \<open>
  The timeout of a manifest is any string: PostgreSQL takes \<open>500ms\<close>, the MySQL hook raises \<open>ValueError\<close> after the
  account has been made.
\<close>

lemma mysql_takes_seconds_only:
  "parse_seconds ''30s'' = Inr 30" "parse_seconds ''500ms'' = Inl (ValueError ''500m'')" "parse_seconds ''1min'' = Inl (ValueError ''1min'')"
  by code_simp+

end
