(* ===== verification/Health.thy ===== *)
theory Health
  imports Manifests
begin

section \<open>Probes and labels\<close>

text \<open>
  \<open>app/api/v1/health.py\<close> and the label of \<open>app/core/metrics.py\<close>. A dependency's check takes some time and then
  answers or raises; \<open>asyncio.wait_for\<close> cuts it off, and \<open>asyncio.gather\<close> runs both at once, so that the probe takes
  as long as the slower one. Time is in seconds. How an exception is printed is a parameter.
\<close>

record dependency_check =
  dk_seconds :: rat
  dk_answer :: "exn + unit"

definition dependency_probe_timeout_seconds :: rat where
  "dependency_probe_timeout_seconds = 3"

definition timeout_error :: exn where
  "timeout_error = OtherException ''TimeoutError''"

definition wait_for_check :: "rat \<Rightarrow> dependency_check \<Rightarrow> rat \<times> (exn + unit)" where
  "wait_for_check limit c = (if limit < dk_seconds c then (limit, Inl timeout_error) else (dk_seconds c, dk_answer c))"

text \<open>The Redis client is made by the lifespan; without one the check fails at once.\<close>

definition check_redis :: "dependency_check option \<Rightarrow> dependency_check" where
  "check_redis ping =
     (case ping of
        None \<Rightarrow> \<lparr>dk_seconds = 0, dk_answer = Inl (OtherException ''RuntimeError'')\<rparr>
      | Some c \<Rightarrow> c)"

record ready_response =
  rd_status_code :: int
  rd_status :: string
  rd_app_env :: environment
  rd_checks :: "(string \<times> string) list"

definition healthz :: "(string \<times> string) list" where
  "healthz = [(''status'', ''ok'')]"

definition check_text :: "(exn \<Rightarrow> string) \<Rightarrow> exn + unit \<Rightarrow> string" where
  "check_text show r = (case r of Inl e \<Rightarrow> ''error: '' @ show e | Inr _ \<Rightarrow> ''ok'')"

definition readyz :: "(exn \<Rightarrow> string) \<Rightarrow> environment \<Rightarrow> dependency_check \<Rightarrow> dependency_check option \<Rightarrow> rat \<times> ready_response" where
  "readyz show env database redis =
     (let (t1, r1) = wait_for_check dependency_probe_timeout_seconds database;
          (t2, r2) = wait_for_check dependency_probe_timeout_seconds (check_redis redis);
          checks = [(''database'', check_text show r1), (''redis'', check_text show r2)];
          ready = list_all (\<lambda>(_, v). v = ''ok'') checks
      in (max t1 t2,
          \<lparr>rd_status_code = (if ready then 200 else 503), rd_status = (if ready then ''ok'' else ''not_ready''),
           rd_app_env = env, rd_checks = checks\<rparr>))"

definition in_time :: "dependency_check \<Rightarrow> bool" where
  "in_time c \<longleftrightarrow> dk_seconds c \<le> 3 \<and> dk_answer c = Inr ()"

lemma check_text_ok: "check_text show r = ''ok'' \<longleftrightarrow> r = Inr ()"
  by (auto simp: check_text_def split: sum.split)

lemma wait_for_in_time: "snd (wait_for_check 3 c) = Inr () \<longleftrightarrow> in_time c"
  by (simp add: wait_for_check_def in_time_def timeout_error_def)

lemma wait_for_bound: "fst (wait_for_check limit c) \<le> limit"
  by (simp add: wait_for_check_def)

text \<open>
  The readiness probe answers within the budget of one dependency, whatever both do; it says 200 exactly when both
  answered in time, and each of the two is reported on its own: the failure or the silence of one never hides or
  changes what is said of the other.
\<close>

theorem readiness_is_exact:
  "fst (readyz show env db redis) \<le> 3 \<and>
   (rd_status_code (snd (readyz show env db redis)) = 200) = (in_time db \<and> in_time (check_redis redis)) \<and>
   rd_status_code (snd (readyz show env db redis)) \<in> {200, 503} \<and>
   (map_of (rd_checks (snd (readyz show env db redis))) ''database'' = Some ''ok'') = in_time db \<and>
   (map_of (rd_checks (snd (readyz show env db redis))) ''redis'' = Some ''ok'') = in_time (check_redis redis)"
  using wait_for_bound [of 3 db] wait_for_bound [of 3 "check_redis redis"]
  by (simp add: readyz_def dependency_probe_timeout_seconds_def Let_def split_beta check_text_ok wait_for_in_time)

subsection \<open>The outcome of a run\<close>

definition run_outcome :: "int \<Rightarrow> bool \<Rightarrow> bool \<Rightarrow> string" where
  "run_outcome exit_code timed_out truncated =
     (if timed_out then ''timeout'' else if truncated then ''truncated'' else if exit_code = 0 then ''ok'' else ''error'')"

text \<open>A run is labelled \<open>ok\<close> when nothing cut it short and it ended with zero: the SDK's \<open>ok\<close> of a result.\<close>

lemma run_outcome_ok: "run_outcome code timed_out truncated = ''ok'' \<longleftrightarrow> code = 0 \<and> \<not> timed_out \<and> \<not> truncated"
  by (simp add: run_outcome_def)

end
