(* ===== verification/Exec_Output.thy ===== *)
theory Exec_Output
  imports Docker_Cleanup Kubernetes_Laws
begin

section \<open>The output of a run, in both backends\<close>

text \<open>
  The Docker backend reads chunks off a multiplexed stream, the Kubernetes backend frames off a socket. A reference
  definition says what a reader keeps of each of the two streams, and both backends are shown to implement it: up to
  the limit everything is kept, the payload that reaches the limit is kept whole, what follows is dropped and flagged.
\<close>

subsection \<open>The reference\<close>

definition keep_payload :: "int \<Rightarrow> string \<Rightarrow> string \<times> bool \<Rightarrow> string \<times> bool" where
  "keep_payload limit p acc = (if int (length (fst acc)) < limit then (fst acc @ p, snd acc) else (fst acc, True))"

definition cut_output :: "int \<Rightarrow> string list \<Rightarrow> string \<times> bool \<Rightarrow> string \<times> bool" where
  "cut_output limit ps acc = fold (keep_payload limit) ps acc"

text \<open>Standard output, standard error, and whether anything of either was dropped.\<close>

definition captured :: "int \<Rightarrow> string list \<Rightarrow> string list \<Rightarrow> string \<times> string \<times> bool" where
  "captured limit out err =
     (let (o1, t1) = cut_output limit out ([], False); (e1, t2) = cut_output limit err ([], False) in (o1, e1, t1 \<or> t2))"

lemma cut_output_simps [simp]:
  "cut_output limit [] acc = acc"
  "cut_output limit (p # ps) acc = cut_output limit ps (keep_payload limit p acc)"
  by (simp_all add: cut_output_def)

lemma cut_output_full:
  "limit \<le> int (length buf) \<Longrightarrow> cut_output limit ps (buf, t) = (buf, t \<or> ps \<noteq> [])"
  by (induction ps arbitrary: t) (simp_all add: keep_payload_def)

text \<open>What is kept is the concatenation of the first payloads; nothing is dropped before the limit is reached.\<close>

lemma cut_output_prefix:
  "\<exists>n\<le>length ps. cut_output limit ps (buf, t) = (buf @ concat (take n ps), t \<or> n < length ps) \<and>
     (n < length ps \<longrightarrow> limit \<le> int (length (buf @ concat (take n ps)))) \<and>
     (0 < n \<longrightarrow> int (length (buf @ concat (take (n - 1) ps))) < limit)"
proof (induction ps arbitrary: buf)
  case (Cons p ps)
  show ?case
  proof (cases "int (length buf) < limit")
    case False
    then show ?thesis by (intro exI [of _ 0]) (simp add: cut_output_full keep_payload_def)
  next
    case True
    from Cons.IH [of "buf @ p"] obtain n where n: "n \<le> length ps"
      "cut_output limit ps (buf @ p, t) = ((buf @ p) @ concat (take n ps), t \<or> n < length ps)"
      "n < length ps \<longrightarrow> limit \<le> int (length ((buf @ p) @ concat (take n ps)))"
      "0 < n \<longrightarrow> int (length ((buf @ p) @ concat (take (n - 1) ps))) < limit" by blast
    have "int (length (buf @ concat (take n (p # ps)))) < limit"
      using n(4) True by (cases n) simp_all
    with n True show ?thesis by (intro exI [of _ "Suc n"]) (simp add: keep_payload_def)
  qed
qed simp

definition longest :: "string list \<Rightarrow> nat" where
  "longest ps = fold (\<lambda>p n. max (length p) n) ps 0"

lemma longest_ge: "p \<in> set ps \<Longrightarrow> length p \<le> longest ps"
proof -
  have "\<forall>n. n \<le> fold (\<lambda>p n. max (length p) n) ps n \<and> (\<forall>p\<in>set ps. length p \<le> fold (\<lambda>p n. max (length p) n) ps n)" for ps :: "string list"
    by (induction ps) (auto intro: order_trans [OF max.cobounded1] order_trans [OF max.cobounded2])
  then show "p \<in> set ps \<Longrightarrow> length p \<le> longest ps" by (simp add: longest_def)
qed

lemma cut_output_bounds:
  assumes "cut_output limit ps ([], False) = (kept, dropped)" "0 \<le> limit"
  shows "int (length kept) \<le> limit + int (longest ps)" "\<not> dropped \<Longrightarrow> kept = concat ps" "dropped \<Longrightarrow> limit \<le> int (length kept)"
    "\<exists>n. kept = concat (take n ps)"
proof -
  from cut_output_prefix [of ps limit "[]" False] assms(1) obtain n where n: "n \<le> length ps" "kept = concat (take n ps)"
    "dropped = (n < length ps)" "n < length ps \<longrightarrow> limit \<le> int (length (concat (take n ps)))"
    "0 < n \<longrightarrow> int (length (concat (take (n - 1) ps))) < limit" by auto
  show "\<not> dropped \<Longrightarrow> kept = concat ps" "dropped \<Longrightarrow> limit \<le> int (length kept)" "\<exists>n. kept = concat (take n ps)"
    using n(1-4) by auto
  show "int (length kept) \<le> limit + int (longest ps)"
  proof (cases n)
    case 0
    then show ?thesis using n(2) assms(2) by simp
  next
    case (Suc m)
    then have "take n ps = take m ps @ [ps ! m]" "ps ! m \<in> set ps" using n(1) by (simp_all add: take_Suc_conv_app_nth)
    with n(2,5) Suc longest_ge [of "ps ! m" ps] show ?thesis by simp
  qed
qed

subsection \<open>Docker\<close>

definition chunks_read :: "nat \<Rightarrow> chunk list \<Rightarrow> chunk list" where
  "chunks_read patience cs = takeWhile (\<lambda>c. chunk_at c < patience) cs"

definition chunk_payloads :: "bool \<Rightarrow> chunk list \<Rightarrow> string list" where
  "chunk_payloads to_stderr cs = map chunk_data (filter (\<lambda>c. (chunk_channel c = 2) = to_stderr) cs)"

text \<open>The two streams share a flag; each is cut on its own.\<close>

definition docker_cut :: "int \<Rightarrow> chunk list \<Rightarrow> pump_state \<Rightarrow> bool \<Rightarrow> bool \<Rightarrow> pump_state \<Rightarrow> bool" where
  "docker_cut limit cs st t1 t2 st' \<longleftrightarrow>
     (let o1 = cut_output limit (chunk_payloads False cs) (pu_stdout st, t1); e1 = cut_output limit (chunk_payloads True cs) (pu_stderr st, t2)
      in pu_stdout st' = fst o1 \<and> pu_stderr st' = fst e1 \<and> pu_truncated st' = (snd o1 \<or> snd e1))"

lemma docker_cut_Nil: "pu_truncated st = (t1 \<or> t2) \<Longrightarrow> docker_cut limit [] st t1 t2 st"
  by (simp add: docker_cut_def chunk_payloads_def)

lemma docker_cut_Cons:
  assumes "docker_cut limit cs (take_chunk limit c st)
      (if chunk_channel c = 2 then t1 else snd (keep_payload limit (chunk_data c) (pu_stdout st, t1)))
      (if chunk_channel c = 2 then snd (keep_payload limit (chunk_data c) (pu_stderr st, t2)) else t2) st'"
  shows "docker_cut limit (c # cs) st t1 t2 st'"
proof (cases "chunk_channel c = 2")
  case True
  then have "pu_stderr (take_chunk limit c st) = fst (keep_payload limit (chunk_data c) (pu_stderr st, t2))"
    "pu_stdout (take_chunk limit c st) = pu_stdout st" by (simp_all add: take_chunk_def keep_payload_def)
  with assms True show ?thesis by (simp add: docker_cut_def chunk_payloads_def)
next
  case False
  then have "pu_stdout (take_chunk limit c st) = fst (keep_payload limit (chunk_data c) (pu_stdout st, t1))"
    "pu_stderr (take_chunk limit c st) = pu_stderr st" by (simp_all add: take_chunk_def keep_payload_def)
  with assms False show ?thesis by (simp add: docker_cut_def chunk_payloads_def)
qed

lemma take_chunk_flag:
  "pu_truncated st = (t1 \<or> t2) \<Longrightarrow> pu_truncated (take_chunk limit c st) =
     ((if chunk_channel c = 2 then t1 else snd (keep_payload limit (chunk_data c) (pu_stdout st, t1))) \<or>
      (if chunk_channel c = 2 then snd (keep_payload limit (chunk_data c) (pu_stderr st, t2)) else t2))"
  by (simp add: take_chunk_def keep_payload_def)

lemma pump_chunks_cut:
  "pu_truncated st = (t1 \<or> t2) \<Longrightarrow>
   docker_cut limit (chunks_read patience cs) st t1 t2 (fst (snd (pump_chunks limit patience cs fin st)))"
proof (induction cs arbitrary: st t1 t2)
  case Nil
  then show ?case by (simp add: chunks_read_def docker_cut_Nil split: stream_end.split)
next
  case (Cons c cs)
  show ?case
  proof (cases "chunk_at c < patience")
    case False
    with Cons.prems show ?thesis by (simp add: chunks_read_def docker_cut_Nil)
  next
    case True
    with docker_cut_Cons [OF Cons.IH [OF take_chunk_flag [OF Cons.prems]]] show ?thesis by (simp add: chunks_read_def)
  qed
qed

subsection \<open>Kubernetes\<close>

fun is_error_frame :: "ws_message \<Rightarrow> bool" where
  "is_error_frame (WsFrame t (channel # payload)) = (channel = error_channel)"
| "is_error_frame _ = False"

text \<open>The reader stops at the frame that carries the exit status.\<close>

definition frames_read :: "nat \<Rightarrow> ws_message list \<Rightarrow> ws_message list" where
  "frames_read patience ms = takeWhile (\<lambda>m. ws_at m < patience \<and> \<not> is_error_frame m) ms"

fun payload_on :: "char \<Rightarrow> ws_message \<Rightarrow> string list" where
  "payload_on ch (WsFrame t (channel # payload)) = (if channel = ch then [payload] else [])"
| "payload_on ch _ = []"

definition frame_payloads :: "char \<Rightarrow> ws_message list \<Rightarrow> string list" where
  "frame_payloads ch ms = concat (map (payload_on ch) ms)"

lemma channels_differ: "stdout_channel \<noteq> stderr_channel" "stdout_channel \<noteq> error_channel" "stderr_channel \<noteq> error_channel"
  by (simp_all add: stdout_channel_def stderr_channel_def error_channel_def)

definition k8s_cut :: "int \<Rightarrow> ws_message list \<Rightarrow> ws_buffers \<Rightarrow> bool \<Rightarrow> bool \<Rightarrow> ws_buffers \<Rightarrow> bool" where
  "k8s_cut limit ms b t1 t2 b' \<longleftrightarrow>
     (let o1 = cut_output limit (frame_payloads stdout_channel ms) (wb_stdout b, t1);
          e1 = cut_output limit (frame_payloads stderr_channel ms) (wb_stderr b, t2)
      in wb_stdout b' = fst o1 \<and> wb_stderr b' = fst e1 \<and> wb_truncated b' = (snd o1 \<or> snd e1))"

lemma k8s_cut_Nil: "wb_truncated b = (t1 \<or> t2) \<Longrightarrow> k8s_cut limit [] b t1 t2 b"
  by (simp add: k8s_cut_def frame_payloads_def)

lemma k8s_cut_skip: "payload_on stdout_channel m = [] \<Longrightarrow> payload_on stderr_channel m = [] \<Longrightarrow> k8s_cut limit (m # ms) b t1 t2 b' = k8s_cut limit ms b t1 t2 b'"
  by (simp add: k8s_cut_def frame_payloads_def)

lemma k8s_cut_stdout:
  assumes "k8s_cut limit ms (buffer_payload limit stdout_channel p b) (snd (keep_payload limit p (wb_stdout b, t1))) t2 b'"
  shows "k8s_cut limit (WsFrame t (stdout_channel # p) # ms) b t1 t2 b'"
proof -
  have "wb_stdout (buffer_payload limit stdout_channel p b) = fst (keep_payload limit p (wb_stdout b, t1))"
    "wb_stderr (buffer_payload limit stdout_channel p b) = wb_stderr b" by (simp_all add: buffer_payload_def keep_payload_def)
  with assms show ?thesis by (simp add: k8s_cut_def frame_payloads_def channels_differ)
qed

lemma k8s_cut_stderr:
  assumes "k8s_cut limit ms (buffer_payload limit stderr_channel p b) t1 (snd (keep_payload limit p (wb_stderr b, t2))) b'"
  shows "k8s_cut limit (WsFrame t (stderr_channel # p) # ms) b t1 t2 b'"
proof -
  have "wb_stderr (buffer_payload limit stderr_channel p b) = fst (keep_payload limit p (wb_stderr b, t2))"
    "wb_stdout (buffer_payload limit stderr_channel p b) = wb_stdout b"
    by (simp_all add: buffer_payload_def keep_payload_def channels_differ [symmetric])
  with assms show ?thesis by (simp add: k8s_cut_def frame_payloads_def channels_differ channels_differ [symmetric])
qed

lemma buffer_payload_flag:
  "wb_truncated b = (t1 \<or> t2) \<Longrightarrow> wb_truncated (buffer_payload limit stdout_channel p b) = (snd (keep_payload limit p (wb_stdout b, t1)) \<or> t2)"
  "wb_truncated b = (t1 \<or> t2) \<Longrightarrow> wb_truncated (buffer_payload limit stderr_channel p b) = (t1 \<or> snd (keep_payload limit p (wb_stderr b, t2)))"
  by (simp_all add: buffer_payload_def keep_payload_def channels_differ [symmetric])

lemma pump_messages_cut:
  "wb_truncated b = (t1 \<or> t2) \<Longrightarrow>
   k8s_cut limit (frames_read patience ms) b t1 t2 (fst (snd (pump_messages limit patience ms fin b)))"
proof (induction ms arbitrary: b t1 t2)
  case Nil
  then show ?case by (simp add: frames_read_def k8s_cut_Nil split: ws_end.split)
next
  case (Cons m ms)
  note skip = Cons.IH [OF Cons.prems]
  show ?case
  proof (cases m)
    case (WsOther t)
    with skip Cons.prems show ?thesis by (simp add: frames_read_def k8s_cut_Nil k8s_cut_skip)
  next
    case (WsFrame t s)
    show ?thesis
    proof (cases s)
      case Nil
      with WsFrame skip Cons.prems show ?thesis by (simp add: frames_read_def k8s_cut_Nil k8s_cut_skip)
    next
      case s: (Cons channel p)
      consider "\<not> t < patience \<or> channel = error_channel" | "t < patience" "channel = stdout_channel" | "t < patience" "channel = stderr_channel"
        | "t < patience" "channel \<noteq> stdout_channel" "channel \<noteq> stderr_channel" "channel \<noteq> error_channel" by blast
      then show ?thesis
      proof cases
        case 1
        with WsFrame s Cons.prems show ?thesis
          by (auto simp: frames_read_def k8s_cut_Nil channels_differ [symmetric])
      next
        case 2
        with WsFrame s k8s_cut_stdout [OF Cons.IH [OF buffer_payload_flag(1) [OF Cons.prems]]] show ?thesis
          by (simp add: frames_read_def channels_differ)
      next
        case 3
        with WsFrame s k8s_cut_stderr [OF Cons.IH [OF buffer_payload_flag(2) [OF Cons.prems]]] show ?thesis
          by (simp add: frames_read_def channels_differ)
      next
        case 4
        with WsFrame s skip show ?thesis by (simp add: frames_read_def k8s_cut_skip)
      qed
    qed
  qed
qed

subsection \<open>The operations\<close>

text \<open>What a run reports is the reference, applied to what the stream of some exec carried before the reader stopped.\<close>

definition reports :: "int \<Rightarrow> string list \<Rightarrow> string list \<Rightarrow> raw_exec_result \<Rightarrow> bool" where
  "reports limit out err raw \<longleftrightarrow> captured limit out err = (rx_stdout raw, rx_stderr raw, rx_truncated raw)"

lemma reports_bounds:
  assumes "reports limit out err raw" "0 \<le> limit"
  shows "int (length (rx_stdout raw)) \<le> limit + int (longest out)" "int (length (rx_stderr raw)) \<le> limit + int (longest err)"
    "\<not> rx_truncated raw \<Longrightarrow> rx_stdout raw = concat out \<and> rx_stderr raw = concat err"
proof -
  obtain o1 t1 where o: "cut_output limit out ([], False) = (o1, t1)" by (cases "cut_output limit out ([], False)")
  obtain e1 t2 where e: "cut_output limit err ([], False) = (e1, t2)" by (cases "cut_output limit err ([], False)")
  have raw: "rx_stdout raw = o1" "rx_stderr raw = e1" "rx_truncated raw = (t1 \<or> t2)"
    using assms(1) by (simp_all add: reports_def captured_def o e)
  show "int (length (rx_stdout raw)) \<le> limit + int (longest out)" "int (length (rx_stderr raw)) \<le> limit + int (longest err)"
    using cut_output_bounds(1) [OF o assms(2)] cut_output_bounds(1) [OF e assms(2)] raw by simp_all
  show "\<not> rx_truncated raw \<Longrightarrow> rx_stdout raw = concat out \<and> rx_stderr raw = concat err"
    using cut_output_bounds(2) [OF o assms(2)] cut_output_bounds(2) [OF e assms(2)] raw by simp
qed

lemma pump_chunks_captured:
  assumes "pump_chunks limit patience cs fin \<lparr>pu_stdout = [], pu_stderr = [], pu_truncated = False\<rparr> = (r, st, took)"
  shows "captured limit (chunk_payloads False (chunks_read patience cs)) (chunk_payloads True (chunks_read patience cs)) =
    (pu_stdout st, pu_stderr st, pu_truncated st)"
  using pump_chunks_cut [of "\<lparr>pu_stdout = [], pu_stderr = [], pu_truncated = False\<rparr>" False False limit patience cs fin] assms
  by (simp add: docker_cut_def captured_def Let_def case_prod_unfold)

lemma pump_messages_captured:
  assumes "pump_messages limit patience ms fin \<lparr>wb_stdout = [], wb_stderr = [], wb_truncated = False\<rparr> = (r, b, took)"
  shows "captured limit (frame_payloads stdout_channel (frames_read patience ms)) (frame_payloads stderr_channel (frames_read patience ms)) =
    (wb_stdout b, wb_stderr b, wb_truncated b)"
  using pump_messages_cut [of "\<lparr>wb_stdout = [], wb_stderr = [], wb_truncated = False\<rparr>" False False limit patience ms fin] assms
  by (simp add: k8s_cut_def captured_def Let_def case_prod_unfold)

lemma six_steps:
  assumes "bind_em A (\<lambda>x. bind_em B (\<lambda>s. seq_em (C x) (seq_em (D x) (bind_em (E x) (\<lambda>(cs, fin). bind_em F (\<lambda>n. K x s cs fin n)))))) d = (Inr y, d')"
  shows "\<exists>x d1 s d2 u3 d3 u4 d4 cs fin d5 n d6. A d = (Inr x, d1) \<and> B d1 = (Inr s, d2) \<and> C x d2 = (Inr u3, d3) \<and> D x d3 = (Inr u4, d4) \<and>
    E x d4 = (Inr (cs, fin), d5) \<and> K x s cs fin n d6 = (Inr y, d')"
  using assms by (fastforce simp: bind_em_Inr_iff seq_em_Inr_iff)

lemma four_steps:
  assumes "bind_em A (\<lambda>x. bind_em B (\<lambda>s. seq_em (C x) (bind_em (E x) (\<lambda>(ms, fin). K x s ms fin)))) d = (Inr y, d')"
  shows "\<exists>x d1 s d2 u3 d3 ms fin d4. A d = (Inr x, d1) \<and> B d1 = (Inr s, d2) \<and> C x d2 = (Inr u3, d3) \<and>
    E x d3 = (Inr (ms, fin), d4) \<and> K x s ms fin d4 = (Inr y, d')"
  using assms by (fastforce simp: bind_em_Inr_iff seq_em_Inr_iff)

lemma exec_with_stdin_reports:
  assumes "exec_with_stdin c cmd i t limit u wd sid d = (Inr raw, d')"
  shows "\<exists>x tr patience. let cs = chunks_read patience (fst (en_stream (dk_engine d) tr x))
    in reports limit (chunk_payloads False cs) (chunk_payloads True cs) raw"
proof -
  have keeps: "dk_engine s' = dk_engine s" if "moves (extends (\<lambda>_. True)) m" "m s = (r, s')" for m :: "'a dk" and s s' r
    using movesD' [OF that] by (simp add: extends_def)
  have en: "moves (extends (\<lambda>_. True)) (catch_em (container_exec c \<lparr>xc_cmd = cmd, xc_stdin = True, xc_tty = False, xc_user = u,
         xc_workdir = wd\<rparr>) is_docker_error
       (\<lambda>e. raise_em (if error_status e = 404 then SandboxNotFoundError sid else ProvisionerError sid)))"
    "moves (extends (\<lambda>_. True)) engine_clock" "\<And>x. moves (extends (\<lambda>_. True)) (exec_start x)"
    "\<And>x. moves (extends (\<lambda>_. True)) (when_em (i \<noteq> []) (exec_write x i))"
    by (intro moves_intro; simp)+
  from six_steps [OF assms [unfolded exec_with_stdin_def]] obtain x d1 start d2 u3 d3 u4 d4 cs fin d5 now d6 where
    steps: "catch_em (container_exec c \<lparr>xc_cmd = cmd, xc_stdin = True, xc_tty = False, xc_user = u,
         xc_workdir = wd\<rparr>) is_docker_error
       (\<lambda>e. raise_em (if error_status e = 404 then SandboxNotFoundError sid else ProvisionerError sid)) d = (Inr x, d1)"
      "engine_clock d1 = (Inr start, d2)" "exec_start x d2 = (Inr u3, d3)"
      "when_em (i \<noteq> []) (exec_write x i) d3 = (Inr u4, d4)" "exec_stream x d4 = (Inr (cs, fin), d5)"
    and rest: "(case pump_chunks limit (nat (t * us_per_second - (now - start))) cs fin
             \<lparr>pu_stdout = [], pu_stderr = [], pu_truncated = False\<rparr> of
        (Inl e, st, took) \<Rightarrow> seq_em (engine_wait took) (raise_em e)
      | (Inr timed_out, st, took) \<Rightarrow>
          seq_em (engine_wait took)
          (bind_em engine_clock (\<lambda>finish.
           bind_em (if timed_out then return_em 124
                    else catch_em (bind_em (exec_inspect x) (\<lambda>info. return_em (exit_or_zero info)))
                           is_docker_error (\<lambda>_. return_em 0)) (\<lambda>exit_code.
           return_em \<lparr>rx_exit_code = exit_code, rx_stdout = pu_stdout st, rx_stderr = pu_stderr st,
             rx_duration_ms = (finish - start) div 1000, rx_truncated = pu_truncated st, rx_timed_out = timed_out\<rparr>)))) d6 = (Inr raw, d')"
    by blast
  have "dk_engine d4 = dk_engine d"
    using keeps [OF en(1) steps(1)] keeps [OF en(2) steps(2)] keeps [OF en(3) steps(3)] keeps [OF en(4) steps(4)] by simp
  then have cs: "(cs, fin) = en_stream (dk_engine d) (dk_events d4) x"
    using steps(5) by (simp add: exec_stream_def engine_call_run)
  let ?p = "nat (t * us_per_second - (now - start))"
  obtain r st took where pump: "pump_chunks limit ?p cs fin \<lparr>pu_stdout = [], pu_stderr = [], pu_truncated = False\<rparr> = (r, st, took)"
    by (cases "pump_chunks limit ?p cs fin \<lparr>pu_stdout = [], pu_stderr = [], pu_truncated = False\<rparr>")
  have "rx_stdout raw = pu_stdout st \<and> rx_stderr raw = pu_stderr st \<and> rx_truncated raw = pu_truncated st"
    using rest by (cases r) (auto simp: pump bind_em_Inr_iff seq_em_Inr_iff return_em_Inr_iff raise_em_def)
  with pump_chunks_captured [OF pump] cs [symmetric] show ?thesis
    by (intro exI [of _ x] exI [of _ "dk_events d4"] exI [of _ ?p]) (simp add: reports_def Let_def)
qed

lemma run_exec_raw_reports:
  assumes "run_exec_raw ns cmd i t limit ctr k = (Inr raw, k')"
  shows "\<exists>s tr patience. let ms = frames_read patience (fst (cl_stream (kw_cluster k) tr s))
    in reports limit (frame_payloads stdout_channel ms) (frame_payloads stderr_channel ms) raw"
proof -
  have keeps: "kw_cluster s' = kw_cluster s" if "moves (advances (\<lambda>_. True)) m" "m s = (r, s')" for m :: "'a ku" and s s' r
    using movesD' [OF that] by (simp add: advances_def)
  let ?open = "catch_em (open_exec ns ctr cmd False) (\<lambda>e. is_api_exception e \<and> error_status e = 404) (\<lambda>_. raise_em (SandboxNotFoundError ns))"
  have ku: "moves (advances (\<lambda>_. True)) ?open" "moves (advances (\<lambda>_. True)) kube_clock"
    "\<And>s. moves (advances (\<lambda>_. True)) (send_stdin s i)"
    by (intro moves_intro; simp)+
  let ?K = "\<lambda>start ms fin. case pump_messages limit (nat (t * us_per_second)) ms fin
             \<lparr>wb_stdout = [], wb_stderr = [], wb_truncated = False\<rparr> of
        (Inl e, b, took) \<Rightarrow> seq_em (kube_wait took) (raise_em e)
      | (Inr outcome, b, took) \<Rightarrow>
          seq_em (kube_wait took)
          (bind_em kube_clock (\<lambda>finish.
           bind_em (exit_code_of ns outcome) (\<lambda>exit_code.
           return_em \<lparr>rx_exit_code = exit_code, rx_stdout = wb_stdout b, rx_stderr = wb_stderr b,
             rx_duration_ms = (finish - start) div 1000, rx_truncated = wb_truncated b,
             rx_timed_out = (outcome = TimedOut)\<rparr>)))"
  from four_steps [OF assms [unfolded run_exec_raw_def]] obtain s k1 start k2 u3 k3 ms fin k4 where
    steps: "?open k = (Inr s, k1)" "kube_clock k1 = (Inr start, k2)" "send_stdin s i k2 = (Inr u3, k3)"
      "receive_all s k3 = (Inr (ms, fin), k4)"
    and rest: "?K start ms fin k4 = (Inr raw, k')"
    by blast
  have "kw_cluster k3 = kw_cluster k"
    using keeps [OF ku(1) steps(1)] keeps [OF ku(2) steps(2)] keeps [OF ku(3) steps(3)] by simp
  then have ms: "(ms, fin) = cl_stream (kw_cluster k) (kw_events k3) s"
    using steps(4) by (simp add: receive_all_def kube_call_run)
  let ?p = "nat (t * us_per_second)"
  obtain r b took where pump: "pump_messages limit ?p ms fin \<lparr>wb_stdout = [], wb_stderr = [], wb_truncated = False\<rparr> = (r, b, took)"
    by (cases "pump_messages limit ?p ms fin \<lparr>wb_stdout = [], wb_stderr = [], wb_truncated = False\<rparr>")
  have "rx_stdout raw = wb_stdout b \<and> rx_stderr raw = wb_stderr b \<and> rx_truncated raw = wb_truncated b"
    using rest by (cases r) (auto simp: pump bind_em_Inr_iff seq_em_Inr_iff return_em_Inr_iff raise_em_def)
  with pump_messages_captured [OF pump] ms [symmetric] show ?thesis
    by (intro exI [of _ s] exI [of _ "kw_events k3"] exI [of _ ?p]) (simp add: reports_def Let_def)
qed



end
