(* ===== verification/Runner.thy ===== *)
theory Runner
  imports Docker_Exec
begin

section \<open>The Python runner\<close>

text \<open>
  \<open>components/languages/python/runner.py\<close>: the program that runs a batch's code inside the container and writes its
  variables for the backend to read. The interpreter, the file system and \<open>json\<close> are parameters; a value of the
  user's program is what the runner asks of it: whether it is callable or a module, what \<open>json.dumps\<close> makes of it and
  what \<open>repr\<close> gives, each of which may raise.
\<close>

record py_object =
  po_callable_or_module :: bool
  po_dumps :: "exn + json"
  po_repr :: "exn + string"

datatype exit_value = ExitInt int | ExitOther (exit_truthy: bool)

datatype program_outcome = Completed | Exited exit_value | Raised

text \<open>What running a source does: how it ends and the namespace it leaves, in its order.\<close>

type_synonym interpreter = "string \<Rightarrow> program_outcome \<times> (string \<times> py_object) list"

record run_report =
  rp_exit :: "exn + int"
  rp_dump :: "json option"

definition var_dump_path :: string where
  "var_dump_path = ''/tmp/.kubesandbox_vars.json''"

definition type_error :: exn where "type_error = OtherException ''TypeError''"
definition os_error :: exn where "os_error = OtherException ''OSError''"

definition is_json_safe :: "py_object \<Rightarrow> exn + bool" where
  "is_json_safe v = (case po_dumps v of Inr _ \<Rightarrow> Inr True | Inl e \<Rightarrow> if e = type_error then Inr False else Inl e)"

definition dumped_value :: "py_object \<Rightarrow> exn + json" where
  "dumped_value v =
     (case is_json_safe v of
        Inl e \<Rightarrow> Inl e
      | Inr safe \<Rightarrow> if safe then po_dumps v else map_sum id JString (po_repr v))"

definition dump_skips :: "string \<Rightarrow> py_object \<Rightarrow> bool" where
  "dump_skips name v \<longleftrightarrow> startswith name ''__'' \<or> po_callable_or_module v"

fun dump_namespace :: "(string \<times> py_object) list \<Rightarrow> exn + (string \<times> json) list" where
  "dump_namespace [] = Inr []"
| "dump_namespace ((name, v) # rest) =
     (if dump_skips name v then dump_namespace rest
      else case dumped_value v of
        Inl e \<Rightarrow> Inl e
      | Inr j \<Rightarrow> map_sum id (Cons (name, j)) (dump_namespace rest))"

fun program_exit :: "program_outcome \<Rightarrow> int" where
  "program_exit Completed = 0"
| "program_exit Raised = 1"
| "program_exit (Exited (ExitInt n)) = n"
| "program_exit (Exited (ExitOther t)) = (if t then 1 else 0)"

text \<open>
  The file is opened, then the namespace is dumped, then it is written; an \<open>OSError\<close> anywhere is printed and dropped,
  any other exception leaves \<open>finally\<close> and replaces the result.
\<close>

definition write_dump :: "exn + unit \<Rightarrow> (json \<Rightarrow> exn + unit) \<Rightarrow> (string \<times> py_object) list \<Rightarrow> exn + json" where
  "write_dump opened write ns =
     (case opened of
        Inl e \<Rightarrow> Inl e
      | Inr _ \<Rightarrow>
          (case dump_namespace ns of
             Inl e \<Rightarrow> Inl e
           | Inr kvs \<Rightarrow> (case write (JObject kvs) of Inl e \<Rightarrow> Inl e | Inr _ \<Rightarrow> Inr (JObject kvs))))"

definition finish_run :: "exn + unit \<Rightarrow> (json \<Rightarrow> exn + unit) \<Rightarrow> program_outcome \<times> (string \<times> py_object) list \<Rightarrow> run_report" where
  "finish_run opened write out =
     (case write_dump opened write (snd out) of
        Inl e \<Rightarrow> \<lparr>rp_exit = (if e = os_error then Inr (program_exit (fst out)) else Inl e), rp_dump = None\<rparr>
      | Inr d \<Rightarrow> \<lparr>rp_exit = Inr (program_exit (fst out)), rp_dump = Some d\<rparr>)"

definition runner_main ::
  "(string \<Rightarrow> exn + string) \<Rightarrow> interpreter \<Rightarrow> exn + unit \<Rightarrow> (json \<Rightarrow> exn + unit) \<Rightarrow> string list \<Rightarrow> run_report" where
  "runner_main read_file interp opened write argv =
     (case argv of
        _ # source_path # _ \<Rightarrow>
          (case read_file source_path of
             Inl e \<Rightarrow> \<lparr>rp_exit = Inl e, rp_dump = None\<rparr>
           | Inr source \<Rightarrow> finish_run opened write (interp source))
      | _ \<Rightarrow> \<lparr>rp_exit = Inr 2, rp_dump = None\<rparr>)"

text \<open>\<open>sys.exit(main())\<close>: an exception that nobody catches is exit code 1; a code is taken modulo 256 by the system.\<close>

definition process_exit :: "run_report \<Rightarrow> int" where
  "process_exit r = (case rp_exit r of Inl e \<Rightarrow> 1 | Inr n \<Rightarrow> n mod 256)"

subsection \<open>Laws\<close>

text \<open>A value that the dump can handle: \<open>json\<close> takes it, or refuses its type and it has a \<open>repr\<close>.\<close>

definition presentable :: "py_object \<Rightarrow> bool" where
  "presentable v \<longleftrightarrow> (case po_dumps v of Inr _ \<Rightarrow> True | Inl e \<Rightarrow> e = type_error \<and> (\<exists>s. po_repr v = Inr s))"

definition shown :: "py_object \<Rightarrow> json" where
  "shown v = (case po_dumps v of Inr j \<Rightarrow> j | Inl _ \<Rightarrow> (case po_repr v of Inr s \<Rightarrow> JString s | Inl _ \<Rightarrow> JNull))"

definition visible :: "(string \<times> py_object) list \<Rightarrow> (string \<times> py_object) list" where
  "visible ns = filter (\<lambda>(name, v). \<not> dump_skips name v) ns"

lemma dumped_presentable: "presentable v \<Longrightarrow> dumped_value v = Inr (shown v)"
  by (auto simp: presentable_def dumped_value_def is_json_safe_def shown_def split: sum.splits)

lemma dump_namespace_presentable:
  "list_all (\<lambda>(name, v). presentable v) (visible ns) \<Longrightarrow>
   dump_namespace ns = Inr (map (\<lambda>(name, v). (name, shown v)) (visible ns))"
proof (induction ns)
  case (Cons nv ns)
  obtain name v where nv: "nv = (name, v)" by (cases nv)
  with Cons show ?case by (cases "dump_skips name v") (simp_all add: visible_def dumped_presentable)
qed (simp add: visible_def)


definition demo_namespace :: "(string \<times> py_object) list" where
  "demo_namespace =
     [(''__name__'', \<lparr>po_callable_or_module = False, po_dumps = Inr (JString ''__main__''), po_repr = Inr ''__main__''\<rparr>),
      (''x'', \<lparr>po_callable_or_module = False, po_dumps = Inr (JInt 7), po_repr = Inr ''7''\<rparr>),
      (''s'', \<lparr>po_callable_or_module = False, po_dumps = Inl type_error, po_repr = Inr ''{1, 2}''\<rparr>)]"


text \<open>
  A value that \<open>json.dumps\<close> refuses with anything but \<open>TypeError\<close> (a list that contains itself is a \<open>ValueError\<close>), or
  whose \<open>repr\<close> raises, spoils the run: a program that completed is reported as failed and has no variables.
\<close>

lemma circular_value_spoils_the_run:
  assumes "read_file path = Inr source" "interp source = (Completed, [(name, v)])" "\<not> dump_skips name v"
    and "po_dumps v = Inl (ValueError ''Circular reference detected'')"
  shows "process_exit (runner_main read_file interp (Inr ()) write (prog # path # argv)) = 1 \<and>
    rp_dump (runner_main read_file interp (Inr ()) write (prog # path # argv)) = None"
  using assms by (simp add: runner_main_def finish_run_def write_dump_def dumped_value_def is_json_safe_def type_error_def os_error_def process_exit_def)

end
