(* ===== verification/Recycling.thy ===== *)
theory Recycling
  imports Docker_Cleanup Kubernetes_Laws Sandbox_Laws Runner
begin

section \<open>Recycling a sandbox\<close>

text \<open>
  What \<open>PoolManager.release\<close> gets from the two backends' \<open>recycle\<close>: which failures it turns into a destruction,
  which it lets through, and what the wipe leaves in a container that the next tenant claims.
\<close>

subsection \<open>Failures\<close>

text \<open>An engine whose exec calls fail with \<open>DockerError\<close> only, as the library documents.\<close>

definition exec_fails_as_docker :: "engine \<Rightarrow> bool" where
  "exec_fails_as_docker en \<longleftrightarrow>
     (\<forall>tr i x e. en_exec en tr i x = Inl e \<longrightarrow> is_docker_error e) \<and> (\<forall>tr x e. en_drain en tr x = Inl e \<longrightarrow> is_docker_error e)"

lemma docker_recycle_failures:
  "exec_fails_as_docker (dk_engine d) \<Longrightarrow> fst (docker_recycle h d) = Inl e \<Longrightarrow> is_provisioner_error e"
  by (auto simp: docker_recycle_def em_simps engine_calls exec_fails_as_docker_def split: sum.splits if_splits)

text \<open>A server that was given the Docker backend keeps the contract that the laws of the service assume.\<close>

lemma docker_env_keeps_contract:
  assumes "exec_fails_as_docker (dk_engine d)" "\<And>tr h. \<exists>d'. dk_engine d' = dk_engine d \<and> e_recycle en tr h = fst (docker_recycle h d')"
  shows "recycle_contract en"
  unfolding recycle_contract_def
proof (intro allI impI)
  fix tr h e
  assume "e_recycle en tr h = Inl e"
  moreover obtain d' where "dk_engine d' = dk_engine d" "e_recycle en tr h = fst (docker_recycle h d')" using assms(2) by blast
  ultimately show "is_provisioner_error e" using docker_recycle_failures [of d' h e] assms(1) by simp
qed

definition wipe_command :: "string list" where
  "wipe_command = [''sh'', ''-c'', ''rm -rf /workspace/* /workspace/.[!.]* 2>/dev/null; true'']"

lemma k8s_recycle_refused:
  assumes "cl_api (kw_cluster k) (kw_events k) (OpenExec (h_native_ref h) main_container wipe_command False) = Inl (ApiException n m)"
  shows "fst (k8s_recycle h k) = Inl (if n = 404 then SandboxNotFoundError (h_native_ref h) else ApiException n m)"
  using assms by (simp add: k8s_recycle_def run_exec_def run_exec_raw_def open_exec_def kube_ask_def em_simps wipe_command_def)

lemma release_after_failure:
  assumes "is_poolable spec" "e_recycle (w_env w) (w_calls w) h = Inl e" "release h spec w = (r, w')"
  shows "w_db w' = w_db w" "is_provisioner_error e \<Longrightarrow> released h (new_calls w w')"
    "\<not> is_provisioner_error e \<Longrightarrow> r = Inl e \<and> new_calls w w' = [CallRecycle h (Inl e)]"
  using assms
  by (auto simp: release_def prov_recycle_def prov_destroy_def em_simps new_calls_def released_def split: sum.splits if_splits)

text \<open>
  C15. A poolable sandbox whose wipe the backend refuses: in Docker the pool manager destroys the container; in
  Kubernetes the refusal of the exec reaches it as another exception, it passes through, and the sandbox is neither
  destroyed nor listed in the pool. No record of the pool changes in either case.
\<close>

theorem refused_recycle_by_backend:
  assumes "is_poolable spec" "exec_fails_as_docker (dk_engine d)" "fst (docker_recycle h d) \<noteq> Inr ()"
    and "e_recycle (w_env v) (w_calls v) h = fst (docker_recycle h d)" "release h spec v = (rv, v')"
    and "cl_api (kw_cluster k) (kw_events k) (OpenExec (h_native_ref h) main_container wipe_command False) = Inl (ApiException n m)"
    and "e_recycle (w_env w) (w_calls w) h = fst (k8s_recycle h k)" "release h spec w = (rw, w')"
  shows "released h (new_calls v v') \<and> w_db v' = w_db v \<and>
    (\<exists>e. rw = Inl e \<and> \<not> is_provisioner_error e) \<and> \<not> released h (new_calls w w') \<and> w_db w' = w_db w"
proof -
  from assms(3) obtain e where e: "fst (docker_recycle h d) = Inl e" by (cases "fst (docker_recycle h d)") auto
  note V = release_after_failure [OF assms(1) assms(4) [unfolded e] assms(5)]
  note W = release_after_failure [OF assms(1) assms(7) [unfolded k8s_recycle_refused [OF assms(6)]] assms(8)]
  have no: "\<not> is_provisioner_error (if n = 404 then SandboxNotFoundError (h_native_ref h) else ApiException n m)" by simp
  show ?thesis
  proof (intro conjI)
    show "released h (new_calls v v')" "w_db v' = w_db v" using V docker_recycle_failures [OF assms(2) e] by auto
    show "\<exists>e. rw = Inl e \<and> \<not> is_provisioner_error e" using W(3) [OF no] no by blast
    show "\<not> released h (new_calls w w')" using W(3) [OF no] by (simp add: released_def)
    show "w_db w' = w_db w" using W(1) .
  qed
qed

definition refusing_engine :: engine where
  "refusing_engine = demo_engine\<lparr>en_exec := (\<lambda>_ _ _. Inl (DockerError 409 ''container is not running''))\<rparr>"

definition refusing_cluster :: cluster where
  "refusing_cluster = demo_cluster\<lparr>cl_api := (\<lambda>_ _. Inl (ApiException 500 ''no route to the kubelet''))\<rparr>"

theorem refused_recycle_by_backend_witness:
  "\<exists>rv v' rw w'. release (demo_handle ''s1'') light_spec
       ((demo_world pooled_db empty_registry)\<lparr>w_env := demo_env\<lparr>e_recycle := (\<lambda>_ h. Inl (ProvisionerError (h_sandbox_id h)))\<rparr>\<rparr>) = (rv, v') \<and>
     release (demo_handle ''s1'') light_spec
       ((demo_world pooled_db empty_registry)\<lparr>w_env := demo_env\<lparr>e_recycle := (\<lambda>_ h. Inl (ApiException 500 ''no route to the kubelet''))\<rparr>\<rparr>) = (rw, w') \<and>
     w_db v' = pooled_db \<and> w_db w' = pooled_db \<and> rw \<noteq> Inr ()"
proof -
  let ?h = "demo_handle ''s1''" and ?d = "docker_provisioner refusing_engine ''builtin'' None" and ?k = "kube_of refusing_cluster"
  let ?v = "(demo_world pooled_db empty_registry)\<lparr>w_env := demo_env\<lparr>e_recycle := (\<lambda>_ h. Inl (ProvisionerError (h_sandbox_id h)))\<rparr>\<rparr>"
  let ?w = "(demo_world pooled_db empty_registry)\<lparr>w_env := demo_env\<lparr>e_recycle := (\<lambda>_ h. Inl (ApiException 500 ''no route to the kubelet''))\<rparr>\<rparr>"
  obtain rv v' rw w' where run: "release ?h light_spec ?v = (rv, v')" "release ?h light_spec ?w = (rw, w')"
    by (cases "release ?h light_spec ?v"; cases "release ?h light_spec ?w")
  have engine: "exec_fails_as_docker (dk_engine ?d)"
    by (simp add: exec_fails_as_docker_def docker_provisioner_def refusing_engine_def demo_engine_def)
  have docker: "fst (docker_recycle ?h ?d) = Inl (ProvisionerError (h_sandbox_id ?h))"
    by (simp add: docker_recycle_def em_simps engine_calls docker_provisioner_def refusing_engine_def)
  have api: "cl_api (kw_cluster ?k) (kw_events ?k) (OpenExec (h_native_ref ?h) main_container wipe_command False) =
      Inl (ApiException 500 ''no route to the kubelet'')"
    by (simp add: kube_of_def refusing_cluster_def)
  have "w_db ?v = pooled_db" "w_db ?w = pooled_db" by (simp_all add: demo_world_def)
  moreover have "e_recycle (w_env ?v) (w_calls ?v) ?h = fst (docker_recycle ?h ?d)" by (simp add: docker)
  moreover have "e_recycle (w_env ?w) (w_calls ?w) ?h = fst (k8s_recycle ?h ?k)" by (simp add: k8s_recycle_refused [OF api])
  ultimately show ?thesis
    using run refused_recycle_by_backend [OF light_spec_poolable(1) engine _ _ run(1) api _ run(2)] docker by auto
qed

subsection \<open>What the wipe leaves\<close>

text \<open>
  The two patterns the shell expands, as POSIX defines them: \<open>*\<close> matches the names that do not begin with a dot,
  \<open>.[!.]*\<close> those that begin with one dot followed by another character.
\<close>

definition matches_wipe :: "string \<Rightarrow> bool" where
  "matches_wipe n = (case n of [] \<Rightarrow> False | c # rest \<Rightarrow> c \<noteq> CHR ''.'' \<or> (case rest of [] \<Rightarrow> False | c' # _ \<Rightarrow> c' \<noteq> CHR ''.''))"

definition wiped :: "string \<Rightarrow> bool" where
  "wiped path \<longleftrightarrow> startswith path ''/workspace/'' \<and> matches_wipe (takeWhile (\<lambda>c. c \<noteq> CHR ''/'') (drop 11 path))"

lemma names_that_survive:
  "n \<noteq> [] \<Longrightarrow> n \<noteq> ''.'' \<Longrightarrow> matches_wipe n \<longleftrightarrow> \<not> startswith n ''..''"
  by (auto simp: matches_wipe_def startswith_def split: list.splits)

lemma variables_are_not_wiped: "\<not> wiped variable_dump_path" "variable_dump_path = var_dump_path"
  by (simp_all add: wiped_def startswith_def variable_dump_path_def var_dump_path_def)

text \<open>
  An engine whose container has files: a wipe removes what it matches, \<open>cat\<close> prints a file that is there, and a
  program hangs.
\<close>

definition was_wiped :: "engine_event list \<Rightarrow> bool" where
  "was_wiped tr \<longleftrightarrow> list_ex (\<lambda>e. case e of ExecCreated i x r \<Rightarrow> xc_cmd x = wipe_command | _ \<Rightarrow> False) tr"

definition asked_file :: "engine_event list \<Rightarrow> string option" where
  "asked_file tr = (case rev tr of ExecCreated i x r # _ \<Rightarrow> (case xc_cmd x of [c, p] \<Rightarrow> if c = ''cat'' then Some p else None | _ \<Rightarrow> None) | _ \<Rightarrow> None)"

definition present :: "(string \<times> string) list \<Rightarrow> engine_event list \<Rightarrow> string \<Rightarrow> string option" where
  "present files tr p = (if was_wiped tr \<and> wiped p then None else map_of files p)"

definition hanging_engine :: "(string \<times> string) list \<Rightarrow> engine" where
  "hanging_engine files = demo_engine\<lparr>en_stream := (\<lambda>_ _. ([], Silent)),
     en_drain := (\<lambda>tr _. Inr (case asked_file tr of None \<Rightarrow> [] | Some p \<Rightarrow> (case present files tr p of None \<Rightarrow> [] | Some s \<Rightarrow> [s]))),
     en_inspect := (\<lambda>tr _. Inr (Some 0))\<rparr>"

definition quiet_command :: batch_command where
  "quiet_command = \<lparr>bc_command = [''python'', ''/runner.py''], bc_stdin = [], bc_files = [], bc_timeout_seconds = 1,
     bc_max_output_bytes = 100, bc_capture_variables = True\<rparr>"

text \<open>
  The previous run left its variables; the sandbox is recycled; the next run hangs and is cut off. Its result carries
  the variables of the previous one.
\<close>

lemma hanging_run:
  assumes "dk_engine d = hanging_engine files"
  shows "\<exists>raw d'. exec_with_stdin c cmd [] 1 limit u wd sid d = (Inr raw, d') \<and> rx_timed_out raw \<and> dk_engine d' = hanging_engine files"
  using assms by (simp add: exec_with_stdin_def em_simps engine_calls hanging_engine_def demo_engine_def engine_clock_def engine_wait_def)

lemma dump_is_read:
  assumes "dk_engine d = hanging_engine files" "map_of files variable_dump_path = Some s" "parse_dump loads s = Inr j"
  shows "\<exists>d'. read_variable_dump loads c d = (Inr (Some j), d')"
  using assms variables_are_not_wiped(1)
  by (simp add: read_variable_dump_def exec_capture_def map_em_def em_simps engine_calls hanging_engine_def demo_engine_def
      asked_file_def present_def)

text \<open>The dump is read whatever the end of the run.\<close>

lemma batch_reads_the_dump:
  assumes "exec_with_stdin (h_native_ref h) (bc_command c) (bc_stdin c) (bc_timeout_seconds c) (bc_max_output_bytes c) sandbox_exec_user
      (Some ''/workspace'') (h_sandbox_id h) d = (Inr raw, d')"
    and "read_variable_dump loads (h_native_ref h) d' = (Inr (Some (JObject kvs)), d'')" "bc_files c = []" "bc_capture_variables c"
  shows "\<exists>res d3. docker_exec_batch loads h c d = (Inr res, d3) \<and> br_timed_out res = rx_timed_out raw \<and> br_variables res = Some (JObject kvs)"
  using assms by (simp add: docker_exec_batch_def em_simps batch_result_def engine_uuid_def)

lemma recycled_sandbox_returns_old_variables:
  assumes loads: "loads ''dump'' = Inr (JObject kvs)"
  shows "\<exists>d1 res d2. docker_recycle (demo_handle ''s1'') (docker_provisioner (hanging_engine [(variable_dump_path, ''dump'')]) ''builtin'' None) = (Inr (), d1) \<and>
    docker_exec_batch loads ((demo_handle ''s1'')\<lparr>h_sandbox_id := ''s2''\<rparr>) quiet_command d1 = (Inr res, d2) \<and>
    br_timed_out res \<and> br_variables res = Some (JObject kvs)"
proof -
  let ?d = "docker_provisioner (hanging_engine [(variable_dump_path, ''dump'')]) ''builtin'' None"
  let ?h = "(demo_handle ''s1'')\<lparr>h_sandbox_id := ''s2''\<rparr>"
  obtain r1 d1 where run1: "docker_recycle (demo_handle ''s1'') ?d = (r1, d1)" by (cases "docker_recycle (demo_handle ''s1'') ?d")
  have "fst (docker_recycle (demo_handle ''s1'') ?d) = Inr ()" "dk_engine (snd (docker_recycle (demo_handle ''s1'') ?d)) = dk_engine ?d"
    by (simp_all add: docker_recycle_def em_simps engine_calls docker_provisioner_def hanging_engine_def demo_engine_def)
  then have r1: "r1 = Inr ()" and d1: "dk_engine d1 = hanging_engine [(variable_dump_path, ''dump'')]"
    using run1 by (simp_all add: docker_provisioner_def)
  have decoded: "decode_strict ''dump'' = Inr ''dump''" by (simp add: decode_strict_def decode_ascii)
  from hanging_run [OF d1] obtain raw d3 where raw: "exec_with_stdin (h_native_ref ?h) [''python'', ''/runner.py''] [] 1 100 sandbox_exec_user
      (Some ''/workspace'') ''s2'' d1 = (Inr raw, d3)" "rx_timed_out raw" "dk_engine d3 = hanging_engine [(variable_dump_path, ''dump'')]" by blast
  obtain d4 where dump: "read_variable_dump loads (h_native_ref ?h) d3 = (Inr (Some (JObject kvs)), d4)"
    using dump_is_read [OF raw(3), of "''dump''" loads "JObject kvs"] loads decoded by (auto simp: parse_dump_def)
  have "h_sandbox_id ?h = ''s2''" "bc_command quiet_command = [''python'', ''/runner.py'']" "bc_stdin quiet_command = []"
    "bc_timeout_seconds quiet_command = 1" "bc_max_output_bytes quiet_command = 100" "bc_files quiet_command = []" "bc_capture_variables quiet_command"
    by (simp_all add: quiet_command_def)
  then obtain res d5 where
    "docker_exec_batch loads ?h quiet_command d1 = (Inr res, d5)" "br_timed_out res" "br_variables res = Some (JObject kvs)"
    using batch_reads_the_dump [of ?h quiet_command d1 raw d3 loads kvs d4] raw(1,2) dump by metis
  with run1 r1 show ?thesis by (intro exI [of _ d1] exI [of _ res] exI [of _ d5]) simp
qed

end
