(* ===== verification/Schema.thy ===== *)
theory Schema
  imports Prelude
begin

section \<open>Tables, and the operations that change them\<close>

text \<open>
  The database schema as data: what the ORM of \<open>app/persistence/models.py\<close> declares and what the operations of the
  migrations do to it. The operations are those of SQL as Alembic emits them; the checks are the ones a database makes
  on the catalogue (a table or column that is missing or already there, a reference to nothing, a table that others
  refer to). Rows are not part of it, but for a new column of a table with rows see \<open>backfills\<close>.
\<close>

subsection \<open>Tables\<close>

datatype column_type = VarChar nat | TextType | IntegerType | BooleanType | JsonType | TimestampTz | Decimal nat nat

record column =
  co_name :: string
  co_type :: column_type
  co_nullable :: bool
  co_default :: "string option"

definition required_col :: "string \<Rightarrow> column_type \<Rightarrow> column" where
  "required_col n t = \<lparr>co_name = n, co_type = t, co_nullable = False, co_default = None\<rparr>"

definition nullable_col :: "string \<Rightarrow> column_type \<Rightarrow> column" where
  "nullable_col n t = \<lparr>co_name = n, co_type = t, co_nullable = True, co_default = None\<rparr>"

definition default_col :: "string \<Rightarrow> column_type \<Rightarrow> bool \<Rightarrow> string \<Rightarrow> column" where
  "default_col n t nullable server_default = \<lparr>co_name = n, co_type = t, co_nullable = nullable, co_default = Some server_default\<rparr>"

datatype table_constraint =
    PrimaryKey "string list"
  | Unique "string option" "string list"
  | ForeignKey "string option" "string list" string "string list"

record table =
  tb_columns :: "column list"
  tb_constraints :: "table_constraint list"

type_synonym schema = "(string \<times> table) list"

datatype constraint_kind = Uniques | ForeignKeys

datatype operation =
    CreateTable string table
  | DropTable string
  | AddColumn string column
  | DropColumn string string
  | AddConstraint string table_constraint
  | DropConstraint string string constraint_kind

fun constraint_columns :: "table_constraint \<Rightarrow> string list" where
  "constraint_columns (PrimaryKey cs) = cs"
| "constraint_columns (Unique n cs) = cs"
| "constraint_columns (ForeignKey n cs t rs) = cs"

fun constraint_name :: "table_constraint \<Rightarrow> string option" where
  "constraint_name (PrimaryKey cs) = None"
| "constraint_name (Unique n cs) = n"
| "constraint_name (ForeignKey n cs t rs) = n"

fun kind_is :: "constraint_kind \<Rightarrow> table_constraint \<Rightarrow> bool" where
  "kind_is Uniques (Unique n cs) = True"
| "kind_is ForeignKeys (ForeignKey n cs t rs) = True"
| "kind_is _ _ = False"

definition column_names :: "table \<Rightarrow> string list" where
  "column_names tb = map co_name (tb_columns tb)"

definition constraint_names :: "table \<Rightarrow> string list" where
  "constraint_names tb = concat (map (\<lambda>c. case constraint_name c of None \<Rightarrow> [] | Some n \<Rightarrow> [n]) (tb_constraints tb))"

definition has_columns :: "schema \<Rightarrow> string \<Rightarrow> string list \<Rightarrow> bool" where
  "has_columns s t cs = (case map_of s t of None \<Rightarrow> False | Some tb \<Rightarrow> list_all (\<lambda>c. c \<in> set (column_names tb)) cs)"

fun refers_to :: "string \<Rightarrow> table_constraint \<Rightarrow> bool" where
  "refers_to t (ForeignKey n cs t' rs) = (t' = t)"
| "refers_to t _ = False"

fun refers_to_column :: "string \<Rightarrow> string \<Rightarrow> table_constraint \<Rightarrow> bool" where
  "refers_to_column t c (ForeignKey n cs t' rs) = (t' = t \<and> c \<in> set rs)"
| "refers_to_column t c _ = False"

fun target_exists :: "schema \<Rightarrow> table_constraint \<Rightarrow> bool" where
  "target_exists s (ForeignKey n cs t rs) = has_columns s t rs"
| "target_exists s _ = True"

definition constraint_ok :: "schema \<Rightarrow> table \<Rightarrow> table_constraint \<Rightarrow> bool" where
  "constraint_ok s tb c \<longleftrightarrow> list_all (\<lambda>x. x \<in> set (column_names tb)) (constraint_columns c) \<and> target_exists s c"

definition table_ok :: "schema \<Rightarrow> table \<Rightarrow> bool" where
  "table_ok s tb \<longleftrightarrow> distinct (column_names tb) \<and> distinct (constraint_names tb) \<and> list_all (constraint_ok s tb) (tb_constraints tb)"

text \<open>The catalogue a database keeps: no name twice, and no reference to what is not there.\<close>

definition schema_ok :: "schema \<Rightarrow> bool" where
  "schema_ok s \<longleftrightarrow> distinct (map fst s) \<and> list_all (\<lambda>(n, tb). table_ok s tb) s"

subsection \<open>Operations\<close>

definition schema_error :: exn where
  "schema_error = OtherException ''ProgrammingError''"

definition refuse_unless :: "bool \<Rightarrow> 'a \<Rightarrow> exn + 'a" where
  "refuse_unless ok x = (if ok then Inr x else Inl schema_error)"

definition update_table :: "string \<Rightarrow> (table \<Rightarrow> table) \<Rightarrow> schema \<Rightarrow> schema" where
  "update_table t f s = map (\<lambda>(n, tb). (n, if n = t then f tb else tb)) s"

definition with_table :: "string \<Rightarrow> schema \<Rightarrow> (table \<Rightarrow> exn + schema) \<Rightarrow> exn + schema" where
  "with_table t s f = (case map_of s t of None \<Rightarrow> Inl schema_error | Some tb \<Rightarrow> f tb)"

definition append_column :: "column \<Rightarrow> table \<Rightarrow> table" where
  "append_column c tb = tb\<lparr>tb_columns := tb_columns tb @ [c]\<rparr>"

text \<open>A dropped column takes the constraints of its own table on it with it.\<close>

definition remove_column :: "string \<Rightarrow> table \<Rightarrow> table" where
  "remove_column c tb = \<lparr>tb_columns = filter (\<lambda>x. co_name x \<noteq> c) (tb_columns tb),
     tb_constraints = filter (\<lambda>k. c \<notin> set (constraint_columns k)) (tb_constraints tb)\<rparr>"

definition append_constraint :: "table_constraint \<Rightarrow> table \<Rightarrow> table" where
  "append_constraint c tb = tb\<lparr>tb_constraints := tb_constraints tb @ [c]\<rparr>"

definition is_constraint :: "string \<Rightarrow> constraint_kind \<Rightarrow> table_constraint \<Rightarrow> bool" where
  "is_constraint n k c \<longleftrightarrow> constraint_name c = Some n \<and> kind_is k c"

definition remove_constraint :: "string \<Rightarrow> constraint_kind \<Rightarrow> table \<Rightarrow> table" where
  "remove_constraint n k tb = tb\<lparr>tb_constraints := filter (\<lambda>c. \<not> is_constraint n k c) (tb_constraints tb)\<rparr>"

fun apply_op :: "operation \<Rightarrow> schema \<Rightarrow> exn + schema" where
  "apply_op (CreateTable n tb) s = refuse_unless (map_of s n = None \<and> table_ok (s @ [(n, tb)]) tb) (s @ [(n, tb)])"
| "apply_op (DropTable n) s =
     refuse_unless (map_of s n \<noteq> None \<and> list_all (\<lambda>(m, tb). m = n \<or> \<not> list_ex (refers_to n) (tb_constraints tb)) s)
       (filter (\<lambda>(m, tb). m \<noteq> n) s)"
| "apply_op (AddColumn t c) s = with_table t s (\<lambda>tb. refuse_unless (co_name c \<notin> set (column_names tb)) (update_table t (append_column c) s))"
| "apply_op (DropColumn t c) s = with_table t s (\<lambda>tb.
     refuse_unless (c \<in> set (column_names tb) \<and> list_all (\<lambda>(m, tb'). \<not> list_ex (refers_to_column t c) (tb_constraints tb')) s)
       (update_table t (remove_column c) s))"
| "apply_op (AddConstraint t c) s = with_table t s (\<lambda>tb.
     refuse_unless (constraint_ok s tb c \<and> (case constraint_name c of None \<Rightarrow> True | Some n \<Rightarrow> n \<notin> set (constraint_names tb)))
       (update_table t (append_constraint c) s))"
| "apply_op (DropConstraint n t k) s = with_table t s (\<lambda>tb.
     refuse_unless (list_ex (is_constraint n k) (tb_constraints tb)) (update_table t (remove_constraint n k) s))"

fun run_ops :: "operation list \<Rightarrow> schema \<Rightarrow> exn + schema" where
  "run_ops [] s = Inr s"
| "run_ops (op # ops) s = (case apply_op op s of Inl e \<Rightarrow> Inl e | Inr s' \<Rightarrow> run_ops ops s')"

text \<open>
  What takes an operation back. A drop has no inverse, and neither has a constraint without a name: there is nothing to
  name in the drop.
\<close>

fun undo_op :: "operation \<Rightarrow> operation option" where
  "undo_op (CreateTable n tb) = Some (DropTable n)"
| "undo_op (AddColumn t c) = Some (DropColumn t (co_name c))"
| "undo_op (AddConstraint t (Unique (Some n) cs)) = Some (DropConstraint n t Uniques)"
| "undo_op (AddConstraint t (ForeignKey (Some n) cs t' rs)) = Some (DropConstraint n t ForeignKeys)"
| "undo_op _ = None"

text \<open>
  An operation that loses no row and has a value for every row that is there. A new unique constraint can still be
  refused because of the rows.
\<close>

fun additive :: "operation \<Rightarrow> bool" where
  "additive (AddColumn t c) \<longleftrightarrow> co_nullable c \<or> co_default c \<noteq> None"
| "additive (CreateTable n tb) = True"
| "additive (AddConstraint t c) = True"
| "additive _ = False"

subsection \<open>Laws\<close>

lemmas schema_ops = with_table_def refuse_unless_def

lemma map_of_update_table [simp]:
  "map_of (update_table t f s) n = map_option (if n = t then f else id) (map_of s n)"
  by (induction s) (auto simp: update_table_def)

lemma fst_update_table [simp]: "map fst (update_table t f s) = map fst s"
  by (simp add: update_table_def case_prod_unfold)

lemma in_update_table: "(m, tb') \<in> set (update_table t f s) \<longleftrightarrow> (\<exists>tb. (m, tb) \<in> set s \<and> tb' = (if m = t then f tb else tb))"
proof -
  have "set (update_table t f s) = (\<lambda>x. (fst x, if fst x = t then f (snd x) else snd x)) ` set s"
    by (simp add: update_table_def case_prod_unfold)
  then show ?thesis by force
qed

lemma update_table_twice: "update_table t g (update_table t f s) = update_table t (\<lambda>tb. g (f tb)) s"
  by (simp add: update_table_def case_prod_unfold)

lemma update_table_id:
  assumes "distinct (map fst s)" "map_of s t = Some tb" "f tb = tb"
  shows "update_table t f s = s"
proof -
  have "(case x of (n, y) \<Rightarrow> (n, if n = t then f y else y)) = x" if "x \<in> set s" for x
  proof -
    have "map_of s (fst x) = Some (snd x)" using that assms(1) by simp
    with assms(2,3) show ?thesis by (auto simp: case_prod_unfold prod_eq_iff)
  qed
  then show ?thesis unfolding update_table_def by (rule map_idI)
qed

lemma column_names_ops [simp]:
  "column_names (append_column c tb) = column_names tb @ [co_name c]"
  "column_names (remove_column n tb) = filter (\<lambda>x. x \<noteq> n) (column_names tb)"
  "column_names (append_constraint k tb) = column_names tb" "column_names (remove_constraint x y tb) = column_names tb"
  by (simp_all add: column_names_def append_column_def remove_column_def append_constraint_def remove_constraint_def filter_map comp_def)

lemma schema_okD:
  assumes "schema_ok s" "map_of s t = Some tb"
  shows "distinct (map fst s)" "table_ok s tb" "(t, tb) \<in> set s"
  using assms map_of_SomeD [OF assms(2)] by (auto simp: schema_ok_def list_all_iff)

lemma constraint_columns_present:
  "table_ok s tb \<Longrightarrow> k \<in> set (tb_constraints tb) \<Longrightarrow> x \<in> set (constraint_columns k) \<Longrightarrow> x \<in> set (column_names tb)"
  by (auto simp: table_ok_def constraint_ok_def list_all_iff)

lemma referred_column_exists:
  assumes "schema_ok s" "(m, tb) \<in> set s" "k \<in> set (tb_constraints tb)" "refers_to_column t c k"
  shows "\<exists>tb'. map_of s t = Some tb' \<and> c \<in> set (column_names tb')"
proof -
  have "target_exists s k" using assms(1-3) by (fastforce simp: schema_ok_def table_ok_def constraint_ok_def list_all_iff)
  with assms(4) show ?thesis by (cases k) (auto simp: has_columns_def list_all_iff simp del: map_of_eq_Some_iff split: option.splits)
qed

lemma referred_table_exists:
  assumes "schema_ok s" "(m, tb) \<in> set s" "k \<in> set (tb_constraints tb)" "refers_to t k"
  shows "map_of s t \<noteq> None"
proof -
  have "target_exists s k" using assms(1-3) by (fastforce simp: schema_ok_def table_ok_def constraint_ok_def list_all_iff)
  with assms(4) show ?thesis by (cases k) (auto simp: has_columns_def split: option.splits)
qed

lemma is_constraint_named:
  "constraint_name k = Some n \<Longrightarrow> k \<in> set (tb_constraints tb) \<Longrightarrow> n \<in> set (constraint_names tb)"
  by (force simp: constraint_names_def)

lemma remove_new_constraint:
  assumes "n \<notin> set (constraint_names tb)" "is_constraint n k c"
  shows "remove_constraint n k (append_constraint c tb) = tb"
proof -
  have "\<not> is_constraint n k x" if "x \<in> set (tb_constraints tb)" for x
    using that assms(1) is_constraint_named by (auto simp: is_constraint_def)
  then show ?thesis using assms(2) by (simp add: remove_constraint_def append_constraint_def filter_id_conv)
qed

lemma remove_new_column:
  assumes "co_name c \<notin> set (column_names tb)" "table_ok s tb"
  shows "remove_column (co_name c) (append_column c tb) = tb"
proof -
  have "co_name c \<notin> set (constraint_columns k)" if "k \<in> set (tb_constraints tb)" for k
    using that assms constraint_columns_present by blast
  moreover have "co_name x \<noteq> co_name c" if "x \<in> set (tb_columns tb)" for x
    using that assms(1) by (simp add: column_names_def) (metis imageI)
  ultimately show ?thesis by (simp add: remove_column_def append_column_def filter_id_conv)
qed

lemma inverse_create:
  assumes "schema_ok s" "map_of s n = None"
  shows "apply_op (DropTable n) (s @ [(n, tb)]) = Inr s"
proof -
  have "\<not> list_ex (refers_to n) (tb_constraints tb')" if "(m, tb') \<in> set s" for m tb'
    using referred_table_exists [OF assms(1) that, of _ n] assms(2) by (auto simp: list_ex_iff)
  moreover have "m \<noteq> n" if "(m, tb') \<in> set s" for m tb'
    using that assms(2) by (auto simp: map_of_eq_None_iff image_iff)
  ultimately show ?thesis
    by (auto simp: schema_ops list_all_iff filter_id_conv)
qed

lemma inverse_op:
  assumes ok: "schema_ok s" and run: "apply_op op s = Inr s'" and inv: "undo_op op = Some op'"
  shows "apply_op op' s' = Inr s"
proof (cases op)
  case (CreateTable n tb)
  with assms inverse_create [OF ok] show ?thesis by (auto simp: schema_ops split: if_splits)
next
  case (AddColumn t c)
  with run obtain tb where tb: "map_of s t = Some tb" "co_name c \<notin> set (column_names tb)" "s' = update_table t (append_column c) s"
    by (auto simp: schema_ops split: option.splits if_splits)
  have none: "\<not> refers_to_column t (co_name c) k" if "(m, tb') \<in> set s" "k \<in> set (tb_constraints tb')" for m tb' k
    using referred_column_exists [OF ok that, of t "co_name c"] tb(1,2) by force
  have "list_all (\<lambda>(m, tb'). \<not> list_ex (refers_to_column t (co_name c)) (tb_constraints tb')) s'"
    using none by (auto simp: tb(3) list_all_iff list_ex_iff in_update_table append_column_def split: if_splits)
  moreover have "update_table t (remove_column (co_name c)) s' = s"
    using update_table_id [OF schema_okD(1) [OF ok tb(1)] tb(1)] remove_new_column [OF tb(2) schema_okD(2) [OF ok tb(1)]]
    by (simp add: tb(3) update_table_twice)
  moreover have "map_of s' t = Some (append_column c tb)" using tb by simp
  ultimately show ?thesis using AddColumn inv by (auto simp: schema_ops)
next
  case (AddConstraint t c)
  with inv obtain n k where op': "op' = DropConstraint n t k" and c: "is_constraint n k c"
    by (cases c; cases "constraint_name c") (auto simp: is_constraint_def)
  from AddConstraint run c obtain tb where tb: "map_of s t = Some tb" "n \<notin> set (constraint_names tb)" "s' = update_table t (append_constraint c) s"
    by (auto simp: schema_ops is_constraint_def split: option.splits if_splits)
  have "update_table t (remove_constraint n k) s' = s"
    using update_table_id [OF schema_okD(1) [OF ok tb(1)] tb(1)] remove_new_constraint [OF tb(2) c] by (simp add: tb(3) update_table_twice)
  with tb op' c show ?thesis by (simp add: schema_ops append_constraint_def)
qed (use inv in auto)

lemma target_exists_mono:
  "target_exists s k \<Longrightarrow> (\<And>t rs. has_columns s t rs \<Longrightarrow> has_columns s' t rs) \<Longrightarrow> target_exists s' k"
  by (cases k) auto

lemma table_ok_mono:
  "table_ok s tb \<Longrightarrow> (\<And>t rs. has_columns s t rs \<Longrightarrow> has_columns s' t rs) \<Longrightarrow> table_ok s' tb"
  unfolding table_ok_def constraint_ok_def list_all_iff using target_exists_mono by blast

lemma schema_ok_update:
  assumes ok: "schema_ok s" and tb: "map_of s t = Some tb"
    and fits: "\<And>m y k. (m, y) \<in> set s \<Longrightarrow> k \<in> set (tb_constraints y) \<Longrightarrow> target_exists s k \<Longrightarrow> target_exists (update_table t f s) k"
    and new: "table_ok (update_table t f s) (f tb)"
  shows "schema_ok (update_table t f s)"
proof -
  have "table_ok (update_table t f s) y" if "(m, y) \<in> set (update_table t f s)" for m y
  proof -
    from that obtain z where z: "(m, z) \<in> set s" "y = (if m = t then f z else z)" by (auto simp: in_update_table)
    show ?thesis
    proof (cases "m = t")
      case True
      with z tb schema_okD(1) [OF ok tb] have "z = tb" by (metis map_of_is_SomeI option.inject)
      with z True new show ?thesis by simp
    next
      case False
      have "table_ok s z" using ok z(1) by (auto simp: schema_ok_def list_all_iff)
      with False z fits show ?thesis by (auto simp: table_ok_def constraint_ok_def list_all_iff)
    qed
  qed
  then show ?thesis using schema_okD(1) [OF ok tb] by (auto simp: schema_ok_def list_all_iff)
qed

lemma constraint_names_filter: "distinct (constraint_names tb) \<Longrightarrow> distinct (constraint_names (tb\<lparr>tb_constraints := filter P (tb_constraints tb)\<rparr>))"
proof -
  have "distinct (concat (map f xs)) \<Longrightarrow> distinct (concat (map f (filter P xs)))" for f :: "table_constraint \<Rightarrow> string list" and xs
    by (induction xs) auto
  then show "distinct (constraint_names tb) \<Longrightarrow> distinct (constraint_names (tb\<lparr>tb_constraints := filter P (tb_constraints tb)\<rparr>))"
    by (simp add: constraint_names_def)
qed

theorem apply_op_keeps_schema_ok:
  assumes ok: "schema_ok s" and run: "apply_op op s = Inr s'"
  shows "schema_ok s'"
proof (cases op)
  case (CreateTable n tb)
  with run have n: "map_of s n = None" "table_ok (s @ [(n, tb)]) tb" "s' = s @ [(n, tb)]"
    by (auto simp: schema_ops split: if_splits)
  have "has_columns s t rs \<Longrightarrow> has_columns (s @ [(n, tb)]) t rs" for t rs
    by (auto simp: has_columns_def map_add_def split: option.splits)
  with ok n(2) have "list_all (\<lambda>(m, y). table_ok s' y) s'"
    using table_ok_mono by (fastforce simp: n(3) schema_ok_def list_all_iff)
  with ok n(1) show ?thesis by (auto simp: n(3) schema_ok_def map_of_eq_None_iff)
next
  case (DropTable n)
  with run have n: "list_all (\<lambda>(m, tb). m = n \<or> \<not> list_ex (refers_to n) (tb_constraints tb)) s" "s' = filter (\<lambda>(m, tb). m \<noteq> n) s"
    by (auto simp: schema_ops split: if_splits)
  have found: "map_of s' t = map_of s t" if "t \<noteq> n" for t
    using that unfolding n(2) by (induction s) auto
  have "table_ok s' y" if "(m, y) \<in> set s'" for m y
  proof -
    have y: "table_ok s y" "\<not> list_ex (refers_to n) (tb_constraints y)"
      using that ok n by (auto simp: schema_ok_def list_all_iff)
    have "target_exists s' k" if "k \<in> set (tb_constraints y)" "target_exists s k" for k
    proof -
      have "\<not> refers_to n k" using that(1) y(2) by (auto simp: list_ex_iff)
      with that(2) found show ?thesis by (cases k) (auto simp: has_columns_def)
    qed
    with y(1) show ?thesis by (auto simp: table_ok_def constraint_ok_def list_all_iff)
  qed
  moreover have "distinct (map fst s')" using ok by (simp add: n(2) schema_ok_def distinct_map_filter)
  ultimately show ?thesis by (auto simp: schema_ok_def list_all_iff)
next
  case (AddColumn t c)
  with run obtain tb where tb: "map_of s t = Some tb" "co_name c \<notin> set (column_names tb)" "s' = update_table t (append_column c) s"
    by (auto simp: schema_ops split: option.splits if_splits)
  have more: "has_columns s u rs \<Longrightarrow> has_columns s' u rs" for u rs
    by (auto simp: has_columns_def tb(3) list_all_iff split: option.splits)
  from table_ok_mono [OF schema_okD(2) [OF ok tb(1)] more] tb(2) have "table_ok s' (append_column c tb)"
    by (auto simp: table_ok_def constraint_ok_def list_all_iff constraint_names_def append_column_def column_names_def)
  then show ?thesis using schema_ok_update [OF ok tb(1)] target_exists_mono more tb(3) by blast
next
  case (DropColumn t c)
  with run obtain tb where tb: "map_of s t = Some tb" "s' = update_table t (remove_column c) s"
    and free: "\<And>m y k. (m, y) \<in> set s \<Longrightarrow> k \<in> set (tb_constraints y) \<Longrightarrow> \<not> refers_to_column t c k"
    by (fastforce simp: schema_ops list_all_iff list_ex_iff split: option.splits if_splits)
  have fits: "target_exists s' k" if "(m, y) \<in> set s" "k \<in> set (tb_constraints y)" "target_exists s k" for m y k
    using that(3) free [OF that(1,2)] by (cases k) (auto simp: has_columns_def tb(2) list_all_iff split: option.splits)
  have old: "table_ok s tb" using schema_okD(2) [OF ok tb(1)] .
  have "distinct (constraint_names (remove_column c tb))"
    using constraint_names_filter [of tb] old by (simp add: table_ok_def constraint_names_def remove_column_def)
  moreover have "constraint_ok s' (remove_column c tb) k" if k: "k \<in> set (tb_constraints (remove_column c tb))" for k
  proof -
    have "k \<in> set (tb_constraints tb)" "c \<notin> set (constraint_columns k)" using k by (auto simp: remove_column_def)
    with old fits [OF schema_okD(3) [OF ok tb(1)], of k] show ?thesis by (auto simp: table_ok_def constraint_ok_def list_all_iff)
  qed
  ultimately have "table_ok s' (remove_column c tb)" using old by (simp add: table_ok_def list_all_iff)
  then show ?thesis using schema_ok_update [OF ok tb(1)] fits tb(2) by blast
next
  case (AddConstraint t c)
  with run obtain tb where tb: "map_of s t = Some tb" "s' = update_table t (append_constraint c) s" "constraint_ok s tb c"
    and fresh: "\<And>n. constraint_name c = Some n \<Longrightarrow> n \<notin> set (constraint_names tb)"
    by (fastforce simp: schema_ops split: option.splits if_splits)
  have more: "has_columns s u rs \<Longrightarrow> has_columns s' u rs" for u rs
    by (auto simp: has_columns_def tb(2) split: option.splits)
  have "distinct (constraint_names (append_constraint c tb))"
    using schema_okD(2) [OF ok tb(1)] fresh by (auto simp: table_ok_def constraint_names_def append_constraint_def split: option.splits)
  moreover have "constraint_ok s' (append_constraint c tb) k" if "constraint_ok s tb k" for k
    using that target_exists_mono [OF _ more] by (auto simp: constraint_ok_def)
  moreover have "tb_constraints (append_constraint c tb) = tb_constraints tb @ [c]" by (simp add: append_constraint_def)
  ultimately have "table_ok s' (append_constraint c tb)"
    using schema_okD(2) [OF ok tb(1)] tb(3) by (auto simp: table_ok_def list_all_iff)
  then show ?thesis using schema_ok_update [OF ok tb(1)] target_exists_mono more tb(2) by blast
next
  case (DropConstraint n t k)
  with run obtain tb where tb: "map_of s t = Some tb" "s' = update_table t (remove_constraint n k) s"
    by (auto simp: schema_ops split: option.splits if_splits)
  have more: "has_columns s u rs \<Longrightarrow> has_columns s' u rs" for u rs
    by (auto simp: has_columns_def tb(2) split: option.splits)
  have "table_ok s' (remove_constraint n k tb)"
    using table_ok_mono [OF schema_okD(2) [OF ok tb(1)] more] constraint_names_filter [of tb]
    by (auto simp: table_ok_def constraint_ok_def list_all_iff remove_constraint_def column_names_def)
  then show ?thesis using schema_ok_update [OF ok tb(1)] target_exists_mono more tb(2) by blast
qed

lemma run_ops_append: "run_ops (xs @ ys) s = (case run_ops xs s of Inl e \<Rightarrow> Inl e | Inr s' \<Rightarrow> run_ops ys s')"
  by (induction xs arbitrary: s) (auto split: sum.splits)

lemma run_ops_keep_schema_ok: "schema_ok s \<Longrightarrow> run_ops ops s = Inr s' \<Longrightarrow> schema_ok s'"
  by (induction ops arbitrary: s) (auto split: sum.splits dest: apply_op_keeps_schema_ok)

text \<open>The inverses in the opposite order take a whole sequence back.\<close>

lemma run_inverses:
  "schema_ok s \<Longrightarrow> run_ops ops s = Inr s' \<Longrightarrow> map undo_op ops = map Some undo \<Longrightarrow> run_ops (rev undo) s' = Inr s"
proof (induction ops arbitrary: s undo)
  case (Cons op ops)
  then obtain op' undo' s1 where u: "undo = op' # undo'" "undo_op op = Some op'" "map undo_op ops = map Some undo'"
    "apply_op op s = Inr s1" "run_ops ops s1 = Inr s'" by (auto simp: Cons_eq_map_conv split: sum.splits)
  have "run_ops (rev undo') s' = Inr s1"
    using Cons.IH [OF apply_op_keeps_schema_ok [OF Cons.prems(1) u(4)] u(5) u(3)] .
  with inverse_op [OF Cons.prems(1) u(4) u(2)] u(1) show ?case by (simp add: run_ops_append)
qed simp

end
