(* ===== verification/Migrations.thy ===== *)
theory Migrations
  imports Schema
begin

section \<open>The migrations and the schema the ORM declares\<close>

text \<open>
  \<open>alembic/versions\<close>: every revision as the list of operations its \<open>upgrade\<close> and its \<open>downgrade\<close> perform, in their
  order. \<open>app/persistence/models.py\<close>: every table as its class declares it; a column of a foreign key has the type of
  the column it refers to, and a column is nullable when its annotation admits \<open>None\<close>.
\<close>

subsection \<open>What the models declare\<close>

definition orm_tenants :: table where
  "orm_tenants = \<lparr>
     tb_columns = [
       required_col ''id'' (VarChar 36), required_col ''name'' (VarChar 255),
       default_col ''created_at'' TimestampTz False ''now()''],
     tb_constraints = [
       PrimaryKey [''id''], Unique None [''name'']]\<rparr>"

definition orm_users :: table where
  "orm_users = \<lparr>
     tb_columns = [
       required_col ''id'' (VarChar 36), required_col ''tenant_id'' (VarChar 36),
       required_col ''email'' (VarChar 320), required_col ''role'' (VarChar 32),
       default_col ''created_at'' TimestampTz False ''now()''],
     tb_constraints = [
       PrimaryKey [''id''], Unique None [''email''], ForeignKey None [''tenant_id''] ''tenants'' [''id'']]\<rparr>"

definition orm_api_keys :: table where
  "orm_api_keys = \<lparr>
     tb_columns = [
       required_col ''id'' (VarChar 36), required_col ''tenant_id'' (VarChar 36),
       required_col ''key_hash'' (VarChar 128), nullable_col ''label'' (VarChar 255),
       nullable_col ''prefix'' (VarChar 16), required_col ''revoked'' BooleanType,
       nullable_col ''created_by_user_id'' (VarChar 36), nullable_col ''last_used_at'' TimestampTz,
       default_col ''created_at'' TimestampTz False ''now()''],
     tb_constraints = [
       PrimaryKey [''id''], Unique None [''key_hash''], ForeignKey None [''tenant_id''] ''tenants'' [''id''],
       ForeignKey None [''created_by_user_id''] ''users'' [''id'']]\<rparr>"

definition orm_components :: table where
  "orm_components = \<lparr>
     tb_columns = [
       required_col ''id'' (VarChar 36), required_col ''name'' (VarChar 128), required_col ''version'' (VarChar 64),
       required_col ''category'' (VarChar 32), required_col ''manifest'' JsonType,
       default_col ''created_at'' TimestampTz False ''now()''],
     tb_constraints = [
       PrimaryKey [''id''], Unique (Some ''uq_component_name_version'') [''name'', ''version'']]\<rparr>"

definition orm_templates :: table where
  "orm_templates = \<lparr>
     tb_columns = [
       required_col ''id'' (VarChar 36), required_col ''name'' (VarChar 128), required_col ''version'' (VarChar 64),
       required_col ''manifest'' JsonType, default_col ''created_at'' TimestampTz False ''now()''],
     tb_constraints = [
       PrimaryKey [''id''], Unique (Some ''uq_template_name_version'') [''name'', ''version'']]\<rparr>"

definition orm_component_entitlements :: table where
  "orm_component_entitlements = \<lparr>
     tb_columns = [
       required_col ''id'' (VarChar 36), required_col ''scope'' (VarChar 16), required_col ''scope_id'' (VarChar 36),
       required_col ''component_name'' (VarChar 128), required_col ''version_range'' (VarChar 64),
       required_col ''visible'' BooleanType],
     tb_constraints = [
       PrimaryKey [''id'']]\<rparr>"

definition orm_publish_grants :: table where
  "orm_publish_grants = \<lparr>
     tb_columns = [
       required_col ''id'' (VarChar 36), required_col ''scope'' (VarChar 16), required_col ''scope_id'' (VarChar 36),
       required_col ''category'' (VarChar 32), required_col ''allowed'' BooleanType],
     tb_constraints = [
       PrimaryKey [''id'']]\<rparr>"

definition orm_sandboxes :: table where
  "orm_sandboxes = \<lparr>
     tb_columns = [
       required_col ''id'' (VarChar 36), required_col ''tenant_id'' (VarChar 36),
       nullable_col ''user_id'' (VarChar 36), nullable_col ''template_ref'' (VarChar 255),
       required_col ''component_refs'' JsonType, required_col ''backend'' (VarChar 16),
       nullable_col ''native_ref'' (VarChar 255), required_col ''sidecar_refs'' JsonType,
       required_col ''state'' (VarChar 16), required_col ''weight_class'' (VarChar 16),
       required_col ''persistent'' BooleanType, nullable_col ''workspace_id'' (VarChar 36),
       nullable_col ''idle_ttl_seconds'' IntegerType, nullable_col ''max_ttl_seconds'' IntegerType,
       default_col ''created_at'' TimestampTz False ''now()'', nullable_col ''last_active_at'' TimestampTz,
       nullable_col ''terminated_at'' TimestampTz],
     tb_constraints = [
       PrimaryKey [''id''], ForeignKey None [''tenant_id''] ''tenants'' [''id''],
       ForeignKey None [''user_id''] ''users'' [''id''], ForeignKey None [''workspace_id''] ''workspaces'' [''id'']]\<rparr>"

definition orm_runs :: table where
  "orm_runs = \<lparr>
     tb_columns = [
       required_col ''id'' (VarChar 36), nullable_col ''sandbox_id'' (VarChar 36),
       required_col ''tenant_id'' (VarChar 36), required_col ''command'' JsonType,
       required_col ''status'' (VarChar 16), nullable_col ''component_ref'' (VarChar 255),
       nullable_col ''error'' TextType, nullable_col ''exit_code'' IntegerType,
       nullable_col ''stdout_excerpt'' TextType, nullable_col ''stderr_excerpt'' TextType,
       nullable_col ''variables'' JsonType, required_col ''truncated'' BooleanType,
       required_col ''timed_out'' BooleanType, nullable_col ''duration_ms'' IntegerType,
       default_col ''created_at'' TimestampTz False ''now()'', nullable_col ''finished_at'' TimestampTz],
     tb_constraints = [
       PrimaryKey [''id''], ForeignKey None [''sandbox_id''] ''sandboxes'' [''id''],
       ForeignKey None [''tenant_id''] ''tenants'' [''id'']]\<rparr>"

definition orm_builds :: table where
  "orm_builds = \<lparr>
     tb_columns = [
       required_col ''id'' (VarChar 36), required_col ''component_name'' (VarChar 128),
       required_col ''component_version'' (VarChar 64), nullable_col ''tenant_id'' (VarChar 36),
       required_col ''strategy'' (VarChar 16), required_col ''status'' (VarChar 16),
       nullable_col ''image_ref'' (VarChar 255), nullable_col ''artifact_ref'' (VarChar 255),
       nullable_col ''log_excerpt'' TextType, nullable_col ''error'' TextType,
       required_col ''requested_by'' (VarChar 255), nullable_col ''started_at'' TimestampTz,
       nullable_col ''finished_at'' TimestampTz, default_col ''created_at'' TimestampTz False ''now()''],
     tb_constraints = [
       PrimaryKey [''id''], ForeignKey None [''tenant_id''] ''tenants'' [''id'']]\<rparr>"

definition orm_workspaces :: table where
  "orm_workspaces = \<lparr>
     tb_columns = [
       required_col ''id'' (VarChar 36), required_col ''user_id'' (VarChar 36),
       required_col ''quota_mb'' IntegerType, required_col ''used_mb'' IntegerType,
       required_col ''state'' (VarChar 16), default_col ''last_access_at'' TimestampTz False ''now()'',
       default_col ''created_at'' TimestampTz False ''now()''],
     tb_constraints = [
       PrimaryKey [''id''], ForeignKey None [''user_id''] ''users'' [''id'']]\<rparr>"

definition orm_pool_state :: table where
  "orm_pool_state = \<lparr>
     tb_columns = [
       required_col ''id'' (VarChar 36), required_col ''image_digest'' (VarChar 128),
       required_col ''weight_class'' (VarChar 16), required_col ''idle_count'' IntegerType,
       default_col ''updated_at'' TimestampTz False ''now()''],
     tb_constraints = [
       PrimaryKey [''id''], Unique (Some ''uq_pool_state_key'') [''image_digest'', ''weight_class'']]\<rparr>"

definition orm_quotas :: table where
  "orm_quotas = \<lparr>
     tb_columns = [
       required_col ''tenant_id'' (VarChar 36), nullable_col ''max_concurrent_sandboxes'' IntegerType,
       nullable_col ''max_cpu_millicores'' IntegerType, nullable_col ''max_memory_mb'' IntegerType,
       nullable_col ''max_monthly_minutes'' IntegerType, default_col ''updated_at'' TimestampTz False ''now()''],
     tb_constraints = [
       PrimaryKey [''tenant_id''], ForeignKey None [''tenant_id''] ''tenants'' [''id'']]\<rparr>"

definition orm_pool_members :: table where
  "orm_pool_members = \<lparr>
     tb_columns = [
       required_col ''id'' (VarChar 36), required_col ''image_ref'' (VarChar 255),
       required_col ''weight_class'' (VarChar 16), required_col ''backend'' (VarChar 16),
       required_col ''native_ref'' (VarChar 255), default_col ''created_at'' TimestampTz False ''now()''],
     tb_constraints = [
       PrimaryKey [''id'']]\<rparr>"

definition orm_billing_accounts :: table where
  "orm_billing_accounts = \<lparr>
     tb_columns = [
       required_col ''tenant_id'' (VarChar 36), required_col ''mode'' (VarChar 16),
       nullable_col ''spend_cap'' (Decimal 12 2), required_col ''currency'' (VarChar 8)],
     tb_constraints = [
       PrimaryKey [''tenant_id''], ForeignKey None [''tenant_id''] ''tenants'' [''id'']]\<rparr>"

definition orm_pricing_rules :: table where
  "orm_pricing_rules = \<lparr>
     tb_columns = [
       required_col ''id'' (VarChar 36), required_col ''resource_type'' (VarChar 32),
       required_col ''unit_cost'' (Decimal 12 6), required_col ''currency'' (VarChar 8),
       default_col ''effective_from'' TimestampTz False ''now()''],
     tb_constraints = [
       PrimaryKey [''id'']]\<rparr>"

definition orm_usage_records :: table where
  "orm_usage_records = \<lparr>
     tb_columns = [
       required_col ''id'' (VarChar 36), required_col ''tenant_id'' (VarChar 36),
       nullable_col ''sandbox_id'' (VarChar 36), nullable_col ''run_id'' (VarChar 36),
       required_col ''resource_type'' (VarChar 32), required_col ''quantity'' (Decimal 14 6),
       required_col ''cost'' (Decimal 12 6), default_col ''recorded_at'' TimestampTz False ''now()''],
     tb_constraints = [
       PrimaryKey [''id''], ForeignKey None [''tenant_id''] ''tenants'' [''id''],
       ForeignKey None [''sandbox_id''] ''sandboxes'' [''id''], ForeignKey None [''run_id''] ''runs'' [''id'']]\<rparr>"

definition orm_credit_wallets :: table where
  "orm_credit_wallets = \<lparr>
     tb_columns = [
       required_col ''tenant_id'' (VarChar 36), required_col ''balance'' (Decimal 14 6),
       required_col ''low_balance_threshold'' (Decimal 14 6)],
     tb_constraints = [
       PrimaryKey [''tenant_id''], ForeignKey None [''tenant_id''] ''tenants'' [''id'']]\<rparr>"

definition orm_credit_ledger :: table where
  "orm_credit_ledger = \<lparr>
     tb_columns = [
       required_col ''id'' (VarChar 36), required_col ''tenant_id'' (VarChar 36),
       required_col ''delta'' (Decimal 14 6), required_col ''reason'' (VarChar 255),
       required_col ''balance_after'' (Decimal 14 6), default_col ''created_at'' TimestampTz False ''now()''],
     tb_constraints = [
       PrimaryKey [''id''], ForeignKey None [''tenant_id''] ''tenants'' [''id'']]\<rparr>"

definition orm_invoices :: table where
  "orm_invoices = \<lparr>
     tb_columns = [
       required_col ''id'' (VarChar 36), required_col ''tenant_id'' (VarChar 36),
       required_col ''period_start'' TimestampTz, required_col ''period_end'' TimestampTz,
       required_col ''total_cost'' (Decimal 12 2), required_col ''status'' (VarChar 16),
       nullable_col ''external_ref'' (VarChar 255)],
     tb_constraints = [
       PrimaryKey [''id''], ForeignKey None [''tenant_id''] ''tenants'' [''id'']]\<rparr>"

definition orm_credit_requests :: table where
  "orm_credit_requests = \<lparr>
     tb_columns = [
       required_col ''id'' (VarChar 36), required_col ''tenant_id'' (VarChar 36),
       nullable_col ''user_id'' (VarChar 36), required_col ''amount'' (Decimal 14 6),
       required_col ''reason'' TextType, required_col ''status'' (VarChar 16), nullable_col ''review_note'' TextType,
       nullable_col ''reviewed_by'' (VarChar 36), default_col ''created_at'' TimestampTz False ''now()'',
       nullable_col ''reviewed_at'' TimestampTz],
     tb_constraints = [
       PrimaryKey [''id''], ForeignKey None [''tenant_id''] ''tenants'' [''id''],
       ForeignKey None [''user_id''] ''users'' [''id'']]\<rparr>"

definition orm_audit_logs :: table where
  "orm_audit_logs = \<lparr>
     tb_columns = [
       required_col ''id'' (VarChar 36), nullable_col ''tenant_id'' (VarChar 36),
       required_col ''actor'' (VarChar 255), required_col ''action'' (VarChar 64),
       nullable_col ''target'' (VarChar 255), nullable_col ''detail'' JsonType,
       default_col ''created_at'' TimestampTz False ''now()''],
     tb_constraints = [
       PrimaryKey [''id''], ForeignKey None [''tenant_id''] ''tenants'' [''id'']]\<rparr>"

definition declared_schema :: schema where
  "declared_schema = [
     (''tenants'', orm_tenants), (''users'', orm_users), (''api_keys'', orm_api_keys),
     (''components'', orm_components), (''templates'', orm_templates),
     (''component_entitlements'', orm_component_entitlements), (''publish_grants'', orm_publish_grants),
     (''sandboxes'', orm_sandboxes), (''runs'', orm_runs), (''builds'', orm_builds),
     (''workspaces'', orm_workspaces), (''pool_state'', orm_pool_state), (''quotas'', orm_quotas),
     (''pool_members'', orm_pool_members), (''billing_accounts'', orm_billing_accounts),
     (''pricing_rules'', orm_pricing_rules), (''usage_records'', orm_usage_records),
     (''credit_wallets'', orm_credit_wallets), (''credit_ledger'', orm_credit_ledger), (''invoices'', orm_invoices),
     (''credit_requests'', orm_credit_requests), (''audit_logs'', orm_audit_logs)]"


subsection \<open>The revisions\<close>

record revision =
  rv_id :: string
  rv_down :: "string option"
  rv_upgrade :: "operation list"
  rv_downgrade :: "operation list"

paragraph \<open>Revision f3b826b15c91\<close>

definition created_component_entitlements :: table where
  "created_component_entitlements = \<lparr>
     tb_columns = [
       required_col ''id'' (VarChar 36), required_col ''scope'' (VarChar 16), required_col ''scope_id'' (VarChar 36),
       required_col ''component_name'' (VarChar 128), required_col ''version_range'' (VarChar 64),
       required_col ''visible'' BooleanType],
     tb_constraints = [
       PrimaryKey [''id'']]\<rparr>"

definition created_components :: table where
  "created_components = \<lparr>
     tb_columns = [
       required_col ''id'' (VarChar 36), required_col ''name'' (VarChar 128), required_col ''version'' (VarChar 64),
       required_col ''category'' (VarChar 32), required_col ''manifest'' JsonType,
       default_col ''created_at'' TimestampTz False ''CURRENT_TIMESTAMP''],
     tb_constraints = [
       PrimaryKey [''id''], Unique (Some ''uq_component_name_version'') [''name'', ''version'']]\<rparr>"

definition created_pool_state :: table where
  "created_pool_state = \<lparr>
     tb_columns = [
       required_col ''id'' (VarChar 36), required_col ''image_digest'' (VarChar 128),
       required_col ''weight_class'' (VarChar 16), required_col ''idle_count'' IntegerType,
       default_col ''updated_at'' TimestampTz False ''CURRENT_TIMESTAMP''],
     tb_constraints = [
       PrimaryKey [''id'']]\<rparr>"

definition created_pricing_rules :: table where
  "created_pricing_rules = \<lparr>
     tb_columns = [
       required_col ''id'' (VarChar 36), required_col ''resource_type'' (VarChar 32),
       required_col ''unit_cost'' (Decimal 12 6), required_col ''currency'' (VarChar 8),
       default_col ''effective_from'' TimestampTz False ''CURRENT_TIMESTAMP''],
     tb_constraints = [
       PrimaryKey [''id'']]\<rparr>"

definition created_publish_grants :: table where
  "created_publish_grants = \<lparr>
     tb_columns = [
       required_col ''id'' (VarChar 36), required_col ''scope'' (VarChar 16), required_col ''scope_id'' (VarChar 36),
       required_col ''category'' (VarChar 32), required_col ''allowed'' BooleanType],
     tb_constraints = [
       PrimaryKey [''id'']]\<rparr>"

definition created_templates :: table where
  "created_templates = \<lparr>
     tb_columns = [
       required_col ''id'' (VarChar 36), required_col ''name'' (VarChar 128), required_col ''version'' (VarChar 64),
       required_col ''manifest'' JsonType, default_col ''created_at'' TimestampTz False ''CURRENT_TIMESTAMP''],
     tb_constraints = [
       PrimaryKey [''id''], Unique (Some ''uq_template_name_version'') [''name'', ''version'']]\<rparr>"

definition created_tenants :: table where
  "created_tenants = \<lparr>
     tb_columns = [
       required_col ''id'' (VarChar 36), required_col ''name'' (VarChar 255),
       default_col ''created_at'' TimestampTz False ''CURRENT_TIMESTAMP''],
     tb_constraints = [
       PrimaryKey [''id''], Unique None [''name'']]\<rparr>"

definition created_api_keys :: table where
  "created_api_keys = \<lparr>
     tb_columns = [
       required_col ''id'' (VarChar 36), required_col ''tenant_id'' (VarChar 36),
       required_col ''key_hash'' (VarChar 128), nullable_col ''label'' (VarChar 255),
       required_col ''revoked'' BooleanType, default_col ''created_at'' TimestampTz False ''CURRENT_TIMESTAMP''],
     tb_constraints = [
       ForeignKey None [''tenant_id''] ''tenants'' [''id''], PrimaryKey [''id''], Unique None [''key_hash'']]\<rparr>"

definition created_audit_logs :: table where
  "created_audit_logs = \<lparr>
     tb_columns = [
       required_col ''id'' (VarChar 36), nullable_col ''tenant_id'' (VarChar 36),
       required_col ''actor'' (VarChar 255), required_col ''action'' (VarChar 64),
       nullable_col ''target'' (VarChar 255), nullable_col ''detail'' JsonType,
       default_col ''created_at'' TimestampTz False ''CURRENT_TIMESTAMP''],
     tb_constraints = [
       ForeignKey None [''tenant_id''] ''tenants'' [''id''], PrimaryKey [''id'']]\<rparr>"

definition created_billing_accounts :: table where
  "created_billing_accounts = \<lparr>
     tb_columns = [
       required_col ''tenant_id'' (VarChar 36), required_col ''mode'' (VarChar 16),
       nullable_col ''spend_cap'' (Decimal 12 2), required_col ''currency'' (VarChar 8)],
     tb_constraints = [
       ForeignKey None [''tenant_id''] ''tenants'' [''id''], PrimaryKey [''tenant_id'']]\<rparr>"

definition created_credit_ledger :: table where
  "created_credit_ledger = \<lparr>
     tb_columns = [
       required_col ''id'' (VarChar 36), required_col ''tenant_id'' (VarChar 36),
       required_col ''delta'' (Decimal 14 6), required_col ''reason'' (VarChar 255),
       required_col ''balance_after'' (Decimal 14 6),
       default_col ''created_at'' TimestampTz False ''CURRENT_TIMESTAMP''],
     tb_constraints = [
       ForeignKey None [''tenant_id''] ''tenants'' [''id''], PrimaryKey [''id'']]\<rparr>"

definition created_credit_wallets :: table where
  "created_credit_wallets = \<lparr>
     tb_columns = [
       required_col ''tenant_id'' (VarChar 36), required_col ''balance'' (Decimal 14 6),
       required_col ''low_balance_threshold'' (Decimal 14 6)],
     tb_constraints = [
       ForeignKey None [''tenant_id''] ''tenants'' [''id''], PrimaryKey [''tenant_id'']]\<rparr>"

definition created_invoices :: table where
  "created_invoices = \<lparr>
     tb_columns = [
       required_col ''id'' (VarChar 36), required_col ''tenant_id'' (VarChar 36),
       required_col ''period_start'' TimestampTz, required_col ''period_end'' TimestampTz,
       required_col ''total_cost'' (Decimal 12 2), required_col ''status'' (VarChar 16),
       nullable_col ''external_ref'' (VarChar 255)],
     tb_constraints = [
       ForeignKey None [''tenant_id''] ''tenants'' [''id''], PrimaryKey [''id'']]\<rparr>"

definition created_users :: table where
  "created_users = \<lparr>
     tb_columns = [
       required_col ''id'' (VarChar 36), required_col ''tenant_id'' (VarChar 36),
       required_col ''email'' (VarChar 320), required_col ''role'' (VarChar 32),
       default_col ''created_at'' TimestampTz False ''CURRENT_TIMESTAMP''],
     tb_constraints = [
       ForeignKey None [''tenant_id''] ''tenants'' [''id''], PrimaryKey [''id''], Unique None [''email'']]\<rparr>"

definition created_sandboxes :: table where
  "created_sandboxes = \<lparr>
     tb_columns = [
       required_col ''id'' (VarChar 36), required_col ''tenant_id'' (VarChar 36),
       nullable_col ''user_id'' (VarChar 36), nullable_col ''template_ref'' (VarChar 255),
       required_col ''component_refs'' JsonType, required_col ''backend'' (VarChar 16),
       nullable_col ''native_ref'' (VarChar 255), required_col ''state'' (VarChar 16),
       required_col ''weight_class'' (VarChar 16), required_col ''persistent'' BooleanType,
       default_col ''created_at'' TimestampTz False ''CURRENT_TIMESTAMP'',
       nullable_col ''last_active_at'' TimestampTz, nullable_col ''terminated_at'' TimestampTz],
     tb_constraints = [
       ForeignKey None [''tenant_id''] ''tenants'' [''id''], ForeignKey None [''user_id''] ''users'' [''id''],
       PrimaryKey [''id'']]\<rparr>"

definition created_workspaces :: table where
  "created_workspaces = \<lparr>
     tb_columns = [
       required_col ''id'' (VarChar 36), required_col ''user_id'' (VarChar 36),
       required_col ''quota_mb'' IntegerType, required_col ''used_mb'' IntegerType,
       required_col ''state'' (VarChar 16), default_col ''last_access_at'' TimestampTz False ''CURRENT_TIMESTAMP'',
       default_col ''created_at'' TimestampTz False ''CURRENT_TIMESTAMP''],
     tb_constraints = [
       ForeignKey None [''user_id''] ''users'' [''id''], PrimaryKey [''id'']]\<rparr>"

definition created_runs :: table where
  "created_runs = \<lparr>
     tb_columns = [
       required_col ''id'' (VarChar 36), nullable_col ''sandbox_id'' (VarChar 36),
       required_col ''tenant_id'' (VarChar 36), required_col ''command'' JsonType,
       nullable_col ''exit_code'' IntegerType, nullable_col ''stdout_excerpt'' TextType,
       nullable_col ''stderr_excerpt'' TextType, nullable_col ''variables'' JsonType,
       required_col ''truncated'' BooleanType, required_col ''timed_out'' BooleanType,
       nullable_col ''duration_ms'' IntegerType, default_col ''created_at'' TimestampTz False ''CURRENT_TIMESTAMP''],
     tb_constraints = [
       ForeignKey None [''sandbox_id''] ''sandboxes'' [''id''], ForeignKey None [''tenant_id''] ''tenants'' [''id''],
       PrimaryKey [''id'']]\<rparr>"

definition created_usage_records :: table where
  "created_usage_records = \<lparr>
     tb_columns = [
       required_col ''id'' (VarChar 36), required_col ''tenant_id'' (VarChar 36),
       nullable_col ''sandbox_id'' (VarChar 36), nullable_col ''run_id'' (VarChar 36),
       required_col ''resource_type'' (VarChar 32), required_col ''quantity'' (Decimal 14 6),
       required_col ''cost'' (Decimal 12 6), default_col ''recorded_at'' TimestampTz False ''CURRENT_TIMESTAMP''],
     tb_constraints = [
       ForeignKey None [''run_id''] ''runs'' [''id''], ForeignKey None [''sandbox_id''] ''sandboxes'' [''id''],
       ForeignKey None [''tenant_id''] ''tenants'' [''id''], PrimaryKey [''id'']]\<rparr>"

definition upgrade_f3b826b15c91 :: "operation list" where
  "upgrade_f3b826b15c91 = [
     CreateTable ''component_entitlements'' created_component_entitlements,
     CreateTable ''components'' created_components, CreateTable ''pool_state'' created_pool_state,
     CreateTable ''pricing_rules'' created_pricing_rules, CreateTable ''publish_grants'' created_publish_grants,
     CreateTable ''templates'' created_templates, CreateTable ''tenants'' created_tenants,
     CreateTable ''api_keys'' created_api_keys, CreateTable ''audit_logs'' created_audit_logs,
     CreateTable ''billing_accounts'' created_billing_accounts, CreateTable ''credit_ledger'' created_credit_ledger,
     CreateTable ''credit_wallets'' created_credit_wallets, CreateTable ''invoices'' created_invoices,
     CreateTable ''users'' created_users, CreateTable ''sandboxes'' created_sandboxes,
     CreateTable ''workspaces'' created_workspaces, CreateTable ''runs'' created_runs,
     CreateTable ''usage_records'' created_usage_records]"

definition downgrade_f3b826b15c91 :: "operation list" where
  "downgrade_f3b826b15c91 = [
     DropTable ''usage_records'', DropTable ''runs'', DropTable ''workspaces'', DropTable ''sandboxes'',
     DropTable ''users'', DropTable ''invoices'', DropTable ''credit_wallets'', DropTable ''credit_ledger'',
     DropTable ''billing_accounts'', DropTable ''audit_logs'', DropTable ''api_keys'', DropTable ''tenants'',
     DropTable ''templates'', DropTable ''publish_grants'', DropTable ''pricing_rules'', DropTable ''pool_state'',
     DropTable ''components'', DropTable ''component_entitlements'']"

paragraph \<open>Revision abcaabfd20d0\<close>

definition upgrade_abcaabfd20d0 :: "operation list" where
  "upgrade_abcaabfd20d0 = [
     AddColumn ''sandboxes'' (default_col ''sidecar_refs'' JsonType False ''{}'')]"

definition downgrade_abcaabfd20d0 :: "operation list" where
  "downgrade_abcaabfd20d0 = [
     DropColumn ''sandboxes'' ''sidecar_refs'']"

paragraph \<open>Revision d10dc67d3bce\<close>

definition created_builds :: table where
  "created_builds = \<lparr>
     tb_columns = [
       required_col ''id'' (VarChar 36), required_col ''component_name'' (VarChar 128),
       required_col ''component_version'' (VarChar 64), nullable_col ''tenant_id'' (VarChar 36),
       required_col ''strategy'' (VarChar 16), required_col ''status'' (VarChar 16),
       nullable_col ''image_ref'' (VarChar 255), nullable_col ''artifact_ref'' (VarChar 255),
       nullable_col ''log_excerpt'' TextType, nullable_col ''error'' TextType,
       required_col ''requested_by'' (VarChar 255), nullable_col ''started_at'' TimestampTz,
       nullable_col ''finished_at'' TimestampTz, default_col ''created_at'' TimestampTz False ''(CURRENT_TIMESTAMP)''],
     tb_constraints = [
       ForeignKey None [''tenant_id''] ''tenants'' [''id''], PrimaryKey [''id'']]\<rparr>"

definition upgrade_d10dc67d3bce :: "operation list" where
  "upgrade_d10dc67d3bce = [
     CreateTable ''builds'' created_builds]"

definition downgrade_d10dc67d3bce :: "operation list" where
  "downgrade_d10dc67d3bce = [
     DropTable ''builds'']"

paragraph \<open>Revision 7f07c054e570\<close>

definition created_pool_members :: table where
  "created_pool_members = \<lparr>
     tb_columns = [
       required_col ''id'' (VarChar 36), required_col ''image_ref'' (VarChar 255),
       required_col ''weight_class'' (VarChar 16), required_col ''backend'' (VarChar 16),
       required_col ''native_ref'' (VarChar 255), default_col ''created_at'' TimestampTz False ''now()''],
     tb_constraints = [
       PrimaryKey [''id'']]\<rparr>"

definition upgrade_7f07c054e570 :: "operation list" where
  "upgrade_7f07c054e570 = [
     CreateTable ''pool_members'' created_pool_members,
     AddConstraint ''pool_state'' (Unique (Some ''uq_pool_state_key'') [''image_digest'', ''weight_class'']),
     AddColumn ''sandboxes'' (nullable_col ''workspace_id'' (VarChar 36)),
     AddColumn ''sandboxes'' (nullable_col ''idle_ttl_seconds'' IntegerType),
     AddColumn ''sandboxes'' (nullable_col ''max_ttl_seconds'' IntegerType),
     AddConstraint ''sandboxes'' (ForeignKey (Some ''fk_sandboxes_workspace_id_workspaces'') [''workspace_id''] ''workspaces'' [''id''])]"

definition downgrade_7f07c054e570 :: "operation list" where
  "downgrade_7f07c054e570 = [
     DropConstraint ''fk_sandboxes_workspace_id_workspaces'' ''sandboxes'' ForeignKeys,
     DropColumn ''sandboxes'' ''max_ttl_seconds'', DropColumn ''sandboxes'' ''idle_ttl_seconds'',
     DropColumn ''sandboxes'' ''workspace_id'', DropConstraint ''uq_pool_state_key'' ''pool_state'' Uniques,
     DropTable ''pool_members'']"

paragraph \<open>Revision 4657775fb046\<close>

definition created_credit_requests :: table where
  "created_credit_requests = \<lparr>
     tb_columns = [
       required_col ''id'' (VarChar 36), required_col ''tenant_id'' (VarChar 36),
       nullable_col ''user_id'' (VarChar 36), required_col ''amount'' (Decimal 14 6),
       required_col ''reason'' TextType, required_col ''status'' (VarChar 16), nullable_col ''review_note'' TextType,
       nullable_col ''reviewed_by'' (VarChar 36), default_col ''created_at'' TimestampTz False ''now()'',
       nullable_col ''reviewed_at'' TimestampTz],
     tb_constraints = [
       ForeignKey None [''tenant_id''] ''tenants'' [''id''], ForeignKey None [''user_id''] ''users'' [''id''],
       PrimaryKey [''id'']]\<rparr>"

definition upgrade_4657775fb046 :: "operation list" where
  "upgrade_4657775fb046 = [
     CreateTable ''credit_requests'' created_credit_requests]"

definition downgrade_4657775fb046 :: "operation list" where
  "downgrade_4657775fb046 = [
     DropTable ''credit_requests'']"

paragraph \<open>Revision 9a1c4e77b210\<close>

definition upgrade_9a1c4e77b210 :: "operation list" where
  "upgrade_9a1c4e77b210 = [
     AddColumn ''api_keys'' (nullable_col ''prefix'' (VarChar 16)),
     AddColumn ''api_keys'' (nullable_col ''created_by_user_id'' (VarChar 36)),
     AddColumn ''api_keys'' (nullable_col ''last_used_at'' TimestampTz),
     AddConstraint ''api_keys'' (ForeignKey (Some ''fk_api_keys_created_by_user_id_users'') [''created_by_user_id''] ''users'' [''id'']),
     AddColumn ''runs'' (default_col ''status'' (VarChar 16) False ''completed''),
     AddColumn ''runs'' (nullable_col ''component_ref'' (VarChar 255)),
     AddColumn ''runs'' (nullable_col ''error'' TextType),
     AddColumn ''runs'' (nullable_col ''finished_at'' TimestampTz)]"

definition downgrade_9a1c4e77b210 :: "operation list" where
  "downgrade_9a1c4e77b210 = [
     DropColumn ''runs'' ''finished_at'', DropColumn ''runs'' ''error'', DropColumn ''runs'' ''component_ref'',
     DropColumn ''runs'' ''status'',
     DropConstraint ''fk_api_keys_created_by_user_id_users'' ''api_keys'' ForeignKeys,
     DropColumn ''api_keys'' ''last_used_at'', DropColumn ''api_keys'' ''created_by_user_id'',
     DropColumn ''api_keys'' ''prefix'']"

paragraph \<open>Revision c3f81a92e740\<close>

definition created_quotas :: table where
  "created_quotas = \<lparr>
     tb_columns = [
       required_col ''tenant_id'' (VarChar 36), nullable_col ''max_concurrent_sandboxes'' IntegerType,
       nullable_col ''max_cpu_millicores'' IntegerType, nullable_col ''max_memory_mb'' IntegerType,
       nullable_col ''max_monthly_minutes'' IntegerType, default_col ''updated_at'' TimestampTz False ''now()''],
     tb_constraints = [
       ForeignKey None [''tenant_id''] ''tenants'' [''id''], PrimaryKey [''tenant_id'']]\<rparr>"

definition upgrade_c3f81a92e740 :: "operation list" where
  "upgrade_c3f81a92e740 = [
     CreateTable ''quotas'' created_quotas]"

definition downgrade_c3f81a92e740 :: "operation list" where
  "downgrade_c3f81a92e740 = [
     DropTable ''quotas'']"

paragraph \<open>The revisions\<close>

definition revision_f3b826b15c91 :: revision where
  "revision_f3b826b15c91 = \<lparr>rv_id = ''f3b826b15c91'', rv_down = None, rv_upgrade = upgrade_f3b826b15c91, rv_downgrade = downgrade_f3b826b15c91\<rparr>"

definition revision_abcaabfd20d0 :: revision where
  "revision_abcaabfd20d0 = \<lparr>rv_id = ''abcaabfd20d0'', rv_down = Some ''f3b826b15c91'', rv_upgrade = upgrade_abcaabfd20d0, rv_downgrade = downgrade_abcaabfd20d0\<rparr>"

definition revision_d10dc67d3bce :: revision where
  "revision_d10dc67d3bce = \<lparr>rv_id = ''d10dc67d3bce'', rv_down = Some ''abcaabfd20d0'', rv_upgrade = upgrade_d10dc67d3bce, rv_downgrade = downgrade_d10dc67d3bce\<rparr>"

definition revision_7f07c054e570 :: revision where
  "revision_7f07c054e570 = \<lparr>rv_id = ''7f07c054e570'', rv_down = Some ''d10dc67d3bce'', rv_upgrade = upgrade_7f07c054e570, rv_downgrade = downgrade_7f07c054e570\<rparr>"

definition revision_4657775fb046 :: revision where
  "revision_4657775fb046 = \<lparr>rv_id = ''4657775fb046'', rv_down = Some ''7f07c054e570'', rv_upgrade = upgrade_4657775fb046, rv_downgrade = downgrade_4657775fb046\<rparr>"

definition revision_9a1c4e77b210 :: revision where
  "revision_9a1c4e77b210 = \<lparr>rv_id = ''9a1c4e77b210'', rv_down = Some ''4657775fb046'', rv_upgrade = upgrade_9a1c4e77b210, rv_downgrade = downgrade_9a1c4e77b210\<rparr>"

definition revision_c3f81a92e740 :: revision where
  "revision_c3f81a92e740 = \<lparr>rv_id = ''c3f81a92e740'', rv_down = Some ''9a1c4e77b210'', rv_upgrade = upgrade_c3f81a92e740, rv_downgrade = downgrade_c3f81a92e740\<rparr>"

text \<open>In the order in which the directory lists the files.\<close>

definition revisions :: "revision list" where
  "revisions = [
     revision_4657775fb046, revision_7f07c054e570, revision_9a1c4e77b210, revision_abcaabfd20d0,
     revision_c3f81a92e740, revision_d10dc67d3bce, revision_f3b826b15c91]"


text \<open>Alembic's way to the head: from the base, the one revision that names the present one as its predecessor.\<close>

definition successors :: "revision list \<Rightarrow> string option \<Rightarrow> revision list" where
  "successors revs cur = filter (\<lambda>r. rv_down r = cur) revs"

fun path_to_head :: "nat \<Rightarrow> revision list \<Rightarrow> string option \<Rightarrow> revision list" where
  "path_to_head 0 revs cur = []"
| "path_to_head (Suc n) revs cur =
     (case successors revs cur of [r] \<Rightarrow> r # path_to_head n revs (Some (rv_id r)) | _ \<Rightarrow> [])"

definition upgrade_path :: "revision list" where
  "upgrade_path = path_to_head (length revisions) revisions None"

definition upgraded :: "schema \<Rightarrow> exn + schema" where
  "upgraded s = run_ops (concat (map rv_upgrade upgrade_path)) s"

subsection \<open>Laws\<close>

text \<open>The same table: the same columns with their types and nullability, the same constraints whatever their names.\<close>

definition column_signature :: "column \<Rightarrow> string \<times> column_type \<times> bool" where
  "column_signature c = (co_name c, co_type c, co_nullable c)"

fun anonymous :: "table_constraint \<Rightarrow> table_constraint" where
  "anonymous (Unique n cs) = Unique None cs"
| "anonymous (ForeignKey n cs t rs) = ForeignKey None cs t rs"
| "anonymous c = c"

definition same_members :: "'a list \<Rightarrow> 'a list \<Rightarrow> bool" where
  "same_members xs ys \<longleftrightarrow> list_all (\<lambda>x. List.member ys x) xs \<and> list_all (\<lambda>y. List.member xs y) ys"

definition same_table :: "table \<Rightarrow> table \<Rightarrow> bool" where
  "same_table a b \<longleftrightarrow> same_members (map column_signature (tb_columns a)) (map column_signature (tb_columns b)) \<and>
     same_members (map anonymous (tb_constraints a)) (map anonymous (tb_constraints b))"

definition same_schema :: "schema \<Rightarrow> schema \<Rightarrow> bool" where
  "same_schema a b \<longleftrightarrow> same_members (map fst a) (map fst b) \<and>
     list_all (\<lambda>(n, tb). case map_of b n of None \<Rightarrow> False | Some tb' \<Rightarrow> same_table tb tb') a"

definition defaulted :: "schema \<Rightarrow> (string \<times> string) list" where
  "defaulted s = concat (map (\<lambda>(n, tb). map (\<lambda>c. (n, co_name c)) (filter (\<lambda>c. co_default c \<noteq> None) (tb_columns tb))) s)"

text \<open>Every column that has a server default in one of the two only.\<close>

definition default_differences :: "schema \<Rightarrow> schema \<Rightarrow> (string \<times> string) list" where
  "default_differences a b = filter (\<lambda>x. \<not> List.member (defaulted b) x) (defaulted a) @ filter (\<lambda>x. \<not> List.member (defaulted a) x) (defaulted b)"

lemmas revision_defs = revision_f3b826b15c91_def
  revision_abcaabfd20d0_def
  revision_d10dc67d3bce_def
  revision_7f07c054e570_def
  revision_4657775fb046_def
  revision_9a1c4e77b210_def
  revision_c3f81a92e740_def

lemma the_path:
  "upgrade_path = [revision_f3b826b15c91, revision_abcaabfd20d0, revision_d10dc67d3bce, revision_7f07c054e570,
     revision_4657775fb046, revision_9a1c4e77b210, revision_c3f81a92e740]"
proof -
  have "rv_id revision_f3b826b15c91 = ''f3b826b15c91''" "rv_id revision_abcaabfd20d0 = ''abcaabfd20d0''" "rv_id revision_d10dc67d3bce = ''d10dc67d3bce''" "rv_id revision_7f07c054e570 = ''7f07c054e570''" "rv_id revision_4657775fb046 = ''4657775fb046''" "rv_id revision_9a1c4e77b210 = ''9a1c4e77b210''" "rv_id revision_c3f81a92e740 = ''c3f81a92e740''" by (simp_all add: revision_defs)
  moreover have "rv_down revision_f3b826b15c91 = None" "rv_down revision_abcaabfd20d0 = Some ''f3b826b15c91''" "rv_down revision_d10dc67d3bce = Some ''abcaabfd20d0''" "rv_down revision_7f07c054e570 = Some ''d10dc67d3bce''" "rv_down revision_4657775fb046 = Some ''7f07c054e570''" "rv_down revision_9a1c4e77b210 = Some ''4657775fb046''" "rv_down revision_c3f81a92e740 = Some ''9a1c4e77b210''" by (simp_all add: revision_defs)
  ultimately show ?thesis by (simp add: upgrade_path_def revisions_def successors_def eval_nat_numeral)
qed

lemma downgrades_are_inverse: "list_all (\<lambda>r. map undo_op (rv_upgrade r) = map Some (rev (rv_downgrade r))) revisions"
  by code_simp

lemma upgrades_are_additive: "list_all (\<lambda>r. list_all additive (rv_upgrade r)) revisions"
  by code_simp

text \<open>The schema after the first revision.\<close>

definition initial_schema :: schema where
  "initial_schema = [
     (''component_entitlements'', created_component_entitlements), (''components'', created_components),
     (''pool_state'', created_pool_state), (''pricing_rules'', created_pricing_rules),
     (''publish_grants'', created_publish_grants), (''templates'', created_templates),
     (''tenants'', created_tenants), (''api_keys'', created_api_keys), (''audit_logs'', created_audit_logs),
     (''billing_accounts'', created_billing_accounts), (''credit_ledger'', created_credit_ledger),
     (''credit_wallets'', created_credit_wallets), (''invoices'', created_invoices), (''users'', created_users),
     (''sandboxes'', created_sandboxes), (''workspaces'', created_workspaces), (''runs'', created_runs),
     (''usage_records'', created_usage_records)]"

lemma initial_schema_reached: "run_ops upgrade_f3b826b15c91 [] = Inr initial_schema"
  by code_simp

definition later_upgrades :: "operation list" where
  "later_upgrades = upgrade_abcaabfd20d0 @ upgrade_d10dc67d3bce @ upgrade_7f07c054e570 @ upgrade_4657775fb046 @ upgrade_9a1c4e77b210 @ upgrade_c3f81a92e740"

lemma upgraded_from_initial: "upgraded [] = run_ops later_upgrades initial_schema"
  by (simp add: upgraded_def the_path revision_defs later_upgrades_def run_ops_append initial_schema_reached)

lemma schema_reached:
  "case run_ops later_upgrades initial_schema of Inl e \<Rightarrow> False
   | Inr s \<Rightarrow> same_schema s declared_schema \<and> default_differences s declared_schema = [(''sandboxes'', ''sidecar_refs''), (''runs'', ''status'')]"
  by code_simp

text \<open>
  C30. The migrations build what the code declares: they form one line without a branch, all of them run from an empty
  database, and the schema they reach has exactly the tables, columns, types, nullability, keys, unique constraints and
  foreign keys of the ORM's models. Two columns alone have a server default that the models do not declare. No upgrade
  loses a row, and each new column has a value for the rows already there.
\<close>

theorem migrations_build_the_declared_schema:
  "length upgrade_path = length revisions \<and> distinct (map rv_id upgrade_path) \<and>
   list_all (\<lambda>r. list_all additive (rv_upgrade r)) upgrade_path \<and>
   (\<exists>s. upgraded [] = Inr s \<and> schema_ok s \<and> same_schema s declared_schema \<and>
      default_differences s declared_schema = [(''sandboxes'', ''sidecar_refs''), (''runs'', ''status'')])"
proof -
  have "length upgrade_path = 7" "distinct (map rv_id upgrade_path)" by (simp_all add: the_path revision_defs)
  moreover have "length revisions = 7" by (simp add: revisions_def)
  moreover have "set upgrade_path \<subseteq> set revisions" by (simp add: the_path revisions_def)
  moreover obtain s where s: "upgraded [] = Inr s" "same_schema s declared_schema"
    "default_differences s declared_schema = [(''sandboxes'', ''sidecar_refs''), (''runs'', ''status'')]"
    using schema_reached by (auto simp: upgraded_from_initial split: sum.splits)
  moreover have "schema_ok s"
    using run_ops_keep_schema_ok [of "[]"] s(1) by (simp add: upgraded_def schema_ok_def)
  ultimately show ?thesis using upgrades_are_additive by (auto simp: list_all_iff)
qed

text \<open>
  C31. Every migration can be taken back: from any consistent schema on which a revision's upgrade succeeds, its
  downgrade returns exactly the schema there was.
\<close>

theorem downgrade_undoes_upgrade:
  assumes "r \<in> set revisions" "schema_ok s" "run_ops (rv_upgrade r) s = Inr s'"
  shows "run_ops (rv_downgrade r) s' = Inr s"
proof -
  have "map undo_op (rv_upgrade r) = map Some (rev (rv_downgrade r))"
    using downgrades_are_inverse assms(1) by (simp add: list_all_iff)
  from run_inverses [OF assms(2,3) this] show ?thesis by simp
qed

theorem downgrade_undoes_upgrade_witness:
  "run_ops (rv_upgrade revision_f3b826b15c91) [] = Inr initial_schema \<and> run_ops (rv_downgrade revision_f3b826b15c91) initial_schema = Inr []"
proof -
  have r: "revision_f3b826b15c91 \<in> set revisions" by (simp add: revisions_def)
  have run: "run_ops (rv_upgrade revision_f3b826b15c91) [] = Inr initial_schema"
    by (simp add: revision_defs initial_schema_reached)
  with downgrade_undoes_upgrade [OF r _ run] show ?thesis by (simp add: schema_ok_def)
qed

end
