(* ===== verification/Spec2Isabelle.thy ===== *)
theory Spec2Isabelle
  imports Async_Runs Reconciler_Laws Limiter Builds Streaming Sandbox_Routes Admin Catalog_Routes Docker_Cleanup Kubernetes_Laws Sdk_Laws Strategy_Laws Cloud_Providers Cli Hooks Health Exec_Output Recycling Migrations
begin

section \<open>KubeSandbox: the verified control plane\<close>

text \<open>
  KubeSandbox runs untrusted code for its tenants in containers. The modelled program is the control plane,
  \<open>src/app\<close>: a FastAPI service around a relational database, an object store, Redis and a container backend, and a
  reconciler process that ticks beside it; the two backends, for Docker and for Kubernetes; the client library
  \<open>src/sdk\<close>; and the code of the shipped components, \<open>src/components\<close>.

  \<^bold>\<open>How the parts interact.\<close> A request is authenticated (\<open>Access\<close>), rate limited (\<open>Limiter\<close>) and handed by its
  route to a service. The sandbox service resolves a language or a template against the registry (\<open>Registry\<close>,
  \<open>Render\<close>, \<open>Sandbox_Spec\<close>), asks the quota service and the billing service for admission (\<open>Quota\<close>,
  \<open>Billing\<close>), claims a warm container or provisions one (\<open>Pool\<close>, \<open>Backend\<close>), runs the code, gives the
  container back or destroys it, and settles usage and audit rows in the same transaction (\<open>Sandboxes\<close>).
  The reconciler reaps expired sandboxes and orphans, refills pools, sweeps workspaces and bills their
  storage (\<open>Reconciler\<close>). Builds produce images that the registry then prefers (\<open>Builds\<close>); the catalogue
  services publish components and templates (\<open>Catalog\<close>); a terminal is attached over a socket (\<open>Streaming\<close>).
  What all of them are constructed with is read from the settings (\<open>Settings\<close>).

  \<^bold>\<open>How code becomes definitions.\<close> A coroutine that may raise and that mutates objects is a function from
  the state to a result and a state (\<open>em\<close>, \<open>Prelude\<close>): \<open>return_em\<close>, \<open>raise_em\<close>, \<open>bind_em\<close>, \<open>catch_em\<close> for
  \<open>try/except\<close>, \<open>finally_em\<close> for \<open>try/finally\<close>. The state of the services is \<open>world\<close> (\<open>Store\<close>): the tables as the
  session sees them, the committed tables, the gauges, the trace of calls to the environment, the clock and the
  supply of fresh ids. A call to the container backend, the object store, the image registry, a build strategy or a
  component's hook is recorded in the trace and answered by a function of the trace, which is a parameter: the laws
  hold for every behaviour of the environment, failures included.

  The backends, the build strategies, the hooks and the SDK are modelled apart, each over a state of its own with a
  history of its calls to what it stands on: the Docker engine (\<open>docker\<close>), the API server of the cluster (\<open>kube\<close>), the
  file system and the shell (\<open>build_state\<close>), the sidecar (\<open>hook_state\<close>), the HTTP library and the server (\<open>sdk_world\<close>).
  They are not composed with \<open>world\<close>: the laws of the services quantify over every backend.

  Loops over lists are recursions. The polling loops of the backends end by a measure, the time that is left until the
  deadline; the polling loops of the SDK, which may go on for ever when the timeout is absent, are
  \<open>partial_function (option)\<close>, and that they return is a theorem. The reconciler's loop is the number of its ticks. No
  fuel is used. Money is rational, so the rounding of \<open>float\<close> and of \<open>Numeric\<close> columns is not modelled.

  \<^bold>\<open>Theories and sources.\<close>
  \<^item> \<open>Prelude\<close>, \<open>PyStrings\<close>, \<open>Utf8\<close>: the exceptions of \<open>core/errors.py\<close> and of the SDK, the combinators with the locale
    \<open>frame_relation\<close> of relations that every step keeps, the string operations of Python and its decoding.
  \<^item> \<open>Units\<close>: \<open>provisioners/resources.py\<close> and \<open>core/timeutil.py\<close>.
  \<^item> \<open>Manifests\<close>, \<open>Registry\<close>: \<open>domain/\<close> and \<open>extensions/loader.py\<close>. The locale \<open>entry_lookup\<close> holds the laws that
    components and templates share.
  \<^item> \<open>Store\<close>, \<open>Backend\<close>: \<open>persistence/models.py\<close>, \<open>persistence/db.py\<close> and \<open>provisioners/base.py\<close>; the locale
    \<open>keyed_table\<close> is the contract of a table with a primary key.
  \<^item> \<open>Render\<close>: \<open>services/template_render.py\<close>, \<open>services/credentials.py\<close>; \<open>Hooks\<close>: \<open>extensions/hooks.py\<close> and the hooks
    of the database components.
  \<^item> \<open>Quota\<close>, \<open>Entitlement\<close>, \<open>Audit_Log\<close>, \<open>Limiter\<close>: the services of those names, with
    \<open>api/ratelimit_deps.py\<close>.
  \<^item> \<open>Billing\<close>, \<open>Billing_Laws\<close>: \<open>services/billing_service.py\<close>, \<open>domain/billing.py\<close>; the locale
    \<open>costing_strategy\<close> is the protocol that the credit and the pay-as-you-go strategy both keep.
  \<^item> \<open>Pool\<close>: \<open>services/pool_manager.py\<close> and \<open>services/weight_class_scheduler.py\<close>; the locale \<open>pool_operation\<close> is
    what claim, release and replenish owe the advisory counter.
  \<^item> \<open>Workspaces\<close>: \<open>services/workspace_service.py\<close>.
  \<^item> \<open>Sandbox_Spec\<close>, \<open>Sandboxes\<close>: \<open>services/sandbox_service.py\<close>; the laws are in \<open>Sandbox_Frames\<close>,
    \<open>Sandbox_Laws\<close>, \<open>Sandbox_Lifecycle\<close> (with the locale \<open>bookkeeping_blind\<close>) and \<open>Async_Runs\<close>.
  \<^item> \<open>Reconciler\<close>, \<open>Reconciler_Laws\<close>: \<open>reconciler/loop.py\<close>.
  \<^item> \<open>Builds\<close>: \<open>services/build_manager.py\<close>, \<open>domain/build.py\<close>; \<open>Build_Strategies\<close>, \<open>Strategy_Laws\<close>: \<open>build/strategies/\<close>
    and \<open>cloud/registry.py\<close>.
  \<^item> \<open>Access\<close>, \<open>Access_Routes\<close>: \<open>services/auth_service.py\<close>, \<open>api/deps.py\<close>, \<open>api/v1/auth.py\<close>,
    \<open>api/v1/api_keys.py\<close>; \<open>Cli\<close>: \<open>cli.py\<close>.
  \<^item> \<open>Http\<close>, \<open>Paths\<close>, \<open>Listing\<close>, \<open>Sandbox_Routes\<close>, \<open>Admin\<close>, \<open>Catalog_Routes\<close>, \<open>Health\<close>: the exception handlers of
    \<open>main.py\<close>, \<open>api/pagination.py\<close>, the normalisation of paths, and the request handlers of \<open>api/v1/\<close>.
  \<^item> \<open>Catalog\<close>: \<open>services/registry_service.py\<close>, \<open>services/template_service.py\<close>.
  \<^item> \<open>Pty_Protocol\<close>, \<open>Streaming\<close>: \<open>streaming/pty_protocol.py\<close>, \<open>streaming/ws_gateway.py\<close>.
  \<^item> \<open>Docker_Engine\<close>, \<open>Docker\<close>, \<open>Docker_Exec\<close>: \<open>provisioners/docker.py\<close>; the laws are in \<open>Docker_Laws\<close> and
    \<open>Docker_Cleanup\<close>. \<open>Cluster\<close>, \<open>Kubernetes\<close>, \<open>Kubernetes_Exec\<close>, \<open>Kubernetes_Laws\<close>: \<open>provisioners/kubernetes.py\<close>.
    Across the two: \<open>Exec_Output\<close> (both cut a program's output by one reference), \<open>Recycling\<close> (what
    \<open>PoolManager.release\<close> gets from each backend's \<open>recycle\<close>, and what the wipe leaves behind).
  \<^item> \<open>Settings\<close>: \<open>core/config.py\<close>, \<open>core/bootstrap.py\<close>, the lifespan of \<open>main.py\<close> and the providers of \<open>api/deps.py\<close>;
    \<open>Cloud_Providers\<close>: \<open>cloud/\<close>, with the locale \<open>object_store\<close>, which both storage providers interpret.
  \<^item> \<open>Runner\<close>: \<open>components/languages/python/runner.py\<close>.
  \<^item> \<open>Schema\<close>, \<open>Migrations\<close>: \<open>alembic/versions/\<close> and the tables that \<open>persistence/models.py\<close> declares.
  \<^item> \<open>Sdk_Models\<close>, \<open>Sdk_Client\<close>, \<open>Sdk_Async\<close>, \<open>Sdk_Attach\<close>, \<open>Sdk_Laws\<close>: \<open>sdk/kubesandbox\<close>.

  \<^bold>\<open>What is shown.\<close> Nothing leaks: a one-shot run destroys or gives back all it acquired, on every error
  path, as long as a failed \<open>recycle\<close> is a provisioner error (so in Docker; not in Kubernetes, see \<open>Recycling\<close>), and the
  Docker backend accounts for every container it made. Nothing is provisioned before quota and billing
  admit it. Every container and pod is locked down, whatever the specification. Tenants cannot reach each other's
  sandboxes, runs, builds, private components or templates through the operations that promise it; files are confined
  to the workspace. Runs and builds that execute in the background always end in a terminal status, and can be polled
  through the API. The wallet is the sum of its ledger, the pool counter counts the pool, the heavy slots bound heavy
  work, the sliding window bounds admissions. The retention sweep refines its abstract description, the storage
  providers refine a map. Authentication grants exactly what the key, the token or the directory says, a login never
  grants a role, the operator's command promotes nobody unasked, and accepted settings leave no production deployment
  open. Publishing is confined to the publisher's namespace. A database hook reports success only when the promised
  account exists. The SDK mirrors the server's errors, always deletes the sandbox it opened, and its waiting ends. Round
  trips: quantities, session tokens, the listing of files, base64, terminal frames, standard input over a socket, each
  migration with its downgrade. The migrations build the schema that the ORM declares, and both backends cut a program's
  output alike. Where
  the code falls short of its documentation, a theorem exhibits it and the findings name it.

  \<^bold>\<open>Parameters.\<close> Besides the backend of the services: the clock and the ids; PyJWT, the JWKS client and SHA-256
  (\<open>auth_lib\<close>); Redis strings with expiry (\<open>kv_ops\<close>, law \<open>expiring_keys\<close>) and sorted sets (law stated in \<open>Limiter\<close>);
  \<open>json\<close>, YAML, the manifest validator and pydantic's reading of integers; the Docker engine, the API server and its
  sockets, the HTTP library and the server behind it; the clients of the object stores (laws \<open>s3_works\<close>, \<open>blobs_work\<close>),
  of the key vault and of the image registries; the Python interpreter that runs a batch. Each hypothesis about them is
  a named predicate, and a witness instantiates it.

  \<^bold>\<open>Not modelled.\<close> Logging, the metric objects and the spans, which no result depends on; the configuration of
  Alembic (\<open>alembic/env.py\<close>) and the demonstration scripts; the texts of the OpenAPI description; the reading of YAML files and of the
  environment by pydantic; \<open>argparse\<close>; the construction of client objects of third-party libraries. Concurrency is
  modelled where the code's claims depend on it (\<open>Pool\<close>'s slots, \<open>Streaming\<close>'s lock); elsewhere an operation is one
  transaction.
\<close>

end
